(* ===== verification/Prelude.thy ===== *)
theory Prelude
  imports Complex_Main "HOL-Library.Char_ord" "HOL-Library.List_Lexorder"
begin

text \<open>
  Shared vocabulary of the development: JavaScript numbers and JSON values with the
  equality and ordering the source uses, the string operations of the standard library
  that the sources call, results of code that may throw, and the loops over arrays
  (\<open>for ... of\<close>, \<open>every\<close>, \<open>some\<close>, \<open>find\<close>) with the
  lemmas every component uses.

  Strings are lists of UTF-16 code units; the model covers the units 0..255, one
  \<^typ>\<open>char\<close> each, so \<open>length\<close>, indexing, prefix tests and the order of
  \<open>sort()\<close> are those of JavaScript on them.  A JavaScript object is an association list in the order of
  \<open>Object.keys\<close>; only own properties are looked up.  \<open>undefined\<close> is
  \<^term>\<open>None\<close>.
\<close>

named_theorems result_simps \<open>rewriting of results of code that may throw\<close>
named_theorems js_simps \<open>evaluation of the JavaScript primitives\<close>

section \<open>Numbers\<close>

text \<open>
  A double is a rational, an infinity or \<open>NaN\<close>.  The sources compare numbers and never
  distinguish the two zeros, so equality and order on this type are those of the doubles.
\<close>

datatype jsnum = NaN | NegInf | Fin rat | PosInf

fun num_eq :: "jsnum \<Rightarrow> jsnum \<Rightarrow> bool" where
  "num_eq NaN _ = False"
| "num_eq a b = (a = b)"

fun num_less :: "jsnum \<Rightarrow> jsnum \<Rightarrow> bool" where
  "num_less NaN _ = False"
| "num_less _ NaN = False"
| "num_less (Fin a) (Fin b) = (a < b)"
| "num_less NegInf b = (b \<noteq> NegInf)"
| "num_less a PosInf = (a \<noteq> PosInf)"
| "num_less _ _ = False"

definition num_le :: "jsnum \<Rightarrow> jsnum \<Rightarrow> bool" where
  "num_le a b = (num_less a b \<or> num_eq a b)"

fun num_finite :: "jsnum \<Rightarrow> bool" where
  "num_finite (Fin _) = True"
| "num_finite _ = False"

lemma num_less_trans: "num_less a b \<Longrightarrow> num_less b c \<Longrightarrow> num_less a c"
  by (cases a; cases b; cases c) auto

lemma num_less_not_sym: "num_less a b \<Longrightarrow> \<not> num_less b a"
  by (cases a; cases b) auto

lemma num_le_less_trans: "num_le a b \<Longrightarrow> num_less b c \<Longrightarrow> num_less a c"
  unfolding num_le_def by (cases a; cases b; cases c) auto

lemma num_less_le_trans: "num_less a b \<Longrightarrow> num_le b c \<Longrightarrow> num_less a c"
  unfolding num_le_def by (cases a; cases b; cases c) auto

lemma num_le_trans: "num_le a b \<Longrightarrow> num_le b c \<Longrightarrow> num_le a c"
  unfolding num_le_def by (cases a; cases b; cases c) auto

lemma num_eq_iff: "num_eq a b \<longleftrightarrow> a = b \<and> a \<noteq> NaN"
  by (cases a; cases b) auto

lemma num_less_le: "num_less a b \<Longrightarrow> num_le a b"
  by (simp add: num_le_def)

lemma num_less_irrefl [simp]: "\<not> num_less a a"
  by (cases a) auto

lemma num_le_antisym: "num_le a b \<Longrightarrow> num_le b a \<Longrightarrow> a = b"
  unfolding num_le_def by (cases a; cases b) auto

lemma num_le_not_less: "num_le a b \<Longrightarrow> \<not> num_less b a"
  using num_le_less_trans num_less_irrefl by blast

lemma num_le_total: "a \<noteq> NaN \<Longrightarrow> b \<noteq> NaN \<Longrightarrow> num_le a b \<or> num_less b a"
  unfolding num_le_def by (cases a; cases b) auto

lemma num_le_Fin [simp]: "num_le (Fin a) (Fin b) \<longleftrightarrow> a \<le> b"
  by (auto simp: num_le_def)

section \<open>JSON values\<close>

datatype json =
    JNull
  | JBool bool
  | JNum jsnum
  | JStr string
  | JArr "json list"
  | JObj "(string \<times> json) list"

type_synonym jsobject = "(string \<times> json) list"

text \<open>
  \<open>===\<close> between two values of different JSON documents (or of different places of one
  document): primitives are compared by content, and two arrays or objects are different
  references, so they are never equal.
\<close>

fun strict_eq :: "json \<Rightarrow> json \<Rightarrow> bool" where
  "strict_eq JNull JNull = True"
| "strict_eq (JBool a) (JBool b) = (a = b)"
| "strict_eq (JNum a) (JNum b) = num_eq a b"
| "strict_eq (JStr a) (JStr b) = (a = b)"
| "strict_eq _ _ = False"

text \<open>\<open>===\<close> where either side may be \<open>undefined\<close>.\<close>

fun strict_eq_opt :: "json option \<Rightarrow> json option \<Rightarrow> bool" where
  "strict_eq_opt None None = True"
| "strict_eq_opt (Some a) (Some b) = strict_eq a b"
| "strict_eq_opt _ _ = False"

text \<open>\<open>Array.prototype.includes\<close> compares like \<open>===\<close>, except that it finds \<open>NaN\<close>.\<close>

definition same_value_zero :: "json \<Rightarrow> json \<Rightarrow> bool" where
  "same_value_zero a b = (strict_eq a b \<or> (a = JNum NaN \<and> b = JNum NaN))"

definition js_includes :: "json list \<Rightarrow> json \<Rightarrow> bool" where
  "js_includes xs v = list_ex (\<lambda>x. same_value_zero x v) xs"

lemma strict_eq_imp_eq: "strict_eq a b \<Longrightarrow> a = b"
  by (cases a; cases b) (auto simp: num_eq_iff)

lemma strict_eq_trans: "strict_eq a b \<Longrightarrow> strict_eq a c \<Longrightarrow> strict_eq b c"
  by (metis strict_eq_imp_eq)

lemma strict_eq_opt_imp_eq: "strict_eq_opt a b \<Longrightarrow> a = b"
  by (cases a; cases b) (auto dest: strict_eq_imp_eq)

lemma strict_eq_bool [simp]: "strict_eq v (JBool b) \<longleftrightarrow> v = JBool b"
  by (cases v) auto

fun is_num :: "json \<Rightarrow> bool" where
  "is_num (JNum _) = True"
| "is_num _ = False"

fun is_str :: "json \<Rightarrow> bool" where
  "is_str (JStr _) = True"
| "is_str _ = False"

text \<open>\<open>typeof v === "object" && v !== null\<close>: arrays and objects.\<close>

fun is_object_or_array :: "json \<Rightarrow> bool" where
  "is_object_or_array (JArr _) = True"
| "is_object_or_array (JObj _) = True"
| "is_object_or_array _ = False"

fun opt_is_num :: "json option \<Rightarrow> bool" where
  "opt_is_num (Some (JNum _)) = True"
| "opt_is_num _ = False"

fun opt_is_str :: "json option \<Rightarrow> bool" where
  "opt_is_str (Some (JStr _)) = True"
| "opt_is_str _ = False"

fun opt_is_object_or_array :: "json option \<Rightarrow> bool" where
  "opt_is_object_or_array (Some v) = is_object_or_array v"
| "opt_is_object_or_array None = False"

lemma opt_is_str_iff: "opt_is_str v \<longleftrightarrow> (\<exists>s. v = Some (JStr s))"
  by (cases v rule: opt_is_str.cases) auto

lemma opt_is_num_iff: "opt_is_num v \<longleftrightarrow> (\<exists>n. v = Some (JNum n))"
  by (cases v rule: opt_is_num.cases) auto

section \<open>Strings\<close>

text \<open>White space removed by \<open>trim()\<close>: TAB, LF, VT, FF, CR, SP and NBSP.\<close>

definition js_space :: "char \<Rightarrow> bool" where
  "js_space c = (of_char c \<in> {9, 10, 11, 12, 13, 32, 160 :: nat})"

definition trim :: "string \<Rightarrow> string" where
  "trim s = rev (dropWhile js_space (rev (dropWhile js_space s)))"

text \<open>\<open>!s?.trim()\<close>: the string is missing or blank.\<close>

fun blank_opt :: "string option \<Rightarrow> bool" where
  "blank_opt None = True"
| "blank_opt (Some s) = (trim s = [])"

definition starts_with :: "string \<Rightarrow> string \<Rightarrow> bool" where
  "starts_with s p = (take (length p) s = p)"

definition ends_with :: "string \<Rightarrow> string \<Rightarrow> bool" where
  "ends_with s p = (length p \<le> length s \<and> drop (length s - length p) s = p)"

text \<open>\<open>s.split(c)\<close> for a separator of one character: never empty.\<close>

fun split_on :: "char \<Rightarrow> string \<Rightarrow> string list" where
  "split_on c [] = [[]]"
| "split_on c (x # xs) =
     (if x = c then [] # split_on c xs
      else (case split_on c xs of [] \<Rightarrow> [[x]] | w # ws \<Rightarrow> (x # w) # ws))"

lemma split_on_nonempty [simp]: "split_on c s \<noteq> []"
  by (induction s) (auto split: list.splits)

definition is_digit :: "char \<Rightarrow> bool" where
  "is_digit c = (48 \<le> (of_char c :: nat) \<and> (of_char c :: nat) \<le> 57)"

definition is_alnum :: "char \<Rightarrow> bool" where
  "is_alnum c = (is_digit c \<or> (65 \<le> (of_char c :: nat) \<and> (of_char c :: nat) \<le> 90)
                 \<or> (97 \<le> (of_char c :: nat) \<and> (of_char c :: nat) \<le> 122))"

text \<open>The class \<open>[A-Za-z0-9_]\<close>.\<close>

definition is_word_char :: "char \<Rightarrow> bool" where
  "is_word_char c = (is_alnum c \<or> c = CHR ''_'')"

text \<open>The classes by the bits of a code unit, for evaluation.\<close>

lemma is_digit_code [code]:
  "is_digit (Char b0 b1 b2 b3 b4 b5 b6 b7) = (\<not> b7 \<and> \<not> b6 \<and> b5 \<and> b4 \<and> (\<not> b3 \<or> \<not> b2 \<and> \<not> b1))"
  unfolding is_digit_def
  by (cases b0; cases b1; cases b2; cases b3; cases b4; cases b5; cases b6; cases b7) simp_all

lemma is_alnum_code [code]:
  "is_alnum (Char b0 b1 b2 b3 b4 b5 b6 b7) =
     (is_digit (Char b0 b1 b2 b3 b4 b5 b6 b7)
      \<or> \<not> b7 \<and> b6 \<and> (b0 \<or> b1 \<or> b2 \<or> b3 \<or> b4) \<and> \<not> (b4 \<and> b3 \<and> (b2 \<or> b1 \<and> b0)))"
  unfolding is_alnum_def
  by (cases b0; cases b1; cases b2; cases b3; cases b4; cases b5; cases b6; cases b7) simp_all

lemma js_space_code [code]:
  "js_space (Char b0 b1 b2 b3 b4 b5 b6 b7) =
     (\<not> b6 \<and> \<not> b4 \<and> (if b5 then \<not> b3 \<and> \<not> b2 \<and> \<not> b1 \<and> \<not> b0
        else \<not> b7 \<and> b3 \<and> (if b2 then \<not> b1 else b1 \<or> b0)))"
  unfolding js_space_def
  by (cases b0; cases b1; cases b2; cases b3; cases b4; cases b5; cases b6; cases b7) simp_all

text \<open>A canonical array index: digits without a leading zero, and its value.\<close>

fun digits_value :: "nat \<Rightarrow> string \<Rightarrow> nat" where
  "digits_value acc [] = acc"
| "digits_value acc (c # cs) = digits_value (10 * acc + (of_char c - 48)) cs"

definition array_index :: "string \<Rightarrow> nat option" where
  "array_index s =
     (if s \<noteq> [] \<and> list_all is_digit s \<and> (hd s \<noteq> CHR ''0'' \<or> s = ''0'')
      then Some (digits_value 0 s) else None)"

text \<open>\<open>String(n)\<close> for a natural number below \<open>1e21\<close>.\<close>

fun nat_string :: "nat \<Rightarrow> string" where
  "nat_string n =
     (if n < 10 then [char_of (48 + n)] else nat_string (n div 10) @ [char_of (48 + n mod 10)])"

declare nat_string.simps [simp del]

text \<open>
  \<open>String(v)\<close>.  The decimal form of a double is that of the JavaScript engine and a
  parameter.  In an array, \<open>null\<close> prints as nothing.
\<close>

fun join_comma :: "string list \<Rightarrow> string" where
  "join_comma [] = []"
| "join_comma [s] = s"
| "join_comma (s # ss) = s @ '','' @ join_comma ss"

fun js_string :: "(jsnum \<Rightarrow> string) \<Rightarrow> json \<Rightarrow> string" where
  "js_string nstr JNull = ''null''"
| "js_string nstr (JBool b) = (if b then ''true'' else ''false'')"
| "js_string nstr (JNum n) = nstr n"
| "js_string nstr (JStr s) = s"
| "js_string nstr (JArr vs) =
     join_comma (map (\<lambda>v. if v = JNull then [] else js_string nstr v) vs)"
| "js_string nstr (JObj _) = ''[object Object]''"

text \<open>
  \<open>JSON.stringify(v)\<close>: a string is quoted with its escapes, a number that is not finite prints
  as \<open>null\<close>.
\<close>

definition hex_digit :: "nat \<Rightarrow> char" where
  "hex_digit n = (if n < 10 then char_of (48 + n) else char_of (87 + n))"

definition escape_char :: "char \<Rightarrow> string" where
  "escape_char c =
     (let n = (of_char c :: nat) in
      if n = 34 then [CHR 0x5C, CHR 0x22]
      else if n = 92 then [CHR 0x5C, CHR 0x5C]
      else if n = 8 then CHR 0x5C # ''b''
      else if n = 9 then CHR 0x5C # ''t''
      else if n = 10 then CHR 0x5C # ''n''
      else if n = 12 then CHR 0x5C # ''f''
      else if n = 13 then CHR 0x5C # ''r''
      else if n < 32 then CHR 0x5C # ''u00'' @ [hex_digit (n div 16), hex_digit (n mod 16)]
      else [c])"

definition quote_string :: "string \<Rightarrow> string" where
  "quote_string s = [CHR 0x22] @ concat (map escape_char s) @ [CHR 0x22]"

fun json_stringify :: "(jsnum \<Rightarrow> string) \<Rightarrow> json \<Rightarrow> string" where
  "json_stringify nstr JNull = ''null''"
| "json_stringify nstr (JBool b) = (if b then ''true'' else ''false'')"
| "json_stringify nstr (JNum n) = (if num_finite n then nstr n else ''null'')"
| "json_stringify nstr (JStr s) = quote_string s"
| "json_stringify nstr (JArr vs) = ''['' @ join_comma (map (json_stringify nstr) vs) @ '']''"
| "json_stringify nstr (JObj kvs) =
     ''{'' @ join_comma (map (\<lambda>(k, v). quote_string k @ '':'' @ json_stringify nstr v) kvs) @ ''}''"

text \<open>The same inside a template string, where \<open>undefined\<close> prints as itself.\<close>

fun json_stringify_opt :: "(jsnum \<Rightarrow> string) \<Rightarrow> json option \<Rightarrow> string" where
  "json_stringify_opt nstr None = ''undefined''"
| "json_stringify_opt nstr (Some v) = json_stringify nstr v"

text \<open>\<open>parts.join(", ")\<close>\<close>

fun join_comma_space :: "string list \<Rightarrow> string" where
  "join_comma_space [] = []"
| "join_comma_space [s] = s"
| "join_comma_space (s # ss) = s @ '', '' @ join_comma_space ss"

section \<open>Property access\<close>

text \<open>
  \<open>(v as Record)[key]\<close> on an own property: a key of an object, an index or the
  length of an array, and \<open>undefined\<close> for anything else.
\<close>

fun get_prop :: "json \<Rightarrow> string \<Rightarrow> json option" where
  "get_prop (JObj kvs) k = map_of kvs k"
| "get_prop (JArr xs) k =
     (if k = ''length'' then Some (JNum (Fin (of_nat (length xs))))
      else (case array_index k of
              Some i \<Rightarrow> if i < length xs then Some (xs ! i) else None
            | None \<Rightarrow> None))"
| "get_prop _ _ = None"

text \<open>The same on a value that may be \<open>undefined\<close>, for reads guarded by a type test.\<close>

fun get_prop_opt :: "json option \<Rightarrow> string \<Rightarrow> json option" where
  "get_prop_opt None _ = None"
| "get_prop_opt (Some v) k = get_prop v k"

definition obj_keys :: "jsobject \<Rightarrow> string list" where
  "obj_keys kvs = map fst kvs"

text \<open>\<open>Object.keys(v ?? {})\<close>.\<close>

fun object_keys :: "json option \<Rightarrow> string list" where
  "object_keys (Some (JObj kvs)) = obj_keys kvs"
| "object_keys (Some (JArr xs)) = map nat_string [0..<length xs]"
| "object_keys (Some (JStr s)) = map nat_string [0..<length s]"
| "object_keys _ = []"

lemma map_of_Some_key: "map_of kvs k = Some v \<Longrightarrow> k \<in> set (obj_keys kvs)"
  by (auto simp: obj_keys_def dest: map_of_SomeD intro: rev_image_eqI)

section \<open>Code that may throw\<close>

type_synonym ('e, 'a) result = "'e + 'a"

fun ok :: "('e, 'a) result \<Rightarrow> bool" where
  "ok (Inr _) = True"
| "ok (Inl _) = False"

lemma ok_iff [result_simps]: "ok r \<longleftrightarrow> (\<exists>x. r = Inr x)"
  by (cases r) auto

text \<open>\<open>for (const x of xs) f(x)\<close>, where the body only checks and may throw.\<close>

fun for_each :: "('a \<Rightarrow> ('e, unit) result) \<Rightarrow> 'a list \<Rightarrow> ('e, unit) result" where
  "for_each f [] = Inr ()"
| "for_each f (x # xs) = (case f x of Inl e \<Rightarrow> Inl e | Inr _ \<Rightarrow> for_each f xs)"

lemma for_each_cong [fundef_cong]:
  "xs = ys \<Longrightarrow> (\<And>x. x \<in> set ys \<Longrightarrow> f x = g x) \<Longrightarrow> for_each f xs = for_each g ys"
  by (induction ys arbitrary: xs) (auto split: sum.splits)

lemma for_each_ok [result_simps]: "for_each f xs = Inr u \<longleftrightarrow> (\<forall>x\<in>set xs. f x = Inr ())"
  by (induction xs) (auto split: sum.splits)

text \<open>\<open>xs.every(f)\<close> and \<open>xs.some(f)\<close> with a callback that may throw: the first
  throw ends the loop, and so does the first deciding answer.\<close>

fun every_m :: "('a \<Rightarrow> ('e, bool) result) \<Rightarrow> 'a list \<Rightarrow> ('e, bool) result" where
  "every_m f [] = Inr True"
| "every_m f (x # xs) =
     (case f x of Inl e \<Rightarrow> Inl e | Inr b \<Rightarrow> if b then every_m f xs else Inr False)"

fun some_m :: "('a \<Rightarrow> ('e, bool) result) \<Rightarrow> 'a list \<Rightarrow> ('e, bool) result" where
  "some_m f [] = Inr False"
| "some_m f (x # xs) =
     (case f x of Inl e \<Rightarrow> Inl e | Inr b \<Rightarrow> if b then Inr True else some_m f xs)"

lemma every_m_cong [fundef_cong]:
  "xs = ys \<Longrightarrow> (\<And>x. x \<in> set ys \<Longrightarrow> f x = g x) \<Longrightarrow> every_m f xs = every_m g ys"
  by (induction ys arbitrary: xs) (auto split: sum.splits)

lemma some_m_cong [fundef_cong]:
  "xs = ys \<Longrightarrow> (\<And>x. x \<in> set ys \<Longrightarrow> f x = g x) \<Longrightarrow> some_m f xs = some_m g ys"
  by (induction ys arbitrary: xs) (auto split: sum.splits)

lemma every_m_True [result_simps]: "every_m f xs = Inr True \<longleftrightarrow> (\<forall>x\<in>set xs. f x = Inr True)"
  by (induction xs) (auto split: sum.splits)

lemma some_m_True: "some_m f xs = Inr True \<Longrightarrow> \<exists>x\<in>set xs. f x = Inr True"
  by (induction xs) (auto split: sum.splits if_splits)

lemma every_m_total:
  "(\<And>x. x \<in> set xs \<Longrightarrow> \<exists>b. f x = Inr b) \<Longrightarrow> \<exists>b. every_m f xs = Inr b"
proof (induction xs)
  case (Cons a xs)
  from Cons.prems[of a] obtain b where "f a = Inr b" by auto
  moreover from Cons obtain c where "every_m f xs = Inr c" by force
  ultimately show ?case by (cases b) auto
qed auto

lemma some_m_total:
  "(\<And>x. x \<in> set xs \<Longrightarrow> \<exists>b. f x = Inr b) \<Longrightarrow> \<exists>b. some_m f xs = Inr b"
proof (induction xs)
  case (Cons a xs)
  from Cons.prems[of a] obtain b where "f a = Inr b" by auto
  moreover from Cons obtain c where "some_m f xs = Inr c" by force
  ultimately show ?case by (cases b) auto
qed auto

text \<open>Collecting what a callback that may throw produces for every element.\<close>

fun gather_m :: "('a \<Rightarrow> ('e, 'b list) result) \<Rightarrow> 'a list \<Rightarrow> ('e, 'b list) result" where
  "gather_m f [] = Inr []"
| "gather_m f (x # xs) =
     (case f x of
        Inl e \<Rightarrow> Inl e
      | Inr ys \<Rightarrow> (case gather_m f xs of Inl e \<Rightarrow> Inl e | Inr zs \<Rightarrow> Inr (ys @ zs)))"

lemma gather_m_cong [fundef_cong]:
  "xs = ys \<Longrightarrow> (\<And>x. x \<in> set ys \<Longrightarrow> f x = g x) \<Longrightarrow> gather_m f xs = gather_m g ys"
  by (induction ys arbitrary: xs) (auto split: sum.splits)

lemma gather_m_elem:
  "gather_m f xs = Inr zs \<Longrightarrow> x \<in> set xs \<Longrightarrow> \<exists>ys. f x = Inr ys \<and> set ys \<subseteq> set zs"
  by (induction xs arbitrary: zs) (fastforce split: sum.splits)+

lemma gather_m_total:
  "(\<And>x. x \<in> set xs \<Longrightarrow> \<exists>ys. f x = Inr ys) \<Longrightarrow> \<exists>zs. gather_m f xs = Inr zs"
proof (induction xs)
  case (Cons a xs)
  from Cons.prems[of a] obtain ys where "f a = Inr ys" by auto
  moreover from Cons obtain zs where "gather_m f xs = Inr zs" by force
  ultimately show ?case by simp
qed auto

section \<open>Insertion-ordered maps\<close>

text \<open>\<open>Map.set\<close>: an existing key keeps its place, a new one goes to the end.\<close>

fun map_set :: "'k \<Rightarrow> 'v \<Rightarrow> ('k \<times> 'v) list \<Rightarrow> ('k \<times> 'v) list" where
  "map_set k v [] = [(k, v)]"
| "map_set k v ((k', v') # kvs) = (if k' = k then (k, v) # kvs else (k', v') # map_set k v kvs)"

lemma map_of_map_set [simp]: "map_of (map_set k v kvs) = (map_of kvs)(k \<mapsto> v)"
  by (induction kvs) auto

lemma keys_map_set: "fst ` set (map_set k v kvs) = insert k (fst ` set kvs)"
  by (induction k v kvs rule: map_set.induct) (simp_all add: insert_commute)

lemma distinct_map_set: "distinct (map fst kvs) \<Longrightarrow> distinct (map fst (map_set k v kvs))"
  by (induction k v kvs rule: map_set.induct) (fastforce simp: keys_map_set)+

section \<open>Lists\<close>

lemma find_Some_mem: "find p xs = Some x \<Longrightarrow> x \<in> set xs \<and> p x"
  by (induction xs) (auto split: if_splits)

lemma in_set_takeWhile_dropWhile: "x \<in> set xs \<Longrightarrow> \<not> P x \<Longrightarrow> dropWhile P xs \<noteq> []"
  by auto

end
