(* ===== verification/Policy_Engine.thy ===== *)
theory Policy_Engine
  imports Prelude
begin

text \<open>
  The policy language and its evaluation: the document types of
  \<open>packages/policy/src/types/\<close>, the operators of \<open>OperatorEvaluator.ts\<close> and the
  first-match evaluation of \<open>PolicyEngine.ts\<close>.

  A policy document is parsed JSON, so a field may be absent whatever its TypeScript type
  says.  A condition is therefore not a tagged union: it is an object that carries any of
  the keys \<open>fact\<close>, \<open>operator\<close>, \<open>value\<close>, \<open>all\<close>,
  \<open>any\<close>, \<open>always\<close>, and the code tests them with \<open>in\<close>, in an order of its own.
\<close>

named_theorems policy_defs \<open>definitions of the policy engine\<close>

section \<open>Policy documents\<close>

datatype operator =
    Op_eq | Op_neq
  | Op_gt | Op_gte | Op_lt | Op_lte | Op_between
  | Op_in | Op_not_in | Op_contains | Op_not_contains | Op_contains_all | Op_contains_any
  | Op_starts_with | Op_ends_with | Op_matches
  | Op_exists | Op_not_exists
  | Op_is_true | Op_is_false
  | Op_is_null | Op_is_not_null
  | Op_length_eq | Op_length_gt | Op_length_gte | Op_length_lt | Op_length_lte
  | Op_type_is
  | Op_other string  \<comment> \<open>any string that is not a \<open>PolicyOperator\<close>\<close>

text \<open>A key that should hold an array: absent, present with another type, or an array.\<close>

datatype 'a children = Absent | NotArray | Children "'a list"

datatype condition = Condition
  (c_fact: "string option")
  (c_operator: operator)
  (c_value: "json option")
  (c_all: "condition children")
  (c_any: "condition children")
  (c_always: "json option")

text \<open>The four shapes the TypeScript union \<open>PolicyCondition\<close> allows.\<close>

definition leaf :: "string \<Rightarrow> operator \<Rightarrow> json option \<Rightarrow> condition" where
  "leaf f op v = Condition (Some f) op v Absent Absent None"

definition all_of :: "condition list \<Rightarrow> condition" where
  "all_of cs = Condition None (Op_other ''undefined'') None (Children cs) Absent None"

definition any_of :: "condition list \<Rightarrow> condition" where
  "any_of cs = Condition None (Op_other ''undefined'') None Absent (Children cs) None"

definition always :: condition where
  "always = Condition None (Op_other ''undefined'') None Absent Absent (Some (JBool True))"

lemmas condition_shapes [policy_defs] = leaf_def all_of_def any_of_def always_def

datatype policy_action = APPROVE_ACTION | REJECT_ACTION | OTHER_ACTION string

datatype policy_outcome = APPROVE | REJECT

record rule_outcome =
  o_action :: "policy_action option"
  o_reason :: "string option"

record policy_rule =
  rule_id :: "string option"
  rule_condition :: condition
  rule_outcome :: "rule_outcome option"

record policy =
  policyId :: "string option"
  policyVersion :: "string option"
  schemaVersion :: "string option"
  signalsSchema :: "json option"
  boundSignals :: "json option"
  unboundSignalReasons :: "json option"
  approvalSignals :: "json option"
  rules :: "policy_rule list option"  \<comment> \<open>\<^term>\<open>None\<close>: not an array\<close>

record policy_decision =
  d_policyId :: "string option"
  d_policyVersion :: "string option"
  d_outcome :: policy_outcome
  d_reason :: string
  d_matchedRuleId :: string
  d_evaluatedRules :: nat
  d_matchedPath :: "string option list"

type_synonym signals = jsobject

text \<open>
  \<open>new RegExp(p)\<close> belongs to the JavaScript engine: \<^term>\<open>None\<close> when the
  constructor throws, otherwise the function \<open>test\<close> of the compiled expression.
\<close>

type_synonym regexp = "string \<Rightarrow> (string \<Rightarrow> bool) option"

datatype eval_error =
    UnsupportedOperator string
  | RegExpSyntaxError string
  | EvalTypeError

section \<open>OperatorEvaluator\<close>

fun OperatorEvaluator_length :: "json \<Rightarrow> nat" where
  "OperatorEvaluator_length (JStr s) = length s"
| "OperatorEvaluator_length (JArr xs) = length xs"
| "OperatorEvaluator_length (JObj kvs) = length (obj_keys kvs)"
| "OperatorEvaluator_length _ = 0"

fun OperatorEvaluator_typeOf :: "json \<Rightarrow> string" where
  "OperatorEvaluator_typeOf JNull = ''null''"
| "OperatorEvaluator_typeOf (JArr _) = ''array''"
| "OperatorEvaluator_typeOf (JStr _) = ''string''"
| "OperatorEvaluator_typeOf (JNum _) = ''number''"
| "OperatorEvaluator_typeOf (JBool _) = ''boolean''"
| "OperatorEvaluator_typeOf (JObj _) = ''object''"

definition OperatorEvaluator_matches ::
  "regexp \<Rightarrow> string \<Rightarrow> string \<Rightarrow> (eval_error, bool) result" where
  "OperatorEvaluator_matches rx actual pattern =
     (case rx pattern of
        None \<Rightarrow> Inl (RegExpSyntaxError pattern)
      | Some test \<Rightarrow> Inr (test actual))"

text \<open>A numeric comparison of two values, false unless both are numbers.\<close>

fun num_cmp :: "(jsnum \<Rightarrow> jsnum \<Rightarrow> bool) \<Rightarrow> json \<Rightarrow> json option \<Rightarrow> bool" where
  "num_cmp r (JNum a) (Some (JNum b)) = r a b"
| "num_cmp r _ _ = False"

fun length_cmp :: "(jsnum \<Rightarrow> jsnum \<Rightarrow> bool) \<Rightarrow> json \<Rightarrow> json option \<Rightarrow> bool" where
  "length_cmp r actual (Some (JNum b)) =
     r (Fin (of_nat (OperatorEvaluator_length actual))) b"
| "length_cmp r _ _ = False"

fun between_cmp :: "json \<Rightarrow> json option \<Rightarrow> bool" where
  "between_cmp (JNum a) (Some (JArr [JNum lo, JNum hi])) = (num_le lo a \<and> num_le a hi)"
| "between_cmp _ _ = False"

fun OperatorEvaluator_evaluate ::
  "regexp \<Rightarrow> json \<Rightarrow> operator \<Rightarrow> json option \<Rightarrow> (eval_error, bool) result" where
  "OperatorEvaluator_evaluate rx actual Op_eq expected =
     Inr (strict_eq_opt (Some actual) expected)"
| "OperatorEvaluator_evaluate rx actual Op_neq expected =
     Inr (\<not> strict_eq_opt (Some actual) expected)"
| "OperatorEvaluator_evaluate rx actual Op_gt expected =
     Inr (num_cmp (\<lambda>a b. num_less b a) actual expected)"
| "OperatorEvaluator_evaluate rx actual Op_gte expected =
     Inr (num_cmp (\<lambda>a b. num_le b a) actual expected)"
| "OperatorEvaluator_evaluate rx actual Op_lt expected = Inr (num_cmp num_less actual expected)"
| "OperatorEvaluator_evaluate rx actual Op_lte expected = Inr (num_cmp num_le actual expected)"
| "OperatorEvaluator_evaluate rx actual Op_between expected = Inr (between_cmp actual expected)"
| "OperatorEvaluator_evaluate rx actual Op_in expected =
     Inr (case expected of Some (JArr xs) \<Rightarrow> js_includes xs actual | _ \<Rightarrow> False)"
| "OperatorEvaluator_evaluate rx actual Op_not_in expected =
     Inr (case expected of Some (JArr xs) \<Rightarrow> \<not> js_includes xs actual | _ \<Rightarrow> False)"
| "OperatorEvaluator_evaluate rx actual Op_contains expected =
     Inr (case (actual, expected) of (JArr xs, Some v) \<Rightarrow> js_includes xs v | _ \<Rightarrow> False)"
| "OperatorEvaluator_evaluate rx actual Op_not_contains expected =
     Inr (case (actual, expected) of (JArr xs, Some v) \<Rightarrow> \<not> js_includes xs v | _ \<Rightarrow> False)"
| "OperatorEvaluator_evaluate rx actual Op_contains_all expected =
     Inr (case (actual, expected) of
            (JArr xs, Some (JArr vs)) \<Rightarrow> list_all (js_includes xs) vs | _ \<Rightarrow> False)"
| "OperatorEvaluator_evaluate rx actual Op_contains_any expected =
     Inr (case (actual, expected) of
            (JArr xs, Some (JArr vs)) \<Rightarrow> list_ex (js_includes xs) vs | _ \<Rightarrow> False)"
| "OperatorEvaluator_evaluate rx actual Op_starts_with expected =
     Inr (case (actual, expected) of
            (JStr s, Some (JStr p)) \<Rightarrow> starts_with s p | _ \<Rightarrow> False)"
| "OperatorEvaluator_evaluate rx actual Op_ends_with expected =
     Inr (case (actual, expected) of
            (JStr s, Some (JStr p)) \<Rightarrow> ends_with s p | _ \<Rightarrow> False)"
| "OperatorEvaluator_evaluate rx actual Op_matches expected =
     (case (actual, expected) of
        (JStr s, Some (JStr p)) \<Rightarrow> OperatorEvaluator_matches rx s p | _ \<Rightarrow> Inr False)"
| "OperatorEvaluator_evaluate rx actual Op_exists expected = Inr (actual \<noteq> JNull)"
| "OperatorEvaluator_evaluate rx actual Op_not_exists expected = Inr (actual = JNull)"
| "OperatorEvaluator_evaluate rx actual Op_is_true expected =
     Inr (strict_eq actual (JBool True))"
| "OperatorEvaluator_evaluate rx actual Op_is_false expected =
     Inr (strict_eq actual (JBool False))"
| "OperatorEvaluator_evaluate rx actual Op_is_null expected = Inr (actual = JNull)"
| "OperatorEvaluator_evaluate rx actual Op_is_not_null expected = Inr (actual \<noteq> JNull)"
| "OperatorEvaluator_evaluate rx actual Op_length_eq expected =
     Inr (length_cmp num_eq actual expected)"
| "OperatorEvaluator_evaluate rx actual Op_length_gt expected =
     Inr (length_cmp (\<lambda>a b. num_less b a) actual expected)"
| "OperatorEvaluator_evaluate rx actual Op_length_gte expected =
     Inr (length_cmp (\<lambda>a b. num_le b a) actual expected)"
| "OperatorEvaluator_evaluate rx actual Op_length_lt expected =
     Inr (length_cmp num_less actual expected)"
| "OperatorEvaluator_evaluate rx actual Op_length_lte expected =
     Inr (length_cmp num_le actual expected)"
| "OperatorEvaluator_evaluate rx actual Op_type_is expected =
     Inr (case expected of Some (JStr t) \<Rightarrow> OperatorEvaluator_typeOf actual = t | _ \<Rightarrow> False)"
| "OperatorEvaluator_evaluate rx actual (Op_other name) expected =
     Inl (UnsupportedOperator name)"

section \<open>PolicyEngine\<close>

text \<open>
  The keys are tested in the order of the source: \<open>fact\<close>, then \<open>always\<close>, then
  \<open>all\<close>, then \<open>any\<close>.  Calling \<open>every\<close> or \<open>some\<close> on a value that is no
  array is a \<open>TypeError\<close>.
\<close>

fun PolicyEngine_evaluateCondition ::
  "regexp \<Rightarrow> condition \<Rightarrow> signals \<Rightarrow> (eval_error, bool) result" where
  "PolicyEngine_evaluateCondition rx (Condition fct op expected alls anys alw) signals =
     (case fct of
        Some f \<Rightarrow>
          (case map_of signals f of
             None \<Rightarrow> Inr False
           | Some signal \<Rightarrow> OperatorEvaluator_evaluate rx signal op expected)
      | None \<Rightarrow>
          if alw \<noteq> None then Inr True
          else case alls of
            Children cs \<Rightarrow> every_m (\<lambda>child. PolicyEngine_evaluateCondition rx child signals) cs
          | NotArray \<Rightarrow> Inl EvalTypeError
          | Absent \<Rightarrow>
              (case anys of
                 Children cs \<Rightarrow> some_m (\<lambda>child. PolicyEngine_evaluateCondition rx child signals) cs
               | NotArray \<Rightarrow> Inl EvalTypeError
               | Absent \<Rightarrow> Inr False))"

text \<open>The loop of \<open>findFirstMatch\<close>; the trace collects the ids of the rules tried.\<close>

fun PolicyEngine_findFirstMatch ::
  "regexp \<Rightarrow> policy_rule list \<Rightarrow> signals \<Rightarrow> string option list
   \<Rightarrow> (eval_error, policy_rule option \<times> string option list) result" where
  "PolicyEngine_findFirstMatch rx [] signals trace = Inr (None, trace)"
| "PolicyEngine_findFirstMatch rx (rule # rs) signals trace =
     (case PolicyEngine_evaluateCondition rx (rule_condition rule) signals of
        Inl e \<Rightarrow> Inl e
      | Inr True \<Rightarrow> Inr (Some rule, trace @ [rule_id rule])
      | Inr False \<Rightarrow> PolicyEngine_findFirstMatch rx rs signals (trace @ [rule_id rule]))"

fun PolicyEngine_toOutcome :: "policy_action option \<Rightarrow> policy_outcome" where
  "PolicyEngine_toOutcome (Some APPROVE_ACTION) = APPROVE"
| "PolicyEngine_toOutcome _ = REJECT"

text \<open>
  \<open>for (const rule of policy.rules)\<close> on something that is no array, and
  \<open>rule.outcome.action\<close> on a rule without an outcome, are a \<open>TypeError\<close>.
\<close>

definition PolicyEngine_evaluate ::
  "regexp \<Rightarrow> policy \<Rightarrow> signals \<Rightarrow> (eval_error, policy_decision) result" where
  "PolicyEngine_evaluate rx pol signals =
     (case rules pol of
        None \<Rightarrow> Inl EvalTypeError
      | Some rs \<Rightarrow>
          (case PolicyEngine_findFirstMatch rx rs signals [] of
             Inl e \<Rightarrow> Inl e
           | Inr (None, trace) \<Rightarrow>
               Inr \<lparr>d_policyId = policyId pol, d_policyVersion = policyVersion pol,
                    d_outcome = PolicyEngine_toOutcome None,
                    d_reason = ''no_rule_matched'', d_matchedRuleId = ''none'',
                    d_evaluatedRules = length trace, d_matchedPath = trace\<rparr>
           | Inr (Some rule, trace) \<Rightarrow>
               (case rule_outcome rule of
                  None \<Rightarrow> Inl EvalTypeError
                | Some oc \<Rightarrow>
                    Inr \<lparr>d_policyId = policyId pol, d_policyVersion = policyVersion pol,
                         d_outcome = PolicyEngine_toOutcome (o_action oc),
                         d_reason = (case o_reason oc of Some r \<Rightarrow> r | None \<Rightarrow> ''no_rule_matched''),
                         d_matchedRuleId = (case rule_id rule of Some i \<Rightarrow> i | None \<Rightarrow> ''none''),
                         d_evaluatedRules = length trace, d_matchedPath = trace\<rparr>)))"


section \<open>First match wins\<close>

text \<open>What it means that a rule decides: no earlier rule matches and it does.\<close>

definition rule_matches :: "regexp \<Rightarrow> signals \<Rightarrow> policy_rule \<Rightarrow> bool" where
  "rule_matches rx sigs r = (PolicyEngine_evaluateCondition rx (rule_condition r) sigs = Inr True)"

definition rule_fails :: "regexp \<Rightarrow> signals \<Rightarrow> policy_rule \<Rightarrow> bool" where
  "rule_fails rx sigs r = (PolicyEngine_evaluateCondition rx (rule_condition r) sigs = Inr False)"

lemma findFirstMatch_some:
  "PolicyEngine_findFirstMatch rx rs sigs tr = Inr (Some r, tr') \<Longrightarrow>
     \<exists>pre post. rs = pre @ r # post \<and> list_all (rule_fails rx sigs) pre \<and>
       rule_matches rx sigs r \<and> tr' = tr @ map rule_id (pre @ [r])"
proof (induction rs arbitrary: tr)
  case (Cons q rs)
  show ?case
  proof (cases "PolicyEngine_evaluateCondition rx (rule_condition q) sigs")
    case (Inl e)
    with Cons.prems show ?thesis by simp
  next
    case (Inr b)
    show ?thesis
    proof (cases b)
      case True
      with Inr Cons.prems have "r = q" "tr' = tr @ [rule_id q]" by auto
      with Inr True show ?thesis
        by (rule_tac x = "[]" in exI, rule_tac x = rs in exI) (simp add: rule_matches_def)
    next
      case False
      with Inr Cons.prems
      have "PolicyEngine_findFirstMatch rx rs sigs (tr @ [rule_id q]) = Inr (Some r, tr')"
        by simp
      from Cons.IH[OF this] obtain pre post where
        "rs = pre @ r # post" "list_all (rule_fails rx sigs) pre" "rule_matches rx sigs r"
        "tr' = (tr @ [rule_id q]) @ map rule_id (pre @ [r])" by blast
      with Inr False show ?thesis
        by (rule_tac x = "q # pre" in exI, rule_tac x = post in exI)
             (simp add: rule_fails_def[of rx sigs q])
    qed
  qed
qed simp

lemma findFirstMatch_none:
  "PolicyEngine_findFirstMatch rx rs sigs tr = Inr (None, tr') \<Longrightarrow>
     list_all (rule_fails rx sigs) rs \<and> tr' = tr @ map rule_id rs"
  by (induction rs arbitrary: tr) (fastforce simp: rule_fails_def split: sum.splits bool.splits)+

lemma findFirstMatch_total:
  "(\<And>r. r \<in> set rs \<Longrightarrow> \<exists>b. PolicyEngine_evaluateCondition rx (rule_condition r) sigs = Inr b) \<Longrightarrow>
     \<exists>res. PolicyEngine_findFirstMatch rx rs sigs tr = Inr res"
proof (induction rs arbitrary: tr)
  case (Cons q rs)
  from Cons.prems[of q] obtain b
    where "PolicyEngine_evaluateCondition rx (rule_condition q) sigs = Inr b" by auto
  then show ?case using Cons by (cases b) auto
qed simp

lemma evaluate_cases [consumes 1, case_names matched unmatched]:
  assumes "PolicyEngine_evaluate rx pol sigs = Inr d"
  obtains (matched) rs pre r post oc where
      "rules pol = Some rs" "rs = pre @ r # post" "list_all (rule_fails rx sigs) pre"
      "rule_matches rx sigs r" "rule_outcome r = Some oc"
      "d_outcome d = PolicyEngine_toOutcome (o_action oc)"
      "d_matchedPath d = map rule_id (pre @ [r])" "d_evaluatedRules d = length pre + 1"
      "d_matchedRuleId d = (case rule_id r of Some i \<Rightarrow> i | None \<Rightarrow> ''none'')"
  | (unmatched) rs where
      "rules pol = Some rs" "list_all (rule_fails rx sigs) rs" "d_outcome d = REJECT"
      "d_matchedRuleId d = ''none''" "d_matchedPath d = map rule_id rs"
      "d_evaluatedRules d = length rs"
proof -
  from assms obtain rs where rs: "rules pol = Some rs"
    by (auto simp: PolicyEngine_evaluate_def split: option.splits)
  with assms obtain res tr where f: "PolicyEngine_findFirstMatch rx rs sigs [] = Inr (res, tr)"
    by (auto simp: PolicyEngine_evaluate_def split: sum.splits)
  show ?thesis
  proof (cases res)
    case None
    from findFirstMatch_none[OF f[unfolded None]] assms rs f None show ?thesis
      by (intro unmatched[of rs]) (auto simp: PolicyEngine_evaluate_def)
  next
    case (Some r)
    from findFirstMatch_some[OF f[unfolded Some]] obtain pre post where
      "rs = pre @ r # post" "list_all (rule_fails rx sigs) pre" "rule_matches rx sigs r"
      "tr = map rule_id (pre @ [r])" by auto
    moreover from assms rs f Some obtain oc where "rule_outcome r = Some oc"
      by (auto simp: PolicyEngine_evaluate_def split: option.splits)
    ultimately show ?thesis using assms rs f Some
      by (intro matched[of rs pre r post oc]) (auto simp: PolicyEngine_evaluate_def)
  qed
qed

lemma toOutcome_APPROVE: "PolicyEngine_toOutcome a = APPROVE \<longleftrightarrow> a = Some APPROVE_ACTION"
  by (cases a rule: PolicyEngine_toOutcome.cases) auto

lemma APPROVE_toOutcome: "APPROVE = PolicyEngine_toOutcome a \<longleftrightarrow> a = Some APPROVE_ACTION"
  by (auto simp: toOutcome_APPROVE dest: sym)

lemma evaluate_identity:
  "PolicyEngine_evaluate rx pol sigs = Inr d \<Longrightarrow>
     d_policyId d = policyId pol \<and> d_policyVersion d = policyVersion pol"
  by (auto simp: PolicyEngine_evaluate_def split: option.splits sum.splits)

end
