(* ===== verification/Policy_Validator.thy ===== *)
theory Policy_Validator
  imports Policy_Engine
begin

text \<open>
  \<open>packages/policy/src/PolicyValidator.ts\<close> and \<open>policySignalRequirements.ts\<close>: the
  structural validation a policy passes before it is evaluated, the fail-closed coverage of
  every fact a rule reads, the rule that every approval needs a signed human approval, and
  the advisory detection of overlapping rules.
\<close>

named_theorems validator_defs \<open>definitions of the policy validator\<close>

section \<open>What can be thrown\<close>

datatype validation_error =
    PolicyRequired | PolicyIdRequired | PolicyVersionRequired | SchemaVersionRequired
  | RulesNotArray | NoRules
  | BoundSignalsNotObject | BoundSignalsEmptyKey | BoundSignalsBadPath string
  | UnboundNotObject | UnboundEmptyKey | UnboundBadReason string | UnboundContradictory string
  | RuleIdRequired | DuplicateRuleId string
  | ConditionFactRequired | ConditionUnsupportedOperator string
  | MatchesNeedsString | PatternTooLong | NestedQuantifier string | InvalidRegExp string
  | EmptyAll | EmptyAny | AlwaysNotTrue | InvalidCondition
  | MissingOutcome | MissingOutcomeAction | MissingOutcomeReason
  | ApprovalSignalsNotObject | ApprovalSignalsEmptyKey | ApprovalSignalNotObject string
  | ApprovalSignalUnreferenced string | ApprovalSignalBound string
  | ApprovalSignalBadResource string | ApprovalSignalBadValue string
  | ApprovalSignalBadArtifact string | ApprovalSignalArtifactShared string
  | ApprovalSignalArtifactRead string
  | ApprovesWithoutApproval
  | UncoveredFacts "string list"
  | ValidatorTypeError

section \<open>Regular expressions written in the source\<close>

definition DEFAULT_APPROVAL_ARTIFACT_SIGNAL :: string where
  "DEFAULT_APPROVAL_ARTIFACT_SIGNAL = ''approvalArtifact''"

text \<open>\<open>^[A-Za-z0-9_]+$\<close>\<close>

definition SIGNAL_NAME_test :: "string \<Rightarrow> bool" where
  "SIGNAL_NAME_test s = (s \<noteq> [] \<and> list_all is_word_char s)"

text \<open>\<open>^parameters(\.[A-Za-z0-9_]+)+$\<close>: dots separate \<open>parameters\<close> and at least one name.\<close>

definition PARAMETER_PATH_test :: "string \<Rightarrow> bool" where
  "PARAMETER_PATH_test s =
     (case split_on (CHR ''.'') s of
        [] \<Rightarrow> False
      | base # names \<Rightarrow> base = ''parameters'' \<and> names \<noteq> [] \<and> list_all SIGNAL_NAME_test names)"

definition MAX_PATTERN_LENGTH :: nat where
  "MAX_PATTERN_LENGTH = 200"

text \<open>\<open>[*+]|\{\d+,?\d*\}\<close> at the start of the text; what follows it on success.\<close>

fun match_quantifier :: "string \<Rightarrow> string option" where
  "match_quantifier [] = None"
| "match_quantifier (c # cs) =
     (if c = CHR ''*'' \<or> c = CHR ''+'' then Some cs
      else if c = CHR ''{'' \<and> cs \<noteq> [] \<and> is_digit (hd cs) then
        let rest = dropWhile is_digit cs;
            rest = (if rest \<noteq> [] \<and> hd rest = CHR '','' then tl rest else rest);
            rest = dropWhile is_digit rest
        in if rest \<noteq> [] \<and> hd rest = CHR ''}'' then Some (tl rest) else None
      else None)"

text \<open>\<open>CONTAINS_QUANTIFIER.test\<close>\<close>

fun CONTAINS_QUANTIFIER_test :: "string \<Rightarrow> bool" where
  "CONTAINS_QUANTIFIER_test [] = False"
| "CONTAINS_QUANTIFIER_test (c # cs) =
     (match_quantifier (c # cs) \<noteq> None \<or> CONTAINS_QUANTIFIER_test cs)"

definition no_paren :: "char \<Rightarrow> bool" where
  "no_paren c = (c \<noteq> CHR ''('' \<and> c \<noteq> CHR '')'')"

lemma match_quantifier_length: "match_quantifier s = Some t \<Longrightarrow> length t < length s"
proof (cases s)
  case (Cons c cs)
  assume *: "match_quantifier s = Some t"
  let ?d = "dropWhile is_digit cs"
  let ?e = "if ?d \<noteq> [] \<and> hd ?d = CHR '','' then tl ?d else ?d"
  have "length (dropWhile is_digit ?e) \<le> length ?e" by (rule length_dropWhile_le)
  moreover have "length ?e \<le> length ?d" by simp
  moreover have "length ?d \<le> length cs" by (rule length_dropWhile_le)
  ultimately show ?thesis using * Cons
    by (auto simp: Let_def split: if_splits)
qed simp

text \<open>
  \<open>matchAll(/\(([^()]*)\)(?:[*+]|\{\d+,?\d*\})/g)\<close>: the contents of every group
  without inner parentheses that is followed by a quantifier, found from left to right
  without overlap.
\<close>

function quantified_groups :: "string \<Rightarrow> string list" where
  "quantified_groups [] = []"
| "quantified_groups (c # cs) =
     (if c = CHR ''('' then
        (case dropWhile no_paren cs of
           [] \<Rightarrow> quantified_groups cs
         | d # rest \<Rightarrow>
             (if d = CHR '')'' then
                (case match_quantifier rest of
                   Some rest' \<Rightarrow> takeWhile no_paren cs # quantified_groups rest'
                 | None \<Rightarrow> quantified_groups cs)
              else quantified_groups cs))
      else quantified_groups cs)"
  by pat_completeness auto
termination
proof (relation "measure length", goal_cases)
  case (4 c cs d rest rest')
  have "length (dropWhile no_paren cs) \<le> length cs" by (rule length_dropWhile_le)
  with 4 match_quantifier_length[of rest rest'] show ?case by simp
qed auto

section \<open>Facts a policy reads\<close>

fun collect_walk :: "condition \<Rightarrow> (validation_error, string list) result" where
  "collect_walk (Condition fct op v alls anys alw) =
     (case fct of
        Some f \<Rightarrow> Inr [f]
      | None \<Rightarrow>
          (case alls of
             Children cs \<Rightarrow> gather_m collect_walk cs
           | NotArray \<Rightarrow> Inl ValidatorTypeError
           | Absent \<Rightarrow>
               (case anys of
                  Children cs \<Rightarrow> gather_m collect_walk cs
                | NotArray \<Rightarrow> Inl ValidatorTypeError
                | Absent \<Rightarrow> Inr [])))"

definition collectReferencedFacts :: "policy \<Rightarrow> (validation_error, string list) result" where
  "collectReferencedFacts pol =
     (case rules pol of
        None \<Rightarrow> Inl ValidatorTypeError
      | Some rs \<Rightarrow>
          (case gather_m (\<lambda>r. collect_walk (rule_condition r)) rs of
             Inl e \<Rightarrow> Inl e
           | Inr referenced \<Rightarrow> Inr (sort (remdups referenced))))"

text \<open>The object spread \<open>{...(v ?? {})}\<close>.\<close>

fun spread_object :: "json option \<Rightarrow> jsobject" where
  "spread_object (Some (JObj kvs)) = kvs"
| "spread_object (Some (JArr xs)) = zip (map nat_string [0..<length xs]) xs"
| "spread_object (Some (JStr s)) = zip (map nat_string [0..<length s]) (map (\<lambda>c. JStr [c]) s)"
| "spread_object _ = []"

record signal_requirements =
  req_facts :: "string list"
  req_schema :: jsobject
  req_bound :: jsobject
  req_approval :: jsobject

definition describePolicySignalRequirements ::
  "policy \<Rightarrow> (validation_error, signal_requirements) result" where
  "describePolicySignalRequirements pol =
     (case collectReferencedFacts pol of
        Inl e \<Rightarrow> Inl e
      | Inr facts \<Rightarrow>
          Inr \<lparr>req_facts = facts, req_schema = spread_object (signalsSchema pol),
               req_bound = spread_object (boundSignals pol),
               req_approval = spread_object (approvalSignals pol)\<rparr>)"

definition findUncoveredFacts :: "policy \<Rightarrow> (validation_error, string list) result" where
  "findUncoveredFacts pol =
     (let boundKeys = object_keys (boundSignals pol);
          acknowledgedKeys = object_keys (unboundSignalReasons pol) @ object_keys (approvalSignals pol)
      in case collectReferencedFacts pol of
           Inl e \<Rightarrow> Inl e
         | Inr referenced \<Rightarrow>
             Inr (filter (\<lambda>f. f \<notin> set boundKeys \<and> f \<notin> set acknowledgedKeys) referenced))"

section \<open>Conditions\<close>

definition validateRegex :: "regexp \<Rightarrow> string \<Rightarrow> (validation_error, unit) result" where
  "validateRegex rx pattern =
     (if length pattern > MAX_PATTERN_LENGTH then Inl PatternTooLong
      else if list_ex CONTAINS_QUANTIFIER_test (quantified_groups pattern)
        then Inl (NestedQuantifier pattern)
      else if rx pattern = None then Inl (InvalidRegExp pattern)
      else Inr ())"

fun supported_operator :: "operator \<Rightarrow> bool" where
  "supported_operator (Op_other _) = False"
| "supported_operator _ = True"

fun operator_name :: "operator \<Rightarrow> string" where
  "operator_name (Op_other n) = n"
| "operator_name _ = []"

text \<open>Here the keys are tested in the order \<open>fact\<close>, \<open>all\<close>, \<open>any\<close>, \<open>always\<close>.\<close>

fun validateCondition :: "regexp \<Rightarrow> condition \<Rightarrow> (validation_error, unit) result" where
  "validateCondition rx (Condition fct op v alls anys alw) =
     (case fct of
        Some f \<Rightarrow>
          if trim f = [] then Inl ConditionFactRequired
          else if \<not> supported_operator op then Inl (ConditionUnsupportedOperator (operator_name op))
          else if op = Op_matches then
            (case v of Some (JStr pattern) \<Rightarrow> validateRegex rx pattern | _ \<Rightarrow> Inl MatchesNeedsString)
          else Inr ()
      | None \<Rightarrow>
          (case alls of
             NotArray \<Rightarrow> Inl EmptyAll
           | Children cs \<Rightarrow> if cs = [] then Inl EmptyAll else for_each (validateCondition rx) cs
           | Absent \<Rightarrow>
               (case anys of
                  NotArray \<Rightarrow> Inl EmptyAny
                | Children cs \<Rightarrow> if cs = [] then Inl EmptyAny else for_each (validateCondition rx) cs
                | Absent \<Rightarrow>
                    (case alw of
                       Some b \<Rightarrow> if b = JBool True then Inr () else Inl AlwaysNotTrue
                     | None \<Rightarrow> Inl InvalidCondition))))"

section \<open>Signal declarations\<close>

fun validateBoundEntry :: "string \<times> json \<Rightarrow> (validation_error, unit) result" where
  "validateBoundEntry (signalKey, intentPath) =
     (if trim signalKey = [] then Inl BoundSignalsEmptyKey
      else case intentPath of
             JStr p \<Rightarrow> if trim p = [] then Inl (BoundSignalsBadPath signalKey) else Inr ()
           | _ \<Rightarrow> Inl (BoundSignalsBadPath signalKey))"

definition validateBoundSignals :: "policy \<Rightarrow> (validation_error, unit) result" where
  "validateBoundSignals pol =
     (case boundSignals pol of
        None \<Rightarrow> Inr ()
      | Some (JObj entries) \<Rightarrow> for_each validateBoundEntry entries
      | Some _ \<Rightarrow> Inl BoundSignalsNotObject)"

fun validateUnboundEntry ::
  "json option \<Rightarrow> string \<times> json \<Rightarrow> (validation_error, unit) result" where
  "validateUnboundEntry bound (fct, reasonText) =
     (if trim fct = [] then Inl UnboundEmptyKey
      else if \<not> (case reasonText of JStr t \<Rightarrow> trim t \<noteq> [] | _ \<Rightarrow> False)
        then Inl (UnboundBadReason fct)
      else if bound \<noteq> None \<and> fct \<in> set (object_keys bound) then Inl (UnboundContradictory fct)
      else Inr ())"

definition validateUnboundSignalReasons :: "policy \<Rightarrow> (validation_error, unit) result" where
  "validateUnboundSignalReasons pol =
     (case unboundSignalReasons pol of
        None \<Rightarrow> Inr ()
      | Some (JObj entries) \<Rightarrow> for_each (validateUnboundEntry (boundSignals pol)) entries
      | Some _ \<Rightarrow> Inl UnboundNotObject)"

text \<open>\<open>declaration.artifact ?? DEFAULT_APPROVAL_ARTIFACT_SIGNAL\<close>\<close>

definition declared_artifact :: "json \<Rightarrow> json" where
  "declared_artifact declaration =
     (case get_prop declaration ''artifact'' of
        Some v \<Rightarrow> if v = JNull then JStr DEFAULT_APPROVAL_ARTIFACT_SIGNAL else v
      | None \<Rightarrow> JStr DEFAULT_APPROVAL_ARTIFACT_SIGNAL)"

fun js_string_opt :: "(jsnum \<Rightarrow> string) \<Rightarrow> json option \<Rightarrow> string" where
  "js_string_opt nstr None = ''undefined''"
| "js_string_opt nstr (Some v) = js_string nstr v"

text \<open>The body of the loop over the declarations; \<open>artifacts\<close> are those of earlier ones.\<close>

fun validateApprovalEntry ::
  "(jsnum \<Rightarrow> string) \<Rightarrow> string list \<Rightarrow> string list \<Rightarrow> json option \<Rightarrow> json list \<Rightarrow> string \<times> json
   \<Rightarrow> (validation_error, json) result" where
  "validateApprovalEntry nstr referenced keys bound artifacts (signalKey, declaration) =
     (if trim signalKey = [] then Inl ApprovalSignalsEmptyKey
      else if \<not> (case declaration of JObj _ \<Rightarrow> True | _ \<Rightarrow> False)
        then Inl (ApprovalSignalNotObject signalKey)
      else if signalKey \<notin> set referenced then Inl (ApprovalSignalUnreferenced signalKey)
      else if bound \<noteq> None \<and> signalKey \<in> set (object_keys bound)
        then Inl (ApprovalSignalBound signalKey)
      else if get_prop declaration ''resourceId'' \<noteq> Some (JStr ''target'')
              \<and> \<not> PARAMETER_PATH_test (js_string_opt nstr (get_prop declaration ''resourceId''))
        then Inl (ApprovalSignalBadResource signalKey)
      else if get_prop declaration ''value'' \<noteq> None
              \<and> \<not> PARAMETER_PATH_test (js_string_opt nstr (get_prop declaration ''value''))
        then Inl (ApprovalSignalBadValue signalKey)
      else let artifact = declared_artifact declaration in
        if \<not> SIGNAL_NAME_test (js_string nstr artifact)
          then Inl (ApprovalSignalBadArtifact signalKey)
        else if js_includes artifacts artifact \<or> js_includes (map JStr keys) artifact
          then Inl (ApprovalSignalArtifactShared signalKey)
        else if js_includes (map JStr referenced) artifact
          then Inl (ApprovalSignalArtifactRead signalKey)
        else Inr artifact)"

fun validateApprovalEntries ::
  "(jsnum \<Rightarrow> string) \<Rightarrow> string list \<Rightarrow> string list \<Rightarrow> json option \<Rightarrow> json list
   \<Rightarrow> jsobject \<Rightarrow> (validation_error, unit) result" where
  "validateApprovalEntries nstr referenced keys bound artifacts [] = Inr ()"
| "validateApprovalEntries nstr referenced keys bound artifacts (e # es) =
     (case validateApprovalEntry nstr referenced keys bound artifacts e of
        Inl err \<Rightarrow> Inl err
      | Inr a \<Rightarrow> validateApprovalEntries nstr referenced keys bound (artifacts @ [a]) es)"

definition validateApprovalSignals ::
  "(jsnum \<Rightarrow> string) \<Rightarrow> policy \<Rightarrow> (validation_error, unit) result" where
  "validateApprovalSignals nstr pol =
     (case approvalSignals pol of
        None \<Rightarrow> Inr ()
      | Some (JObj declarations) \<Rightarrow>
          (case collectReferencedFacts pol of
             Inl e \<Rightarrow> Inl e
           | Inr referenced \<Rightarrow>
               validateApprovalEntries nstr referenced (obj_keys declarations)
                 (boundSignals pol) [] declarations)
      | Some _ \<Rightarrow> Inl ApprovalSignalsNotObject)"

section \<open>Every approval needs a signed approval\<close>

fun isApprovalLeaf :: "string list \<Rightarrow> condition \<Rightarrow> bool" where
  "isApprovalLeaf approvalFacts (Condition fct op v alls anys alw) =
     (case fct of Some f \<Rightarrow> op = Op_is_true \<and> f \<in> set approvalFacts | None \<Rightarrow> False)"

text \<open>\<open>"all" in condition && condition.all.some(isApprovalLeaf)\<close>\<close>

fun gated_by_all :: "string list \<Rightarrow> condition \<Rightarrow> (validation_error, bool) result" where
  "gated_by_all approvalFacts (Condition fct op v alls anys alw) =
     (case alls of
        Absent \<Rightarrow> Inr False
      | NotArray \<Rightarrow> Inl ValidatorTypeError
      | Children cs \<Rightarrow> Inr (list_ex (isApprovalLeaf approvalFacts) cs))"

definition validateRuleNeedsApproval ::
  "string list \<Rightarrow> policy_rule \<Rightarrow> (validation_error, unit) result" where
  "validateRuleNeedsApproval approvalFacts rule =
     (case rule_outcome rule of
        None \<Rightarrow> Inl ValidatorTypeError
      | Some oc \<Rightarrow>
          if o_action oc \<noteq> Some APPROVE_ACTION then Inr ()
          else if isApprovalLeaf approvalFacts (rule_condition rule) then Inr ()
          else (case gated_by_all approvalFacts (rule_condition rule) of
                  Inl e \<Rightarrow> Inl e
                | Inr gated \<Rightarrow> if gated then Inr () else Inl ApprovesWithoutApproval))"

definition validateEveryApprovalNeedsSignedApproval ::
  "policy \<Rightarrow> (validation_error, unit) result" where
  "validateEveryApprovalNeedsSignedApproval pol =
     (case rules pol of
        None \<Rightarrow> Inl ValidatorTypeError
      | Some rs \<Rightarrow>
          for_each (validateRuleNeedsApproval (object_keys (approvalSignals pol))) rs)"

section \<open>Rules\<close>

text \<open>The body of the loop over the rules; \<open>ruleIds\<close> are those of earlier ones.\<close>

definition validateRule ::
  "regexp \<Rightarrow> string list \<Rightarrow> policy_rule \<Rightarrow> (validation_error, string) result" where
  "validateRule rx ruleIds rule =
     (case rule_id rule of
        None \<Rightarrow> Inl RuleIdRequired
      | Some i \<Rightarrow>
          if trim i = [] then Inl RuleIdRequired
          else if i \<in> set ruleIds then Inl (DuplicateRuleId i)
          else (case validateCondition rx (rule_condition rule) of
                  Inl e \<Rightarrow> Inl e
                | Inr _ \<Rightarrow>
                    (case rule_outcome rule of
                       None \<Rightarrow> Inl MissingOutcome
                     | Some oc \<Rightarrow>
                         if o_action oc = None then Inl MissingOutcomeAction
                         else if blank_opt (o_reason oc) then Inl MissingOutcomeReason
                         else Inr i)))"

fun validateRules ::
  "regexp \<Rightarrow> string list \<Rightarrow> policy_rule list \<Rightarrow> (validation_error, unit) result" where
  "validateRules rx ruleIds [] = Inr ()"
| "validateRules rx ruleIds (rule # rs) =
     (case validateRule rx ruleIds rule of
        Inl e \<Rightarrow> Inl e
      | Inr i \<Rightarrow> validateRules rx (i # ruleIds) rs)"

section \<open>validate\<close>

text \<open>The second half of \<open>validate\<close>, from the signal declarations on.\<close>

definition validateContents ::
  "regexp \<Rightarrow> (jsnum \<Rightarrow> string) \<Rightarrow> policy \<Rightarrow> policy_rule list \<Rightarrow> (validation_error, unit) result" where
  "validateContents rx nstr pol rs =
     (case validateBoundSignals pol of Inl e \<Rightarrow> Inl e | Inr _ \<Rightarrow>
      (case validateUnboundSignalReasons pol of Inl e \<Rightarrow> Inl e | Inr _ \<Rightarrow>
       (case validateRules rx [] rs of Inl e \<Rightarrow> Inl e | Inr _ \<Rightarrow>
        (case validateApprovalSignals nstr pol of Inl e \<Rightarrow> Inl e | Inr _ \<Rightarrow>
         (case validateEveryApprovalNeedsSignedApproval pol of Inl e \<Rightarrow> Inl e | Inr _ \<Rightarrow>
          (case findUncoveredFacts pol of
             Inl e \<Rightarrow> Inl e
           | Inr uncovered \<Rightarrow> if uncovered \<noteq> [] then Inl (UncoveredFacts uncovered) else Inr ()))))))"

definition PolicyValidator_validate ::
  "regexp \<Rightarrow> (jsnum \<Rightarrow> string) \<Rightarrow> policy option \<Rightarrow> (validation_error, unit) result" where
  "PolicyValidator_validate rx nstr p =
     (case p of
        None \<Rightarrow> Inl PolicyRequired
      | Some pol \<Rightarrow>
          if blank_opt (policyId pol) then Inl PolicyIdRequired
          else if blank_opt (policyVersion pol) then Inl PolicyVersionRequired
          else if blank_opt (schemaVersion pol) then Inl SchemaVersionRequired
          else (case rules pol of
                  None \<Rightarrow> Inl RulesNotArray
                | Some rs \<Rightarrow> if rs = [] then Inl NoRules else validateContents rx nstr pol rs))"

section \<open>Overlapping rules\<close>

datatype overlap = NO_OVERLAP | DEFINITE_OVERLAP | NEEDS_REVIEW

datatype ray_direction = Upper | Lower

record ray =
  ray_direction :: ray_direction
  ray_bound :: jsnum
  ray_inclusive :: bool

fun normalizeBooleanOperator :: "operator \<Rightarrow> json option \<Rightarrow> operator \<times> json option" where
  "normalizeBooleanOperator Op_is_true v = (Op_eq, Some (JBool True))"
| "normalizeBooleanOperator Op_is_false v = (Op_eq, Some (JBool False))"
| "normalizeBooleanOperator op v = (op, v)"

fun toRay :: "operator \<Rightarrow> json option \<Rightarrow> ray option" where
  "toRay Op_lt (Some (JNum n)) = Some \<lparr>ray_direction = Upper, ray_bound = n, ray_inclusive = False\<rparr>"
| "toRay Op_lte (Some (JNum n)) = Some \<lparr>ray_direction = Upper, ray_bound = n, ray_inclusive = True\<rparr>"
| "toRay Op_gt (Some (JNum n)) = Some \<lparr>ray_direction = Lower, ray_bound = n, ray_inclusive = False\<rparr>"
| "toRay Op_gte (Some (JNum n)) = Some \<lparr>ray_direction = Lower, ray_bound = n, ray_inclusive = True\<rparr>"
| "toRay _ _ = None"

definition raysOverlap :: "ray \<Rightarrow> ray \<Rightarrow> bool" where
  "raysOverlap a b =
     (if ray_direction a = ray_direction b then True
      else let upper = (if ray_direction a = Upper then a else b);
               lower = (if ray_direction a = Lower then a else b)
           in if num_less (ray_bound lower) (ray_bound upper) then True
              else if num_less (ray_bound upper) (ray_bound lower) then False
              else ray_inclusive upper \<and> ray_inclusive lower)"

definition POINT_OPS :: "operator list" where "POINT_OPS = [Op_eq, Op_neq]"
definition RANGE_OPS :: "operator list" where "RANGE_OPS = [Op_gt, Op_gte, Op_lt, Op_lte]"

fun range_satisfied :: "operator \<Rightarrow> jsnum \<Rightarrow> jsnum \<Rightarrow> bool" where
  "range_satisfied Op_gt e r = num_less r e"
| "range_satisfied Op_gte e r = num_le r e"
| "range_satisfied Op_lt e r = num_less e r"
| "range_satisfied Op_lte e r = num_le e r"
| "range_satisfied _ e r = False"

definition eq_range_overlap :: "json option \<Rightarrow> operator \<Rightarrow> json option \<Rightarrow> overlap" where
  "eq_range_overlap eqValue rangeOp rangeValue =
     (case (eqValue, rangeValue) of
        (Some (JNum e), Some (JNum r)) \<Rightarrow>
          if range_satisfied rangeOp e r then DEFINITE_OVERLAP else NO_OVERLAP
      | _ \<Rightarrow> NEEDS_REVIEW)"

definition operatorOverlap ::
  "operator \<Rightarrow> json option \<Rightarrow> operator \<Rightarrow> json option \<Rightarrow> overlap" where
  "operatorOverlap opA valA opB valB =
     (case (normalizeBooleanOperator opA valA, normalizeBooleanOperator opB valB) of
        ((nA, vA), (nB, vB)) \<Rightarrow>
          if nA \<in> set POINT_OPS \<and> nB \<in> set POINT_OPS then
            if nA = Op_eq \<and> nB = Op_eq then
              (if strict_eq_opt vA vB then DEFINITE_OVERLAP else NO_OVERLAP)
            else if nA = Op_neq \<and> nB = Op_neq then DEFINITE_OVERLAP
            else let eqValue = (if nA = Op_eq then vA else vB);
                     neqValue = (if nA = Op_neq then vA else vB)
                 in if strict_eq_opt eqValue neqValue then NO_OVERLAP else DEFINITE_OVERLAP
          else if nA \<in> set RANGE_OPS \<and> nB \<in> set RANGE_OPS then
            (case (toRay nA vA, toRay nB vB) of
               (Some rayA, Some rayB) \<Rightarrow>
                 if raysOverlap rayA rayB then DEFINITE_OVERLAP else NO_OVERLAP
             | _ \<Rightarrow> NEEDS_REVIEW)
          else if nA = Op_eq \<and> nB \<in> set RANGE_OPS \<or> nB = Op_eq \<and> nA \<in> set RANGE_OPS then
            (if nA = Op_eq then eq_range_overlap vA nB vB else eq_range_overlap vB nA vA)
          else NEEDS_REVIEW)"

fun leafVersusAllOverlap :: "string \<Rightarrow> operator \<Rightarrow> json option \<Rightarrow> condition list \<Rightarrow> overlap" where
  "leafVersusAllOverlap f op v [] = NEEDS_REVIEW"
| "leafVersusAllOverlap f op v (c # cs) =
     (if c_fact c \<noteq> Some f then leafVersusAllOverlap f op v cs
      else if operatorOverlap (c_operator c) (c_value c) op v = NO_OVERLAP then NO_OVERLAP
      else leafVersusAllOverlap f op v cs)"

text \<open>The two nested loops over the conjuncts of two \<open>all\<close> conditions.\<close>

definition conjunctsDisjoint :: "condition \<Rightarrow> condition \<Rightarrow> bool" where
  "conjunctsDisjoint cA cB =
     (c_fact cA \<noteq> None \<and> c_fact cB \<noteq> None \<and> c_fact cA = c_fact cB
      \<and> operatorOverlap (c_operator cA) (c_value cA) (c_operator cB) (c_value cB) = NO_OVERLAP)"

definition allVersusAllOverlap :: "condition list \<Rightarrow> condition list \<Rightarrow> overlap" where
  "allVersusAllOverlap as bs =
     (if list_ex (\<lambda>cA. list_ex (conjunctsDisjoint cA) bs) as then NO_OVERLAP else NEEDS_REVIEW)"

text \<open>Iterating over \<open>all\<close> when it is no array is a \<open>TypeError\<close>.\<close>

definition conditionsOverlap ::
  "condition \<Rightarrow> condition \<Rightarrow> (validation_error, overlap) result" where
  "conditionsOverlap a b =
     (case (c_fact a, c_fact b) of
        (Some f, Some g) \<Rightarrow>
          Inr (if f \<noteq> g then NO_OVERLAP
               else operatorOverlap (c_operator a) (c_value a) (c_operator b) (c_value b))
      | (Some f, None) \<Rightarrow>
          (case c_all b of
             Children cs \<Rightarrow> Inr (leafVersusAllOverlap f (c_operator a) (c_value a) cs)
           | NotArray \<Rightarrow> Inl ValidatorTypeError
           | Absent \<Rightarrow> Inr NEEDS_REVIEW)
      | (None, Some g) \<Rightarrow>
          (case c_all a of
             Children cs \<Rightarrow> Inr (leafVersusAllOverlap g (c_operator b) (c_value b) cs)
           | NotArray \<Rightarrow> Inl ValidatorTypeError
           | Absent \<Rightarrow> Inr NEEDS_REVIEW)
      | (None, None) \<Rightarrow>
          (case (c_all a, c_all b) of
             (Children as, Children bs) \<Rightarrow> Inr (allVersusAllOverlap as bs)
           | (Children as, NotArray) \<Rightarrow>
               if list_ex (\<lambda>c. c_fact c \<noteq> None) as then Inl ValidatorTypeError else Inr NEEDS_REVIEW
           | (Absent, _) \<Rightarrow> Inr NEEDS_REVIEW
           | (_, Absent) \<Rightarrow> Inr NEEDS_REVIEW
           | _ \<Rightarrow> Inl ValidatorTypeError))"

datatype conflict_level = WARNING | INFO

record rule_conflict_warning =
  w_level :: conflict_level
  w_ruleId :: "string option"
  w_conflictingRuleId :: "string option"

definition isAlways :: "condition \<Rightarrow> bool" where
  "isAlways c = (c_always c \<noteq> None)"

definition pair_warnings ::
  "policy_rule \<Rightarrow> policy_rule \<Rightarrow> (validation_error, rule_conflict_warning list) result" where
  "pair_warnings ruleA ruleB =
     (if isAlways (rule_condition ruleB) then Inr []
      else case conditionsOverlap (rule_condition ruleA) (rule_condition ruleB) of
             Inl e \<Rightarrow> Inl e
           | Inr DEFINITE_OVERLAP \<Rightarrow>
               Inr [\<lparr>w_level = WARNING, w_ruleId = rule_id ruleA, w_conflictingRuleId = rule_id ruleB\<rparr>]
           | Inr NEEDS_REVIEW \<Rightarrow>
               Inr [\<lparr>w_level = INFO, w_ruleId = rule_id ruleA, w_conflictingRuleId = rule_id ruleB\<rparr>]
           | Inr NO_OVERLAP \<Rightarrow> Inr [])"

fun conflicts_from ::
  "policy_rule list \<Rightarrow> (validation_error, rule_conflict_warning list) result" where
  "conflicts_from [] = Inr []"
| "conflicts_from (ruleA # rest) =
     (case (if isAlways (rule_condition ruleA) then
              Inr (case rest of
                     [] \<Rightarrow> []
                   | shadowed # _ \<Rightarrow>
                       [\<lparr>w_level = WARNING, w_ruleId = rule_id ruleA,
                         w_conflictingRuleId = rule_id shadowed\<rparr>])
            else gather_m (pair_warnings ruleA) rest) of
        Inl e \<Rightarrow> Inl e
      | Inr ws \<Rightarrow> (case conflicts_from rest of Inl e \<Rightarrow> Inl e | Inr vs \<Rightarrow> Inr (ws @ vs)))"

definition findRuleConflicts ::
  "policy \<Rightarrow> (validation_error, rule_conflict_warning list) result" where
  "findRuleConflicts pol =
     (case rules pol of None \<Rightarrow> Inl ValidatorTypeError | Some rs \<Rightarrow> conflicts_from rs)"

section \<open>PolicyRouter\<close>

text \<open>Loading a policy: the repository is a parameter; conflicts are only logged.\<close>

datatype 'e load_error = RepositoryError 'e | ValidationFailed validation_error

definition PolicyRouter_load ::
  "regexp \<Rightarrow> (jsnum \<Rightarrow> string) \<Rightarrow> (string \<Rightarrow> string \<Rightarrow> ('e, policy) result) \<Rightarrow> string \<Rightarrow> string
   \<Rightarrow> ('e load_error, policy \<times> rule_conflict_warning list) result" where
  "PolicyRouter_load rx nstr repository name version =
     (case repository name version of
        Inl e \<Rightarrow> Inl (RepositoryError e)
      | Inr pol \<Rightarrow>
          (case PolicyValidator_validate rx nstr (Some pol) of
             Inl e \<Rightarrow> Inl (ValidationFailed e)
           | Inr _ \<Rightarrow>
               (case findRuleConflicts pol of
                  Inl e \<Rightarrow> Inl (ValidationFailed e)
                | Inr conflicts \<Rightarrow> Inr (pol, conflicts))))"

end
