(* ===== verification/Policy_Safety.thy ===== *)
theory Policy_Safety
  imports Policy_Validator
begin

text \<open>
  What validation buys: a validated policy evaluates without throwing on any signals, its
  decision reads only signals the policy declares, it approves only when an approval signal
  is true, and every pair of rules that can hold together is reported.  The proofs are
  inductions along \<^const>\<open>validateCondition\<close> and \<^const>\<open>collect_walk\<close>.
\<close>

section \<open>What a successful validation gives\<close>

lemma validateRules_ok:
  "validateRules rx ids rs = Inr () \<Longrightarrow> r \<in> set rs \<Longrightarrow>
     validateCondition rx (rule_condition r) = Inr () \<and>
     (\<exists>oc. rule_outcome r = Some oc \<and> o_action oc \<noteq> None \<and> \<not> blank_opt (o_reason oc)) \<and>
     (\<exists>i. rule_id r = Some i \<and> trim i \<noteq> [] \<and> i \<notin> set ids)"
proof (induction rs arbitrary: ids)
  case (Cons q rs)
  from Cons.prems(1) obtain i where i: "validateRule rx ids q = Inr i"
    and rest: "validateRules rx (i # ids) rs = Inr ()" by (auto split: sum.splits)
  show ?case
  proof (cases "r = q")
    case True
    with i show ?thesis
      by (auto simp: validateRule_def split: sum.splits option.splits if_splits)
  next
    case False
    with Cons.IH[OF rest] Cons.prems(2) show ?thesis by auto
  qed
qed simp

lemma validateRules_distinct:
  "validateRules rx ids rs = Inr () \<Longrightarrow> distinct (map rule_id rs)"
proof (induction rs arbitrary: ids)
  case (Cons r rs)
  from Cons.prems obtain i where i: "validateRule rx ids r = Inr i"
    and rest: "validateRules rx (i # ids) rs = Inr ()" by (auto split: sum.splits)
  from i have ri: "rule_id r = Some i"
    by (auto simp: validateRule_def split: sum.splits option.splits if_splits)
  have "rule_id r \<notin> rule_id ` set rs"
  proof
    assume "rule_id r \<in> rule_id ` set rs"
    then obtain q where "q \<in> set rs" "rule_id q = Some i" using ri by force
    with validateRules_ok[OF rest] show False by force
  qed
  with Cons.IH[OF rest] show ?case by simp
qed simp

lemma validate_ok:
  assumes "PolicyValidator_validate rx nstr (Some pol) = Inr ()"
  obtains rs where "rules pol = Some rs" "rs \<noteq> []" "validateRules rx [] rs = Inr ()"
    "validateBoundSignals pol = Inr ()" "validateUnboundSignalReasons pol = Inr ()"
    "validateApprovalSignals nstr pol = Inr ()"
    "validateEveryApprovalNeedsSignedApproval pol = Inr ()"
    "findUncoveredFacts pol = Inr []"
  using assms
  by (auto simp: PolicyValidator_validate_def validateContents_def
      split: option.splits if_splits sum.splits)

section \<open>Evaluation of a validated policy never throws\<close>

lemma leaf_evaluate_total:
  assumes "supported_operator op"
    and "op = Op_matches \<Longrightarrow> \<exists>p. v = Some (JStr p) \<and> validateRegex rx p = Inr ()"
  shows "\<exists>b. OperatorEvaluator_evaluate rx a op v = Inr b"
proof (cases "op = Op_matches")
  case True
  with assms(2) obtain p where "v = Some (JStr p)" "rx p \<noteq> None"
    by (auto simp: validateRegex_def split: if_splits)
  with True show ?thesis by (cases a) (auto simp: OperatorEvaluator_matches_def)
next
  case False
  with assms(1) show ?thesis by (cases op) simp_all
qed

lemma validateCondition_evaluates:
  "validateCondition rx c = Inr () \<Longrightarrow> \<exists>b. PolicyEngine_evaluateCondition rx c sigs = Inr b"
proof (induction rx c rule: validateCondition.induct)
  case (1 rx fct op v alls anys alw)
  show ?case
  proof (cases fct)
    case (Some f)
    with "1.prems" have "supported_operator op"
      "op = Op_matches \<Longrightarrow> \<exists>p. v = Some (JStr p) \<and> validateRegex rx p = Inr ()"
      by (auto split: if_splits option.splits json.splits)
    from leaf_evaluate_total[OF this] Some show ?thesis
      by (cases "map_of sigs f") auto
  next
    case None
    show ?thesis
    proof (cases alls)
      case (Children cs)
      with None "1.prems" have "\<forall>x\<in>set cs. validateCondition rx x = Inr ()"
        by (auto simp: result_simps split: if_splits)
      moreover from None Children "1.prems" have "cs \<noteq> []" by auto
      ultimately have "\<exists>b. every_m (\<lambda>c. PolicyEngine_evaluateCondition rx c sigs) cs = Inr b"
        by (intro every_m_total "1.IH"(2)[OF None Children]) auto
      with None Children show ?thesis by (cases alw) auto
    next
      case NotArray
      with None "1.prems" show ?thesis by simp
    next
      case Absent
      note a = Absent
      show ?thesis
      proof (cases anys)
        case (Children cs)
        with None a "1.prems" have "\<forall>x\<in>set cs. validateCondition rx x = Inr ()"
          by (auto simp: result_simps split: if_splits)
        moreover from None a Children "1.prems" have "cs \<noteq> []" by auto
        ultimately have "\<exists>b. some_m (\<lambda>c. PolicyEngine_evaluateCondition rx c sigs) cs = Inr b"
          by (intro some_m_total "1.IH"(1)[OF None a Children]) auto
        with None a Children show ?thesis by (cases alw) auto
      qed (use None a "1.prems" in \<open>auto split: option.splits\<close>)
    qed
  qed
qed

section \<open>Only referenced facts are read\<close>

lemma every_m_ext: "(\<And>x. x \<in> set xs \<Longrightarrow> f x = g x) \<Longrightarrow> every_m f xs = every_m g xs"
  by (rule every_m_cong) auto

lemma some_m_ext: "(\<And>x. x \<in> set xs \<Longrightarrow> f x = g x) \<Longrightarrow> some_m f xs = some_m g xs"
  by (rule some_m_cong) auto

lemma evaluateCondition_frame:
  "collect_walk c = Inr fs \<Longrightarrow> (\<forall>f\<in>set fs. map_of s f = map_of t f) \<Longrightarrow>
     PolicyEngine_evaluateCondition rx c s = PolicyEngine_evaluateCondition rx c t"
proof (induction c arbitrary: fs rule: collect_walk.induct)
  case (1 fct op v alls anys alw)
  show ?case
  proof (cases fct)
    case (Some f)
    with "1.prems" show ?thesis by auto
  next
    case None
    have child: "PolicyEngine_evaluateCondition rx x s = PolicyEngine_evaluateCondition rx x t"
      if IH: "\<And>x fs. x \<in> set cs \<Longrightarrow> collect_walk x = Inr fs \<Longrightarrow>
                \<forall>f\<in>set fs. map_of s f = map_of t f \<Longrightarrow>
                PolicyEngine_evaluateCondition rx x s = PolicyEngine_evaluateCondition rx x t"
        and g: "gather_m collect_walk cs = Inr fs" and x: "x \<in> set cs" for cs x
      using gather_m_elem[OF g x] IH[OF x] "1.prems"(2) by blast
    show ?thesis
    proof (cases alls)
      case (Children cs)
      with None "1.prems" child[OF "1.IH"(2)[OF None Children]] show ?thesis
        by (auto intro!: every_m_ext)
    next
      case NotArray
      with None show ?thesis by simp
    next
      case Absent
      note a = Absent
      show ?thesis
      proof (cases anys)
        case (Children cs)
        with None a "1.prems" child[OF "1.IH"(1)[OF None a Children]] show ?thesis
          by (auto intro!: some_m_ext)
      qed (use None a in auto)
    qed
  qed
qed

lemma findFirstMatch_ext:
  "(\<And>r. r \<in> set rs \<Longrightarrow> PolicyEngine_evaluateCondition rx (rule_condition r) s
        = PolicyEngine_evaluateCondition rx (rule_condition r) t) \<Longrightarrow>
     PolicyEngine_findFirstMatch rx rs s tr = PolicyEngine_findFirstMatch rx rs t tr"
  by (induction rs arbitrary: tr) (auto split: sum.splits bool.splits)

lemma collectReferencedFacts_rule:
  assumes "collectReferencedFacts pol = Inr refs" "rules pol = Some rs" "r \<in> set rs"
  shows "\<exists>fs. collect_walk (rule_condition r) = Inr fs \<and> set fs \<subseteq> set refs"
proof -
  from assms obtain zs where "gather_m (\<lambda>r. collect_walk (rule_condition r)) rs = Inr zs"
    "refs = sort (remdups zs)"
    by (auto simp: collectReferencedFacts_def split: sum.splits)
  with gather_m_elem[OF this(1) assms(3)] show ?thesis by auto
qed

definition declared_signals :: "policy \<Rightarrow> string set" where
  "declared_signals pol =
     set (object_keys (boundSignals pol)) \<union> set (object_keys (unboundSignalReasons pol))
     \<union> set (object_keys (approvalSignals pol))"

lemma validated_facts_declared:
  assumes "findUncoveredFacts pol = Inr []"
  obtains refs where "collectReferencedFacts pol = Inr refs" "set refs \<subseteq> declared_signals pol"
  using assms
  by (auto simp: findUncoveredFacts_def declared_signals_def Let_def filter_empty_conv
      split: sum.splits)

lemma evaluate_declared_ext:
  assumes "PolicyValidator_validate rx nstr (Some pol) = Inr ()"
    and "\<And>f. f \<in> declared_signals pol \<Longrightarrow> map_of s f = map_of t f"
  shows "PolicyEngine_evaluate rx pol s = PolicyEngine_evaluate rx pol t"
proof -
  from assms(1) obtain rs where rs: "rules pol = Some rs" "findUncoveredFacts pol = Inr []"
    by (rule validate_ok)
  from rs(2) obtain refs where refs: "collectReferencedFacts pol = Inr refs"
    "set refs \<subseteq> declared_signals pol" by (rule validated_facts_declared)
  have "PolicyEngine_evaluateCondition rx (rule_condition r) s
          = PolicyEngine_evaluateCondition rx (rule_condition r) t" if "r \<in> set rs" for r
    using collectReferencedFacts_rule[OF refs(1) rs(1) that] refs(2) assms(2)
    by (auto intro!: evaluateCondition_frame)
  with rs(1) show ?thesis
    by (simp add: PolicyEngine_evaluate_def cong: findFirstMatch_ext)
qed

section \<open>Approval gating\<close>

text \<open>
  A condition object that carries \<open>all\<close> together with \<open>fact\<close> or \<open>always\<close>: the validator's
  gate test looks at its \<open>all\<close>, the engine evaluates the other key.
\<close>

definition mixes_all_with_other_key :: "policy_rule \<Rightarrow> bool" where
  "mixes_all_with_other_key r =
     (c_all (rule_condition r) \<noteq> Absent
      \<and> (c_fact (rule_condition r) \<noteq> None \<or> c_always (rule_condition r) \<noteq> None))"

lemma isApprovalLeaf_true:
  assumes "isApprovalLeaf ks c" "PolicyEngine_evaluateCondition rx c sigs = Inr True"
  shows "\<exists>k\<in>set ks. map_of sigs k = Some (JBool True)"
  using assms by (cases c) (auto split: option.splits)

lemma gated_rule_true:
  assumes "validateRuleNeedsApproval ks r = Inr ()"
    and "rule_outcome r = Some oc" "o_action oc = Some APPROVE_ACTION"
    and "\<not> mixes_all_with_other_key r"
    and "PolicyEngine_evaluateCondition rx (rule_condition r) sigs = Inr True"
  shows "\<exists>k\<in>set ks. map_of sigs k = Some (JBool True)"
proof (cases "isApprovalLeaf ks (rule_condition r)")
  case True
  then show ?thesis using assms(5) by (rule isApprovalLeaf_true)
next
  case False
  obtain fct op v alls anys alw
    where c: "rule_condition r = Condition fct op v alls anys alw" by (cases "rule_condition r")
  from False assms(1-3) c obtain cs where cs: "alls = Children cs" "list_ex (isApprovalLeaf ks) cs"
    by (auto simp: validateRuleNeedsApproval_def split: sum.splits if_splits children.splits)
  from assms(4) c cs have "fct = None" "alw = None" by (simp_all add: mixes_all_with_other_key_def)
  with cs c assms(5)
  have "\<forall>x\<in>set cs. PolicyEngine_evaluateCondition rx x sigs = Inr True"
    by (simp add: result_simps)
  with cs(2) show ?thesis by (auto simp: list_ex_iff intro: isApprovalLeaf_true)
qed

lemma approval_signal_needed:
  assumes "PolicyValidator_validate rx nstr (Some pol) = Inr ()"
    and "rules pol = Some rs" and "\<not> list_ex mixes_all_with_other_key rs"
    and "PolicyEngine_evaluate rx pol sigs = Inr d" and "d_outcome d = APPROVE"
  shows "\<exists>k\<in>set (object_keys (approvalSignals pol)). map_of sigs k = Some (JBool True)"
  using assms(4)
proof (cases rule: evaluate_cases)
  case (matched rs' pre r post oc)
  with assms(2) have r: "r \<in> set rs" by (metis in_set_conv_decomp option.inject)
  from assms(1) have "validateEveryApprovalNeedsSignedApproval pol = Inr ()"
    by (rule validate_ok)
  with r assms(2) have "validateRuleNeedsApproval (object_keys (approvalSignals pol)) r = Inr ()"
    by (simp add: validateEveryApprovalNeedsSignedApproval_def result_simps)
  moreover from matched assms(5) have "o_action oc = Some APPROVE_ACTION"
    by (simp add: APPROVE_toOutcome)
  moreover from r assms(3) have "\<not> mixes_all_with_other_key r" by (auto simp: list_ex_iff)
  ultimately show ?thesis using matched(4,5) by (auto simp: rule_matches_def intro: gated_rule_true)
qed (use assms(5) in simp)

section \<open>Overlap detection is sound\<close>

lemma strict_eq_opt_evaluated:
  "strict_eq_opt (Some a) x \<Longrightarrow> strict_eq_opt (Some a) y \<Longrightarrow> strict_eq_opt x y"
  by (metis strict_eq_opt_imp_eq)

lemma normalize_evaluate:
  assumes "normalizeBooleanOperator op v = (n, w)"
    and "OperatorEvaluator_evaluate rx a op v = Inr True"
  shows "OperatorEvaluator_evaluate rx a n w = Inr True"
  using assms by (cases "(op, v)" rule: normalizeBooleanOperator.cases) auto

fun in_ray :: "jsnum \<Rightarrow> ray \<Rightarrow> bool" where
  "in_ray x r =
     (case ray_direction r of
        Upper \<Rightarrow> if ray_inclusive r then num_le x (ray_bound r) else num_less x (ray_bound r)
      | Lower \<Rightarrow> if ray_inclusive r then num_le (ray_bound r) x else num_less (ray_bound r) x)"

lemma toRay_evaluate:
  assumes "toRay op v = Some r" "OperatorEvaluator_evaluate rx a op v = Inr True"
  shows "\<exists>x. a = JNum x \<and> in_ray x r"
  using assms by (cases "(op, v)" rule: toRay.cases; cases a) auto

lemma ray_meet:
  assumes "if iu then num_le x u else num_less x u" "if il then num_le l x else num_less l x"
  shows "num_less l u \<or> (\<not> num_less u l \<and> iu \<and> il)"
  using assms
  by (cases x; cases u; cases l) (auto simp: num_le_def split: if_splits)

lemma in_ray_overlap: "in_ray x a \<Longrightarrow> in_ray x b \<Longrightarrow> raysOverlap a b"
  using ray_meet[of "ray_inclusive a" x "ray_bound a" "ray_inclusive b" "ray_bound b"]
    ray_meet[of "ray_inclusive b" x "ray_bound b" "ray_inclusive a" "ray_bound a"]
  by (cases "ray_direction a"; cases "ray_direction b") (auto simp: raysOverlap_def Let_def)

lemma raysOverlap_sound:
  assumes "toRay opA vA = Some rA" "OperatorEvaluator_evaluate rx a opA vA = Inr True"
    and "toRay opB vB = Some rB" "OperatorEvaluator_evaluate rx a opB vB = Inr True"
  shows "raysOverlap rA rB"
  using toRay_evaluate[OF assms(1,2)] toRay_evaluate[OF assms(3,4)] in_ray_overlap by auto

lemma eq_range_sound:
  assumes "strict_eq_opt (Some a) e" "OperatorEvaluator_evaluate rx a op r = Inr True"
    and "op \<in> set RANGE_OPS"
  shows "eq_range_overlap e op r \<noteq> NO_OVERLAP"
proof -
  from assms(1) have "e = Some a" by (metis strict_eq_opt_imp_eq)
  with assms(2,3) show ?thesis
    by (cases a; cases r rule: opt_is_num.cases)
       (auto simp: eq_range_overlap_def RANGE_OPS_def)
qed

lemma operatorOverlap_sound:
  assumes "OperatorEvaluator_evaluate rx a opA vA = Inr True"
    and "OperatorEvaluator_evaluate rx a opB vB = Inr True"
  shows "operatorOverlap opA vA opB vB \<noteq> NO_OVERLAP"
proof -
  obtain nA wA where A: "normalizeBooleanOperator opA vA = (nA, wA)" by fastforce
  obtain nB wB where B: "normalizeBooleanOperator opB vB = (nB, wB)" by fastforce
  have a: "OperatorEvaluator_evaluate rx a nA wA = Inr True"
    using normalize_evaluate[OF A assms(1)] .
  have b: "OperatorEvaluator_evaluate rx a nB wB = Inr True"
    using normalize_evaluate[OF B assms(2)] .
  consider (points) "nA \<in> set POINT_OPS" "nB \<in> set POINT_OPS"
    | (ranges) "nA \<in> set RANGE_OPS" "nB \<in> set RANGE_OPS"
    | (eq_range) "nA = Op_eq" "nB \<in> set RANGE_OPS"
    | (range_eq) "nB = Op_eq" "nA \<in> set RANGE_OPS"
    | (other) "\<not> (nA \<in> set POINT_OPS \<and> nB \<in> set POINT_OPS)"
        "\<not> (nA \<in> set RANGE_OPS \<and> nB \<in> set RANGE_OPS)"
        "\<not> (nA = Op_eq \<and> nB \<in> set RANGE_OPS \<or> nB = Op_eq \<and> nA \<in> set RANGE_OPS)"
    by blast
  then show ?thesis
  proof cases
    case points
    then consider "nA = Op_eq" "nB = Op_eq" | "nA = Op_eq" "nB = Op_neq"
      | "nA = Op_neq" "nB = Op_eq" | "nA = Op_neq" "nB = Op_neq" by (auto simp: POINT_OPS_def)
    then show ?thesis
    proof cases
      case 1
      with a b have "strict_eq_opt wA wB" by (auto intro: strict_eq_opt_evaluated)
      with 1 show ?thesis by (simp add: operatorOverlap_def A B POINT_OPS_def)
    next
      case 2
      with a b have "\<not> strict_eq_opt wA wB" by (auto dest: strict_eq_opt_imp_eq)
      with 2 show ?thesis by (simp add: operatorOverlap_def A B POINT_OPS_def Let_def)
    next
      case 3
      with a b have "\<not> strict_eq_opt wB wA" by (auto dest: strict_eq_opt_imp_eq)
      with 3 show ?thesis by (simp add: operatorOverlap_def A B POINT_OPS_def Let_def)
    qed (simp add: operatorOverlap_def A B POINT_OPS_def)
  next
    case ranges
    then have "nA \<notin> set POINT_OPS" by (auto simp: POINT_OPS_def RANGE_OPS_def)
    with ranges show ?thesis using raysOverlap_sound[OF _ a _ b]
      by (auto simp: operatorOverlap_def A B split: option.splits)
  next
    case eq_range
    then have "nB \<notin> set POINT_OPS" "nA \<notin> set RANGE_OPS"
      by (auto simp: POINT_OPS_def RANGE_OPS_def)
    with eq_range a eq_range_sound[OF _ b, of wA] show ?thesis
      by (simp add: operatorOverlap_def A B)
  next
    case range_eq
    then have "nA \<notin> set POINT_OPS" "nB \<notin> set RANGE_OPS" "nA \<noteq> Op_eq"
      by (auto simp: POINT_OPS_def RANGE_OPS_def)
    with range_eq b eq_range_sound[OF _ a, of wB] show ?thesis
      by (simp add: operatorOverlap_def A B)
  next
    case other
    show ?thesis
      unfolding operatorOverlap_def A B prod.case if_not_P[OF other(1)] if_not_P[OF other(2)]
        if_not_P[OF other(3)] by simp
  qed
qed

lemma leaf_true:
  assumes "c_fact c = Some f" "PolicyEngine_evaluateCondition rx c sigs = Inr True"
  obtains a where "map_of sigs f = Some a"
    "OperatorEvaluator_evaluate rx a (c_operator c) (c_value c) = Inr True"
  using assms by (cases c) (auto split: option.splits)

lemma all_true:
  assumes "c_fact c = None" "\<not> isAlways c" "c_all c = Children cs"
    and "PolicyEngine_evaluateCondition rx c sigs = Inr True" "x \<in> set cs"
  shows "PolicyEngine_evaluateCondition rx x sigs = Inr True"
  using assms by (cases c) (auto simp: isAlways_def result_simps)

lemma leaves_true_overlap:
  assumes "c_fact c = Some f" "c_fact d = Some f"
    and "PolicyEngine_evaluateCondition rx c sigs = Inr True"
    and "PolicyEngine_evaluateCondition rx d sigs = Inr True"
  shows "operatorOverlap (c_operator c) (c_value c) (c_operator d) (c_value d) \<noteq> NO_OVERLAP"
proof -
  from assms(1,3) obtain a where a: "map_of sigs f = Some a"
    "OperatorEvaluator_evaluate rx a (c_operator c) (c_value c) = Inr True" by (rule leaf_true)
  from assms(2,4) obtain b where b: "map_of sigs f = Some b"
    "OperatorEvaluator_evaluate rx b (c_operator d) (c_value d) = Inr True" by (rule leaf_true)
  from a(1) b(1) have "b = a" by simp
  with operatorOverlap_sound[OF a(2)] b(2) show ?thesis by simp
qed

lemma leafVersusAll_sound:
  assumes "c_fact c = Some f" "PolicyEngine_evaluateCondition rx c sigs = Inr True"
    and "\<And>x. x \<in> set cs \<Longrightarrow> PolicyEngine_evaluateCondition rx x sigs = Inr True"
  shows "leafVersusAllOverlap f (c_operator c) (c_value c) cs \<noteq> NO_OVERLAP"
  using assms(3) leaves_true_overlap[OF _ assms(1) _ assms(2)] by (induction cs) auto

lemma allVersusAll_sound:
  assumes "\<And>x. x \<in> set as \<Longrightarrow> PolicyEngine_evaluateCondition rx x sigs = Inr True"
    and "\<And>x. x \<in> set bs \<Longrightarrow> PolicyEngine_evaluateCondition rx x sigs = Inr True"
  shows "allVersusAllOverlap as bs \<noteq> NO_OVERLAP"
proof -
  have "\<not> conjunctsDisjoint x y" if "x \<in> set as" "y \<in> set bs" for x y
    using leaves_true_overlap[OF _ _ assms(1)[OF that(1)] assms(2)[OF that(2)]]
    by (auto simp: conjunctsDisjoint_def)
  then show ?thesis by (auto simp: allVersusAllOverlap_def list_ex_iff)
qed

text \<open>Leaves on two different facts: the one pair of shapes the detector gives up on.\<close>

definition different_fact_leaves :: "condition \<Rightarrow> condition \<Rightarrow> bool" where
  "different_fact_leaves a b =
     (c_fact a \<noteq> None \<and> c_fact b \<noteq> None \<and> c_fact a \<noteq> c_fact b)"

lemma conditionsOverlap_sound:
  assumes "PolicyEngine_evaluateCondition rx a sigs = Inr True"
    and "PolicyEngine_evaluateCondition rx b sigs = Inr True"
    and "\<not> isAlways a" "\<not> isAlways b" "\<not> different_fact_leaves a b"
    and "conditionsOverlap a b = Inr ov"
  shows "ov \<noteq> NO_OVERLAP"
proof (cases "c_fact a"; cases "c_fact b")
  fix f g assume "c_fact a = Some f" "c_fact b = Some g"
  with assms leaves_true_overlap[of a f b] show ?thesis
    by (auto simp: conditionsOverlap_def different_fact_leaves_def)
next
  fix f assume "c_fact a = Some f" "c_fact b = None"
  with assms leafVersusAll_sound[OF _ assms(1)] all_true[OF _ assms(4) _ assms(2)] show ?thesis
    by (auto simp: conditionsOverlap_def split: children.splits)
next
  fix g assume "c_fact a = None" "c_fact b = Some g"
  with assms leafVersusAll_sound[OF _ assms(2)] all_true[OF _ assms(3) _ assms(1)] show ?thesis
    by (auto simp: conditionsOverlap_def split: children.splits)
next
  assume f: "c_fact a = None" "c_fact b = None"
  show ?thesis
  proof (cases "c_all a"; cases "c_all b")
    fix as bs assume c: "c_all a = Children as" "c_all b = Children bs"
    have "allVersusAllOverlap as bs \<noteq> NO_OVERLAP"
      using all_true[OF f(1) assms(3) c(1) assms(1)] all_true[OF f(2) assms(4) c(2) assms(2)]
      by (rule allVersusAll_sound)
    with f c assms(6) show ?thesis by (auto simp: conditionsOverlap_def)
  qed (use assms(6) f in \<open>auto simp: conditionsOverlap_def split: if_splits\<close>)
qed

lemma conditionsOverlap_total:
  assumes "validateCondition rx a = Inr ()" "validateCondition rx b = Inr ()"
  shows "\<exists>ov. conditionsOverlap a b = Inr ov"
proof -
  have "c_fact c = None \<Longrightarrow> c_all c \<noteq> NotArray" if "validateCondition rx c = Inr ()" for c
    using that by (cases c) auto
  from this[OF assms(1)] this[OF assms(2)] show ?thesis
    by (auto simp: conditionsOverlap_def split: option.splits children.splits)
qed

lemma pair_warnings_total:
  assumes "validateCondition rx (rule_condition p) = Inr ()"
    and "validateCondition rx (rule_condition q) = Inr ()"
  shows "\<exists>ws. pair_warnings p q = Inr ws"
  using conditionsOverlap_total[OF assms]
  by (auto simp: pair_warnings_def split: overlap.splits)

lemma conflicts_from_total:
  assumes "\<And>r. r \<in> set rs \<Longrightarrow> validateCondition rx (rule_condition r) = Inr ()"
  shows "\<exists>ws. conflicts_from rs = Inr ws"
  using assms
proof (induction rs)
  case (Cons r rs)
  then obtain vs where "conflicts_from rs = Inr vs" by auto
  moreover have "\<exists>ws. gather_m (pair_warnings r) rs = Inr ws"
    using Cons.prems by (intro gather_m_total pair_warnings_total) auto
  ultimately show ?case by auto
qed simp

lemma conflicts_from_pair:
  assumes "conflicts_from rs = Inr ws" "i < j" "j < length rs" "p = rs ! i" "q = rs ! j"
    and "\<not> isAlways (rule_condition p)" "\<not> isAlways (rule_condition q)"
    and "\<And>ov. conditionsOverlap (rule_condition p) (rule_condition q) = Inr ov \<Longrightarrow> ov \<noteq> NO_OVERLAP"
  shows "\<exists>w\<in>set ws. w_ruleId w = rule_id p \<and> w_conflictingRuleId w = rule_id q"
  using assms
proof (induction rs arbitrary: ws i j)
  case (Cons r rs)
  from Cons.prems(1) obtain us vs where
    u: "(if isAlways (rule_condition r) then
              Inr (case rs of
                     [] \<Rightarrow> []
                   | shadowed # _ \<Rightarrow>
                       [\<lparr>w_level = WARNING, w_ruleId = rule_id r,
                         w_conflictingRuleId = rule_id shadowed\<rparr>])
            else gather_m (pair_warnings r) rs) = Inr us"
    and v: "conflicts_from rs = Inr vs" and ws: "ws = us @ vs"
    by (auto split: sum.splits)
  obtain j' where j: "j = Suc j'" using Cons.prems(2) by (cases j) auto
  show ?case
  proof (cases i)
    case 0
    with Cons.prems j have pr: "p = r" and q: "q \<in> set rs" by auto
    with u Cons.prems have "gather_m (pair_warnings r) rs = Inr us" by simp
    from gather_m_elem[OF this q] obtain xs where xs: "pair_warnings p q = Inr xs"
      "set xs \<subseteq> set us" using pr by auto
    with Cons.prems(6-8) have "\<exists>w\<in>set xs. w_ruleId w = rule_id p \<and> w_conflictingRuleId w = rule_id q"
      by (auto simp: pair_warnings_def split: sum.splits overlap.splits)
    with xs(2) ws show ?thesis by auto
  next
    case (Suc i')
    with Cons.prems j Cons.IH[OF v, of i' j'] ws show ?thesis by auto
  qed
qed simp

end
