(* ===== verification/Signal_Binding.thy ===== *)
theory Signal_Binding
  imports Policy_Safety
begin

text \<open>
  What ties the signals a policy reads, and the policy itself, to the action that will run:
  \<open>packages/policy/src/SignalIntentBinder.ts\<close>, the port of
  \<open>types/SignalStateVerifier.ts\<close> with \<open>CompositeSignalStateVerifier.ts\<close>, and
  \<open>packages/capability-registry/src/CapabilityPolicyBinding.ts\<close>.  The lookups of the version
  in effect and of external registrations are parameters that answer or throw.
\<close>

section \<open>SignalIntentBinder\<close>

text \<open>The intent is the object \<open>{target, parameters}\<close> of the transaction.\<close>

fun resolve_step :: "json option \<Rightarrow> string \<Rightarrow> json option" where
  "resolve_step (Some (JObj kvs)) key = get_prop (JObj kvs) key"
| "resolve_step (Some (JArr xs)) key = get_prop (JArr xs) key"
| "resolve_step _ _ = None"

definition resolveIntentPath :: "json \<Rightarrow> string \<Rightarrow> json option" where
  "resolveIntentPath intent path = foldl resolve_step (Some intent) (split_on (CHR ''.'') path)"

record binding_violation =
  bv_signalKey :: string
  bv_intentPath :: string
  bv_signalValue :: "json option"
  bv_intentValue :: "json option"

datatype binder_error = BinderTypeError

text \<open>The body of the loop: \<open>intentPath.split\<close> throws when the path is no string.\<close>

fun SignalIntentBinder_entry ::
  "signals \<Rightarrow> json \<Rightarrow> string \<times> json \<Rightarrow> (binder_error, binding_violation list) result" where
  "SignalIntentBinder_entry signals intent (signalKey, JStr intentPath) =
     (let signalValue = map_of signals signalKey;
          intentValue = resolveIntentPath intent intentPath
      in Inr (if strict_eq_opt signalValue intentValue then []
              else [\<lparr>bv_signalKey = signalKey, bv_intentPath = intentPath,
                     bv_signalValue = signalValue, bv_intentValue = intentValue\<rparr>]))"
| "SignalIntentBinder_entry signals intent (signalKey, _) = Inl BinderTypeError"

fun falsy :: "json \<Rightarrow> bool" where
  "falsy JNull = True"
| "falsy (JBool b) = (\<not> b)"
| "falsy (JNum n) = (n = NaN \<or> n = Fin 0)"
| "falsy (JStr s) = (s = [])"
| "falsy _ = False"

definition SignalIntentBinder_findViolations ::
  "policy \<Rightarrow> signals \<Rightarrow> json \<Rightarrow> (binder_error, binding_violation list) result" where
  "SignalIntentBinder_findViolations pol signals intent =
     (case boundSignals pol of
        None \<Rightarrow> Inr []
      | Some bindings \<Rightarrow>
          if falsy bindings then Inr []
          else gather_m (SignalIntentBinder_entry signals intent) (spread_object (Some bindings)))"

lemma gather_m_Nil: "gather_m f xs = Inr [] \<longleftrightarrow> (\<forall>x\<in>set xs. f x = Inr [])"
  by (induction xs) (auto split: sum.splits)

text \<open>No violation: every bound signal is, as a value, what the intent holds at its path.\<close>

lemma binder_no_violation:
  assumes "boundSignals pol = Some (JObj entries)"
    and "SignalIntentBinder_findViolations pol signals intent = Inr []"
    and "(k, JStr p) \<in> set entries"
  shows "map_of signals k = resolveIntentPath intent p"
proof -
  from assms have "SignalIntentBinder_entry signals intent (k, JStr p) = Inr []"
    by (auto simp: SignalIntentBinder_findViolations_def gather_m_Nil)
  then show ?thesis by (auto simp: Let_def split: if_splits dest: strict_eq_opt_imp_eq)
qed

lemma validated_bound_entry:
  assumes "validateBoundSignals pol = Inr ()" "k \<in> set (object_keys (boundSignals pol))"
  obtains entries p where "boundSignals pol = Some (JObj entries)" "(k, JStr p) \<in> set entries"
proof -
  from assms obtain entries where e: "boundSignals pol = Some (JObj entries)"
    by (auto simp: validateBoundSignals_def split: option.splits json.splits)
  with assms obtain v where v: "(k, v) \<in> set entries" by (auto simp: obj_keys_def)
  with assms(1) e have "validateBoundEntry (k, v) = Inr ()"
    by (auto simp: validateBoundSignals_def result_simps)
  then obtain p where "v = JStr p" by (auto split: json.splits if_splits)
  with e v that show thesis by blast
qed

section \<open>Signal state verifiers\<close>

datatype stage = Authorize | Release

record verification_request =
  rq_action :: string
  rq_businessTransactionId :: string
  rq_intentParameters :: "jsobject option"
  rq_intentTarget :: "string option"
  rq_stage :: "stage option"
  rq_policy :: "policy option"

record signal_state_violation =
  sv_signalKey :: string
  sv_declaredValue :: "json option"
  sv_actualValue :: "json option"

text \<open>
  A verifier answers with violations or throws, and may change the state it shares with the
  rest of the program (an approval verifier consumes nonces).
\<close>

type_synonym 'st signal_state_verifier =
  "verification_request \<Rightarrow> signals \<Rightarrow> 'st \<Rightarrow> (string, signal_state_violation list) result \<times> 'st"

fun CompositeSignalStateVerifier_findViolations ::
  "'st signal_state_verifier list \<Rightarrow> 'st signal_state_verifier" where
  "CompositeSignalStateVerifier_findViolations [] request signals st = (Inr [], st)"
| "CompositeSignalStateVerifier_findViolations (verifier # vs) request signals st =
     (case verifier request signals st of
        (Inl e, st') \<Rightarrow> (Inl e, st')
      | (Inr violations, st') \<Rightarrow>
          if violations \<noteq> [] then (Inr violations, st')
          else CompositeSignalStateVerifier_findViolations vs request signals st')"

lemma composite_clean_member:
  assumes "CompositeSignalStateVerifier_findViolations vs rq sigs st = (Inr [], st')" "v \<in> set vs"
  shows "\<exists>s s'. v rq sigs s = (Inr [], s')"
  using assms by (induction vs arbitrary: st) (auto split: prod.splits sum.splits if_splits)

section \<open>CapabilityPolicyBinder\<close>

datatype anchor_status = VERIFIED | NO_APPROVAL_RECORD | SIGNATURE_INVALID | CONTENT_MISMATCH

record governance_anchor =
  ga_status :: anchor_status
  ga_approvalRecordId :: "string option"

record policy_reference =
  pr_name :: string
  pr_version :: string
  pr_schemaVersion :: string
  pr_contentHash :: "string option"
  pr_governanceAnchor :: "governance_anchor option"

definition pref :: "string \<Rightarrow> string \<Rightarrow> string \<Rightarrow> policy_reference" where
  "pref n v s = \<lparr>pr_name = n, pr_version = v, pr_schemaVersion = s, pr_contentHash = None,
     pr_governanceAnchor = None\<rparr>"

definition EXTERNAL_BINDING_SCHEMA_VERSION :: string where
  "EXTERNAL_BINDING_SCHEMA_VERSION = ''1.0.0''"

definition CANONICAL_CAPABILITY_POLICY_BINDINGS :: "(string \<times> policy_reference) list" where
  "CANONICAL_CAPABILITY_POLICY_BINDINGS =
     [(''hubspot:deal-fetch'', pref ''hubspot-deal-read'' ''1.0.0'' ''1.0.0''),
      (''hubspot:deal-update'', pref ''hubspot-deal-update'' ''1.1.0'' ''1.0.0''),
      (''github:pr-fetch'', pref ''github-pr-read'' ''1.1.0'' ''1.0.0''),
      (''github:pr-merge'', pref ''github-pr-approval'' ''1.1.0'' ''1.0.0''),
      (''paytm:refund'', pref ''customer-refund'' ''1.2.0'' ''1.0.0''),
      (''slack:post-message'', pref ''slack-post-message'' ''1.1.0'' ''1.0.0'')]"

datatype unavailable_reason =
    ExternalLookupFailed string
  | GovernanceNotEnabled
  | VersionLookupFailed string
  | NoApprovedVersion

datatype policy_in_effect =
    InEffect policy_reference
  | Unavailable (u_bound: policy_reference) (u_noApprovedVersion: bool)
      (u_reason: unavailable_reason)

record capability_violation =
  cv_action :: string
  cv_expected :: policy_reference
  cv_declared :: policy_reference
  cv_reason :: "unavailable_reason option"

type_synonym current_versions = "string \<Rightarrow> (string, string option) result"
type_synonym external_bindings = "string \<Rightarrow> (string, string option) result"

definition CapabilityPolicyBinder_governedVersion ::
  "policy_reference \<Rightarrow> current_versions \<Rightarrow> policy_in_effect" where
  "CapabilityPolicyBinder_governedVersion bound currentVersions =
     (case currentVersions (pr_name bound) of
        Inl e \<Rightarrow> Unavailable bound False (VersionLookupFailed e)
      | Inr None \<Rightarrow> Unavailable bound True NoApprovedVersion
      | Inr (Some v) \<Rightarrow> InEffect (bound\<lparr>pr_version := v\<rparr>))"

definition CapabilityPolicyBinder_externalPolicyInEffect ::
  "current_versions option \<Rightarrow> external_bindings option \<Rightarrow> string \<Rightarrow> policy_in_effect option" where
  "CapabilityPolicyBinder_externalPolicyInEffect currentVersions externalBindings action =
     (case externalBindings of
        None \<Rightarrow> None
      | Some policyFor \<Rightarrow>
          (case policyFor action of
             Inl e \<Rightarrow> Some (Unavailable (pref [] [] []) False (ExternalLookupFailed e))
           | Inr None \<Rightarrow> None
           | Inr (Some policyName) \<Rightarrow>
               let bound = pref policyName [] EXTERNAL_BINDING_SCHEMA_VERSION in
               (case currentVersions of
                  None \<Rightarrow> Some (Unavailable bound False GovernanceNotEnabled)
                | Some cv \<Rightarrow> Some (CapabilityPolicyBinder_governedVersion bound cv))))"

definition CapabilityPolicyBinder_policyInEffect ::
  "current_versions option \<Rightarrow> external_bindings option \<Rightarrow> string \<Rightarrow> policy_in_effect option" where
  "CapabilityPolicyBinder_policyInEffect currentVersions externalBindings action =
     (case map_of CANONICAL_CAPABILITY_POLICY_BINDINGS action of
        None \<Rightarrow> CapabilityPolicyBinder_externalPolicyInEffect currentVersions externalBindings action
      | Some canonical \<Rightarrow>
          (case currentVersions of
             None \<Rightarrow> Some (InEffect canonical)
           | Some cv \<Rightarrow> Some (CapabilityPolicyBinder_governedVersion canonical cv)))"

definition CapabilityPolicyBinder_findViolation ::
  "current_versions option \<Rightarrow> external_bindings option \<Rightarrow> string \<Rightarrow> policy_reference
   \<Rightarrow> capability_violation option" where
  "CapabilityPolicyBinder_findViolation currentVersions externalBindings action declared =
     (case CapabilityPolicyBinder_policyInEffect currentVersions externalBindings action of
        None \<Rightarrow> None
      | Some (Unavailable bound _ reason) \<Rightarrow>
          Some \<lparr>cv_action = action, cv_expected = bound, cv_declared = declared,
                cv_reason = Some reason\<rparr>
      | Some (InEffect expected) \<Rightarrow>
          if pr_name expected = pr_name declared \<and> pr_version expected = pr_version declared
          then None
          else Some \<lparr>cv_action = action, cv_expected = expected, cv_declared = declared,
                     cv_reason = None\<rparr>)"

lemma governedVersion_InEffect:
  "CapabilityPolicyBinder_governedVersion b cv = InEffect p \<longleftrightarrow>
     (\<exists>v. cv (pr_name b) = Inr (Some v) \<and> p = b\<lparr>pr_version := v\<rparr>)"
  by (auto simp: CapabilityPolicyBinder_governedVersion_def split: sum.splits option.splits)

lemma findViolation_None:
  "CapabilityPolicyBinder_findViolation cvs ext action declared = None \<longleftrightarrow>
     (case CapabilityPolicyBinder_policyInEffect cvs ext action of
        None \<Rightarrow> True
      | Some e \<Rightarrow> \<exists>p. e = InEffect p \<and> pr_name p = pr_name declared \<and> pr_version p = pr_version declared)"
  by (auto simp: CapabilityPolicyBinder_findViolation_def
      split: option.splits policy_in_effect.splits)

end
