(* ===== verification/Nonce_Store.thy ===== *)
theory Nonce_Store
  imports Prelude
begin

text \<open>
  Single-use nonces: the interface \<open>packages/envelope-verifier/src/NonceStore.ts\<close> as a locale,
  what every client may rely on over a sequence of requests, and the in-memory store of
  \<open>MemoryNonceStore.ts\<close> as its interpretation.

  Times are milliseconds since the epoch.  \<open>Date.parse\<close> is the date parser of the JavaScript
  engine, a parameter \<open>dp\<close>; \<^term>\<open>None\<close> is \<open>NaN\<close>.
\<close>

type_synonym date_parse = "string \<Rightarrow> int option"

text \<open>An expiry that has not passed: \<open>expiry <= now\<close> is false for \<open>NaN\<close>.\<close>

fun live :: "int \<Rightarrow> int option \<Rightarrow> bool" where
  "live now None = True"
| "live now (Some e) = (now < e)"

lemma live_mono: "live u e \<Longrightarrow> t \<le> u \<Longrightarrow> live t e"
  by (cases e) auto

section \<open>The interface\<close>

text \<open>
  \<open>check\<close> is \<open>checkAndRecord\<close> at a clock reading, \<open>held\<close> the expiry recorded for a nonce.  A
  store may forget a nonce only once its expiry has passed.
\<close>

locale nonce_store =
  fixes check :: "int \<Rightarrow> string \<Rightarrow> string \<Rightarrow> 's \<Rightarrow> bool \<times> 's"
    and held :: "'s \<Rightarrow> string \<Rightarrow> int option option"
    and dp :: date_parse
  assumes accept_iff: "fst (check t n x s) \<longleftrightarrow> held s n = None"
    and reject_same: "held s n \<noteq> None \<Longrightarrow> snd (check t n x s) = s"
    and recorded: "held s n = None \<Longrightarrow> live t (dp x) \<Longrightarrow> held (snd (check t n x s)) n = Some (dp x)"
    and kept: "held s m = Some e \<Longrightarrow> live t e \<Longrightarrow> held (snd (check t n x s)) m = Some e"
begin

lemma accepted_then_held:
  assumes "fst (check t n x s)" "live t (dp x)"
  shows "held (snd (check t n x s)) n = Some (dp x)"
  using assms recorded accept_iff by blast

lemma held_refused: "held s n = Some e \<Longrightarrow> \<not> fst (check t n x s)"
  using accept_iff[of t n x s] by simp

end

section \<open>MemoryNonceStore\<close>

text \<open>The \<open>Map\<close> from nonce to expiry, in insertion order.\<close>

type_synonym memory_nonces = "(string \<times> int option) list"

definition PURGE_THRESHOLD :: nat where
  "PURGE_THRESHOLD = 10000"

definition MemoryNonceStore_purgeExpired :: "int \<Rightarrow> memory_nonces \<Rightarrow> memory_nonces" where
  "MemoryNonceStore_purgeExpired now seen = filter (\<lambda>(nonce, expiry). live now expiry) seen"

definition MemoryNonceStore_size :: "memory_nonces \<Rightarrow> nat" where
  "MemoryNonceStore_size seen = length seen"

definition MemoryNonceStore_checkAndRecord ::
  "date_parse \<Rightarrow> int \<Rightarrow> string \<Rightarrow> string \<Rightarrow> memory_nonces \<Rightarrow> bool \<times> memory_nonces" where
  "MemoryNonceStore_checkAndRecord dp now nonce expiresAt seen =
     (if map_of seen nonce \<noteq> None then (False, seen)
      else let seen' = seen @ [(nonce, dp expiresAt)] in
        (True, if MemoryNonceStore_size seen' > PURGE_THRESHOLD
               then MemoryNonceStore_purgeExpired now seen' else seen'))"

lemma purge_keeps:
  "map_of seen n = Some e \<Longrightarrow> live now e \<Longrightarrow> map_of (MemoryNonceStore_purgeExpired now seen) n = Some e"
  unfolding MemoryNonceStore_purgeExpired_def by (induction seen) (auto split: if_splits)

interpretation memory_nonce_store:
  nonce_store "MemoryNonceStore_checkAndRecord dp" "map_of" dp
proof unfold_locales
  fix t :: int and n x :: string and s :: memory_nonces
  show "fst (MemoryNonceStore_checkAndRecord dp t n x s) \<longleftrightarrow> map_of s n = None"
    by (simp add: MemoryNonceStore_checkAndRecord_def Let_def)
next
  fix t :: int and n x :: string and s :: memory_nonces
  assume "map_of s n \<noteq> None"
  then show "snd (MemoryNonceStore_checkAndRecord dp t n x s) = s"
    by (simp add: MemoryNonceStore_checkAndRecord_def)
next
  fix t :: int and n x :: string and s :: memory_nonces
  assume "map_of s n = None" "live t (dp x)"
  then show "map_of (snd (MemoryNonceStore_checkAndRecord dp t n x s)) n = Some (dp x)"
    by (auto simp: MemoryNonceStore_checkAndRecord_def Let_def map_add_def intro!: purge_keeps)
next
  fix s :: memory_nonces and m n x :: string and e and t :: int
  assume "map_of s m = Some e" "live t e"
  then show "map_of (snd (MemoryNonceStore_checkAndRecord dp t n x s)) m = Some e"
    by (auto simp: MemoryNonceStore_checkAndRecord_def Let_def map_add_def intro!: purge_keeps)
qed

text \<open>The keys of the map stay distinct, so its size is the number of nonces held.\<close>

lemma checkAndRecord_distinct:
  assumes "distinct (map fst seen)"
  shows "distinct (map fst (snd (MemoryNonceStore_checkAndRecord dp now n x seen)))"
proof (cases "map_of seen n = None")
  case True
  then have "distinct (map fst (seen @ [(n, dp x)]))"
    using assms by (simp add: map_of_eq_None_iff)
  then have "distinct (map fst (MemoryNonceStore_purgeExpired now (seen @ [(n, dp x)])))"
    unfolding MemoryNonceStore_purgeExpired_def by (rule distinct_map_filter)
  with \<open>distinct (map fst (seen @ [(n, dp x)]))\<close> True show ?thesis
    by (simp add: MemoryNonceStore_checkAndRecord_def Let_def)
qed (use assms in \<open>auto simp: MemoryNonceStore_checkAndRecord_def\<close>)


section \<open>The store as a set of live nonces\<close>

text \<open>The abstract store: the nonces whose expiry has not passed at a time.\<close>

definition live_nonces :: "int \<Rightarrow> memory_nonces \<Rightarrow> string set" where
  "live_nonces t seen = {n. \<exists>e. map_of seen n = Some e \<and> live t e}"

text \<open>The abstract operation: use a nonce unless it is held, and remember it while it lives.\<close>

definition use_nonce :: "string \<Rightarrow> bool \<Rightarrow> string set \<Rightarrow> bool \<times> string set" where
  "use_nonce n alive S = (if n \<in> S then (False, S) else (True, if alive then insert n S else S))"

lemma live_nonces_purge:
  assumes "t \<le> u" "distinct (map fst seen)"
  shows "live_nonces u (MemoryNonceStore_purgeExpired t seen) = live_nonces u seen"
proof -
  have "map_of (MemoryNonceStore_purgeExpired t seen) n =
      (case map_of seen n of Some e \<Rightarrow> if live t e then Some e else None | None \<Rightarrow> None)" for n
    using assms(2) unfolding MemoryNonceStore_purgeExpired_def
    by (induction seen) (auto split: option.splits if_splits simp: map_of_eq_None_iff image_iff)
  with assms(1) show ?thesis by (auto simp: live_nonces_def dest: live_mono split: option.splits if_splits)
qed

text \<open>
  C40: the in-memory store implements a set of live nonces.  Seen at any time from the clock
  reading of the call on, where every held nonce is still live, recording a nonce answers and
  changes the set as the abstract operation does, whether or not the call purged.
\<close>

theorem nonce_store_refines_set:
  assumes "distinct (map fst seen)" and "t \<le> u" and "\<forall>e. map_of seen n = Some e \<longrightarrow> live u e"
  shows "(fst (MemoryNonceStore_checkAndRecord dp t n x seen),
          live_nonces u (snd (MemoryNonceStore_checkAndRecord dp t n x seen)))
     = use_nonce n (live u (dp x)) (live_nonces u seen)"
proof (cases "map_of seen n")
  case (Some e)
  with assms(3) show ?thesis
    by (auto simp: MemoryNonceStore_checkAndRecord_def use_nonce_def live_nonces_def)
next
  case None
  with assms(1) have d: "distinct (map fst (seen @ [(n, dp x)]))" by (simp add: map_of_eq_None_iff)
  have "live_nonces u (seen @ [(n, dp x)]) = (if live u (dp x) then insert n (live_nonces u seen) else live_nonces u seen)"
    using None by (auto simp: live_nonces_def map_add_def split: option.splits if_splits)
  with None live_nonces_purge[OF assms(2) d] show ?thesis
    by (simp add: MemoryNonceStore_checkAndRecord_def use_nonce_def Let_def live_nonces_def)
qed

theorem nonce_store_refines_set_witness:
  "live_nonces 5 (snd (MemoryNonceStore_checkAndRecord (\<lambda>s. Some 9) 3 ''b'' ''9'' [(''a'', Some 7)])) = {''a'', ''b''}"
proof -
  have "live_nonces 5 [(''a'', Some 7)] = {''a''}" by (auto simp: live_nonces_def split: if_splits)
  with nonce_store_refines_set[of "[(''a'', Some 7)]" 3 5 "''b''" "\<lambda>s. Some 9" "''9''"] show ?thesis
    by (auto simp: use_nonce_def)
qed

text \<open>
  The store stays small.  After a nonce was recorded, the store holds at most
  \<open>PURGE_THRESHOLD\<close> nonces or only nonces that are still live.
\<close>

theorem nonce_store_bounded:
  assumes "fst (MemoryNonceStore_checkAndRecord dp t n x seen)"
  shows "MemoryNonceStore_size (snd (MemoryNonceStore_checkAndRecord dp t n x seen)) \<le> PURGE_THRESHOLD
     \<or> list_all (\<lambda>(m, e). live t e) (snd (MemoryNonceStore_checkAndRecord dp t n x seen))"
  using assms
  by (auto simp: MemoryNonceStore_checkAndRecord_def MemoryNonceStore_purgeExpired_def Let_def list_all_iff
      split: if_splits)

theorem nonce_store_bounded_witness:
  "MemoryNonceStore_size (snd (MemoryNonceStore_checkAndRecord (\<lambda>s. None) 0 ''a'' [] [])) \<le> 10000"
  using nonce_store_bounded[of "\<lambda>s. None" 0 "''a''" "[]" "[]"]
  by (simp add: MemoryNonceStore_checkAndRecord_def MemoryNonceStore_size_def PURGE_THRESHOLD_def)

end
