(* ===== verification/Envelope.thy ===== *)
theory Envelope
  imports Nonce_Store
begin

text \<open>
  The signed execution authorization that crosses the execution boundary:
  \<open>packages/shared/src/domain/execution-authorization.ts\<close> and \<open>executable-content.ts\<close>,
  \<open>packages/crypto/src/AuthorizationSigner.ts\<close> and \<open>AuthorizationVerifier.ts\<close>, and
  \<open>packages/envelope-verifier/src/EnvelopeVerifier.ts\<close>.

  Parameters: the signature scheme over the canonical bytes of a payload, the hash of executable
  content, the key lookup, \<open>randomUUID\<close>, and the conversions between times and strings.
\<close>

section \<open>Data\<close>

record executable_content =
  ec_businessTransactionId :: string
  ec_action :: string
  ec_target :: string
  ec_parameters :: jsobject

datatype content_error = TargetRequired

text \<open>\<open>typeof input.target !== "string" || input.target.trim().length === 0\<close>\<close>

definition toExecutableContent ::
  "string \<Rightarrow> string \<Rightarrow> json option \<Rightarrow> jsobject \<Rightarrow> (content_error, executable_content) result" where
  "toExecutableContent txId action target params =
     (case target of
        Some (JStr t) \<Rightarrow>
          if trim t = [] then Inl TargetRequired
          else Inr \<lparr>ec_businessTransactionId = txId, ec_action = action, ec_target = t,
                    ec_parameters = params\<rparr>
      | _ \<Rightarrow> Inl TargetRequired)"

record authorization_payload =
  ap_version :: "json option"
  ap_authorizationId :: string
  ap_nonce :: string
  ap_decisionId :: string
  ap_businessTransactionId :: string
  ap_policyName :: string
  ap_policyVersion :: string
  ap_authorizedAt :: string
  ap_expiresAt :: string
  ap_businessTransactionHash :: string
  ap_policyContentHash :: "string option"
  ap_signalsHash :: "string option"
  ap_submittedBy :: "string option"
  ap_grantedCapability :: "string option"

record signed_authorization =
  sa_payload :: authorization_payload
  sa_signature :: string
  sa_keyId :: string
  sa_algorithm :: string

type_synonym 'key signature_check = "authorization_payload \<Rightarrow> string \<Rightarrow> 'key \<Rightarrow> bool"

section \<open>AuthorizationVerifier\<close>

definition SUPPORTED_PAYLOAD_VERSION :: json where
  "SUPPORTED_PAYLOAD_VERSION = JNum (Fin 1)"

record authorization_checks =
  ac_versionSupported :: bool
  ac_signatureVerified :: bool
  ac_notExpired :: bool

definition no_authorization_checks :: authorization_checks where
  "no_authorization_checks =
     \<lparr>ac_versionSupported = False, ac_signatureVerified = False, ac_notExpired = False\<rparr>"

text \<open>\<open>Number.isFinite(expiry) && now < expiry\<close>\<close>

fun not_expired :: "int \<Rightarrow> int option \<Rightarrow> bool" where
  "not_expired now None = False"
| "not_expired now (Some e) = (now < e)"

definition AuthorizationVerifier_verify ::
  "date_parse \<Rightarrow> 'key signature_check \<Rightarrow> signed_authorization \<Rightarrow> 'key \<Rightarrow> int
   \<Rightarrow> bool \<times> authorization_checks" where
  "AuthorizationVerifier_verify dp sigv authorization publicKey now =
     (let versionSupported =
            (ap_version (sa_payload authorization) = Some SUPPORTED_PAYLOAD_VERSION) in
      if \<not> versionSupported then (False, no_authorization_checks)
      else let signatureVerified =
                 sigv (sa_payload authorization) (sa_signature authorization) publicKey;
               expiry = dp (ap_expiresAt (sa_payload authorization));
               notExpired = not_expired now expiry
           in (signatureVerified \<and> notExpired,
               \<lparr>ac_versionSupported = versionSupported, ac_signatureVerified = signatureVerified,
                ac_notExpired = notExpired\<rparr>))"

section \<open>AuthorizationSigner\<close>

record authorization_input =
  ai_decisionId :: string
  ai_businessTransactionId :: string
  ai_policyName :: string
  ai_policyVersion :: string
  ai_policyContentHash :: "string option"
  ai_signalsHash :: "string option"
  ai_submittedBy :: "string option"
  ai_grantedCapability :: "string option"
  ai_executableContent :: executable_content

datatype signer_error = InvalidTtl jsnum | InvalidTime | SignerThrew string

text \<open>The range of times a \<open>Date\<close> can hold; \<open>toISOString\<close> throws outside it.\<close>

definition date_max :: int where
  "date_max = 8640000000000000"

definition valid_time :: "int \<Rightarrow> bool" where
  "valid_time t = (- date_max \<le> t \<and> t \<le> date_max)"

text \<open>\<open>new Date(issuedAt.getTime() + ttlSeconds * 1000)\<close> truncates to whole milliseconds.\<close>

definition expiry_time :: "int \<Rightarrow> rat \<Rightarrow> int" where
  "expiry_time issuedAt ttl =
     (let t = of_int issuedAt + ttl * 1000 in if t < 0 then \<lceil>t\<rceil> else \<lfloor>t\<rfloor>)"

text \<open>The same on integers, for evaluation; so is the limit on the lifetime below.\<close>

lemma expiry_time_code [code]:
  "expiry_time issuedAt ttl =
     (let (p, q) = quotient_of ttl; n = issuedAt * q + p * 1000
      in if n < 0 then - (- n div q) else n div q)"
proof -
  obtain p q where pq: "quotient_of ttl = (p, q)" by (rule prod.exhaust)
  then have q: "0 < q" by (rule quotient_of_denom_pos)
  have t: "of_int issuedAt + ttl * 1000 = of_int (issuedAt * q + p * 1000) / (of_int q :: rat)"
    using q by (simp add: quotient_of_div[OF pq] field_simps)
  have "\<lceil>of_int n / (of_int q :: rat)\<rceil> = - (- n div q)" for n
    by (metis ceiling_def floor_divide_of_int_eq minus_divide_left of_int_minus)
  moreover have "\<lfloor>of_int n / (of_int q :: rat)\<rfloor> = n div q"
    "of_int n / (of_int q :: rat) < 0 \<longleftrightarrow> n < 0" for n
    using q by (simp_all add: floor_divide_of_int_eq divide_less_0_iff)
  ultimately show ?thesis unfolding expiry_time_def pq t Let_def prod.case by presburger
qed

definition AuthorizationSigner_buildPayload ::
  "(int \<Rightarrow> string) \<Rightarrow> (executable_content \<Rightarrow> string) \<Rightarrow> string \<Rightarrow> string \<Rightarrow> int
   \<Rightarrow> authorization_input \<Rightarrow> jsnum \<Rightarrow> (signer_error, authorization_payload) result" where
  "AuthorizationSigner_buildPayload isoString hash uuid1 uuid2 issuedAt inp ttlSeconds =
     (case ttlSeconds of
        Fin ttl \<Rightarrow>
          if ttl \<le> 0 then Inl (InvalidTtl ttlSeconds)
          else let expiresAt = expiry_time issuedAt ttl in
            if \<not> valid_time issuedAt \<or> \<not> valid_time expiresAt then Inl InvalidTime
            else Inr \<lparr>ap_version = Some (JNum (Fin 1)), ap_authorizationId = uuid1, ap_nonce = uuid2,
                      ap_decisionId = ai_decisionId inp,
                      ap_businessTransactionId = ai_businessTransactionId inp,
                      ap_policyName = ai_policyName inp, ap_policyVersion = ai_policyVersion inp,
                      ap_authorizedAt = isoString issuedAt, ap_expiresAt = isoString expiresAt,
                      ap_businessTransactionHash = hash (ai_executableContent inp),
                      ap_policyContentHash = ai_policyContentHash inp,
                      ap_signalsHash = ai_signalsHash inp, ap_submittedBy = ai_submittedBy inp,
                      ap_grantedCapability = ai_grantedCapability inp\<rparr>
      | _ \<Rightarrow> Inl (InvalidTtl ttlSeconds))"

definition AuthorizationSigner_sign ::
  "(int \<Rightarrow> string) \<Rightarrow> (executable_content \<Rightarrow> string) \<Rightarrow> string \<Rightarrow> string \<Rightarrow> int
   \<Rightarrow> (authorization_payload \<Rightarrow> 'priv \<Rightarrow> string) \<Rightarrow> string
   \<Rightarrow> authorization_input \<Rightarrow> 'priv \<Rightarrow> string \<Rightarrow> jsnum
   \<Rightarrow> (signer_error, signed_authorization) result" where
  "AuthorizationSigner_sign isoString hash uuid1 uuid2 issuedAt signer algorithm inp privateKey keyId ttl =
     (case AuthorizationSigner_buildPayload isoString hash uuid1 uuid2 issuedAt inp ttl of
        Inl e \<Rightarrow> Inl e
      | Inr payload \<Rightarrow>
          Inr \<lparr>sa_payload = payload, sa_signature = signer payload privateKey, sa_keyId = keyId,
               sa_algorithm = algorithm\<rparr>)"

text \<open>With a signer that keeps the private key to itself and may throw.\<close>

definition AuthorizationSigner_signWithSigner ::
  "(int \<Rightarrow> string) \<Rightarrow> (executable_content \<Rightarrow> string) \<Rightarrow> string \<Rightarrow> string \<Rightarrow> int
   \<Rightarrow> (authorization_payload \<Rightarrow> string \<Rightarrow> (string, string) result) \<Rightarrow> string
   \<Rightarrow> authorization_input \<Rightarrow> string \<Rightarrow> jsnum
   \<Rightarrow> (signer_error, signed_authorization) result" where
  "AuthorizationSigner_signWithSigner isoString hash uuid1 uuid2 issuedAt signer algorithm inp keyId ttl =
     (case AuthorizationSigner_buildPayload isoString hash uuid1 uuid2 issuedAt inp ttl of
        Inl e \<Rightarrow> Inl e
      | Inr payload \<Rightarrow>
          (case signer payload keyId of
             Inl x \<Rightarrow> Inl (SignerThrew x)
           | Inr value \<Rightarrow>
               Inr \<lparr>sa_payload = payload, sa_signature = value, sa_keyId = keyId,
                    sa_algorithm = algorithm\<rparr>))"

section \<open>EnvelopeVerifier\<close>

record key_expiry_entry =
  ke_expiresAt :: "int option option"  \<comment> \<open>the inner \<^term>\<open>None\<close> is an invalid \<open>Date\<close>\<close>
  ke_revoked :: "bool option"

record 'key envelope_verifier =
  ev_publicKey :: 'key
  ev_keyProvider :: "(string \<Rightarrow> (string, 'key) result) option"
  ev_keyExpiryStore :: "(string \<Rightarrow> key_expiry_entry option) option"
  ev_maxTtlSeconds :: jsnum

definition DEFAULT_MAX_TTL_SECONDS :: jsnum where
  "DEFAULT_MAX_TTL_SECONDS = Fin 300"

definition EnvelopeVerifier_create ::
  "'key \<Rightarrow> (string \<Rightarrow> (string, 'key) result) option \<Rightarrow> (string \<Rightarrow> key_expiry_entry option) option
   \<Rightarrow> jsnum option \<Rightarrow> 'key envelope_verifier" where
  "EnvelopeVerifier_create publicKey keyProvider keyExpiryStore maxTtl =
     \<lparr>ev_publicKey = publicKey, ev_keyProvider = keyProvider, ev_keyExpiryStore = keyExpiryStore,
      ev_maxTtlSeconds = (case maxTtl of Some m \<Rightarrow> m | None \<Rightarrow> DEFAULT_MAX_TTL_SECONDS)\<rparr>"

text \<open>\<open>entry?.revoked === true || entry?.expiresAt !== undefined && entry.expiresAt <= now\<close>\<close>

definition key_dead :: "int \<Rightarrow> key_expiry_entry option \<Rightarrow> bool" where
  "key_dead now entry =
     (case entry of
        None \<Rightarrow> False
      | Some e \<Rightarrow> ke_revoked e = Some True \<or>
          (case ke_expiresAt e of Some (Some t) \<Rightarrow> t \<le> now | _ \<Rightarrow> False))"

definition EnvelopeVerifier_resolveKey ::
  "'key envelope_verifier \<Rightarrow> signed_authorization \<Rightarrow> int \<Rightarrow> 'key option" where
  "EnvelopeVerifier_resolveKey v authorization now =
     (case ev_keyProvider v of
        None \<Rightarrow> Some (ev_publicKey v)
      | Some getPublicKey \<Rightarrow>
          if (case ev_keyExpiryStore v of
                None \<Rightarrow> False
              | Some expiry_of \<Rightarrow> key_dead now (expiry_of (sa_keyId authorization)))
          then None
          else (case getPublicKey (sa_keyId authorization) of Inl _ \<Rightarrow> None | Inr k \<Rightarrow> Some k))"

record envelope_checks =
  ek_keyValid :: "bool option"
  ek_versionSupported :: bool
  ek_signatureVerified :: bool
  ek_notExpired :: bool
  ek_ttlWithinPolicy :: bool

fun ttl_within :: "int option \<Rightarrow> int option \<Rightarrow> jsnum \<Rightarrow> bool" where
  "ttl_within (Some e) (Some a) m = num_le (Fin ((of_int e - of_int a) / 1000)) m"
| "ttl_within _ _ _ = False"

lemma ttl_within_Fin [code]:
  "ttl_within (Some e) (Some a) (Fin m) = (case quotient_of m of (p, q) \<Rightarrow> (e - a) * q \<le> p * 1000)"
proof -
  obtain p q where pq: "quotient_of m = (p, q)" by (rule prod.exhaust)
  then have q: "(0::rat) < of_int q" using quotient_of_denom_pos by fastforce
  have "((of_int e - of_int a) / 1000 \<le> (m::rat)) = (of_int ((e - a) * q) \<le> (of_int (p * 1000) :: rat))"
    using q by (simp add: quotient_of_div[OF pq] field_simps)
  then show ?thesis by (simp add: pq del: of_int_mult of_int_diff)
qed

lemma ttl_within_other [code]:
  "ttl_within (Some e) (Some a) NaN = False" "ttl_within (Some e) (Some a) NegInf = False"
  "ttl_within (Some e) (Some a) PosInf = True" "ttl_within None x m = False" "ttl_within (Some e) None m = False"
  by (simp_all add: num_le_def)

definition EnvelopeVerifier_verifyChecks ::
  "date_parse \<Rightarrow> 'key signature_check \<Rightarrow> 'key envelope_verifier \<Rightarrow> signed_authorization \<Rightarrow> int
   \<Rightarrow> bool \<times> envelope_checks" where
  "EnvelopeVerifier_verifyChecks dp sigv v authorization now =
     (let resolvedKey = EnvelopeVerifier_resolveKey v authorization now;
          keyValid = (if ev_keyProvider v = None then None else Some (resolvedKey \<noteq> None));
          checks = (case resolvedKey of
                      Some k \<Rightarrow> snd (AuthorizationVerifier_verify dp sigv authorization k now)
                    | None \<Rightarrow> no_authorization_checks);
          ttlWithinPolicy = ttl_within (dp (ap_expiresAt (sa_payload authorization)))
                              (dp (ap_authorizedAt (sa_payload authorization))) (ev_maxTtlSeconds v)
      in (keyValid \<noteq> Some False \<and> ac_versionSupported checks \<and> ac_signatureVerified checks
          \<and> ac_notExpired checks \<and> ttlWithinPolicy,
          \<lparr>ek_keyValid = keyValid, ek_versionSupported = ac_versionSupported checks,
           ek_signatureVerified = ac_signatureVerified checks,
           ek_notExpired = ac_notExpired checks, ek_ttlWithinPolicy = ttlWithinPolicy\<rparr>))"

text \<open>The nonce store is a parameter: \<open>check\<close> is its \<open>checkAndRecord\<close> at a clock reading.\<close>

type_synonym 's nonce_check = "int \<Rightarrow> string \<Rightarrow> string \<Rightarrow> 's \<Rightarrow> bool \<times> 's"

definition EnvelopeVerifier_consumeNonce ::
  "'s nonce_check \<Rightarrow> int \<Rightarrow> signed_authorization \<Rightarrow> 's \<Rightarrow> bool \<times> 's" where
  "EnvelopeVerifier_consumeNonce check clock authorization s =
     check clock (ap_nonce (sa_payload authorization)) (ap_expiresAt (sa_payload authorization)) s"

record envelope_result =
  er_valid :: bool
  er_checks :: envelope_checks
  er_nonceUnseen :: bool

text \<open>
  \<open>verify\<close> checks the envelope against the time \<open>now\<close> it was called with and consumes the
  nonce at the later clock reading \<open>clock\<close>.
\<close>

definition EnvelopeVerifier_verify ::
  "date_parse \<Rightarrow> 'key signature_check \<Rightarrow> 'key envelope_verifier \<Rightarrow> 's nonce_check
   \<Rightarrow> signed_authorization \<Rightarrow> int \<Rightarrow> int \<Rightarrow> 's \<Rightarrow> envelope_result \<times> 's" where
  "EnvelopeVerifier_verify dp sigv v check authorization now clock s =
     (case EnvelopeVerifier_verifyChecks dp sigv v authorization now of
        (passed, checks) \<Rightarrow>
          (case (if passed then EnvelopeVerifier_consumeNonce check clock authorization s
                 else (False, s)) of
             (nonceUnseen, s') \<Rightarrow>
               (\<lparr>er_valid = (passed \<and> nonceUnseen), er_checks = checks,
                 er_nonceUnseen = nonceUnseen\<rparr>, s')))"

section \<open>What passing checks mean\<close>

lemma verifyChecks_passed_iff:
  "fst (EnvelopeVerifier_verifyChecks dp sigv v a now) \<longleftrightarrow>
     (\<exists>k e i. EnvelopeVerifier_resolveKey v a now = Some k
        \<and> ap_version (sa_payload a) = Some SUPPORTED_PAYLOAD_VERSION
        \<and> sigv (sa_payload a) (sa_signature a) k
        \<and> dp (ap_expiresAt (sa_payload a)) = Some e \<and> now < e
        \<and> dp (ap_authorizedAt (sa_payload a)) = Some i
        \<and> num_le (Fin ((of_int e - of_int i) / 1000)) (ev_maxTtlSeconds v))"
proof -
  let ?e = "dp (ap_expiresAt (sa_payload a))" and ?i = "dp (ap_authorizedAt (sa_payload a))"
  have "fst (EnvelopeVerifier_verifyChecks dp sigv v a now) \<longleftrightarrow>
      (\<exists>k. EnvelopeVerifier_resolveKey v a now = Some k
         \<and> ap_version (sa_payload a) = Some SUPPORTED_PAYLOAD_VERSION
         \<and> sigv (sa_payload a) (sa_signature a) k)
      \<and> not_expired now ?e \<and> ttl_within ?e ?i (ev_maxTtlSeconds v)"
    by (cases "EnvelopeVerifier_resolveKey v a now")
       (auto simp: EnvelopeVerifier_verifyChecks_def AuthorizationVerifier_verify_def
         no_authorization_checks_def Let_def split: if_splits)
  then show ?thesis by (cases ?e; cases ?i) auto
qed

text \<open>A failed check leaves the nonce store alone.\<close>

lemma verify_failed_no_effect:
  "\<not> fst (EnvelopeVerifier_verifyChecks dp sigv v a now) \<Longrightarrow>
     snd (EnvelopeVerifier_verify dp sigv v check a now clock s) = s \<and>
     \<not> er_valid (fst (EnvelopeVerifier_verify dp sigv v check a now clock s))"
  by (auto simp: EnvelopeVerifier_verify_def split: prod.splits)

lemma verify_valid_iff:
  "er_valid (fst (EnvelopeVerifier_verify dp sigv v check a now clock s)) \<longleftrightarrow>
     fst (EnvelopeVerifier_verifyChecks dp sigv v a now) \<and>
     fst (check clock (ap_nonce (sa_payload a)) (ap_expiresAt (sa_payload a)) s)"
  by (auto simp: EnvelopeVerifier_verify_def EnvelopeVerifier_consumeNonce_def split: prod.splits)

lemma verify_state:
  "snd (EnvelopeVerifier_verify dp sigv v check a now clock s) =
     (if fst (EnvelopeVerifier_verifyChecks dp sigv v a now)
      then snd (check clock (ap_nonce (sa_payload a)) (ap_expiresAt (sa_payload a)) s) else s)"
  by (auto simp: EnvelopeVerifier_verify_def EnvelopeVerifier_consumeNonce_def split: prod.splits)

section \<open>Sequences of verifications\<close>

record attempt =
  at_authorization :: signed_authorization
  at_now :: int
  at_clock :: int

text \<open>The results of a sequence of calls of \<open>verify\<close> against one store.\<close>

fun verify_run ::
  "date_parse \<Rightarrow> 'key signature_check \<Rightarrow> 'key envelope_verifier \<Rightarrow> 's nonce_check
   \<Rightarrow> attempt list \<Rightarrow> 's \<Rightarrow> envelope_result list" where
  "verify_run dp sigv v check [] s = []"
| "verify_run dp sigv v check (a # as) s =
     (case EnvelopeVerifier_verify dp sigv v check (at_authorization a) (at_now a) (at_clock a) s of
        (r, s') \<Rightarrow> r # verify_run dp sigv v check as s')"

lemma length_verify_run [simp]: "length (verify_run dp sigv v check as s) = length as"
  by (induction as arbitrary: s) (auto split: prod.splits)

context nonce_store
begin

lemma held_after_verify:
  assumes "held s n = Some e" "live clock e"
  shows "held (snd (EnvelopeVerifier_verify d sigv v check a now clock s)) n = Some e"
  using kept[OF assms] assms by (simp add: verify_state)

lemma held_never_valid:
  assumes "held s n = Some e" "j < length as"
    and "ap_nonce (sa_payload (at_authorization (as ! j))) = n"
    and "\<And>i. i < j \<Longrightarrow> live (at_clock (as ! i)) e"
  shows "\<not> er_valid (verify_run d sigv v check as s ! j)"
  using assms
proof (induction as arbitrary: s j)
  case (Cons a as)
  show ?case
  proof (cases j)
    case 0
    with Cons.prems held_refused[of s n e] show ?thesis
      by (auto simp: verify_valid_iff split_beta)
  next
    case (Suc i)
    from Cons.prems(4)[of 0] Suc have "live (at_clock a) e" by simp
    note h = held_after_verify[OF Cons.prems(1) this]
    have "\<not> er_valid (verify_run d sigv v check as
            (snd (EnvelopeVerifier_verify d sigv v check (at_authorization a) (at_now a)
               (at_clock a) s)) ! i)"
      using Cons.prems Suc by (intro Cons.IH[OF h]) force+
    with Suc show ?thesis by (simp add: split_beta)
  qed
qed simp

text \<open>Two verifications of one nonce, the second consumed before the expiry, do not both pass.\<close>

lemma single_use:
  assumes "sorted (map at_clock as)" "i < j" "j < length as"
    and "sa_payload (at_authorization (as ! j)) = sa_payload (at_authorization (as ! i))"
    and "live (at_clock (as ! j)) (dp (ap_expiresAt (sa_payload (at_authorization (as ! i)))))"
    and "er_valid (verify_run d sigv v check as s ! i)"
  shows "\<not> er_valid (verify_run d sigv v check as s ! j)"
  using assms
proof (induction as arbitrary: s i j)
  case (Cons a as)
  obtain k where j: "j = Suc k" using Cons.prems(2) by (cases j) auto
  let ?s = "snd (EnvelopeVerifier_verify d sigv v check (at_authorization a) (at_now a) (at_clock a) s)"
  let ?e = "dp (ap_expiresAt (sa_payload (at_authorization a)))"
  show ?case
  proof (cases i)
    case 0
    have mono: "at_clock a \<le> at_clock (as ! k)"
      "\<And>l. l < k \<Longrightarrow> at_clock (as ! l) \<le> at_clock (as ! k)"
      using Cons.prems(1,3) j by (auto simp: sorted_iff_nth_mono)
    have le: "live (at_clock (as ! k)) ?e" using Cons.prems(5) j 0 by simp
    from Cons.prems(6) 0
    have "er_valid (fst (EnvelopeVerifier_verify d sigv v check (at_authorization a) (at_now a)
            (at_clock a) s))" by (simp add: split_beta)
    then have "held ?s (ap_nonce (sa_payload (at_authorization a))) = Some ?e"
      using accepted_then_held[OF _ live_mono[OF le mono(1)]]
      by (simp add: verify_valid_iff verify_state)
    then have "\<not> er_valid (verify_run d sigv v check as ?s ! k)"
      by (rule held_never_valid) (use Cons.prems j 0 live_mono[OF le mono(2)] in auto)
    with j show ?thesis by (simp add: split_beta)
  next
    case (Suc i')
    have "\<not> er_valid (verify_run d sigv v check as ?s ! k)"
      using Cons.prems j Suc by (intro Cons.IH[of i' k]) (auto simp: split_beta)
    with j show ?thesis by (simp add: split_beta)
  qed
qed simp

end

end
