(* ===== verification/Transactions.thy ===== *)
theory Transactions
  imports Signal_Binding Envelope
begin

text \<open>
  Business transactions and what the runtime derives from them: the data of
  \<open>packages/shared/src/domain\<close> (\<open>business-transaction.ts\<close>, \<open>decision.ts\<close>,
  \<open>execution.ts\<close>, \<open>execution-evidence.ts\<close>, \<open>refusal-record.ts\<close>), the validator and
  the service that accept a transaction (\<open>packages/runtime/src\<close>), and the in-memory repository
  of \<open>packages/storage/src/memory/MemoryBusinessTransactionRepository.ts\<close>.
\<close>

section \<open>Data\<close>

record transaction_metadata =
  tm_businessTransactionId :: string
  tm_tenantId :: "string option"
  tm_submittedBy :: "string option"
  tm_grantedCapability :: "string option"

record authority =
  au_authorityId :: string
  au_principalId :: string

record granted_authorization =
  za_authorizationId :: string
  za_authorityId :: string
  za_purpose :: string

record transaction_intent =
  in_intentId :: string
  in_authorizationId :: string
  in_action :: string
  in_target :: string
  in_parameters :: jsobject

datatype transaction_status =
    STATUS_RECEIVED | STATUS_POLICY_EVALUATED | STATUS_APPROVED | STATUS_REJECTED
  | STATUS_OVERRIDDEN | STATUS_EXECUTING | STATUS_EXECUTED | STATUS_FAILED | STATUS_VERIFIED

record business_transaction =
  bt_businessTransactionId :: string
  bt_metadata :: transaction_metadata
  bt_authority :: authority
  bt_authorization :: granted_authorization
  bt_intent :: transaction_intent
  bt_policy :: policy_reference
  bt_signals :: "signals option"
  bt_status :: "transaction_status option"
  bt_createdAt :: int

datatype decision_outcome = APPROVED | REJECTED

record decision =
  dn_decisionId :: string
  dn_intentId :: string
  dn_policy :: policy_reference
  dn_signals :: signals
  dn_outcome :: decision_outcome
  dn_reason :: "string option"
  dn_matchedRuleId :: "string option"
  dn_evaluatedRules :: "nat option"
  dn_matchedPath :: "string option list option"
  dn_evaluatedAt :: int

record signature =
  sg_algorithm :: string
  sg_keyId :: string
  sg_value :: string
  sg_signedAt :: int

record execution_evidence =
  ee_businessTransactionId :: string
  ee_action :: string
  ee_target :: string
  ee_parameters :: jsobject
  ee_success :: bool
  ee_executedAt :: int
  ee_attributes :: "jsobject option"

datatype execution_status = PROCESSING | COMPLETED | EXECUTION_FAILED

datatype execution_mode = SYNC | ASYNC

record execution =
  ex_executionId :: string
  ex_businessTransactionId :: string
  ex_decision :: decision
  ex_status :: execution_status
  ex_mode :: execution_mode
  ex_startedAt :: int
  ex_completedAt :: "int option"
  ex_evidence :: "execution_evidence option"
  ex_metadata :: "jsobject option"
  ex_previousChainHash :: "string option option"  \<comment> \<open>the inner \<^term>\<open>None\<close> is \<open>null\<close>\<close>
  ex_chainHash :: "string option"
  ex_chainSignature :: "signature option"

datatype verification_status = RECORD_VERIFIED | RECORD_FAILED

record verification =
  vf_verificationId :: string
  vf_businessTransactionId :: string
  vf_status :: verification_status
  vf_message :: "string list"  \<comment> \<open>the failures joined into the message\<close>
  vf_verifiedAt :: int
  vf_trustRecordHash :: string

record signature_entry =
  sy_algorithm :: string
  sy_keyId :: string
  sy_signature :: string

record receipt =
  rp_receiptId :: string
  rp_businessTransactionId :: string
  rp_executionId :: "string option"
  rp_trustRecordHash :: string
  rp_receiptHash :: string
  rp_signature :: string
  rp_algorithm :: string
  rp_schemaVersion :: "nat option"
  rp_signatures :: "signature_entry list option"
  rp_issuedAt :: int

record override_artifact =
  ov_overrideId :: string
  ov_businessTransactionId :: string
  ov_approvedBy :: string
  ov_reason :: string
  ov_justification :: "string option"
  ov_approvedAt :: int

section \<open>BusinessTransactionValidator\<close>

datatype transaction_error =
    MetadataIdMismatch
  | AuthorityMismatch
  | AuthorizationMismatch
  | PolicyNameRequired
  | PolicyVersionRequired
  | ActionRequired
  | DuplicateBusinessTransaction string

definition BusinessTransactionValidator_validate ::
  "business_transaction \<Rightarrow> (transaction_error, unit) result" where
  "BusinessTransactionValidator_validate t =
     (if bt_businessTransactionId t \<noteq> tm_businessTransactionId (bt_metadata t)
        then Inl MetadataIdMismatch
      else if za_authorityId (bt_authorization t) \<noteq> au_authorityId (bt_authority t)
        then Inl AuthorityMismatch
      else if in_authorizationId (bt_intent t) \<noteq> za_authorizationId (bt_authorization t)
        then Inl AuthorizationMismatch
      else if trim (pr_name (bt_policy t)) = [] then Inl PolicyNameRequired
      else if trim (pr_version (bt_policy t)) = [] then Inl PolicyVersionRequired
      else if trim (in_action (bt_intent t)) = [] then Inl ActionRequired
      else Inr ())"

section \<open>The in-memory repository\<close>

type_synonym transaction_store = "(string \<times> business_transaction) list"

definition MemoryTransactions_create ::
  "business_transaction \<Rightarrow> transaction_store
   \<Rightarrow> (transaction_error, business_transaction) result \<times> transaction_store" where
  "MemoryTransactions_create t s =
     (if map_of s (bt_businessTransactionId t) \<noteq> None
      then (Inl (DuplicateBusinessTransaction (bt_businessTransactionId t)), s)
      else (Inr t, map_set (bt_businessTransactionId t) t s))"

definition MemoryTransactions_findById :: "transaction_store \<Rightarrow> string \<Rightarrow> business_transaction option" where
  "MemoryTransactions_findById s txId = map_of s txId"

definition MemoryTransactions_exists :: "transaction_store \<Rightarrow> string \<Rightarrow> bool" where
  "MemoryTransactions_exists s txId = (map_of s txId \<noteq> None)"

text \<open>\<open>values.slice(start, start + pageSize)\<close>: a negative index counts from the end.\<close>

definition js_slice :: "'a list \<Rightarrow> int \<Rightarrow> int \<Rightarrow> 'a list" where
  "js_slice xs a b =
     (let clip = (\<lambda>i. if i < 0 then max 0 (int (length xs) + i) else min i (int (length xs)))
      in take (nat (clip b - clip a)) (drop (nat (clip a)) xs))"

definition MemoryTransactions_list :: "transaction_store \<Rightarrow> int \<Rightarrow> int \<Rightarrow> business_transaction list" where
  "MemoryTransactions_list s page pageSize =
     (let start = (page - 1) * pageSize in js_slice (map snd s) start (start + pageSize))"

section \<open>BusinessTransactionService\<close>

text \<open>\<open>others\<close>: what other requests do to the repository between the check and the write.\<close>

definition BusinessTransactionService_accept ::
  "(transaction_store \<Rightarrow> transaction_store) \<Rightarrow> business_transaction \<Rightarrow> transaction_store
   \<Rightarrow> (transaction_error, business_transaction) result \<times> transaction_store" where
  "BusinessTransactionService_accept others t s =
     (case BusinessTransactionValidator_validate t of
        Inl e \<Rightarrow> (Inl e, s)
      | Inr _ \<Rightarrow>
          if MemoryTransactions_exists s (bt_businessTransactionId t)
          then (Inl (DuplicateBusinessTransaction (bt_businessTransactionId t)), s)
          else MemoryTransactions_create t (others s))"

lemma accept_Inr:
  "BusinessTransactionService_accept others t s = (Inr u, s') \<longleftrightarrow>
     u = t \<and> BusinessTransactionValidator_validate t = Inr ()
     \<and> map_of s (bt_businessTransactionId t) = None
     \<and> map_of (others s) (bt_businessTransactionId t) = None
     \<and> s' = map_set (bt_businessTransactionId t) t (others s)"
  by (auto simp: BusinessTransactionService_accept_def MemoryTransactions_create_def
      MemoryTransactions_exists_def split: sum.splits if_splits)

text \<open>An accepted transaction stays as it is, whatever is accepted after it.\<close>

lemma accept_keeps:
  assumes "map_of s i = Some t" "map_of (others s) i = Some t"
  shows "map_of (snd (BusinessTransactionService_accept others u s)) i = Some t"
  using assms
  by (auto simp: BusinessTransactionService_accept_def MemoryTransactions_create_def split: sum.splits)

end
