(* ===== verification/Approval.thy ===== *)
theory Approval
  imports Signal_Binding Envelope "HOL-Library.Monad_Syntax"
begin

text \<open>
  Signed human approvals, \<open>packages/approval/src\<close>: the structural guard
  \<open>SignedApprovalGuard.ts\<close>, the scope comparison \<open>ApprovalScopeEvaluator.ts\<close>, the trusted issuers
  \<open>ApprovalIssuerRegistry.ts\<close>, the verification of one artifact \<open>ApprovalVerifier.ts\<close> and of all
  approvals a policy asks for \<open>ApprovalSignalVerifier.ts\<close>.  An artifact arrives as JSON, so its
  signature is checked over the JSON payload; the signature scheme is a parameter.
\<close>

section \<open>Artifacts\<close>

text \<open>What \<open>ApprovalVerifier\<close> reads of a \<open>SignedApproval\<close>, with the payload as it was signed.\<close>

record signed_approval =
  as_payload :: json
  as_version :: "json option"
  as_approverId :: string
  as_keyId :: string
  as_expiresAt :: string
  as_capability :: string
  as_resourceId :: string
  as_nonce :: string
  as_comparator :: string
  as_scopeValue :: json
  as_signature :: string

text \<open>\<open>typeof v[k] === "string"\<close> and \<open>typeof v[k] === "object" && v[k] !== null\<close>, with the value.\<close>

definition str_prop :: "json \<Rightarrow> string \<Rightarrow> string option" where
  "str_prop v k = (case get_prop v k of Some (JStr s) \<Rightarrow> Some s | _ \<Rightarrow> None)"

definition obj_prop :: "json \<Rightarrow> string \<Rightarrow> json option" where
  "obj_prop v k = (case get_prop v k of
     Some x \<Rightarrow> if is_object_or_array x then Some x else None | None \<Rightarrow> None)"

definition isApprovalScopeShape :: "json option \<Rightarrow> bool" where
  "isApprovalScopeShape v =
     (case v of
        None \<Rightarrow> False
      | Some scope \<Rightarrow>
          is_object_or_array scope \<and> str_prop scope ''field'' \<noteq> None
          \<and> str_prop scope ''comparator'' \<noteq> None
          \<and> (case get_prop scope ''value'' of
               None \<Rightarrow> False
             | Some bound \<Rightarrow>
                 is_num bound \<or> is_str bound
                 \<or> (is_object_or_array bound \<and> opt_is_num (get_prop bound ''min'')
                     \<and> opt_is_num (get_prop bound ''max''))))"

text \<open>The guard, returning the fields it has checked.\<close>

definition asSignedApproval :: "json \<Rightarrow> signed_approval option" where
  "asSignedApproval v = do {
     payload \<leftarrow> obj_prop v ''payload'';
     signature \<leftarrow> obj_prop v ''signature'';
     issuer \<leftarrow> obj_prop payload ''issuer'';
     (if get_prop payload ''version'' = Some (JNum (Fin 1)) then Some () else None);
     approvalId \<leftarrow> str_prop payload ''approvalId'';
     issuedAt \<leftarrow> str_prop payload ''issuedAt'';
     expiresAt \<leftarrow> str_prop payload ''expiresAt'';
     capability \<leftarrow> str_prop payload ''capability'';
     resourceId \<leftarrow> str_prop payload ''resourceId'';
     nonce \<leftarrow> str_prop payload ''nonce'';
     approverId \<leftarrow> str_prop issuer ''approverId'';
     keyId \<leftarrow> str_prop issuer ''keyId'';
     (if isApprovalScopeShape (get_prop payload ''scope'') then Some () else None);
     sigValue \<leftarrow> str_prop signature ''value'';
     algorithm \<leftarrow> str_prop signature ''algorithm'';
     sigKeyId \<leftarrow> str_prop signature ''keyId'';
     scope \<leftarrow> get_prop payload ''scope'';
     comparator \<leftarrow> str_prop scope ''comparator'';
     bound \<leftarrow> get_prop scope ''value'';
     Some \<lparr>as_payload = payload, as_version = get_prop payload ''version'',
           as_approverId = approverId, as_keyId = keyId, as_expiresAt = expiresAt,
           as_capability = capability, as_resourceId = resourceId, as_nonce = nonce,
           as_comparator = comparator, as_scopeValue = bound, as_signature = sigValue\<rparr>
   }"

definition isSignedApprovalShape :: "json \<Rightarrow> bool" where
  "isSignedApprovalShape v = (asSignedApproval v \<noteq> None)"

section \<open>Scope\<close>

definition evaluateApprovalScope :: "json \<Rightarrow> string \<Rightarrow> json \<Rightarrow> bool" where
  "evaluateApprovalScope actual comparator bound =
     (if comparator = ''eq'' then strict_eq actual bound
      else case actual of
        JNum a \<Rightarrow>
          if comparator = ''between'' then
            (case (get_prop bound ''min'', get_prop bound ''max'') of
               (Some (JNum lo), Some (JNum hi)) \<Rightarrow> num_le lo a \<and> num_le a hi
             | _ \<Rightarrow> False)
          else (case bound of
                  JNum b \<Rightarrow>
                    if comparator = ''lte'' then num_le a b
                    else if comparator = ''gte'' then num_le b a
                    else if comparator = ''lt'' then num_less a b
                    else if comparator = ''gt'' then num_less b a
                    else False
                | _ \<Rightarrow> False)
      | _ \<Rightarrow> False)"

section \<open>Issuers\<close>

record 'key trusted_issuer =
  ti_approverId :: string
  ti_keyId :: string
  ti_publicKey :: 'key
  ti_revoked :: bool

record 'key resolved_issuer =
  ri_publicKey :: 'key
  ri_revoked :: bool

definition issuer_key :: "string \<Rightarrow> string \<Rightarrow> string" where
  "issuer_key approverId keyId = approverId @ '':'' @ keyId"

text \<open>The \<open>Map\<close> the constructor fills: a later issuer of the same key replaces an earlier one.\<close>

definition StaticApprovalIssuerRegistry_create ::
  "'key trusted_issuer list \<Rightarrow> (string \<rightharpoonup> 'key trusted_issuer)" where
  "StaticApprovalIssuerRegistry_create issuers =
     foldl (\<lambda>m i. m(issuer_key (ti_approverId i) (ti_keyId i) \<mapsto> i)) Map.empty issuers"

definition StaticApprovalIssuerRegistry_resolve ::
  "(string \<rightharpoonup> 'key trusted_issuer) \<Rightarrow> string \<Rightarrow> string \<Rightarrow> 'key resolved_issuer option" where
  "StaticApprovalIssuerRegistry_resolve issuers approverId keyId =
     (case issuers (issuer_key approverId keyId) of
        None \<Rightarrow> None
      | Some i \<Rightarrow> Some \<lparr>ri_publicKey = ti_publicKey i, ri_revoked = ti_revoked i\<rparr>)"

lemma issuer_key_inj:
  "issuer_key a k = issuer_key b l \<Longrightarrow> CHR '':'' \<notin> set a \<Longrightarrow> CHR '':'' \<notin> set b \<Longrightarrow> a = b \<and> k = l"
proof (induction a arbitrary: b)
  case Nil
  then show ?case by (cases b) (auto simp: issuer_key_def)
next
  case (Cons c a)
  then show ?case by (cases b) (auto simp: issuer_key_def)
qed

lemma registry_create_dom:
  "(StaticApprovalIssuerRegistry_create issuers k \<noteq> None) \<longleftrightarrow>
     (\<exists>i\<in>set issuers. issuer_key (ti_approverId i) (ti_keyId i) = k)"
  unfolding StaticApprovalIssuerRegistry_create_def
  by (induction issuers rule: rev_induct) auto

section \<open>ApprovalVerifier\<close>

type_synonym 'key issuer_resolve = "string \<Rightarrow> string \<Rightarrow> 'key resolved_issuer option"
type_synonym 'key approval_signature = "json \<Rightarrow> string \<Rightarrow> 'key \<Rightarrow> bool"

record approval_request =
  vr_action :: string
  vr_resourceId :: string
  vr_requestedValue :: json

record approval_checks =
  av_versionSupported :: bool
  av_issuerKnown :: bool
  av_signatureVerified :: bool
  av_notExpired :: bool
  av_notRevoked :: bool
  av_capabilityMatches :: bool
  av_resourceMatches :: bool
  av_scopeSatisfied :: bool
  av_nonceUnseen :: bool

definition FAILED_BEFORE_SIGNATURE :: "bool \<times> approval_checks" where
  "FAILED_BEFORE_SIGNATURE =
     (False, \<lparr>av_versionSupported = False, av_issuerKnown = False, av_signatureVerified = False,
              av_notExpired = False, av_notRevoked = False, av_capabilityMatches = False,
              av_resourceMatches = False, av_scopeSatisfied = False, av_nonceUnseen = False\<rparr>)"

text \<open>\<open>now\<close> is the time of the call, \<open>clock\<close> the reading of the nonce store.\<close>

definition ApprovalVerifier_verify ::
  "'key issuer_resolve \<Rightarrow> 'key approval_signature \<Rightarrow> date_parse \<Rightarrow> 's nonce_check
   \<Rightarrow> signed_approval \<Rightarrow> approval_request \<Rightarrow> bool \<Rightarrow> int \<Rightarrow> int \<Rightarrow> 's
   \<Rightarrow> (bool \<times> approval_checks) \<times> 's" where
  "ApprovalVerifier_verify resolve sigv dp check artifact request consumeNonce now clock s =
     (if as_version artifact \<noteq> Some (JNum (Fin 1)) then (FAILED_BEFORE_SIGNATURE, s)
      else
        let resolvedIssuer = resolve (as_approverId artifact) (as_keyId artifact);
            issuerKnown = (resolvedIssuer \<noteq> None);
            signatureVerified = (case resolvedIssuer of
                Some i \<Rightarrow> sigv (as_payload artifact) (as_signature artifact) (ri_publicKey i)
              | None \<Rightarrow> False);
            notExpired = not_expired now (dp (as_expiresAt artifact));
            notRevoked = (case resolvedIssuer of Some i \<Rightarrow> \<not> ri_revoked i | None \<Rightarrow> False);
            capabilityMatches = (as_capability artifact = vr_action request);
            resourceMatches = (as_resourceId artifact = vr_resourceId request);
            scopeSatisfied = evaluateApprovalScope (vr_requestedValue request)
                               (as_comparator artifact) (as_scopeValue artifact);
            priorChecksPassed = (issuerKnown \<and> signatureVerified \<and> notExpired \<and> notRevoked
              \<and> capabilityMatches \<and> resourceMatches \<and> scopeSatisfied);
            (nonceUnseen, s') =
              (if \<not> priorChecksPassed then (False, s)
               else if consumeNonce then check clock (as_nonce artifact) (as_expiresAt artifact) s
               else (True, s))
        in ((priorChecksPassed \<and> nonceUnseen,
             \<lparr>av_versionSupported = True, av_issuerKnown = issuerKnown,
              av_signatureVerified = signatureVerified, av_notExpired = notExpired,
              av_notRevoked = notRevoked, av_capabilityMatches = capabilityMatches,
              av_resourceMatches = resourceMatches, av_scopeSatisfied = scopeSatisfied,
              av_nonceUnseen = nonceUnseen\<rparr>), s'))"

text \<open>Every check but the nonce: the approval covers the request.\<close>

definition approval_covers ::
  "'key issuer_resolve \<Rightarrow> 'key approval_signature \<Rightarrow> date_parse \<Rightarrow> signed_approval
   \<Rightarrow> approval_request \<Rightarrow> int \<Rightarrow> bool" where
  "approval_covers resolve sigv dp artifact request now \<longleftrightarrow>
     as_version artifact = Some (JNum (Fin 1)) \<and>
     (\<exists>i. resolve (as_approverId artifact) (as_keyId artifact) = Some i \<and> \<not> ri_revoked i
        \<and> sigv (as_payload artifact) (as_signature artifact) (ri_publicKey i)) \<and>
     not_expired now (dp (as_expiresAt artifact)) \<and>
     as_capability artifact = vr_action request \<and> as_resourceId artifact = vr_resourceId request \<and>
     evaluateApprovalScope (vr_requestedValue request) (as_comparator artifact) (as_scopeValue artifact)"

lemma approval_verify_valid:
  "fst (fst (ApprovalVerifier_verify resolve sigv dp check a rq c now clock s)) \<longleftrightarrow>
     approval_covers resolve sigv dp a rq now \<and>
     (c \<longrightarrow> fst (check clock (as_nonce a) (as_expiresAt a) s))"
  by (auto simp: ApprovalVerifier_verify_def approval_covers_def FAILED_BEFORE_SIGNATURE_def Let_def
      split: option.splits prod.splits if_splits)

lemma approval_verify_state:
  "snd (ApprovalVerifier_verify resolve sigv dp check a rq c now clock s) =
     (if approval_covers resolve sigv dp a rq now \<and> c
      then snd (check clock (as_nonce a) (as_expiresAt a) s) else s)"
  by (auto simp: ApprovalVerifier_verify_def approval_covers_def Let_def
      split: option.splits prod.splits if_splits)

section \<open>ApprovalSignalVerifier\<close>

record pending_approval =
  pa_signalKey :: string
  pa_artifact :: signed_approval
  pa_request :: approval_request

definition refused :: "string \<Rightarrow> signal_state_violation" where
  "refused signalKey = \<lparr>sv_signalKey = signalKey, sv_declaredValue = Some (JBool True),
     sv_actualValue = Some (JBool False)\<rparr>"

definition missing :: "string \<Rightarrow> string \<Rightarrow> signal_state_violation" where
  "missing signalKey reason = \<lparr>sv_signalKey = signalKey, sv_declaredValue = Some (JBool True),
     sv_actualValue = Some (JStr (''<'' @ reason @ ''>''))\<rparr>"

definition resolveParameter :: "verification_request \<Rightarrow> string \<Rightarrow> json option" where
  "resolveParameter request path =
     (if path = ''target'' then map_option JStr (rq_intentTarget request)
      else case split_on (CHR ''.'') path of
             base # keys \<Rightarrow>
               if base \<noteq> ''parameters'' \<or> keys = [] then None
               else foldl resolve_step (map_option JObj (rq_intentParameters request)) keys
           | [] \<Rightarrow> None)"

definition resolveResourceId ::
  "(jsnum \<Rightarrow> string) \<Rightarrow> verification_request \<Rightarrow> string \<Rightarrow> (string, string) result" where
  "resolveResourceId nstr request path =
     (let bad = Inl (''missing: '' @ path @ '' is required to verify an approval'') in
      case resolveParameter request path of
        Some (JStr s) \<Rightarrow> if s \<noteq> [] then Inr s else bad
      | Some (JNum n) \<Rightarrow> if num_finite n then Inr (nstr n) else bad
      | _ \<Rightarrow> bad)"

definition resolveNumber :: "verification_request \<Rightarrow> string \<Rightarrow> (string, jsnum) result" where
  "resolveNumber request path =
     (let bad = Inl (''missing: '' @ path @ '' must be a number to verify an approval'') in
      case resolveParameter request path of
        Some (JNum n) \<Rightarrow> if num_finite n then Inr n else bad
      | _ \<Rightarrow> bad)"

text \<open>
  \<open>prepare\<close>: an approval to verify or a violation.  A declaration whose paths are no strings,
  which the policy validator refuses, makes \<open>path.split\<close> throw: the outer \<^term>\<open>None\<close>.
\<close>

fun path_of :: "json option \<Rightarrow> string option" where
  "path_of (Some (JStr p)) = Some p"
| "path_of _ = None"

definition ApprovalSignalVerifier_prepare ::
  "(jsnum \<Rightarrow> string) \<Rightarrow> verification_request \<Rightarrow> signals \<Rightarrow> string \<Rightarrow> json
   \<Rightarrow> (signal_state_violation, pending_approval) result option" where
  "ApprovalSignalVerifier_prepare nstr request signals signalKey declaration =
     (case path_of (get_prop declaration ''resourceId'') of
        None \<Rightarrow> None
      | Some resourcePath \<Rightarrow>
      (case resolveResourceId nstr request resourcePath of
         Inl reason \<Rightarrow> Some (Inl (missing signalKey reason))
       | Inr resourceId \<Rightarrow>
         let withValue = (\<lambda>requestedValue.
           (case map_of signals (js_string nstr (declared_artifact declaration)) of
              None \<Rightarrow> Some (Inl (refused signalKey))
            | Some v \<Rightarrow>
                (case asSignedApproval v of
                   None \<Rightarrow> Some (Inl (refused signalKey))
                 | Some artifact \<Rightarrow>
                     Some (Inr \<lparr>pa_signalKey = signalKey, pa_artifact = artifact,
                       pa_request = \<lparr>vr_action = rq_action request, vr_resourceId = resourceId,
                                     vr_requestedValue = requestedValue\<rparr>\<rparr>)))) in
         (if get_prop declaration ''value'' = None then withValue (JStr resourceId)
          else case path_of (get_prop declaration ''value'') of
                 None \<Rightarrow> None
               | Some valuePath \<Rightarrow>
                   (case resolveNumber request valuePath of
                      Inl reason \<Rightarrow> Some (Inl (missing signalKey reason))
                    | Inr n \<Rightarrow> withValue (JNum n)))))"

text \<open>The loop over the declarations: violations and approvals to verify, in order.\<close>

fun prepare_all ::
  "(jsnum \<Rightarrow> string) \<Rightarrow> verification_request \<Rightarrow> signals \<Rightarrow> jsobject
   \<Rightarrow> (signal_state_violation list \<times> pending_approval list) option" where
  "prepare_all nstr request signals [] = Some ([], [])"
| "prepare_all nstr request signals ((signalKey, declaration) # entries) =
     (if map_of signals signalKey \<noteq> Some (JBool True)
      then prepare_all nstr request signals entries
      else case ApprovalSignalVerifier_prepare nstr request signals signalKey declaration of
             None \<Rightarrow> None
           | Some prepared \<Rightarrow>
               (case prepare_all nstr request signals entries of
                  None \<Rightarrow> None
                | Some (violations, pending) \<Rightarrow>
                    (case prepared of
                       Inl violation \<Rightarrow> Some (violation # violations, pending)
                     | Inr approval \<Rightarrow> Some (violations, approval # pending))))"

text \<open>
  One pass over the approvals.  \<open>clk i\<close> gives the two clock readings of the \<open>i\<close>-th call of
  \<open>verify\<close>: the time of the call and the reading of the nonce store.
\<close>

fun verify_pass ::
  "'key issuer_resolve \<Rightarrow> 'key approval_signature \<Rightarrow> date_parse \<Rightarrow> 's nonce_check \<Rightarrow> bool
   \<Rightarrow> (nat \<Rightarrow> int \<times> int) \<Rightarrow> nat \<Rightarrow> pending_approval list \<Rightarrow> 's
   \<Rightarrow> signal_state_violation list \<times> 's" where
  "verify_pass resolve sigv dp check c clk i [] s = ([], s)"
| "verify_pass resolve sigv dp check c clk i (p # ps) s =
     (case ApprovalVerifier_verify resolve sigv dp check (pa_artifact p) (pa_request p) c
             (fst (clk i)) (snd (clk i)) s of
        ((valid, _), s') \<Rightarrow>
          (case verify_pass resolve sigv dp check c clk (Suc i) ps s' of
             (violations, s'') \<Rightarrow>
               (if valid then violations else refused (pa_signalKey p) # violations, s'')))"

definition UNVERIFIABLE :: signal_state_violation where
  "UNVERIFIABLE = \<lparr>sv_signalKey = DEFAULT_APPROVAL_ARTIFACT_SIGNAL,
     sv_declaredValue = Some (JStr ''<approval attached>''),
     sv_actualValue = Some (JStr
       ''<unverifiable: the policy is not available to say which signals need an approval>'')\<rparr>"

definition ApprovalSignalVerifier_findViolations ::
  "(jsnum \<Rightarrow> string) \<Rightarrow> 'key issuer_resolve \<Rightarrow> 'key approval_signature \<Rightarrow> date_parse
   \<Rightarrow> 's nonce_check \<Rightarrow> (nat \<Rightarrow> int \<times> int) \<Rightarrow> 's signal_state_verifier" where
  "ApprovalSignalVerifier_findViolations nstr resolve sigv dp check clk request signals s =
     (case rq_policy request of
        None \<Rightarrow>
          (Inr (if list_ex (\<lambda>(k, v). isSignedApprovalShape v) signals then [UNVERIFIABLE] else []), s)
      | Some pol \<Rightarrow>
      (case approvalSignals pol of
        None \<Rightarrow> (Inr [], s)
      | Some declarations \<Rightarrow>
          if declarations = JNull then (Inl ''TypeError'', s)
          else
          (case prepare_all nstr request signals (sort_key fst (spread_object (Some declarations))) of
             None \<Rightarrow> (Inl ''TypeError'', s)
           | Some (violations, pending) \<Rightarrow>
               (case verify_pass resolve sigv dp check False clk 0 pending s of
                  (refusals, s1) \<Rightarrow>
                    if violations @ refusals \<noteq> [] \<or> rq_stage request = Some Release
                    then (Inr (violations @ refusals), s1)
                    else
                      (case verify_pass resolve sigv dp check True clk (length pending) pending s1 of
                         (used, s2) \<Rightarrow> (Inr used, s2))))))"

section \<open>Facts about the passes\<close>

lemma snd_pass_Cons:
  "snd (verify_pass resolve sigv dp check c clk i (p # ps) s) =
     snd (verify_pass resolve sigv dp check c clk (Suc i) ps
       (if approval_covers resolve sigv dp (pa_artifact p) (pa_request p) (fst (clk i)) \<and> c
        then snd (check (snd (clk i)) (as_nonce (pa_artifact p)) (as_expiresAt (pa_artifact p)) s)
        else s))"
  unfolding approval_verify_state[of resolve sigv dp check, symmetric] by (simp add: split_beta)

lemma fst_pass_Cons:
  "fst (verify_pass resolve sigv dp check c clk i (p # ps) s) = [] \<longleftrightarrow>
     approval_covers resolve sigv dp (pa_artifact p) (pa_request p) (fst (clk i)) \<and>
     (c \<longrightarrow> fst (check (snd (clk i)) (as_nonce (pa_artifact p)) (as_expiresAt (pa_artifact p)) s)) \<and>
     fst (verify_pass resolve sigv dp check c clk (Suc i) ps
       (if approval_covers resolve sigv dp (pa_artifact p) (pa_request p) (fst (clk i)) \<and> c
        then snd (check (snd (clk i)) (as_nonce (pa_artifact p)) (as_expiresAt (pa_artifact p)) s)
        else s)) = []"
  unfolding approval_verify_state[of resolve sigv dp check, symmetric]
  using approval_verify_valid[of resolve sigv dp check "pa_artifact p" "pa_request p" c
      "fst (clk i)" "snd (clk i)" s]
  by (auto simp: split_beta split: if_splits)

declare verify_pass.simps(2) [simp del]

lemmas pass_Cons = snd_pass_Cons fst_pass_Cons

lemma pass_dry_state: "snd (verify_pass resolve sigv dp check False clk i ps s) = s"
  by (induction ps arbitrary: i s) (auto simp: pass_Cons)

lemma pass_clean_covers:
  assumes "fst (verify_pass resolve sigv dp check c clk i ps s) = []" "p \<in> set ps"
  shows "\<exists>j. approval_covers resolve sigv dp (pa_artifact p) (pa_request p) (fst (clk j))"
  using assms by (induction ps arbitrary: i s) (auto simp: pass_Cons)

context nonce_store
begin

lemma pass_keeps_held:
  assumes "held s n = Some e" "\<And>j. live (snd (clk j)) e"
  shows "held (snd (verify_pass resolve sigv d check c clk i ps s)) n = Some e"
  using assms(1) by (induction ps arbitrary: i s) (simp_all add: pass_Cons kept assms(2))

lemma pass_records:
  assumes "fst (verify_pass resolve sigv d check True clk i ps s) = []" "p \<in> set ps"
    and "\<And>j. live (snd (clk j)) (dp (as_expiresAt (pa_artifact p)))"
  shows "held (snd (verify_pass resolve sigv d check True clk i ps s)) (as_nonce (pa_artifact p))
     = Some (dp (as_expiresAt (pa_artifact p)))"
  using assms(1,2)
proof (induction ps arbitrary: i s)
  case (Cons q ps)
  show ?case
  proof (cases "p = q")
    case True
    with Cons.prems(1) show ?thesis
      by (auto simp: pass_Cons intro!: pass_keeps_held accepted_then_held assms(3)[unfolded True])
  next
    case False
    with Cons show ?thesis by (auto simp: pass_Cons)
  qed
qed simp

lemma pass_refuses_held:
  assumes "held s (as_nonce (pa_artifact p)) = Some e" "\<And>j. live (snd (clk j)) e" "p \<in> set ps"
  shows "fst (verify_pass resolve sigv d check True clk i ps s) \<noteq> []"
  using assms(1,3)
proof (induction ps arbitrary: i s)
  case (Cons q ps)
  show ?case
  proof (cases "p = q")
    case True
    with held_refused[OF Cons.prems(1)] show ?thesis by (simp add: pass_Cons)
  next
    case False
    with Cons.prems(2) Cons.IH[OF kept[OF Cons.prems(1) assms(2)]] show ?thesis
      by (auto simp: pass_Cons)
  qed
qed simp

end

section \<open>What a clean answer means\<close>

lemma prepare_all_clean:
  assumes "prepare_all nstr rq sigs entries = Some ([], pending)" "(k, declaration) \<in> set entries"
    and "map_of sigs k = Some (JBool True)"
  shows "\<exists>p\<in>set pending. ApprovalSignalVerifier_prepare nstr rq sigs k declaration = Some (Inr p)"
  using assms(1,2)
proof (induction entries arbitrary: pending)
  case (Cons e entries)
  obtain k' d' where e: "e = (k', d')" by force
  show ?case
  proof (cases "map_of sigs k' = Some (JBool True)")
    case False
    with Cons e assms(3) show ?thesis by auto
  next
    case True
    with Cons.prems(1) e obtain p ps where
      "ApprovalSignalVerifier_prepare nstr rq sigs k' d' = Some (Inr p)"
      "prepare_all nstr rq sigs entries = Some ([], ps)" "pending = p # ps"
      by (auto split: option.splits sum.splits)
    with Cons.IH[of ps] Cons.prems(2) e show ?thesis by auto
  qed
qed simp

text \<open>\<open>prepare\<close> takes action, resource and value from the request, the artifact from the signals.\<close>

lemma prepare_Inr:
  assumes "ApprovalSignalVerifier_prepare nstr rq sigs k d = Some (Inr p)"
  obtains v rp rid where
    "map_of sigs (js_string nstr (declared_artifact d)) = Some v"
    "asSignedApproval v = Some (pa_artifact p)"
    "get_prop d ''resourceId'' = Some (JStr rp)" "resolveResourceId nstr rq rp = Inr rid"
    "vr_action (pa_request p) = rq_action rq" "vr_resourceId (pa_request p) = rid"
    "pa_signalKey p = k"
    "vr_requestedValue (pa_request p) =
       (case get_prop d ''value'' of None \<Rightarrow> JStr rid
        | Some w \<Rightarrow> (case w of JStr vp \<Rightarrow> (case resolveNumber rq vp of Inr n \<Rightarrow> JNum n | Inl _ \<Rightarrow> JNull)
                     | _ \<Rightarrow> JNull))"
proof -
  obtain rp where rp: "get_prop d ''resourceId'' = Some (JStr rp)"
    using assms by (cases "get_prop d ''resourceId''" rule: path_of.cases)
      (auto simp: ApprovalSignalVerifier_prepare_def)
  with assms obtain rid where rid: "resolveResourceId nstr rq rp = Inr rid"
    by (cases "resolveResourceId nstr rq rp") (auto simp: ApprovalSignalVerifier_prepare_def)
  from assms rp rid obtain v art where v: "map_of sigs (js_string nstr (declared_artifact d)) = Some v"
    "asSignedApproval v = Some art"
    by (auto simp: ApprovalSignalVerifier_prepare_def Let_def
        split: option.splits if_splits sum.splits)
  show thesis
  proof (cases "get_prop d ''value''")
    case None
    with assms rp rid v show ?thesis
      by (intro that[OF v(1) _ rp rid]) (auto simp: ApprovalSignalVerifier_prepare_def Let_def)
  next
    case (Some w)
    with assms rp rid obtain vp where vp: "w = JStr vp"
      by (cases "Some w" rule: path_of.cases)
         (auto simp: ApprovalSignalVerifier_prepare_def Let_def split: option.splits)
    with assms rp rid Some obtain n where "resolveNumber rq vp = Inr n"
      by (cases "resolveNumber rq vp")
         (auto simp: ApprovalSignalVerifier_prepare_def Let_def)
    with assms rp rid v Some vp show ?thesis
      by (intro that[OF v(1) _ rp rid]) (auto simp: ApprovalSignalVerifier_prepare_def Let_def)
  qed
qed

lemma findViolations_clean:
  assumes "ApprovalSignalVerifier_findViolations nstr resolve sigv dp check clk rq sigs s = (Inr [], s')"
    and "rq_policy rq = Some pol" "approvalSignals pol = Some (JObj entries)"
    and "(k, d) \<in> set entries" "map_of sigs k = Some (JBool True)"
  obtains pending p where
    "prepare_all nstr rq sigs (sort_key fst entries) = Some ([], pending)" "p \<in> set pending"
    "ApprovalSignalVerifier_prepare nstr rq sigs k d = Some (Inr p)"
    "fst (verify_pass resolve sigv dp check False clk 0 pending s) = []"
    "rq_stage rq \<noteq> Some Release \<longrightarrow>
       verify_pass resolve sigv dp check True clk (length pending) pending s = ([], s')"
proof -
  from assms(1-3) obtain pending where p: "prepare_all nstr rq sigs (sort_key fst entries) = Some ([], pending)"
    by (auto simp: ApprovalSignalVerifier_findViolations_def split: option.splits prod.splits if_splits)
  from prepare_all_clean[OF p, of k d] assms(4,5) obtain q where q: "q \<in> set pending"
    "ApprovalSignalVerifier_prepare nstr rq sigs k d = Some (Inr q)" by auto
  obtain vs s1 where v: "verify_pass resolve sigv dp check False clk 0 pending s = (vs, s1)" by fastforce
  with pass_dry_state[of resolve sigv dp check clk 0 pending s] have "s1 = s" by simp
  with assms(1-3) p v show thesis
    by (intro that[OF p q])
       (auto simp: ApprovalSignalVerifier_findViolations_def split: prod.splits if_splits)
qed

text \<open>What a clean answer says of a declared approval signal that is set.\<close>

lemma clean_check_covered:
  assumes "ApprovalSignalVerifier_findViolations nstr resolve sigv dp check clk rq sigs s = (Inr [], s')"
    and "rq_policy rq = Some pol" and "approvalSignals pol = Some (JObj entries)"
    and "(k, d) \<in> set entries" and "map_of sigs k = Some (JBool True)"
  shows "\<exists>v a i rp rid request.
     map_of sigs (js_string nstr (declared_artifact d)) = Some v \<and> asSignedApproval v = Some a
     \<and> get_prop d ''resourceId'' = Some (JStr rp) \<and> resolveResourceId nstr rq rp = Inr rid
     \<and> vr_action request = rq_action rq \<and> vr_resourceId request = rid
     \<and> vr_requestedValue request =
         (case get_prop d ''value'' of None \<Rightarrow> JStr rid
          | Some w \<Rightarrow> (case w of JStr vp \<Rightarrow> (case resolveNumber rq vp of Inr n \<Rightarrow> JNum n | Inl _ \<Rightarrow> JNull)
                       | _ \<Rightarrow> JNull))
     \<and> approval_covers resolve sigv dp a request (fst (clk i))"
proof -
  from assms obtain pending p where p: "p \<in> set pending"
    "ApprovalSignalVerifier_prepare nstr rq sigs k d = Some (Inr p)"
    "fst (verify_pass resolve sigv dp check False clk 0 pending s) = []"
    by (rule findViolations_clean)
  from pass_clean_covers[OF p(3,1)] obtain i
    where i: "approval_covers resolve sigv dp (pa_artifact p) (pa_request p) (fst (clk i))" by blast
  from p(2) show ?thesis by (rule prepare_Inr) (use i in blast)
qed

section \<open>Sequences of checks\<close>

record approval_call =
  ac_request :: verification_request
  ac_signals :: signals
  ac_clk :: "nat \<Rightarrow> int \<times> int"

text \<open>The answers to a sequence of checks against one nonce store.\<close>

fun approval_run ::
  "(jsnum \<Rightarrow> string) \<Rightarrow> 'key issuer_resolve \<Rightarrow> 'key approval_signature \<Rightarrow> date_parse
   \<Rightarrow> 's nonce_check \<Rightarrow> approval_call list \<Rightarrow> 's
   \<Rightarrow> (string, signal_state_violation list) result list" where
  "approval_run nstr resolve sigv dp check [] s = []"
| "approval_run nstr resolve sigv dp check (c # cs) s =
     (case ApprovalSignalVerifier_findViolations nstr resolve sigv dp check (ac_clk c)
             (ac_request c) (ac_signals c) s of
        (r, s') \<Rightarrow> r # approval_run nstr resolve sigv dp check cs s')"

text \<open>A check relies on an artifact: it is what a declared approval signal set to true presents.\<close>

definition relies_on :: "(jsnum \<Rightarrow> string) \<Rightarrow> approval_call \<Rightarrow> signed_approval \<Rightarrow> bool" where
  "relies_on nstr c a \<longleftrightarrow>
     rq_stage (ac_request c) \<noteq> Some Release \<and>
     (\<exists>pol entries k d p. rq_policy (ac_request c) = Some pol
        \<and> approvalSignals pol = Some (JObj entries) \<and> (k, d) \<in> set entries
        \<and> map_of (ac_signals c) k = Some (JBool True)
        \<and> ApprovalSignalVerifier_prepare nstr (ac_request c) (ac_signals c) k d = Some (Inr p)
        \<and> pa_artifact p = a)"

lemma relies_on_pass:
  assumes "relies_on nstr c a"
    and "ApprovalSignalVerifier_findViolations nstr resolve sigv dp check (ac_clk c) (ac_request c)
           (ac_signals c) s = (Inr [], s')"
  obtains pending p where "p \<in> set pending" "pa_artifact p = a"
    "verify_pass resolve sigv dp check True (ac_clk c) (length pending) pending s = ([], s')"
proof -
  from assms(1) obtain pol entries k d p where
    *: "rq_policy (ac_request c) = Some pol" "approvalSignals pol = Some (JObj entries)"
      "(k, d) \<in> set entries" "map_of (ac_signals c) k = Some (JBool True)"
    and p: "ApprovalSignalVerifier_prepare nstr (ac_request c) (ac_signals c) k d = Some (Inr p)"
      "pa_artifact p = a" "rq_stage (ac_request c) \<noteq> Some Release"
    by (auto simp: relies_on_def)
  from assms(2) * obtain pending q where "q \<in> set pending"
    "ApprovalSignalVerifier_prepare nstr (ac_request c) (ac_signals c) k d = Some (Inr q)"
    "rq_stage (ac_request c) \<noteq> Some Release \<longrightarrow>
       verify_pass resolve sigv dp check True (ac_clk c) (length pending) pending s = ([], s')"
    by (rule findViolations_clean)
  with p that show thesis by auto
qed

lemma findViolations_state:
  "snd (ApprovalSignalVerifier_findViolations nstr resolve sigv dp check clk rq sigs s) = s \<or>
   (\<exists>i ps. snd (ApprovalSignalVerifier_findViolations nstr resolve sigv dp check clk rq sigs s)
      = snd (verify_pass resolve sigv dp check True clk i ps s))"
  by (auto simp: ApprovalSignalVerifier_findViolations_def split_beta pass_dry_state
      split: option.splits)

context nonce_store
begin

lemma call_keeps_held:
  assumes "held s n = Some e" "\<And>j. live (snd (clk j)) e"
  shows "held (snd (ApprovalSignalVerifier_findViolations nstr resolve sigv d check clk rq sigs s)) n
     = Some e"
  using findViolations_state[of nstr resolve sigv d check clk rq sigs s]
    pass_keeps_held[OF assms] assms(1) by auto

lemma held_call_refused:
  assumes "held s (as_nonce a) = Some e" "\<And>j. live (snd (ac_clk c j)) e" "relies_on nstr c a"
  shows "fst (ApprovalSignalVerifier_findViolations nstr resolve sigv d check (ac_clk c) (ac_request c)
           (ac_signals c) s) \<noteq> Inr []"
proof
  assume "fst (ApprovalSignalVerifier_findViolations nstr resolve sigv d check (ac_clk c)
    (ac_request c) (ac_signals c) s) = Inr []"
  then obtain s' where "ApprovalSignalVerifier_findViolations nstr resolve sigv d check (ac_clk c)
    (ac_request c) (ac_signals c) s = (Inr [], s')" by (metis prod.collapse)
  from assms(3) this obtain pending p where p: "p \<in> set pending" "pa_artifact p = a"
    "verify_pass resolve sigv d check True (ac_clk c) (length pending) pending s = ([], s')"
    by (rule relies_on_pass)
  from pass_refuses_held[of s p e "ac_clk c" pending] assms p show False by (metis fst_conv)
qed

lemma clean_call_holds:
  assumes "ApprovalSignalVerifier_findViolations nstr resolve sigv d check (ac_clk c) (ac_request c)
           (ac_signals c) s = (Inr [], s')"
    and "\<And>j. live (snd (ac_clk c j)) (dp (as_expiresAt a))" "relies_on nstr c a"
  shows "held s' (as_nonce a) = Some (dp (as_expiresAt a))"
proof -
  from assms(3,1) obtain pending p where p: "p \<in> set pending" "pa_artifact p = a"
    "verify_pass resolve sigv d check True (ac_clk c) (length pending) pending s = ([], s')"
    by (rule relies_on_pass)
  with pass_records[of resolve sigv d "ac_clk c" "length pending" pending s p] assms(2)
  show ?thesis by simp
qed

lemma held_run_refused:
  assumes "held s (as_nonce a) = Some e" "j < length cs" "relies_on nstr (cs ! j) b"
    and "as_nonce b = as_nonce a" "\<And>c m. c \<in> set cs \<Longrightarrow> live (snd (ac_clk c m)) e"
  shows "approval_run nstr resolve sigv d check cs s ! j \<noteq> Inr []"
  using assms
proof (induction cs arbitrary: s j)
  case (Cons c cs)
  show ?case
  proof (cases j)
    case 0
    with Cons.prems have "fst (ApprovalSignalVerifier_findViolations nstr resolve sigv d check
        (ac_clk c) (ac_request c) (ac_signals c) s) \<noteq> Inr []"
      by (intro held_call_refused[of s b e]) auto
    with 0 show ?thesis by (simp add: split_beta)
  next
    case (Suc i)
    have "held (snd (ApprovalSignalVerifier_findViolations nstr resolve sigv d check (ac_clk c)
            (ac_request c) (ac_signals c) s)) (as_nonce a) = Some e"
      using Cons.prems by (intro call_keeps_held) auto
    from Cons.IH[OF this, of i] Cons.prems Suc show ?thesis by (auto simp: split_beta)
  qed
qed simp

lemma approval_single_use:
  assumes "i < j" "j < length cs" "relies_on nstr (cs ! i) a" "relies_on nstr (cs ! j) b"
    and "as_nonce b = as_nonce a"
    and "\<And>c m. c \<in> set cs \<Longrightarrow> live (snd (ac_clk c m)) (dp (as_expiresAt a))"
    and "approval_run nstr resolve sigv d check cs s ! i = Inr []"
  shows "approval_run nstr resolve sigv d check cs s ! j \<noteq> Inr []"
  using assms
proof (induction cs arbitrary: s i j)
  case (Cons c cs)
  obtain l where j: "j = Suc l" using Cons.prems(1) by (cases j) auto
  show ?case
  proof (cases i)
    case 0
    obtain s' where r: "ApprovalSignalVerifier_findViolations nstr resolve sigv d check (ac_clk c)
        (ac_request c) (ac_signals c) s = (Inr [], s')"
      using Cons.prems(7) 0 by (auto split: prod.splits)
    have "held s' (as_nonce a) = Some (dp (as_expiresAt a))"
      using Cons.prems 0 by (intro clean_call_holds[OF r]) auto
    from held_run_refused[OF this, of l cs nstr b] Cons.prems j r show ?thesis by auto
  next
    case (Suc i')
    from Cons.IH[of i' l "snd (ApprovalSignalVerifier_findViolations nstr resolve sigv d check
        (ac_clk c) (ac_request c) (ac_signals c) s)"] Cons.prems j Suc
    show ?thesis by (auto simp: split_beta)
  qed
qed simp

end

end
