(* ===== verification/Gateway.thy ===== *)
theory Gateway
  imports Approval
begin

text \<open>
  The Execution Gateway, \<open>packages/execution-gateway/src/ExecutionGateway.ts\<close>: the last checks
  before anything is released to an external system, and the release itself.

  Parameters: the hashes of executable content, policies and signals, the policy repository, the
  policy approval verifier (which answers with a violation's reason, nothing, or throws), the
  signal state verifier and the nonce store.  The nonce store has state \<open>'s\<close>, the signal state
  verifier state \<open>'v\<close>.  \<open>execute\<close> returns the call it makes on the release side.
\<close>

section \<open>Construction\<close>

datatype release_side = LegacyConnector | ControlService | ControlChannel | ControlIncomplete

record ('key, 'v) gateway =
  gw_envelope :: "'key envelope_verifier"
  gw_policyRepository :: "(string \<Rightarrow> string \<Rightarrow> (string, policy) result) option"
  gw_policyApprovalVerifier :: "(string \<Rightarrow> string \<Rightarrow> string \<Rightarrow> (string, string option) result) option"
  gw_signalStateVerifier :: "'v signal_state_verifier option"
  gw_requirePolicyBinding :: bool
  gw_release :: release_side

datatype gateway_config_error =
  ConnectorOrControlRequired | ConnectorAndControl | PolicyBindingRequired

text \<open>
  The constructor: \<open>connector\<close> says whether a connector is given, \<open>control\<close> which parts of
  \<open>executionControl\<close> are (a service, or a channel with a gateway identity, or neither).
\<close>

definition ExecutionGateway_create ::
  "'key envelope_verifier \<Rightarrow> (string \<Rightarrow> string \<Rightarrow> (string, policy) result) option
   \<Rightarrow> (string \<Rightarrow> string \<Rightarrow> string \<Rightarrow> (string, string option) result) option
   \<Rightarrow> 'v signal_state_verifier option \<Rightarrow> bool option \<Rightarrow> bool \<Rightarrow> release_side option
   \<Rightarrow> (gateway_config_error, ('key, 'v) gateway) result" where
  "ExecutionGateway_create envelope policyRepository policyApprovalVerifier signalStateVerifier
     allowUnverifiedPolicy connector control =
     (let requirePolicyBinding = (allowUnverifiedPolicy \<noteq> Some True) in
      if \<not> connector \<and> control = None then Inl ConnectorOrControlRequired
      else if connector \<and> control \<noteq> None then Inl ConnectorAndControl
      else if requirePolicyBinding \<and> (policyRepository = None \<or> policyApprovalVerifier = None)
        then Inl PolicyBindingRequired
      else Inr \<lparr>gw_envelope = envelope, gw_policyRepository = policyRepository,
                gw_policyApprovalVerifier = policyApprovalVerifier,
                gw_signalStateVerifier = signalStateVerifier,
                gw_requirePolicyBinding = requirePolicyBinding,
                gw_release = (case control of None \<Rightarrow> LegacyConnector | Some c \<Rightarrow> c)\<rparr>)"

section \<open>Requests and results\<close>

record execution_request =
  xr_businessTransactionId :: string
  xr_action :: string
  xr_target :: "json option"
  xr_parameters :: jsobject
  xr_authorization :: signed_authorization
  xr_signals :: "signals option"

record gateway_checks =
  gc_envelope :: envelope_checks
  gc_businessTransactionHashMatches :: bool
  gc_policyStillCurrent :: "bool option"
  gc_policyGovernanceVerified :: "bool option"
  gc_signalsStillCurrent :: "bool option"
  gc_nonceUnseen :: bool

record gateway_result =
  gr_valid :: bool
  gr_checks :: gateway_checks
  gr_hashMismatch :: "(string \<times> string) option"
  gr_policyContentMismatch :: "(string \<times> string) option"
  gr_policyGovernanceViolation :: "string option"
  gr_signalsHashMismatch :: "(string \<times> string) option"
  gr_signalDivergence :: "signal_state_violation list option"

record hashes =
  h_content :: "executable_content \<Rightarrow> string"
  h_policy :: "policy \<Rightarrow> string"
  h_signals :: "signals \<Rightarrow> string"

section \<open>Policy binding\<close>

record policy_check =
  pc_stillCurrent :: "bool option"
  pc_verifiedPolicy :: "policy option"
  pc_mismatch :: "(string \<times> string) option"
  pc_governanceVerified :: "bool option"
  pc_governanceViolation :: "string option"

definition no_policy_check :: policy_check where
  "no_policy_check = \<lparr>pc_stillCurrent = None, pc_verifiedPolicy = None, pc_mismatch = None,
     pc_governanceVerified = None, pc_governanceViolation = None\<rparr>"

definition ExecutionGateway_governanceCheck ::
  "('key, 'v) gateway \<Rightarrow> string \<Rightarrow> string \<Rightarrow> string \<Rightarrow> bool option \<times> string option" where
  "ExecutionGateway_governanceCheck g name version currentHash =
     (case gw_policyApprovalVerifier g of
        None \<Rightarrow> (None, None)
      | Some verify \<Rightarrow>
          (case verify name version currentHash of
             Inl e \<Rightarrow> (Some False, Some (''policy approval verification errored: '' @ e))
           | Inr None \<Rightarrow> (Some True, None)
           | Inr (Some reason) \<Rightarrow> (Some False, Some reason)))"

text \<open>\<open>ready\<close>: the envelope passed and the content hash matches.\<close>

definition ExecutionGateway_policyCheck ::
  "hashes \<Rightarrow> ('key, 'v) gateway \<Rightarrow> authorization_payload \<Rightarrow> bool \<Rightarrow> policy_check" where
  "ExecutionGateway_policyCheck h g payload ready =
     (case (ready, ap_policyContentHash payload) of
        (False, _) \<Rightarrow> no_policy_check
      | (True, None) \<Rightarrow>
          if gw_requirePolicyBinding g
          then no_policy_check\<lparr>pc_stillCurrent := Some False,
                 pc_mismatch := Some (''(absent: authorization carries no policyContentHash)'', ''n/a'')\<rparr>
          else no_policy_check
      | (True, Some policyContentHash) \<Rightarrow>
          (case gw_policyRepository g of
             None \<Rightarrow> no_policy_check
           | Some load \<Rightarrow>
               (case load (ap_policyName payload) (ap_policyVersion payload) of
                  Inl _ \<Rightarrow>
                    no_policy_check\<lparr>pc_stillCurrent := Some False,
                      pc_mismatch := Some (policyContentHash, ''policy not found'')\<rparr>
                | Inr currentPolicy \<Rightarrow>
                    let currentHash = h_policy h currentPolicy in
                    if currentHash \<noteq> policyContentHash
                    then no_policy_check\<lparr>pc_stillCurrent := Some False,
                           pc_mismatch := Some (policyContentHash, currentHash)\<rparr>
                    else (case ExecutionGateway_governanceCheck g (ap_policyName payload)
                                 (ap_policyVersion payload) currentHash of
                            (verified, violation) \<Rightarrow>
                              \<lparr>pc_stillCurrent = Some True, pc_verifiedPolicy = Some currentPolicy,
                               pc_mismatch = None, pc_governanceVerified = verified,
                               pc_governanceViolation = violation\<rparr>))))"

section \<open>Signals\<close>

record signals_check =
  sc_stillCurrent :: "bool option"
  sc_hashMismatch :: "(string \<times> string) option"
  sc_divergence :: "signal_state_violation list option"

definition no_signals_check :: signals_check where
  "no_signals_check = \<lparr>sc_stillCurrent = None, sc_hashMismatch = None, sc_divergence = None\<rparr>"

definition release_request :: "executable_content \<Rightarrow> policy option \<Rightarrow> verification_request" where
  "release_request content verifiedPolicy =
     \<lparr>rq_action = ec_action content, rq_businessTransactionId = ec_businessTransactionId content,
      rq_intentParameters = Some (ec_parameters content), rq_intentTarget = Some (ec_target content),
      rq_stage = Some Release, rq_policy = verifiedPolicy\<rparr>"

definition ExecutionGateway_signalsCheck ::
  "hashes \<Rightarrow> ('key, 'v) gateway \<Rightarrow> executable_content \<Rightarrow> execution_request \<Rightarrow> bool \<Rightarrow> policy_check
   \<Rightarrow> 'v \<Rightarrow> (string, signals_check) result \<times> 'v" where
  "ExecutionGateway_signalsCheck h g content request ready pc v =
     (if \<not> (ready \<and> pc_stillCurrent pc \<noteq> Some False \<and> pc_governanceVerified pc \<noteq> Some False)
      then (Inr no_signals_check, v)
      else case (gw_signalStateVerifier g, ap_signalsHash (sa_payload (xr_authorization request)),
                 xr_signals request) of
        (Some findViolations, Some signalsHash, Some signals) \<Rightarrow>
          let currentSignalsHash = h_signals h signals in
          if currentSignalsHash \<noteq> signalsHash
          then (Inr \<lparr>sc_stillCurrent = Some False,
                     sc_hashMismatch = Some (signalsHash, currentSignalsHash),
                     sc_divergence = None\<rparr>, v)
          else (case findViolations (release_request content (pc_verifiedPolicy pc)) signals v of
                  (Inl e, v') \<Rightarrow> (Inl e, v')
                | (Inr violations, v') \<Rightarrow>
                    (Inr \<lparr>sc_stillCurrent = Some (violations = []), sc_hashMismatch = None,
                          sc_divergence = (if violations = [] then None else Some violations)\<rparr>, v'))
      | _ \<Rightarrow> (Inr no_signals_check, v))"

section \<open>verify\<close>

datatype gateway_error =
    InvalidContent content_error
  | SignalVerifierThrew string
  | NonceAlreadyConsumedError string
  | GatewayRejected "string list" gateway_result
  | ExecutionControlIncomplete

definition ExecutionGateway_policyBindingOk :: "('key, 'v) gateway \<Rightarrow> policy_check \<Rightarrow> bool" where
  "ExecutionGateway_policyBindingOk g pc =
     (if gw_requirePolicyBinding g
      then pc_stillCurrent pc = Some True \<and> pc_governanceVerified pc = Some True
      else pc_stillCurrent pc \<noteq> Some False \<and> pc_governanceVerified pc \<noteq> Some False)"

text \<open>
  The checks without side effect on the nonce store: whether they all passed, and the result but
  for the nonce.
\<close>

definition ExecutionGateway_priorChecks ::
  "date_parse \<Rightarrow> 'key signature_check \<Rightarrow> hashes \<Rightarrow> ('key, 'v) gateway \<Rightarrow> execution_request
   \<Rightarrow> executable_content \<Rightarrow> int \<Rightarrow> 'v \<Rightarrow> (string, bool \<times> gateway_result) result \<times> 'v" where
  "ExecutionGateway_priorChecks dp sigv h g request content now v =
     (case EnvelopeVerifier_verifyChecks dp sigv (gw_envelope g) (xr_authorization request) now of
        (passed, checks) \<Rightarrow>
          let payload = sa_payload (xr_authorization request);
              actualHash = h_content h content;
              expectedHash = ap_businessTransactionHash payload;
              hashMatches = (passed \<and> actualHash = expectedHash);
              pc = ExecutionGateway_policyCheck h g payload hashMatches
          in (case ExecutionGateway_signalsCheck h g content request hashMatches pc v of
                (Inl e, v') \<Rightarrow> (Inl e, v')
              | (Inr sc, v') \<Rightarrow>
                  (Inr (passed \<and> hashMatches \<and> ExecutionGateway_policyBindingOk g pc
                          \<and> sc_stillCurrent sc \<noteq> Some False,
                        \<lparr>gr_valid = False,
                         gr_checks = \<lparr>gc_envelope = checks,
                           gc_businessTransactionHashMatches = hashMatches,
                           gc_policyStillCurrent = pc_stillCurrent pc,
                           gc_policyGovernanceVerified = pc_governanceVerified pc,
                           gc_signalsStillCurrent = sc_stillCurrent sc, gc_nonceUnseen = False\<rparr>,
                         gr_hashMismatch =
                           (if passed \<and> \<not> hashMatches then Some (expectedHash, actualHash) else None),
                         gr_policyContentMismatch = pc_mismatch pc,
                         gr_policyGovernanceViolation = pc_governanceViolation pc,
                         gr_signalsHashMismatch = sc_hashMismatch sc,
                         gr_signalDivergence = sc_divergence sc\<rparr>), v')))"

definition ExecutionGateway_verify ::
  "date_parse \<Rightarrow> 'key signature_check \<Rightarrow> hashes \<Rightarrow> 's nonce_check \<Rightarrow> ('key, 'v) gateway
   \<Rightarrow> execution_request \<Rightarrow> int \<Rightarrow> int \<Rightarrow> 's \<times> 'v
   \<Rightarrow> (gateway_error, gateway_result \<times> executable_content) result \<times> 's \<times> 'v" where
  "ExecutionGateway_verify dp sigv h check g request now clock st =
     (case toExecutableContent (xr_businessTransactionId request) (xr_action request)
             (xr_target request) (xr_parameters request) of
        Inl e \<Rightarrow> (Inl (InvalidContent e), st)
      | Inr content \<Rightarrow>
          (case ExecutionGateway_priorChecks dp sigv h g request content now (snd st) of
             (Inl e, v') \<Rightarrow> (Inl (SignalVerifierThrew e), (fst st, v'))
           | (Inr (priorChecksPassed, result), v') \<Rightarrow>
               (case (if priorChecksPassed
                      then EnvelopeVerifier_consumeNonce check clock (xr_authorization request) (fst st)
                      else (False, fst st)) of
                  (nonceUnseen, s') \<Rightarrow>
                    (Inr (result\<lparr>gr_valid := priorChecksPassed \<and> nonceUnseen,
                                 gr_checks := (gr_checks result)\<lparr>gc_nonceUnseen := nonceUnseen\<rparr>\<rparr>,
                          content), (s', v')))))"

section \<open>execute\<close>

text \<open>The named checks of a result, in the order the result object is built.\<close>

definition named_checks :: "gateway_checks \<Rightarrow> (string \<times> bool) list" where
  "named_checks c =
     (let e = gc_envelope c;
          opt = (\<lambda>name v. case v of Some b \<Rightarrow> [(name, b)] | None \<Rightarrow> [])
      in opt ''keyValid'' (ek_keyValid e)
         @ [(''versionSupported'', ek_versionSupported e),
            (''signatureVerified'', ek_signatureVerified e),
            (''notExpired'', ek_notExpired e), (''ttlWithinPolicy'', ek_ttlWithinPolicy e),
            (''businessTransactionHashMatches'', gc_businessTransactionHashMatches c)]
         @ opt ''policyStillCurrent'' (gc_policyStillCurrent c)
         @ opt ''policyGovernanceVerified'' (gc_policyGovernanceVerified c)
         @ opt ''signalsStillCurrent'' (gc_signalsStillCurrent c))"

definition ExecutionGateway_isSoleFailureNonceReplay :: "gateway_result \<Rightarrow> bool" where
  "ExecutionGateway_isSoleFailureNonceReplay result =
     (\<not> gc_nonceUnseen (gr_checks result) \<and> list_all snd (named_checks (gr_checks result)))"

definition ExecutionGateway_failedChecks :: "gateway_result \<Rightarrow> string list" where
  "ExecutionGateway_failedChecks result =
     (let failed = map fst (filter (\<lambda>(name, passed). \<not> passed)
            (named_checks (gr_checks result) @ [(''nonceUnseen'', gc_nonceUnseen (gr_checks result))]))
      in if failed = [] \<and> \<not> gr_valid result then [''policyBindingNotVerified''] else failed)"

record release_approval =
  ra_approverId :: string
  ra_keyId :: string
  ra_approvalId :: string

fun asRecord :: "json option \<Rightarrow> json option" where
  "asRecord (Some (JObj kvs)) = Some (JObj kvs)"
| "asRecord _ = None"

definition releaseApprovals :: "signals option \<Rightarrow> release_approval list" where
  "releaseApprovals signals =
     (case signals of
        None \<Rightarrow> []
      | Some kvs \<Rightarrow>
          concat (map (\<lambda>(k, value).
            (let payload = asRecord (get_prop_opt (asRecord (Some value)) ''payload'');
                 issuer = asRecord (get_prop_opt payload ''issuer'')
             in case (get_prop_opt payload ''approvalId'', get_prop_opt issuer ''approverId'',
                      get_prop_opt issuer ''keyId'') of
                  (Some (JStr approvalId), Some (JStr approverId), Some (JStr keyId)) \<Rightarrow>
                    [\<lparr>ra_approverId = approverId, ra_keyId = keyId, ra_approvalId = approvalId\<rparr>]
                | _ \<Rightarrow> [])) kvs))"

text \<open>The call made on the release side, with the frozen content.\<close>

datatype gateway_release =
    ReleaseToConnector executable_content signed_authorization gateway_result
  | ReleaseToChannel string executable_content signed_authorization gateway_result
  | ReleaseToService executable_content signed_authorization "release_approval list"

definition ExecutionGateway_execute ::
  "date_parse \<Rightarrow> 'key signature_check \<Rightarrow> hashes \<Rightarrow> 's nonce_check \<Rightarrow> ('key, 'v) gateway
   \<Rightarrow> execution_request \<Rightarrow> int \<Rightarrow> int \<Rightarrow> 's \<times> 'v
   \<Rightarrow> (gateway_error, gateway_release) result \<times> 's \<times> 'v" where
  "ExecutionGateway_execute dp sigv h check g request now clock st =
     (case ExecutionGateway_verify dp sigv h check g request now clock st of
        (Inl e, st') \<Rightarrow> (Inl e, st')
      | (Inr (result, content), st') \<Rightarrow>
          (if \<not> gr_valid result then
             (if ExecutionGateway_isSoleFailureNonceReplay result
              then (Inl (NonceAlreadyConsumedError (ec_businessTransactionId content)), st')
              else (Inl (GatewayRejected (ExecutionGateway_failedChecks result) result), st'))
           else
             (case gw_release g of
                ControlService \<Rightarrow>
                  Inr (ReleaseToService content (xr_authorization request)
                    (if gc_signalsStillCurrent (gr_checks result) = Some True
                     then releaseApprovals (xr_signals request) else []))
              | ControlChannel \<Rightarrow>
                  Inr (ReleaseToChannel (ap_authorizationId (sa_payload (xr_authorization request)))
                    content (xr_authorization request) result)
              | ControlIncomplete \<Rightarrow> Inl ExecutionControlIncomplete
              | LegacyConnector \<Rightarrow>
                  Inr (ReleaseToConnector content (xr_authorization request) result), st')))"

section \<open>What passing the checks means\<close>

text \<open>The policy an authorization was signed under is current and approved.\<close>

definition policy_bound :: "hashes \<Rightarrow> ('key, 'v) gateway \<Rightarrow> authorization_payload \<Rightarrow> policy \<Rightarrow> bool" where
  "policy_bound h g payload pol \<longleftrightarrow>
     (\<exists>load verify. gw_policyRepository g = Some load \<and> gw_policyApprovalVerifier g = Some verify
        \<and> load (ap_policyName payload) (ap_policyVersion payload) = Inr pol
        \<and> ap_policyContentHash payload = Some (h_policy h pol)
        \<and> verify (ap_policyName payload) (ap_policyVersion payload) (h_policy h pol) = Inr None)"

text \<open>The signals of the request are those of the authorization and still hold.\<close>

definition signals_hold ::
  "hashes \<Rightarrow> ('key, 'v) gateway \<Rightarrow> execution_request \<Rightarrow> executable_content \<Rightarrow> policy option \<Rightarrow> 'v \<Rightarrow> bool" where
  "signals_hold h g request content pol v \<longleftrightarrow>
     (\<forall>findViolations sh sigs. gw_signalStateVerifier g = Some findViolations \<longrightarrow>
        ap_signalsHash (sa_payload (xr_authorization request)) = Some sh \<longrightarrow>
        xr_signals request = Some sigs \<longrightarrow>
        h_signals h sigs = sh \<and> fst (findViolations (release_request content pol) sigs v) = Inr [])"

lemma governanceCheck_True:
  "fst (ExecutionGateway_governanceCheck g n w x) = Some True \<longleftrightarrow>
     (\<exists>verify. gw_policyApprovalVerifier g = Some verify \<and> verify n w x = Inr None)"
  by (auto simp: ExecutionGateway_governanceCheck_def split: option.splits sum.splits)

lemma policyCheck_bound:
  assumes "gw_requirePolicyBinding g"
    and "ExecutionGateway_policyBindingOk g (ExecutionGateway_policyCheck h g payload ready)"
  shows "\<exists>pol. pc_verifiedPolicy (ExecutionGateway_policyCheck h g payload ready) = Some pol
     \<and> policy_bound h g payload pol"
  using assms
  by (auto simp: ExecutionGateway_policyBindingOk_def ExecutionGateway_policyCheck_def policy_bound_def
      no_policy_check_def governanceCheck_True Let_def split: bool.splits option.splits sum.splits
      prod.splits if_splits dest: arg_cong[where f = fst])

lemma signalsCheck_current:
  assumes "ExecutionGateway_signalsCheck h g content request ready pc v = (Inr sc, v')"
    and "ready" "pc_stillCurrent pc \<noteq> Some False" "pc_governanceVerified pc \<noteq> Some False"
    and "sc_stillCurrent sc \<noteq> Some False"
  shows "signals_hold h g request content (pc_verifiedPolicy pc) v"
  using assms
  by (auto simp: ExecutionGateway_signalsCheck_def signals_hold_def Let_def
      split: if_splits prod.splits sum.splits)

lemma priorChecks_passed:
  assumes "ExecutionGateway_priorChecks dp sigv h g request content now v = (Inr (True, r), v')"
    and "gw_requirePolicyBinding g"
  obtains pol where
    "fst (EnvelopeVerifier_verifyChecks dp sigv (gw_envelope g) (xr_authorization request) now)"
    "h_content h content = ap_businessTransactionHash (sa_payload (xr_authorization request))"
    "policy_bound h g (sa_payload (xr_authorization request)) pol"
    "signals_hold h g request content (Some pol) v"
proof -
  let ?payload = "sa_payload (xr_authorization request)"
  let ?pc = "ExecutionGateway_policyCheck h g ?payload True"
  from assms(1) obtain sc where
    passed: "fst (EnvelopeVerifier_verifyChecks dp sigv (gw_envelope g) (xr_authorization request) now)"
    and hash: "h_content h content = ap_businessTransactionHash ?payload"
    and pc: "ExecutionGateway_policyBindingOk g ?pc"
    and sc: "ExecutionGateway_signalsCheck h g content request True ?pc v = (Inr sc, v')"
      "sc_stillCurrent sc \<noteq> Some False"
    by (auto simp: ExecutionGateway_priorChecks_def Let_def split: prod.splits sum.splits)
  from policyCheck_bound[OF assms(2) pc] obtain pol where
    pol: "pc_verifiedPolicy ?pc = Some pol" "policy_bound h g ?payload pol" by blast
  from pc assms(2) have "pc_stillCurrent ?pc \<noteq> Some False" "pc_governanceVerified ?pc \<noteq> Some False"
    by (auto simp: ExecutionGateway_policyBindingOk_def)
  from signalsCheck_current[OF sc(1) _ this sc(2)] pol(1)
  have "signals_hold h g request content (Some pol) v" by simp
  with passed hash pol(2) show thesis by (rule that)
qed

text \<open>The result of \<open>verify\<close> from that of the checks before the nonce.\<close>

lemma gateway_verify_cases:
  assumes "ExecutionGateway_verify dp sigv h check g request now clock (s, v) = (Inr (r, content), s', v')"
  obtains prior r0 where
    "toExecutableContent (xr_businessTransactionId request) (xr_action request) (xr_target request)
       (xr_parameters request) = Inr content"
    "ExecutionGateway_priorChecks dp sigv h g request content now v = (Inr (prior, r0), v')"
    "(gc_nonceUnseen (gr_checks r), s') =
       (if prior then EnvelopeVerifier_consumeNonce check clock (xr_authorization request) s else (False, s))"
    "gr_valid r = (prior \<and> gc_nonceUnseen (gr_checks r))"
    "named_checks (gr_checks r) = named_checks (gr_checks r0)"
proof -
  from assms obtain c prior r0 where c: "toExecutableContent (xr_businessTransactionId request)
      (xr_action request) (xr_target request) (xr_parameters request) = Inr c"
    and p: "ExecutionGateway_priorChecks dp sigv h g request c now v = (Inr (prior, r0), v')"
    by (auto simp: ExecutionGateway_verify_def split: sum.splits prod.splits if_splits)
  from assms c p show thesis
    by (intro that[of prior r0])
       (auto simp: ExecutionGateway_verify_def named_checks_def split: prod.splits if_splits)
qed

lemma create_requires:
  assumes "ExecutionGateway_create envl repo pav ssv allow conn ctl = Inr g"
    and "allow \<noteq> Some True"
  shows "gw_requirePolicyBinding g \<and> gw_policyRepository g \<noteq> None \<and> gw_policyApprovalVerifier g \<noteq> None"
  using assms by (auto simp: ExecutionGateway_create_def Let_def split: if_splits)

section \<open>Replay\<close>

lemma policyCheck_defined:
  assumes "gw_requirePolicyBinding g" "gw_policyRepository g \<noteq> None" "gw_policyApprovalVerifier g \<noteq> None"
    and "pc_stillCurrent (ExecutionGateway_policyCheck h g payload True) \<noteq> Some False"
    and "pc_governanceVerified (ExecutionGateway_policyCheck h g payload True) \<noteq> Some False"
  shows "ExecutionGateway_policyBindingOk g (ExecutionGateway_policyCheck h g payload True)"
  using assms
  by (auto simp: ExecutionGateway_policyBindingOk_def ExecutionGateway_policyCheck_def
      ExecutionGateway_governanceCheck_def no_policy_check_def Let_def
      split: option.splits sum.splits prod.splits if_splits)

lemma named_checks_all:
  "list_all snd (named_checks c) \<longleftrightarrow>
     ek_keyValid (gc_envelope c) \<noteq> Some False \<and> ek_versionSupported (gc_envelope c)
     \<and> ek_signatureVerified (gc_envelope c) \<and> ek_notExpired (gc_envelope c)
     \<and> ek_ttlWithinPolicy (gc_envelope c) \<and> gc_businessTransactionHashMatches c
     \<and> gc_policyStillCurrent c \<noteq> Some False \<and> gc_policyGovernanceVerified c \<noteq> Some False
     \<and> gc_signalsStillCurrent c \<noteq> Some False"
  by (auto simp: named_checks_def Let_def split: option.splits)

lemma verifyChecks_fst:
  "fst (EnvelopeVerifier_verifyChecks dp sigv v a now) \<longleftrightarrow>
     ek_keyValid (snd (EnvelopeVerifier_verifyChecks dp sigv v a now)) \<noteq> Some False
     \<and> ek_versionSupported (snd (EnvelopeVerifier_verifyChecks dp sigv v a now))
     \<and> ek_signatureVerified (snd (EnvelopeVerifier_verifyChecks dp sigv v a now))
     \<and> ek_notExpired (snd (EnvelopeVerifier_verifyChecks dp sigv v a now))
     \<and> ek_ttlWithinPolicy (snd (EnvelopeVerifier_verifyChecks dp sigv v a now))"
  by (simp add: EnvelopeVerifier_verifyChecks_def Let_def)

lemma all_named_checks_passed:
  assumes "ExecutionGateway_priorChecks dp sigv h g request content now v = (Inr (prior, r), v')"
    and "gw_requirePolicyBinding g" "gw_policyRepository g \<noteq> None" "gw_policyApprovalVerifier g \<noteq> None"
    and "list_all snd (named_checks (gr_checks r))"
  shows prior
proof -
  obtain passed checks where e: "EnvelopeVerifier_verifyChecks dp sigv (gw_envelope g)
      (xr_authorization request) now = (passed, checks)" by force
  let ?payload = "sa_payload (xr_authorization request)"
  let ?m = "passed \<and> h_content h content = ap_businessTransactionHash ?payload"
  let ?pc = "ExecutionGateway_policyCheck h g ?payload ?m"
  obtain sc where sc: "ExecutionGateway_signalsCheck h g content request ?m ?pc v = (Inr sc, v')"
    using assms(1) by (auto simp: ExecutionGateway_priorChecks_def e Let_def split: prod.splits sum.splits)
  have r: "gc_businessTransactionHashMatches (gr_checks r) = ?m"
    "gc_policyStillCurrent (gr_checks r) = pc_stillCurrent ?pc"
    "gc_policyGovernanceVerified (gr_checks r) = pc_governanceVerified ?pc"
    "gc_signalsStillCurrent (gr_checks r) = sc_stillCurrent sc"
    "prior \<longleftrightarrow> passed \<and> ?m \<and> ExecutionGateway_policyBindingOk g ?pc \<and> sc_stillCurrent sc \<noteq> Some False"
    using assms(1) unfolding ExecutionGateway_priorChecks_def e prod.case Let_def sc sum.case
    by auto
  from assms(5) have all: "?m" "pc_stillCurrent ?pc \<noteq> Some False"
    "pc_governanceVerified ?pc \<noteq> Some False" "sc_stillCurrent sc \<noteq> Some False"
    unfolding named_checks_all r by blast+
  then have "ExecutionGateway_policyBindingOk g ?pc"
    using policyCheck_defined[OF assms(2-4), of h ?payload] by simp
  with all r(5) show prior by simp
qed

text \<open>Signals reported as current have the hash signed into the authorization.\<close>

lemma verify_signals_current:
  assumes "ExecutionGateway_verify dp sigv h check g request now clock (s, v) = (Inr (r, content), st')"
    and "gc_signalsStillCurrent (gr_checks r) = Some True"
  shows "\<exists>sigs. xr_signals request = Some sigs
     \<and> ap_signalsHash (sa_payload (xr_authorization request)) = Some (h_signals h sigs)"
proof -
  have "sc_stillCurrent sc = Some True \<Longrightarrow> ?thesis"
    if "ExecutionGateway_signalsCheck h g c request m pc w = (Inr sc, w')" for c m pc w sc w'
    using that by (auto simp: ExecutionGateway_signalsCheck_def no_signals_check_def Let_def
        split: if_splits option.splits prod.splits sum.splits)
  with assms show ?thesis
    by (fastforce simp: ExecutionGateway_verify_def ExecutionGateway_priorChecks_def Let_def
        split: sum.splits prod.splits if_splits)
qed

fun released_content :: "gateway_release \<Rightarrow> executable_content" where
  "released_content (ReleaseToConnector c a r) = c"
| "released_content (ReleaseToChannel i c a r) = c"
| "released_content (ReleaseToService c a xs) = c"

fun released_approvals :: "gateway_release \<Rightarrow> release_approval list" where
  "released_approvals (ReleaseToService c a xs) = xs"
| "released_approvals _ = []"

lemma execute_released:
  assumes "ExecutionGateway_execute dp sigv h check g request now clock st = (Inr rel, st')"
  obtains r where
    "ExecutionGateway_verify dp sigv h check g request now clock st = (Inr (r, released_content rel), st')"
    "gr_valid r"
    "released_approvals rel \<noteq> [] \<longrightarrow> gc_signalsStillCurrent (gr_checks r) = Some True"
  using assms
  by (auto simp: ExecutionGateway_execute_def split: prod.splits sum.splits if_splits release_side.splits)

lemma execute_nonce_error:
  assumes "ExecutionGateway_execute dp sigv h check g request now clock st
             = (Inl (NonceAlreadyConsumedError t), st')"
  obtains r content where
    "ExecutionGateway_verify dp sigv h check g request now clock st = (Inr (r, content), st')"
    "\<not> gr_valid r" "ExecutionGateway_isSoleFailureNonceReplay r" "t = ec_businessTransactionId content"
  using assms
  by (auto simp: ExecutionGateway_execute_def ExecutionGateway_verify_def
      split: prod.splits sum.splits if_splits release_side.splits)

text \<open>What a release of a gateway that requires the policy binding rests on.\<close>

lemma release_sound:
  assumes "ExecutionGateway_create envl repo pav ssv allow conn ctl = Inr g" and "allow \<noteq> Some True"
    and "ExecutionGateway_execute dp sigv h (MemoryNonceStore_checkAndRecord dp) g request now clock (s, v)
           = (Inr rel, st')"
  shows "\<exists>pol payload. payload = sa_payload (xr_authorization request)
     \<and> fst (EnvelopeVerifier_verifyChecks dp sigv (gw_envelope g) (xr_authorization request) now)
     \<and> toExecutableContent (xr_businessTransactionId request) (xr_action request)
           (xr_target request) (xr_parameters request) = Inr (released_content rel)
     \<and> h_content h (released_content rel) = ap_businessTransactionHash payload
     \<and> policy_bound h g payload pol
     \<and> signals_hold h g request (released_content rel) (Some pol) v
     \<and> map_of s (ap_nonce payload) = None
     \<and> (released_approvals rel = [] \<or>
         (\<exists>sigs. xr_signals request = Some sigs \<and> ap_signalsHash payload = Some (h_signals h sigs)))"
proof -
  from create_requires[OF assms(1,2)] have req: "gw_requirePolicyBinding g" by blast
  obtain s' v' where st': "st' = (s', v')" by force
  from assms(3) obtain r where r:
    "ExecutionGateway_verify dp sigv h (MemoryNonceStore_checkAndRecord dp) g request now clock (s, v)
       = (Inr (r, released_content rel), st')" "gr_valid r"
    "released_approvals rel \<noteq> [] \<longrightarrow> gc_signalsStillCurrent (gr_checks r) = Some True"
    by (rule execute_released)
  from r(1)[unfolded st'] obtain prior r0 where c:
    "toExecutableContent (xr_businessTransactionId request) (xr_action request) (xr_target request)
       (xr_parameters request) = Inr (released_content rel)"
    "ExecutionGateway_priorChecks dp sigv h g request (released_content rel) now v = (Inr (prior, r0), v')"
    "(gc_nonceUnseen (gr_checks r), s') = (if prior then EnvelopeVerifier_consumeNonce
       (MemoryNonceStore_checkAndRecord dp) clock (xr_authorization request) s else (False, s))"
    "gr_valid r = (prior \<and> gc_nonceUnseen (gr_checks r))" by (rule gateway_verify_cases)
  with r(2) have prior: "prior" and "fst (MemoryNonceStore_checkAndRecord dp clock
      (ap_nonce (sa_payload (xr_authorization request)))
      (ap_expiresAt (sa_payload (xr_authorization request))) s)"
    by (auto simp: EnvelopeVerifier_consumeNonce_def dest: arg_cong[where f = fst])
  then have "map_of s (ap_nonce (sa_payload (xr_authorization request))) = None"
    unfolding memory_nonce_store.accept_iff by blast
  moreover from c(2) prior have "ExecutionGateway_priorChecks dp sigv h g request
      (released_content rel) now v = (Inr (True, r0), v')" by simp
  from this req obtain pol where
    "fst (EnvelopeVerifier_verifyChecks dp sigv (gw_envelope g) (xr_authorization request) now)"
    "h_content h (released_content rel) = ap_businessTransactionHash (sa_payload (xr_authorization request))"
    "policy_bound h g (sa_payload (xr_authorization request)) pol"
    "signals_hold h g request (released_content rel) (Some pol) v" by (rule priorChecks_passed)
  moreover from r(3) verify_signals_current[OF r(1)] have "released_approvals rel = [] \<or>
      (\<exists>sigs. xr_signals request = Some sigs
        \<and> ap_signalsHash (sa_payload (xr_authorization request)) = Some (h_signals h sigs))" by blast
  ultimately show ?thesis using c(1) by blast
qed

text \<open>A sequence of requests against one gateway.\<close>

record gateway_call =
  gl_request :: execution_request
  gl_now :: int
  gl_clock :: int

fun gateway_run ::
  "date_parse \<Rightarrow> 'key signature_check \<Rightarrow> hashes \<Rightarrow> 's nonce_check \<Rightarrow> ('key, 'v) gateway
   \<Rightarrow> gateway_call list \<Rightarrow> 's \<times> 'v \<Rightarrow> (gateway_error, gateway_release) result list" where
  "gateway_run dp sigv h check g [] st = []"
| "gateway_run dp sigv h check g (c # cs) st =
     (case ExecutionGateway_execute dp sigv h check g (gl_request c) (gl_now c) (gl_clock c) st of
        (r, st') \<Rightarrow> r # gateway_run dp sigv h check g cs st')"

text \<open>The effect of \<open>execute\<close> on the nonce store: a release has recorded the nonce, and anything
  else has changed nothing but by a recorded nonce.\<close>

lemma execute_nonce_effect:
  assumes "ExecutionGateway_execute dp sigv h check g request now clock (s, v) = (r, s', v')"
  defines "p \<equiv> sa_payload (xr_authorization request)"
  shows "s' = s \<and> \<not> ok r \<or>
     s' = snd (check clock (ap_nonce p) (ap_expiresAt p) s) \<and>
     (ok r \<longrightarrow> fst (check clock (ap_nonce p) (ap_expiresAt p) s))"
proof (cases "ExecutionGateway_verify dp sigv h check g request now clock (s, v)")
  case (fields vr t w)
  show ?thesis
  proof (cases vr)
    case (Inl e)
    with fields assms(1) show ?thesis
      by (auto simp: ExecutionGateway_execute_def ExecutionGateway_verify_def
          split: sum.splits prod.splits)
  next
    case (Inr rc)
    obtain res content where rc: "rc = (res, content)" by force
    with fields Inr have "ExecutionGateway_verify dp sigv h check g request now clock (s, v)
        = (Inr (res, content), t, w)" by simp
    then obtain b r0 where n: "(gc_nonceUnseen (gr_checks res), t) =
       (if b then EnvelopeVerifier_consumeNonce check clock (xr_authorization request) s else (False, s))"
      "gr_valid res = (b \<and> gc_nonceUnseen (gr_checks res))"
      by (rule gateway_verify_cases)
    from assms(1) fields Inr rc have "s' = t" and "ok r \<longrightarrow> gr_valid res"
      by (auto simp: ExecutionGateway_execute_def split: if_splits release_side.splits)
    with n show ?thesis
      by (cases b) (auto simp: EnvelopeVerifier_consumeNonce_def p_def dest: sym)
  qed
qed

context nonce_store
begin

lemma execute_keeps_held:
  assumes "held s n = Some e" "live clock e"
    and "ExecutionGateway_execute d sigv h check g request now clock (s, v) = (r, s', v')"
  shows "held s' n = Some e"
  using execute_nonce_effect[OF assms(3)] assms(1) kept[OF assms(1,2)] by auto

lemma held_not_released:
  assumes "held s n = Some e" "j < length cs"
    and "ap_nonce (sa_payload (xr_authorization (gl_request (cs ! j)))) = n"
    and "\<And>i. i < j \<Longrightarrow> live (gl_clock (cs ! i)) e"
  shows "\<not> ok (gateway_run d sigv h check g cs (s, v) ! j)"
  using assms
proof (induction cs arbitrary: s v j)
  case (Cons c cs)
  obtain r s' v' where x: "ExecutionGateway_execute d sigv h check g (gl_request c) (gl_now c)
      (gl_clock c) (s, v) = (r, s', v')" by (metis prod.collapse)
  show ?case
  proof (cases j)
    case 0
    with Cons.prems execute_nonce_effect[OF x] held_refused[OF Cons.prems(1)] x show ?thesis by auto
  next
    case (Suc i)
    from Cons.prems(4)[of 0] Suc have "live (gl_clock c) e" by simp
    note h = execute_keeps_held[OF Cons.prems(1) this x]
    have "\<not> ok (gateway_run d sigv h check g cs (s', v') ! i)"
      using Cons.prems Suc by (intro Cons.IH[OF h]) force+
    with Suc x show ?thesis by simp
  qed
qed simp

lemma released_once:
  assumes "sorted (map gl_clock cs)" "i < j" "j < length cs"
    and "sa_payload (xr_authorization (gl_request (cs ! j))) = p"
    and "sa_payload (xr_authorization (gl_request (cs ! i))) = p"
    and "live (gl_clock (cs ! j)) (dp (ap_expiresAt p))"
    and "ok (gateway_run d sigv h check g cs (s, v) ! i)"
  shows "\<not> ok (gateway_run d sigv h check g cs (s, v) ! j)"
  using assms
proof (induction cs arbitrary: s v i j)
  case (Cons c cs)
  obtain r s' v' where x: "ExecutionGateway_execute d sigv h check g (gl_request c) (gl_now c)
      (gl_clock c) (s, v) = (r, s', v')" by (metis prod.collapse)
  obtain k where j: "j = Suc k" using Cons.prems(2) by (cases j) auto
  show ?case
  proof (cases i)
    case 0
    have mono: "gl_clock c \<le> gl_clock (cs ! k)"
      "\<And>l. l < k \<Longrightarrow> gl_clock (cs ! l) \<le> gl_clock (cs ! k)"
      using Cons.prems(1,3) j by (auto simp: sorted_iff_nth_mono)
    have le: "live (gl_clock (cs ! k)) (dp (ap_expiresAt p))" using Cons.prems(6) j by simp
    have "held s' (ap_nonce p) = Some (dp (ap_expiresAt p))"
      using execute_nonce_effect[OF x] Cons.prems(5,7) 0 x
        accepted_then_held[OF _ live_mono[OF le mono(1)]] by auto
    then have "\<not> ok (gateway_run d sigv h check g cs (s', v') ! k)"
      by (rule held_not_released) (use Cons.prems j live_mono[OF le mono(2)] in auto)
    with j x show ?thesis by simp
  next
    case (Suc i')
    have "\<not> ok (gateway_run d sigv h check g cs (s', v') ! k)"
      using Cons.prems j Suc x by (intro Cons.IH[of i' k]) auto
    with j x show ?thesis by simp
  qed
qed simp

end

end
