(* ===== verification/Runtime_Decision.thy ===== *)
theory Runtime_Decision
  imports Transactions Gateway
begin

text \<open>
  How the runtime comes to a decision: the first half of \<open>RuntimeEngine.execute\<close>
  (\<open>packages/runtime/src/RuntimeEngine.ts\<close>) up to \<open>executionGate.enforce\<close>, with
  \<open>DecisionBuilder.ts\<close>, \<open>ExecutionGate.ts\<close>, \<open>RefusalRecordBuilder.ts\<close> and
  \<open>findNeededApprovals\<close> of \<open>ApprovalNeededNotifier.ts\<close>.

  Parameters: the policy repository, policy governance (which answers or throws), the signal
  state verifier with its state, the hashes, and the signer of refusal records.  The list of
  runtime hooks is empty, as \<open>RuntimeFactory\<close> builds the engine.
\<close>

section \<open>The engine\<close>

type_synonym policy_execution_verifier =
  "string option \<Rightarrow> string option \<Rightarrow> string \<Rightarrow> (string, string option) result"

type_synonym anchor_resolver =
  "string option \<Rightarrow> string option \<Rightarrow> string \<Rightarrow> (string, governance_anchor) result"

record 'v decision_engine =
  re_repository :: "string \<Rightarrow> string \<Rightarrow> (string, policy) result"
  re_rx :: regexp
  re_nstr :: "jsnum \<Rightarrow> string"
  re_hashes :: hashes
  re_policyExecutionVerifier :: "policy_execution_verifier option"
  re_anchorResolver :: "anchor_resolver option"
  re_capabilityPolicyBinder :: "(current_versions option \<times> external_bindings option) option"
  re_signalStateVerifier :: "'v signal_state_verifier option"

datatype decision_error =
    PolicyLoadFailed "string load_error"
  | PolicyExecutionVerifierThrew string
  | SignalBinderThrew binder_error
  | EvaluationThrew eval_error
  | StateVerifierThrew string

section \<open>The reasons of a rejection\<close>

definition quoted :: "string \<Rightarrow> string" where
  "quoted s = [CHR 0x22] @ s @ [CHR 0x22]"

text \<open>The texts of \<open>CapabilityPolicyBinder\<close> for a policy that is not available.\<close>

fun unavailable_text :: "string \<Rightarrow> policy_reference \<Rightarrow> unavailable_reason \<Rightarrow> string" where
  "unavailable_text action bound (ExternalLookupFailed e) =
     ''whether capability '' @ quoted action @
     '' is registered as an external connector could not be looked up: '' @ e"
| "unavailable_text action bound GovernanceNotEnabled =
     ''capability '' @ quoted action @ '' is an external connector, whose policy version is decided '' @
     ''only by policy governance, which is not enabled here''"
| "unavailable_text action bound (VersionLookupFailed e) =
     ''the version of policy '' @ quoted (pr_name bound) @ '' in effect for capability '' @
     quoted action @ '' could not be looked up: '' @ e"
| "unavailable_text action bound NoApprovedVersion =
     ''no version of policy '' @ quoted (pr_name bound) @ '', which capability '' @ quoted action @
     '' requires, has been approved through policy governance''"

definition capability_reason :: "capability_violation \<Rightarrow> string" where
  "capability_reason v =
     (case cv_reason v of
        Some r \<Rightarrow> ''Rejected: '' @ unavailable_text (cv_action v) (cv_expected v) r @ ''.''
      | None \<Rightarrow> ''Rejected: capability '' @ quoted (cv_action v) @ '' requires policy '' @
          quoted (pr_name (cv_expected v)) @ ''@'' @ quoted (pr_version (cv_expected v)) @ '', but '' @
          quoted (pr_name (cv_declared v)) @ ''@'' @ quoted (pr_version (cv_declared v)) @
          '' was declared.'')"

definition binding_reason :: "(jsnum \<Rightarrow> string) \<Rightarrow> binding_violation list \<Rightarrow> string" where
  "binding_reason nstr vs =
     ''Rejected: declared signal(s) do not match the executed intent ('' @
     join_comma_space (map (\<lambda>v. bv_signalKey v @ ''='' @ json_stringify_opt nstr (bv_signalValue v) @
       '' != intent.'' @ bv_intentPath v @ ''='' @ json_stringify_opt nstr (bv_intentValue v)) vs) @
     '').''"

definition state_reason :: "(jsnum \<Rightarrow> string) \<Rightarrow> signal_state_violation list \<Rightarrow> string" where
  "state_reason nstr vs =
     ''Rejected: declared signal(s) do not match independently verified state ('' @
     join_comma_space (map (\<lambda>v. sv_signalKey v @ ''='' @ json_stringify_opt nstr (sv_declaredValue v) @
       '' != verified '' @ sv_signalKey v @ ''='' @ json_stringify_opt nstr (sv_actualValue v)) vs) @
     '').''"

definition UNVERIFIED_APPROVAL_REASON :: string where
  "UNVERIFIED_APPROVAL_REASON =
     ''Rejected: no approval verifier is configured, so the signed human approval this action needs cannot be checked.''"

text \<open>A rejection that no rule made.\<close>

definition rejected_by :: "policy \<Rightarrow> string \<Rightarrow> string \<Rightarrow> policy_decision" where
  "rejected_by pol ruleId reason =
     \<lparr>d_policyId = policyId pol, d_policyVersion = policyVersion pol, d_outcome = REJECT,
      d_reason = reason, d_matchedRuleId = ruleId, d_evaluatedRules = 0, d_matchedPath = []\<rparr>"

section \<open>From the policy to the decision\<close>

definition transaction_signals :: "business_transaction \<Rightarrow> signals" where
  "transaction_signals t = (case bt_signals t of None \<Rightarrow> [] | Some s \<Rightarrow> s)"

text \<open>\<open>{ target, parameters }\<close>\<close>

definition intent_object :: "business_transaction \<Rightarrow> json" where
  "intent_object t = JObj [(''target'', JStr (in_target (bt_intent t))),
     (''parameters'', JObj (in_parameters (bt_intent t)))]"

definition authorize_request :: "business_transaction \<Rightarrow> policy \<Rightarrow> verification_request" where
  "authorize_request t pol =
     \<lparr>rq_action = in_action (bt_intent t), rq_businessTransactionId = bt_businessTransactionId t,
      rq_intentParameters = Some (in_parameters (bt_intent t)),
      rq_intentTarget = Some (in_target (bt_intent t)), rq_stage = Some Authorize,
      rq_policy = Some pol\<rparr>"

definition RuntimeEngine_governanceAnchor ::
  "'v decision_engine \<Rightarrow> policy \<Rightarrow> string \<Rightarrow> governance_anchor option" where
  "RuntimeEngine_governanceAnchor e pol policyContentHash =
     (case re_anchorResolver e of
        None \<Rightarrow> None
      | Some resolve \<Rightarrow>
          (case resolve (policyId pol) (policyVersion pol) policyContentHash of
             Inl _ \<Rightarrow> None | Inr a \<Rightarrow> Some a))"

definition RuntimeEngine_policyExecutionViolation ::
  "'v decision_engine \<Rightarrow> policy \<Rightarrow> string \<Rightarrow> (decision_error, string option) result" where
  "RuntimeEngine_policyExecutionViolation e pol policyContentHash =
     (case re_policyExecutionVerifier e of
        None \<Rightarrow> Inr None
      | Some verify \<Rightarrow>
          (case verify (policyId pol) (policyVersion pol) policyContentHash of
             Inl x \<Rightarrow> Inl (PolicyExecutionVerifierThrew x) | Inr r \<Rightarrow> Inr r))"

definition RuntimeEngine_capabilityBindingViolation ::
  "'v decision_engine \<Rightarrow> business_transaction \<Rightarrow> string option \<Rightarrow> capability_violation option" where
  "RuntimeEngine_capabilityBindingViolation e t policyExecutionViolation =
     (if policyExecutionViolation \<noteq> None then None
      else case re_capabilityPolicyBinder e of
             None \<Rightarrow> None
           | Some (currentVersions, externalBindings) \<Rightarrow>
               CapabilityPolicyBinder_findViolation currentVersions externalBindings
                 (in_action (bt_intent t)) (bt_policy t))"

definition RuntimeEngine_bindingViolations ::
  "business_transaction \<Rightarrow> policy \<Rightarrow> string option \<Rightarrow> capability_violation option
   \<Rightarrow> (decision_error, binding_violation list) result" where
  "RuntimeEngine_bindingViolations t pol policyExecutionViolation capabilityBindingViolation =
     (if policyExecutionViolation = None \<and> capabilityBindingViolation = None
      then (case SignalIntentBinder_findViolations pol (transaction_signals t) (intent_object t) of
              Inl x \<Rightarrow> Inl (SignalBinderThrew x) | Inr vs \<Rightarrow> Inr vs)
      else Inr [])"

definition RuntimeEngine_provisionalDecision ::
  "'v decision_engine \<Rightarrow> business_transaction \<Rightarrow> policy \<Rightarrow> string option
   \<Rightarrow> capability_violation option \<Rightarrow> binding_violation list
   \<Rightarrow> (decision_error, policy_decision) result" where
  "RuntimeEngine_provisionalDecision e t pol policyExecutionViolation capabilityBindingViolation
     bindingViolations =
     (case policyExecutionViolation of
        Some reason \<Rightarrow>
          Inr (rejected_by pol ''policy-execution-verification-violation''
                 (''Rejected: '' @ reason @ ''.''))
      | None \<Rightarrow>
      (case capabilityBindingViolation of
        Some v \<Rightarrow> Inr (rejected_by pol ''capability-policy-binding-violation'' (capability_reason v))
      | None \<Rightarrow>
          if bindingViolations \<noteq> []
          then Inr (rejected_by pol ''signal-intent-binding-violation''
                      (binding_reason (re_nstr e) bindingViolations))
          else (case PolicyEngine_evaluate (re_rx e) pol (transaction_signals t) of
                  Inl x \<Rightarrow> Inl (EvaluationThrew x) | Inr d \<Rightarrow> Inr d)))"

definition RuntimeEngine_stateViolations ::
  "'v decision_engine \<Rightarrow> business_transaction \<Rightarrow> policy \<Rightarrow> policy_decision \<Rightarrow> 'v
   \<Rightarrow> (decision_error, signal_state_violation list) result \<times> 'v" where
  "RuntimeEngine_stateViolations e t pol provisional v =
     (case re_signalStateVerifier e of
        Some findViolations \<Rightarrow>
          if d_outcome provisional = APPROVE
          then (case findViolations (authorize_request t pol) (transaction_signals t) v of
                  (Inl x, v') \<Rightarrow> (Inl (StateVerifierThrew x), v')
                | (Inr vs, v') \<Rightarrow> (Inr vs, v'))
          else (Inr [], v)
      | None \<Rightarrow> (Inr [], v))"

definition RuntimeEngine_policyDecision ::
  "'v decision_engine \<Rightarrow> policy \<Rightarrow> policy_decision \<Rightarrow> signal_state_violation list \<Rightarrow> policy_decision" where
  "RuntimeEngine_policyDecision e pol provisional stateViolations =
     (if d_outcome provisional = APPROVE \<and> re_signalStateVerifier e = None
      then rejected_by pol ''approval-verifier-not-configured'' UNVERIFIED_APPROVAL_REASON
      else if stateViolations \<noteq> []
      then rejected_by pol ''signal-state-verification-violation''
             (state_reason (re_nstr e) stateViolations)
      else provisional)"

record policy_verdict =
  pv_policy :: policy
  pv_policyContentHash :: string
  pv_governanceAnchor :: "governance_anchor option"
  pv_policyExecutionViolation :: "string option"
  pv_capabilityBindingViolation :: "capability_violation option"
  pv_bindingViolations :: "binding_violation list"
  pv_decision :: policy_decision

text \<open>The steps of \<open>execute\<close> up to \<open>policyDecision\<close>.\<close>

definition RuntimeEngine_decide ::
  "'v decision_engine \<Rightarrow> business_transaction \<Rightarrow> 'v \<Rightarrow> (decision_error, policy_verdict) result \<times> 'v" where
  "RuntimeEngine_decide e t v =
     (case PolicyRouter_load (re_rx e) (re_nstr e) (re_repository e) (pr_name (bt_policy t))
             (pr_version (bt_policy t)) of
        Inl x \<Rightarrow> (Inl (PolicyLoadFailed x), v)
      | Inr (pol, _) \<Rightarrow>
          let policyContentHash = h_policy (re_hashes e) pol;
              anchor = RuntimeEngine_governanceAnchor e pol policyContentHash in
          (case RuntimeEngine_policyExecutionViolation e pol policyContentHash of
             Inl x \<Rightarrow> (Inl x, v)
           | Inr pev \<Rightarrow>
               let cbv = RuntimeEngine_capabilityBindingViolation e t pev in
               (case RuntimeEngine_bindingViolations t pol pev cbv of
                  Inl x \<Rightarrow> (Inl x, v)
                | Inr bvs \<Rightarrow>
                    (case RuntimeEngine_provisionalDecision e t pol pev cbv bvs of
                       Inl x \<Rightarrow> (Inl x, v)
                     | Inr provisional \<Rightarrow>
                         (case RuntimeEngine_stateViolations e t pol provisional v of
                            (Inl x, v') \<Rightarrow> (Inl x, v')
                          | (Inr svs, v') \<Rightarrow>
                              (Inr \<lparr>pv_policy = pol, pv_policyContentHash = policyContentHash,
                                    pv_governanceAnchor = anchor, pv_policyExecutionViolation = pev,
                                    pv_capabilityBindingViolation = cbv, pv_bindingViolations = bvs,
                                    pv_decision = RuntimeEngine_policyDecision e pol provisional svs\<rparr>,
                               v'))))))"

section \<open>DecisionBuilder and ExecutionGate\<close>

fun DecisionBuilder_toDecisionOutcome :: "policy_outcome \<Rightarrow> decision_outcome" where
  "DecisionBuilder_toDecisionOutcome APPROVE = APPROVED"
| "DecisionBuilder_toDecisionOutcome REJECT = REJECTED"

definition DecisionBuilder_build ::
  "string \<Rightarrow> int \<Rightarrow> business_transaction \<Rightarrow> policy_decision \<Rightarrow> decision" where
  "DecisionBuilder_build uuid now t d =
     \<lparr>dn_decisionId = uuid, dn_intentId = in_intentId (bt_intent t), dn_policy = bt_policy t,
      dn_signals = transaction_signals t,
      dn_outcome = DecisionBuilder_toDecisionOutcome (d_outcome d), dn_reason = Some (d_reason d),
      dn_matchedRuleId = Some (d_matchedRuleId d), dn_evaluatedRules = Some (d_evaluatedRules d),
      dn_matchedPath = Some (d_matchedPath d), dn_evaluatedAt = now\<rparr>"

definition ExecutionGate_canExecute :: "decision \<Rightarrow> bool" where
  "ExecutionGate_canExecute d = (dn_outcome d = APPROVED)"

datatype gate_error = PolicyDenied string

definition ExecutionGate_enforce :: "decision \<Rightarrow> (gate_error, unit) result" where
  "ExecutionGate_enforce d =
     (if ExecutionGate_canExecute d then Inr ()
      else Inl (PolicyDenied (''Execution rejected: '' @
             (case dn_reason d of Some r \<Rightarrow> r | None \<Rightarrow> ''Policy rejected execution.''))))"

section \<open>What a refusal leaves behind\<close>

record refusal_record =
  rf_refusalRecordId :: string
  rf_businessTransactionId :: string
  rf_decision :: decision
  rf_target :: string
  rf_parameters :: jsobject
  rf_bindingViolations :: "binding_violation list option"
  rf_submittedBy :: "string option"
  rf_createdAt :: int
  rf_refusalRecordHash :: string
  rf_signature :: signature

text \<open>
  \<open>RefusalRecordBuilder.build\<close>.  \<open>hash\<close> and \<open>sign\<close> are \<open>RefusalCrypto\<close> over the canonical
  view, which leaves out the hash and the signature; signing may throw.
\<close>

definition RefusalCrypto_canonicalRecord :: "refusal_record \<Rightarrow> refusal_record" where
  "RefusalCrypto_canonicalRecord r =
     r\<lparr>rf_refusalRecordHash := [],
       rf_signature := \<lparr>sg_algorithm = [], sg_keyId = [], sg_value = [], sg_signedAt = 0\<rparr>\<rparr>"

record refusal_crypto =
  rc_algorithm :: string
  rc_hash :: "refusal_record \<Rightarrow> string"
  rc_sign :: "refusal_record \<Rightarrow> (string, signature) result"

definition RefusalRecordBuilder_build ::
  "refusal_crypto \<Rightarrow> string \<Rightarrow> int \<Rightarrow> string \<Rightarrow> decision \<Rightarrow> string \<Rightarrow> jsobject
   \<Rightarrow> binding_violation list \<Rightarrow> string option \<Rightarrow> (string, refusal_record) result" where
  "RefusalRecordBuilder_build crypto uuid now txId d target params bvs submittedBy =
     (let draft = \<lparr>rf_refusalRecordId = uuid, rf_businessTransactionId = txId, rf_decision = d,
            rf_target = target, rf_parameters = params,
            rf_bindingViolations = (if bvs \<noteq> [] then Some bvs else None),
            rf_submittedBy = submittedBy, rf_createdAt = now, rf_refusalRecordHash = [],
            rf_signature = \<lparr>sg_algorithm = rc_algorithm crypto, sg_keyId = ''default'',
              sg_value = [], sg_signedAt = now\<rparr>\<rparr>;
          withHash = draft\<lparr>rf_refusalRecordHash :=
            rc_hash crypto (RefusalCrypto_canonicalRecord draft)\<rparr>
      in (case rc_sign crypto (RefusalCrypto_canonicalRecord withHash) of
            Inl x \<Rightarrow> Inl x | Inr s \<Rightarrow> Inr (withHash\<lparr>rf_signature := s\<rparr>)))"

text \<open>\<open>verify\<close> with the key lookup and the signature check as one parameter.\<close>

definition RefusalCrypto_verify ::
  "refusal_crypto \<Rightarrow> (refusal_record \<Rightarrow> signature \<Rightarrow> bool) \<Rightarrow> refusal_record \<Rightarrow> bool" where
  "RefusalCrypto_verify crypto check r =
     (if rc_hash crypto (RefusalCrypto_canonicalRecord r) \<noteq> rf_refusalRecordHash r then False
      else check (RefusalCrypto_canonicalRecord r) (rf_signature r))"

type_synonym refusal_store = "(string \<times> refusal_record) list"

definition MemoryRefusals_create :: "refusal_record \<Rightarrow> refusal_store \<Rightarrow> refusal_store" where
  "MemoryRefusals_create r s = map_set (rf_businessTransactionId r) r s"

definition MemoryRefusals_findByTransactionId :: "refusal_store \<Rightarrow> string \<Rightarrow> refusal_record option" where
  "MemoryRefusals_findByTransactionId s txId = map_of s txId"

definition RuntimeEngine_writeRefusalRecord ::
  "refusal_crypto option \<Rightarrow> string \<Rightarrow> int \<Rightarrow> business_transaction \<Rightarrow> decision
   \<Rightarrow> binding_violation list \<Rightarrow> refusal_store \<Rightarrow> refusal_store" where
  "RuntimeEngine_writeRefusalRecord crypto uuid now t d bvs s =
     (case crypto of
        None \<Rightarrow> s
      | Some c \<Rightarrow>
          (case RefusalRecordBuilder_build c uuid now (bt_businessTransactionId t) d
                  (in_target (bt_intent t)) (in_parameters (bt_intent t)) bvs
                  (tm_submittedBy (bt_metadata t)) of
             Inl _ \<Rightarrow> s
           | Inr r \<Rightarrow> MemoryRefusals_create r s))"

section \<open>findNeededApprovals\<close>

record needed_approval =
  na_signal :: string
  na_resourceId :: "string option"
  na_value :: "jsnum option"

fun needed_resource :: "(jsnum \<Rightarrow> string) \<Rightarrow> json option \<Rightarrow> string option" where
  "needed_resource nstr (Some (JStr s)) = Some s"
| "needed_resource nstr (Some (JNum n)) = Some (nstr n)"
| "needed_resource nstr _ = None"

fun needed_value :: "json option \<Rightarrow> jsnum option" where
  "needed_value (Some (JNum n)) = (if num_finite n then Some n else None)"
| "needed_value _ = None"

text \<open>
  A declaration whose path is no string, which the validator refuses, makes \<open>path.split\<close> throw:
  the outer \<^term>\<open>None\<close>.
\<close>

definition needed_approval_of ::
  "(jsnum \<Rightarrow> string) \<Rightarrow> json \<Rightarrow> string \<times> json \<Rightarrow> needed_approval option" where
  "needed_approval_of nstr intent entry =
     (case path_of (get_prop (snd entry) ''resourceId'') of
        None \<Rightarrow> None
      | Some p \<Rightarrow>
          let make = (\<lambda>value. \<lparr>na_signal = fst entry,
                na_resourceId = needed_resource nstr (resolveIntentPath intent p), na_value = value\<rparr>)
          in if get_prop (snd entry) ''value'' = None then Some (make None)
             else (case path_of (get_prop (snd entry) ''value'') of
                     None \<Rightarrow> None
                   | Some q \<Rightarrow> Some (make (needed_value (resolveIntentPath intent q)))))"

definition findNeededApprovals ::
  "regexp \<Rightarrow> (jsnum \<Rightarrow> string) \<Rightarrow> policy \<Rightarrow> signals \<Rightarrow> json
   \<Rightarrow> (eval_error, needed_approval list option) result" where
  "findNeededApprovals rx nstr pol signals intent =
     (case approvalSignals pol of
        None \<Rightarrow> Inr None
      | Some declarations \<Rightarrow>
          if declarations = JNull then Inl EvalTypeError
          else if object_keys (Some declarations) = [] then Inr None
          else let entries = sort_key fst (spread_object (Some declarations));
                   approved = foldl (\<lambda>s (k, _). map_set k (JBool True) s) signals entries in
            (case PolicyEngine_evaluate rx pol approved of
               Inl x \<Rightarrow> Inl x
             | Inr d \<Rightarrow>
                 if d_outcome d \<noteq> APPROVE then Inr None
                 else (case those (map (needed_approval_of nstr intent) entries) of
                         None \<Rightarrow> Inl EvalTypeError | Some as \<Rightarrow> Inr (Some as))))"

record approval_needed_event =
  ae_businessTransactionId :: string
  ae_decisionId :: string
  ae_action :: string
  ae_target :: string
  ae_policyId :: "string option"
  ae_policyVersion :: "string option"
  ae_reason :: "string option"
  ae_submittedBy :: "string option"
  ae_approvals :: "needed_approval list"

text \<open>The event handed to the notifier, if any; what the notifier does with it is its own.\<close>

definition RuntimeEngine_notifyApprovalNeeded ::
  "bool \<Rightarrow> 'v decision_engine \<Rightarrow> business_transaction \<Rightarrow> decision \<Rightarrow> policy
   \<Rightarrow> approval_needed_event option" where
  "RuntimeEngine_notifyApprovalNeeded configured e t d pol =
     (if \<not> configured then None
      else case findNeededApprovals (re_rx e) (re_nstr e) pol (transaction_signals t) (intent_object t) of
        Inl _ \<Rightarrow> None
      | Inr None \<Rightarrow> None
      | Inr (Some approvals) \<Rightarrow>
          Some \<lparr>ae_businessTransactionId = bt_businessTransactionId t, ae_decisionId = dn_decisionId d,
            ae_action = in_action (bt_intent t), ae_target = in_target (bt_intent t),
            ae_policyId = policyId pol, ae_policyVersion = policyVersion pol,
            ae_reason = dn_reason d, ae_submittedBy = tm_submittedBy (bt_metadata t),
            ae_approvals = approvals\<rparr>)"

section \<open>Facts\<close>

lemma rejected_by_outcome [simp]: "d_outcome (rejected_by pol i r) = REJECT"
  by (simp add: rejected_by_def)

lemma load_ok:
  "PolicyRouter_load rx nstr repo n v = Inr (pol, ws) \<Longrightarrow>
     repo n v = Inr pol \<and> PolicyValidator_validate rx nstr (Some pol) = Inr ()"
  by (auto simp: PolicyRouter_load_def split: sum.splits)

text \<open>
  Everything an approval rests on: the policy that was loaded is valid, policy governance and the
  capability binding accept it, the bound signals are those of the intent, a rule approves, and
  the state verifier is wired and finds nothing.
\<close>

definition approval_grounds ::
  "'v decision_engine \<Rightarrow> business_transaction \<Rightarrow> policy \<Rightarrow> policy_decision \<Rightarrow> 'v \<Rightarrow> 'v \<Rightarrow> bool" where
  "approval_grounds e t pol d v v' \<longleftrightarrow>
     re_repository e (pr_name (bt_policy t)) (pr_version (bt_policy t)) = Inr pol
     \<and> PolicyValidator_validate (re_rx e) (re_nstr e) (Some pol) = Inr ()
     \<and> (\<forall>verify. re_policyExecutionVerifier e = Some verify \<longrightarrow>
          verify (policyId pol) (policyVersion pol) (h_policy (re_hashes e) pol) = Inr None)
     \<and> (\<forall>cvs ext. re_capabilityPolicyBinder e = Some (cvs, ext) \<longrightarrow>
          CapabilityPolicyBinder_findViolation cvs ext (in_action (bt_intent t)) (bt_policy t) = None)
     \<and> SignalIntentBinder_findViolations pol (transaction_signals t) (intent_object t) = Inr []
     \<and> PolicyEngine_evaluate (re_rx e) pol (transaction_signals t) = Inr d \<and> d_outcome d = APPROVE
     \<and> (\<exists>findViolations. re_signalStateVerifier e = Some findViolations
          \<and> findViolations (authorize_request t pol) (transaction_signals t) v = (Inr [], v'))"

lemma provisional_approve:
  assumes "RuntimeEngine_provisionalDecision e t pol pev cbv bvs = Inr d" "d_outcome d = APPROVE"
  shows "pev = None" "cbv = None" "bvs = []"
    "PolicyEngine_evaluate (re_rx e) pol (transaction_signals t) = Inr d"
  using assms
  by (auto simp: RuntimeEngine_provisionalDecision_def split: option.splits if_splits sum.splits)

lemma policyDecision_approve:
  "d_outcome (RuntimeEngine_policyDecision e pol p svs) = APPROVE \<longleftrightarrow>
     d_outcome p = APPROVE \<and> re_signalStateVerifier e \<noteq> None \<and> svs = []"
  by (auto simp: RuntimeEngine_policyDecision_def)

lemma decide_Inr:
  assumes "RuntimeEngine_decide e t v = (Inr pv, v')"
  obtains ws pev cbv bvs p svs where
    "PolicyRouter_load (re_rx e) (re_nstr e) (re_repository e) (pr_name (bt_policy t))
       (pr_version (bt_policy t)) = Inr (pv_policy pv, ws)"
    "pv_policyContentHash pv = h_policy (re_hashes e) (pv_policy pv)"
    "RuntimeEngine_policyExecutionViolation e (pv_policy pv) (h_policy (re_hashes e) (pv_policy pv)) = Inr pev"
    "cbv = RuntimeEngine_capabilityBindingViolation e t pev"
    "RuntimeEngine_bindingViolations t (pv_policy pv) pev cbv = Inr bvs"
    "RuntimeEngine_provisionalDecision e t (pv_policy pv) pev cbv bvs = Inr p"
    "RuntimeEngine_stateViolations e t (pv_policy pv) p v = (Inr svs, v')"
    "pv_decision pv = RuntimeEngine_policyDecision e (pv_policy pv) p svs"
    "pv_policyExecutionViolation pv = pev" "pv_capabilityBindingViolation pv = cbv"
    "pv_bindingViolations pv = bvs"
  using assms
  by (auto simp: RuntimeEngine_decide_def Let_def split: sum.splits prod.splits)

lemma decide_approve:
  assumes "RuntimeEngine_decide e t v = (Inr pv, v')" "d_outcome (pv_decision pv) = APPROVE"
  shows "approval_grounds e t (pv_policy pv) (pv_decision pv) v v'"
  using assms(1)
proof (rule decide_Inr)
  fix ws pev cbv bvs p svs
  assume *: "PolicyRouter_load (re_rx e) (re_nstr e) (re_repository e) (pr_name (bt_policy t))
       (pr_version (bt_policy t)) = Inr (pv_policy pv, ws)"
    "RuntimeEngine_policyExecutionViolation e (pv_policy pv) (h_policy (re_hashes e) (pv_policy pv)) = Inr pev"
    "cbv = RuntimeEngine_capabilityBindingViolation e t pev"
    "RuntimeEngine_bindingViolations t (pv_policy pv) pev cbv = Inr bvs"
    "RuntimeEngine_provisionalDecision e t (pv_policy pv) pev cbv bvs = Inr p"
    "RuntimeEngine_stateViolations e t (pv_policy pv) p v = (Inr svs, v')"
    "pv_decision pv = RuntimeEngine_policyDecision e (pv_policy pv) p svs"
  from assms(2) *(7) have p: "d_outcome p = APPROVE" "re_signalStateVerifier e \<noteq> None" "svs = []"
    by (simp_all add: policyDecision_approve)
  then have d: "pv_decision pv = p" using *(7) by (auto simp: RuntimeEngine_policyDecision_def)
  note q = provisional_approve[OF *(5) p(1)]
  from load_ok[OF *(1)] have l: "re_repository e (pr_name (bt_policy t)) (pr_version (bt_policy t)) = Inr (pv_policy pv)"
    "PolicyValidator_validate (re_rx e) (re_nstr e) (Some (pv_policy pv)) = Inr ()" by auto
  from *(6) p obtain fv where "re_signalStateVerifier e = Some fv"
    "fv (authorize_request t (pv_policy pv)) (transaction_signals t) v = (Inr [], v')"
    by (auto simp: RuntimeEngine_stateViolations_def split: option.splits prod.splits sum.splits)
  moreover from *(2) q have "\<forall>verify. re_policyExecutionVerifier e = Some verify \<longrightarrow>
      verify (policyId (pv_policy pv)) (policyVersion (pv_policy pv)) (h_policy (re_hashes e) (pv_policy pv)) = Inr None"
    by (auto simp: RuntimeEngine_policyExecutionViolation_def split: option.splits sum.splits)
  moreover from *(3) q have "\<forall>cvs ext. re_capabilityPolicyBinder e = Some (cvs, ext) \<longrightarrow>
      CapabilityPolicyBinder_findViolation cvs ext (in_action (bt_intent t)) (bt_policy t) = None"
    by (auto simp: RuntimeEngine_capabilityBindingViolation_def)
  moreover from *(4) q have
    "SignalIntentBinder_findViolations (pv_policy pv) (transaction_signals t) (intent_object t) = Inr []"
    by (auto simp: RuntimeEngine_bindingViolations_def split: sum.splits)
  ultimately show ?thesis using l q(4) p(1) d by (simp add: approval_grounds_def)
qed

lemma validated_approval_entry:
  assumes "PolicyValidator_validate rx nstr (Some pol) = Inr ()"
    and "k \<in> set (object_keys (approvalSignals pol))"
  obtains entries d where "approvalSignals pol = Some (JObj entries)" "(k, d) \<in> set entries"
proof -
  from assms(1) have "validateApprovalSignals nstr pol = Inr ()" by (rule validate_ok)
  with assms(2) that show thesis
    by (auto simp: validateApprovalSignals_def obj_keys_def split: option.splits json.splits)
qed

text \<open>
  With the approval verifier among the state verifiers, an approval rests on a signed approval
  that covers the action and the resource of the intent.
\<close>

lemma grounds_signed_approval:
  assumes "approval_grounds e t pol d v v'"
    and "re_signalStateVerifier e = Some (CompositeSignalStateVerifier_findViolations vs)"
    and "ApprovalSignalVerifier_findViolations nstr resolve sigv dp check clk \<in> set vs"
    and "\<not> list_ex mixes_all_with_other_key (the (rules pol))"
  shows "\<exists>k dcl v a i rid request. (k, dcl) \<in> set (spread_object (approvalSignals pol))
     \<and> map_of (transaction_signals t) k = Some (JBool True)
     \<and> map_of (transaction_signals t) (js_string nstr (declared_artifact dcl)) = Some v
     \<and> asSignedApproval v = Some a
     \<and> (\<exists>rp. get_prop dcl ''resourceId'' = Some (JStr rp)
          \<and> resolveResourceId nstr (authorize_request t pol) rp = Inr rid)
     \<and> vr_action request = in_action (bt_intent t) \<and> vr_resourceId request = rid
     \<and> approval_covers resolve sigv dp a request (fst (clk i))"
proof -
  from assms(1) have v: "PolicyValidator_validate (re_rx e) (re_nstr e) (Some pol) = Inr ()"
    "PolicyEngine_evaluate (re_rx e) pol (transaction_signals t) = Inr d" "d_outcome d = APPROVE"
    by (simp_all add: approval_grounds_def)
  from v(1) obtain rs where rs: "rules pol = Some rs" by (rule validate_ok)
  with approval_signal_needed[OF v(1) rs _ v(2,3)] assms(4) obtain k
    where k: "k \<in> set (object_keys (approvalSignals pol))" "map_of (transaction_signals t) k = Some (JBool True)"
    by auto
  from v(1) k(1) obtain entries dcl where e: "approvalSignals pol = Some (JObj entries)" "(k, dcl) \<in> set entries"
    by (rule validated_approval_entry)
  from assms(1,2) have "CompositeSignalStateVerifier_findViolations vs (authorize_request t pol)
      (transaction_signals t) v = (Inr [], v')" by (auto simp: approval_grounds_def)
  from composite_clean_member[OF this assms(3)] obtain s s' where
    c: "ApprovalSignalVerifier_findViolations nstr resolve sigv dp check clk (authorize_request t pol)
      (transaction_signals t) s = (Inr [], s')" by blast
  have "rq_policy (authorize_request t pol) = Some pol"
    "rq_action (authorize_request t pol) = in_action (bt_intent t)" by (simp_all add: authorize_request_def)
  with clean_check_covered[OF c this(1) e k(2)] e k(2) show ?thesis by fastforce
qed

text \<open>A refusal record that was built verifies, when the signature check accepts what was signed.\<close>

lemma refusal_record_built:
  assumes "\<forall>x. \<exists>s. rc_sign crypto x = Inr s"
  shows "\<exists>r. RefusalRecordBuilder_build crypto uuid now txId d target params bvs who = Inr r"
proof -
  have "\<exists>s. rc_sign crypto x = Inr s" for x using assms by blast
  then show ?thesis unfolding RefusalRecordBuilder_build_def Let_def by (metis sum.case(2))
qed

lemma refusal_record_verifies:
  assumes "RefusalRecordBuilder_build crypto uuid now txId d target params bvs who = Inr r"
    and "\<forall>x s. rc_sign crypto x = Inr s \<longrightarrow> check x s"
  shows "RefusalCrypto_verify crypto check r" "rf_businessTransactionId r = txId" "rf_decision r = d"
    "rf_bindingViolations r = (if bvs \<noteq> [] then Some bvs else None)"
  using assms
  by (auto simp: RefusalRecordBuilder_build_def RefusalCrypto_verify_def
      RefusalCrypto_canonicalRecord_def Let_def split: sum.splits if_splits)

end
