(* ===== verification/Execution_Intents.thy ===== *)
theory Execution_Intents
  imports Envelope
begin

text \<open>
  Execution Intents (ADR-0012): the signed statement stored before an action is released, and its
  lifecycle.  \<open>packages/shared/src/domain/execution-intent.ts\<close>, the repository interface
  \<open>packages/shared/src/repositories/execution-intent-repository.ts\<close> as a locale, its in-memory
  implementation \<open>packages/storage/src/memory/MemoryExecutionIntentRepository.ts\<close>, and its clients
  \<open>ExecutionIntentBuilder.ts\<close>, \<open>ExecutionIntentService.ts\<close> and
  \<open>ExecutionIntentFinalizer.ts\<close> of \<open>packages/runtime/src\<close>.

  The saved execution context and the trust record are opaque types \<open>'c\<close> and \<open>'r\<close>; hashing,
  signing and building a trust record are parameters.  Between two awaited calls of a service
  method other requests may run: that is a function on the repository, an argument of the method.
\<close>

section \<open>Data\<close>

datatype intent_state = PREPARED | ERRORED | RELEASED | RESOLVED | FINALIZED

text \<open>The order of the lifecycle; every transition goes up in it.\<close>

fun state_rank :: "intent_state \<Rightarrow> nat" where
  "state_rank PREPARED = 0"
| "state_rank ERRORED = 1"
| "state_rank RELEASED = 2"
| "state_rank RESOLVED = 3"
| "state_rank FINALIZED = 4"

lemma state_rank_inj: "state_rank a = state_rank b \<longleftrightarrow> a = b"
  by (cases a; cases b) auto

lemma state_rank_less_4 [simp]: "state_rank a < 4 \<longleftrightarrow> a \<noteq> FINALIZED"
  by (cases a) auto

instantiation intent_state :: linorder
begin

definition less_eq_intent_state :: "intent_state \<Rightarrow> intent_state \<Rightarrow> bool" where
  "less_eq_intent_state a b = (state_rank a \<le> state_rank b)"

definition less_intent_state :: "intent_state \<Rightarrow> intent_state \<Rightarrow> bool" where
  "less_intent_state a b = (state_rank a < state_rank b)"

instance
  by intro_classes (auto simp: less_eq_intent_state_def less_intent_state_def state_rank_inj)

end

datatype intent_resolution = NOT_EXECUTED | EXECUTED

datatype finalization_mode = INLINE | REPAIRED

record execution_intent =
  ei_intentId :: string
  ei_businessTransactionId :: string
  ei_decisionId :: string
  ei_authorizationId :: string
  ei_policyName :: string
  ei_policyVersion :: string
  ei_policyContentHash :: "string option"
  ei_signalsHash :: "string option"
  ei_businessTransactionHash :: string
  ei_action :: string
  ei_target :: string
  ei_submittedBy :: "string option"
  ei_grantedCapability :: "string option"
  ei_createdAt :: int
  ei_intentHash :: string
  ei_signature :: string

record intent_status =
  is_state :: intent_state
  is_releasedAt :: "int option"
  is_finalizedAt :: "int option"
  is_finalizationMode :: "finalization_mode option"
  is_trustRecordId :: "string option"
  is_failureReason :: "string option"
  is_resolvedAt :: "int option"
  is_resolvedBy :: "string option"
  is_resolution :: "intent_resolution option"
  is_resolutionNote :: "string option"

text \<open>\<open>{ state }\<close> with every optional field absent.\<close>

definition bare_status :: "intent_state \<Rightarrow> intent_status" where
  "bare_status st = \<lparr>is_state = st, is_releasedAt = None, is_finalizedAt = None,
     is_finalizationMode = None, is_trustRecordId = None, is_failureReason = None,
     is_resolvedAt = None, is_resolvedBy = None, is_resolution = None, is_resolutionNote = None\<rparr>"

lemma bare_status_state [simp]: "is_state (bare_status st) = st"
  by (simp add: bare_status_def)

record 'c stored_intent =
  si_intent :: execution_intent
  si_status :: intent_status
  si_releasedContext :: "'c option"

abbreviation si_state :: "('c, 'z) stored_intent_scheme \<Rightarrow> intent_state" where
  "si_state x \<equiv> is_state (si_status x)"

record resolution_input =
  rin_resolution :: intent_resolution
  rin_note :: string
  rin_resolvedBy :: "string option"
  rin_resolvedAt :: int

section \<open>Building an intent\<close>

datatype intent_error =
    AuthorizationRequired
  | IntentSigningFailed string
  | IntentExists string
  | ExecutionIntentUnavailableError string
  | ExecutionIntentNotFoundError string
  | ExecutionIntentNotResolvableError string intent_state
  | ExecutionIntentResolutionInvalidError
  | ExecutionIntentNotFinalizableError string intent_state
  | ResolveDidNotApply
  | TrustPipelineError string
  | TrustRecordStoreError string

definition ExecutionIntentBuilder_build ::
  "(execution_intent \<Rightarrow> string) \<Rightarrow> (execution_intent \<Rightarrow> (string, string) result) \<Rightarrow> string \<Rightarrow> int
   \<Rightarrow> signed_authorization option \<Rightarrow> string \<Rightarrow> string \<Rightarrow> string \<Rightarrow> string
   \<Rightarrow> (intent_error, execution_intent) result" where
  "ExecutionIntentBuilder_build hash sign uuid now authorization txId decisionId action target =
     (case authorization of
        None \<Rightarrow> Inl AuthorizationRequired
      | Some a \<Rightarrow>
          let payload = sa_payload a;
              unsigned = \<lparr>ei_intentId = uuid, ei_businessTransactionId = txId,
                ei_decisionId = decisionId, ei_authorizationId = ap_authorizationId payload,
                ei_policyName = ap_policyName payload, ei_policyVersion = ap_policyVersion payload,
                ei_policyContentHash = ap_policyContentHash payload,
                ei_signalsHash = ap_signalsHash payload,
                ei_businessTransactionHash = ap_businessTransactionHash payload,
                ei_action = action, ei_target = target, ei_submittedBy = ap_submittedBy payload,
                ei_grantedCapability = ap_grantedCapability payload, ei_createdAt = now,
                ei_intentHash = [], ei_signature = []\<rparr>;
              withHash = unsigned\<lparr>ei_intentHash := hash unsigned\<rparr>
          in (case sign withHash of
                Inl e \<Rightarrow> Inl (IntentSigningFailed e)
              | Inr value \<Rightarrow> Inr (withHash\<lparr>ei_signature := value\<rparr>)))"

section \<open>The in-memory repository\<close>

type_synonym 'c intent_store = "(string \<times> 'c stored_intent) list"

definition MemoryIntents_create ::
  "execution_intent \<Rightarrow> 'c intent_store \<Rightarrow> (intent_error, execution_intent) result \<times> 'c intent_store" where
  "MemoryIntents_create intent s =
     (if map_of s (ei_businessTransactionId intent) \<noteq> None
      then (Inl (IntentExists (ei_businessTransactionId intent)), s)
      else (Inr intent, map_set (ei_businessTransactionId intent)
              \<lparr>si_intent = intent, si_status = bare_status PREPARED, si_releasedContext = None\<rparr> s))"

definition MemoryIntents_findByTransactionId :: "'c intent_store \<Rightarrow> string \<Rightarrow> 'c stored_intent option" where
  "MemoryIntents_findByTransactionId s txId = map_of s txId"

definition MemoryIntents_markReleased ::
  "string \<Rightarrow> 'c \<Rightarrow> int \<Rightarrow> 'c intent_store \<Rightarrow> 'c intent_store" where
  "MemoryIntents_markReleased txId releasedContext releasedAt s =
     (case map_of s txId of
        None \<Rightarrow> s
      | Some stored \<Rightarrow>
          if si_state stored \<noteq> PREPARED then s
          else map_set txId \<lparr>si_intent = si_intent stored,
                 si_status = (bare_status RELEASED)\<lparr>is_releasedAt := Some releasedAt\<rparr>,
                 si_releasedContext = Some releasedContext\<rparr> s)"

definition MemoryIntents_markFinalized ::
  "string \<Rightarrow> string \<Rightarrow> finalization_mode \<Rightarrow> int \<Rightarrow> 'c intent_store \<Rightarrow> 'c intent_store" where
  "MemoryIntents_markFinalized txId trustRecordId mode finalizedAt s =
     (case map_of s txId of
        None \<Rightarrow> s
      | Some stored \<Rightarrow>
          if si_state stored = FINALIZED then s
          else map_set txId \<lparr>si_intent = si_intent stored,
                 si_status = (si_status stored)\<lparr>is_state := FINALIZED,
                   is_trustRecordId := Some trustRecordId, is_finalizationMode := Some mode,
                   is_finalizedAt := Some finalizedAt\<rparr>,
                 si_releasedContext = None\<rparr> s)"

definition MemoryIntents_markErrored :: "string \<Rightarrow> string \<Rightarrow> 'c intent_store \<Rightarrow> 'c intent_store" where
  "MemoryIntents_markErrored txId reason s =
     (case map_of s txId of
        None \<Rightarrow> s
      | Some stored \<Rightarrow>
          if si_state stored \<noteq> PREPARED then s
          else map_set txId (stored\<lparr>si_status :=
                 (bare_status ERRORED)\<lparr>is_failureReason := Some reason\<rparr>\<rparr>) s)"

definition MemoryIntents_markResolved ::
  "string \<Rightarrow> resolution_input \<Rightarrow> 'c intent_store \<Rightarrow> bool \<times> 'c intent_store" where
  "MemoryIntents_markResolved txId input s =
     (case map_of s txId of
        None \<Rightarrow> (False, s)
      | Some stored \<Rightarrow>
          if si_state stored \<noteq> PREPARED \<and> si_state stored \<noteq> ERRORED then (False, s)
          else (True, map_set txId \<lparr>si_intent = si_intent stored,
                 si_status = (si_status stored)\<lparr>is_state := RESOLVED,
                   is_resolution := Some (rin_resolution input),
                   is_resolutionNote := Some (rin_note input),
                   is_resolvedBy := (case rin_resolvedBy input of
                      Some b \<Rightarrow> Some b | None \<Rightarrow> is_resolvedBy (si_status stored)),
                   is_resolvedAt := Some (rin_resolvedAt input)\<rparr>,
                 si_releasedContext = None\<rparr> s))"

definition MemoryIntents_listUnfinalized :: "nat \<Rightarrow> 'c intent_store \<Rightarrow> 'c stored_intent list" where
  "MemoryIntents_listUnfinalized limit s =
     take limit (sort_key (\<lambda>x. ei_createdAt (si_intent x))
       (filter (\<lambda>x. si_state x \<noteq> FINALIZED \<and> si_state x \<noteq> RESOLVED) (map snd s)))"

lemmas memory_intents_defs =
  MemoryIntents_create_def MemoryIntents_findByTransactionId_def MemoryIntents_markReleased_def
  MemoryIntents_markFinalized_def MemoryIntents_markErrored_def MemoryIntents_markResolved_def

section \<open>The repository interface\<close>

locale intent_repository =
  fixes findIntent :: "'s \<Rightarrow> string \<Rightarrow> 'c stored_intent option"
    and markResolved :: "string \<Rightarrow> resolution_input \<Rightarrow> 's \<Rightarrow> bool \<times> 's"
    and markFinalized :: "string \<Rightarrow> string \<Rightarrow> finalization_mode \<Rightarrow> int \<Rightarrow> 's \<Rightarrow> 's"
  assumes resolve_moves: "fst (markResolved i input s) \<longleftrightarrow>
      (\<exists>x. findIntent s i = Some x \<and> (si_state x = PREPARED \<or> si_state x = ERRORED))"
    and resolve_refused: "\<not> fst (markResolved i input s) \<Longrightarrow> snd (markResolved i input s) = s"
    and resolve_find: "findIntent s i = Some x \<Longrightarrow> fst (markResolved i input s) \<Longrightarrow>
      \<exists>y. findIntent (snd (markResolved i input s)) i = Some y \<and> si_intent y = si_intent x
        \<and> si_state y = RESOLVED \<and> is_resolution (si_status y) = Some (rin_resolution input)
        \<and> is_resolutionNote (si_status y) = Some (rin_note input)"
    and resolve_frame: "j \<noteq> i \<Longrightarrow> findIntent (snd (markResolved i input s)) j = findIntent s j"
    and finalize_find: "findIntent s i = Some x \<Longrightarrow>
      \<exists>y. findIntent (markFinalized i t m d s) i = Some y \<and> si_intent y = si_intent x
        \<and> si_state y = FINALIZED \<and> si_releasedContext y = (if si_state x = FINALIZED then si_releasedContext x else None)
        \<and> (if si_state x = FINALIZED then y = x else is_trustRecordId (si_status y) = Some t)"
    and finalize_frame: "j \<noteq> i \<Longrightarrow> findIntent (markFinalized i t m d s) j = findIntent s j"
    and finalize_again: "findIntent s i = Some x \<Longrightarrow> si_state x = FINALIZED \<Longrightarrow> markFinalized i t m d s = s"

interpretation memory_intents:
  intent_repository MemoryIntents_findByTransactionId MemoryIntents_markResolved
    MemoryIntents_markFinalized
  by unfold_locales (auto simp: memory_intents_defs split: option.splits)

section \<open>ExecutionIntentService\<close>

definition MAX_RESOLUTION_NOTE_LENGTH :: nat where
  "MAX_RESOLUTION_NOTE_LENGTH = 2000"

text \<open>\<open>RESOLUTIONS.find(value => value === input.resolution)\<close>\<close>

fun resolution_of :: "json option \<Rightarrow> intent_resolution option" where
  "resolution_of (Some (JStr r)) =
     (if r = ''NOT_EXECUTED'' then Some NOT_EXECUTED
      else if r = ''EXECUTED'' then Some EXECUTED else None)"
| "resolution_of _ = None"

fun note_of :: "json option \<Rightarrow> string" where
  "note_of (Some (JStr n)) = trim n"
| "note_of _ = []"

definition ExecutionIntentService_prepare ::
  "(intent_error, execution_intent) result \<Rightarrow> string
   \<Rightarrow> (execution_intent \<Rightarrow> 's \<Rightarrow> (intent_error, execution_intent) result \<times> 's)
   \<Rightarrow> 's \<Rightarrow> (intent_error, execution_intent) result \<times> 's" where
  "ExecutionIntentService_prepare built txId create s =
     (case built of
        Inl _ \<Rightarrow> (Inl (ExecutionIntentUnavailableError txId), s)
      | Inr intent \<Rightarrow>
          (case create intent s of
             (Inl _, s') \<Rightarrow> (Inl (ExecutionIntentUnavailableError txId), s')
           | (Inr i, s') \<Rightarrow> (Inr i, s')))"

definition ExecutionIntentService_assertResolvable ::
  "string \<Rightarrow> 'c stored_intent \<Rightarrow> (intent_error, unit) result" where
  "ExecutionIntentService_assertResolvable txId stored =
     (if si_state stored = PREPARED \<or> si_state stored = ERRORED then Inr ()
      else Inl (ExecutionIntentNotResolvableError txId (si_state stored)))"

datatype resolve_outcome = ResolvedNow | AlreadyResolved

text \<open>\<open>others1\<close> and \<open>others2\<close>: what other requests do between the three repository calls.\<close>

definition ExecutionIntentService_resolve ::
  "('s \<Rightarrow> string \<Rightarrow> 'c stored_intent option) \<Rightarrow> (string \<Rightarrow> resolution_input \<Rightarrow> 's \<Rightarrow> bool \<times> 's)
   \<Rightarrow> ('s \<Rightarrow> 's) \<Rightarrow> ('s \<Rightarrow> 's) \<Rightarrow> int \<Rightarrow> string \<Rightarrow> json option \<Rightarrow> json option \<Rightarrow> string option \<Rightarrow> 's
   \<Rightarrow> (intent_error, resolve_outcome \<times> 'c stored_intent) result \<times> 's" where
  "ExecutionIntentService_resolve findIntent markResolved others1 others2 now txId resolution noteInput
     resolvedBy s =
     (case resolution_of resolution of
        None \<Rightarrow> (Inl ExecutionIntentResolutionInvalidError, s)
      | Some res \<Rightarrow>
          let note = note_of noteInput in
          if note = [] \<or> length note > MAX_RESOLUTION_NOTE_LENGTH
          then (Inl ExecutionIntentResolutionInvalidError, s)
          else (case findIntent s txId of
            None \<Rightarrow> (Inl (ExecutionIntentNotFoundError txId), s)
          | Some stored \<Rightarrow>
              if si_state stored = RESOLVED then (Inr (AlreadyResolved, stored), s)
              else (case ExecutionIntentService_assertResolvable txId stored of
                Inl e \<Rightarrow> (Inl e, s)
              | Inr _ \<Rightarrow>
                  (case markResolved txId \<lparr>rin_resolution = res, rin_note = note,
                          rin_resolvedBy = resolvedBy, rin_resolvedAt = now\<rparr> (others1 s) of
                     (moved, s1) \<Rightarrow>
                       let s2 = others2 s1 in
                       (case findIntent s2 txId of
                          None \<Rightarrow> (Inl (ExecutionIntentNotFoundError txId), s2)
                        | Some after \<Rightarrow>
                            if moved then (Inr (ResolvedNow, after), s2)
                            else if si_state after = RESOLVED
                              then (Inr (AlreadyResolved, after), s2)
                            else (case ExecutionIntentService_assertResolvable txId after of
                                    Inl e \<Rightarrow> (Inl e, s2)
                                  | Inr _ \<Rightarrow> (Inl ResolveDidNotApply, s2)))))))"

section \<open>ExecutionIntentFinalizer\<close>

datatype finalize_outcome = FinalizedNow | AlreadyFinalized

text \<open>
  The trust records are the map of \<open>MemoryExecutionTrustRecordRepository\<close>.  Its own \<open>create\<close>
  replaces and never throws; the finalizer takes a \<open>create\<close> that may throw, after which another
  request may have stored the record.  \<open>pipeline\<close> is \<open>BusinessTrustPipeline.execute\<close>.
\<close>

type_synonym 'r trust_store = "(string \<times> 'r) list"

definition MemoryTrustRecords_create ::
  "('r \<Rightarrow> string) \<Rightarrow> 'r \<Rightarrow> 'r trust_store \<Rightarrow> (string, unit) result \<times> 'r trust_store" where
  "MemoryTrustRecords_create txOf record rs = (Inr (), map_set (txOf record) record rs)"

definition MemoryTrustRecords_findByTransactionId :: "'r trust_store \<Rightarrow> string \<Rightarrow> 'r option" where
  "MemoryTrustRecords_findByTransactionId rs txId = map_of rs txId"

definition ExecutionIntentFinalizer_finalize ::
  "('s \<Rightarrow> string \<Rightarrow> 'c stored_intent option)
   \<Rightarrow> (string \<Rightarrow> string \<Rightarrow> finalization_mode \<Rightarrow> int \<Rightarrow> 's \<Rightarrow> 's)
   \<Rightarrow> ('r \<Rightarrow> string) \<Rightarrow> ('r \<Rightarrow> 'r trust_store \<Rightarrow> (string, unit) result \<times> 'r trust_store)
   \<Rightarrow> ('c \<Rightarrow> (string, 'r) result) \<Rightarrow> int \<Rightarrow> string \<Rightarrow> 's \<times> 'r trust_store
   \<Rightarrow> (intent_error, finalize_outcome \<times> 'r) result \<times> 's \<times> 'r trust_store" where
  "ExecutionIntentFinalizer_finalize findIntent markFinalized idOf createRecord pipeline now txId st =
     (case findIntent (fst st) txId of
        None \<Rightarrow> (Inl (ExecutionIntentNotFoundError txId), st)
      | Some stored \<Rightarrow>
          (case MemoryTrustRecords_findByTransactionId (snd st) txId of
             Some existing \<Rightarrow>
               (Inr (AlreadyFinalized, existing),
                if si_state stored \<noteq> FINALIZED
                then (markFinalized txId (idOf existing) INLINE now (fst st), snd st) else st)
           | None \<Rightarrow>
               (case si_releasedContext stored of
                  None \<Rightarrow> (Inl (ExecutionIntentNotFinalizableError txId (si_state stored)), st)
                | Some context \<Rightarrow>
                    (case pipeline context of
                       Inl e \<Rightarrow> (Inl (TrustPipelineError e), st)
                     | Inr trustRecord \<Rightarrow>
                         (case createRecord trustRecord (snd st) of
                            (Inl e, rs') \<Rightarrow>
                              (case MemoryTrustRecords_findByTransactionId rs' txId of
                                 Some raced \<Rightarrow>
                                   (Inr (AlreadyFinalized, raced),
                                    (markFinalized txId (idOf raced) REPAIRED now (fst st), rs'))
                               | None \<Rightarrow> (Inl (TrustRecordStoreError e), (fst st, rs')))
                          | (Inr _, rs') \<Rightarrow>
                              (Inr (FinalizedNow, trustRecord),
                               (markFinalized txId (idOf trustRecord) REPAIRED now (fst st), rs')))))))"

section \<open>Facts about the lifecycle\<close>

text \<open>One operation of any request on the in-memory repository.\<close>

inductive intent_step :: "'c intent_store \<Rightarrow> 'c intent_store \<Rightarrow> bool" where
  step_create: "intent_step s (snd (MemoryIntents_create intent s))"
| step_released: "intent_step s (MemoryIntents_markReleased i ctx d s)"
| step_finalized: "intent_step s (MemoryIntents_markFinalized i t m d s)"
| step_errored: "intent_step s (MemoryIntents_markErrored i reason s)"
| step_resolved: "intent_step s (snd (MemoryIntents_markResolved i input s))"

inductive_cases intent_stepE: "intent_step s t"

abbreviation intent_steps :: "'c intent_store \<Rightarrow> 'c intent_store \<Rightarrow> bool" where
  "intent_steps \<equiv> intent_step\<^sup>*\<^sup>*"

text \<open>What every stored intent satisfies.\<close>

definition stored_ok :: "string \<Rightarrow> 'c stored_intent \<Rightarrow> bool" where
  "stored_ok i x \<longleftrightarrow>
     ei_businessTransactionId (si_intent x) = i
     \<and> (si_releasedContext x \<noteq> None \<longleftrightarrow> si_state x = RELEASED)
     \<and> (si_state x = RELEASED \<longrightarrow> is_releasedAt (si_status x) \<noteq> None)
     \<and> (si_state x = ERRORED \<longrightarrow> is_failureReason (si_status x) \<noteq> None)
     \<and> (si_state x = RESOLVED \<longrightarrow> is_resolution (si_status x) \<noteq> None \<and> is_resolutionNote (si_status x) \<noteq> None)
     \<and> (is_trustRecordId (si_status x) \<noteq> None \<longleftrightarrow> si_state x = FINALIZED)"

definition store_ok :: "'c intent_store \<Rightarrow> bool" where
  "store_ok s \<longleftrightarrow> distinct (map fst s) \<and> (\<forall>i x. map_of s i = Some x \<longrightarrow> stored_ok i x)"

lemma store_ok_set:
  "store_ok s \<Longrightarrow> stored_ok i x \<Longrightarrow> store_ok (map_set i x s)"
  by (auto simp: store_ok_def distinct_map_set)

lemma store_ok_step: "intent_step s t \<Longrightarrow> store_ok s \<Longrightarrow> store_ok t"
proof (induction rule: intent_step.induct)
  case (step_create s intent)
  then show ?case
    by (auto simp: MemoryIntents_create_def intro!: store_ok_set) (auto simp: stored_ok_def bare_status_def)
next
  case (step_released s i ctx d)
  then show ?case
    by (auto simp: MemoryIntents_markReleased_def split: option.splits intro!: store_ok_set)
       (auto simp: stored_ok_def bare_status_def store_ok_def)
next
  case (step_finalized s i t m d)
  then show ?case
    by (auto simp: MemoryIntents_markFinalized_def split: option.splits intro!: store_ok_set)
       (auto simp: stored_ok_def bare_status_def store_ok_def)
next
  case (step_errored s i reason)
  then show ?case
    by (auto simp: MemoryIntents_markErrored_def split: option.splits intro!: store_ok_set)
       (auto simp: stored_ok_def bare_status_def store_ok_def)
next
  case (step_resolved s i input)
  then show ?case
    by (auto simp: MemoryIntents_markResolved_def split: option.splits intro!: store_ok_set)
       (auto simp: stored_ok_def bare_status_def store_ok_def)
qed

lemma store_ok_steps: "intent_steps s t \<Longrightarrow> store_ok s \<Longrightarrow> store_ok t"
  by (induction rule: rtranclp_induct) (auto intro: store_ok_step)

lemma intent_step_monotone:
  assumes "intent_step s t" "map_of s i = Some x"
  shows "\<exists>y. map_of t i = Some y \<and> si_intent y = si_intent x
     \<and> (y = x \<or> si_state x < si_state y)"
  using assms
  by (cases rule: intent_stepE)
     (auto simp: memory_intents_defs less_intent_state_def bare_status_def
       split: option.splits)

lemma intent_steps_monotone:
  assumes "intent_steps s t" "map_of s i = Some x"
  shows "\<exists>y. map_of t i = Some y \<and> si_intent y = si_intent x \<and> (y = x \<or> si_state x < si_state y)"
  using assms
proof (induction rule: rtranclp_induct)
  case (step t u)
  then obtain y where "map_of t i = Some y" "si_intent y = si_intent x"
    "y = x \<or> si_state x < si_state y" by blast
  with intent_step_monotone[OF step.hyps(2) this(1)] show ?case by force
qed auto

section \<open>Facts about the service and the finalizer\<close>

lemma resolve_cases:
  assumes "ExecutionIntentService_resolve findIntent markResolved others1 others2 now i res note who s = (r, s')"
    and "findIntent s i = Some x" "si_state x = PREPARED \<or> si_state x = ERRORED"
    and "resolution_of res = Some rs" "note_of note \<noteq> []"
    and "length (note_of note) \<le> MAX_RESOLUTION_NOTE_LENGTH"
  shows "\<exists>moved s1. markResolved i \<lparr>rin_resolution = rs, rin_note = note_of note, rin_resolvedBy = who,
             rin_resolvedAt = now\<rparr> (others1 s) = (moved, s1) \<and> s' = others2 s1 \<and>
       (case findIntent s' i of
          None \<Rightarrow> r = Inl (ExecutionIntentNotFoundError i)
        | Some y \<Rightarrow>
            if moved then r = Inr (ResolvedNow, y)
            else if si_state y = RESOLVED then r = Inr (AlreadyResolved, y)
            else if si_state y = PREPARED \<or> si_state y = ERRORED then r = Inl ResolveDidNotApply
            else r = Inl (ExecutionIntentNotResolvableError i (si_state y)))"
  using assms
  by (auto simp: ExecutionIntentService_resolve_def ExecutionIntentService_assertResolvable_def Let_def
      split: prod.splits option.splits if_splits)

lemma resolve_now_found:
  assumes "ExecutionIntentService_resolve findIntent markResolved others1 others2 now i res note who s
             = (Inr (ResolvedNow, y), s')"
  obtains x rs where "findIntent s i = Some x" "si_state x = PREPARED \<or> si_state x = ERRORED"
    "resolution_of res = Some rs" "note_of note \<noteq> []" "length (note_of note) \<le> MAX_RESOLUTION_NOTE_LENGTH"
  using assms
  by (auto simp: ExecutionIntentService_resolve_def ExecutionIntentService_assertResolvable_def Let_def
      split: prod.splits option.splits if_splits)

context intent_repository
begin

text \<open>After a successful \<open>finalize\<close> the record is stored and the intent is final.\<close>

lemma finalize_done:
  assumes "ExecutionIntentFinalizer_finalize findIntent markFinalized idOf (MemoryTrustRecords_create txOf)
             pipeline now i (s, rs) = (Inr (outcome, r), s', rs')"
    and "\<forall>c q. si_releasedContext y = Some c \<longrightarrow> pipeline c = Inr q \<longrightarrow> txOf q = i"
    and "findIntent s i = Some y"
  shows "map_of rs' i = Some r \<and> (\<exists>x. findIntent s' i = Some x \<and> si_state x = FINALIZED)
     \<and> (map_of rs i \<noteq> None \<longrightarrow> rs' = rs)"
proof (cases "map_of rs i")
  case (Some e)
  with assms(1,3) have "r = e" "rs' = rs"
    "s' = (if si_state y \<noteq> FINALIZED then markFinalized i (idOf e) INLINE now s else s)"
    by (auto simp: ExecutionIntentFinalizer_finalize_def MemoryTrustRecords_findByTransactionId_def
        split: if_splits)
  with finalize_find[OF assms(3), of "idOf e" INLINE now] Some assms(3) show ?thesis by auto
next
  case None
  with assms(1,3) obtain c where c: "si_releasedContext y = Some c" "pipeline c = Inr r"
    "s' = markFinalized i (idOf r) REPAIRED now s" "rs' = map_set (txOf r) r rs"
    by (auto simp: ExecutionIntentFinalizer_finalize_def MemoryTrustRecords_findByTransactionId_def
        MemoryTrustRecords_create_def split: option.splits sum.splits)
  with finalize_find[OF assms(3), of "idOf r" REPAIRED now] None assms(2) c(1,2)
  show ?thesis by auto
qed

lemma finalize_idempotent:
  assumes "ExecutionIntentFinalizer_finalize findIntent markFinalized idOf (MemoryTrustRecords_create txOf)
             pipeline now i (s, rs) = (Inr (outcome, r), s', rs')"
    and "\<forall>c q. si_releasedContext y = Some c \<longrightarrow> pipeline c = Inr q \<longrightarrow> txOf q = i"
    and "findIntent s i = Some y"
  shows "ExecutionIntentFinalizer_finalize findIntent markFinalized idOf (MemoryTrustRecords_create txOf)
             pipeline later i (s', rs') = (Inr (AlreadyFinalized, r), s', rs')"
proof -
  from finalize_done[OF assms] obtain x where
    "map_of rs' i = Some r" "findIntent s' i = Some x" "si_state x = FINALIZED" by blast
  then show ?thesis
    by (simp add: ExecutionIntentFinalizer_finalize_def MemoryTrustRecords_findByTransactionId_def)
qed

end

end
