(* ===== verification/Runtime.thy ===== *)
theory Runtime
  imports Runtime_Decision Execution_Intents
begin

text \<open>
  The rest of \<open>RuntimeEngine.execute\<close> (\<open>packages/runtime/src/RuntimeEngine.ts\<close>): signing the
  authorization (\<open>RuntimeAuthorizationSigner.ts\<close>, \<open>TenantKeyResolver.ts\<close>), the intent that is
  stored before release, the pipeline (\<open>RuntimePipeline.ts\<close>), the errors after a release, and the
  facade \<open>Runtime.ts\<close> that stores the trust record.

  A pipeline stage acts on a world \<open>'w\<close>: everything outside the engine that an execution may
  change.  While the stages run, other requests may act on the intents: \<open>ci_others\<close>.
\<close>

section \<open>Context and state\<close>

record runtime_context =
  cx_transaction :: business_transaction
  cx_decision :: decision
  cx_authorization :: "signed_authorization option"
  cx_execution :: "execution option"
  cx_override :: "override_artifact option"
  cx_verification :: "verification option"
  cx_receipt :: "receipt option"

record ('v, 'w) runtime_state =
  rs_verifier :: 'v
  rs_refusals :: refusal_store
  rs_events :: "approval_needed_event list"
  rs_intents :: "runtime_context intent_store"
  rs_world :: 'w

text \<open>
  An error of a pipeline stage: of a class with its own response (\<open>RuntimeError\<close>,
  \<open>ParmanaError\<close>, \<open>PolicyError\<close>) or any other.
\<close>

datatype release_error = TypedError (err_message: string) | OtherError (err_message: string)

type_synonym 'w component =
  "runtime_context \<Rightarrow> 'w \<Rightarrow> (release_error, runtime_context) result \<times> 'w"

datatype runtime_error =
    DecisionFailed decision_error
  | Denied gate_error
  | InvalidTarget content_error
  | AuthorizationFailed signer_error
  | SigningUnavailableError string
  | IntentUnavailable intent_error
  | ReleaseError string
  | ExecutionOutcomeUnknownError string "string option" string
  | ExecutionRecordIncompleteError string "string option" string

record intent_crypto =
  ic_hash :: "execution_intent \<Rightarrow> string"
  ic_sign :: "execution_intent \<Rightarrow> (string, string) result"

record ('v, 'w, 'r) runtime_engine = "'v decision_engine" +
  rt_refusalCrypto :: "refusal_crypto option"
  rt_notifier :: bool
  rt_hasKey :: "string \<Rightarrow> (string, bool) result"
  rt_signer :: "authorization_payload \<Rightarrow> string \<Rightarrow> (string, string) result"
  rt_algorithm :: string
  rt_isoString :: "int \<Rightarrow> string"
  rt_ttlSeconds :: jsnum
  rt_readiness :: "(string, unit) result option"
  rt_intentCrypto :: "intent_crypto option"
  rt_pipeline :: "'w component list"
  rt_trustPipeline :: "runtime_context \<Rightarrow> (string, 'r) result"

text \<open>The random identifiers and clock readings of one call.\<close>

record call_inputs =
  ci_decisionId :: string
  ci_evaluatedAt :: int
  ci_refusalId :: string
  ci_refusedAt :: int
  ci_authorizationId :: string
  ci_nonce :: string
  ci_issuedAt :: int
  ci_executionId :: string
  ci_startedAt :: int
  ci_intentId :: string
  ci_preparedAt :: int
  ci_releasedAt :: int
  ci_others :: "runtime_context intent_store \<Rightarrow> runtime_context intent_store"

section \<open>Signing the authorization\<close>

definition DEFAULT_KEY_ID :: string where
  "DEFAULT_KEY_ID = ''default''"

definition FileTenantKeyResolver_resolveKeyId ::
  "(string \<Rightarrow> (string, bool) result) \<Rightarrow> string option \<Rightarrow> string" where
  "FileTenantKeyResolver_resolveKeyId hasKey tenantId =
     (case tenantId of
        None \<Rightarrow> DEFAULT_KEY_ID
      | Some tenant \<Rightarrow>
          let candidate = ''tenant.'' @ tenant in
          if hasKey candidate = Inr True then candidate else DEFAULT_KEY_ID)"

definition authorization_input_of ::
  "business_transaction \<Rightarrow> string \<Rightarrow> string \<Rightarrow> string \<Rightarrow> executable_content \<Rightarrow> authorization_input" where
  "authorization_input_of t decisionId policyContentHash signalsHash content =
     \<lparr>ai_decisionId = decisionId, ai_businessTransactionId = bt_businessTransactionId t,
      ai_policyName = pr_name (bt_policy t), ai_policyVersion = pr_version (bt_policy t),
      ai_policyContentHash = Some policyContentHash, ai_signalsHash = Some signalsHash,
      ai_submittedBy = tm_submittedBy (bt_metadata t),
      ai_grantedCapability = tm_grantedCapability (bt_metadata t), ai_executableContent = content\<rparr>"

definition RuntimeAuthorizationSigner_sign ::
  "('v, 'w, 'r) runtime_engine \<Rightarrow> call_inputs \<Rightarrow> authorization_input \<Rightarrow> string option
   \<Rightarrow> (signer_error, signed_authorization) result" where
  "RuntimeAuthorizationSigner_sign e inputs inp tenantId =
     AuthorizationSigner_signWithSigner (rt_isoString e) (h_content (re_hashes e))
       (ci_authorizationId inputs) (ci_nonce inputs) (ci_issuedAt inputs) (rt_signer e) (rt_algorithm e)
       inp (FileTenantKeyResolver_resolveKeyId (rt_hasKey e) tenantId) (rt_ttlSeconds e)"

definition ExecutionBuilder_build :: "string \<Rightarrow> int \<Rightarrow> business_transaction \<Rightarrow> decision \<Rightarrow> execution" where
  "ExecutionBuilder_build uuid now t d =
     \<lparr>ex_executionId = uuid, ex_businessTransactionId = bt_businessTransactionId t, ex_decision = d,
      ex_status = PROCESSING, ex_mode = SYNC, ex_startedAt = now, ex_completedAt = None,
      ex_evidence = None, ex_metadata = None, ex_previousChainHash = None, ex_chainHash = None,
      ex_chainSignature = None\<rparr>"

text \<open>The steps from \<open>toExecutableContent\<close> to the runtime context.\<close>

definition RuntimeEngine_authorize ::
  "('v, 'w, 'r) runtime_engine \<Rightarrow> call_inputs \<Rightarrow> business_transaction \<Rightarrow> policy_verdict \<Rightarrow> decision
   \<Rightarrow> (runtime_error, runtime_context) result" where
  "RuntimeEngine_authorize e inputs t pv d =
     (case toExecutableContent (bt_businessTransactionId t) (in_action (bt_intent t))
             (Some (JStr (in_target (bt_intent t)))) (in_parameters (bt_intent t)) of
        Inl x \<Rightarrow> Inl (InvalidTarget x)
      | Inr content \<Rightarrow>
          let signalsHash = h_signals (re_hashes e) (transaction_signals t) in
          (case RuntimeAuthorizationSigner_sign e inputs
                  (authorization_input_of t (dn_decisionId d) (pv_policyContentHash pv) signalsHash content)
                  (tm_tenantId (bt_metadata t)) of
             Inl x \<Rightarrow> Inl (AuthorizationFailed x)
           | Inr a \<Rightarrow>
               Inr \<lparr>cx_transaction = t\<lparr>
                      bt_status := Some (case bt_status t of Some s \<Rightarrow> s | None \<Rightarrow> STATUS_RECEIVED),
                      bt_policy := (bt_policy t)\<lparr>pr_contentHash := Some (pv_policyContentHash pv),
                        pr_governanceAnchor := (case pv_governanceAnchor pv of
                           Some g \<Rightarrow> Some g | None \<Rightarrow> pr_governanceAnchor (bt_policy t))\<rparr>\<rparr>,
                    cx_decision = d, cx_authorization = Some a,
                    cx_execution = Some (ExecutionBuilder_build (ci_executionId inputs)
                      (ci_startedAt inputs) t d),
                    cx_override = None, cx_verification = None, cx_receipt = None\<rparr>))"

section \<open>The pipeline\<close>

fun RuntimePipeline_execute :: "'w component list \<Rightarrow> 'w component" where
  "RuntimePipeline_execute [] c w = (Inr c, w)"
| "RuntimePipeline_execute (component # cs) c w =
     (case component c w of
        (Inl x, w') \<Rightarrow> (Inl x, w')
      | (Inr c', w') \<Rightarrow> RuntimePipeline_execute cs c' w')"

definition context_authorizationId :: "runtime_context \<Rightarrow> string option" where
  "context_authorizationId c = map_option (\<lambda>a. ap_authorizationId (sa_payload a)) (cx_authorization c)"

abbreviation context_txId :: "runtime_context \<Rightarrow> string" where
  "context_txId c \<equiv> bt_businessTransactionId (cx_transaction c)"

fun RuntimeEngine_outcomeUnknown :: "runtime_context \<Rightarrow> release_error \<Rightarrow> runtime_error" where
  "RuntimeEngine_outcomeUnknown c (TypedError m) = ReleaseError m"
| "RuntimeEngine_outcomeUnknown c (OtherError m) =
     ExecutionOutcomeUnknownError (context_txId c) (context_authorizationId c) m"

definition RuntimeEngine_recordIncomplete :: "runtime_context \<Rightarrow> string \<Rightarrow> runtime_error" where
  "RuntimeEngine_recordIncomplete c cause =
     ExecutionRecordIncompleteError (context_txId c) (context_authorizationId c) cause"

text \<open>\<open>await this.executionIntents?.prepare(context)\<close> and the two marks after the pipeline.\<close>

definition RuntimeEngine_prepareIntent ::
  "('v, 'w, 'r) runtime_engine \<Rightarrow> call_inputs \<Rightarrow> runtime_context \<Rightarrow> runtime_context intent_store
   \<Rightarrow> (intent_error, unit) result \<times> runtime_context intent_store" where
  "RuntimeEngine_prepareIntent e inputs c s =
     (case rt_intentCrypto e of
        None \<Rightarrow> (Inr (), s)
      | Some crypto \<Rightarrow>
          (case ExecutionIntentService_prepare
                  (ExecutionIntentBuilder_build (ic_hash crypto) (ic_sign crypto) (ci_intentId inputs)
                     (ci_preparedAt inputs) (cx_authorization c) (context_txId c)
                     (dn_decisionId (cx_decision c)) (in_action (bt_intent (cx_transaction c)))
                     (in_target (bt_intent (cx_transaction c))))
                  (context_txId c) MemoryIntents_create s of
             (Inl x, s') \<Rightarrow> (Inl x, s')
           | (Inr _, s') \<Rightarrow> (Inr (), s')))"

definition mark_errored ::
  "('v, 'w, 'r) runtime_engine \<Rightarrow> string \<Rightarrow> release_error \<Rightarrow> runtime_context intent_store
   \<Rightarrow> runtime_context intent_store" where
  "mark_errored e txId x s =
     (if rt_intentCrypto e = None then s else MemoryIntents_markErrored txId (err_message x) s)"

definition mark_released ::
  "('v, 'w, 'r) runtime_engine \<Rightarrow> call_inputs \<Rightarrow> runtime_context \<Rightarrow> runtime_context intent_store
   \<Rightarrow> runtime_context intent_store" where
  "mark_released e inputs c s =
     (if rt_intentCrypto e = None then s
      else MemoryIntents_markReleased (context_txId c) c (ci_releasedAt inputs) s)"

text \<open>The \<open>try\<close> block of \<open>execute\<close>.\<close>

definition RuntimeEngine_release ::
  "('v, 'w, 'r) runtime_engine \<Rightarrow> call_inputs \<Rightarrow> runtime_context \<Rightarrow> ('v, 'w) runtime_state
   \<Rightarrow> (runtime_error, runtime_context \<times> 'r) result \<times> ('v, 'w) runtime_state" where
  "RuntimeEngine_release e inputs c st =
     (case (case rt_readiness e of None \<Rightarrow> Inr () | Some r \<Rightarrow> r) of
        Inl x \<Rightarrow> (Inl (SigningUnavailableError x), st)
      | Inr _ \<Rightarrow>
      (case RuntimeEngine_prepareIntent e inputs c (rs_intents st) of
         (Inl x, is') \<Rightarrow> (Inl (IntentUnavailable x), st\<lparr>rs_intents := is'\<rparr>)
       | (Inr _, is') \<Rightarrow>
           (case RuntimePipeline_execute (rt_pipeline e) c (rs_world st) of
              (Inl x, w') \<Rightarrow>
                (Inl (RuntimeEngine_outcomeUnknown c x),
                 st\<lparr>rs_intents := mark_errored e (context_txId c) x (ci_others inputs is'),
                    rs_world := w'\<rparr>)
            | (Inr processed, w') \<Rightarrow>
                let st' = st\<lparr>rs_intents := mark_released e inputs processed (ci_others inputs is'),
                             rs_world := w'\<rparr> in
                (case rt_trustPipeline e processed of
                   Inl x \<Rightarrow> (Inl (RuntimeEngine_recordIncomplete processed x), st')
                 | Inr trustRecord \<Rightarrow> (Inr (processed, trustRecord), st')))))"

section \<open>execute\<close>

text \<open>What a refusal writes, before \<open>enforce\<close> throws.\<close>

definition RuntimeEngine_afterRefusal ::
  "('v, 'w, 'r) runtime_engine \<Rightarrow> call_inputs \<Rightarrow> business_transaction \<Rightarrow> policy_verdict \<Rightarrow> decision
   \<Rightarrow> ('v, 'w) runtime_state \<Rightarrow> ('v, 'w) runtime_state" where
  "RuntimeEngine_afterRefusal e inputs t pv d st =
     (let st' = st\<lparr>rs_refusals := RuntimeEngine_writeRefusalRecord (rt_refusalCrypto e)
            (ci_refusalId inputs) (ci_refusedAt inputs) t d (pv_bindingViolations pv) (rs_refusals st)\<rparr>
      in if pv_policyExecutionViolation pv = None \<and> pv_capabilityBindingViolation pv = None
            \<and> pv_bindingViolations pv = []
         then (case RuntimeEngine_notifyApprovalNeeded (rt_notifier e) (decision_engine.truncate e) t d
                      (pv_policy pv) of
                 None \<Rightarrow> st'
               | Some event \<Rightarrow> st'\<lparr>rs_events := rs_events st' @ [event]\<rparr>)
         else st')"

definition RuntimeEngine_execute ::
  "('v, 'w, 'r) runtime_engine \<Rightarrow> call_inputs \<Rightarrow> business_transaction \<Rightarrow> ('v, 'w) runtime_state
   \<Rightarrow> (runtime_error, runtime_context \<times> 'r) result \<times> ('v, 'w) runtime_state" where
  "RuntimeEngine_execute e inputs t st =
     (case RuntimeEngine_decide (decision_engine.truncate e) t (rs_verifier st) of
        (Inl x, v') \<Rightarrow> (Inl (DecisionFailed x), st\<lparr>rs_verifier := v'\<rparr>)
      | (Inr pv, v') \<Rightarrow>
          let st1 = st\<lparr>rs_verifier := v'\<rparr>;
              d = DecisionBuilder_build (ci_decisionId inputs) (ci_evaluatedAt inputs) t (pv_decision pv);
              st2 = (if dn_outcome d \<noteq> APPROVED then RuntimeEngine_afterRefusal e inputs t pv d st1
                     else st1) in
          (case ExecutionGate_enforce d of
             Inl x \<Rightarrow> (Inl (Denied x), st2)
           | Inr _ \<Rightarrow>
               (case RuntimeEngine_authorize e inputs t pv d of
                  Inl x \<Rightarrow> (Inl x, st2)
                | Inr c \<Rightarrow> RuntimeEngine_release e inputs c st2)))"

section \<open>The facade\<close>

text \<open>\<open>Runtime.execute\<close>: the trust record is stored, in the world the pipeline acts on, and the
  intent is marked final.\<close>

definition Runtime_execute ::
  "('r \<Rightarrow> string) \<Rightarrow> ('r \<Rightarrow> string) \<Rightarrow> ('r \<Rightarrow> string option)
   \<Rightarrow> ('r \<Rightarrow> 'w \<Rightarrow> (string, unit) result \<times> 'w)
   \<Rightarrow> ('v, 'w, 'r) runtime_engine \<Rightarrow> call_inputs \<Rightarrow> int \<Rightarrow> business_transaction
   \<Rightarrow> ('v, 'w) runtime_state
   \<Rightarrow> (runtime_error, runtime_context \<times> 'r) result \<times> ('v, 'w) runtime_state" where
  "Runtime_execute txOf idOf authOf createRecord e inputs now t st =
     (case RuntimeEngine_execute e inputs t st of
        (Inl x, st') \<Rightarrow> (Inl x, st')
      | (Inr (c, r), st') \<Rightarrow>
          (case createRecord r (rs_world st') of
             (Inl x, w') \<Rightarrow>
               (Inl (ExecutionRecordIncompleteError (txOf r) (authOf r) x), st'\<lparr>rs_world := w'\<rparr>)
           | (Inr _, w') \<Rightarrow>
               (Inr (c, r),
                if rt_intentCrypto e = None then st'\<lparr>rs_world := w'\<rparr>
                else st'\<lparr>rs_world := w', rs_intents := MemoryIntents_markFinalized (txOf r) (idOf r)
                       INLINE now (rs_intents st')\<rparr>)))"

section \<open>Facts\<close>

text \<open>What the context of a release was authorized with.\<close>

definition transaction_content :: "business_transaction \<Rightarrow> executable_content" where
  "transaction_content t =
     \<lparr>ec_businessTransactionId = bt_businessTransactionId t, ec_action = in_action (bt_intent t),
      ec_target = in_target (bt_intent t), ec_parameters = in_parameters (bt_intent t)\<rparr>"

definition authorizes :: "hashes \<Rightarrow> business_transaction \<Rightarrow> policy \<Rightarrow> authorization_payload \<Rightarrow> bool" where
  "authorizes h t pol p \<longleftrightarrow>
     ap_businessTransactionHash p = h_content h (transaction_content t)
     \<and> ap_policyName p = pr_name (bt_policy t) \<and> ap_policyVersion p = pr_version (bt_policy t)
     \<and> ap_policyContentHash p = Some (h_policy h pol)
     \<and> ap_signalsHash p = Some (h_signals h (transaction_signals t))
     \<and> ap_businessTransactionId p = bt_businessTransactionId t"

lemma authorize_Inr:
  assumes "RuntimeEngine_authorize e inputs t pv d = Inr c"
    and "pv_policyContentHash pv = h_policy (re_hashes e) (pv_policy pv)"
  obtains a where "cx_authorization c = Some a"
    "authorizes (re_hashes e) t (pv_policy pv) (sa_payload a)"
    "ap_decisionId (sa_payload a) = dn_decisionId d"
    "ap_authorizationId (sa_payload a) = ci_authorizationId inputs"
    "context_txId c = bt_businessTransactionId t" "cx_decision c = d"
    "bt_intent (cx_transaction c) = bt_intent t" "bt_signals (cx_transaction c) = bt_signals t"
    "cx_execution c \<noteq> None"
  using assms
  by (auto simp: RuntimeEngine_authorize_def RuntimeAuthorizationSigner_sign_def authorizes_def
      AuthorizationSigner_signWithSigner_def AuthorizationSigner_buildPayload_def
      authorization_input_of_def toExecutableContent_def transaction_content_def Let_def
      split: sum.splits jsnum.splits if_splits)

lemma enforce_Inr: "ExecutionGate_enforce d = Inr u \<longleftrightarrow> dn_outcome d = APPROVED"
  by (auto simp: ExecutionGate_enforce_def ExecutionGate_canExecute_def)

lemma decision_outcome [simp]:
  "dn_outcome (DecisionBuilder_build i n t d) = APPROVED \<longleftrightarrow> d_outcome d = APPROVE"
  by (cases "d_outcome d") (auto simp: DecisionBuilder_build_def)

lemma afterRefusal_keeps [simp]:
  "rs_world (RuntimeEngine_afterRefusal e i t pv d st) = rs_world st"
  "rs_intents (RuntimeEngine_afterRefusal e i t pv d st) = rs_intents st"
  "rs_verifier (RuntimeEngine_afterRefusal e i t pv d st) = rs_verifier st"
  by (auto simp: RuntimeEngine_afterRefusal_def Let_def split: option.splits)

text \<open>A call either stops before the pipeline, with the world and the intents of others as they
  were, or authorizes the transaction, stores the intent and runs the pipeline.\<close>

definition released_context ::
  "('v, 'w, 'r) runtime_engine \<Rightarrow> call_inputs \<Rightarrow> business_transaction \<Rightarrow> ('v, 'w) runtime_state
   \<Rightarrow> policy_verdict \<Rightarrow> runtime_context \<Rightarrow> runtime_context intent_store \<Rightarrow> 'v \<Rightarrow> bool" where
  "released_context e inputs t st pv c is' v' \<longleftrightarrow>
     RuntimeEngine_decide (decision_engine.truncate e) t (rs_verifier st) = (Inr pv, v')
     \<and> d_outcome (pv_decision pv) = APPROVE
     \<and> RuntimeEngine_authorize e inputs t pv
         (DecisionBuilder_build (ci_decisionId inputs) (ci_evaluatedAt inputs) t (pv_decision pv)) = Inr c
     \<and> (rt_readiness e = None \<or> rt_readiness e = Some (Inr ()))
     \<and> RuntimeEngine_prepareIntent e inputs c (rs_intents st) = (Inr (), is')"

lemma prepare_Inl:
  "RuntimeEngine_prepareIntent e inputs c s = (Inl x, s') \<Longrightarrow> s' = s"
  by (auto simp: RuntimeEngine_prepareIntent_def ExecutionIntentService_prepare_def
      MemoryIntents_create_def split: option.splits sum.splits prod.splits if_splits)

lemma execute_cases:
  assumes "RuntimeEngine_execute e inputs t st = (r, st')"
  obtains (stopped) "rs_world st' = rs_world st" "rs_intents st' = rs_intents st" "\<exists>x. r = Inl x"
  | (released) pv c is' v' where "released_context e inputs t st pv c is' v'"
      "RuntimeEngine_release e inputs c (st\<lparr>rs_verifier := v'\<rparr>) = (r, st')"
proof (cases "RuntimeEngine_decide (decision_engine.truncate e) t (rs_verifier st)")
  case (Pair q v')
  show thesis
  proof (cases q)
    case (Inl x)
    with assms Pair show ?thesis by (intro stopped) (auto simp: RuntimeEngine_execute_def)
  next
    case (Inr pv)
    let ?d = "DecisionBuilder_build (ci_decisionId inputs) (ci_evaluatedAt inputs) t (pv_decision pv)"
    show ?thesis
    proof (cases "d_outcome (pv_decision pv) = APPROVE")
      case False
      with assms Pair Inr show ?thesis
        by (intro stopped)
           (auto simp: RuntimeEngine_execute_def Let_def split: sum.splits if_splits
             dest!: enforce_Inr[THEN iffD1])
    next
      case True
      then have enf: "ExecutionGate_enforce ?d = Inr ()" by (simp add: enforce_Inr)
      show ?thesis
      proof (cases "RuntimeEngine_authorize e inputs t pv ?d")
        case (Inl x)
        with assms Pair Inr True enf show ?thesis
          by (intro stopped) (auto simp: RuntimeEngine_execute_def Let_def)
      next
        case c: (Inr c)
        with assms Pair Inr True enf have rel:
          "RuntimeEngine_release e inputs c (st\<lparr>rs_verifier := v'\<rparr>) = (r, st')"
          by (auto simp: RuntimeEngine_execute_def Let_def)
        obtain pr is' where pr: "RuntimeEngine_prepareIntent e inputs c (rs_intents st) = (pr, is')"
          by force
        show ?thesis
        proof (cases "(rt_readiness e = None \<or> rt_readiness e = Some (Inr ())) \<and> pr = Inr ()")
          case True
          with pr Pair Inr c \<open>d_outcome (pv_decision pv) = APPROVE\<close> rel show ?thesis
            by (intro released[of pv c is' v']) (simp_all add: released_context_def)
        next
          case False
          with rel pr show ?thesis
            by (intro stopped)
               (auto simp: RuntimeEngine_release_def split: option.splits sum.splits dest: prepare_Inl)
        qed
      qed
    qed
  qed
qed

lemma release_world:
  assumes "RuntimeEngine_release e inputs c st = (r, st')"
    and "rt_readiness e = None \<or> rt_readiness e = Some (Inr ())"
    and "RuntimeEngine_prepareIntent e inputs c (rs_intents st) = (Inr (), is')"
  shows "(\<exists>x. fst (RuntimePipeline_execute (rt_pipeline e) c (rs_world st)) = Inl x
            \<and> r = Inl (RuntimeEngine_outcomeUnknown c x)
            \<and> rs_intents st' = mark_errored e (context_txId c) x (ci_others inputs is'))
     \<or> (\<exists>c'. fst (RuntimePipeline_execute (rt_pipeline e) c (rs_world st)) = Inr c'
            \<and> rs_intents st' = mark_released e inputs c' (ci_others inputs is')
            \<and> (r = Inl (RuntimeEngine_recordIncomplete c' (case rt_trustPipeline e c' of Inl x \<Rightarrow> x | _ \<Rightarrow> []))
               \<or> (\<exists>tr. rt_trustPipeline e c' = Inr tr \<and> r = Inr (c', tr))))"
  using assms by (auto simp: RuntimeEngine_release_def Let_def split: sum.splits prod.splits)

lemma create_Inr: "MemoryIntents_create i s = (Inr j, s') \<Longrightarrow> j = i"
  by (auto simp: MemoryIntents_create_def split: if_splits)

text \<open>With execution intents on, a release starts from no intent and stores one, unreleased.\<close>

lemma prepareIntent_stored:
  assumes "RuntimeEngine_prepareIntent e inputs c s = (Inr (), s')" "rt_intentCrypto e \<noteq> None"
    and "cx_authorization c = Some a"
  shows "map_of s (context_txId c) = None"
    and "\<exists>x. map_of s' (context_txId c) = Some x \<and> si_state x = PREPARED
       \<and> ei_authorizationId (si_intent x) = ap_authorizationId (sa_payload a)
       \<and> ei_businessTransactionHash (si_intent x) = ap_businessTransactionHash (sa_payload a)
       \<and> ei_policyContentHash (si_intent x) = ap_policyContentHash (sa_payload a)
       \<and> ei_signalsHash (si_intent x) = ap_signalsHash (sa_payload a)"
    and "intent_step s s'"
proof -
  from assms(2) obtain crypto where cr: "rt_intentCrypto e = Some crypto" by blast
  define b where "b = ExecutionIntentBuilder_build (ic_hash crypto) (ic_sign crypto)
      (ci_intentId inputs) (ci_preparedAt inputs) (cx_authorization c) (context_txId c)
      (dn_decisionId (cx_decision c)) (in_action (bt_intent (cx_transaction c)))
      (in_target (bt_intent (cx_transaction c)))"
  from assms(1) cr obtain i j where i: "b = Inr i" and j: "MemoryIntents_create i s = (Inr j, s')"
    by (auto simp: RuntimeEngine_prepareIntent_def ExecutionIntentService_prepare_def b_def[symmetric]
        split: sum.splits prod.splits)
  from create_Inr[OF j] j have m: "MemoryIntents_create i s = (Inr i, s')" by simp
  note i = i[unfolded b_def]
  from i assms(3) have f: "ei_businessTransactionId i = context_txId c"
    "ei_authorizationId i = ap_authorizationId (sa_payload a)"
    "ei_businessTransactionHash i = ap_businessTransactionHash (sa_payload a)"
    "ei_policyContentHash i = ap_policyContentHash (sa_payload a)"
    "ei_signalsHash i = ap_signalsHash (sa_payload a)"
    by (auto simp: ExecutionIntentBuilder_build_def Let_def split: sum.splits)
  from m f(1) show "map_of s (context_txId c) = None"
    by (auto simp: MemoryIntents_create_def split: if_splits)
  from m f show "\<exists>x. map_of s' (context_txId c) = Some x \<and> si_state x = PREPARED
       \<and> ei_authorizationId (si_intent x) = ap_authorizationId (sa_payload a)
       \<and> ei_businessTransactionHash (si_intent x) = ap_businessTransactionHash (sa_payload a)
       \<and> ei_policyContentHash (si_intent x) = ap_policyContentHash (sa_payload a)
       \<and> ei_signalsHash (si_intent x) = ap_signalsHash (sa_payload a)"
    by (auto simp: MemoryIntents_create_def split: if_splits)
  from m intent_step.step_create[of s i] show "intent_step s s'" by simp
qed

lemma released_context_authorizes:
  assumes "released_context e inputs t st pv c is' v'"
  obtains a where "cx_authorization c = Some a"
    "authorizes (re_hashes e) t (pv_policy pv) (sa_payload a)"
    "context_txId c = bt_businessTransactionId t"
proof -
  from assms have "RuntimeEngine_decide (decision_engine.truncate e) t (rs_verifier st) = (Inr pv, v')"
    by (simp add: released_context_def)
  then have "pv_policyContentHash pv = h_policy (re_hashes e) (pv_policy pv)"
    by (rule decide_Inr) (simp add: decision_engine.truncate_def)
  with assms that show thesis by (auto simp: released_context_def elim: authorize_Inr)
qed

lemma released_grounds:
  assumes "released_context e inputs t st pv c is' v'"
  shows "approval_grounds (decision_engine.truncate e) t (pv_policy pv) (pv_decision pv)
           (rs_verifier st) v'"
  using assms by (auto simp: released_context_def intro: decide_approve)

text \<open>After the pipeline ran, the intent is past \<open>PREPARED\<close>, whatever others did meanwhile.\<close>

lemma marked_not_prepared:
  assumes "map_of s i = Some x"
  shows "\<exists>y. map_of (MemoryIntents_markErrored i m s) i = Some y \<and> si_intent y = si_intent x \<and> PREPARED < si_state y"
    and "\<exists>y. map_of (MemoryIntents_markReleased i ctx d s) i = Some y \<and> si_intent y = si_intent x \<and> PREPARED < si_state y"
  using assms
  by (cases "si_state x"; auto simp: MemoryIntents_markErrored_def MemoryIntents_markReleased_def
      less_intent_state_def)+

lemma released_intent:
  assumes "released_context e inputs t st pv c is' v'"
    and "RuntimeEngine_release e inputs c (st\<lparr>rs_verifier := v'\<rparr>) = (r, st')"
    and "rt_intentCrypto e \<noteq> None" and "intent_steps is' (ci_others inputs is')"
    and "\<forall>d w. \<forall>d' w'. RuntimePipeline_execute (rt_pipeline e) d w = (Inr d', w') \<longrightarrow> context_txId d' = context_txId d"
  shows "map_of (rs_intents st) (bt_businessTransactionId t) = None"
    and "\<exists>x a. map_of (rs_intents st') (bt_businessTransactionId t) = Some x \<and> PREPARED < si_state x
       \<and> cx_authorization c = Some a
       \<and> ei_authorizationId (si_intent x) = ap_authorizationId (sa_payload a)
       \<and> ei_businessTransactionHash (si_intent x) = ap_businessTransactionHash (sa_payload a)
       \<and> ei_policyContentHash (si_intent x) = ap_policyContentHash (sa_payload a)
       \<and> ei_signalsHash (si_intent x) = ap_signalsHash (sa_payload a)"
proof -
  from assms(1) obtain a where a: "cx_authorization c = Some a"
    "context_txId c = bt_businessTransactionId t" by (rule released_context_authorizes)
  from assms(1) have prep: "RuntimeEngine_prepareIntent e inputs c (rs_intents st) = (Inr (), is')"
    and ready: "rt_readiness e = None \<or> rt_readiness e = Some (Inr ())"
    by (simp_all add: released_context_def)
  note stored = prepareIntent_stored[OF prep assms(3) a(1)]
  from stored(1) a(2) show "map_of (rs_intents st) (bt_businessTransactionId t) = None" by simp
  from stored(2) a(2) obtain x where x: "map_of is' (bt_businessTransactionId t) = Some x"
    "ei_authorizationId (si_intent x) = ap_authorizationId (sa_payload a)"
    "ei_businessTransactionHash (si_intent x) = ap_businessTransactionHash (sa_payload a)"
    "ei_policyContentHash (si_intent x) = ap_policyContentHash (sa_payload a)"
    "ei_signalsHash (si_intent x) = ap_signalsHash (sa_payload a)" by auto
  from intent_steps_monotone[OF assms(4) x(1)] obtain y where
    y: "map_of (ci_others inputs is') (bt_businessTransactionId t) = Some y" "si_intent y = si_intent x"
    by blast
  from release_world[OF assms(2) ready] prep have
    "(\<exists>m. rs_intents st' = MemoryIntents_markErrored (bt_businessTransactionId t) m (ci_others inputs is'))
     \<or> (\<exists>ctx d. rs_intents st' = MemoryIntents_markReleased (bt_businessTransactionId t) ctx d (ci_others inputs is'))"
    using assms(3,5) a(2) by (auto simp: mark_errored_def mark_released_def) (metis prod.collapse)+
  with marked_not_prepared[OF y(1)] obtain z where
    "map_of (rs_intents st') (bt_businessTransactionId t) = Some z" "si_intent z = si_intent y"
    "PREPARED < si_state z" by metis
  with x y(2) a(1) show "\<exists>x a. map_of (rs_intents st') (bt_businessTransactionId t) = Some x \<and> PREPARED < si_state x
       \<and> cx_authorization c = Some a
       \<and> ei_authorizationId (si_intent x) = ap_authorizationId (sa_payload a)
       \<and> ei_businessTransactionHash (si_intent x) = ap_businessTransactionHash (sa_payload a)
       \<and> ei_policyContentHash (si_intent x) = ap_policyContentHash (sa_payload a)
       \<and> ei_signalsHash (si_intent x) = ap_signalsHash (sa_payload a)" by auto
qed

end
