(* ===== verification/Session_Stores.thy ===== *)
theory Session_Stores
  imports Gateway
begin

text \<open>
  The single-use stores of \<open>packages/execution-control/src\<close>: \<open>GatewaySessionStore.ts\<close>, whose
  sessions bind one release to one connector, and \<open>SessionCredentialVault.ts\<close> over
  \<open>CredentialVault.ts\<close>, whose leases give a connector its secret once.  Both are instances of
  one interface, the locale \<open>one_shot\<close>.

  Parameters: \<open>bindingHash\<close> of a content and of an authorization, the conversions between times
  and strings, and the random identifiers.
\<close>

section \<open>The interface of a single-use store\<close>

text \<open>
  \<open>attempt\<close> tries to use the entry of a key, \<open>spent\<close> tells that it was used; \<open>step\<close> is what
  any operation may do to the store.
\<close>

locale one_shot =
  fixes attempt :: "'q \<Rightarrow> 's \<Rightarrow> bool \<times> 's"
    and key :: "'q \<Rightarrow> string"
    and spent :: "'s \<Rightarrow> string \<Rightarrow> bool"
    and step :: "'s \<Rightarrow> 's \<Rightarrow> bool"
  assumes success_fresh: "fst (attempt q s) \<Longrightarrow> \<not> spent s (key q)"
    and success_spends: "fst (attempt q s) \<Longrightarrow> spent (snd (attempt q s)) (key q)"
    and step_keeps: "step s t \<Longrightarrow> spent s k \<Longrightarrow> spent t k"
begin

lemma steps_keep: "step\<^sup>*\<^sup>* s t \<Longrightarrow> spent s k \<Longrightarrow> spent t k"
  by (induction rule: rtranclp_induct) (auto intro: step_keeps)

text \<open>Once used, an entry is refused after any operations.\<close>

lemma used_once:
  assumes "fst (attempt q s)" "step\<^sup>*\<^sup>* (snd (attempt q s)) t" "key r = key q"
  shows "\<not> fst (attempt r t)"
  using success_spends[OF assms(1)] steps_keep[OF assms(2)] success_fresh[of r t] assms(3) by auto

end

section \<open>Requests and sessions\<close>

record gateway_identity =
  gi_gatewayId :: string
  gi_publicIdentity :: string
  gi_authenticationMetadata :: "(string \<times> string) list"

record connector_identity =
  ci_connectorId :: string
  ci_publicIdentity :: string
  ci_authenticationMetadata :: "(string \<times> string) list"

record verified_transaction =
  vt_authorizationVerified :: bool
  vt_executableContentVerified :: bool
  vt_replayCheckPassed :: bool

record gateway_session =
  gs_sessionId :: string
  gs_createdAt :: string
  gs_expiresAt :: string
  gs_authorizationId :: string

record execution_release =
  xl_authorization :: signed_authorization
  xl_executableContent :: executable_content
  xl_verifiedTransaction :: verified_transaction
  xl_executionTimestamp :: string
  xl_approvals :: "release_approval list option"

record gateway_execution_request =
  gx_authorization :: signed_authorization
  gx_executableContent :: executable_content
  gx_verifiedTransaction :: verified_transaction
  gx_executionTimestamp :: string
  gx_gatewayIdentity :: gateway_identity
  gx_gatewaySession :: gateway_session
  gx_approvals :: "release_approval list option"

abbreviation gx_payload :: "gateway_execution_request \<Rightarrow> authorization_payload" where
  "gx_payload r \<equiv> sa_payload (gx_authorization r)"

record session_record = gateway_session +
  sr_connectorId :: string
  sr_contentBinding :: string
  sr_authorizationBinding :: string
  sr_used :: bool

text \<open>What the store and \<open>Date\<close> contribute: \<open>bindingHash\<close> and the two conversions of times.\<close>

record session_env =
  sn_bindContent :: "executable_content \<Rightarrow> string"
  sn_bindAuthorization :: "signed_authorization \<Rightarrow> string"
  sn_parse :: date_parse
  sn_isoString :: "int \<Rightarrow> string"

text \<open>A value of type \<open>unknown\<close> that is only compared with \<open>===\<close>, by its identity.\<close>

type_synonym object_id = nat

type_synonym session_map = "(string \<times> session_record) list"

datatype session_error = IssuanceUnauthenticated | InvalidSessionTime

definition GatewaySessionStore_publicSession :: "session_record \<Rightarrow> gateway_session" where
  "GatewaySessionStore_publicSession r =
     \<lparr>gs_sessionId = gs_sessionId r, gs_createdAt = gs_createdAt r, gs_expiresAt = gs_expiresAt r,
      gs_authorizationId = gs_authorizationId r\<rparr>"

text \<open>\<open>toISOString\<close> throws for the invalid date that \<open>Math.min\<close> with \<open>NaN\<close> gives.\<close>

definition GatewaySessionStore_create ::
  "session_env \<Rightarrow> object_id \<Rightarrow> string \<Rightarrow> execution_release \<Rightarrow> string \<Rightarrow> int \<Rightarrow> object_id \<Rightarrow> int \<Rightarrow> session_map
   \<Rightarrow> (session_error, gateway_session) result \<times> session_map" where
  "GatewaySessionStore_create env configured uuid release connectorId lifetimeMs issuance now s =
     (if issuance \<noteq> configured then (Inl IssuanceUnauthenticated, s)
      else case sn_parse env (ap_expiresAt (sa_payload (xl_authorization release))) of
        None \<Rightarrow> (Inl InvalidSessionTime, s)
      | Some authorizationExpiry \<Rightarrow>
          let expiresAt = min (now + lifetimeMs) authorizationExpiry in
          if \<not> valid_time now \<or> \<not> valid_time expiresAt then (Inl InvalidSessionTime, s)
          else let r = \<lparr>gs_sessionId = uuid, gs_createdAt = sn_isoString env now,
                     gs_expiresAt = sn_isoString env expiresAt,
                     gs_authorizationId = ap_authorizationId (sa_payload (xl_authorization release)),
                     sr_connectorId = connectorId,
                     sr_contentBinding = sn_bindContent env (xl_executableContent release),
                     sr_authorizationBinding = sn_bindAuthorization env (xl_authorization release),
                     sr_used = False\<rparr>
               in (Inr (GatewaySessionStore_publicSession r), map_set uuid r s))"

definition GatewaySessionStore_sameSession :: "gateway_session \<Rightarrow> gateway_session \<Rightarrow> bool" where
  "GatewaySessionStore_sameSession a b \<longleftrightarrow>
     gs_sessionId a = gs_sessionId b \<and> gs_createdAt a = gs_createdAt b
     \<and> gs_expiresAt a = gs_expiresAt b \<and> gs_authorizationId a = gs_authorizationId b"

text \<open>\<open>Date.parse(record.expiresAt) > now\<close> is false for \<open>NaN\<close>.\<close>

definition session_valid ::
  "session_env \<Rightarrow> gateway_execution_request \<Rightarrow> string \<Rightarrow> int \<Rightarrow> session_record \<Rightarrow> bool" where
  "session_valid env request connectorId now r \<longleftrightarrow>
     \<not> sr_used r \<and> not_expired now (sn_parse env (gs_expiresAt r)) \<and> sr_connectorId r = connectorId
     \<and> gs_authorizationId r = ap_authorizationId (gx_payload request)
     \<and> sr_contentBinding r = sn_bindContent env (gx_executableContent request)
     \<and> sr_authorizationBinding r = sn_bindAuthorization env (gx_authorization request)
     \<and> GatewaySessionStore_sameSession (GatewaySessionStore_publicSession r) (gx_gatewaySession request)"

definition GatewaySessionStore_consume ::
  "session_env \<Rightarrow> gateway_execution_request \<Rightarrow> string \<Rightarrow> int \<Rightarrow> session_map \<Rightarrow> bool \<times> session_map" where
  "GatewaySessionStore_consume env request connectorId now s =
     (case map_of s (gs_sessionId (gx_gatewaySession request)) of
        None \<Rightarrow> (False, s)
      | Some r \<Rightarrow>
          if session_valid env request connectorId now r
          then (True, map_set (gs_sessionId (gx_gatewaySession request)) (r\<lparr>sr_used := True\<rparr>) s)
          else (False, s))"

text \<open>
  The operations on the store.  \<open>randomUUID\<close> does not repeat: a session is created under a new id.
\<close>

inductive session_step :: "session_map \<Rightarrow> session_map \<Rightarrow> bool" where
  created: "map_of s uuid = None \<Longrightarrow>
     session_step s (snd (GatewaySessionStore_create env conf uuid rel cid life iss now s))"
| consumed: "session_step s (snd (GatewaySessionStore_consume env req cid now s))"

definition session_spent :: "session_map \<Rightarrow> string \<Rightarrow> bool" where
  "session_spent s k \<longleftrightarrow> (\<exists>r. map_of s k = Some r \<and> sr_used r)"

lemma create_map:
  "map_of s uuid = None \<Longrightarrow> map_of s k = Some r \<Longrightarrow>
     map_of (snd (GatewaySessionStore_create env conf uuid rel cid life iss now s)) k = Some r"
  by (auto simp: GatewaySessionStore_create_def Let_def split: option.splits)

lemma session_step_keeps: "session_step s t \<Longrightarrow> session_spent s k \<Longrightarrow> session_spent t k"
proof (induction rule: session_step.induct)
  case (created s uuid env conf rel cid life iss now)
  then show ?case by (auto simp: session_spent_def dest: create_map)
next
  case (consumed s env req cid now)
  then show ?case by (auto simp: session_spent_def GatewaySessionStore_consume_def split: option.splits)
qed

interpretation gateway_sessions:
  one_shot "\<lambda>(env, request, connectorId, now). GatewaySessionStore_consume env request connectorId now"
    "\<lambda>(env, request, connectorId, now). gs_sessionId (gx_gatewaySession request)"
    session_spent session_step
  by unfold_locales
     (auto simp: GatewaySessionStore_consume_def session_spent_def session_valid_def
       intro: session_step_keeps[unfolded session_spent_def] split: option.splits if_splits)

text \<open>What an accepted session says of the request it was presented with.\<close>

lemma consume_True:
  assumes "GatewaySessionStore_consume env request connectorId now s = (True, s')"
  obtains r where "map_of s (gs_sessionId (gx_gatewaySession request)) = Some r"
    "session_valid env request connectorId now r"
    "s' = map_set (gs_sessionId (gx_gatewaySession request)) (r\<lparr>sr_used := True\<rparr>) s"
  using assms by (auto simp: GatewaySessionStore_consume_def split: option.splits if_splits)

section \<open>Credentials\<close>

type_synonym 'cred vault = "(string \<times> 'cred) list"

datatype credential_error =
    NoCredential string
  | UnknownSessionCredential string
  | SessionCredentialRevoked string
  | SessionCredentialUsed string
  | SessionCredentialExpired string
  | InvalidCredentialTime

definition CredentialVault_setCredential :: "string \<Rightarrow> 'cred \<Rightarrow> 'cred vault \<Rightarrow> 'cred vault" where
  "CredentialVault_setCredential connectorId credential v = map_set connectorId credential v"

definition CredentialVault_getCredential :: "'cred vault \<Rightarrow> string \<Rightarrow> (credential_error, 'cred) result" where
  "CredentialVault_getCredential v connectorId =
     (case map_of v connectorId of None \<Rightarrow> Inl (NoCredential connectorId) | Some c \<Rightarrow> Inr c)"

record session_credential =
  sk_sessionCredentialId :: string
  sk_connectorId :: string
  sk_authorizationId :: string
  sk_issuedAt :: string
  sk_expiresAt :: string

record credential_record =
  cr_sessionCredentialId :: string
  cr_connectorId :: string
  cr_authorizationId :: string
  cr_expiresAt :: int
  cr_used :: bool
  cr_revoked :: bool

type_synonym lease_map = "(string \<times> credential_record) list"

text \<open>The constructor, which gives the lifetime of the leases.\<close>

definition SessionCredentialVault_create :: "int \<Rightarrow> (string, int) result" where
  "SessionCredentialVault_create lifetimeMs =
     (if lifetimeMs \<le> 0 then Inl ''Session credential lifetime must be positive.'' else Inr lifetimeMs)"

definition SessionCredentialVault_issue ::
  "(int \<Rightarrow> string) \<Rightarrow> 'cred vault \<Rightarrow> int \<Rightarrow> string \<Rightarrow> int \<Rightarrow> string \<Rightarrow> string \<Rightarrow> lease_map
   \<Rightarrow> (credential_error, session_credential) result \<times> lease_map" where
  "SessionCredentialVault_issue isoString vault lifetimeMs uuid now connectorId authorizationId s =
     (case CredentialVault_getCredential vault connectorId of
        Inl e \<Rightarrow> (Inl e, s)
      | Inr _ \<Rightarrow>
          let expiresAt = now + lifetimeMs;
              s' = map_set uuid \<lparr>cr_sessionCredentialId = uuid, cr_connectorId = connectorId,
                     cr_authorizationId = authorizationId, cr_expiresAt = expiresAt,
                     cr_used = False, cr_revoked = False\<rparr> s
          in if \<not> valid_time now \<or> \<not> valid_time expiresAt then (Inl InvalidCredentialTime, s')
             else (Inr \<lparr>sk_sessionCredentialId = uuid, sk_connectorId = connectorId,
                        sk_authorizationId = authorizationId, sk_issuedAt = isoString now,
                        sk_expiresAt = isoString expiresAt\<rparr>, s'))"

definition SessionCredentialVault_consume ::
  "'cred vault \<Rightarrow> int \<Rightarrow> string \<Rightarrow> lease_map \<Rightarrow> (credential_error, 'cred) result \<times> lease_map" where
  "SessionCredentialVault_consume vault now i s =
     (case map_of s i of
        None \<Rightarrow> (Inl (UnknownSessionCredential i), s)
      | Some r \<Rightarrow>
          if cr_revoked r then (Inl (SessionCredentialRevoked i), s)
          else if cr_used r then (Inl (SessionCredentialUsed i), s)
          else if cr_expiresAt r \<le> now then (Inl (SessionCredentialExpired i), s)
          else (CredentialVault_getCredential vault (cr_connectorId r),
                map_set i (r\<lparr>cr_used := True\<rparr>) s))"

definition SessionCredentialVault_revoke ::
  "string \<Rightarrow> lease_map \<Rightarrow> (credential_error, unit) result \<times> lease_map" where
  "SessionCredentialVault_revoke i s =
     (case map_of s i of
        None \<Rightarrow> (Inl (UnknownSessionCredential i), s)
      | Some r \<Rightarrow> (Inr (), map_set i (r\<lparr>cr_revoked := True\<rparr>) s))"

lemmas lease_defs = SessionCredentialVault_issue_def SessionCredentialVault_consume_def
  SessionCredentialVault_revoke_def CredentialVault_getCredential_def

text \<open>The operations on the vault and its leases.\<close>

inductive lease_step :: "'cred vault \<times> lease_map \<Rightarrow> 'cred vault \<times> lease_map \<Rightarrow> bool" where
  stored: "lease_step (v, s) (CredentialVault_setCredential cid c v, s)"
| issued: "map_of s uuid = None \<Longrightarrow>
     lease_step (v, s) (v, snd (SessionCredentialVault_issue isoString v life uuid now cid aid s))"
| used: "lease_step (v, s) (v, snd (SessionCredentialVault_consume v now i s))"
| revoked: "lease_step (v, s) (v, snd (SessionCredentialVault_revoke i s))"

text \<open>A lease that gives out no secret any more.\<close>

definition lease_spent :: "lease_map \<Rightarrow> string \<Rightarrow> bool" where
  "lease_spent s k \<longleftrightarrow> (\<exists>r. map_of s k = Some r \<and> (cr_used r \<or> cr_revoked r))"

lemma lease_step_keeps: "lease_step x y \<Longrightarrow> lease_spent (snd x) k \<Longrightarrow> lease_spent (snd y) k"
  by (induction rule: lease_step.induct)
     (auto simp: lease_spent_def lease_defs Let_def split: option.splits)

text \<open>\<open>consume\<close> as an attempt of the interface.\<close>

definition lease_attempt :: "int \<times> string \<Rightarrow> 'cred vault \<times> lease_map \<Rightarrow> bool \<times> 'cred vault \<times> lease_map" where
  "lease_attempt q x = (case SessionCredentialVault_consume (fst x) (fst q) (snd q) (snd x) of
     (r, s') \<Rightarrow> (ok r, (fst x, s')))"

interpretation credential_leases:
  one_shot lease_attempt snd "\<lambda>x. lease_spent (snd x)" lease_step
proof unfold_locales
  show "lease_step s t \<Longrightarrow> lease_spent (snd s) k \<Longrightarrow> lease_spent (snd t) k" for s t :: "'cred vault \<times> lease_map" and k
    by (rule lease_step_keeps)
qed (auto simp: lease_attempt_def lease_defs lease_spent_def split: option.splits if_splits)

end
