(* ===== verification/Execution_Control.thy ===== *)
theory Execution_Control
  imports Session_Stores
begin

text \<open>
  The release side of the execution boundary, the rest of \<open>packages/execution-control/src\<close>:
  gateway attestations (\<open>GatewayAttestation.ts\<close>), the two authenticators, the connector registry
  and policy, the two secure connectors, \<open>ExecutionControlService.ts\<close> and the request-bound
  wrapper \<open>SessionCredentialExecutionControl.ts\<close>.

  A connector acts on a state with the sessions, the credentials, the audit trail and the world
  its executor changes.  Parameters: the signature check on attestations, the executor, the clock
  readings and identifiers of a call.
\<close>

section \<open>Attestations and authenticators\<close>

record attestation_payload =
  at_gatewayId :: string
  at_authorizationId :: string
  at_nonce :: string
  at_issuedAt :: string

record gateway_attestation =
  ga_payload :: attestation_payload
  ga_signature :: string

definition GatewayAttestationSigner_sign ::
  "(attestation_payload \<Rightarrow> 'priv \<Rightarrow> string) \<Rightarrow> (int \<Rightarrow> string) \<Rightarrow> string \<Rightarrow> int \<Rightarrow> string \<Rightarrow> string \<Rightarrow> 'priv
   \<Rightarrow> gateway_attestation" where
  "GatewayAttestationSigner_sign sign isoString uuid now gatewayId authorizationId privateKey =
     (let payload = \<lparr>at_gatewayId = gatewayId, at_authorizationId = authorizationId,
            at_nonce = uuid, at_issuedAt = isoString now\<rparr>
      in \<lparr>ga_payload = payload, ga_signature = sign payload privateKey\<rparr>)"

text \<open>\<open>isGatewayAttestation\<close> reads the attestation from a value of any shape.\<close>

definition isGatewayAttestation :: "json \<Rightarrow> gateway_attestation option" where
  "isGatewayAttestation v =
     (case str_prop v ''signature'' of
        None \<Rightarrow> None
      | Some sig \<Rightarrow>
          (case obj_prop v ''payload'' of
             None \<Rightarrow> None
           | Some p \<Rightarrow>
               (case (str_prop p ''gatewayId'', str_prop p ''authorizationId'', str_prop p ''nonce'',
                      str_prop p ''issuedAt'') of
                  (Some g, Some a, Some n, Some i) \<Rightarrow>
                    Some \<lparr>ga_payload = \<lparr>at_gatewayId = g, at_authorizationId = a, at_nonce = n,
                            at_issuedAt = i\<rparr>, ga_signature = sig\<rparr>
                | _ \<Rightarrow> None)))"

text \<open>The object an attestation is as a value.\<close>

definition attestation_json :: "gateway_attestation \<Rightarrow> json" where
  "attestation_json a = JObj
     [(''payload'', JObj [(''gatewayId'', JStr (at_gatewayId (ga_payload a))),
        (''authorizationId'', JStr (at_authorizationId (ga_payload a))),
        (''nonce'', JStr (at_nonce (ga_payload a))), (''issuedAt'', JStr (at_issuedAt (ga_payload a)))]),
      (''signature'', JStr (ga_signature a))]"

lemma isGatewayAttestation_json: "isGatewayAttestation (attestation_json a) = Some a"
  by (simp add: isGatewayAttestation_def attestation_json_def str_prop_def obj_prop_def)

definition EXTERNAL_CONNECTOR_ID_PREFIX :: string where
  "EXTERNAL_CONNECTOR_ID_PREFIX = ''ext-''"

definition EXTERNAL_PUBLIC_IDENTITY_PREFIX :: string where
  "EXTERNAL_PUBLIC_IDENTITY_PREFIX = ''spiffe://parmana/connectors/external/''"

definition externalConnectorIdentity :: "string \<Rightarrow> connector_identity" where
  "externalConnectorIdentity capability =
     \<lparr>ci_connectorId = EXTERNAL_CONNECTOR_ID_PREFIX @ capability,
      ci_publicIdentity = EXTERNAL_PUBLIC_IDENTITY_PREFIX @ capability,
      ci_authenticationMetadata = []\<rparr>"

definition isExternalConnectorIdentity :: "connector_identity \<Rightarrow> bool" where
  "isExternalConnectorIdentity identity =
     (if \<not> starts_with (ci_connectorId identity) EXTERNAL_CONNECTOR_ID_PREFIX then False
      else let capability = drop (length EXTERNAL_CONNECTOR_ID_PREFIX) (ci_connectorId identity)
           in length capability > 0
              \<and> ci_publicIdentity identity = EXTERNAL_PUBLIC_IDENTITY_PREFIX @ capability)"

record 'key signed_token_authenticator =
  sta_gateway :: gateway_identity
  sta_publicKey :: 'key
  sta_connectorIdentities :: "connector_identity list"
  sta_trustExternalConnectors :: bool

type_synonym 'key attestation_check = "gateway_attestation \<Rightarrow> 'key \<Rightarrow> bool"

definition SignedToken_verifiedAttestation ::
  "'key attestation_check \<Rightarrow> 'key signed_token_authenticator \<Rightarrow> gateway_identity \<Rightarrow> json
   \<Rightarrow> gateway_attestation option" where
  "SignedToken_verifiedAttestation check a identity authentication =
     (if gi_gatewayId identity \<noteq> gi_gatewayId (sta_gateway a)
         \<or> gi_publicIdentity identity \<noteq> gi_publicIdentity (sta_gateway a) then None
      else case isGatewayAttestation authentication of
        None \<Rightarrow> None
      | Some att \<Rightarrow>
          if at_gatewayId (ga_payload att) \<noteq> gi_gatewayId (sta_gateway a) then None
          else if \<not> check att (sta_publicKey a) then None
          else Some att)"

definition SignedToken_authenticateGateway ::
  "'key attestation_check \<Rightarrow> 'key signed_token_authenticator \<Rightarrow> gateway_identity \<Rightarrow> json \<Rightarrow> bool" where
  "SignedToken_authenticateGateway check a identity authentication =
     (SignedToken_verifiedAttestation check a identity authentication \<noteq> None)"

definition SignedToken_authenticateGatewayForRequest ::
  "'key attestation_check \<Rightarrow> 'key signed_token_authenticator \<Rightarrow> gateway_identity \<Rightarrow> json \<Rightarrow> string \<Rightarrow> bool" where
  "SignedToken_authenticateGatewayForRequest check a identity authentication authorizationId =
     (case SignedToken_verifiedAttestation check a identity authentication of
        None \<Rightarrow> False
      | Some att \<Rightarrow> at_authorizationId (ga_payload att) = authorizationId)"

definition trusted_identity :: "connector_identity list \<Rightarrow> connector_identity \<Rightarrow> bool" where
  "trusted_identity trusted identity =
     list_ex (\<lambda>t. ci_connectorId t = ci_connectorId identity
        \<and> ci_publicIdentity t = ci_publicIdentity identity) trusted"

definition SignedToken_authenticateConnector :: "'key signed_token_authenticator \<Rightarrow> connector_identity \<Rightarrow> bool" where
  "SignedToken_authenticateConnector a identity =
     (if sta_trustExternalConnectors a \<and> isExternalConnectorIdentity identity then True
      else trusted_identity (sta_connectorIdentities a) identity)"

text \<open>The interface \<open>ConnectorAuthenticator\<close>; \<open>'a\<close> is the type of authentications.\<close>

record 'a connector_authenticator =
  ca_authenticateGateway :: "gateway_identity \<Rightarrow> 'a \<Rightarrow> bool"
  ca_authenticateConnector :: "connector_identity \<Rightarrow> bool"

definition SignedTokenConnectorAuthenticator ::
  "'key attestation_check \<Rightarrow> 'key signed_token_authenticator \<Rightarrow> json connector_authenticator" where
  "SignedTokenConnectorAuthenticator check a =
     \<lparr>ca_authenticateGateway = SignedToken_authenticateGateway check a,
      ca_authenticateConnector = SignedToken_authenticateConnector a\<rparr>"

definition InMemoryConnectorAuthenticator ::
  "gateway_identity \<Rightarrow> object_id \<Rightarrow> connector_identity list \<Rightarrow> object_id connector_authenticator" where
  "InMemoryConnectorAuthenticator gateway gatewayAuthentication connectorIdentities =
     \<lparr>ca_authenticateGateway = (\<lambda>identity authentication.
         authentication = gatewayAuthentication \<and> gi_gatewayId identity = gi_gatewayId gateway
         \<and> gi_publicIdentity identity = gi_publicIdentity gateway),
      ca_authenticateConnector = trusted_identity connectorIdentities\<rparr>"

section \<open>State, connectors and registry\<close>

datatype audit_type = SessionCreated | ExecutionRejected | ExecutionCompleted | AuthorizationVerified

record audit_event =
  ev_type :: audit_type
  ev_occurredAt :: int
  ev_connectorId :: string
  ev_authorizationId :: string
  ev_sessionId :: string
  ev_action :: string
  ev_businessTransactionId :: "string option"
  ev_credentialId :: "string option"
  ev_gatewayId :: "string option"
  ev_reject :: bool  \<comment> \<open>\<open>reason\<close> is present; its text is the message of the error\<close>

record ('cred, 'w) control_state =
  cs_sessions :: session_map
  cs_vault :: "'cred vault"
  cs_leases :: lease_map
  cs_audit :: "audit_event list"
  cs_world :: 'w

definition MemoryExecutionAuditSink_record ::
  "audit_event \<Rightarrow> ('cred, 'w) control_state \<Rightarrow> ('cred, 'w) control_state" where
  "MemoryExecutionAuditSink_record e st = st\<lparr>cs_audit := cs_audit st @ [e]\<rparr>"

record execution_result =
  xs_businessTransactionId :: string
  xs_action :: string
  xs_target :: string
  xs_parameters :: jsobject
  xs_success :: bool
  xs_executedAt :: int
  xs_metadata :: "jsobject option"

datatype control_error =
    GatewayUnauthenticated
  | AttestationMismatch
  | ConnectorUntrusted
  | TransactionUnverified
  | CapabilityNotAllowed
  | GrantedCapabilityMismatch
  | SessionRejected
  | ConnectorNotRegistered string
  | ConnectorAlreadyRegistered string
  | UnknownConnector string
  | SessionIssuance session_error
  | CredentialProblem credential_error
  | ExecutorThrew string

text \<open>The clock readings and identifiers of one execution.\<close>

record control_inputs =
  ki_sessionId :: string
  ki_createdAt :: int
  ki_auditedAt :: "nat \<Rightarrow> int"
  ki_consumedAt :: int
  ki_credentialId :: string
  ki_issuedAt :: int
  ki_usedAt :: int

type_synonym ('cred, 'w) connector_execute =
  "control_inputs \<Rightarrow> gateway_execution_request \<Rightarrow> ('cred, 'w) control_state
   \<Rightarrow> (control_error, execution_result) result \<times> ('cred, 'w) control_state"

record ('cred, 'w) secure_connector =
  sc_connectorId :: string
  sc_capabilities :: "string list"
  sc_identity :: connector_identity
  sc_execute :: "('cred, 'w) connector_execute"

type_synonym ('cred, 'w) registry = "(string \<times> ('cred, 'w) secure_connector) list"

definition InMemoryConnectorRegistry_register ::
  "('cred, 'w) secure_connector \<Rightarrow> ('cred, 'w) registry
   \<Rightarrow> (control_error, ('cred, 'w) registry) result" where
  "InMemoryConnectorRegistry_register c r =
     (if map_of r (sc_connectorId c) \<noteq> None then Inl (ConnectorAlreadyRegistered (sc_connectorId c))
      else Inr (map_set (sc_connectorId c) c r))"

fun InMemoryConnectorRegistry_create ::
  "('cred, 'w) secure_connector list \<Rightarrow> ('cred, 'w) registry
   \<Rightarrow> (control_error, ('cred, 'w) registry) result" where
  "InMemoryConnectorRegistry_create [] r = Inr r"
| "InMemoryConnectorRegistry_create (c # cs) r =
     (case InMemoryConnectorRegistry_register c r of
        Inl e \<Rightarrow> Inl e | Inr r' \<Rightarrow> InMemoryConnectorRegistry_create cs r')"

definition InMemoryConnectorRegistry_get ::
  "('cred, 'w) registry \<Rightarrow> string \<Rightarrow> (control_error, ('cred, 'w) secure_connector) result" where
  "InMemoryConnectorRegistry_get r i =
     (case map_of r i of None \<Rightarrow> Inl (UnknownConnector i) | Some c \<Rightarrow> Inr c)"

definition InMemoryConnectorRegistry_resolveCapability ::
  "('cred, 'w) registry \<Rightarrow> string \<Rightarrow> (control_error, ('cred, 'w) secure_connector) result" where
  "InMemoryConnectorRegistry_resolveCapability r capability =
     (case find (\<lambda>c. capability \<in> set (sc_capabilities c)) (map snd r) of
        None \<Rightarrow> Inl (ConnectorNotRegistered capability) | Some c \<Rightarrow> Inr c)"

definition InMemoryConnectorRegistry_unregister ::
  "string \<Rightarrow> ('cred, 'w) registry \<Rightarrow> (control_error, ('cred, 'w) registry) result" where
  "InMemoryConnectorRegistry_unregister i r =
     (if map_of r i = None then Inl (UnknownConnector i) else Inr (filter (\<lambda>(k, _). k \<noteq> i) r))"

definition InMemoryConnectorRegistry_list :: "('cred, 'w) registry \<Rightarrow> ('cred, 'w) secure_connector list" where
  "InMemoryConnectorRegistry_list r = map snd r"

section \<open>DefaultConnectorPolicy\<close>

text \<open>\<open>connectorId\<close>, \<open>capabilities\<close> and \<open>identity\<close> are those of the connector that asks.\<close>

definition DefaultConnectorPolicy_assertAllowed ::
  "'a connector_authenticator \<Rightarrow> session_env \<Rightarrow> control_inputs \<Rightarrow> gateway_execution_request \<Rightarrow> string
   \<Rightarrow> string list \<Rightarrow> connector_identity \<Rightarrow> 'a \<Rightarrow> ('cred, 'w) control_state
   \<Rightarrow> (control_error, unit) result \<times> ('cred, 'w) control_state" where
  "DefaultConnectorPolicy_assertAllowed auth env inputs request connectorId capabilities identity
     authentication st =
     (if \<not> ca_authenticateGateway auth (gx_gatewayIdentity request) authentication
        then (Inl GatewayUnauthenticated, st)
      else if \<not> ca_authenticateConnector auth identity then (Inl ConnectorUntrusted, st)
      else if \<not> vt_authorizationVerified (gx_verifiedTransaction request)
              \<or> \<not> vt_executableContentVerified (gx_verifiedTransaction request)
              \<or> \<not> vt_replayCheckPassed (gx_verifiedTransaction request)
        then (Inl TransactionUnverified, st)
      else if ec_action (gx_executableContent request) \<notin> set capabilities
        then (Inl CapabilityNotAllowed, st)
      else if ap_grantedCapability (gx_payload request) \<noteq> None
              \<and> ap_grantedCapability (gx_payload request) \<noteq> Some (ec_action (gx_executableContent request))
        then (Inl GrantedCapabilityMismatch, st)
      else (case GatewaySessionStore_consume env request connectorId (ki_consumedAt inputs)
                   (cs_sessions st) of
              (valid, s') \<Rightarrow>
                (if valid then Inr () else Inl SessionRejected, st\<lparr>cs_sessions := s'\<rparr>)))"

section \<open>Secure connectors\<close>

text \<open>The executor of a connector: content, secret, authorization and approvals.\<close>

type_synonym ('cred, 'w) executor =
  "executable_content \<Rightarrow> 'cred \<Rightarrow> signed_authorization \<Rightarrow> release_approval list \<Rightarrow> 'w
   \<Rightarrow> (string, execution_result) result \<times> 'w"

record ('a, 'cred, 'w) connector_options =
  co_identity :: connector_identity
  co_capabilities :: "string list"
  co_authenticator :: "'a connector_authenticator"
  co_env :: session_env
  co_gatewayAuthentication :: 'a
  co_lifetimeMs :: int
  co_executor :: "('cred, 'w) executor"

definition request_approvals :: "gateway_execution_request \<Rightarrow> release_approval list" where
  "request_approvals request = (case gx_approvals request of None \<Rightarrow> [] | Some as \<Rightarrow> as)"

definition run_executor ::
  "('cred, 'w) executor \<Rightarrow> gateway_execution_request \<Rightarrow> 'cred \<Rightarrow> ('cred, 'w) control_state
   \<Rightarrow> (control_error, execution_result) result \<times> ('cred, 'w) control_state" where
  "run_executor executor request credential st =
     (case executor (gx_executableContent request) credential (gx_authorization request)
             (request_approvals request) (cs_world st) of
        (Inl e, w') \<Rightarrow> (Inl (ExecutorThrew e), st\<lparr>cs_world := w'\<rparr>)
      | (Inr r, w') \<Rightarrow> (Inr r, st\<lparr>cs_world := w'\<rparr>))"

definition InMemorySecureConnector_execute ::
  "('a, 'cred, 'w) connector_options \<Rightarrow> ('cred, 'w) connector_execute" where
  "InMemorySecureConnector_execute opts inputs request st =
     (case DefaultConnectorPolicy_assertAllowed (co_authenticator opts) (co_env opts) inputs request
             (ci_connectorId (co_identity opts)) (co_capabilities opts) (co_identity opts)
             (co_gatewayAuthentication opts) st of
        (Inl e, st') \<Rightarrow> (Inl e, st')
      | (Inr _, st') \<Rightarrow>
          (case CredentialVault_getCredential (cs_vault st') (ci_connectorId (co_identity opts)) of
             Inl e \<Rightarrow> (Inl (CredentialProblem e), st')
           | Inr credential \<Rightarrow> run_executor (co_executor opts) request credential st'))"

text \<open>
  The inner \<open>try\<close> of the session credential connector: the secret is fetched and used, and the
  lease is revoked on every way out; an error of the revocation replaces the outcome.
\<close>

definition use_credential ::
  "('a, 'cred, 'w) connector_options \<Rightarrow> control_inputs \<Rightarrow> gateway_execution_request \<Rightarrow> string
   \<Rightarrow> ('cred, 'w) control_state
   \<Rightarrow> (control_error, execution_result) result \<times> ('cred, 'w) control_state" where
  "use_credential opts inputs request credentialId st =
     (case (case SessionCredentialVault_consume (cs_vault st) (ki_usedAt inputs) credentialId
                  (cs_leases st) of
              (Inl e, l') \<Rightarrow> (Inl (CredentialProblem e), st\<lparr>cs_leases := l'\<rparr>)
            | (Inr credential, l') \<Rightarrow>
                run_executor (co_executor opts) request credential (st\<lparr>cs_leases := l'\<rparr>)) of
        (outcome, st1) \<Rightarrow>
          (case SessionCredentialVault_revoke credentialId (cs_leases st1) of
             (Inl e, l2) \<Rightarrow> (Inl (CredentialProblem e), st1\<lparr>cs_leases := l2\<rparr>)
           | (Inr _, l2) \<Rightarrow> (outcome, st1\<lparr>cs_leases := l2\<rparr>)))"

definition connector_event ::
  "audit_type \<Rightarrow> ('a, 'cred, 'w) connector_options \<Rightarrow> control_inputs \<Rightarrow> gateway_execution_request
   \<Rightarrow> string option \<Rightarrow> audit_event" where
  "connector_event ty opts inputs request credentialId =
     \<lparr>ev_type = ty, ev_occurredAt = ki_auditedAt inputs 1, ev_connectorId = ci_connectorId (co_identity opts),
      ev_authorizationId = ap_authorizationId (gx_payload request),
      ev_sessionId = gs_sessionId (gx_gatewaySession request),
      ev_action = ec_action (gx_executableContent request), ev_businessTransactionId = None,
      ev_credentialId = credentialId, ev_gatewayId = Some (gi_gatewayId (gx_gatewayIdentity request)),
      ev_reject = (ty = ExecutionRejected)\<rparr>"

definition SessionCredentialSecureConnector_execute ::
  "('a, 'cred, 'w) connector_options \<Rightarrow> ('cred, 'w) connector_execute" where
  "SessionCredentialSecureConnector_execute opts inputs request st =
     (case DefaultConnectorPolicy_assertAllowed (co_authenticator opts) (co_env opts) inputs request
             (ci_connectorId (co_identity opts)) (co_capabilities opts) (co_identity opts)
             (co_gatewayAuthentication opts) st of
        (Inl e, st1) \<Rightarrow>
          (Inl e, MemoryExecutionAuditSink_record
             (connector_event ExecutionRejected opts inputs request None) st1)
      | (Inr _, st1) \<Rightarrow>
      (case SessionCredentialVault_issue (sn_isoString (co_env opts)) (cs_vault st1) (co_lifetimeMs opts)
              (ki_credentialId inputs) (ki_issuedAt inputs) (ci_connectorId (co_identity opts))
              (ap_authorizationId (gx_payload request)) (cs_leases st1) of
         (Inl e, l) \<Rightarrow>
           (Inl (CredentialProblem e), MemoryExecutionAuditSink_record
              (connector_event ExecutionRejected opts inputs request None) (st1\<lparr>cs_leases := l\<rparr>))
       | (Inr lease, l) \<Rightarrow>
           (case use_credential opts inputs request (sk_sessionCredentialId lease) (st1\<lparr>cs_leases := l\<rparr>) of
              (Inl e, st2) \<Rightarrow>
                (Inl e, MemoryExecutionAuditSink_record (connector_event ExecutionRejected opts inputs request
                   (Some (sk_sessionCredentialId lease))) st2)
            | (Inr r, st2) \<Rightarrow>
                (Inr r, MemoryExecutionAuditSink_record (connector_event ExecutionCompleted opts inputs request
                   (Some (sk_sessionCredentialId lease))) st2))))"

definition SessionCredentialSecureConnector_create ::
  "('a, 'cred, 'w) connector_options \<Rightarrow> ('cred, 'w) secure_connector" where
  "SessionCredentialSecureConnector_create opts =
     \<lparr>sc_connectorId = ci_connectorId (co_identity opts), sc_capabilities = co_capabilities opts,
      sc_identity = co_identity opts, sc_execute = SessionCredentialSecureConnector_execute opts\<rparr>"

section \<open>ExecutionControlService\<close>

record ('a, 'cred, 'w) control_service =
  es_gatewayIdentity :: gateway_identity
  es_authenticator :: "'a connector_authenticator"
  es_registry :: "string \<Rightarrow> (control_error, ('cred, 'w) secure_connector) result"
  es_env :: session_env
  es_issuanceConfigured :: object_id
  es_issuanceAuthentication :: object_id
  es_sessionLifetimeMs :: int

definition DEFAULT_SESSION_LIFETIME_MS :: int where
  "DEFAULT_SESSION_LIFETIME_MS = 30000"

datatype service_config_error = SessionLifetimeNotPositive

definition ExecutionControlService_create ::
  "('a, 'cred, 'w) control_service \<Rightarrow> int option \<Rightarrow> (service_config_error, ('a, 'cred, 'w) control_service) result" where
  "ExecutionControlService_create opts lifetime =
     (let ms = (case lifetime of Some l \<Rightarrow> l | None \<Rightarrow> DEFAULT_SESSION_LIFETIME_MS) in
      if ms \<le> 0 then Inl SessionLifetimeNotPositive else Inr (opts\<lparr>es_sessionLifetimeMs := ms\<rparr>))"

definition service_event ::
  "audit_type \<Rightarrow> nat \<Rightarrow> control_inputs \<Rightarrow> execution_release \<Rightarrow> string \<Rightarrow> string \<Rightarrow> audit_event" where
  "service_event ty i inputs release connectorId sessionId =
     \<lparr>ev_type = ty, ev_occurredAt = ki_auditedAt inputs i, ev_connectorId = connectorId,
      ev_authorizationId = ap_authorizationId (sa_payload (xl_authorization release)),
      ev_sessionId = sessionId, ev_action = ec_action (xl_executableContent release),
      ev_businessTransactionId = Some (ec_businessTransactionId (xl_executableContent release)),
      ev_credentialId = None, ev_gatewayId = None, ev_reject = (ty = ExecutionRejected)\<rparr>"

definition connector_request ::
  "execution_release \<Rightarrow> gateway_identity \<Rightarrow> gateway_session \<Rightarrow> gateway_execution_request" where
  "connector_request release identity session =
     \<lparr>gx_authorization = xl_authorization release, gx_executableContent = xl_executableContent release,
      gx_verifiedTransaction = xl_verifiedTransaction release,
      gx_executionTimestamp = xl_executionTimestamp release, gx_gatewayIdentity = identity,
      gx_gatewaySession = session, gx_approvals = xl_approvals release\<rparr>"

definition ExecutionControlService_execute ::
  "('a, 'cred, 'w) control_service \<Rightarrow> control_inputs \<Rightarrow> execution_release \<Rightarrow> 'a \<Rightarrow> ('cred, 'w) control_state
   \<Rightarrow> (control_error, execution_result) result \<times> ('cred, 'w) control_state" where
  "ExecutionControlService_execute svc inputs release authentication st =
     (if \<not> ca_authenticateGateway (es_authenticator svc) (es_gatewayIdentity svc) authentication
        then (Inl GatewayUnauthenticated, st)
      else case es_registry svc (ec_action (xl_executableContent release)) of
        Inl e \<Rightarrow> (Inl e, st)
      | Inr connector \<Rightarrow>
      (case GatewaySessionStore_create (es_env svc) (es_issuanceConfigured svc) (ki_sessionId inputs) release
              (sc_connectorId connector) (es_sessionLifetimeMs svc) (es_issuanceAuthentication svc)
              (ki_createdAt inputs) (cs_sessions st) of
         (Inl e, s') \<Rightarrow> (Inl (SessionIssuance e), st\<lparr>cs_sessions := s'\<rparr>)
       | (Inr session, s') \<Rightarrow>
           let st1 = MemoryExecutionAuditSink_record
                 (service_event SessionCreated 0 inputs release (sc_connectorId connector)
                    (gs_sessionId session)) (st\<lparr>cs_sessions := s'\<rparr>) in
           (case sc_execute connector inputs
                   (connector_request release (es_gatewayIdentity svc) session) st1 of
              (Inl e, st2) \<Rightarrow>
                (Inl e, MemoryExecutionAuditSink_record
                   (service_event ExecutionRejected 2 inputs release (sc_connectorId connector)
                      (gs_sessionId session)) st2)
            | (Inr r, st2) \<Rightarrow>
                (Inr r, MemoryExecutionAuditSink_record
                   (service_event ExecutionCompleted 2 inputs release (sc_connectorId connector)
                      (gs_sessionId session)) st2))))"

text \<open>The request-bound wrapper; its authenticator is the signed-token one.\<close>

definition SessionCredentialExecutionControl_execute ::
  "'key attestation_check \<Rightarrow> 'key signed_token_authenticator \<Rightarrow> gateway_identity
   \<Rightarrow> (control_inputs \<Rightarrow> execution_release \<Rightarrow> json \<Rightarrow> 'st \<Rightarrow> (control_error, execution_result) result \<times> 'st)
   \<Rightarrow> control_inputs \<Rightarrow> execution_release \<Rightarrow> json \<Rightarrow> 'st
   \<Rightarrow> (control_error, execution_result) result \<times> 'st" where
  "SessionCredentialExecutionControl_execute check a identity inner inputs release authentication st =
     (if \<not> SignedToken_authenticateGatewayForRequest check a identity authentication
             (ap_authorizationId (sa_payload (xl_authorization release)))
      then (Inl AttestationMismatch, st)
      else inner inputs release authentication st)"

section \<open>The gateway in front of it\<close>

text \<open>
  The service branch of \<open>ExecutionGateway.execute\<close>: the release the gateway builds, the
  authentication it mints (or the configured one) and the call of the service.
\<close>

definition ExecutionGateway_release ::
  "string \<Rightarrow> executable_content \<Rightarrow> signed_authorization \<Rightarrow> release_approval list \<Rightarrow> execution_release" where
  "ExecutionGateway_release timestamp content authorization approvals =
     \<lparr>xl_authorization = authorization, xl_executableContent = content,
      xl_verifiedTransaction = \<lparr>vt_authorizationVerified = True, vt_executableContentVerified = True,
        vt_replayCheckPassed = True\<rparr>,
      xl_executionTimestamp = timestamp, xl_approvals = Some approvals\<rparr>"

datatype controlled_error = GatewayRefused gateway_error | ControlRefused control_error | OtherRelease

definition ExecutionGateway_executeControlled ::
  "((gateway_error, gateway_release) result \<times> 'g) \<Rightarrow> string \<Rightarrow> (string \<Rightarrow> 'a) option \<Rightarrow> 'a
   \<Rightarrow> (execution_release \<Rightarrow> 'a \<Rightarrow> 'st \<Rightarrow> (control_error, execution_result) result \<times> 'st) \<Rightarrow> 'st
   \<Rightarrow> (controlled_error, execution_result) result \<times> 'g \<times> 'st" where
  "ExecutionGateway_executeControlled verified timestamp mint configured service st =
     (case verified of
        (Inl e, g') \<Rightarrow> (Inl (GatewayRefused e), g', st)
      | (Inr (ReleaseToService content authorization approvals), g') \<Rightarrow>
          let authentication = (case mint of
                Some f \<Rightarrow> f (ap_authorizationId (sa_payload authorization)) | None \<Rightarrow> configured) in
          (case service (ExecutionGateway_release timestamp content authorization approvals)
                  authentication st of
             (Inl e, st') \<Rightarrow> (Inl (ControlRefused e), g', st')
           | (Inr r, st') \<Rightarrow> (Inr r, g', st'))
      | (Inr _, g') \<Rightarrow> (Inl OtherRelease, g', st))"

section \<open>Facts\<close>

lemma record_simps [simp]:
  "cs_world (MemoryExecutionAuditSink_record e st) = cs_world st"
  "cs_leases (MemoryExecutionAuditSink_record e st) = cs_leases st"
  "cs_vault (MemoryExecutionAuditSink_record e st) = cs_vault st"
  "cs_sessions (MemoryExecutionAuditSink_record e st) = cs_sessions st"
  "cs_audit (MemoryExecutionAuditSink_record e st) = cs_audit st @ [e]"
  by (simp_all add: MemoryExecutionAuditSink_record_def)

lemma resolveCapability_Inr:
  assumes "InMemoryConnectorRegistry_resolveCapability r capability = Inr c"
  shows "c \<in> snd ` set r" "capability \<in> set (sc_capabilities c)"
  using assms
  by (auto simp: InMemoryConnectorRegistry_resolveCapability_def split: option.splits
      dest: find_Some_mem)

text \<open>What the connector policy lets through.\<close>

definition admitted ::
  "'a connector_authenticator \<Rightarrow> session_env \<Rightarrow> int \<Rightarrow> gateway_execution_request \<Rightarrow> connector_identity
   \<Rightarrow> string list \<Rightarrow> 'a \<Rightarrow> session_map \<Rightarrow> bool" where
  "admitted auth env now request identity capabilities authentication s \<longleftrightarrow>
     ca_authenticateGateway auth (gx_gatewayIdentity request) authentication
     \<and> ca_authenticateConnector auth identity
     \<and> vt_authorizationVerified (gx_verifiedTransaction request)
     \<and> vt_executableContentVerified (gx_verifiedTransaction request)
     \<and> vt_replayCheckPassed (gx_verifiedTransaction request)
     \<and> ec_action (gx_executableContent request) \<in> set capabilities
     \<and> (\<forall>g. ap_grantedCapability (gx_payload request) = Some g \<longrightarrow> g = ec_action (gx_executableContent request))
     \<and> (\<exists>r. map_of s (gs_sessionId (gx_gatewaySession request)) = Some r
          \<and> session_valid env request (ci_connectorId identity) now r)"

lemma assertAllowed_Inr:
  assumes "DefaultConnectorPolicy_assertAllowed auth env inputs request (ci_connectorId identity)
             capabilities identity authentication st = (Inr u, st')"
  shows "admitted auth env (ki_consumedAt inputs) request identity capabilities authentication (cs_sessions st)"
    and "\<exists>s'. st' = st\<lparr>cs_sessions := s'\<rparr>"
  using assms
  by (auto simp: DefaultConnectorPolicy_assertAllowed_def admitted_def
      split: if_splits prod.splits elim!: consume_True)

lemma assertAllowed_state:
  "\<exists>s'. snd (DefaultConnectorPolicy_assertAllowed auth env inputs request cid caps identity a st)
     = st\<lparr>cs_sessions := s'\<rparr>"
  by (auto simp: DefaultConnectorPolicy_assertAllowed_def split: prod.splits)
     (metis (no_types) control_state.surjective control_state.update_convs(1))+

lemma run_executor_eq:
  assumes "run_executor x request c st = (r, st')"
  shows "cs_leases st' = cs_leases st \<and> cs_vault st' = cs_vault st \<and> cs_audit st' = cs_audit st
     \<and> cs_sessions st' = cs_sessions st
     \<and> cs_world st' = snd (x (gx_executableContent request) c (gx_authorization request)
          (request_approvals request) (cs_world st))"
  using assms by (auto simp: run_executor_def split: prod.splits sum.splits)

lemma use_credential_world:
  assumes "use_credential opts inputs request i st = (r, st')" "cs_world st' \<noteq> cs_world st"
  shows "\<exists>l c. map_of (cs_leases st) i = Some l \<and> map_of (cs_vault st) (cr_connectorId l) = Some c
     \<and> cs_world st' = snd (co_executor opts (gx_executableContent request) c (gx_authorization request)
          (request_approvals request) (cs_world st))"
proof -
  obtain q l' where q: "SessionCredentialVault_consume (cs_vault st) (ki_usedAt inputs) i (cs_leases st) = (q, l')"
    by (rule prod.exhaust)
  show ?thesis
  proof (cases q)
    case (Inl e)
    with assms q show ?thesis by (auto simp: use_credential_def split: prod.splits sum.splits)
  next
    case (Inr c)
    with assms(1) q have "cs_world st' = snd (co_executor opts (gx_executableContent request) c
        (gx_authorization request) (request_approvals request) (cs_world st))"
      by (auto simp: use_credential_def split: prod.splits sum.splits dest!: run_executor_eq)
    moreover from q Inr obtain l where "map_of (cs_leases st) i = Some l"
      "map_of (cs_vault st) (cr_connectorId l) = Some c"
      by (auto simp: SessionCredentialVault_consume_def CredentialVault_getCredential_def
          split: option.splits if_splits)
    ultimately show ?thesis by auto
  qed
qed

text \<open>The effects of one connector call on the audit trail and on the credentials.\<close>

lemma use_credential_audit:
  "use_credential opts inputs request i st = (r, st') \<Longrightarrow> cs_audit st' = cs_audit st"
  by (auto simp: use_credential_def split: prod.splits sum.splits dest!: run_executor_eq)

text \<open>Every lease, or every other lease, is used up or revoked.\<close>

definition closed_except :: "string \<Rightarrow> lease_map \<Rightarrow> bool" where
  "closed_except i l \<longleftrightarrow> (\<forall>j r. map_of l j = Some r \<longrightarrow> j \<noteq> i \<longrightarrow> cr_used r \<or> cr_revoked r)"

definition leases_closed :: "lease_map \<Rightarrow> bool" where
  "leases_closed l \<longleftrightarrow> (\<forall>i r. map_of l i = Some r \<longrightarrow> cr_used r \<or> cr_revoked r)"

lemma leases_closed_revoke:
  assumes "closed_except i l" "SessionCredentialVault_revoke i l = (q, l')"
  shows "leases_closed l'"
proof (cases "map_of l i")
  case None
  with assms show ?thesis
    unfolding leases_closed_def closed_except_def SessionCredentialVault_revoke_def
    by (metis option.simps(4) option.distinct(1) prod.inject)
next
  case (Some r)
  with assms(2) have "l' = map_set i (r\<lparr>cr_revoked := True\<rparr>) l"
    by (simp add: SessionCredentialVault_revoke_def)
  with assms(1) show ?thesis by (simp add: leases_closed_def closed_except_def)
qed

lemma closed_except_consume:
  assumes "closed_except i l" "SessionCredentialVault_consume v now i l = (q, l')"
  shows "closed_except i l'"
proof -
  from assms(2) have "\<forall>j. j \<noteq> i \<longrightarrow> map_of l' j = map_of l j"
    by (auto simp: SessionCredentialVault_consume_def split: option.splits if_splits)
  with assms(1) show ?thesis unfolding closed_except_def by metis
qed

lemma use_credential_closes:
  assumes "use_credential opts inputs request i st = (r, st')" "closed_except i (cs_leases st)"
  shows "leases_closed (cs_leases st')"
proof -
  obtain q l' where q: "SessionCredentialVault_consume (cs_vault st) (ki_usedAt inputs) i (cs_leases st) = (q, l')"
    by (rule prod.exhaust)
  note c = closed_except_consume[OF assms(2) q]
  from assms(1) q obtain l2 x where "SessionCredentialVault_revoke i l' = (x, l2)" "cs_leases st' = l2"
    by (auto simp: use_credential_def split: prod.splits sum.splits dest!: run_executor_eq)
  with leases_closed_revoke[OF c] show ?thesis by blast
qed

end
