(* ===== verification/Trust_Record.thy ===== *)
theory Trust_Record
  imports Runtime Execution_Control
begin

text \<open>
  The Execution Trust Record: its canonical views, the hash chain of its executions
  (\<open>packages/crypto/src/ExecutionChainCrypto.ts\<close>), hashing, signing and verification
  (\<open>VerificationCrypto.ts\<close>, \<open>HybridSignatureProvider.ts\<close>, \<open>ReceiptCrypto.ts\<close>), the builder
  (\<open>packages/runtime/src/BusinessTrustRecordBuilder.ts\<close>, \<open>BusinessTrustPipeline.ts\<close>), the
  in-memory repository (\<open>packages/storage/src/memory\<close>) and the verification and receipt services.

  Parameters, in \<open>record_crypto\<close>: the hash of a serialized artifact, the signer and the signature
  check by key id (both may throw), the algorithms and the configuration.
\<close>

section \<open>Data\<close>

record evidence_anchor =
  ea_policyContentHash :: "string option"
  ea_governanceAnchorStatus :: "anchor_status option"
  ea_connectorEvidenceHash :: "string option"
  ea_anchorHash :: string

record trust_record =
  tr_trustRecordId :: string
  tr_businessTransactionId :: string
  tr_transaction :: business_transaction
  tr_overrides :: "override_artifact list"
  tr_executions :: "execution list"
  tr_verifications :: "verification list"
  tr_receipts :: "receipt list"
  tr_authorization :: "signed_authorization option"
  tr_trustRecordHash :: string
  tr_signature :: signature
  tr_schemaVersion :: "nat option"
  tr_signatures :: "signature_entry list option"
  tr_createdAt :: int
  tr_updatedAt :: int
  tr_evidenceAnchor :: "evidence_anchor option"

text \<open>The fields that are hashed and signed.\<close>

record canonical_record =
  cn_trustRecordId :: string
  cn_businessTransactionId :: string
  cn_transaction :: business_transaction
  cn_authorization :: "signed_authorization option"
  cn_overrides :: "override_artifact list"
  cn_executions :: "execution list"
  cn_createdAt :: int

definition canonicalExecutionTrustRecord :: "trust_record \<Rightarrow> canonical_record" where
  "canonicalExecutionTrustRecord r =
     \<lparr>cn_trustRecordId = tr_trustRecordId r, cn_businessTransactionId = tr_businessTransactionId r,
      cn_transaction = tr_transaction r, cn_authorization = tr_authorization r,
      cn_overrides = tr_overrides r, cn_executions = tr_executions r, cn_createdAt = tr_createdAt r\<rparr>"

record chain_entry =
  ce_executionId :: string
  ce_businessTransactionId :: string
  ce_decision :: decision
  ce_status :: execution_status
  ce_mode :: execution_mode
  ce_startedAt :: int
  ce_completedAt :: "int option"
  ce_evidence :: "execution_evidence option"
  ce_metadata :: "jsobject option"
  ce_previousChainHash :: "string option"

definition canonicalChainEntry :: "execution \<Rightarrow> string option \<Rightarrow> chain_entry" where
  "canonicalChainEntry x previousChainHash =
     \<lparr>ce_executionId = ex_executionId x, ce_businessTransactionId = ex_businessTransactionId x,
      ce_decision = ex_decision x, ce_status = ex_status x, ce_mode = ex_mode x,
      ce_startedAt = ex_startedAt x, ce_completedAt = ex_completedAt x, ce_evidence = ex_evidence x,
      ce_metadata = ex_metadata x, ce_previousChainHash = previousChainHash\<rparr>"

text \<open>What the canonical serializer is applied to.\<close>

datatype artifact =
    RecordArtifact canonical_record
  | HybridArtifact canonical_record nat
  | ChainArtifact chain_entry
  | AnchorArtifact "string option" "anchor_status option" "string option"
  | WholeRecordArtifact trust_record
  | ReceiptArtifact receipt

record record_crypto =
  kc_hash :: "artifact \<Rightarrow> string"
  kc_algorithm :: string
  kc_sign :: "artifact \<Rightarrow> string \<Rightarrow> (string, string) result"
  kc_check :: "artifact \<Rightarrow> string \<Rightarrow> string \<Rightarrow> (string, bool) result"
  kc_keyId :: string
  kc_hybridMode :: bool
  kc_requireHybrid :: bool
  kc_secondaryKeyId :: string
  kc_primary :: string
  kc_secondary :: string
  kc_signPrimary :: "artifact \<Rightarrow> string \<Rightarrow> (string, string) result"
  kc_signSecondary :: "artifact \<Rightarrow> string \<Rightarrow> (string, string) result"
  kc_checkPrimary :: "artifact \<Rightarrow> string \<Rightarrow> string \<Rightarrow> (string, bool) result"
  kc_checkSecondary :: "artifact \<Rightarrow> string \<Rightarrow> string \<Rightarrow> (string, bool) result"

section \<open>The execution chain\<close>

record chain_fields =
  cf_previousChainHash :: "string option"
  cf_chainHash :: string
  cf_chainSignature :: signature

definition ExecutionChainCrypto_chain ::
  "record_crypto \<Rightarrow> int \<Rightarrow> execution \<Rightarrow> string option \<Rightarrow> (string, chain_fields) result" where
  "ExecutionChainCrypto_chain k now x previousChainHash =
     (let entry = ChainArtifact (canonicalChainEntry x previousChainHash) in
      case kc_sign k entry DEFAULT_KEY_ID of
        Inl e \<Rightarrow> Inl e
      | Inr v \<Rightarrow> Inr \<lparr>cf_previousChainHash = previousChainHash, cf_chainHash = kc_hash k entry,
          cf_chainSignature = \<lparr>sg_algorithm = kc_algorithm k, sg_keyId = DEFAULT_KEY_ID,
            sg_value = v, sg_signedAt = now\<rparr>\<rparr>)"

text \<open>\<open>{ ...draft, ...chainFields }\<close>\<close>

definition with_chain :: "execution \<Rightarrow> chain_fields \<Rightarrow> execution" where
  "with_chain x f = x\<lparr>ex_previousChainHash := Some (cf_previousChainHash f),
     ex_chainHash := Some (cf_chainHash f), ex_chainSignature := Some (cf_chainSignature f)\<rparr>"

text \<open>\<open>execution.previousChainHash ?? null\<close>\<close>

definition previous_hash :: "execution \<Rightarrow> string option" where
  "previous_hash x = (case ex_previousChainHash x of None \<Rightarrow> None | Some p \<Rightarrow> p)"

definition ExecutionChainCrypto_verifyEntry :: "record_crypto \<Rightarrow> execution \<Rightarrow> (string, bool) result" where
  "ExecutionChainCrypto_verifyEntry k x =
     (case (ex_chainHash x, ex_chainSignature x) of
        (Some h, Some s) \<Rightarrow>
          let entry = ChainArtifact (canonicalChainEntry x (previous_hash x)) in
          if kc_hash k entry \<noteq> h then Inr False
          else kc_check k entry (sg_keyId s) (sg_value s)
      | _ \<Rightarrow> Inr False)"

datatype chain_result = ChainValid | ChainBroken string string

definition is_chained :: "execution \<Rightarrow> bool" where
  "is_chained x = (ex_chainHash x \<noteq> None \<and> ex_chainSignature x \<noteq> None)"

definition ENTRY_MISMATCH :: string where
  "ENTRY_MISMATCH = ''chainHash or chainSignature does not match recomputed content.''"

definition LINK_MISMATCH :: string where
  "LINK_MISMATCH = ''previousChainHash does not reference the prior execution's chainHash.''"

text \<open>The loop of \<open>verifyChain\<close>; \<open>previous\<close> is the execution before the first of the list.\<close>

fun verifyChain_loop ::
  "record_crypto \<Rightarrow> execution option \<Rightarrow> execution list \<Rightarrow> (string, chain_result) result" where
  "verifyChain_loop k previous [] = Inr ChainValid"
| "verifyChain_loop k previous (x # xs) =
     (if is_chained x then
        (case ExecutionChainCrypto_verifyEntry k x of
           Inl e \<Rightarrow> Inl e
         | Inr entryValid \<Rightarrow>
             if \<not> entryValid then Inr (ChainBroken (ex_executionId x) ENTRY_MISMATCH)
             else if previous_hash x \<noteq> Option.bind previous ex_chainHash
               then Inr (ChainBroken (ex_executionId x) LINK_MISMATCH)
             else verifyChain_loop k (Some x) xs)
      else verifyChain_loop k (Some x) xs)"

definition ExecutionChainCrypto_verifyChain ::
  "record_crypto \<Rightarrow> execution list \<Rightarrow> (string, chain_result) result" where
  "ExecutionChainCrypto_verifyChain k xs = verifyChain_loop k None xs"

section \<open>Hashing and signing a record\<close>

definition HYBRID_SCHEMA_VERSION :: nat where
  "HYBRID_SCHEMA_VERSION = 2"

definition VerificationCrypto_hash :: "record_crypto \<Rightarrow> trust_record \<Rightarrow> string" where
  "VerificationCrypto_hash k r = kc_hash k (RecordArtifact (canonicalExecutionTrustRecord r))"

definition VerificationCrypto_sign :: "record_crypto \<Rightarrow> int \<Rightarrow> trust_record \<Rightarrow> (string, signature) result" where
  "VerificationCrypto_sign k now r =
     (case kc_sign k (RecordArtifact (canonicalExecutionTrustRecord r)) (kc_keyId k) of
        Inl e \<Rightarrow> Inl e
      | Inr v \<Rightarrow> Inr \<lparr>sg_algorithm = kc_algorithm k, sg_keyId = kc_keyId k, sg_value = v, sg_signedAt = now\<rparr>)"

definition HybridSignatureProvider_sign ::
  "record_crypto \<Rightarrow> artifact \<Rightarrow> string \<Rightarrow> string \<Rightarrow> (string, signature_entry list) result" where
  "HybridSignatureProvider_sign k a primaryKeyId secondaryKeyId =
     (case kc_signPrimary k a primaryKeyId of
        Inl e \<Rightarrow> Inl e
      | Inr v \<Rightarrow>
          (case kc_signSecondary k a secondaryKeyId of
             Inl e \<Rightarrow> Inl e
           | Inr w \<Rightarrow> Inr [\<lparr>sy_algorithm = kc_primary k, sy_keyId = primaryKeyId, sy_signature = v\<rparr>,
                \<lparr>sy_algorithm = kc_secondary k, sy_keyId = secondaryKeyId, sy_signature = w\<rparr>]))"

text \<open>\<open>primaryEntry === secondaryEntry\<close> compares objects: both searches stop at the same place.\<close>

definition HybridSignatureProvider_verify ::
  "record_crypto \<Rightarrow> artifact \<Rightarrow> signature_entry list \<Rightarrow> (string, bool) result" where
  "HybridSignatureProvider_verify k a signatures =
     (if length signatures \<noteq> 2 then Inr False
      else case (find (\<lambda>i. sy_algorithm (signatures ! i) = kc_primary k) [0..<length signatures],
                 find (\<lambda>i. sy_algorithm (signatures ! i) = kc_secondary k) [0..<length signatures]) of
        (Some i, Some j) \<Rightarrow>
          if i = j then Inr False
          else (case kc_checkPrimary k a (sy_keyId (signatures ! i)) (sy_signature (signatures ! i)) of
                  Inl e \<Rightarrow> Inl e
                | Inr p \<Rightarrow>
                    (case kc_checkSecondary k a (sy_keyId (signatures ! j)) (sy_signature (signatures ! j)) of
                       Inl e \<Rightarrow> Inl e
                     | Inr s \<Rightarrow> Inr (p \<and> s)))
      | _ \<Rightarrow> Inr False)"

definition VerificationCrypto_signHybrid ::
  "record_crypto \<Rightarrow> trust_record \<Rightarrow> (string, signature_entry list) result" where
  "VerificationCrypto_signHybrid k r =
     (if \<not> kc_hybridMode k then Inl ''VerificationCrypto.signHybrid() requires CRYPTO_MODE=hybrid.''
      else HybridSignatureProvider_sign k
             (HybridArtifact (canonicalExecutionTrustRecord r) HYBRID_SCHEMA_VERSION)
             (kc_keyId k) (kc_secondaryKeyId k))"

definition VerificationCrypto_verifySignature :: "record_crypto \<Rightarrow> trust_record \<Rightarrow> (string, bool) result" where
  "VerificationCrypto_verifySignature k r =
     (case kc_check k (RecordArtifact (canonicalExecutionTrustRecord r)) (sg_keyId (tr_signature r))
             (sg_value (tr_signature r)) of
        Inl e \<Rightarrow> Inl e
      | Inr legacyVerified \<Rightarrow>
          (case tr_signatures r of
             None \<Rightarrow> Inr (if kc_requireHybrid k then False else legacyVerified)
           | Some [] \<Rightarrow> Inr (if kc_requireHybrid k then False else legacyVerified)
           | Some signatures \<Rightarrow>
               (case HybridSignatureProvider_verify k
                       (HybridArtifact (canonicalExecutionTrustRecord r)
                          (case tr_schemaVersion r of None \<Rightarrow> HYBRID_SCHEMA_VERSION | Some v \<Rightarrow> v))
                       signatures of
                  Inl e \<Rightarrow> Inl e
                | Inr hybridVerified \<Rightarrow> Inr (legacyVerified \<and> hybridVerified))))"

definition VerificationCrypto_verify :: "record_crypto \<Rightarrow> trust_record \<Rightarrow> (string, bool) result" where
  "VerificationCrypto_verify k r =
     (if VerificationCrypto_hash k r \<noteq> tr_trustRecordHash r then Inr False
      else VerificationCrypto_verifySignature k r)"

section \<open>Building a record\<close>

definition readConnectorEvidenceHash :: "runtime_context \<Rightarrow> string option" where
  "readConnectorEvidenceHash c =
     (case Option.bind (Option.bind (cx_execution c) ex_evidence) ee_attributes of
        None \<Rightarrow> None
      | Some attributes \<Rightarrow>
          (case map_of attributes ''connector'' of
             None \<Rightarrow> None
           | Some connector \<Rightarrow>
               if is_object_or_array connector then str_prop connector ''connectorEvidenceHash'' else None))"

definition BusinessTrustRecordBuilder_buildEvidenceAnchor ::
  "record_crypto \<Rightarrow> runtime_context \<Rightarrow> evidence_anchor option" where
  "BusinessTrustRecordBuilder_buildEvidenceAnchor k c =
     (let policyContentHash = pr_contentHash (bt_policy (cx_transaction c));
          governanceAnchorStatus = map_option ga_status (pr_governanceAnchor (bt_policy (cx_transaction c)));
          connectorEvidenceHash = readConnectorEvidenceHash c in
      if policyContentHash = None \<and> governanceAnchorStatus = None \<and> connectorEvidenceHash = None then None
      else Some \<lparr>ea_policyContentHash = policyContentHash, ea_governanceAnchorStatus = governanceAnchorStatus,
             ea_connectorEvidenceHash = connectorEvidenceHash,
             ea_anchorHash = kc_hash k (AnchorArtifact policyContentHash governanceAnchorStatus
               connectorEvidenceHash)\<rparr>)"

text \<open>The draft with the empty hash and signature.\<close>

definition trust_record_draft ::
  "record_crypto \<Rightarrow> string \<Rightarrow> int \<Rightarrow> runtime_context \<Rightarrow> execution \<Rightarrow> trust_record" where
  "trust_record_draft k uuid now c x =
     \<lparr>tr_trustRecordId = uuid, tr_businessTransactionId = bt_businessTransactionId (cx_transaction c),
      tr_transaction = cx_transaction c,
      tr_overrides = (case cx_override c of None \<Rightarrow> [] | Some v \<Rightarrow> [v]), tr_executions = [x],
      tr_verifications = (case cx_verification c of None \<Rightarrow> [] | Some v \<Rightarrow> [v]),
      tr_receipts = (case cx_receipt c of None \<Rightarrow> [] | Some v \<Rightarrow> [v]),
      tr_authorization = cx_authorization c, tr_trustRecordHash = [],
      tr_signature = \<lparr>sg_algorithm = kc_algorithm k, sg_keyId = DEFAULT_KEY_ID, sg_value = [], sg_signedAt = now\<rparr>,
      tr_schemaVersion = None, tr_signatures = None, tr_createdAt = now, tr_updatedAt = now,
      tr_evidenceAnchor = BusinessTrustRecordBuilder_buildEvidenceAnchor k c\<rparr>"

definition BusinessTrustRecordBuilder_build ::
  "record_crypto \<Rightarrow> string \<Rightarrow> int \<Rightarrow> int \<Rightarrow> runtime_context \<Rightarrow> (string, trust_record) result" where
  "BusinessTrustRecordBuilder_build k uuid now signedAt c =
     (case cx_execution c of
        None \<Rightarrow> Inl ''Execution artifact is required.''
      | Some x \<Rightarrow>
          let draft = trust_record_draft k uuid now c x;
              recordWithHash = draft\<lparr>tr_trustRecordHash := VerificationCrypto_hash k draft\<rparr> in
          (case VerificationCrypto_sign k signedAt recordWithHash of
             Inl e \<Rightarrow> Inl e
           | Inr signature \<Rightarrow>
               if \<not> kc_hybridMode k then Inr (recordWithHash\<lparr>tr_signature := signature\<rparr>)
               else (case VerificationCrypto_signHybrid k recordWithHash of
                       Inl e \<Rightarrow> Inl e
                     | Inr signatures \<Rightarrow>
                         Inr (recordWithHash\<lparr>tr_signature := signature,
                                tr_schemaVersion := Some 2, tr_signatures := Some signatures\<rparr>))))"

definition BusinessTrustPipeline_validate :: "runtime_context \<Rightarrow> (string, unit) result" where
  "BusinessTrustPipeline_validate c =
     (if cx_execution c = None then Inl ''Execution artifact is required.'' else Inr ())"

definition BusinessTrustPipeline_execute ::
  "record_crypto \<Rightarrow> string \<Rightarrow> int \<Rightarrow> int \<Rightarrow> runtime_context \<Rightarrow> (string, trust_record) result" where
  "BusinessTrustPipeline_execute k uuid now signedAt c =
     (case BusinessTrustPipeline_validate c of
        Inl e \<Rightarrow> Inl e
      | Inr _ \<Rightarrow> BusinessTrustRecordBuilder_build k uuid now signedAt c)"

section \<open>The in-memory repository\<close>

type_synonym record_store = "trust_record trust_store"

text \<open>Every append replaces the stored record, and does nothing when there is none.\<close>

definition update_record :: "string \<Rightarrow> (trust_record \<Rightarrow> trust_record) \<Rightarrow> record_store \<Rightarrow> record_store" where
  "update_record txId f s = (case map_of s txId of None \<Rightarrow> s | Some r \<Rightarrow> map_set txId (f r) s)"

definition MemoryTrustRecords_appendExecution :: "string \<Rightarrow> execution \<Rightarrow> record_store \<Rightarrow> record_store" where
  "MemoryTrustRecords_appendExecution txId x =
     update_record txId (\<lambda>r. r\<lparr>tr_executions := tr_executions r @ [x]\<rparr>)"

definition MemoryTrustRecords_replaceExecution :: "execution \<Rightarrow> record_store \<Rightarrow> record_store" where
  "MemoryTrustRecords_replaceExecution x =
     update_record (ex_businessTransactionId x)
       (\<lambda>r. r\<lparr>tr_executions := map (\<lambda>y. if ex_executionId y = ex_executionId x then x else y) (tr_executions r)\<rparr>)"

definition MemoryTrustRecords_appendOverride :: "string \<Rightarrow> override_artifact \<Rightarrow> record_store \<Rightarrow> record_store" where
  "MemoryTrustRecords_appendOverride txId v =
     update_record txId (\<lambda>r. r\<lparr>tr_overrides := tr_overrides r @ [v]\<rparr>)"

definition MemoryTrustRecords_appendVerification :: "string \<Rightarrow> verification \<Rightarrow> record_store \<Rightarrow> record_store" where
  "MemoryTrustRecords_appendVerification txId v =
     update_record txId (\<lambda>r. r\<lparr>tr_verifications := tr_verifications r @ [v]\<rparr>)"

definition MemoryTrustRecords_appendReceipt :: "string \<Rightarrow> receipt \<Rightarrow> record_store \<Rightarrow> record_store" where
  "MemoryTrustRecords_appendReceipt txId v =
     update_record txId (\<lambda>r. r\<lparr>tr_receipts := tr_receipts r @ [v]\<rparr>)"

text \<open>The executions that count toward a sum, and the sum; \<open>add\<close> is the addition of doubles.\<close>

definition counted_execution :: "string \<Rightarrow> int \<Rightarrow> int \<Rightarrow> execution \<Rightarrow> bool" where
  "counted_execution action since until x =
     (ex_status x = COMPLETED \<and>
      (case ex_evidence x of
         None \<Rightarrow> False
       | Some e \<Rightarrow> ee_action e = action \<and> ee_success e \<and> \<not> (ee_executedAt e < since \<or> ee_executedAt e \<ge> until)))"

definition execution_amount :: "string \<Rightarrow> execution \<Rightarrow> jsnum option" where
  "execution_amount parameterKey x =
     (case ex_evidence x of
        None \<Rightarrow> None
      | Some e \<Rightarrow> (case map_of (ee_parameters e) parameterKey of Some (JNum n) \<Rightarrow> Some n | _ \<Rightarrow> None))"

definition MemoryTrustRecords_sumSuccessfulExecutionAmounts ::
  "(jsnum \<Rightarrow> jsnum \<Rightarrow> jsnum) \<Rightarrow> string \<Rightarrow> string \<Rightarrow> int \<Rightarrow> int \<Rightarrow> record_store \<Rightarrow> jsnum" where
  "MemoryTrustRecords_sumSuccessfulExecutionAmounts add action parameterKey since until s =
     foldl (\<lambda>total x.
         if \<not> counted_execution action since until x then total
         else (case execution_amount parameterKey x of Some n \<Rightarrow> add total n | None \<Rightarrow> total))
       (Fin 0) (concat (map (\<lambda>(_, r). tr_executions r) s))"

section \<open>VerificationService\<close>

datatype check_failure =
    IntegrityFailed string string
  | SignatureFailed
  | AuthorizationBindingFailed string
  | ChainFailed string string

text \<open>\<open>execution.metadata?.authorizationId\<close> is a string that is not empty.\<close>

definition has_authorization_id :: "execution \<Rightarrow> bool" where
  "has_authorization_id x =
     (case Option.bind (ex_metadata x) (\<lambda>m. map_of m ''authorizationId'') of
        Some (JStr s) \<Rightarrow> s \<noteq> [] | _ \<Rightarrow> False)"

definition VerificationService_runChecks ::
  "record_crypto \<Rightarrow> trust_record \<Rightarrow> (string, check_failure list) result" where
  "VerificationService_runChecks k r =
     (let expectedHash = VerificationCrypto_hash k r;
          integrity = (if expectedHash \<noteq> tr_trustRecordHash r
                       then [IntegrityFailed expectedHash (tr_trustRecordHash r)] else []) in
      case VerificationCrypto_verifySignature k r of
        Inl e \<Rightarrow> Inl e
      | Inr signatureVerified \<Rightarrow>
          let signature = (if signatureVerified then [] else [SignatureFailed]);
              binding = map (\<lambda>x. AuthorizationBindingFailed (ex_executionId x))
                (filter (\<lambda>x. dn_outcome (ex_decision x) = APPROVED \<and> \<not> has_authorization_id x) (tr_executions r)) in
          (case ExecutionChainCrypto_verifyChain k (tr_executions r) of
             Inl e \<Rightarrow> Inl e
           | Inr ChainValid \<Rightarrow> Inr (integrity @ signature @ binding)
           | Inr (ChainBroken i reason) \<Rightarrow> Inr (integrity @ signature @ binding @ [ChainFailed i reason])))"

text \<open>The messages; the quotes are those of the source.\<close>

definition quoted :: "string \<Rightarrow> string" where
  "quoted s = [CHR 0x22] @ s @ [CHR 0x22]"

fun failure_message :: "check_failure \<Rightarrow> string" where
  "failure_message (IntegrityFailed e s) =
     ''Integrity check failed: recomputed trust record hash ('' @ quoted e
     @ '') does not match the stored hash ('' @ quoted s @ '').''"
| "failure_message SignatureFailed =
     ''Signature check failed: signature does not verify against the stored key.''"
| "failure_message (AuthorizationBindingFailed i) =
     ''Authorization binding check failed: execution '' @ quoted i
     @ '' is APPROVED but has no authorizationId in its metadata.''"
| "failure_message (ChainFailed i reason) =
     ''Execution chain integrity check failed'' @ (if i = [] then [] else '' at execution '' @ quoted i)
     @ '': '' @ reason @ ''.''"

definition VerificationService_verify ::
  "record_crypto \<Rightarrow> string \<Rightarrow> int \<Rightarrow> string \<Rightarrow> record_store \<Rightarrow> (string, verification) result \<times> record_store" where
  "VerificationService_verify k uuid now txId s =
     (case MemoryTrustRecords_findByTransactionId s txId of
        None \<Rightarrow> (Inl ''Execution Trust Record not found.'', s)
      | Some r \<Rightarrow>
          (case VerificationService_runChecks k r of
             Inl e \<Rightarrow> (Inl e, s)
           | Inr failures \<Rightarrow>
               let v = \<lparr>vf_verificationId = uuid, vf_businessTransactionId = txId,
                     vf_status = (if failures = [] then RECORD_VERIFIED else RECORD_FAILED),
                     vf_message = (if failures = [] then [''Execution Trust Record verified successfully.'']
                                   else map failure_message failures),
                     vf_verifiedAt = now, vf_trustRecordHash = tr_trustRecordHash r\<rparr>
               in (Inr v, MemoryTrustRecords_appendVerification txId v s)))"

section \<open>ReceiptService\<close>

definition DEFAULT_SECONDARY_KEY_ID :: string where
  "DEFAULT_SECONDARY_KEY_ID = ''default-secondary''"

text \<open>The signature of a receipt covers the receipt with the signature fields absent.\<close>

definition ReceiptCrypto_createReceipt :: "record_crypto \<Rightarrow> receipt \<Rightarrow> (string, receipt) result" where
  "ReceiptCrypto_createReceipt k payload =
     (let unsigned = payload\<lparr>rp_algorithm := kc_algorithm k, rp_signature := [], rp_schemaVersion := None,
            rp_signatures := None\<rparr> in
      case kc_sign k (ReceiptArtifact unsigned) DEFAULT_KEY_ID of
        Inl e \<Rightarrow> Inl e
      | Inr signature \<Rightarrow>
          if \<not> kc_hybridMode k then Inr (unsigned\<lparr>rp_signature := signature\<rparr>)
          else (case HybridSignatureProvider_sign k
                       (ReceiptArtifact (unsigned\<lparr>rp_schemaVersion := Some HYBRID_SCHEMA_VERSION\<rparr>))
                       DEFAULT_KEY_ID DEFAULT_SECONDARY_KEY_ID of
                  Inl e \<Rightarrow> Inl e
                | Inr signatures \<Rightarrow>
                    Inr (unsigned\<lparr>rp_signature := signature,
                           rp_schemaVersion := Some HYBRID_SCHEMA_VERSION, rp_signatures := Some signatures\<rparr>)))"

definition NOT_VERIFIED_MESSAGE :: string where
  "NOT_VERIFIED_MESSAGE =
     ''Execution Trust Record must be successfully verified before a Receipt can be generated.''"

definition ReceiptService_generate ::
  "record_crypto \<Rightarrow> string \<Rightarrow> int \<Rightarrow> string \<Rightarrow> record_store \<Rightarrow> (string, receipt) result \<times> record_store" where
  "ReceiptService_generate k uuid now txId s =
     (case MemoryTrustRecords_findByTransactionId s txId of
        None \<Rightarrow> (Inl ''Execution Trust Record not found.'', s)
      | Some r \<Rightarrow>
          if tr_verifications r = [] \<or> vf_status (last (tr_verifications r)) \<noteq> RECORD_VERIFIED
          then (Inl NOT_VERIFIED_MESSAGE, s)
          else (case ReceiptCrypto_createReceipt k
                       \<lparr>rp_receiptId = uuid, rp_businessTransactionId = txId, rp_executionId = None,
                        rp_trustRecordHash = tr_trustRecordHash r,
                        rp_receiptHash = kc_hash k (WholeRecordArtifact r), rp_signature = [],
                        rp_algorithm = [], rp_schemaVersion = None, rp_signatures = None, rp_issuedAt = now\<rparr> of
                  Inl e \<Rightarrow> (Inl e, s)
                | Inr receipt \<Rightarrow> (Inr receipt, MemoryTrustRecords_appendReceipt txId receipt s)))"

end
