(* ===== verification/Application.thy ===== *)
theory Application
  imports Trust_Record
begin

text \<open>
  The application around the runtime: \<open>packages/runtime/src/services/execution-service.ts\<close>, the
  pipeline stages of \<open>packages/runtime/src/components\<close> with the builders they use, the wiring of
  \<open>RuntimeFactory.ts\<close> and \<open>ExecutionTrustApplication.ts\<close>.

  The world of the runtime pipeline is the transactions and trust records of the in-memory
  repositories and the state \<open>'x\<close> of the execution system.
\<close>

section \<open>State and inputs\<close>

record 'x app_world =
  aw_transactions :: transaction_store
  aw_records :: record_store
  aw_system :: 'x

type_synonym 'x execution_system =
  "execution_request \<Rightarrow> 'x \<Rightarrow> (release_error, execution_result) result \<times> 'x"

text \<open>Identifiers and clock readings of one execution.\<close>

record execution_inputs =
  xi_executionId :: string
  xi_startedAt :: int
  xi_completedAt :: int
  xi_failedAt :: int
  xi_chainedAt :: "nat \<Rightarrow> int"

section \<open>ExecutionService\<close>

definition transaction_not_found :: "string \<Rightarrow> release_error" where
  "transaction_not_found txId =
     TypedError (''Business Transaction '' @ [CHR 0x27] @ txId @ [CHR 0x27] @ '' not found.'')"

definition ExecutionService_create ::
  "record_crypto \<Rightarrow> execution_inputs \<Rightarrow> string \<Rightarrow> decision \<Rightarrow> execution_mode \<Rightarrow> jsobject option
   \<Rightarrow> 'x app_world \<Rightarrow> (release_error, execution) result \<times> 'x app_world" where
  "ExecutionService_create k inputs txId d mode metadata w =
     (case MemoryTransactions_findById (aw_transactions w) txId of
        None \<Rightarrow> (Inl (transaction_not_found txId), w)
      | Some _ \<Rightarrow>
          let draft = \<lparr>ex_executionId = xi_executionId inputs, ex_businessTransactionId = txId, ex_decision = d,
                ex_status = PROCESSING, ex_mode = mode, ex_startedAt = xi_startedAt inputs,
                ex_completedAt = None, ex_evidence = None, ex_metadata = metadata,
                ex_previousChainHash = None, ex_chainHash = None, ex_chainSignature = None\<rparr> in
          (case ExecutionChainCrypto_chain k (xi_chainedAt inputs 0) draft None of
             Inl e \<Rightarrow> (Inl (OtherError e), w)
           | Inr f \<Rightarrow>
               (Inr (with_chain draft f),
                w\<lparr>aw_records := MemoryTrustRecords_appendExecution txId (with_chain draft f) (aw_records w)\<rparr>)))"

definition ExecutionService_rechain ::
  "record_crypto \<Rightarrow> int \<Rightarrow> execution \<Rightarrow> execution \<Rightarrow> (string, execution) result" where
  "ExecutionService_rechain k now original draft =
     (case ExecutionChainCrypto_chain k now draft (previous_hash original) of
        Inl e \<Rightarrow> Inl e | Inr f \<Rightarrow> Inr (with_chain draft f))"

text \<open>The common end of the transitions: chain the draft again and replace the stored execution.\<close>

definition store_transition ::
  "record_crypto \<Rightarrow> int \<Rightarrow> execution \<Rightarrow> execution \<Rightarrow> 'x app_world
   \<Rightarrow> (release_error, execution) result \<times> 'x app_world" where
  "store_transition k now original draft w =
     (case ExecutionService_rechain k now original draft of
        Inl e \<Rightarrow> (Inl (OtherError e), w)
      | Inr x \<Rightarrow> (Inr x, w\<lparr>aw_records := MemoryTrustRecords_replaceExecution x (aw_records w)\<rparr>))"

definition ExecutionService_attachEvidence ::
  "record_crypto \<Rightarrow> execution_inputs \<Rightarrow> execution \<Rightarrow> execution_evidence \<Rightarrow> 'x app_world
   \<Rightarrow> (release_error, execution) result \<times> 'x app_world" where
  "ExecutionService_attachEvidence k inputs x evidence =
     store_transition k (xi_chainedAt inputs 1) x (x\<lparr>ex_evidence := Some evidence\<rparr>)"

definition ExecutionService_complete ::
  "record_crypto \<Rightarrow> execution_inputs \<Rightarrow> execution \<Rightarrow> 'x app_world
   \<Rightarrow> (release_error, execution) result \<times> 'x app_world" where
  "ExecutionService_complete k inputs x =
     store_transition k (xi_chainedAt inputs 2) x
       (x\<lparr>ex_status := COMPLETED, ex_completedAt := Some (xi_completedAt inputs)\<rparr>)"

definition ExecutionService_fail ::
  "record_crypto \<Rightarrow> execution_inputs \<Rightarrow> execution \<Rightarrow> 'x app_world
   \<Rightarrow> (release_error, execution) result \<times> 'x app_world" where
  "ExecutionService_fail k inputs x =
     store_transition k (xi_chainedAt inputs 3) x
       (x\<lparr>ex_status := EXECUTION_FAILED, ex_completedAt := Some (xi_failedAt inputs)\<rparr>)"

section \<open>Pipeline stages\<close>

text \<open>The artifacts of a transaction are present in its type; the decision's outcome is checked.\<close>

definition TrustChainValidationComponent_execute :: "'x app_world component" where
  "TrustChainValidationComponent_execute c w =
     (if dn_outcome (cx_decision c) \<noteq> APPROVED
      then (Inl (TypedError ''Business Transaction was not approved for execution.''), w) else (Inr c, w))"

definition ExecutionRequestBuilder_build ::
  "business_transaction \<Rightarrow> signed_authorization \<Rightarrow> (content_error, execution_request) result" where
  "ExecutionRequestBuilder_build t a =
     (case toExecutableContent (bt_businessTransactionId t) (in_action (bt_intent t))
             (Some (JStr (in_target (bt_intent t)))) (in_parameters (bt_intent t)) of
        Inl e \<Rightarrow> Inl e
      | Inr content \<Rightarrow>
          Inr \<lparr>xr_businessTransactionId = ec_businessTransactionId content, xr_action = ec_action content,
               xr_target = Some (JStr (ec_target content)), xr_parameters = ec_parameters content,
               xr_authorization = a, xr_signals = bt_signals t\<rparr>)"

definition ExecutionEvidenceBuilder_build :: "execution_result \<Rightarrow> execution_evidence" where
  "ExecutionEvidenceBuilder_build r =
     \<lparr>ee_businessTransactionId = xs_businessTransactionId r, ee_action = xs_action r, ee_target = xs_target r,
      ee_parameters = xs_parameters r, ee_success = xs_success r, ee_executedAt = xs_executedAt r,
      ee_attributes = xs_metadata r\<rparr>"

text \<open>
  The \<open>try\<close> block, from the request to the completed execution, with the value the variable
  \<open>execution\<close> has at its end.
\<close>

definition run_execution ::
  "record_crypto \<Rightarrow> execution_inputs \<Rightarrow> 'x execution_system \<Rightarrow> business_transaction \<Rightarrow> signed_authorization
   \<Rightarrow> execution \<Rightarrow> 'x app_world \<Rightarrow> (release_error, unit) result \<times> execution \<times> 'x app_world" where
  "run_execution k inputs system t a x w =
     (case ExecutionRequestBuilder_build t a of
        Inl _ \<Rightarrow> (Inl (OtherError ''ExecutableContent.target must be a non-empty string.''), x, w)
      | Inr request \<Rightarrow>
          (case system request (aw_system w) of
             (Inl e, s') \<Rightarrow> (Inl e, x, w\<lparr>aw_system := s'\<rparr>)
           | (Inr response, s') \<Rightarrow>
               (case ExecutionService_attachEvidence k inputs x (ExecutionEvidenceBuilder_build response)
                       (w\<lparr>aw_system := s'\<rparr>) of
                  (Inl e, w1) \<Rightarrow> (Inl e, x, w1)
                | (Inr x1, w1) \<Rightarrow>
                    (case ExecutionService_complete k inputs x1 w1 of
                       (Inl e, w2) \<Rightarrow> (Inl e, x1, w2)
                     | (Inr x2, w2) \<Rightarrow> (Inr (), x2, w2)))))"

text \<open>The \<open>catch\<close> marks the execution failed; an error of that replaces the error of the block.\<close>

definition ExecutionComponent_execute ::
  "record_crypto \<Rightarrow> execution_inputs \<Rightarrow> 'x execution_system \<Rightarrow> 'x app_world component" where
  "ExecutionComponent_execute k inputs system c w =
     (case cx_authorization c of
        None \<Rightarrow> (Inl (OtherError ''Signed Execution Authorization must exist before Execution.''), w)
      | Some a \<Rightarrow>
          (case ExecutionService_create k inputs (bt_businessTransactionId (cx_transaction c)) (cx_decision c) SYNC
                  (Some [(''authorizationId'', JStr (ap_authorizationId (sa_payload a)))]) w of
             (Inl e, w1) \<Rightarrow> (Inl e, w1)
           | (Inr x, w1) \<Rightarrow>
               (case run_execution k inputs system (cx_transaction c) a x w1 of
                  (Inr _, x', w2) \<Rightarrow> (Inr (c\<lparr>cx_execution := Some x'\<rparr>), w2)
                | (Inl e, x', w2) \<Rightarrow>
                    (case ExecutionService_fail k inputs x' w2 of
                       (Inl e', w3) \<Rightarrow> (Inl e', w3) | (Inr _, w3) \<Rightarrow> (Inl e, w3)))))"

section \<open>The application\<close>

record app_inputs =
  ai_call :: call_inputs
  ai_execution :: execution_inputs
  ai_otherTransactions :: "transaction_store \<Rightarrow> transaction_store"
  ai_trustRecordId :: string
  ai_recordedAt :: int
  ai_recordSignedAt :: int
  ai_finalizedAt :: int
  ai_verificationId :: string
  ai_verifiedAt :: int
  ai_receiptId :: string
  ai_receiptAt :: int

datatype app_error =
    TransactionRejected transaction_error
  | RuntimeFailed runtime_error
  | VerificationThrew string
  | ReceiptThrew string
  | RecordNotFound
  | IntentsNotEnabled
  | IntentFailed intent_error

text \<open>The engine as \<open>RuntimeFactory.create\<close> builds it: two stages and the trust pipeline.\<close>

definition RuntimeFactory_create ::
  "record_crypto \<Rightarrow> app_inputs \<Rightarrow> 'x execution_system \<Rightarrow> ('v, 'x app_world, trust_record) runtime_engine
   \<Rightarrow> ('v, 'x app_world, trust_record) runtime_engine" where
  "RuntimeFactory_create k inputs system e =
     e\<lparr>rt_pipeline := [TrustChainValidationComponent_execute,
          ExecutionComponent_execute k (ai_execution inputs) system],
       rt_trustPipeline := BusinessTrustPipeline_execute k (ai_trustRecordId inputs) (ai_recordedAt inputs)
          (ai_recordSignedAt inputs)\<rparr>"

definition store_record :: "trust_record \<Rightarrow> 'x app_world \<Rightarrow> (string, unit) result \<times> 'x app_world" where
  "store_record r w =
     (case MemoryTrustRecords_create tr_businessTransactionId r (aw_records w) of
        (q, s') \<Rightarrow> (q, w\<lparr>aw_records := s'\<rparr>))"

definition record_authorizationId :: "trust_record \<Rightarrow> string option" where
  "record_authorizationId r = map_option (\<lambda>a. ap_authorizationId (sa_payload a)) (tr_authorization r)"

text \<open>Verification, receipt and the final read, the steps after the runtime.\<close>

definition settle_record ::
  "record_crypto \<Rightarrow> app_inputs \<Rightarrow> string \<Rightarrow> record_store \<Rightarrow> (app_error, trust_record) result \<times> record_store" where
  "settle_record k inputs txId s =
     (case VerificationService_verify k (ai_verificationId inputs) (ai_verifiedAt inputs) txId s of
        (Inl e, s1) \<Rightarrow> (Inl (VerificationThrew e), s1)
      | (Inr _, s1) \<Rightarrow>
          (case ReceiptService_generate k (ai_receiptId inputs) (ai_receiptAt inputs) txId s1 of
             (Inl e, s2) \<Rightarrow> (Inl (ReceiptThrew e), s2)
           | (Inr _, s2) \<Rightarrow>
               (case MemoryTrustRecords_findByTransactionId s2 txId of
                  None \<Rightarrow> (Inl RecordNotFound, s2) | Some r \<Rightarrow> (Inr r, s2))))"

definition ExecutionTrustApplication_execute ::
  "record_crypto \<Rightarrow> 'x execution_system \<Rightarrow> ('v, 'x app_world, trust_record) runtime_engine \<Rightarrow> app_inputs
   \<Rightarrow> business_transaction \<Rightarrow> ('v, 'x app_world) runtime_state
   \<Rightarrow> (app_error, trust_record) result \<times> ('v, 'x app_world) runtime_state" where
  "ExecutionTrustApplication_execute k system e inputs t st =
     (case BusinessTransactionService_accept (ai_otherTransactions inputs) t (aw_transactions (rs_world st)) of
        (Inl x, ts) \<Rightarrow> (Inl (TransactionRejected x), st\<lparr>rs_world := (rs_world st)\<lparr>aw_transactions := ts\<rparr>\<rparr>)
      | (Inr _, ts) \<Rightarrow>
          (case Runtime_execute tr_businessTransactionId tr_trustRecordId record_authorizationId store_record
                  (RuntimeFactory_create k inputs system e) (ai_call inputs) (ai_finalizedAt inputs) t
                  (st\<lparr>rs_world := (rs_world st)\<lparr>aw_transactions := ts\<rparr>\<rparr>) of
             (Inl x, st') \<Rightarrow> (Inl (RuntimeFailed x), st')
           | (Inr _, st') \<Rightarrow>
               (case settle_record k inputs (bt_businessTransactionId t) (aw_records (rs_world st')) of
                  (q, s') \<Rightarrow> (q, st'\<lparr>rs_world := (rs_world st')\<lparr>aw_records := s'\<rparr>\<rparr>))))"

definition ExecutionTrustApplication_replay ::
  "record_crypto \<Rightarrow> string \<Rightarrow> record_store \<Rightarrow> (string, string \<times> string \<times> bool) result" where
  "ExecutionTrustApplication_replay k txId s =
     (case MemoryTrustRecords_findByTransactionId s txId of
        None \<Rightarrow> Inl ''Execution Trust Record not found.''
      | Some r \<Rightarrow>
          (case VerificationCrypto_verify k r of
             Inl e \<Rightarrow> Inl e | Inr verified \<Rightarrow> Inr (txId, tr_trustRecordHash r, verified)))"

definition ExecutionTrustApplication_listTrustRecords :: "int \<Rightarrow> int \<Rightarrow> 'x app_world \<Rightarrow> trust_record list" where
  "ExecutionTrustApplication_listTrustRecords page pageSize w =
     List.map_filter (\<lambda>t. MemoryTrustRecords_findByTransactionId (aw_records w) (bt_businessTransactionId t))
       (MemoryTransactions_list (aw_transactions w) page pageSize)"

text \<open>\<open>finalizeExecutionIntent\<close>: the record is rebuilt, then verified and receipted if needed.\<close>

definition ExecutionTrustApplication_finalizeExecutionIntent ::
  "record_crypto \<Rightarrow> bool \<Rightarrow> app_inputs \<Rightarrow> string \<Rightarrow> runtime_context intent_store \<times> record_store
   \<Rightarrow> (app_error, finalize_outcome \<times> trust_record) result \<times> runtime_context intent_store \<times> record_store" where
  "ExecutionTrustApplication_finalizeExecutionIntent k enabled inputs txId st =
     (if \<not> enabled then (Inl IntentsNotEnabled, st)
      else case ExecutionIntentFinalizer_finalize MemoryIntents_findByTransactionId MemoryIntents_markFinalized
                  tr_trustRecordId (MemoryTrustRecords_create tr_businessTransactionId)
                  (BusinessTrustPipeline_execute k (ai_trustRecordId inputs) (ai_recordedAt inputs)
                     (ai_recordSignedAt inputs)) (ai_finalizedAt inputs) txId st of
        (Inl e, st') \<Rightarrow> (Inl (IntentFailed e), st')
      | (Inr (outcome, r), (is', s)) \<Rightarrow>
          (case (if tr_verifications r \<noteq> [] then (Inr r, s)
                 else case VerificationService_verify k (ai_verificationId inputs) (ai_verifiedAt inputs) txId s of
                        (Inl e, s1) \<Rightarrow> (Inl (VerificationThrew e), s1)
                      | (Inr _, s1) \<Rightarrow>
                          (case MemoryTrustRecords_findByTransactionId s1 txId of
                             None \<Rightarrow> (Inl RecordNotFound, s1) | Some r1 \<Rightarrow> (Inr r1, s1))) of
             (Inl e, s1) \<Rightarrow> (Inl e, is', s1)
           | (Inr r1, s1) \<Rightarrow>
               if tr_receipts r1 = [] \<and> tr_verifications r1 \<noteq> []
                  \<and> vf_status (last (tr_verifications r1)) = RECORD_VERIFIED
               then (case ReceiptService_generate k (ai_receiptId inputs) (ai_receiptAt inputs) txId s1 of
                       (Inl e, s2) \<Rightarrow> (Inl (ReceiptThrew e), is', s2)
                     | (Inr _, s2) \<Rightarrow>
                         (case MemoryTrustRecords_findByTransactionId s2 txId of
                            None \<Rightarrow> (Inl RecordNotFound, is', s2) | Some r2 \<Rightarrow> (Inr (outcome, r2), is', s2)))
               else (Inr (outcome, r1), is', s1)))"

text \<open>\<open>resolveExecutionIntent\<close>: refused while a signed record exists.\<close>

definition ExecutionTrustApplication_resolveExecutionIntent ::
  "bool \<Rightarrow> (runtime_context intent_store \<Rightarrow> (intent_error, 'z) result \<times> runtime_context intent_store)
   \<Rightarrow> string \<Rightarrow> record_store \<Rightarrow> runtime_context intent_store
   \<Rightarrow> (app_error, 'z) result \<times> runtime_context intent_store" where
  "ExecutionTrustApplication_resolveExecutionIntent enabled resolve txId records s =
     (if \<not> enabled then (Inl IntentsNotEnabled, s)
      else case MemoryIntents_findByTransactionId s txId of
        Some existing \<Rightarrow>
          if si_state existing \<noteq> RESOLVED \<and> si_state existing \<noteq> FINALIZED
             \<and> MemoryTrustRecords_findByTransactionId records txId \<noteq> None
          then (Inl (IntentFailed (ExecutionIntentNotResolvableError txId (si_state existing))), s)
          else (case resolve s of (Inl e, s') \<Rightarrow> (Inl (IntentFailed e), s') | (Inr z, s') \<Rightarrow> (Inr z, s'))
      | None \<Rightarrow> (case resolve s of (Inl e, s') \<Rightarrow> (Inl (IntentFailed e), s') | (Inr z, s') \<Rightarrow> (Inr z, s')))"

end
