(* ===== verification/Trust_Properties.thy ===== *)
theory Trust_Properties
  imports Application
begin

text \<open>
  Properties of trust records, their chain, verification and receipts.
\<close>

section \<open>The chain\<close>

abbreviation chain_content :: "execution \<Rightarrow> chain_entry" where
  "chain_content x \<equiv> canonicalChainEntry x (previous_hash x)"

lemma verifyChain_snoc:
  "verifyChain_loop k p (xs @ [x]) = Inr ChainValid \<Longrightarrow>
     verifyChain_loop k p xs = Inr ChainValid
     \<and> (is_chained x \<longrightarrow> ExecutionChainCrypto_verifyEntry k x = Inr True
          \<and> previous_hash x = Option.bind (if xs = [] then p else Some (last xs)) ex_chainHash)"
proof (induction xs arbitrary: p)
  case Nil
  then show ?case by (simp split: if_splits sum.splits)
next
  case (Cons y ys)
  then have "verifyChain_loop k (Some y) (ys @ [x]) = Inr ChainValid" by (simp split: if_splits sum.splits)
  from Cons.IH[OF this] Cons.prems show ?case by (simp split: if_splits sum.splits)
qed

lemma verifyEntry_True:
  "ExecutionChainCrypto_verifyEntry k x = Inr True \<Longrightarrow>
     ex_chainHash x = Some (kc_hash k (ChainArtifact (chain_content x)))"
  by (auto simp: ExecutionChainCrypto_verifyEntry_def Let_def split: option.splits if_splits)

lemma chained_last:
  assumes "verifyChain_loop k None (xs @ [x]) = Inr ChainValid" "is_chained x"
  shows "verifyChain_loop k None xs = Inr ChainValid"
    and "ex_chainHash x = Some (kc_hash k (ChainArtifact (chain_content x)))"
    and "ce_previousChainHash (chain_content x) = (if xs = [] then None else ex_chainHash (last xs))"
  using verifyChain_snoc[OF assms(1)] assms(2) verifyEntry_True
  by (auto simp: canonicalChainEntry_def)

lemma chain_unique:
  assumes inj: "\<forall>x \<in> set xs. \<forall>y \<in> set ys. kc_hash k (ChainArtifact (chain_content x))
      = kc_hash k (ChainArtifact (chain_content y)) \<longrightarrow> chain_content x = chain_content y"
    and "verifyChain_loop k None xs = Inr ChainValid" "verifyChain_loop k None ys = Inr ChainValid"
    and "list_all is_chained xs" "list_all is_chained ys" "xs \<noteq> []" "ys \<noteq> []"
    and "ex_chainHash (last xs) = ex_chainHash (last ys)"
  shows "map chain_content xs = map chain_content ys"
  using assms
proof (induction xs arbitrary: ys rule: rev_induct)
  case (snoc x xs)
  from snoc.prems(7) obtain zs y where ys: "ys = zs @ [y]" by (cases ys rule: rev_cases) auto
  have c: "is_chained x" "is_chained y" "list_all is_chained xs" "list_all is_chained zs"
    using snoc.prems(4,5) ys by auto
  note X = chained_last[OF snoc.prems(2) c(1)] and Y = chained_last[OF snoc.prems(3)[unfolded ys] c(2)]
  have inj: "\<forall>x \<in> set xs. \<forall>y \<in> set zs. kc_hash k (ChainArtifact (chain_content x))
      = kc_hash k (ChainArtifact (chain_content y)) \<longrightarrow> chain_content x = chain_content y"
    using snoc.prems(1) ys by simp
  from snoc.prems(8) ys X(2) Y(2) snoc.prems(1) have e: "chain_content x = chain_content y" by auto
  with X(3) Y(3) have l: "(if xs = [] then None else ex_chainHash (last xs))
      = (if zs = [] then None else ex_chainHash (last zs))" by metis
  have some: "zs \<noteq> [] \<Longrightarrow> ex_chainHash (last zs) \<noteq> None" "xs \<noteq> [] \<Longrightarrow> ex_chainHash (last xs) \<noteq> None"
    using c by (auto simp: list_all_iff is_chained_def)
  show ?case
  proof (cases "xs = []")
    case True
    with l some(1) have "zs = []" by (auto split: if_splits)
    with True e ys show ?thesis by simp
  next
    case False
    with l some(2) have "zs \<noteq> []" "ex_chainHash (last xs) = ex_chainHash (last zs)" by (auto split: if_splits)
    from snoc.IH[OF inj X(1) Y(1) c(3,4) False this] e ys show ?thesis by simp
  qed
qed simp

section \<open>Verification\<close>

text \<open>The crypto provider: what it signs, it accepts, and the two hybrid algorithms differ.\<close>

definition accepts_own_signatures :: "record_crypto \<Rightarrow> bool" where
  "accepts_own_signatures k \<longleftrightarrow>
     (\<forall>a i v. kc_sign k a i = Inr v \<longrightarrow> kc_check k a i v = Inr True)
     \<and> (\<forall>a i v. kc_signPrimary k a i = Inr v \<longrightarrow> kc_checkPrimary k a i v = Inr True)
     \<and> (\<forall>a i v. kc_signSecondary k a i = Inr v \<longrightarrow> kc_checkSecondary k a i v = Inr True)
     \<and> kc_primary k \<noteq> kc_secondary k"

lemma chain_verifies:
  assumes "accepts_own_signatures k" "ExecutionChainCrypto_chain k now x p = Inr f"
  shows "ExecutionChainCrypto_verifyEntry k (with_chain x f) = Inr True"
    and "previous_hash (with_chain x f) = p" "is_chained (with_chain x f)"
  using assms
  by (auto simp: ExecutionChainCrypto_chain_def ExecutionChainCrypto_verifyEntry_def with_chain_def
      previous_hash_def canonicalChainEntry_def accepts_own_signatures_def is_chained_def Let_def split: sum.splits)

lemma hybrid_verifies:
  assumes "accepts_own_signatures k" "HybridSignatureProvider_sign k a i j = Inr es"
  shows "HybridSignatureProvider_verify k a es = Inr True" "es \<noteq> []"
  using assms
  by (auto simp: HybridSignatureProvider_sign_def HybridSignatureProvider_verify_def
      accepts_own_signatures_def upt_rec split: sum.splits)

text \<open>Verification depends on the signed fields, the hash and the signatures only.\<close>

lemma verify_view:
  assumes "canonicalExecutionTrustRecord r' = canonicalExecutionTrustRecord r"
    "tr_trustRecordHash r' = tr_trustRecordHash r" "tr_signature r' = tr_signature r"
    "tr_signatures r' = tr_signatures r" "tr_schemaVersion r' = tr_schemaVersion r"
  shows "VerificationService_runChecks k r' = VerificationService_runChecks k r"
    and "VerificationCrypto_verify k r' = VerificationCrypto_verify k r"
proof -
  from assms(1) have x: "tr_executions r' = tr_executions r"
    by (simp add: canonicalExecutionTrustRecord_def)
  have h: "VerificationCrypto_hash k r' = VerificationCrypto_hash k r"
    using assms(1) by (simp add: VerificationCrypto_hash_def)
  have s: "VerificationCrypto_verifySignature k r' = VerificationCrypto_verifySignature k r"
    unfolding VerificationCrypto_verifySignature_def assms ..
  show "VerificationService_runChecks k r' = VerificationService_runChecks k r"
    unfolding VerificationService_runChecks_def h s x assms(2) ..
  show "VerificationCrypto_verify k r' = VerificationCrypto_verify k r"
    unfolding VerificationCrypto_verify_def h s assms(2) ..
qed

lemma build_shape:
  assumes "BusinessTrustRecordBuilder_build k uuid now signedAt c = Inr r" "cx_execution c = Some x"
  shows "canonicalExecutionTrustRecord r = canonicalExecutionTrustRecord (trust_record_draft k uuid now c x)"
    and "tr_trustRecordHash r = VerificationCrypto_hash k r" "tr_executions r = [x]"
  using assms
  by (auto simp: BusinessTrustRecordBuilder_build_def canonicalExecutionTrustRecord_def Let_def
      VerificationCrypto_hash_def trust_record_draft_def split: sum.splits if_splits)

lemma sign_checks:
  "accepts_own_signatures k \<Longrightarrow> VerificationCrypto_sign k now r = Inr s \<Longrightarrow>
     kc_check k (RecordArtifact (canonicalExecutionTrustRecord r)) (sg_keyId s) (sg_value s) = Inr True"
  by (auto simp: VerificationCrypto_sign_def accepts_own_signatures_def split: sum.splits)

lemma build_signature:
  assumes "BusinessTrustRecordBuilder_build k uuid now signedAt c = Inr r"
    and "accepts_own_signatures k" and "kc_requireHybrid k \<longrightarrow> kc_hybridMode k"
  shows "VerificationCrypto_verifySignature k r = Inr True"
proof -
  from assms(1) obtain x where x: "cx_execution c = Some x"
    by (auto simp: BusinessTrustRecordBuilder_build_def split: option.splits)
  let ?d = "trust_record_draft k uuid now c x"
  let ?h = "?d\<lparr>tr_trustRecordHash := VerificationCrypto_hash k ?d\<rparr>"
  from assms(1) x obtain s where s: "VerificationCrypto_sign k signedAt ?h = Inr s" "tr_signature r = s"
    by (auto simp: BusinessTrustRecordBuilder_build_def Let_def split: sum.splits if_splits)
  have "canonicalExecutionTrustRecord ?h = canonicalExecutionTrustRecord r"
    using build_shape(1)[OF assms(1) x] by (simp add: canonicalExecutionTrustRecord_def)
  with sign_checks[OF assms(2) s(1)] s(2) have l: "kc_check k (RecordArtifact (canonicalExecutionTrustRecord r))
      (sg_keyId (tr_signature r)) (sg_value (tr_signature r)) = Inr True" by simp
  show ?thesis
  proof (cases "kc_hybridMode k")
    case False
    with assms(1,3) x l show ?thesis
      by (auto simp: BusinessTrustRecordBuilder_build_def VerificationCrypto_verifySignature_def Let_def
          trust_record_draft_def split: sum.splits)
  next
    case True
    with assms(1) x s(1) obtain es where es: "VerificationCrypto_signHybrid k ?h = Inr es" "tr_signatures r = Some es"
      "tr_schemaVersion r = Some 2"
      by (auto simp: BusinessTrustRecordBuilder_build_def Let_def split: sum.splits)
    with True \<open>canonicalExecutionTrustRecord ?h = _\<close>
    have "HybridSignatureProvider_sign k (HybridArtifact (canonicalExecutionTrustRecord r) 2)
        (kc_keyId k) (kc_secondaryKeyId k) = Inr es"
      by (simp add: VerificationCrypto_signHybrid_def HYBRID_SCHEMA_VERSION_def)
    from hybrid_verifies[OF assms(2) this] l es show ?thesis
      by (cases es) (auto simp: VerificationCrypto_verifySignature_def)
  qed
qed

lemma built_record_checks:
  assumes "BusinessTrustRecordBuilder_build k uuid now signedAt c = Inr r" "cx_execution c = Some x"
    and "accepts_own_signatures k" and "kc_requireHybrid k \<longrightarrow> kc_hybridMode k"
    and "ExecutionChainCrypto_verifyEntry k x = Inr True" "previous_hash x = None"
    and "dn_outcome (ex_decision x) = APPROVED \<longrightarrow> has_authorization_id x"
  shows "VerificationService_runChecks k r = Inr []"
proof -
  have "ExecutionChainCrypto_verifyChain k [x] = Inr ChainValid"
    using assms(5,6) by (simp add: ExecutionChainCrypto_verifyChain_def)
  with build_signature[OF assms(1,3,4)] build_shape(2,3)[OF assms(1,2)] assms(7) show ?thesis
    by (simp add: VerificationService_runChecks_def Let_def)
qed


section \<open>Verification and receipts\<close>

lemma map_of_update: "map_of (update_record i f s) j =
    (if j = i then map_option f (map_of s i) else map_of s j)"
  by (auto simp: update_record_def split: option.splits)

lemma verify_stores:
  assumes "VerificationService_verify k uuid now i s = (Inr v, s')"
  shows "\<exists>r fs. map_of s i = Some r \<and> VerificationService_runChecks k r = Inr fs
     \<and> (vf_status v = RECORD_VERIFIED \<longleftrightarrow> fs = []) \<and> vf_trustRecordHash v = tr_trustRecordHash r
     \<and> s' = MemoryTrustRecords_appendVerification i v s"
  using assms
  by (auto simp: VerificationService_verify_def MemoryTrustRecords_findByTransactionId_def Let_def
      split: option.splits sum.splits if_splits)

lemma receipt_stores:
  assumes "ReceiptService_generate k uuid now i s = (Inr x, s')"
  shows "\<exists>r. map_of s i = Some r \<and> tr_verifications r \<noteq> []
     \<and> vf_status (last (tr_verifications r)) = RECORD_VERIFIED
     \<and> rp_trustRecordHash x = tr_trustRecordHash r \<and> rp_businessTransactionId x = i
     \<and> kc_sign k (ReceiptArtifact (x\<lparr>rp_signature := [], rp_schemaVersion := None, rp_signatures := None\<rparr>))
         DEFAULT_KEY_ID = Inr (rp_signature x)
     \<and> s' = MemoryTrustRecords_appendReceipt i x s"
  using assms
  by (auto simp: ReceiptService_generate_def MemoryTrustRecords_findByTransactionId_def Let_def
      ReceiptCrypto_createReceipt_def split: option.splits sum.splits if_splits)

lemma runChecks_appends:
  "VerificationService_runChecks k (r\<lparr>tr_verifications := vs\<rparr>) = VerificationService_runChecks k r"
  "VerificationService_runChecks k (r\<lparr>tr_receipts := xs\<rparr>) = VerificationService_runChecks k r"
  by (rule verify_view(1); simp add: canonicalExecutionTrustRecord_def)+

lemma settle_Inr:
  assumes "settle_record k inputs i s = (Inr r, s')"
  shows "\<exists>r0 v x. map_of s i = Some r0 \<and> vf_status v = RECORD_VERIFIED
     \<and> r = r0\<lparr>tr_verifications := tr_verifications r0 @ [v], tr_receipts := tr_receipts r0 @ [x]\<rparr>
     \<and> map_of s' i = Some r \<and> VerificationService_runChecks k r = Inr []
     \<and> rp_trustRecordHash x = tr_trustRecordHash r \<and> rp_businessTransactionId x = i
     \<and> kc_sign k (ReceiptArtifact (x\<lparr>rp_signature := [], rp_schemaVersion := None, rp_signatures := None\<rparr>))
         DEFAULT_KEY_ID = Inr (rp_signature x)"
proof -
  from assms obtain v s1 where v: "VerificationService_verify k (ai_verificationId inputs) (ai_verifiedAt inputs) i s
      = (Inr v, s1)" by (auto simp: settle_record_def split: prod.splits sum.splits)
  with assms obtain x s2 where x: "ReceiptService_generate k (ai_receiptId inputs) (ai_receiptAt inputs) i s1
      = (Inr x, s2)" by (auto simp: settle_record_def split: prod.splits sum.splits)
  from verify_stores[OF v] obtain r0 fs where r0: "map_of s i = Some r0" "VerificationService_runChecks k r0 = Inr fs"
    "vf_status v = RECORD_VERIFIED \<longleftrightarrow> fs = []" "s1 = MemoryTrustRecords_appendVerification i v s" by blast
  then have s1: "map_of s1 i = Some (r0\<lparr>tr_verifications := tr_verifications r0 @ [v]\<rparr>)"
    by (simp add: MemoryTrustRecords_appendVerification_def map_of_update)
  from receipt_stores[OF x] s1 have rx: "vf_status v = RECORD_VERIFIED"
    "rp_trustRecordHash x = tr_trustRecordHash r0" "rp_businessTransactionId x = i"
    "kc_sign k (ReceiptArtifact (x\<lparr>rp_signature := [], rp_schemaVersion := None, rp_signatures := None\<rparr>))
         DEFAULT_KEY_ID = Inr (rp_signature x)" "s2 = MemoryTrustRecords_appendReceipt i x s1" by auto
  then have s2: "map_of s2 i = Some (r0\<lparr>tr_verifications := tr_verifications r0 @ [v],
      tr_receipts := tr_receipts r0 @ [x]\<rparr>)" using s1
    by (simp add: MemoryTrustRecords_appendReceipt_def map_of_update)
  with assms v x have "r = r0\<lparr>tr_verifications := tr_verifications r0 @ [v], tr_receipts := tr_receipts r0 @ [x]\<rparr>"
    "s' = s2" by (auto simp: settle_record_def MemoryTrustRecords_findByTransactionId_def)
  moreover have "VerificationService_runChecks k r0 = Inr []" using r0 rx by simp
  ultimately show ?thesis using r0 rx s2 by (auto simp: runChecks_appends)
qed


section \<open>The pipeline\<close>

lemma transition_Inr:
  assumes "store_transition k now x draft w = (Inr y, w')"
  obtains f where "ExecutionChainCrypto_chain k now draft (previous_hash x) = Inr f" "y = with_chain draft f"
    "aw_system w' = aw_system w" "aw_transactions w' = aw_transactions w"
  using assms by (auto simp: store_transition_def ExecutionService_rechain_def split: sum.splits)

lemma with_chain_simps [simp]:
  "ex_decision (with_chain x f) = ex_decision x" "ex_status (with_chain x f) = ex_status x"
  "ex_metadata (with_chain x f) = ex_metadata x" "ex_evidence (with_chain x f) = ex_evidence x"
  "ex_businessTransactionId (with_chain x f) = ex_businessTransactionId x"
  by (simp_all add: with_chain_def)

lemma chain_previous:
  "ExecutionChainCrypto_chain k now x p = Inr f \<Longrightarrow> previous_hash (with_chain y f) = p"
  by (auto simp: ExecutionChainCrypto_chain_def with_chain_def previous_hash_def Let_def split: sum.splits)

lemma create_Inr_execution:
  assumes "ExecutionService_create k inputs txId d mode metadata w = (Inr x, w')"
  shows "previous_hash x = None \<and> ex_decision x = d \<and> ex_metadata x = metadata
     \<and> ex_businessTransactionId x = txId \<and> aw_system w' = aw_system w"
  using assms chain_previous
  by (auto simp: ExecutionService_create_def Let_def split: option.splits sum.splits)

text \<open>What a completed execution stage has done.\<close>

definition executed ::
  "record_crypto \<Rightarrow> 'x execution_system \<Rightarrow> runtime_context \<Rightarrow> 'x \<Rightarrow> 'x \<Rightarrow> signed_authorization \<Rightarrow> execution \<Rightarrow> bool" where
  "executed k system c s s' a x \<longleftrightarrow>
     (\<exists>request response now f draft. ExecutionRequestBuilder_build (cx_transaction c) a = Inr request
        \<and> system request s = (Inr response, s')
        \<and> ExecutionChainCrypto_chain k now draft None = Inr f \<and> x = with_chain draft f
        \<and> ex_status x = COMPLETED \<and> ex_decision x = cx_decision c
        \<and> ex_businessTransactionId x = bt_businessTransactionId (cx_transaction c)
        \<and> ex_evidence x = Some (ExecutionEvidenceBuilder_build response)
        \<and> ex_metadata x = Some [(''authorizationId'', JStr (ap_authorizationId (sa_payload a)))])"

lemma run_execution_Inr:
  assumes "run_execution k inputs system t a x w = (Inr u, y, w')" and "previous_hash x = None"
  shows "\<exists>request response now f draft. ExecutionRequestBuilder_build t a = Inr request
     \<and> system request (aw_system w) = (Inr response, aw_system w')
     \<and> ExecutionChainCrypto_chain k now draft None = Inr f \<and> y = with_chain draft f
     \<and> ex_status y = COMPLETED \<and> ex_decision y = ex_decision x \<and> ex_metadata y = ex_metadata x
     \<and> ex_businessTransactionId y = ex_businessTransactionId x
     \<and> ex_evidence y = Some (ExecutionEvidenceBuilder_build response)"
proof -
  from assms(1) obtain request where q: "ExecutionRequestBuilder_build t a = Inr request"
    by (auto simp: run_execution_def split: sum.splits)
  with assms(1) obtain response s' where r: "system request (aw_system w) = (Inr response, s')"
    by (auto simp: run_execution_def split: sum.splits prod.splits)
  with assms(1) q obtain x1 w1 where x1: "ExecutionService_attachEvidence k inputs x
      (ExecutionEvidenceBuilder_build response) (w\<lparr>aw_system := s'\<rparr>) = (Inr x1, w1)"
    by (auto simp: run_execution_def split: sum.splits prod.splits)
  with assms(1) q r have y: "ExecutionService_complete k inputs x1 w1 = (Inr y, w')"
    by (auto simp: run_execution_def split: sum.splits prod.splits)
  from x1[unfolded ExecutionService_attachEvidence_def] obtain f where f:
    "ExecutionChainCrypto_chain k (xi_chainedAt inputs 1) (x\<lparr>ex_evidence := Some (ExecutionEvidenceBuilder_build response)\<rparr>)
       (previous_hash x) = Inr f"
    "x1 = with_chain (x\<lparr>ex_evidence := Some (ExecutionEvidenceBuilder_build response)\<rparr>) f"
    "aw_system w1 = aw_system (w\<lparr>aw_system := s'\<rparr>)" by (rule transition_Inr)
  from chain_previous[OF f(1)] f(2) assms(2) have p: "previous_hash x1 = None" by simp
  from y[unfolded ExecutionService_complete_def] obtain g where g:
    "ExecutionChainCrypto_chain k (xi_chainedAt inputs 2)
       (x1\<lparr>ex_status := COMPLETED, ex_completedAt := Some (xi_completedAt inputs)\<rparr>) (previous_hash x1) = Inr g"
    "y = with_chain (x1\<lparr>ex_status := COMPLETED, ex_completedAt := Some (xi_completedAt inputs)\<rparr>) g"
    "aw_system w' = aw_system w1" by (rule transition_Inr)
  from g(1) p have "ExecutionChainCrypto_chain k (xi_chainedAt inputs 2)
       (x1\<lparr>ex_status := COMPLETED, ex_completedAt := Some (xi_completedAt inputs)\<rparr>) None = Inr g" by simp
  with q r f g show ?thesis by auto
qed

lemma component_Inr:
  assumes "ExecutionComponent_execute k inputs system c w = (Inr c', w')"
  shows "\<exists>a x. cx_authorization c = Some a \<and> c' = c\<lparr>cx_execution := Some x\<rparr>
     \<and> executed k system c (aw_system w) (aw_system w') a x"
proof -
  from assms obtain a where a: "cx_authorization c = Some a"
    by (auto simp: ExecutionComponent_execute_def split: option.splits)
  with assms obtain x w1 where x: "ExecutionService_create k inputs (bt_businessTransactionId (cx_transaction c))
      (cx_decision c) SYNC (Some [(''authorizationId'', JStr (ap_authorizationId (sa_payload a)))]) w = (Inr x, w1)"
    by (auto simp: ExecutionComponent_execute_def split: sum.splits prod.splits)
  obtain q y w2 where y: "run_execution k inputs system (cx_transaction c) a x w1 = (q, y, w2)"
    by (metis prod.exhaust)
  from assms a x y have "q = Inr ()" and c': "c' = c\<lparr>cx_execution := Some y\<rparr>" "w' = w2"
    by (auto simp: ExecutionComponent_execute_def split: sum.splits prod.splits)
  note cr = create_Inr_execution[OF x]
  from run_execution_Inr[OF y[unfolded \<open>q = Inr ()\<close>]] cr a c' show ?thesis
    unfolding executed_def by (intro exI[of _ a] exI[of _ y]) (simp, blast)
qed

lemma release_Inr:
  assumes "RuntimeEngine_release e inputs c st = (Inr (c', tr), st')"
  shows "RuntimePipeline_execute (rt_pipeline e) c (rs_world st) = (Inr c', rs_world st')"
    and "rt_trustPipeline e c' = Inr tr"
  using assms by (auto simp: RuntimeEngine_release_def Let_def split: sum.splits prod.splits)

lemma factory_pipeline:
  assumes "RuntimePipeline_execute (rt_pipeline (RuntimeFactory_create k inputs system e)) c w = (Inr c', w')"
  shows "dn_outcome (cx_decision c) = APPROVED \<and> (\<exists>a x. cx_authorization c = Some a
     \<and> c' = c\<lparr>cx_execution := Some x\<rparr> \<and> executed k system c (aw_system w) (aw_system w') a x)"
  using assms component_Inr[of k "ai_execution inputs" system c w c' w']
  by (auto simp: RuntimeFactory_create_def TrustChainValidationComponent_execute_def
      split: sum.splits prod.splits if_splits)

lemma executed_chain:
  assumes "executed k system c s s' a x" "accepts_own_signatures k"
  shows "ExecutionChainCrypto_verifyEntry k x = Inr True" "previous_hash x = None"
    "has_authorization_id x \<longleftrightarrow> ap_authorizationId (sa_payload a) \<noteq> []"
  using assms chain_verifies[OF assms(2)] chain_previous
  by (auto simp: executed_def has_authorization_id_def)


text \<open>No check reads the evidence anchor: a record passes or fails the same with any other anchor.\<close>

theorem evidence_anchor_unchecked:
  "VerificationService_runChecks k (r\<lparr>tr_evidenceAnchor := anchor\<rparr>) = VerificationService_runChecks k r
   \<and> VerificationCrypto_verify k (r\<lparr>tr_evidenceAnchor := anchor\<rparr>) = VerificationCrypto_verify k r"
  by (intro conjI verify_view) (simp_all add: canonicalExecutionTrustRecord_def)

section \<open>Properties of the chain\<close>

text \<open>
  C21: the last chain hash fixes the whole history.  Two histories of executions whose every
  entry is chained, that both verify and end in the same chain hash, have the same signed content
  at every position, and the same length, as long as the hash does not collide on their entries:
  no execution can be altered, dropped, inserted or moved before the last one.
\<close>

theorem chain_fixes_history:
  assumes "ExecutionChainCrypto_verifyChain k xs = Inr ChainValid"
    and "ExecutionChainCrypto_verifyChain k ys = Inr ChainValid"
    and "list_all is_chained xs" and "list_all is_chained ys" and "xs \<noteq> []" and "ys \<noteq> []"
    and "ex_chainHash (last xs) = ex_chainHash (last ys)"
    and "\<forall>x \<in> set xs. \<forall>y \<in> set ys. kc_hash k (ChainArtifact (canonicalChainEntry x (previous_hash x)))
      = kc_hash k (ChainArtifact (canonicalChainEntry y (previous_hash y)))
      \<longrightarrow> canonicalChainEntry x (previous_hash x) = canonicalChainEntry y (previous_hash y)"
  shows "map (\<lambda>x. canonicalChainEntry x (previous_hash x)) xs
     = map (\<lambda>y. canonicalChainEntry y (previous_hash y)) ys"
  using chain_unique[of xs ys k] assms by (simp add: ExecutionChainCrypto_verifyChain_def)

text \<open>Two chained executions; an entry hashes to its id, its status and the previous hash.\<close>

definition chain_crypto :: record_crypto where
  "chain_crypto = \<lparr>kc_hash = (\<lambda>a. case a of ChainArtifact e \<Rightarrow> ce_executionId e
       @ (case ce_previousChainHash e of None \<Rightarrow> [] | Some p \<Rightarrow> CHR ''.'' # p) | _ \<Rightarrow> []),
     kc_algorithm = ''Ed25519'', kc_sign = (\<lambda>a i. Inr i), kc_check = (\<lambda>a i v. Inr (v = i)),
     kc_keyId = ''v1'', kc_hybridMode = False, kc_requireHybrid = False, kc_secondaryKeyId = [],
     kc_primary = ''p'', kc_secondary = ''s'', kc_signPrimary = (\<lambda>a i. Inr i), kc_signSecondary = (\<lambda>a i. Inr i),
     kc_checkPrimary = (\<lambda>a i v. Inr True), kc_checkSecondary = (\<lambda>a i v. Inr True)\<rparr>"

definition sample_link :: "string \<Rightarrow> string option \<Rightarrow> int \<Rightarrow> execution" where
  "sample_link i p signedAt = (let x = ExecutionBuilder_build i 0
       \<lparr>bt_businessTransactionId = ''b'', bt_metadata = \<lparr>tm_businessTransactionId = ''b'', tm_tenantId = None,
          tm_submittedBy = None, tm_grantedCapability = None\<rparr>,
        bt_authority = \<lparr>au_authorityId = [], au_principalId = []\<rparr>,
        bt_authorization = \<lparr>za_authorizationId = [], za_authorityId = [], za_purpose = []\<rparr>,
        bt_intent = \<lparr>in_intentId = [], in_authorizationId = [], in_action = [], in_target = [], in_parameters = []\<rparr>,
        bt_policy = pref [] [] [], bt_signals = None, bt_status = None, bt_createdAt = 0\<rparr>
       \<lparr>dn_decisionId = [], dn_intentId = [], dn_policy = pref [] [] [], dn_signals = [], dn_outcome = APPROVED,
        dn_reason = None, dn_matchedRuleId = None, dn_evaluatedRules = None, dn_matchedPath = None,
        dn_evaluatedAt = 0\<rparr>
     in with_chain x \<lparr>cf_previousChainHash = p,
          cf_chainHash = kc_hash chain_crypto (ChainArtifact (canonicalChainEntry x p)),
          cf_chainSignature = \<lparr>sg_algorithm = ''Ed25519'', sg_keyId = ''k'', sg_value = ''k'', sg_signedAt = signedAt\<rparr>\<rparr>)"

theorem chain_fixes_history_witness:
  "map (\<lambda>x. canonicalChainEntry x (previous_hash x)) [sample_link ''x'' None 1, sample_link ''y'' (Some ''x'') 2]
     = map (\<lambda>x. canonicalChainEntry x (previous_hash x)) [sample_link ''x'' None 5, sample_link ''y'' (Some ''x'') 6]"
  by (rule chain_fixes_history[where k = chain_crypto]) code_simp+

end
