(* ===== verification/Policy_Properties.thy ===== *)
theory Policy_Properties
  imports Signal_Binding
begin

text \<open>
  The properties of the policy engine, of its validator and of the binding of signals and of
  the policy to the action, with concrete policies on which they are used.
\<close>

section \<open>Sample policies\<close>

text \<open>
  A policy with one approving rule gated by a signed approval and a final rejection.  The
  regular expressions of the samples all compile and match nothing, and no number is printed.
\<close>

definition sample_rx :: regexp where
  "sample_rx p = Some (\<lambda>s. False)"

definition sample_nstr :: "jsnum \<Rightarrow> string" where
  "sample_nstr n = ''0''"

definition approve_rule :: "string \<Rightarrow> condition \<Rightarrow> policy_rule" where
  "approve_rule i c = \<lparr>rule_id = Some i, rule_condition = c,
     rule_outcome = Some \<lparr>o_action = Some APPROVE_ACTION, o_reason = Some ''approved''\<rparr>\<rparr>"

definition reject_rule :: "string \<Rightarrow> condition \<Rightarrow> policy_rule" where
  "reject_rule i c = \<lparr>rule_id = Some i, rule_condition = c,
     rule_outcome = Some \<lparr>o_action = Some REJECT_ACTION, o_reason = Some ''rejected''\<rparr>\<rparr>"

definition sample_policy :: "policy_rule list \<Rightarrow> policy" where
  "sample_policy rs = \<lparr>policyId = Some ''payments'', policyVersion = Some ''1'',
     schemaVersion = Some ''1'', signalsSchema = None,
     boundSignals = Some (JObj [(''amount'', JStr ''parameters.amount'')]),
     unboundSignalReasons = None,
     approvalSignals = Some (JObj [(''approved'', JObj [(''resourceId'', JStr ''target'')])]),
     rules = Some rs\<rparr>"

definition gated_policy :: policy where
  "gated_policy = sample_policy
     [reject_rule ''large'' (leaf ''amount'' Op_gt (Some (JNum (Fin 100)))),
      approve_rule ''small'' (all_of [leaf ''approved'' Op_is_true None,
                                      leaf ''amount'' Op_lte (Some (JNum (Fin 200)))]),
      reject_rule ''rest'' always]"

definition gated_signals :: signals where
  "gated_signals = [(''approved'', JBool True), (''amount'', JNum (Fin 50))]"

text \<open>The approving rule carries both an \<open>all\<close> with the approval and \<open>always: true\<close>.\<close>

definition mixed_policy :: policy where
  "mixed_policy = sample_policy
     [approve_rule ''mixed''
        (Condition None (Op_other ''undefined'') None
           (Children [leaf ''approved'' Op_is_true None]) Absent (Some (JBool True)))]"

lemma gated_policy_valid: "PolicyValidator_validate sample_rx sample_nstr (Some gated_policy) = Inr ()"
  by code_simp

lemma mixed_policy_valid: "PolicyValidator_validate sample_rx sample_nstr (Some mixed_policy) = Inr ()"
  by code_simp

lemma gated_policy_approves:
  "\<exists>d. PolicyEngine_evaluate sample_rx gated_policy gated_signals = Inr d \<and> d_outcome d = APPROVE
     \<and> d_matchedRuleId d = ''small'' \<and> d_evaluatedRules d = 2"
proof -
  have "case PolicyEngine_evaluate sample_rx gated_policy gated_signals of
          Inl _ \<Rightarrow> False
        | Inr d \<Rightarrow> d_outcome d = APPROVE \<and> d_matchedRuleId d = ''small'' \<and> d_evaluatedRules d = 2"
    by code_simp
  then show ?thesis by (auto split: sum.splits)
qed

section \<open>The engine\<close>

lemma find_append_first:
  "list_all (\<lambda>x. \<not> P x) pre \<Longrightarrow> P r \<Longrightarrow>
     find P (pre @ r # post) = Some r \<and> takeWhile (\<lambda>x. \<not> P x) (pre @ r # post) = pre"
  by (induction pre) auto

lemma find_none: "list_all (\<lambda>x. \<not> P x) xs \<Longrightarrow> find P xs = None"
  by (induction xs) auto

lemma fails_no_match: "list_all (rule_fails rx sigs) rs \<Longrightarrow> list_all (\<lambda>r. \<not> rule_matches rx sigs r) rs"
  by (auto simp: list_all_iff rule_fails_def rule_matches_def)

text \<open>
  C33: first match wins.  Whenever \<open>evaluate\<close> returns, its decision is that of the first rule
  whose condition holds (the action maps to APPROVE exactly for \<open>APPROVE\<close>), the trace lists
  the rules up to it in order, and with no matching rule the decision is REJECT with the
  trace of all rules.
\<close>

theorem evaluate_first_match:
  assumes "PolicyEngine_evaluate rx pol sigs = Inr d" and "rules pol = Some rs"
  shows "case find (rule_matches rx sigs) rs of
      None \<Rightarrow> d_outcome d = REJECT \<and> d_matchedRuleId d = ''none''
              \<and> d_matchedPath d = map rule_id rs \<and> d_evaluatedRules d = length rs
    | Some r \<Rightarrow> (\<exists>oc. rule_outcome r = Some oc \<and>
                  (d_outcome d = APPROVE \<longleftrightarrow> o_action oc = Some APPROVE_ACTION))
              \<and> d_matchedPath d =
                  map rule_id (takeWhile (\<lambda>q. \<not> rule_matches rx sigs q) rs @ [r])
              \<and> d_evaluatedRules d = length (d_matchedPath d)
              \<and> d_matchedRuleId d = (case rule_id r of Some i \<Rightarrow> i | None \<Rightarrow> ''none'')"
  using assms(1)
proof (cases rule: evaluate_cases)
  case (matched rs' pre r post oc)
  with find_append_first[OF fails_no_match[OF matched(3)], of r post] assms(2) show ?thesis
    by (simp add: toOutcome_APPROVE)
next
  case (unmatched rs')
  with find_none[OF fails_no_match[OF unmatched(2)]] assms(2) show ?thesis by simp
qed

theorem evaluate_first_match_witness:
  "\<exists>d. PolicyEngine_evaluate sample_rx gated_policy gated_signals = Inr d \<and>
     d_outcome d = APPROVE \<and> d_matchedPath d = [Some ''large'', Some ''small'']"
proof -
  obtain d where d: "PolicyEngine_evaluate sample_rx gated_policy gated_signals = Inr d"
    using gated_policy_approves by blast
  obtain rs where rs: "rules gated_policy = Some rs"
    by (simp add: gated_policy_def sample_policy_def)
  have r: "rs = [reject_rule ''large'' (leaf ''amount'' Op_gt (Some (JNum (Fin 100)))),
      approve_rule ''small'' (all_of [leaf ''approved'' Op_is_true None,
                                      leaf ''amount'' Op_lte (Some (JNum (Fin 200)))]),
      reject_rule ''rest'' always]"
    using rs by (simp add: gated_policy_def sample_policy_def)
  have "rule_matches sample_rx gated_signals (rs ! 0) = False"
    "rule_matches sample_rx gated_signals (rs ! 1) = True"
    unfolding r rule_matches_def by code_simp+
  with evaluate_first_match[OF d rs] d r show ?thesis
    by (auto simp: approve_rule_def reject_rule_def)
qed

section \<open>Validated policies\<close>

text \<open>
  C34: a policy accepted by \<open>PolicyValidator.validate\<close> evaluates to a decision on every
  signals object: no operator is unsupported, no pattern fails to compile, no rule lacks an
  outcome.
\<close>

theorem validated_policy_evaluates:
  assumes "PolicyValidator_validate rx nstr (Some pol) = Inr ()"
  shows "\<exists>d. PolicyEngine_evaluate rx pol sigs = Inr d"
proof -
  from assms obtain rs where rs: "rules pol = Some rs" "validateRules rx [] rs = Inr ()"
    by (rule validate_ok)
  note ok = validateRules_ok[OF rs(2)]
  from findFirstMatch_total[of rs rx sigs "[]"] ok validateCondition_evaluates
  obtain res tr where f: "PolicyEngine_findFirstMatch rx rs sigs [] = Inr (res, tr)" by force
  show ?thesis
  proof (cases res)
    case (Some r)
    with findFirstMatch_some[of rx rs sigs "[]" r tr] f have "r \<in> set rs" by auto
    with ok Some rs f show ?thesis by (force simp: PolicyEngine_evaluate_def)
  qed (use rs f in \<open>simp add: PolicyEngine_evaluate_def\<close>)
qed

theorem validated_policy_evaluates_witness:
  "PolicyValidator_validate sample_rx sample_nstr (Some gated_policy) = Inr () \<and>
   (\<exists>d. PolicyEngine_evaluate sample_rx gated_policy [(''amount'', JNull)] = Inr d)"
  using gated_policy_valid validated_policy_evaluates[OF gated_policy_valid] by blast

text \<open>
  The decision of a validated policy is a function of the signals it declares (bound,
  acknowledged as unbound, or approval signals): two signals objects that agree on those get
  the same decision, whatever else a caller adds.
\<close>

theorem decision_reads_declared_signals:
  assumes "PolicyValidator_validate rx nstr (Some pol) = Inr ()"
    and "\<And>f. f \<in> declared_signals pol \<Longrightarrow> map_of s f = map_of t f"
  shows "PolicyEngine_evaluate rx pol s = PolicyEngine_evaluate rx pol t"
  using evaluate_declared_ext[OF assms] .

theorem decision_reads_declared_signals_witness:
  "PolicyEngine_evaluate sample_rx gated_policy (gated_signals @ [(''role'', JStr ''admin'')])
     = PolicyEngine_evaluate sample_rx gated_policy gated_signals"
  by (rule decision_reads_declared_signals[OF gated_policy_valid])
     (auto simp: declared_signals_def gated_policy_def sample_policy_def obj_keys_def
       gated_signals_def)

text \<open>
  C30: a validated policy none of whose rules mixes \<open>all\<close> with \<open>fact\<close> or \<open>always\<close> in one
  condition object approves only when a signal it declares under \<open>approvalSignals\<close> is the
  boolean true: no combination of other signals reaches APPROVE.
\<close>

theorem approve_needs_approval_signal:
  assumes "PolicyValidator_validate rx nstr (Some pol) = Inr ()"
    and "rules pol = Some rs" and "\<not> list_ex mixes_all_with_other_key rs"
    and "PolicyEngine_evaluate rx pol sigs = Inr d" and "d_outcome d = APPROVE"
  shows "\<exists>k\<in>set (object_keys (approvalSignals pol)). map_of sigs k = Some (JBool True)"
  by (rule approval_signal_needed[OF assms])

theorem approve_needs_approval_signal_witness:
  "\<exists>k\<in>set (object_keys (approvalSignals gated_policy)).
     map_of gated_signals k = Some (JBool True)"
proof -
  obtain d where d: "PolicyEngine_evaluate sample_rx gated_policy gated_signals = Inr d"
    "d_outcome d = APPROVE" using gated_policy_approves by blast
  obtain rs where rs: "rules gated_policy = Some rs"
    by (simp add: gated_policy_def sample_policy_def)
  then have "\<not> list_ex mixes_all_with_other_key rs"
    by (auto simp: gated_policy_def sample_policy_def mixes_all_with_other_key_def
        approve_rule_def reject_rule_def leaf_def all_of_def always_def)
  from approve_needs_approval_signal[OF gated_policy_valid rs this d] show ?thesis .
qed

text \<open>
  The restriction on mixed conditions above is needed.  The validator accepts a rule whose
  condition is \<open>{all: [approval leaf], always: true}\<close> as gated by the approval, and the engine,
  which tests \<open>always\<close> before \<open>all\<close>, approves with it on no signals at all.
\<close>

theorem mixed_condition_bypasses_approval:
  "PolicyValidator_validate sample_rx sample_nstr (Some mixed_policy) = Inr () \<and>
   (\<exists>d. PolicyEngine_evaluate sample_rx mixed_policy [] = Inr d \<and> d_outcome d = APPROVE)"
proof -
  have "case PolicyEngine_evaluate sample_rx mixed_policy [] of
          Inl _ \<Rightarrow> False | Inr d \<Rightarrow> d_outcome d = APPROVE" by code_simp
  with mixed_policy_valid show ?thesis by (auto split: sum.splits)
qed

text \<open>
  Rule ids of a validated policy are distinct, so the \<open>matchedRuleId\<close> of an approval
  names exactly one rule, and that rule is an approving rule whose condition holds.
\<close>

theorem matchedRuleId_identifies_rule:
  assumes "PolicyValidator_validate rx nstr (Some pol) = Inr ()" and "rules pol = Some rs"
    and "PolicyEngine_evaluate rx pol sigs = Inr d" and "d_outcome d = APPROVE"
  shows "\<exists>r\<in>set rs. rule_matches rx sigs r \<and> map_option o_action (rule_outcome r) = Some (Some APPROVE_ACTION)
           \<and> (\<forall>q\<in>set rs. rule_id q = Some (d_matchedRuleId d) \<longleftrightarrow> q = r)"
  using assms(3)
proof (cases rule: evaluate_cases)
  case (matched rs' pre r post oc)
  with assms(2) have r: "r \<in> set rs" by (metis in_set_conv_decomp option.inject)
  from assms(1) obtain rs'' where "rules pol = Some rs''" "validateRules rx [] rs'' = Inr ()"
    by (rule validate_ok)
  with assms(2) have v: "validateRules rx [] rs = Inr ()" by simp
  from validateRules_ok[OF v r] matched(9) have i: "rule_id r = Some (d_matchedRuleId d)" by auto
  from validateRules_distinct[OF v] have "inj_on rule_id (set rs)" by (simp add: distinct_map)
  with i r have "\<forall>q\<in>set rs. rule_id q = Some (d_matchedRuleId d) \<longleftrightarrow> q = r"
    by (metis inj_onD)
  with r matched(4-6) assms(4) show ?thesis by (auto simp: APPROVE_toOutcome intro!: bexI[of _ r])
qed (use assms(4) in simp)

theorem matchedRuleId_identifies_rule_witness:
  "\<exists>d rs. PolicyEngine_evaluate sample_rx gated_policy gated_signals = Inr d \<and>
     rules gated_policy = Some rs \<and>
     (\<exists>r\<in>set rs. rule_matches sample_rx gated_signals r \<and>
        (\<forall>q\<in>set rs. rule_id q = Some (d_matchedRuleId d) \<longleftrightarrow> q = r))"
proof -
  obtain d where d: "PolicyEngine_evaluate sample_rx gated_policy gated_signals = Inr d"
    "d_outcome d = APPROVE" using gated_policy_approves by blast
  obtain rs where rs: "rules gated_policy = Some rs"
    by (simp add: gated_policy_def sample_policy_def)
  from matchedRuleId_identifies_rule[OF gated_policy_valid rs d] d(1) rs show ?thesis by blast
qed

section \<open>Conflict detection\<close>

text \<open>
  \<open>findRuleConflicts\<close> succeeds on a validated policy and misses no pair of rules that can
  hold together: when the conditions of two rules are both true on some signals, neither of
  them an \<open>always\<close>, and they are not leaves on two different facts, a warning names the pair.
\<close>

theorem findRuleConflicts_complete:
  assumes "PolicyValidator_validate rx nstr (Some pol) = Inr ()" and "rules pol = Some rs"
  shows "\<exists>ws. findRuleConflicts pol = Inr ws \<and>
    (\<forall>i j sigs. i < j \<longrightarrow> j < length rs \<longrightarrow>
       rule_matches rx sigs (rs ! i) \<longrightarrow> rule_matches rx sigs (rs ! j) \<longrightarrow>
       \<not> isAlways (rule_condition (rs ! i)) \<longrightarrow> \<not> isAlways (rule_condition (rs ! j)) \<longrightarrow>
       \<not> different_fact_leaves (rule_condition (rs ! i)) (rule_condition (rs ! j)) \<longrightarrow>
       (\<exists>w\<in>set ws. w_ruleId w = rule_id (rs ! i) \<and> w_conflictingRuleId w = rule_id (rs ! j)))"
proof -
  from assms(1) obtain rs' where "rules pol = Some rs'" "validateRules rx [] rs' = Inr ()"
    by (rule validate_ok)
  with assms(2) have v: "validateRules rx [] rs = Inr ()" by simp
  from conflicts_from_total validateRules_ok[OF v]
  obtain ws where ws: "conflicts_from rs = Inr ws" by blast
  with assms(2) show ?thesis
    by (intro exI[of _ ws])
       (auto simp: findRuleConflicts_def rule_matches_def
         intro!: conflicts_from_pair[OF ws] dest: conditionsOverlap_sound)
qed

theorem findRuleConflicts_complete_witness:
  "\<exists>ws. findRuleConflicts gated_policy = Inr ws \<and>
     (\<exists>w\<in>set ws. w_ruleId w = Some ''large'' \<and> w_conflictingRuleId w = Some ''small'')"
proof -
  let ?sigs = "[(''approved'', JBool True), (''amount'', JNum (Fin 150))]"
  let ?r0 = "reject_rule ''large'' (leaf ''amount'' Op_gt (Some (JNum (Fin 100))))"
  let ?r1 = "approve_rule ''small'' (all_of [leaf ''approved'' Op_is_true None,
                                      leaf ''amount'' Op_lte (Some (JNum (Fin 200)))])"
  have rs: "rules gated_policy = Some [?r0, ?r1, reject_rule ''rest'' always]"
    by (simp add: gated_policy_def sample_policy_def)
  have "rule_matches sample_rx ?sigs ?r0" "rule_matches sample_rx ?sigs ?r1"
    unfolding rule_matches_def by code_simp+
  moreover have "\<not> isAlways (rule_condition ?r0)" "\<not> isAlways (rule_condition ?r1)"
    "\<not> different_fact_leaves (rule_condition ?r0) (rule_condition ?r1)"
    "rule_id ?r0 = Some ''large''" "rule_id ?r1 = Some ''small''"
    by (simp_all add: isAlways_def different_fact_leaves_def reject_rule_def approve_rule_def
        leaf_def all_of_def)
  moreover note findRuleConflicts_complete[OF gated_policy_valid rs]
  ultimately show ?thesis by (force dest: spec[of _ 0])
qed

text \<open>
  The exception for leaves on different facts is a real gap of the detector: two rules
  with opposite outcomes hold on the same signals and \<open>findRuleConflicts\<close> returns nothing.
\<close>

definition two_fact_policy :: policy where
  "two_fact_policy = sample_policy
     [reject_rule ''large'' (leaf ''amount'' Op_gt (Some (JNum (Fin 100)))),
      approve_rule ''signed'' (leaf ''approved'' Op_is_true None)]"

theorem different_facts_not_reported:
  "PolicyValidator_validate sample_rx sample_nstr (Some two_fact_policy) = Inr () \<and>
   findRuleConflicts two_fact_policy = Inr [] \<and>
   list_all (rule_matches sample_rx [(''amount'', JNum (Fin 500)), (''approved'', JBool True)])
     (the (rules two_fact_policy))"
  unfolding rule_matches_def by code_simp

section \<open>Binding of signals and of the policy to the action\<close>

text \<open>
  The capability/policy binding, on every branch.  A request is let through exactly when
  its action is bound to nothing, or it declares the bound policy name with the version in
  effect: for a capability of the canonical table the version policy governance reports (the
  table's own version where governance is off), for an externally registered capability only a
  version reported by governance.  A failed lookup, of either kind, lets nothing through.
\<close>

theorem capability_binding_spec:
  "CapabilityPolicyBinder_findViolation cvs ext action declared = None \<longleftrightarrow>
     (case map_of CANONICAL_CAPABILITY_POLICY_BINDINGS action of
        Some c \<Rightarrow> pr_name declared = pr_name c \<and>
          (case cvs of
             None \<Rightarrow> pr_version declared = pr_version c
           | Some cv \<Rightarrow> cv (pr_name c) = Inr (Some (pr_version declared)))
      | None \<Rightarrow>
          (case ext of
             None \<Rightarrow> True
           | Some policyFor \<Rightarrow> policyFor action = Inr None \<or>
               (\<exists>cv. policyFor action = Inr (Some (pr_name declared)) \<and> cvs = Some cv
                     \<and> cv (pr_name declared) = Inr (Some (pr_version declared)))))"
  unfolding findViolation_None CapabilityPolicyBinder_policyInEffect_def
    CapabilityPolicyBinder_externalPolicyInEffect_def
  by (auto simp: governedVersion_InEffect pref_def Let_def split: option.splits sum.splits)

text \<open>
  The intent fixes every bound signal.  Under a validated policy, two signals objects that
  both pass the binder for the same intent and agree on the signals the policy declares as
  unbound or as approvals get the same decision: a caller cannot choose a bound value.
\<close>

theorem intent_fixes_bound_signals:
  assumes "PolicyValidator_validate rx nstr (Some pol) = Inr ()"
    and "SignalIntentBinder_findViolations pol s intent = Inr []"
    and "SignalIntentBinder_findViolations pol t intent = Inr []"
    and "\<And>f. f \<in> set (object_keys (unboundSignalReasons pol)) \<union> set (object_keys (approvalSignals pol))
            \<Longrightarrow> map_of s f = map_of t f"
  shows "PolicyEngine_evaluate rx pol s = PolicyEngine_evaluate rx pol t"
proof (rule evaluate_declared_ext[OF assms(1)])
  fix f assume f: "f \<in> declared_signals pol"
  show "map_of s f = map_of t f"
  proof (cases "f \<in> set (object_keys (boundSignals pol))")
    case True
    from assms(1) have "validateBoundSignals pol = Inr ()" by (rule validate_ok)
    from this True obtain entries p where
      "boundSignals pol = Some (JObj entries)" "(f, JStr p) \<in> set entries"
      by (rule validated_bound_entry)
    with assms(2,3) show ?thesis using binder_no_violation by metis
  next
    case False
    with f assms(4) show ?thesis by (auto simp: declared_signals_def)
  qed
qed

theorem intent_fixes_bound_signals_witness:
  "PolicyEngine_evaluate sample_rx gated_policy gated_signals
     = PolicyEngine_evaluate sample_rx gated_policy ((''rank'', JNull) # gated_signals)"
proof -
  let ?intent = "JObj [(''target'', JStr ''acct''), (''parameters'', JObj [(''amount'', JNum (Fin 50))])]"
  have "SignalIntentBinder_findViolations gated_policy gated_signals ?intent = Inr []"
    "SignalIntentBinder_findViolations gated_policy ((''rank'', JNull) # gated_signals) ?intent = Inr []"
    by code_simp+
  from intent_fixes_bound_signals[OF gated_policy_valid this] show ?thesis
    by (auto simp: gated_policy_def sample_policy_def obj_keys_def)
qed

end
