(* ===== verification/Approval_Properties.thy ===== *)
theory Approval_Properties
  imports Approval Policy_Properties
begin

text \<open>
  The properties of signed approvals: what a clean check proves, that an approval is single
  use, when a check leaves approvals unused, and two limits of the code.
\<close>

section \<open>Sample approvals\<close>

text \<open>
  One trusted approver \<open>ann\<close> whose signature is the word \<open>ok\<close>; expiry times are written as
  strings of their length in milliseconds.
\<close>

definition sample_resolve :: "unit issuer_resolve" where
  "sample_resolve = StaticApprovalIssuerRegistry_resolve (StaticApprovalIssuerRegistry_create
     [\<lparr>ti_approverId = ''ann'', ti_keyId = ''k1'', ti_publicKey = (), ti_revoked = False\<rparr>])"

definition ok_sigv :: "unit approval_signature" where
  "ok_sigv payload s k = (s = ''ok'')"

definition length_parse :: date_parse where
  "length_parse s = Some (int (length s))"

definition sample_artifact :: "string \<Rightarrow> json" where
  "sample_artifact nonce = JObj
     [(''payload'', JObj
        [(''version'', JNum (Fin 1)), (''approvalId'', JStr ''ap1''),
         (''issuer'', JObj [(''approverId'', JStr ''ann''), (''keyId'', JStr ''k1'')]),
         (''issuedAt'', JStr []), (''expiresAt'', JStr ''0123456789''),
         (''capability'', JStr ''pay''), (''resourceId'', JStr ''acct''),
         (''scope'', JObj [(''field'', JStr ''resource''), (''comparator'', JStr ''eq''),
                           (''value'', JStr ''acct'')]),
         (''nonce'', JStr nonce)]),
      (''signature'', JObj [(''value'', JStr ''ok''), (''algorithm'', JStr ''Ed25519''),
                            (''keyId'', JStr ''k1'')])]"

definition two_approvals_policy :: policy where
  "two_approvals_policy = (sample_policy
     [approve_rule ''both'' (all_of [leaf ''approved'' Op_is_true None,
        leaf ''cosigned'' Op_is_true None, leaf ''amount'' Op_lte (Some (JNum (Fin 200)))])])
     \<lparr>approvalSignals := Some (JObj
        [(''approved'', JObj [(''resourceId'', JStr ''target'')]),
         (''cosigned'', JObj [(''resourceId'', JStr ''target''),
                              (''artifact'', JStr ''secondArtifact'')])])\<rparr>"

definition sample_request :: "policy \<Rightarrow> stage option \<Rightarrow> verification_request" where
  "sample_request pol st = \<lparr>rq_action = ''pay'', rq_businessTransactionId = ''b1'',
     rq_intentParameters = Some [(''amount'', JNum (Fin 50))], rq_intentTarget = Some ''acct'',
     rq_stage = st, rq_policy = Some pol\<rparr>"

definition one_approval_signals :: signals where
  "one_approval_signals = (''approvalArtifact'', sample_artifact ''n1'') # gated_signals"

definition sample_check ::
  "verification_request \<Rightarrow> signals \<Rightarrow> memory_nonces
   \<Rightarrow> (string, signal_state_violation list) result \<times> memory_nonces" where
  "sample_check = ApprovalSignalVerifier_findViolations sample_nstr sample_resolve ok_sigv
     length_parse (MemoryNonceStore_checkAndRecord length_parse) (\<lambda>i. (0, 0))"

section \<open>Properties\<close>

text \<open>
  C31: what a clean answer proves, at authorization and at release.  For every signal the policy
  declares as an approval and the caller sets to true, the signals carry a signed approval that
  a registered, unrevoked issuer signed, not expired when it was checked, for exactly this action
  and for the resource the intent names, with a scope that covers the value of the intent (or
  names the resource).
\<close>

theorem clean_check_means_approved:
  assumes "ApprovalSignalVerifier_findViolations nstr resolve sigv dp check clk rq sigs s = (Inr [], s')"
    and "rq_policy rq = Some pol" and "approvalSignals pol = Some (JObj entries)"
    and "(k, d) \<in> set entries" and "map_of sigs k = Some (JBool True)"
  shows "\<exists>v a i rp rid request.
     map_of sigs (js_string nstr (declared_artifact d)) = Some v \<and> asSignedApproval v = Some a
     \<and> get_prop d ''resourceId'' = Some (JStr rp) \<and> resolveResourceId nstr rq rp = Inr rid
     \<and> vr_action request = rq_action rq \<and> vr_resourceId request = rid
     \<and> vr_requestedValue request =
         (case get_prop d ''value'' of None \<Rightarrow> JStr rid
          | Some w \<Rightarrow> (case w of JStr vp \<Rightarrow> (case resolveNumber rq vp of Inr n \<Rightarrow> JNum n | Inl _ \<Rightarrow> JNull)
                       | _ \<Rightarrow> JNull))
     \<and> approval_covers resolve sigv dp a request (fst (clk i))"
  by (rule clean_check_covered[OF assms])

theorem clean_check_means_approved_witness:
  "\<exists>a i request. asSignedApproval (sample_artifact ''n1'') = Some a \<and>
     approval_covers sample_resolve ok_sigv length_parse a request 0 \<and> vr_resourceId request = ''acct''"
proof -
  have "fst (sample_check (sample_request gated_policy None) one_approval_signals []) = Inr []"
    by code_simp
  then obtain s' where "ApprovalSignalVerifier_findViolations sample_nstr sample_resolve ok_sigv
      length_parse (MemoryNonceStore_checkAndRecord length_parse) (\<lambda>i. (0, 0))
      (sample_request gated_policy None) one_approval_signals [] = (Inr [], s')"
    by (metis sample_check_def prod.collapse)
  note c = clean_check_means_approved[OF this, of gated_policy
      "[(''approved'', JObj [(''resourceId'', JStr ''target'')])]" "''approved''"
      "JObj [(''resourceId'', JStr ''target'')]"]
  have "declared_artifact (JObj [(''resourceId'', JStr ''target'')]) = JStr ''approvalArtifact''"
    by (simp add: declared_artifact_def DEFAULT_APPROVAL_ARTIFACT_SIGNAL_def)
  moreover have "resolveResourceId sample_nstr (sample_request gated_policy None) ''target'' = Inr ''acct''"
    by code_simp
  ultimately show ?thesis using c
    by (fastforce simp: sample_request_def gated_policy_def sample_policy_def one_approval_signals_def
        gated_signals_def)
qed

text \<open>
  C32: an approval is single use.  In any sequence of checks against one in-memory nonce store,
  while the approval has not expired, two authorizing checks that rely on approvals with the same
  nonce never both come out clean, whatever checks run between them.
\<close>

theorem approval_used_once:
  assumes "i < j" and "j < length cs" and "relies_on nstr (cs ! i) a" and "relies_on nstr (cs ! j) b"
    and "as_nonce b = as_nonce a"
    and "\<And>c m. c \<in> set cs \<Longrightarrow> live (snd (ac_clk c m)) (dp (as_expiresAt a))"
    and "approval_run nstr resolve sigv dp (MemoryNonceStore_checkAndRecord dp) cs s ! i = Inr []"
  shows "approval_run nstr resolve sigv dp (MemoryNonceStore_checkAndRecord dp) cs s ! j \<noteq> Inr []"
  by (rule memory_nonce_store.approval_single_use[OF assms])

definition sample_call :: approval_call where
  "sample_call = \<lparr>ac_request = sample_request gated_policy None, ac_signals = one_approval_signals,
     ac_clk = (\<lambda>i. (0, 0))\<rparr>"

lemma sample_artifact_parses:
  "\<exists>a. asSignedApproval (sample_artifact n) = Some a \<and> as_nonce a = n \<and> as_expiresAt a = ''0123456789''"
  by (simp add: sample_artifact_def asSignedApproval_def obj_prop_def str_prop_def
      isApprovalScopeShape_def)

lemma sample_relies_on:
  "\<exists>a. relies_on sample_nstr sample_call a \<and> as_expiresAt a = ''0123456789''"
proof -
  obtain a where a: "asSignedApproval (sample_artifact ''n1'') = Some a" "as_expiresAt a = ''0123456789''"
    using sample_artifact_parses by blast
  let ?d = "JObj [(''resourceId'', JStr ''target'')]"
  have "resolveResourceId sample_nstr (sample_request gated_policy None) ''target'' = Inr ''acct''"
    by code_simp
  then have "\<exists>p. ApprovalSignalVerifier_prepare sample_nstr (sample_request gated_policy None)
      one_approval_signals ''approved'' ?d = Some (Inr p) \<and> pa_artifact p = a"
    using a(1) by (simp add: ApprovalSignalVerifier_prepare_def one_approval_signals_def
        declared_artifact_def DEFAULT_APPROVAL_ARTIFACT_SIGNAL_def)
  then have "relies_on sample_nstr sample_call a"
    by (auto simp: relies_on_def sample_call_def sample_request_def gated_policy_def sample_policy_def
        one_approval_signals_def gated_signals_def)
  with a(2) show ?thesis by blast
qed

theorem approval_used_once_witness:
  "approval_run sample_nstr sample_resolve ok_sigv length_parse
     (MemoryNonceStore_checkAndRecord length_parse) [sample_call, sample_call] [] ! 1 \<noteq> Inr []"
proof -
  obtain a where a: "relies_on sample_nstr sample_call a" "as_expiresAt a = ''0123456789''"
    using sample_relies_on by blast
  have "approval_run sample_nstr sample_resolve ok_sigv length_parse
     (MemoryNonceStore_checkAndRecord length_parse) [sample_call, sample_call] [] ! 0 = Inr []"
    by code_simp
  moreover have "ac_clk sample_call = (\<lambda>i. (0, 0))" by (simp add: sample_call_def)
  ultimately show ?thesis
    by (intro approval_used_once[where i = 0 and a = a and b = a])
       (auto simp: a length_parse_def)
qed

text \<open>
  A check uses no approval unless it has verified all of them.  At release, and whenever an
  approval signal set to true carries no approval, or one that does not cover the request, the
  nonce store is left as it was.
\<close>

theorem check_without_use:
  assumes "rq_policy rq = Some pol" and "approvalSignals pol = Some (JObj entries)"
    and "rq_stage rq = Some Release \<or>
         (\<exists>(k, d)\<in>set entries. map_of sigs k = Some (JBool True) \<and>
            (\<forall>p. ApprovalSignalVerifier_prepare nstr rq sigs k d = Some (Inr p) \<longrightarrow>
               (\<forall>i. \<not> approval_covers resolve sigv dp (pa_artifact p) (pa_request p) (fst (clk i)))))"
  shows "snd (ApprovalSignalVerifier_findViolations nstr resolve sigv dp check clk rq sigs s) = s"
proof (cases "prepare_all nstr rq sigs (sort_key fst entries)")
  case None
  with assms(1,2) show ?thesis by (simp add: ApprovalSignalVerifier_findViolations_def)
next
  case (Some vp)
  obtain violations pending where vp: "vp = (violations, pending)" by force
  have "violations @ fst (verify_pass resolve sigv dp check False clk 0 pending s) \<noteq> []
        \<or> rq_stage rq = Some Release"
  proof (rule ccontr)
    assume neg: "\<not> ?thesis"
    with assms(3) obtain k d where kd: "(k, d) \<in> set entries" "map_of sigs k = Some (JBool True)"
      "\<And>p i. ApprovalSignalVerifier_prepare nstr rq sigs k d = Some (Inr p) \<Longrightarrow>
          \<not> approval_covers resolve sigv dp (pa_artifact p) (pa_request p) (fst (clk i))" by auto
    from neg Some vp have "prepare_all nstr rq sigs (sort_key fst entries) = Some ([], pending)" by simp
    from prepare_all_clean[OF this _ kd(2)] kd(1) obtain p where p: "p \<in> set pending"
      "ApprovalSignalVerifier_prepare nstr rq sigs k d = Some (Inr p)" by auto
    from neg have "fst (verify_pass resolve sigv dp check False clk 0 pending s) = []" by simp
    from pass_clean_covers[OF this p(1)] kd(3)[OF p(2)] show False by blast
  qed
  with Some vp assms(1,2) show ?thesis
    by (auto simp: ApprovalSignalVerifier_findViolations_def split_beta pass_dry_state)
qed

theorem check_without_use_witness:
  "snd (sample_check (sample_request gated_policy (Some Release)) one_approval_signals
     [(''n0'', Some 5)]) = [(''n0'', Some 5)]"
  unfolding sample_check_def
  by (rule check_without_use[of _ gated_policy "[(''approved'', JObj [(''resourceId'', JStr ''target'')])]"])
     (simp_all add: sample_request_def gated_policy_def sample_policy_def)

text \<open>
  A limit of the two passes.  The first pass does not look at the nonces, so a request with
  one fresh approval and one that was used before is refused in the second pass, after the fresh
  approval has been used up.
\<close>

theorem refused_request_burns_other_approval:
  "PolicyValidator_validate sample_rx sample_nstr (Some two_approvals_policy) = Inr () \<and>
   (case sample_check (sample_request two_approvals_policy None)
           ((''cosigned'', JBool True) # (''secondArtifact'', sample_artifact ''used'')
              # (''approvalArtifact'', sample_artifact ''fresh'') # gated_signals)
           [(''used'', Some 10)] of
      (answer, nonces) \<Rightarrow>
        answer = Inr [refused ''cosigned''] \<and> nonces = [(''used'', Some 10), (''fresh'', Some 10)])"
  by code_simp

text \<open>
  The registry of issuers resolves exactly the registered pairs as long as no approver id
  contains a colon.
\<close>

theorem issuer_resolution_exact:
  assumes "\<And>i. i \<in> set issuers \<Longrightarrow> CHR '':'' \<notin> set (ti_approverId i)"
    and "CHR '':'' \<notin> set approverId"
  shows "(\<exists>r. StaticApprovalIssuerRegistry_resolve (StaticApprovalIssuerRegistry_create issuers)
            approverId keyId = Some r) \<longleftrightarrow>
         (\<exists>i\<in>set issuers. ti_approverId i = approverId \<and> ti_keyId i = keyId)"
  using assms
  by (auto simp: StaticApprovalIssuerRegistry_resolve_def registry_create_dom
      split: option.splits dest: issuer_key_inj)
     (metis registry_create_dom issuer_key_inj option.distinct(1))+

theorem issuer_resolution_exact_witness:
  "\<exists>r. StaticApprovalIssuerRegistry_resolve (StaticApprovalIssuerRegistry_create
     [\<lparr>ti_approverId = ''ann'', ti_keyId = ''k:1'', ti_publicKey = (), ti_revoked = False\<rparr>])
     ''ann'' ''k:1'' = Some r"
  by (subst issuer_resolution_exact) auto

text \<open>
  Without that restriction two different pairs share a key: an artifact that names approver
  \<open>a\<close> with key \<open>b:c\<close> is resolved to the key of approver \<open>a:b\<close>.
\<close>

theorem issuer_pairs_collide:
  "StaticApprovalIssuerRegistry_resolve (StaticApprovalIssuerRegistry_create
     [\<lparr>ti_approverId = ''a:b'', ti_keyId = ''c'', ti_publicKey = (), ti_revoked = False\<rparr>]) ''a'' ''b:c''
   \<noteq> None"
  by code_simp

end
