(* ===== verification/Envelope_Properties.thy ===== *)
theory Envelope_Properties
  imports Envelope
begin

text \<open>
  The properties of execution authorizations: what a valid envelope proves, that it is single
  use, that signing and verifying agree, and where the single-use guarantee of the in-memory
  store ends.
\<close>

section \<open>Sample authorizations\<close>

text \<open>
  Keys, signatures and times of the samples: one key, a signature is the nonce of the payload,
  and a time is written in unary, with a sign.
\<close>

definition tally :: "int \<Rightarrow> string" where
  "tally t = (if t < 0 then ''-'' else []) @ replicate (nat \<bar>t\<bar>) (CHR ''t'')"

fun tally_parse :: date_parse where
  "tally_parse [] = Some 0"
| "tally_parse (c # cs) = Some (if c = CHR ''-'' then - int (length cs) else int (length (c # cs)))"

lemma tally_parse_tally [simp]: "tally_parse (tally t) = Some t"
  by (cases "nat \<bar>t\<bar>") (auto simp: tally_def)

definition sample_sigv :: "unit signature_check" where
  "sample_sigv p s k = (s = ap_nonce p)"

definition sample_verifier :: "unit envelope_verifier" where
  "sample_verifier = EnvelopeVerifier_create () None None None"

definition sample_payload :: "string \<Rightarrow> int \<Rightarrow> authorization_payload" where
  "sample_payload n e = \<lparr>ap_version = Some (JNum (Fin 1)), ap_authorizationId = ''a1'', ap_nonce = n,
     ap_decisionId = ''d1'', ap_businessTransactionId = ''b1'', ap_policyName = ''payments'',
     ap_policyVersion = ''1'', ap_authorizedAt = tally 0, ap_expiresAt = tally e,
     ap_businessTransactionHash = ''h'', ap_policyContentHash = None, ap_signalsHash = None,
     ap_submittedBy = None, ap_grantedCapability = None\<rparr>"

definition sample_authorization :: "string \<Rightarrow> int \<Rightarrow> signed_authorization" where
  "sample_authorization n e = \<lparr>sa_payload = sample_payload n e, sa_signature = n,
     sa_keyId = ''k'', sa_algorithm = ''Ed25519''\<rparr>"

lemma sample_checks:
  "fst (EnvelopeVerifier_verifyChecks tally_parse sample_sigv sample_verifier
     (sample_authorization n e) now) \<longleftrightarrow> now < e \<and> e \<le> 300000"
  by (auto simp: EnvelopeVerifier_verifyChecks_def AuthorizationVerifier_verify_def
      sample_verifier_def EnvelopeVerifier_create_def EnvelopeVerifier_resolveKey_def
      sample_authorization_def sample_payload_def SUPPORTED_PAYLOAD_VERSION_def sample_sigv_def
      tally_parse_tally[of 0, simplified] DEFAULT_MAX_TTL_SECONDS_def Let_def field_simps)

section \<open>Properties\<close>

text \<open>
  An authorization is single use.  In any sequence of verifications against one in-memory
  nonce store with a clock that does not run backwards, once an envelope was accepted no later
  verification of the same payload succeeds whose nonce is consumed before the payload expires,
  whatever other envelopes are verified between and however often the store purges.
\<close>

theorem authorization_single_use:
  assumes "sorted (map at_clock as)" and "i < j" and "j < length as"
    and "sa_payload (at_authorization (as ! j)) = sa_payload (at_authorization (as ! i))"
    and "live (at_clock (as ! j)) (dp (ap_expiresAt (sa_payload (at_authorization (as ! i)))))"
    and "er_valid (verify_run dp sigv v (MemoryNonceStore_checkAndRecord dp) as s ! i)"
  shows "\<not> er_valid (verify_run dp sigv v (MemoryNonceStore_checkAndRecord dp) as s ! j)"
  by (rule memory_nonce_store.single_use[OF assms])

definition sample_attempt :: "string \<Rightarrow> int \<Rightarrow> int \<Rightarrow> int \<Rightarrow> attempt" where
  "sample_attempt n e now clock =
     \<lparr>at_authorization = sample_authorization n e, at_now = now, at_clock = clock\<rparr>"

theorem authorization_single_use_witness:
  "\<not> er_valid (verify_run tally_parse sample_sigv sample_verifier
      (MemoryNonceStore_checkAndRecord tally_parse)
      [sample_attempt ''A'' 20 5 6, sample_attempt ''B'' 19 7 8, sample_attempt ''A'' 20 9 10] [] ! 2)"
proof -
  let ?as = "[sample_attempt ''A'' 20 5 6, sample_attempt ''B'' 19 7 8, sample_attempt ''A'' 20 9 10]"
  have "er_valid (verify_run tally_parse sample_sigv sample_verifier
          (MemoryNonceStore_checkAndRecord tally_parse) ?as [] ! 0)"
    by code_simp
  then show ?thesis
    by (intro authorization_single_use[where i = 0])
       (simp_all add: sample_attempt_def sample_authorization_def sample_payload_def)
qed

text \<open>
  What an accepted envelope proves: its payload has the supported version and is signed
  under the key resolved for its key id (which is not revoked or expired), the time of the
  request is before its expiry, it was issued for no longer than the maximum lifetime, and its
  nonce was not held.  Whenever it is not accepted the nonce store is unchanged, so a forged or
  expired envelope cannot burn a nonce.
\<close>

theorem envelope_verify_spec:
  "case EnvelopeVerifier_verify dp sigv v (MemoryNonceStore_checkAndRecord dp) a now clock s of
     (res, s') \<Rightarrow>
       (er_valid res \<longleftrightarrow>
          (\<exists>k e i. EnvelopeVerifier_resolveKey v a now = Some k
             \<and> ap_version (sa_payload a) = Some SUPPORTED_PAYLOAD_VERSION
             \<and> sigv (sa_payload a) (sa_signature a) k
             \<and> dp (ap_expiresAt (sa_payload a)) = Some e \<and> now < e
             \<and> dp (ap_authorizedAt (sa_payload a)) = Some i
             \<and> num_le (Fin ((of_int e - of_int i) / 1000)) (ev_maxTtlSeconds v)
             \<and> map_of s (ap_nonce (sa_payload a)) = None))
       \<and> (er_valid res \<or> s' = s)"
proof -
  let ?P = "fst (EnvelopeVerifier_verifyChecks dp sigv v a now)"
  let ?res = "EnvelopeVerifier_verify dp sigv v (MemoryNonceStore_checkAndRecord dp) a now clock s"
  have valid: "er_valid (fst ?res) \<longleftrightarrow> ?P \<and> map_of s (ap_nonce (sa_payload a)) = None"
    unfolding verify_valid_iff memory_nonce_store.accept_iff ..
  then have "er_valid (fst ?res) \<or> snd ?res = s"
    using memory_nonce_store.reject_same[of s "ap_nonce (sa_payload a)"]
    by (auto simp: verify_state)
  with valid verifyChecks_passed_iff[of dp sigv v a now] show ?thesis
    by (simp add: split_beta) blast
qed


definition sample_input :: authorization_input where
  "sample_input = \<lparr>ai_decisionId = ''d1'', ai_businessTransactionId = ''b1'',
     ai_policyName = ''payments'', ai_policyVersion = ''1'', ai_policyContentHash = None,
     ai_signalsHash = None, ai_submittedBy = None, ai_grantedCapability = None,
     ai_executableContent = \<lparr>ec_businessTransactionId = ''b1'', ec_action = ''pay'',
       ec_target = ''acct'', ec_parameters = []\<rparr>\<rparr>"


text \<open>
  Where single use ends.  The expiry is tested against the time \<open>now\<close> taken when \<open>verify\<close>
  starts, the purge of a full store uses the clock when a nonce is recorded.  An envelope whose
  verification starts before its expiry and reaches the store after another request has purged
  it is accepted a second time, although every clock reading is in order.
\<close>

definition filler_nonces :: memory_nonces where
  "filler_nonces = map (\<lambda>i. (replicate i (CHR ''f''), None)) [0..<PURGE_THRESHOLD]"

lemma filler_no_upper: "map_of filler_nonces (CHR ''A'' # cs) = None"
    "map_of filler_nonces (CHR ''B'' # cs) = None"
  by (auto simp: filler_nonces_def map_of_eq_None_iff Cons_replicate_eq)

lemma check_filler:
  assumes "map_of (filler_nonces @ xs) n = None"
  shows "MemoryNonceStore_checkAndRecord tally_parse t n (tally e) (filler_nonces @ xs)
     = (True, filler_nonces @ filter (\<lambda>(nonce, expiry). live t expiry) (xs @ [(n, Some e)]))"
proof -
  have "length filler_nonces = PURGE_THRESHOLD"
    "filter (\<lambda>(nonce, expiry). live t expiry) filler_nonces = filler_nonces"
    by (auto simp: filler_nonces_def filter_id_conv)
  with assms show ?thesis
    by (simp add: MemoryNonceStore_checkAndRecord_def MemoryNonceStore_size_def
        MemoryNonceStore_purgeExpired_def Let_def)
qed

lemma verify_filler:
  assumes "map_of (filler_nonces @ xs) n = None" "now < e" "e \<le> 300000"
  shows "\<exists>r. EnvelopeVerifier_verify tally_parse sample_sigv sample_verifier
       (MemoryNonceStore_checkAndRecord tally_parse) (sample_authorization n e) now clock
       (filler_nonces @ xs)
     = (r, filler_nonces @ filter (\<lambda>(nonce, expiry). live clock expiry) (xs @ [(n, Some e)]))
     \<and> er_valid r"
  using assms sample_checks[of n e now] check_filler[OF assms(1), of clock e]
  by (auto simp: EnvelopeVerifier_verify_def EnvelopeVerifier_consumeNonce_def
      sample_authorization_def sample_payload_def split: prod.splits)

theorem replay_across_purge:
  "\<exists>as. sorted (map at_clock as) \<and> list_all (\<lambda>a. at_now a \<le> at_clock a) as \<and>
     at_authorization (as ! 0) = at_authorization (as ! 2) \<and>
     (let rs = verify_run tally_parse sample_sigv sample_verifier
                 (MemoryNonceStore_checkAndRecord tally_parse) as filler_nonces
      in er_valid (rs ! 0) \<and> er_valid (rs ! 2))"
proof -
  let ?as = "[sample_attempt ''A'' 100 0 0, sample_attempt ''B'' 200 99 100,
              sample_attempt ''A'' 100 99 100]"
  let ?verify = "EnvelopeVerifier_verify tally_parse sample_sigv sample_verifier
       (MemoryNonceStore_checkAndRecord tally_parse)"
  obtain r0 r1 r2 s where
    "?verify (sample_authorization ''A'' 100) 0 0 filler_nonces
       = (r0, filler_nonces @ [(''A'', Some 100)])" "er_valid r0"
    "?verify (sample_authorization ''B'' 200) 99 100 (filler_nonces @ [(''A'', Some 100)])
       = (r1, filler_nonces @ [(''B'', Some 200)])"
    "?verify (sample_authorization ''A'' 100) 99 100 (filler_nonces @ [(''B'', Some 200)])
       = (r2, s)" "er_valid r2"
    using verify_filler[of "[]" "''A''" 0 100 0]
      verify_filler[of "[(''A'', Some 100)]" "''B''" 99 200 100]
      verify_filler[of "[(''B'', Some 200)]" "''A''" 99 100 100]
    by (auto simp: filler_no_upper)
  then show ?thesis
    by (intro exI[of _ ?as]) (simp add: sample_attempt_def)
qed

end
