(* ===== verification/Gateway_Properties.thy ===== *)
theory Gateway_Properties
  imports Gateway Approval_Properties Envelope_Properties
begin

text \<open>
  The properties of the Execution Gateway: what a release proves, that nothing is released
  twice, that a refused request uses up no authorization, and that a replay is reported exactly
  when it is one.
\<close>

section \<open>A sample gateway\<close>

definition sample_hashes :: hashes where
  "sample_hashes = \<lparr>h_content = ec_target, h_policy = (\<lambda>p. the (policyId p)),
     h_signals = (\<lambda>sigs. concat (map fst sigs))\<rparr>"

definition sample_load :: "string \<Rightarrow> string \<Rightarrow> (string, policy) result" where
  "sample_load n w = (if n = ''payments'' \<and> w = ''1'' then Inr gated_policy else Inl ''not found'')"

definition sample_approved :: "string \<Rightarrow> string \<Rightarrow> string \<Rightarrow> (string, string option) result" where
  "sample_approved n w x = Inr None"

definition sample_approvals :: "memory_nonces signal_state_verifier" where
  "sample_approvals = sample_check"

definition sample_gateway :: "(unit, memory_nonces) gateway" where
  "sample_gateway = \<lparr>gw_envelope = sample_verifier, gw_policyRepository = Some sample_load,
     gw_policyApprovalVerifier = Some sample_approved, gw_signalStateVerifier = Some sample_approvals,
     gw_requirePolicyBinding = True, gw_release = ControlService\<rparr>"

lemma sample_gateway_created:
  "ExecutionGateway_create sample_verifier (Some sample_load) (Some sample_approved)
     (Some sample_approvals) None False (Some ControlService) = Inr sample_gateway"
  by (simp add: ExecutionGateway_create_def sample_gateway_def)

definition sample_execution :: execution_request where
  "sample_execution = \<lparr>xr_businessTransactionId = ''b1'', xr_action = ''pay'',
     xr_target = Some (JStr ''acct''), xr_parameters = [(''amount'', JNum (Fin 50))],
     xr_authorization = (sample_authorization ''A'' 20)
       \<lparr>sa_payload := (sample_payload ''A'' 20)\<lparr>ap_businessTransactionHash := ''acct'',
          ap_policyContentHash := Some ''payments'',
          ap_signalsHash := Some (concat (map fst one_approval_signals))\<rparr>\<rparr>,
     xr_signals = Some one_approval_signals\<rparr>"

definition sample_execute ::
  "int \<Rightarrow> int \<Rightarrow> memory_nonces \<times> memory_nonces
   \<Rightarrow> (gateway_error, gateway_release) result \<times> memory_nonces \<times> memory_nonces" where
  "sample_execute = ExecutionGateway_execute tally_parse sample_sigv sample_hashes
     (MemoryNonceStore_checkAndRecord tally_parse) sample_gateway sample_execution"

lemma sample_execute_releases:
  "\<exists>rel st. sample_execute 5 6 ([], []) = (Inr rel, st) \<and> length (released_approvals rel) = 1"
proof -
  have "case sample_execute 5 6 ([], []) of
      (Inl _, _) \<Rightarrow> False | (Inr rel, st) \<Rightarrow> length (released_approvals rel) = 1" by code_simp
  then show ?thesis by (auto split: prod.splits sum.splits)
qed

section \<open>Properties\<close>



text \<open>
  C29: no authorization is released twice.  In any sequence of requests to one gateway with an
  in-memory nonce store and a clock that does not run backwards, at most one request with a given
  signed payload is released before that payload expires, whatever the content, policy and signal
  checks answer and whatever other requests come between.
\<close>

theorem gateway_releases_once:
  assumes "sorted (map gl_clock cs)" and "i < j" and "j < length cs"
    and "sa_payload (xr_authorization (gl_request (cs ! j))) = p"
    and "sa_payload (xr_authorization (gl_request (cs ! i))) = p"
    and "live (gl_clock (cs ! j)) (dp (ap_expiresAt p))"
    and "ok (gateway_run dp sigv h (MemoryNonceStore_checkAndRecord dp) g cs (s, v) ! i)"
  shows "\<not> ok (gateway_run dp sigv h (MemoryNonceStore_checkAndRecord dp) g cs (s, v) ! j)"
  by (rule memory_nonce_store.released_once[OF assms])

definition sample_gateway_call :: "int \<Rightarrow> int \<Rightarrow> gateway_call" where
  "sample_gateway_call now clock =
     \<lparr>gl_request = sample_execution, gl_now = now, gl_clock = clock\<rparr>"

theorem gateway_releases_once_witness:
  "\<not> ok (gateway_run tally_parse sample_sigv sample_hashes (MemoryNonceStore_checkAndRecord tally_parse)
      sample_gateway [sample_gateway_call 5 6, sample_gateway_call 7 8] ([], []) ! 1)"
proof -
  let ?cs = "[sample_gateway_call 5 6, sample_gateway_call 7 8]"
  have "ok (gateway_run tally_parse sample_sigv sample_hashes
      (MemoryNonceStore_checkAndRecord tally_parse) sample_gateway ?cs ([], []) ! 0)"
    by code_simp
  then show ?thesis
    by (intro gateway_releases_once[where i = 0 and
          p = "sa_payload (xr_authorization sample_execution)"])
       (simp_all add: sample_gateway_call_def sample_execution_def sample_payload_def)
qed

text \<open>
  A refused request costs nothing.  Whenever \<open>execute\<close> throws, other than for an incomplete
  execution control configuration, the nonce store is as it was: a corrected request with the
  same authorization can still succeed.
\<close>

theorem refusal_keeps_authorization:
  assumes "ExecutionGateway_execute dp sigv h (MemoryNonceStore_checkAndRecord dp) g request now clock (s, v)
           = (Inl e, s', v')"
    and "e \<noteq> ExecutionControlIncomplete"
  shows "s' = s"
proof (cases "fst (ExecutionGateway_verify dp sigv h (MemoryNonceStore_checkAndRecord dp) g request
    now clock (s, v))")
  case (Inl e')
  with assms(1) show ?thesis
    by (auto simp: ExecutionGateway_execute_def ExecutionGateway_verify_def
        split: sum.splits prod.splits)
next
  case (Inr rc)
  obtain r content t w where v: "ExecutionGateway_verify dp sigv h (MemoryNonceStore_checkAndRecord dp)
      g request now clock (s, v) = (Inr (r, content), t, w)"
    using Inr by (metis prod.collapse)
  with assms have invalid: "\<not> gr_valid r" "s' = t"
    by (auto simp: ExecutionGateway_execute_def split: if_splits release_side.splits)
  from v obtain prior r0 where
    "(gc_nonceUnseen (gr_checks r), t) = (if prior then EnvelopeVerifier_consumeNonce
       (MemoryNonceStore_checkAndRecord dp) clock (xr_authorization request) s else (False, s))"
    "gr_valid r = (prior \<and> gc_nonceUnseen (gr_checks r))" by (rule gateway_verify_cases)
  with invalid show ?thesis
    using memory_nonce_store.accept_iff[of dp clock "ap_nonce (sa_payload (xr_authorization request))"
        "ap_expiresAt (sa_payload (xr_authorization request))" s]
      memory_nonce_store.reject_same[of s "ap_nonce (sa_payload (xr_authorization request))" dp clock
        "ap_expiresAt (sa_payload (xr_authorization request))"]
    by (auto simp: EnvelopeVerifier_consumeNonce_def split: if_splits dest: sym)
qed

theorem refusal_keeps_authorization_witness:
  "fst (snd (sample_execute 20 21 ([(''old'', None)], []))) = [(''old'', None)]"
proof -
  have "case sample_execute 20 21 ([(''old'', None)], []) of
      (Inl e, _) \<Rightarrow> e \<noteq> ExecutionControlIncomplete | (Inr _, _) \<Rightarrow> False" by code_simp
  then obtain e s' v' where x: "sample_execute 20 21 ([(''old'', None)], []) = (Inl e, s', v')"
    and e: "e \<noteq> ExecutionControlIncomplete" by (auto split: prod.splits sum.splits)
  from refusal_keeps_authorization[OF x[unfolded sample_execute_def] e] x show ?thesis by simp
qed

text \<open>
  A replay is reported exactly.  A gateway constructed without \<open>allowUnverifiedPolicy\<close> throws
  \<open>NonceAlreadyConsumedError\<close> only for an authorization whose nonce the store holds and which
  passes every other check: content hash, policy binding and signals included.
\<close>

theorem replay_error_exact:
  assumes "ExecutionGateway_create envl repo pav ssv allow conn ctl = Inr g" and "allow \<noteq> Some True"
    and "ExecutionGateway_execute dp sigv h (MemoryNonceStore_checkAndRecord dp) g request now clock (s, v)
           = (Inl (NonceAlreadyConsumedError t), s', v')"
  shows "t = xr_businessTransactionId request
     \<and> map_of s (ap_nonce (sa_payload (xr_authorization request))) \<noteq> None
     \<and> (\<exists>pol content. fst (EnvelopeVerifier_verifyChecks dp sigv (gw_envelope g) (xr_authorization request) now)
          \<and> h_content h content = ap_businessTransactionHash (sa_payload (xr_authorization request))
          \<and> policy_bound h g (sa_payload (xr_authorization request)) pol
          \<and> signals_hold h g request content (Some pol) v)"
proof -
  note req = create_requires[OF assms(1,2)]
  from assms(3) obtain r content where r:
    "ExecutionGateway_verify dp sigv h (MemoryNonceStore_checkAndRecord dp) g request now clock (s, v)
       = (Inr (r, content), s', v')"
    "\<not> gr_valid r" "ExecutionGateway_isSoleFailureNonceReplay r" "t = ec_businessTransactionId content"
    by (rule execute_nonce_error)
  from r(1) obtain prior r0 where c:
    "toExecutableContent (xr_businessTransactionId request) (xr_action request) (xr_target request)
       (xr_parameters request) = Inr content"
    "ExecutionGateway_priorChecks dp sigv h g request content now v = (Inr (prior, r0), v')"
    "(gc_nonceUnseen (gr_checks r), s') = (if prior then EnvelopeVerifier_consumeNonce
       (MemoryNonceStore_checkAndRecord dp) clock (xr_authorization request) s else (False, s))"
    "gr_valid r = (prior \<and> gc_nonceUnseen (gr_checks r))"
    "named_checks (gr_checks r) = named_checks (gr_checks r0)" by (rule gateway_verify_cases)
  have prior: "prior"
    using all_named_checks_passed[OF c(2)] req r(3) c(5)
    by (auto simp: ExecutionGateway_isSoleFailureNonceReplay_def)
  with c(3) r(2) c(4) have "\<not> fst (MemoryNonceStore_checkAndRecord dp clock
      (ap_nonce (sa_payload (xr_authorization request)))
      (ap_expiresAt (sa_payload (xr_authorization request))) s)"
    by (auto simp: EnvelopeVerifier_consumeNonce_def dest: arg_cong[where f = fst])
  then have "map_of s (ap_nonce (sa_payload (xr_authorization request))) \<noteq> None"
    unfolding memory_nonce_store.accept_iff .
  moreover from c(2) prior have "ExecutionGateway_priorChecks dp sigv h g request content now v
      = (Inr (True, r0), v')" by simp
  from this conjunct1[OF req] obtain pol where
    "fst (EnvelopeVerifier_verifyChecks dp sigv (gw_envelope g) (xr_authorization request) now)"
    "h_content h content = ap_businessTransactionHash (sa_payload (xr_authorization request))"
    "policy_bound h g (sa_payload (xr_authorization request)) pol"
    "signals_hold h g request content (Some pol) v" by (rule priorChecks_passed)
  moreover from c(1) r(4) have "t = xr_businessTransactionId request"
    by (auto simp: toExecutableContent_def split: option.splits json.splits if_splits)
  ultimately show ?thesis by blast
qed

theorem replay_error_exact_witness:
  "map_of [(''A'', Some (20 :: int))] (ap_nonce (sa_payload (xr_authorization sample_execution))) \<noteq> None
   \<and> (\<exists>s' v'. sample_execute 5 6 ([(''A'', Some 20)], []) = (Inl (NonceAlreadyConsumedError ''b1''), s', v'))"
proof -
  have "fst (sample_execute 5 6 ([(''A'', Some 20)], [])) = Inl (NonceAlreadyConsumedError ''b1'')"
    by code_simp
  then obtain s' v' where x: "sample_execute 5 6 ([(''A'', Some 20)], [])
      = (Inl (NonceAlreadyConsumedError ''b1''), s', v')" by (metis prod.collapse)
  from replay_error_exact[OF sample_gateway_created _ x[unfolded sample_execute_def]] x
  show ?thesis by blast
qed

end
