(* ===== verification/Intent_Properties.thy ===== *)
theory Intent_Properties
  imports Execution_Intents Envelope_Properties
begin

text \<open>
  The properties of Execution Intents: the invariant of the store, the lifecycle, resolution by an
  operator under interference, and the repair that rebuilds a missing trust record.
\<close>

definition sample_intent :: execution_intent where
  "sample_intent = \<lparr>ei_intentId = ''i1'', ei_businessTransactionId = ''b1'', ei_decisionId = ''d1'',
     ei_authorizationId = ''a1'', ei_policyName = ''payments'', ei_policyVersion = ''1'',
     ei_policyContentHash = None, ei_signalsHash = None, ei_businessTransactionHash = ''h'',
     ei_action = ''pay'', ei_target = ''acct'', ei_submittedBy = None, ei_grantedCapability = None,
     ei_createdAt = 5, ei_intentHash = ''x'', ei_signature = ''y''\<rparr>"

definition prepared_store :: "string intent_store" where
  "prepared_store = snd (MemoryIntents_create sample_intent [])"

definition released_store :: "string intent_store" where
  "released_store = MemoryIntents_markReleased ''b1'' ''ctx'' 7 prepared_store"

lemma prepared_reachable: "intent_steps [] prepared_store"
  unfolding prepared_store_def by (blast intro: step_create)

lemma released_reachable: "intent_steps [] released_store"
  unfolding released_store_def
  by (rule rtranclp.rtrancl_into_rtrancl[OF prepared_reachable]) (rule step_released)

section \<open>Properties\<close>

text \<open>
  The invariant of the intent store.  In every store reached from the empty one by any
  sequence of repository operations, an intent is stored once, under its own transaction; it
  carries a saved execution context exactly in state RELEASED and a trust record id exactly in
  state FINALIZED, a failure reason in state ERRORED, and a resolution with its note in state
  RESOLVED.
\<close>

theorem intent_store_invariant:
  assumes "intent_steps [] s"
  shows "store_ok s"
  using store_ok_steps[OF assms] by (simp add: store_ok_def)

theorem intent_store_invariant_witness: "store_ok released_store \<and> map_of released_store ''b1'' \<noteq> None"
  using intent_store_invariant[OF released_reachable]
  by (simp add: released_store_def prepared_store_def MemoryIntents_create_def
      MemoryIntents_markReleased_def sample_intent_def)

text \<open>
  The lifecycle only goes forward and the signed intent never changes.  Whatever operations
  any requests perform, a stored intent stays stored with the same signed content, and its state
  either stays, with the whole record, or rises in the order PREPARED, ERRORED, RELEASED,
  RESOLVED, FINALIZED.
\<close>

theorem intent_lifecycle_monotone:
  assumes "intent_steps s t" and "MemoryIntents_findByTransactionId s i = Some x"
  shows "\<exists>y. MemoryIntents_findByTransactionId t i = Some y \<and> si_intent y = si_intent x
     \<and> (y = x \<or> si_state x < si_state y)"
  using intent_steps_monotone assms by (auto simp: MemoryIntents_findByTransactionId_def)

theorem intent_lifecycle_monotone_witness:
  "\<exists>y. MemoryIntents_findByTransactionId released_store ''b1'' = Some y \<and> si_intent y = sample_intent"
proof -
  obtain x where x: "MemoryIntents_findByTransactionId prepared_store ''b1'' = Some x"
    "si_intent x = sample_intent"
    by (simp add: prepared_store_def memory_intents_defs sample_intent_def)
  have "intent_steps prepared_store released_store"
    unfolding released_store_def by (blast intro: step_released)
  from intent_lifecycle_monotone[OF this x(1)] x(2) show ?thesis by auto
qed

text \<open>
  Resolving an intent under interference.  Whatever other requests do to the repository
  between its three calls, \<open>resolve\<close> on an intent it found open either closes it itself (then the
  stored intent is RESOLVED or already FINALIZED after it), or reports that it was resolved by
  another request, or refuses because it was released or finalized meanwhile.  The fallbacks "not
  found" and "could not be resolved, try again" are never reached.
\<close>

theorem resolve_under_interference:
  assumes "\<And>s. intent_steps s (others1 s)" and "\<And>s. intent_steps s (others2 s)"
    and "MemoryIntents_findByTransactionId s i = Some x" and "si_state x = PREPARED \<or> si_state x = ERRORED"
    and "resolution_of res \<noteq> None" and "note_of note \<noteq> []"
    and "length (note_of note) \<le> MAX_RESOLUTION_NOTE_LENGTH"
    and "ExecutionIntentService_resolve MemoryIntents_findByTransactionId MemoryIntents_markResolved
           others1 others2 now i res note who s = (r, s')"
  shows "(\<exists>y. r = Inr (ResolvedNow, y) \<and> RESOLVED \<le> si_state y) \<or>
     (\<exists>y. r = Inr (AlreadyResolved, y) \<and> si_state y = RESOLVED) \<or>
     (\<exists>st. r = Inl (ExecutionIntentNotResolvableError i st) \<and> (st = RELEASED \<or> st = FINALIZED))"
proof -
  from assms(5) obtain rs where rs: "resolution_of res = Some rs" by auto
  let ?input = "\<lparr>rin_resolution = rs, rin_note = note_of note, rin_resolvedBy = who, rin_resolvedAt = now\<rparr>"
  let ?find = "MemoryIntents_findByTransactionId"
  from resolve_cases[OF assms(8,3,4) rs assms(6,7)] obtain moved s1 where
    m: "MemoryIntents_markResolved i ?input (others1 s) = (moved, s1)" "s' = others2 s1"
    and r: "case ?find s' i of
          None \<Rightarrow> r = Inl (ExecutionIntentNotFoundError i)
        | Some y \<Rightarrow>
            if moved then r = Inr (ResolvedNow, y)
            else if si_state y = RESOLVED then r = Inr (AlreadyResolved, y)
            else if si_state y = PREPARED \<or> si_state y = ERRORED then r = Inl ResolveDidNotApply
            else r = Inl (ExecutionIntentNotResolvableError i (si_state y))" by blast
  from intent_steps_monotone[OF assms(1)] assms(3) obtain z where z: "?find (others1 s) i = Some z"
    by (fastforce simp: MemoryIntents_findByTransactionId_def)
  show ?thesis
  proof (cases moved)
    case True
    with m(1) memory_intents.resolve_find[OF z, of ?input] obtain w where
      "?find s1 i = Some w" "si_state w = RESOLVED" by auto
    with intent_steps_monotone[OF assms(2), of s1 i w] m(2) obtain y where
      "?find s' i = Some y" "RESOLVED \<le> si_state y"
      by (force simp: MemoryIntents_findByTransactionId_def)
    with r True show ?thesis by auto
  next
    case False
    with m(1) memory_intents.resolve_refused[of i ?input "others1 s"] have "s1 = others1 s" by simp
    moreover from False m(1) z memory_intents.resolve_moves[of i ?input "others1 s"]
    have "si_state z \<noteq> PREPARED" "si_state z \<noteq> ERRORED" by auto
    moreover note intent_steps_monotone[OF assms(2), of s1 i z] z m(2)
    ultimately obtain y where "?find s' i = Some y" "y = z \<or> si_state z < si_state y"
      by (auto simp: MemoryIntents_findByTransactionId_def)
    with \<open>si_state z \<noteq> PREPARED\<close> \<open>si_state z \<noteq> ERRORED\<close>
    have "?find s' i = Some y" "si_state y \<noteq> PREPARED" "si_state y \<noteq> ERRORED"
      by (cases "si_state z"; cases "si_state y"; auto simp: less_intent_state_def)+
    with r False show ?thesis by (cases "si_state y") auto
  qed
qed

theorem resolve_under_interference_witness:
  "(\<exists>y. fst (ExecutionIntentService_resolve MemoryIntents_findByTransactionId MemoryIntents_markResolved
       id id 9 ''b1'' (Some (JStr ''EXECUTED'')) (Some (JStr ''checked'')) None prepared_store)
       = Inr (ResolvedNow, y))"
proof -
  obtain r s' where r: "ExecutionIntentService_resolve MemoryIntents_findByTransactionId
      MemoryIntents_markResolved id id 9 ''b1'' (Some (JStr ''EXECUTED'')) (Some (JStr ''checked''))
      None prepared_store = (r, s')" by fastforce
  obtain x where x: "MemoryIntents_findByTransactionId prepared_store ''b1'' = Some x"
    "si_state x = PREPARED"
    by (simp add: prepared_store_def memory_intents_defs sample_intent_def)
  have n: "note_of (Some (JStr ''checked'')) \<noteq> []"
    "length (note_of (Some (JStr ''checked''))) \<le> MAX_RESOLUTION_NOTE_LENGTH" by code_simp+
  from resolve_under_interference[OF _ _ x(1) _ _ n r] x(2)
  have "(\<exists>y. r = Inr (ResolvedNow, y)) \<or> (\<exists>y. r = Inr (AlreadyResolved, y)) \<or>
     (\<exists>st. r = Inl (ExecutionIntentNotResolvableError ''b1'' st))" by auto
  moreover have "case r of Inr (ResolvedNow, _) \<Rightarrow> True | _ \<Rightarrow> False"
  proof -
    have "case fst (ExecutionIntentService_resolve MemoryIntents_findByTransactionId
      MemoryIntents_markResolved id id 9 ''b1'' (Some (JStr ''EXECUTED'')) (Some (JStr ''checked''))
      None prepared_store) of Inr (ResolvedNow, _) \<Rightarrow> True | _ \<Rightarrow> False" by code_simp
    with r show ?thesis by simp
  qed
  ultimately show ?thesis using r by (auto split: sum.splits prod.splits resolve_outcome.splits)
qed

text \<open>
  The repair is idempotent.  After a successful \<open>finalize\<close> the trust record it returned is the
  stored one, the intent is FINALIZED, an existing record was not replaced, and running it again,
  at any time, returns the same record and changes nothing.
\<close>

theorem finalize_twice:
  assumes "ExecutionIntentFinalizer_finalize MemoryIntents_findByTransactionId MemoryIntents_markFinalized
             idOf (MemoryTrustRecords_create txOf) pipeline now i (s, rs) = (Inr (outcome, r), s', rs')"
    and "MemoryIntents_findByTransactionId s i = Some y"
    and "\<forall>c q. si_releasedContext y = Some c \<longrightarrow> pipeline c = Inr q \<longrightarrow> txOf q = i"
  shows "map_of rs' i = Some r
     \<and> (\<exists>x. MemoryIntents_findByTransactionId s' i = Some x \<and> si_state x = FINALIZED)
     \<and> (map_of rs i = None \<or> rs' = rs)
     \<and> ExecutionIntentFinalizer_finalize MemoryIntents_findByTransactionId MemoryIntents_markFinalized
         idOf (MemoryTrustRecords_create txOf) pipeline later i (s', rs')
       = (Inr (AlreadyFinalized, r), s', rs')"
  using memory_intents.finalize_done[OF assms(1,3,2)]
    memory_intents.finalize_idempotent[OF assms(1,3,2)] by blast

theorem finalize_twice_witness:
  "\<exists>s'. ExecutionIntentFinalizer_finalize MemoryIntents_findByTransactionId MemoryIntents_markFinalized
     id (MemoryTrustRecords_create (\<lambda>r. ''b1'')) Inr 8 ''b1'' (released_store, [])
       = (Inr (FinalizedNow, ''ctx''), s', [(''b1'', ''ctx'')]) \<and>
   ExecutionIntentFinalizer_finalize MemoryIntents_findByTransactionId MemoryIntents_markFinalized
     id (MemoryTrustRecords_create (\<lambda>r. ''b1'')) Inr 9 ''b1'' (s', [(''b1'', ''ctx'')])
       = (Inr (AlreadyFinalized, ''ctx''), s', [(''b1'', ''ctx'')])"
proof -
  obtain y where y: "MemoryIntents_findByTransactionId released_store ''b1'' = Some y"
    "si_releasedContext y = Some ''ctx''"
    by (simp add: released_store_def prepared_store_def memory_intents_defs sample_intent_def)
  then obtain s' where f: "ExecutionIntentFinalizer_finalize MemoryIntents_findByTransactionId
      MemoryIntents_markFinalized id (MemoryTrustRecords_create (\<lambda>r. ''b1'')) Inr 8 ''b1''
      (released_store, []) = (Inr (FinalizedNow, ''ctx''), s', [(''b1'', ''ctx'')])"
    by (simp add: ExecutionIntentFinalizer_finalize_def MemoryTrustRecords_create_def
        MemoryTrustRecords_findByTransactionId_def)
  from finalize_twice[OF f y(1)] f show ?thesis by auto
qed

end
