(* ===== verification/Runtime_Properties.thy ===== *)
theory Runtime_Properties
  imports Runtime Gateway_Properties Intent_Properties
begin

text \<open>
  The properties of the runtime: nothing is executed without an approval that a registered
  approver signed for it, the evidence that exists before and after a release, that a transaction
  is released once, what a refusal leaves behind, and that the gateway releases what the runtime
  authorized.
\<close>

section \<open>A sample engine\<close>

text \<open>
  The engine shares policies, hashes and approvals with the sample gateway; its world counts the
  executions.
\<close>

definition sample_transaction :: business_transaction where
  "sample_transaction = \<lparr>bt_businessTransactionId = ''b1'',
     bt_metadata = \<lparr>tm_businessTransactionId = ''b1'', tm_tenantId = None,
       tm_submittedBy = Some ''agent'', tm_grantedCapability = None\<rparr>,
     bt_authority = \<lparr>au_authorityId = ''u'', au_principalId = ''p''\<rparr>,
     bt_authorization = \<lparr>za_authorizationId = ''z'', za_authorityId = ''u'', za_purpose = ''pay''\<rparr>,
     bt_intent = \<lparr>in_intentId = ''i1'', in_authorizationId = ''z'', in_action = ''pay'',
       in_target = ''acct'', in_parameters = [(''amount'', JNum (Fin 50))]\<rparr>,
     bt_policy = pref ''payments'' ''1'' ''1'', bt_signals = Some one_approval_signals,
     bt_status = None, bt_createdAt = 0\<rparr>"

definition sample_refusal_crypto :: refusal_crypto where
  "sample_refusal_crypto = \<lparr>rc_algorithm = ''Ed25519'', rc_hash = rf_businessTransactionId,
     rc_sign = (\<lambda>r. Inr \<lparr>sg_algorithm = ''Ed25519'', sg_keyId = ''default'',
       sg_value = rf_refusalRecordId r, sg_signedAt = 0\<rparr>)\<rparr>"

definition sample_engine :: "(memory_nonces, nat, string) runtime_engine" where
  "sample_engine = \<lparr>re_repository = sample_load, re_rx = sample_rx, re_nstr = sample_nstr,
     re_hashes = sample_hashes, re_policyExecutionVerifier = Some (\<lambda>n w h. Inr None),
     re_anchorResolver = None, re_capabilityPolicyBinder = Some (None, None),
     re_signalStateVerifier = Some (CompositeSignalStateVerifier_findViolations [sample_check]),
     rt_refusalCrypto = Some sample_refusal_crypto, rt_notifier = True,
     rt_hasKey = (\<lambda>k. Inr False), rt_signer = (\<lambda>p k. Inr (ap_nonce p)), rt_algorithm = ''Ed25519'',
     rt_isoString = tally, rt_ttlSeconds = Fin (1 / 50), rt_readiness = Some (Inr ()),
     rt_intentCrypto = Some \<lparr>ic_hash = ei_intentId, ic_sign = (\<lambda>i. Inr ''s'')\<rparr>,
     rt_pipeline = [\<lambda>c w. (Inr c, Suc w)], rt_trustPipeline = (\<lambda>c. Inr (context_txId c))\<rparr>"

definition sample_inputs :: call_inputs where
  "sample_inputs = \<lparr>ci_decisionId = ''d1'', ci_evaluatedAt = 0, ci_refusalId = ''r1'', ci_refusedAt = 0,
     ci_authorizationId = ''a1'', ci_nonce = ''A'', ci_issuedAt = 0, ci_executionId = ''x1'',
     ci_startedAt = 0, ci_intentId = ''i1'', ci_preparedAt = 0, ci_releasedAt = 1, ci_others = id\<rparr>"

definition sample_state :: "(memory_nonces, nat) runtime_state" where
  "sample_state = \<lparr>rs_verifier = [], rs_refusals = [], rs_events = [], rs_intents = [], rs_world = 0\<rparr>"

definition sample_run ::
  "business_transaction \<Rightarrow> (runtime_error, runtime_context \<times> string) result \<times> (memory_nonces, nat) runtime_state" where
  "sample_run t = RuntimeEngine_execute sample_engine sample_inputs t sample_state"

text \<open>The same transaction without its approval.\<close>

definition refused_transaction :: business_transaction where
  "refused_transaction = sample_transaction\<lparr>bt_signals := Some [(''amount'', JNum (Fin 50))]\<rparr>"

section \<open>What the sample engine does\<close>

text \<open>
  The decision on the sample transaction, step by step, and what follows from it for every engine
  with the wiring of the sample engine, whatever its pipeline and its hashes.
\<close>

definition sample_decision :: policy_decision where
  "sample_decision = \<lparr>d_policyId = Some ''payments'', d_policyVersion = Some ''1'', d_outcome = APPROVE,
     d_reason = ''approved'', d_matchedRuleId = ''small'', d_evaluatedRules = 2,
     d_matchedPath = [Some ''large'', Some ''small'']\<rparr>"

definition sample_verdict :: "hashes \<Rightarrow> policy_verdict" where
  "sample_verdict h = \<lparr>pv_policy = gated_policy, pv_policyContentHash = h_policy h gated_policy,
     pv_governanceAnchor = None, pv_policyExecutionViolation = None, pv_capabilityBindingViolation = None,
     pv_bindingViolations = [], pv_decision = sample_decision\<rparr>"

definition sample_signed :: "hashes \<Rightarrow> signed_authorization" where
  "sample_signed h = \<lparr>sa_payload =
       \<lparr>ap_version = Some (JNum (Fin 1)), ap_authorizationId = ''a1'', ap_nonce = ''A'', ap_decisionId = ''d1'',
        ap_businessTransactionId = ''b1'', ap_policyName = ''payments'', ap_policyVersion = ''1'',
        ap_authorizedAt = tally 0, ap_expiresAt = tally 20,
        ap_businessTransactionHash = h_content h (transaction_content sample_transaction),
        ap_policyContentHash = Some (h_policy h gated_policy),
        ap_signalsHash = Some (h_signals h one_approval_signals), ap_submittedBy = Some ''agent'',
        ap_grantedCapability = None\<rparr>,
     sa_signature = ''A'', sa_keyId = ''default'', sa_algorithm = ''Ed25519''\<rparr>"

definition sample_wiring :: "(memory_nonces, 'w, 'r) runtime_engine \<Rightarrow> bool" where
  "sample_wiring e \<longleftrightarrow> re_repository e = sample_load \<and> re_rx e = sample_rx \<and> re_nstr e = sample_nstr
     \<and> re_anchorResolver e = None \<and> re_policyExecutionVerifier e = Some (\<lambda>n w h. Inr None)
     \<and> re_capabilityPolicyBinder e = Some (None, None)
     \<and> re_signalStateVerifier e = Some (CompositeSignalStateVerifier_findViolations [sample_check])
     \<and> rt_hasKey e = (\<lambda>k. Inr False) \<and> rt_signer e = (\<lambda>p k. Inr (ap_nonce p))
     \<and> rt_algorithm e = ''Ed25519'' \<and> rt_isoString e = tally \<and> rt_ttlSeconds e = Fin (1 / 50)
     \<and> rt_readiness e = Some (Inr ())
     \<and> rt_intentCrypto e = Some \<lparr>ic_hash = ei_intentId, ic_sign = (\<lambda>i. Inr ''s'')\<rparr>"

lemma sample_loads:
  "\<exists>cs. PolicyRouter_load sample_rx sample_nstr sample_load ''payments'' ''1'' = Inr (gated_policy, cs)"
proof -
  have "sample_load ''payments'' ''1'' = Inr gated_policy" by (simp add: sample_load_def)
  moreover have "ok (findRuleConflicts gated_policy)" by code_simp
  ultimately show ?thesis using gated_policy_valid by (auto simp: PolicyRouter_load_def ok_iff)
qed

lemma sample_signals: "transaction_signals sample_transaction = one_approval_signals"
  by (simp add: transaction_signals_def sample_transaction_def)

lemma sample_binds: "RuntimeEngine_bindingViolations sample_transaction gated_policy None None = Inr []"
proof -
  have "resolveIntentPath (intent_object sample_transaction) ''parameters.amount'' = Some (JNum (Fin 50))"
    by code_simp
  then show ?thesis
    by (simp add: RuntimeEngine_bindingViolations_def SignalIntentBinder_findViolations_def gated_policy_def
        sample_policy_def sample_signals one_approval_signals_def gated_signals_def)
qed

lemma sample_evaluates: "PolicyEngine_evaluate sample_rx gated_policy one_approval_signals = Inr sample_decision"
  by (simp add: PolicyEngine_evaluate_def gated_policy_def sample_policy_def one_approval_signals_def
      gated_signals_def sample_decision_def reject_rule_def approve_rule_def policy_defs)

lemma runtime_sample_checks:
  "sample_check (authorize_request sample_transaction gated_policy) one_approval_signals []
     = (Inr [], [(''n1'', Some 10)])"
  by code_simp

lemma sample_decides:
  assumes "sample_wiring e"
  shows "RuntimeEngine_decide (decision_engine.truncate e) sample_transaction []
     = (Inr (sample_verdict (re_hashes e)), [(''n1'', Some 10)])"
proof -
  have p: "pr_name (bt_policy sample_transaction) = ''payments''" "pr_version (bt_policy sample_transaction) = ''1''"
    by (simp_all add: sample_transaction_def pref_def)
  have b: "CapabilityPolicyBinder_findViolation None None (in_action (bt_intent sample_transaction))
      (bt_policy sample_transaction) = None" by code_simp
  obtain cs where l: "PolicyRouter_load sample_rx sample_nstr sample_load ''payments'' ''1'' = Inr (gated_policy, cs)"
    using sample_loads by blast
  have d: "d_outcome sample_decision = APPROVE" by (simp add: sample_decision_def)
  show ?thesis
    using assms unfolding sample_wiring_def
    by (simp add: RuntimeEngine_decide_def decision_engine.truncate_def p l Let_def RuntimeEngine_governanceAnchor_def
      RuntimeEngine_policyExecutionViolation_def RuntimeEngine_capabilityBindingViolation_def b sample_binds
      RuntimeEngine_provisionalDecision_def sample_signals sample_evaluates RuntimeEngine_stateViolations_def
      d runtime_sample_checks RuntimeEngine_policyDecision_def sample_verdict_def)
qed

lemma sample_content:
  "toExecutableContent (bt_businessTransactionId sample_transaction) (in_action (bt_intent sample_transaction))
     (Some (JStr (in_target (bt_intent sample_transaction)))) (in_parameters (bt_intent sample_transaction))
   = Inr (transaction_content sample_transaction)"
  by code_simp

lemma sample_authorizes:
  assumes "sample_wiring e"
  shows "\<exists>c. RuntimeEngine_authorize e sample_inputs sample_transaction (sample_verdict (re_hashes e))
       (DecisionBuilder_build ''d1'' 0 sample_transaction sample_decision) = Inr c
     \<and> cx_authorization c = Some (sample_signed (re_hashes e)) \<and> context_txId c = ''b1''
     \<and> bt_intent (cx_transaction c) = bt_intent sample_transaction
     \<and> bt_signals (cx_transaction c) = bt_signals sample_transaction"
proof -
  have t: "expiry_time 0 (1 / 50) = 20" "valid_time 0" "valid_time 20"
    by (simp_all add: expiry_time_def valid_time_def date_max_def)
  show ?thesis
    using assms unfolding sample_wiring_def
    by (simp add: RuntimeEngine_authorize_def sample_content RuntimeAuthorizationSigner_sign_def
        AuthorizationSigner_signWithSigner_def AuthorizationSigner_buildPayload_def Let_def t sample_inputs_def
        authorization_input_of_def sample_signed_def sample_signals sample_verdict_def DecisionBuilder_build_def
        FileTenantKeyResolver_resolveKeyId_def, simp add: sample_transaction_def pref_def DEFAULT_KEY_ID_def)
qed

lemma sample_releases:
  assumes "sample_wiring e" "rs_verifier st = []" "rs_intents st = []"
  shows "\<exists>c is'. released_context e sample_inputs sample_transaction st (sample_verdict (re_hashes e)) c is'
       [(''n1'', Some 10)] \<and> cx_authorization c = Some (sample_signed (re_hashes e)) \<and> context_txId c = ''b1''
     \<and> bt_intent (cx_transaction c) = bt_intent sample_transaction
     \<and> bt_signals (cx_transaction c) = bt_signals sample_transaction"
proof -
  from sample_authorizes[OF assms(1)] obtain c where
    c: "RuntimeEngine_authorize e sample_inputs sample_transaction (sample_verdict (re_hashes e))
       (DecisionBuilder_build ''d1'' 0 sample_transaction sample_decision) = Inr c"
    "cx_authorization c = Some (sample_signed (re_hashes e))" "context_txId c = ''b1''"
    "bt_intent (cx_transaction c) = bt_intent sample_transaction"
    "bt_signals (cx_transaction c) = bt_signals sample_transaction" by blast
  then have "fst (RuntimeEngine_prepareIntent e sample_inputs c []) = Inr ()"
    using assms(1) by (simp add: sample_wiring_def RuntimeEngine_prepareIntent_def
        ExecutionIntentBuilder_build_def Let_def ExecutionIntentService_prepare_def MemoryIntents_create_def)
  then obtain is' where "RuntimeEngine_prepareIntent e sample_inputs c [] = (Inr (), is')" by (metis prod.collapse)
  moreover have "ci_decisionId sample_inputs = ''d1''" "ci_evaluatedAt sample_inputs = 0"
    "pv_decision (sample_verdict (re_hashes e)) = sample_decision" "d_outcome sample_decision = APPROVE"
    by (simp_all add: sample_inputs_def sample_verdict_def sample_decision_def)
  moreover have "rt_readiness e = Some (Inr ())" using assms(1) by (simp add: sample_wiring_def)
  ultimately show ?thesis using sample_decides[OF assms(1)] c assms(2,3) unfolding released_context_def by metis
qed

definition exact_request :: "signed_authorization \<Rightarrow> execution_request" where
  "exact_request a = \<lparr>xr_businessTransactionId = ''b1'', xr_action = ''pay'',
     xr_target = Some (JStr ''acct''), xr_parameters = [(''amount'', JNum (Fin 50))],
     xr_authorization = a, xr_signals = Some one_approval_signals\<rparr>"

lemma released_runs:
  assumes "released_context e inputs t st pv c is' v'"
  shows "RuntimeEngine_execute e inputs t st = RuntimeEngine_release e inputs c (st\<lparr>rs_verifier := v'\<rparr>)"
  using assms enforce_Inr[of "DecisionBuilder_build (ci_decisionId inputs) (ci_evaluatedAt inputs) t (pv_decision pv)"]
  by (auto simp: released_context_def RuntimeEngine_execute_def Let_def split: sum.splits)

lemma sample_engine_wired: "sample_wiring sample_engine"
  by (simp add: sample_wiring_def sample_engine_def)

lemma sample_run_executes: "rs_world (snd (sample_run sample_transaction)) = 1"
proof -
  from sample_releases[OF sample_engine_wired, of sample_state] obtain c is' where
    r: "released_context sample_engine sample_inputs sample_transaction sample_state
       (sample_verdict (re_hashes sample_engine)) c is' [(''n1'', Some 10)]"
    by (auto simp: sample_state_def)
  from r have p: "RuntimeEngine_prepareIntent sample_engine sample_inputs c (rs_intents sample_state) = (Inr (), is')"
    by (simp add: released_context_def)
  have e: "rt_readiness sample_engine = Some (Inr ())" "rt_pipeline sample_engine = [\<lambda>c w. (Inr c, Suc w)]"
    "rt_trustPipeline sample_engine c = Inr (context_txId c)" "rs_world sample_state = 0"
    by (simp_all add: sample_engine_def sample_state_def)
  show ?thesis unfolding sample_run_def released_runs[OF r] by (simp add: RuntimeEngine_release_def p e Let_def)
qed

lemma sample_world_changed: "rs_world (snd (sample_run sample_transaction)) \<noteq> rs_world sample_state"
  by (simp add: sample_run_executes sample_state_def)

lemma refused_run_denied:
  "(case fst (sample_run refused_transaction) of Inl (Denied _) \<Rightarrow> True | _ \<Rightarrow> False)"
  by code_simp

section \<open>Properties\<close>

text \<open>
  Nothing runs unapproved.  When a call changes anything outside the engine, the change is that
  of the pipeline run on a context whose authorization carries the hashes of the transaction's own
  content, of the loaded policy and of the signals; that policy is valid, accepted by policy
  governance and by the capability binding; its bound signals are those of the intent; its rules
  approve the signals; and the signal state verifier is wired and found nothing to object to.
\<close>

theorem nothing_runs_unapproved:
  assumes "RuntimeEngine_execute e inputs t st = (r, st')" and "rs_world st' \<noteq> rs_world st"
  shows "\<exists>pol d v' c a. approval_grounds (decision_engine.truncate e) t pol d (rs_verifier st) v'
     \<and> cx_authorization c = Some a \<and> authorizes (re_hashes e) t pol (sa_payload a)
     \<and> rs_world st' = snd (RuntimePipeline_execute (rt_pipeline e) c (rs_world st))"
  using assms(1)
proof (cases rule: execute_cases)
  case (released pv c is' v')
  from released(1) obtain a where "cx_authorization c = Some a"
    "authorizes (re_hashes e) t (pv_policy pv) (sa_payload a)" by (rule released_context_authorizes)
  moreover from released have "rs_world st' = snd (RuntimePipeline_execute (rt_pipeline e) c (rs_world st))"
    by (auto simp: released_context_def RuntimeEngine_release_def Let_def split: sum.splits prod.splits)
  ultimately show ?thesis using released_grounds[OF released(1)] by blast
qed (use assms(2) in simp)

theorem nothing_runs_unapproved_witness:
  "\<exists>pol p. authorizes sample_hashes sample_transaction pol p"
proof -
  obtain r st' where x: "sample_run sample_transaction = (r, st')" by force
  with sample_world_changed have "rs_world st' \<noteq> rs_world sample_state" by simp
  from nothing_runs_unapproved[OF x[unfolded sample_run_def] this] obtain pol p
    where "authorizes (re_hashes sample_engine) sample_transaction pol p" by blast
  moreover have "re_hashes sample_engine = sample_hashes" by (simp add: sample_engine_def)
  ultimately show ?thesis by auto
qed



text \<open>
  No release without evidence.  With execution intents on, and other requests free to act on
  the stored intents while the pipeline runs, a call that changes anything outside the engine
  found no intent for its transaction and leaves one behind that names the authorization and its
  hashes and is no longer \<open>PREPARED\<close>, whether the call returned or threw.
\<close>

theorem release_leaves_intent:
  assumes "RuntimeEngine_execute e inputs t st = (r, st')" and "rs_world st' \<noteq> rs_world st"
    and "rt_intentCrypto e \<noteq> None" and "\<forall>s. intent_steps s (ci_others inputs s)"
    and "\<forall>d w. \<forall>d' w'. RuntimePipeline_execute (rt_pipeline e) d w = (Inr d', w') \<longrightarrow> context_txId d' = context_txId d"
  shows "map_of (rs_intents st) (bt_businessTransactionId t) = None
     \<and> (\<exists>x p pol. map_of (rs_intents st') (bt_businessTransactionId t) = Some x \<and> PREPARED < si_state x
          \<and> authorizes (re_hashes e) t pol p \<and> ei_authorizationId (si_intent x) = ap_authorizationId p
          \<and> ei_businessTransactionHash (si_intent x) = ap_businessTransactionHash p
          \<and> ei_policyContentHash (si_intent x) = ap_policyContentHash p
          \<and> ei_signalsHash (si_intent x) = ap_signalsHash p)"
  using assms(1)
proof (cases rule: execute_cases)
  case (released pv c is' v')
  note i = released_intent[OF released assms(3) spec[OF assms(4)] assms(5)]
  from released(1) obtain a where "cx_authorization c = Some a"
    "authorizes (re_hashes e) t (pv_policy pv) (sa_payload a)" by (rule released_context_authorizes)
  with i show ?thesis by force
qed (use assms(2) in simp)

lemma sample_pipeline_keeps:
  "\<forall>d w. \<forall>d' w'. RuntimePipeline_execute (rt_pipeline sample_engine) d w = (Inr d', w') \<longrightarrow>
     context_txId d' = context_txId d"
  by (auto simp: sample_engine_def)

lemma sample_intents_on: "rt_intentCrypto sample_engine \<noteq> None"
  by (simp add: sample_engine_def)

lemma sample_others: "\<forall>s. intent_steps s (ci_others sample_inputs s)"
  by (simp add: sample_inputs_def)

theorem release_leaves_intent_witness:
  "\<exists>x. map_of (rs_intents (snd (sample_run sample_transaction))) ''b1'' = Some x \<and> PREPARED < si_state x"
proof -
  obtain r st' where x: "sample_run sample_transaction = (r, st')" by force
  with sample_world_changed have w: "rs_world st' \<noteq> rs_world sample_state" by simp
  from release_leaves_intent[OF x[unfolded sample_run_def] w sample_intents_on sample_others
      sample_pipeline_keeps] x show ?thesis by (auto simp: sample_transaction_def)
qed

text \<open>
  C4: a transaction is executed at most once.  With execution intents on, once a call has changed
  anything outside the engine, no later call for a transaction with the same id does, whatever
  happened to the intents in between and even if the later call is approved.
\<close>

theorem transaction_executes_once:
  assumes "RuntimeEngine_execute e inputs t st = (r, st1)" and "rs_world st1 \<noteq> rs_world st"
    and "rt_intentCrypto e \<noteq> None" and "\<forall>s. intent_steps s (ci_others inputs s)"
    and "\<forall>d w. \<forall>d' w'. RuntimePipeline_execute (rt_pipeline e) d w = (Inr d', w') \<longrightarrow> context_txId d' = context_txId d"
    and "intent_steps (rs_intents st1) (rs_intents st2)"
    and "bt_businessTransactionId u = bt_businessTransactionId t"
    and "RuntimeEngine_execute e inputs2 u st2 = (r2, st3)" and "\<forall>s. intent_steps s (ci_others inputs2 s)"
  shows "rs_world st3 = rs_world st2 \<and> (\<exists>x. r2 = Inl x)"
  using assms(8)
proof (cases rule: execute_cases)
  case late: (released pv c is' v')
  show ?thesis using assms(1)
  proof (cases rule: execute_cases)
    case (released pv1 c1 is1 v1)
    from released_intent(2)[OF released assms(3) spec[OF assms(4)] assms(5)] obtain x
      where x: "map_of (rs_intents st1) (bt_businessTransactionId t) = Some x" by blast
    from intent_steps_monotone[OF assms(6) this] have "map_of (rs_intents st2) (bt_businessTransactionId t) \<noteq> None"
      by blast
    with released_intent(1)[OF late assms(3) spec[OF assms(9)] assms(5)] assms(7) show ?thesis by simp
  qed (use assms(2) in simp)
qed simp

theorem transaction_executes_once_witness:
  "rs_world (snd (RuntimeEngine_execute sample_engine sample_inputs sample_transaction
     ((snd (sample_run sample_transaction))\<lparr>rs_verifier := []\<rparr>))) = 1"
proof -
  obtain r st1 where x: "sample_run sample_transaction = (r, st1)" by force
  with sample_world_changed have w: "rs_world st1 \<noteq> rs_world sample_state" by simp
  obtain r2 st3 where y: "RuntimeEngine_execute sample_engine sample_inputs sample_transaction
      (st1\<lparr>rs_verifier := []\<rparr>) = (r2, st3)" by force
  from transaction_executes_once[OF x[unfolded sample_run_def] w sample_intents_on sample_others
      sample_pipeline_keeps _ refl y sample_others] x y sample_run_executes show ?thesis by simp
qed

text \<open>
  A refusal executes nothing and can be proved.  A call that ends in \<open>POLICY_DENIED\<close> changes
  nothing outside the engine and no intent; with refusal recording on and a signer that signs, it
  stores a record of the rejecting decision under the transaction id, and that record passes
  \<open>RefusalCrypto.verify\<close>, for every signature check that accepts what the signer signs.
\<close>

theorem refusal_recorded:
  assumes "RuntimeEngine_execute e inputs t st = (Inl (Denied g), st')"
    and "rt_refusalCrypto e = Some crypto" and "\<forall>x. \<exists>s. rc_sign crypto x = Inr s"
    and "\<forall>x s. rc_sign crypto x = Inr s \<longrightarrow> check x s"
  shows "rs_world st' = rs_world st \<and> rs_intents st' = rs_intents st
     \<and> (\<exists>rec. MemoryRefusals_findByTransactionId (rs_refusals st') (bt_businessTransactionId t) = Some rec
          \<and> dn_outcome (rf_decision rec) = REJECTED \<and> RefusalCrypto_verify crypto check rec
          \<and> g = PolicyDenied (''Execution rejected: '' @ the (dn_reason (rf_decision rec))))"
proof -
  from assms(1) obtain pv v' where p:
    "RuntimeEngine_decide (decision_engine.truncate e) t (rs_verifier st) = (Inr pv, v')"
    by (auto simp: RuntimeEngine_execute_def split: prod.splits sum.splits)
  define d where "d = DecisionBuilder_build (ci_decisionId inputs) (ci_evaluatedAt inputs) t (pv_decision pv)"
  have no_denial: "fst (RuntimeEngine_release e inputs c s) \<noteq> Inl (Denied g)" for c s
    by (auto simp: RuntimeEngine_release_def RuntimeEngine_recordIncomplete_def Let_def
        split: sum.splits prod.splits option.splits elim: RuntimeEngine_outcomeUnknown.elims)
  have "RuntimeEngine_authorize e inputs t pv d \<noteq> Inl (Denied g)"
    by (auto simp: RuntimeEngine_authorize_def Let_def split: sum.splits)
  with assms(1) p no_denial have "dn_outcome d \<noteq> APPROVED"
    by (auto simp: RuntimeEngine_execute_def d_def[symmetric] Let_def split: sum.splits)
       (simp add: ExecutionGate_enforce_def ExecutionGate_canExecute_def, metis fst_conv)
  with assms(1) p have enf: "ExecutionGate_enforce d = Inl g"
    and st': "st' = RuntimeEngine_afterRefusal e inputs t pv d (st\<lparr>rs_verifier := v'\<rparr>)"
    by (auto simp: RuntimeEngine_execute_def d_def[symmetric] Let_def enforce_Inr split: sum.splits)
  from enf have rej: "dn_outcome d = REJECTED" "g = PolicyDenied (''Execution rejected: '' @ the (dn_reason d))"
    by (cases "dn_outcome d"; auto simp: ExecutionGate_enforce_def ExecutionGate_canExecute_def d_def
        DecisionBuilder_build_def)+
  obtain rec where rec: "RefusalRecordBuilder_build crypto (ci_refusalId inputs) (ci_refusedAt inputs)
      (bt_businessTransactionId t) d (in_target (bt_intent t)) (in_parameters (bt_intent t))
      (pv_bindingViolations pv) (tm_submittedBy (bt_metadata t)) = Inr rec"
    using refusal_record_built[OF assms(3)] by blast
  have "rs_refusals st' = MemoryRefusals_create rec (rs_refusals st)"
    unfolding st' by (auto simp: RuntimeEngine_afterRefusal_def RuntimeEngine_writeRefusalRecord_def
        assms(2) rec Let_def split: option.splits)
  with refusal_record_verifies[OF rec assms(4)] rej st' show ?thesis
    by (simp add: MemoryRefusals_findByTransactionId_def MemoryRefusals_create_def)
qed

theorem refusal_recorded_witness:
  "\<exists>rec. map_of (rs_refusals (snd (sample_run refused_transaction))) ''b1'' = Some rec
     \<and> RefusalCrypto_verify sample_refusal_crypto (\<lambda>x s. sg_value s = rf_refusalRecordId x) rec"
proof -
  obtain g st' where x: "sample_run refused_transaction = (Inl (Denied g), st')"
    using refused_run_denied by (cases "sample_run refused_transaction")
      (auto split: sum.splits runtime_error.splits)
  have c: "rt_refusalCrypto sample_engine = Some sample_refusal_crypto" by (simp add: sample_engine_def)
  from refusal_recorded[OF x[unfolded sample_run_def] c, of "\<lambda>x s. sg_value s = rf_refusalRecordId x"] x
  show ?thesis
    by (auto simp: sample_refusal_crypto_def MemoryRefusals_findByTransactionId_def refused_transaction_def
        sample_transaction_def)
qed

text \<open>
  The gateway releases what the runtime authorized.  Let a call of the engine authorize a
  transaction, and let a gateway built without \<open>allowUnverifiedPolicy\<close>, with the same hashes,
  release any request that carries the signed payload of that authorization.  If no other content,
  policy or signals have the hashes that were signed, then the released content is the action,
  target and parameters of the transaction, the policy in force at the gateway is the policy the
  engine evaluated, and approvals are passed on only from the signals the engine evaluated.
\<close>

theorem gateway_releases_authorized:
  assumes "released_context e inputs t st pv c is' v'" and "cx_authorization c = Some a"
    and "ExecutionGateway_create envl repo pav ssv allow conn ctl = Inr g" and "allow \<noteq> Some True"
    and "ExecutionGateway_execute dp sigv (re_hashes e) (MemoryNonceStore_checkAndRecord dp) g request
           now clock (s, w) = (Inr rel, gst)"
    and "sa_payload (xr_authorization request) = sa_payload a"
    and "\<forall>x. h_content (re_hashes e) x = h_content (re_hashes e) (transaction_content t) \<longrightarrow> x = transaction_content t"
    and "\<forall>x. h_policy (re_hashes e) x = h_policy (re_hashes e) (pv_policy pv) \<longrightarrow> x = pv_policy pv"
    and "\<forall>x. h_signals (re_hashes e) x = h_signals (re_hashes e) (transaction_signals t) \<longrightarrow> x = transaction_signals t"
  shows "released_content rel = transaction_content t
     \<and> policy_bound (re_hashes e) g (sa_payload a) (pv_policy pv)
     \<and> (released_approvals rel = [] \<or> xr_signals request = Some (transaction_signals t))"
proof -
  from assms(1) obtain b where "cx_authorization c = Some b"
    "authorizes (re_hashes e) t (pv_policy pv) (sa_payload b)" by (rule released_context_authorizes)
  with assms(2) have auth: "ap_businessTransactionHash (sa_payload a) = h_content (re_hashes e) (transaction_content t)"
    "ap_policyContentHash (sa_payload a) = Some (h_policy (re_hashes e) (pv_policy pv))"
    "ap_signalsHash (sa_payload a) = Some (h_signals (re_hashes e) (transaction_signals t))"
    by (simp_all add: authorizes_def)
  from release_sound[OF assms(3-5)] assms(6) obtain pol where r:
    "h_content (re_hashes e) (released_content rel) = ap_businessTransactionHash (sa_payload a)"
    "policy_bound (re_hashes e) g (sa_payload a) pol"
    "released_approvals rel = [] \<or> (\<exists>sigs. xr_signals request = Some sigs
       \<and> ap_signalsHash (sa_payload a) = Some (h_signals (re_hashes e) sigs))" by auto
  from r(2) auth(2) assms(8) have "pol = pv_policy pv" by (auto simp: policy_bound_def)
  with r auth assms(7,9) show ?thesis by auto
qed

text \<open>An engine and a gateway whose hashes tell the sample transaction from everything else.\<close>

definition exact_hashes :: hashes where
  "exact_hashes = \<lparr>
     h_content = (\<lambda>x. if x = transaction_content sample_transaction then ''c'' else ''x''),
     h_policy = (\<lambda>x. if x = gated_policy then ''p'' else ''x''),
     h_signals = (\<lambda>x. if x = one_approval_signals then ''s'' else ''x'')\<rparr>"

definition exact_engine :: "(memory_nonces, nat, string) runtime_engine" where
  "exact_engine = sample_engine\<lparr>re_hashes := exact_hashes\<rparr>"

lemma exact_engine_wired: "sample_wiring exact_engine"
  by (simp add: sample_wiring_def exact_engine_def sample_engine_def)

text \<open>The gateway releases what the engine authorizes.\<close>

lemma exact_released: "ok (fst (ExecutionGateway_execute tally_parse sample_sigv exact_hashes
    (MemoryNonceStore_checkAndRecord tally_parse) sample_gateway (exact_request (sample_signed exact_hashes))
    5 6 ([], [])))"
  by code_simp

lemma exact_hashes_apart:
  "\<forall>x. h_content exact_hashes x = h_content exact_hashes (transaction_content sample_transaction) \<longrightarrow>
     x = transaction_content sample_transaction"
  "\<forall>x. h_policy exact_hashes x = h_policy exact_hashes gated_policy \<longrightarrow> x = gated_policy"
  "\<forall>x. h_signals exact_hashes x = h_signals exact_hashes (transaction_signals sample_transaction) \<longrightarrow>
     x = transaction_signals sample_transaction"
  by (simp_all add: exact_hashes_def transaction_signals_def sample_transaction_def)

theorem gateway_releases_authorized_witness:
  "\<exists>rel. released_content rel = transaction_content sample_transaction"
proof -
  let ?e = exact_engine and ?a = "sample_signed exact_hashes"
  have e: "re_hashes ?e = exact_hashes" "rs_verifier sample_state = []" "rs_intents sample_state = []"
    by (simp_all add: exact_engine_def sample_state_def)
  from sample_releases[OF exact_engine_wired e(2,3)] obtain c is' where
    rc: "released_context ?e sample_inputs sample_transaction sample_state (sample_verdict exact_hashes) c is'
       [(''n1'', Some 10)]" "cx_authorization c = Some ?a" unfolding e(1) by blast
  from exact_released obtain rel st where rel: "ExecutionGateway_execute tally_parse sample_sigv (re_hashes ?e)
      (MemoryNonceStore_checkAndRecord tally_parse) sample_gateway (exact_request ?a) 5 6 ([], []) = (Inr rel, st)"
    unfolding e(1) ok_iff by (metis prod.collapse)
  have p: "sa_payload (xr_authorization (exact_request ?a)) = sa_payload ?a" by (simp add: exact_request_def)
  have v: "pv_policy (sample_verdict exact_hashes) = gated_policy" by (simp add: sample_verdict_def)
  have "released_content rel = transaction_content sample_transaction"
    using gateway_releases_authorized[OF rc(1) rc(2) sample_gateway_created option.distinct(1) rel p,
        unfolded e(1) v, OF exact_hashes_apart] by (rule conjunct1)
  then show ?thesis by (rule exI)
qed

end
