(* ===== verification/Application_Properties.thy ===== *)
theory Application_Properties
  imports Trust_Properties Runtime_Properties
begin

text \<open>
  Properties of the application: what a returned trust record proves, that it is returned, and
  that every stored record keeps verifying.
\<close>

section \<open>From the runtime to the record\<close>

lemma authorize_clean:
  "RuntimeEngine_authorize e inputs t pv d = Inr c \<Longrightarrow>
     cx_override c = None \<and> cx_verification c = None \<and> cx_receipt c = None"
  by (auto simp: RuntimeEngine_authorize_def Let_def split: sum.splits)

lemma factory_simps [simp]:
  "re_hashes (RuntimeFactory_create k inputs system e) = re_hashes e"
  "rt_trustPipeline (RuntimeFactory_create k inputs system e) =
     BusinessTrustPipeline_execute k (ai_trustRecordId inputs) (ai_recordedAt inputs) (ai_recordSignedAt inputs)"
  by (simp_all add: RuntimeFactory_create_def)

text \<open>What the runtime has done when it hands out a record.\<close>

definition produced ::
  "record_crypto \<Rightarrow> 'x execution_system \<Rightarrow> hashes \<Rightarrow> app_inputs \<Rightarrow> business_transaction \<Rightarrow> 'x \<Rightarrow> 'x \<Rightarrow> trust_record \<Rightarrow> bool" where
  "produced k system h inputs t s s' r \<longleftrightarrow>
     (\<exists>c x a pol. BusinessTrustRecordBuilder_build k (ai_trustRecordId inputs) (ai_recordedAt inputs)
          (ai_recordSignedAt inputs) c = Inr r
        \<and> cx_execution c = Some x \<and> cx_authorization c = Some a \<and> executed k system c s s' a x
        \<and> authorizes h t pol (sa_payload a)
        \<and> ap_authorizationId (sa_payload a) = ci_authorizationId (ai_call inputs)
        \<and> bt_businessTransactionId (cx_transaction c) = bt_businessTransactionId t
        \<and> bt_intent (cx_transaction c) = bt_intent t \<and> bt_signals (cx_transaction c) = bt_signals t
        \<and> dn_outcome (cx_decision c) = APPROVED
        \<and> cx_override c = None \<and> cx_verification c = None \<and> cx_receipt c = None)"

lemma executed_context [simp]:
  "executed k system (c\<lparr>cx_execution := y\<rparr>) s s' a x \<longleftrightarrow> executed k system c s s' a x"
  by (simp add: executed_def)

lemma engine_produced:
  assumes "RuntimeEngine_execute (RuntimeFactory_create k inputs system e) (ai_call inputs) t st = (Inr (c', r), st')"
  shows "produced k system (re_hashes e) inputs t (aw_system (rs_world st)) (aw_system (rs_world st')) r"
  using assms
proof (cases rule: execute_cases)
  case (released pv c is' v')
  let ?e = "RuntimeFactory_create k inputs system e"
  from released(1) have d: "RuntimeEngine_decide (decision_engine.truncate ?e) t (rs_verifier st) = (Inr pv, v')"
    and a: "RuntimeEngine_authorize ?e (ai_call inputs) t pv (DecisionBuilder_build (ci_decisionId (ai_call inputs))
       (ci_evaluatedAt (ai_call inputs)) t (pv_decision pv)) = Inr c" by (simp_all add: released_context_def)
  from d have h: "pv_policyContentHash pv = h_policy (re_hashes ?e) (pv_policy pv)"
    by (rule decide_Inr) (simp add: decision_engine.truncate_def)
  note rel = release_Inr[OF released(2)]
  from factory_pipeline[OF rel(1)[simplified]] obtain b x where x: "dn_outcome (cx_decision c) = APPROVED"
    "cx_authorization c = Some b" "c' = c\<lparr>cx_execution := Some x\<rparr>"
    "executed k system c (aw_system (rs_world st)) (aw_system (rs_world st')) b x" by auto
  from rel(2) have r: "BusinessTrustRecordBuilder_build k (ai_trustRecordId inputs) (ai_recordedAt inputs)
      (ai_recordSignedAt inputs) c' = Inr r"
    by (auto simp: BusinessTrustPipeline_execute_def split: sum.splits)
  from authorize_Inr[OF a h] authorize_clean[OF a] x r show ?thesis
    unfolding produced_def by (intro exI[of _ c']) auto
qed simp

lemma produced_record:
  assumes "produced k system h inputs t s s' r"
  shows "tr_businessTransactionId r = bt_businessTransactionId t" "tr_verifications r = []" "tr_receipts r = []"
    "\<exists>c x a pol. tr_executions r = [x] \<and> tr_authorization r = Some a \<and> executed k system c s s' a x
       \<and> authorizes h t pol (sa_payload a) \<and> bt_intent (cx_transaction c) = bt_intent t
       \<and> bt_signals (cx_transaction c) = bt_signals t \<and> dn_outcome (ex_decision x) = APPROVED"
proof -
  from assms obtain c x a pol where c: "BusinessTrustRecordBuilder_build k (ai_trustRecordId inputs)
      (ai_recordedAt inputs) (ai_recordSignedAt inputs) c = Inr r" "cx_execution c = Some x"
    "cx_authorization c = Some a" "executed k system c s s' a x" "authorizes h t pol (sa_payload a)"
    "bt_businessTransactionId (cx_transaction c) = bt_businessTransactionId t"
    "bt_intent (cx_transaction c) = bt_intent t" "bt_signals (cx_transaction c) = bt_signals t"
    "dn_outcome (cx_decision c) = APPROVED" "cx_verification c = None" "cx_receipt c = None"
    unfolding produced_def by blast
  have v: "canonicalExecutionTrustRecord r = canonicalExecutionTrustRecord
      (trust_record_draft k (ai_trustRecordId inputs) (ai_recordedAt inputs) c x)" by (rule build_shape(1)[OF c(1,2)])
  with c(6) show "tr_businessTransactionId r = bt_businessTransactionId t"
    by (simp add: canonicalExecutionTrustRecord_def trust_record_draft_def)
  from c(1,2,10,11) show "tr_verifications r = []" "tr_receipts r = []"
    by (auto simp: BusinessTrustRecordBuilder_build_def trust_record_draft_def Let_def split: sum.splits if_splits)
  from v c(3) have "tr_authorization r = Some a"
    by (simp add: canonicalExecutionTrustRecord_def trust_record_draft_def)
  with c build_shape(3)[OF c(1,2)] show "\<exists>c x a pol. tr_executions r = [x] \<and> tr_authorization r = Some a
       \<and> executed k system c s s' a x
       \<and> authorizes h t pol (sa_payload a) \<and> bt_intent (cx_transaction c) = bt_intent t
       \<and> bt_signals (cx_transaction c) = bt_signals t \<and> dn_outcome (ex_decision x) = APPROVED"
    by (metis executed_def)
qed

lemma produced_checks:
  assumes "produced k system h inputs t s s' r" "accepts_own_signatures k"
    and "kc_requireHybrid k \<longrightarrow> kc_hybridMode k" "ci_authorizationId (ai_call inputs) \<noteq> []"
  shows "VerificationService_runChecks k r = Inr []"
proof -
  from assms(1) obtain c x a where c: "BusinessTrustRecordBuilder_build k (ai_trustRecordId inputs)
      (ai_recordedAt inputs) (ai_recordSignedAt inputs) c = Inr r" "cx_execution c = Some x"
    "executed k system c s s' a x" "ap_authorizationId (sa_payload a) = ci_authorizationId (ai_call inputs)"
    unfolding produced_def by blast
  from executed_chain[OF c(3) assms(2)] c(4) assms(4) show ?thesis
    by (intro built_record_checks[OF c(1,2) assms(2,3)]) auto
qed

text \<open>The calls of the application that get past the runtime.\<close>

lemma runtime_Inr:
  assumes "Runtime_execute txOf idOf authOf store_record e inputs now t st = (Inr (c, r), st')"
  obtains st1 where "RuntimeEngine_execute e inputs t st = (Inr (c, r), st1)"
    "rs_world st' = (rs_world st1)\<lparr>aw_records := map_set (tr_businessTransactionId r) r (aw_records (rs_world st1))\<rparr>"
  using assms
  by (auto simp: Runtime_execute_def store_record_def MemoryTrustRecords_create_def
      split: prod.splits sum.splits if_splits)

lemma application_cases:
  assumes "ExecutionTrustApplication_execute k system e inputs t st = (q, st')"
  obtains (rejected) ts x where
      "BusinessTransactionService_accept (ai_otherTransactions inputs) t (aw_transactions (rs_world st)) = (Inl x, ts)"
      "q = Inl (TransactionRejected x)" "rs_world st' = (rs_world st)\<lparr>aw_transactions := ts\<rparr>"
  | (failed) ts x where
      "BusinessTransactionService_accept (ai_otherTransactions inputs) t (aw_transactions (rs_world st)) = (Inr t, ts)"
      "Runtime_execute tr_businessTransactionId tr_trustRecordId record_authorizationId store_record
         (RuntimeFactory_create k inputs system e) (ai_call inputs) (ai_finalizedAt inputs) t
         (st\<lparr>rs_world := (rs_world st)\<lparr>aw_transactions := ts\<rparr>\<rparr>) = (Inl x, st')"
      "q = Inl (RuntimeFailed x)"
  | (ran) ts c r st1 s' where
      "BusinessTransactionService_accept (ai_otherTransactions inputs) t (aw_transactions (rs_world st)) = (Inr t, ts)"
      "RuntimeEngine_execute (RuntimeFactory_create k inputs system e) (ai_call inputs) t
         (st\<lparr>rs_world := (rs_world st)\<lparr>aw_transactions := ts\<rparr>\<rparr>) = (Inr (c, r), st1)"
      "settle_record k inputs (bt_businessTransactionId t)
         (map_set (tr_businessTransactionId r) r (aw_records (rs_world st1))) = (q, s')"
      "rs_world st' = (rs_world st1)\<lparr>aw_records := s'\<rparr>"
proof -
  obtain p ts where p: "BusinessTransactionService_accept (ai_otherTransactions inputs) t
      (aw_transactions (rs_world st)) = (p, ts)" by (rule prod.exhaust)
  show thesis
  proof (cases p)
    case (Inl x)
    with assms p show ?thesis by (intro rejected) (auto simp: ExecutionTrustApplication_execute_def)
  next
    case (Inr u)
    with p have u: "u = t" using accept_Inr by metis
    let ?st = "st\<lparr>rs_world := (rs_world st)\<lparr>aw_transactions := ts\<rparr>\<rparr>"
    obtain z st2 where z: "Runtime_execute tr_businessTransactionId tr_trustRecordId record_authorizationId
        store_record (RuntimeFactory_create k inputs system e) (ai_call inputs) (ai_finalizedAt inputs) t ?st
        = (z, st2)" by (rule prod.exhaust)
    show ?thesis
    proof (cases z)
      case (Inl x)
      with assms p Inr u z show ?thesis by (intro failed) (auto simp: ExecutionTrustApplication_execute_def)
    next
      case y: (Inr y)
      obtain c r where cr: "y = (c, r)" by (rule prod.exhaust)
      from z[unfolded y cr] obtain st1 where s1: "RuntimeEngine_execute (RuntimeFactory_create k inputs system e)
          (ai_call inputs) t ?st = (Inr (c, r), st1)" "rs_world st2 = (rs_world st1)\<lparr>aw_records :=
          map_set (tr_businessTransactionId r) r (aw_records (rs_world st1))\<rparr>" by (rule runtime_Inr)
      obtain q' s' where s': "settle_record k inputs (bt_businessTransactionId t) (aw_records (rs_world st2)) = (q', s')"
        by (rule prod.exhaust)
      with assms p Inr u z y have "q = q'" "rs_world st' = (rs_world st2)\<lparr>aw_records := s'\<rparr>"
        by (auto simp: ExecutionTrustApplication_execute_def)
      with p Inr u s1 s' show ?thesis by (intro ran[of ts c r st1 s']) auto
    qed
  qed
qed


section \<open>Stored records\<close>

text \<open>Every stored record passes all checks and belongs to an accepted transaction.\<close>

definition records_ok :: "record_crypto \<Rightarrow> 'x app_world \<Rightarrow> bool" where
  "records_ok k w \<longleftrightarrow> (\<forall>i r. map_of (aw_records w) i = Some r \<longrightarrow>
     VerificationService_runChecks k r = Inr [] \<and> map_of (aw_transactions w) i \<noteq> None)"

lemma records_okD:
  assumes "records_ok k w" "map_of (aw_records w) i = Some r"
  shows "VerificationService_runChecks k r = Inr []" "map_of (aw_transactions w) i \<noteq> None"
  using assms unfolding records_ok_def by blast+

lemma update_absent: "map_of s i = None \<Longrightarrow> update_record i f s = s"
  by (simp add: update_record_def)

lemma verify_keeps:
  assumes "VerificationService_verify k uuid now i s = (q, s')" "map_of s' j = Some r'"
  shows "\<exists>r. map_of s j = Some r \<and> VerificationService_runChecks k r' = VerificationService_runChecks k r"
  using assms
  by (auto simp: VerificationService_verify_def MemoryTrustRecords_appendVerification_def map_of_update
      runChecks_appends Let_def split: option.splits sum.splits if_splits)

lemma generate_keeps:
  assumes "ReceiptService_generate k uuid now i s = (q, s')" "map_of s' j = Some r'"
  shows "\<exists>r. map_of s j = Some r \<and> VerificationService_runChecks k r' = VerificationService_runChecks k r"
  using assms
  by (auto simp: ReceiptService_generate_def MemoryTrustRecords_appendReceipt_def map_of_update
      runChecks_appends Let_def split: option.splits sum.splits if_splits)

lemma settle_keeps:
  assumes "settle_record k inputs i s = (q, s')" "map_of s' j = Some r'"
  shows "\<exists>r. map_of s j = Some r \<and> VerificationService_runChecks k r' = VerificationService_runChecks k r"
proof -
  obtain v s1 where v: "VerificationService_verify k (ai_verificationId inputs) (ai_verifiedAt inputs) i s = (v, s1)"
    by (rule prod.exhaust)
  obtain x s2 where x: "ReceiptService_generate k (ai_receiptId inputs) (ai_receiptAt inputs) i s1 = (x, s2)"
    by (rule prod.exhaust)
  from assms(1) v x have "s' = s1 \<or> s' = s2"
    by (auto simp: settle_record_def split: sum.splits option.splits)
  then show ?thesis
  proof
    assume "s' = s1"
    with verify_keeps[OF v] assms(2) show ?thesis by simp
  next
    assume "s' = s2"
    with generate_keeps[OF x] assms(2) obtain r1 where r1: "map_of s1 j = Some r1"
      "VerificationService_runChecks k r' = VerificationService_runChecks k r1" by blast
    from verify_keeps[OF v r1(1)] r1(2) show ?thesis by metis
  qed
qed

text \<open>For a transaction without a record, the stages touch no record and no transaction.\<close>

definition same_stores :: "'x app_world \<Rightarrow> 'x app_world \<Rightarrow> bool" where
  "same_stores w w' \<longleftrightarrow> aw_records w' = aw_records w \<and> aw_transactions w' = aw_transactions w"

lemma transition_absent:
  assumes "store_transition k now x draft w = (q, w')" "ex_businessTransactionId draft = i"
    and "map_of (aw_records w) i = None"
  shows "same_stores w w'" "\<And>y. q = Inr y \<Longrightarrow> ex_businessTransactionId y = i"
  using assms
  by (auto simp: store_transition_def ExecutionService_rechain_def same_stores_def
      MemoryTrustRecords_replaceExecution_def update_absent split: sum.splits)

lemma run_execution_absent:
  assumes "run_execution k inputs system t a x w = (q, y, w')" "ex_businessTransactionId x = i"
    and "map_of (aw_records w) i = None"
  shows "same_stores w w' \<and> ex_businessTransactionId y = i"
proof (cases "ExecutionRequestBuilder_build t a")
  case (Inl e)
  with assms show ?thesis by (auto simp: run_execution_def same_stores_def)
next
  case req: (Inr request)
  obtain p s' where p: "system request (aw_system w) = (p, s')" by (rule prod.exhaust)
  show ?thesis
  proof (cases p)
    case (Inl e)
    with assms req p show ?thesis by (auto simp: run_execution_def same_stores_def)
  next
    case (Inr response)
    obtain p1 w1 where w1: "ExecutionService_attachEvidence k inputs x (ExecutionEvidenceBuilder_build response)
        (w\<lparr>aw_system := s'\<rparr>) = (p1, w1)" by (rule prod.exhaust)
    have k1: "same_stores w w1" "\<And>x1. p1 = Inr x1 \<Longrightarrow> ex_businessTransactionId x1 = i"
      using transition_absent[OF w1[unfolded ExecutionService_attachEvidence_def], of i] assms(2,3)
      by (simp_all add: same_stores_def)
    show ?thesis
    proof (cases p1)
      case inl: (Inl e)
      with assms req p Inr w1 k1(1) show ?thesis by (auto simp: run_execution_def same_stores_def)
    next
      case x1: (Inr x1)
      obtain p2 w2 where w2: "ExecutionService_complete k inputs x1 w1 = (p2, w2)" by (rule prod.exhaust)
      have i1: "ex_businessTransactionId x1 = i" by (rule k1(2)[OF x1])
      have k2: "same_stores w1 w2" "\<And>z. p2 = Inr z \<Longrightarrow> ex_businessTransactionId z = i"
        using transition_absent[OF w2[unfolded ExecutionService_complete_def], of i] i1 k1(1) assms(3)
        by (simp_all add: same_stores_def)
      have "same_stores w w2" using k1(1) k2(1) by (simp add: same_stores_def)
      with i1 k2(2) assms req p Inr w1 x1 w2 show ?thesis
        by (cases p2) (auto simp: run_execution_def)
    qed
  qed
qed

lemma component_absent:
  assumes "ExecutionComponent_execute k inputs system c w = (q, w')"
    and "map_of (aw_records w) (bt_businessTransactionId (cx_transaction c)) = None"
  shows "same_stores w w'"
proof (cases "cx_authorization c")
  case None
  with assms show ?thesis by (auto simp: ExecutionComponent_execute_def same_stores_def)
next
  case (Some a)
  let ?i = "bt_businessTransactionId (cx_transaction c)"
  obtain p w1 where p: "ExecutionService_create k inputs ?i (cx_decision c) SYNC
      (Some [(''authorizationId'', JStr (ap_authorizationId (sa_payload a)))]) w = (p, w1)" by (rule prod.exhaust)
  from p assms(2) have s1: "same_stores w w1"
    by (auto simp: ExecutionService_create_def same_stores_def MemoryTrustRecords_appendExecution_def
        update_absent Let_def split: option.splits sum.splits)
  show ?thesis
  proof (cases p)
    case (Inl e)
    with assms Some p s1 show ?thesis by (auto simp: ExecutionComponent_execute_def)
  next
    case (Inr x)
    obtain z y w2 where z: "run_execution k inputs system (cx_transaction c) a x w1 = (z, y, w2)"
      by (metis prod.exhaust)
    from create_Inr_execution[OF p[unfolded Inr]] s1 assms(2) have
      k2: "same_stores w1 w2" "ex_businessTransactionId y = ?i"
      using run_execution_absent[OF z, of ?i] by (auto simp: same_stores_def)
    obtain u w3 where u: "ExecutionService_fail k inputs y w2 = (u, w3)" by (rule prod.exhaust)
    from transition_absent(1)[OF u[unfolded ExecutionService_fail_def], of ?i] k2 s1 assms(2)
    have "same_stores w w2" "same_stores w w3" by (auto simp: same_stores_def)
    with assms(1) Some p Inr z u show ?thesis
      by (auto simp: ExecutionComponent_execute_def split: sum.splits)
  qed
qed


lemma engine_absent:
  assumes "RuntimeEngine_execute (RuntimeFactory_create k inputs system e) call t st = (q, st')"
    and "map_of (aw_records (rs_world st)) (bt_businessTransactionId t) = None"
  shows "same_stores (rs_world st) (rs_world st')"
  using assms(1)
proof (cases rule: execute_cases)
  case stopped
  then show ?thesis by (simp add: same_stores_def)
next
  case (released pv c is' v')
  let ?e = "RuntimeFactory_create k inputs system e"
  from released(1) have i: "context_txId c = bt_businessTransactionId t" by (rule released_context_authorizes)
  obtain p w where p: "RuntimePipeline_execute (rt_pipeline ?e) c (rs_world st) = (p, w)" by (rule prod.exhaust)
  have w: "rs_world st' = w \<or> rs_world st' = rs_world st"
    using released(2) p by (auto simp: RuntimeEngine_release_def Let_def split: sum.splits prod.splits)
  obtain p2 w2 where p2: "ExecutionComponent_execute k (ai_execution inputs) system c (rs_world st) = (p2, w2)"
    by (rule prod.exhaust)
  have "same_stores (rs_world st) w2" by (rule component_absent[OF p2]) (simp add: i assms(2))
  moreover have "w = w2 \<or> w = rs_world st" using p p2
    by (auto simp: RuntimeFactory_create_def TrustChainValidationComponent_execute_def split: sum.splits if_splits)
  ultimately show ?thesis using w by (auto simp: same_stores_def)
qed

lemma application_records_ok:
  assumes "ExecutionTrustApplication_execute k system e inputs t st = (q, st')"
    and "records_ok k (rs_world st)" and "accepts_own_signatures k"
    and "kc_requireHybrid k \<longrightarrow> kc_hybridMode k" and "ci_authorizationId (ai_call inputs) \<noteq> []"
    and grow: "\<forall>s i. map_of s i \<noteq> None \<longrightarrow> map_of (ai_otherTransactions inputs s) i \<noteq> None"
  shows "records_ok k (rs_world st')"
proof -
  let ?w = "rs_world st" and ?i = "bt_businessTransactionId t"
  have kept: "map_of ts i \<noteq> None" if "map_of (aw_transactions ?w) i \<noteq> None"
    "BusinessTransactionService_accept (ai_otherTransactions inputs) t (aw_transactions ?w) = (p, ts)" for i p ts
    using that grow by (auto simp: BusinessTransactionService_accept_def MemoryTransactions_create_def
        split: sum.splits if_splits)
  have fresh: "map_of (aw_records ?w) ?i = None \<and> map_of ts ?i \<noteq> None"
    if "BusinessTransactionService_accept (ai_otherTransactions inputs) t (aw_transactions ?w) = (Inr t, ts)" for ts
    using that[unfolded accept_Inr] records_okD(2)[OF assms(2), of ?i] by (cases "map_of (aw_records ?w) ?i") auto
  show ?thesis using assms(1)
  proof (cases rule: application_cases)
    case (rejected ts x)
    with kept[OF _ rejected(1)] records_okD[OF assms(2)] show ?thesis unfolding records_ok_def by simp
  next
    case (failed ts x)
    from failed(2) have "RuntimeEngine_execute (RuntimeFactory_create k inputs system e) (ai_call inputs) t
        (st\<lparr>rs_world := ?w\<lparr>aw_transactions := ts\<rparr>\<rparr>) = (Inl x, st')"
      by (auto simp: Runtime_execute_def store_record_def MemoryTrustRecords_create_def split: prod.splits sum.splits)
    from engine_absent[OF this] fresh[OF failed(1)]
    have "same_stores (?w\<lparr>aw_transactions := ts\<rparr>) (rs_world st')" by simp
    with kept[OF _ failed(1)] records_okD[OF assms(2)] show ?thesis
      unfolding records_ok_def by (simp add: same_stores_def)
  next
    case (ran ts c r st1 s')
    note f = fresh[OF ran(1)]
    from engine_absent[OF ran(2)] f have same: "same_stores (?w\<lparr>aw_transactions := ts\<rparr>) (rs_world st1)" by simp
    note pd = engine_produced[OF ran(2)]
    note prod = produced_checks[OF pd assms(3-5)] produced_record(1)[OF pd]
    have rec: "aw_records (rs_world st1) = aw_records ?w" using same by (simp add: same_stores_def)
    show ?thesis unfolding records_ok_def
    proof (intro allI impI)
      fix j r'
      assume "map_of (aw_records (rs_world st')) j = Some r'"
      with ran(4) have "map_of s' j = Some r'" by simp
      from settle_keeps[OF ran(3)[unfolded prod(2) rec] this] obtain r0 where
        "map_of (map_set ?i r (aw_records ?w)) j = Some r0"
        "VerificationService_runChecks k r' = VerificationService_runChecks k r0" by blast
      moreover have "aw_transactions (rs_world st') = ts" using ran(4) same by (simp add: same_stores_def)
      ultimately show "VerificationService_runChecks k r' = Inr [] \<and> map_of (aw_transactions (rs_world st')) j \<noteq> None"
        using prod(1) f records_okD[OF assms(2), of j] kept[OF _ ran(1), of j] by (auto split: if_splits)
    qed
  qed
qed


text \<open>The operations on stored records, by any requests.\<close>

inductive app_step ::
  "record_crypto \<Rightarrow> ('v, 'x app_world) runtime_state \<Rightarrow> ('v, 'x app_world) runtime_state \<Rightarrow> bool" for k where
  step_execute: "ci_authorizationId (ai_call inputs) \<noteq> [] \<Longrightarrow>
     \<forall>s i. map_of s i \<noteq> None \<longrightarrow> map_of (ai_otherTransactions inputs s) i \<noteq> None \<Longrightarrow>
     app_step k st (snd (ExecutionTrustApplication_execute k system e inputs t st))"
| step_verify: "app_step k st (st\<lparr>rs_world := (rs_world st)\<lparr>aw_records :=
     snd (VerificationService_verify k uuid now i (aw_records (rs_world st)))\<rparr>\<rparr>)"
| step_receipt: "app_step k st (st\<lparr>rs_world := (rs_world st)\<lparr>aw_records :=
     snd (ReceiptService_generate k uuid now i (aw_records (rs_world st)))\<rparr>\<rparr>)"

lemma app_step_records_ok:
  assumes "app_step k st st'" "records_ok k (rs_world st)" "accepts_own_signatures k"
    and "kc_requireHybrid k \<longrightarrow> kc_hybridMode k"
  shows "records_ok k (rs_world st')"
  using assms
proof (induction rule: app_step.induct)
  case (step_execute inputs st system e t)
  then show ?case using application_records_ok[OF prod.collapse[symmetric]] by blast
next
  case (step_verify st uuid now i)
  then show ?case using verify_keeps[OF prod.collapse[symmetric]] unfolding records_ok_def by fastforce
next
  case (step_receipt st uuid now i)
  then show ?case using generate_keeps[OF prod.collapse[symmetric]] unfolding records_ok_def by fastforce
qed

section \<open>Completion\<close>

text \<open>Every signer signs and the execution system answers.\<close>

definition signers_sign :: "record_crypto \<Rightarrow> bool" where
  "signers_sign k \<longleftrightarrow> (\<forall>a i. ok (kc_sign k a i) \<and> ok (kc_signPrimary k a i) \<and> ok (kc_signSecondary k a i))"

definition system_answers :: "'x execution_system \<Rightarrow> bool" where
  "system_answers system \<longleftrightarrow> (\<forall>request s. ok (fst (system request s)))"

lemma signers_signD:
  assumes "signers_sign k"
  shows "\<exists>v. kc_sign k a i = Inr v" "\<exists>v. kc_signPrimary k a i = Inr v" "\<exists>v. kc_signSecondary k a i = Inr v"
  using assms unfolding signers_sign_def ok_iff by blast+

lemma chain_total: "signers_sign k \<Longrightarrow> \<exists>f. ExecutionChainCrypto_chain k now x p = Inr f"
  using signers_signD(1)[of k "ChainArtifact (canonicalChainEntry x p)" DEFAULT_KEY_ID]
  by (auto simp: ExecutionChainCrypto_chain_def Let_def)

lemma transition_total: "signers_sign k \<Longrightarrow> \<exists>y w'. store_transition k now x draft w = (Inr y, w')"
  using chain_total[of k now draft "previous_hash x"]
  by (auto simp: store_transition_def ExecutionService_rechain_def)

lemma hybrid_sign_total: "signers_sign k \<Longrightarrow> \<exists>es. HybridSignatureProvider_sign k a i j = Inr es"
  using signers_signD(2)[of k a i] signers_signD(3)[of k a j]
  by (auto simp: HybridSignatureProvider_sign_def)

lemma create_total:
  assumes "signers_sign k" "map_of (aw_transactions w) i \<noteq> None"
  shows "\<exists>x w1. ExecutionService_create k inputs i d m md w = (Inr x, w1)"
proof (cases "ExecutionService_create k inputs i d m md w")
  case (Pair q w1)
  with assms(2) chain_total[OF assms(1)] have "\<exists>x. q = Inr x"
    unfolding ExecutionService_create_def MemoryTransactions_findById_def Let_def
    by (cases q) (auto split: sum.splits option.splits, metis sum.distinct(1))
  with Pair show ?thesis by blast
qed

lemma component_total:
  assumes "signers_sign k" "system_answers system" "cx_authorization c = Some a"
    and "ExecutionRequestBuilder_build (cx_transaction c) a = Inr request"
    and "map_of (aw_transactions w) (bt_businessTransactionId (cx_transaction c)) \<noteq> None"
  shows "\<exists>c' w'. ExecutionComponent_execute k inputs system c w = (Inr c', w')"
proof -
  let ?create = "ExecutionService_create k inputs (bt_businessTransactionId (cx_transaction c)) (cx_decision c) SYNC
      (Some [(''authorizationId'', JStr (ap_authorizationId (sa_payload a)))]) w"
  obtain x w1 where x: "?create = (Inr x, w1)" using create_total[OF assms(1,5)] by blast
  obtain response s' where r: "system request (aw_system w1) = (Inr response, s')"
    using assms(2) unfolding system_answers_def ok_iff by (metis prod.collapse)
  obtain x1 w2 where a: "ExecutionService_attachEvidence k inputs x (ExecutionEvidenceBuilder_build response)
      (w1\<lparr>aw_system := s'\<rparr>) = (Inr x1, w2)"
    unfolding ExecutionService_attachEvidence_def using transition_total[OF assms(1)] by blast
  obtain x2 w3 where b: "ExecutionService_complete k inputs x1 w2 = (Inr x2, w3)"
    unfolding ExecutionService_complete_def using transition_total[OF assms(1)] by blast
  from x r a b assms(3,4) show ?thesis by (simp add: ExecutionComponent_execute_def run_execution_def)
qed

lemma build_total:
  assumes "signers_sign k" "cx_execution c = Some x"
  shows "\<exists>r. BusinessTrustPipeline_execute k uuid now signedAt c = Inr r"
proof -
  let ?d = "trust_record_draft k uuid now c x"
  let ?h = "?d\<lparr>tr_trustRecordHash := VerificationCrypto_hash k ?d\<rparr>"
  obtain s where s: "VerificationCrypto_sign k signedAt ?h = Inr s"
    using signers_signD(1)[OF assms(1), of "RecordArtifact (canonicalExecutionTrustRecord ?h)" "kc_keyId k"]
    by (auto simp: VerificationCrypto_sign_def)
  obtain es where "kc_hybridMode k \<longrightarrow> VerificationCrypto_signHybrid k ?h = Inr es"
    using hybrid_sign_total[OF assms(1)] unfolding VerificationCrypto_signHybrid_def by metis
  with s assms(2) show ?thesis
    by (auto simp: BusinessTrustPipeline_execute_def BusinessTrustPipeline_validate_def
        BusinessTrustRecordBuilder_build_def Let_def)
qed

lemma createReceipt_total:
  assumes "signers_sign k"
  shows "\<exists>x. ReceiptCrypto_createReceipt k p = Inr x"
proof -
  let ?u = "p\<lparr>rp_algorithm := kc_algorithm k, rp_signature := [], rp_schemaVersion := None, rp_signatures := None\<rparr>"
  obtain v where v: "kc_sign k (ReceiptArtifact ?u) DEFAULT_KEY_ID = Inr v"
    using signers_signD(1)[OF assms] by blast
  obtain es where "HybridSignatureProvider_sign k (ReceiptArtifact (?u\<lparr>rp_schemaVersion := Some HYBRID_SCHEMA_VERSION\<rparr>))
      DEFAULT_KEY_ID DEFAULT_SECONDARY_KEY_ID = Inr es" using hybrid_sign_total[OF assms] by blast
  with v show ?thesis by (simp add: ReceiptCrypto_createReceipt_def Let_def)
qed

lemma settle_total:
  assumes "signers_sign k" "map_of s i = Some r" "VerificationService_runChecks k r = Inr []"
  shows "\<exists>r'. fst (settle_record k inputs i s) = Inr r'"
proof -
  obtain v s1 where v: "VerificationService_verify k (ai_verificationId inputs) (ai_verifiedAt inputs) i s = (Inr v, s1)"
    "vf_status v = RECORD_VERIFIED" "s1 = MemoryTrustRecords_appendVerification i v s"
    using assms(2,3)
    by (simp add: VerificationService_verify_def MemoryTrustRecords_findByTransactionId_def Let_def)
  let ?r = "r\<lparr>tr_verifications := tr_verifications r @ [v]\<rparr>"
  have s1: "map_of s1 i = Some ?r" using v(3) assms(2)
    by (simp add: MemoryTrustRecords_appendVerification_def map_of_update)
  let ?p = "\<lparr>rp_receiptId = ai_receiptId inputs, rp_businessTransactionId = i, rp_executionId = None,
      rp_trustRecordHash = tr_trustRecordHash ?r, rp_receiptHash = kc_hash k (WholeRecordArtifact ?r),
      rp_signature = [], rp_algorithm = [], rp_schemaVersion = None, rp_signatures = None,
      rp_issuedAt = ai_receiptAt inputs\<rparr>"
  have p: "fst (ReceiptService_generate k (ai_receiptId inputs) (ai_receiptAt inputs) i s1)
      = ReceiptCrypto_createReceipt k ?p"
    using s1 v(2) by (cases "ReceiptCrypto_createReceipt k ?p")
      (simp_all add: ReceiptService_generate_def MemoryTrustRecords_findByTransactionId_def)
  from createReceipt_total[OF assms(1)] p obtain x s2 where
    x: "ReceiptService_generate k (ai_receiptId inputs) (ai_receiptAt inputs) i s1 = (Inr x, s2)"
    by (metis prod.collapse)
  from receipt_stores[OF x] have "s2 = MemoryTrustRecords_appendReceipt i x s1" by blast
  with x v s1 show ?thesis
    by (simp add: settle_record_def MemoryTrustRecords_findByTransactionId_def
        MemoryTrustRecords_appendReceipt_def map_of_update)
qed

text \<open>Past the decision, with the signers and the system answering, the runtime returns a record.\<close>

lemma release_total:
  assumes "released_context (RuntimeFactory_create k inputs system e) (ai_call inputs) t st pv c is' v'"
    and "signers_sign k" "system_answers system"
    and "map_of (aw_transactions (rs_world st)) (bt_businessTransactionId t) \<noteq> None"
  shows "\<exists>c' r st'. RuntimeEngine_execute (RuntimeFactory_create k inputs system e) (ai_call inputs) t st
     = (Inr (c', r), st')"
proof -
  let ?e = "RuntimeFactory_create k inputs system e" and ?in = "ai_call inputs"
  let ?d = "DecisionBuilder_build (ci_decisionId ?in) (ci_evaluatedAt ?in) t (pv_decision pv)"
  from assms(1) have d: "RuntimeEngine_decide (decision_engine.truncate ?e) t (rs_verifier st) = (Inr pv, v')"
    "dn_outcome ?d = APPROVED" "RuntimeEngine_authorize ?e ?in t pv ?d = Inr c"
    "rt_readiness ?e = None \<or> rt_readiness ?e = Some (Inr ())"
    "RuntimeEngine_prepareIntent ?e ?in c (rs_intents st) = (Inr (), is')"
    by (simp_all add: released_context_def)
  from d(1) have h: "pv_policyContentHash pv = h_policy (re_hashes ?e) (pv_policy pv)"
    by (rule decide_Inr) (simp add: decision_engine.truncate_def)
  from d(3) h obtain a where a: "cx_authorization c = Some a" "context_txId c = bt_businessTransactionId t"
    "cx_decision c = ?d" "bt_intent (cx_transaction c) = bt_intent t" by (rule authorize_Inr)
  from d(3) a(2,4) obtain request where q: "ExecutionRequestBuilder_build (cx_transaction c) a = Inr request"
    by (auto simp: RuntimeEngine_authorize_def ExecutionRequestBuilder_build_def split: sum.splits)
  obtain c' w' where w': "ExecutionComponent_execute k (ai_execution inputs) system c (rs_world st) = (Inr c', w')"
    using component_total[OF assms(2,3) a(1) q, of "rs_world st" "ai_execution inputs"] assms(4) a(2) by auto
  then have p: "RuntimePipeline_execute (rt_pipeline ?e) c (rs_world st) = (Inr c', w')"
    using a(3) d(2) by (simp add: RuntimeFactory_create_def TrustChainValidationComponent_execute_def)
  from component_Inr[OF w'] obtain x where "cx_execution c' = Some x" by auto
  from build_total[OF assms(2) this] obtain r where "rt_trustPipeline ?e c' = Inr r"
    unfolding factory_simps by blast
  with p d(4,5) have "\<exists>st'. RuntimeEngine_release ?e ?in c (st\<lparr>rs_verifier := v'\<rparr>) = (Inr (c', r), st')"
    by (auto simp: RuntimeEngine_release_def Let_def)
  with d(1-3) enforce_Inr[of ?d] show ?thesis
    by (auto simp: RuntimeEngine_execute_def Let_def split: sum.splits)
qed

text \<open>With every signer signing, nothing after the authorization stands in the way.\<close>

lemma approved_completes:
  assumes "BusinessTransactionService_accept (ai_otherTransactions inputs) t (aw_transactions (rs_world st)) = (Inr t, ts)"
    and "released_context (RuntimeFactory_create k inputs system e) (ai_call inputs) t
           (st\<lparr>rs_world := (rs_world st)\<lparr>aw_transactions := ts\<rparr>\<rparr>) pv c is' v'"
    and "signers_sign k" and "accepts_own_signatures k" and "kc_requireHybrid k \<longrightarrow> kc_hybridMode k"
    and "ci_authorizationId (ai_call inputs) \<noteq> []" and "system_answers system"
  shows "\<exists>r. fst (ExecutionTrustApplication_execute k system e inputs t st) = Inr r"
proof -
  have "map_of ts (bt_businessTransactionId t) \<noteq> None" using assms(1) unfolding accept_Inr by auto
  with release_total[OF assms(2,3,7)] obtain c' r st1 where x:
    "RuntimeEngine_execute (RuntimeFactory_create k inputs system e) (ai_call inputs) t
       (st\<lparr>rs_world := (rs_world st)\<lparr>aw_transactions := ts\<rparr>\<rparr>) = (Inr (c', r), st1)" by auto
  note pd = engine_produced[OF x]
  let ?s = "map_set (tr_businessTransactionId r) r (aw_records (rs_world st1))"
  have "map_of ?s (bt_businessTransactionId t) = Some r" by (simp add: produced_record(1)[OF pd])
  from settle_total[OF assms(3) this produced_checks[OF pd assms(4-6)]] obtain r' s' where
    "settle_record k inputs (bt_businessTransactionId t) ?s = (Inr r', s')" by (metis prod.collapse)
  with assms(1) x show ?thesis
    by (simp add: ExecutionTrustApplication_execute_def Runtime_execute_def store_record_def
        MemoryTrustRecords_create_def split: prod.splits)
qed

section \<open>A sample application\<close>

text \<open>The signature of an artifact is the key id; everything has the hash \<open>h\<close>.\<close>

definition sample_crypto :: record_crypto where
  "sample_crypto = \<lparr>kc_hash = (\<lambda>a. ''h''), kc_algorithm = ''Ed25519'', kc_sign = (\<lambda>a i. Inr i),
     kc_check = (\<lambda>a i v. Inr (v = i)), kc_keyId = ''v1'', kc_hybridMode = True, kc_requireHybrid = True,
     kc_secondaryKeyId = ''v2'', kc_primary = ''Ed25519'', kc_secondary = ''Dilithium3'',
     kc_signPrimary = (\<lambda>a i. Inr i), kc_signSecondary = (\<lambda>a i. Inr i),
     kc_checkPrimary = (\<lambda>a i v. Inr (v = i)), kc_checkSecondary = (\<lambda>a i v. Inr (v = i))\<rparr>"

definition counting_system :: "nat execution_system" where
  "counting_system request n = (Inr \<lparr>xs_businessTransactionId = xr_businessTransactionId request,
     xs_action = xr_action request, xs_target = ''acct'', xs_parameters = xr_parameters request,
     xs_success = True, xs_executedAt = 5, xs_metadata = None\<rparr>, Suc n)"

definition sample_app_engine :: "(memory_nonces, 'x app_world, trust_record) runtime_engine" where
  "sample_app_engine = \<lparr>re_repository = sample_load, re_rx = sample_rx, re_nstr = sample_nstr,
     re_hashes = sample_hashes, re_policyExecutionVerifier = Some (\<lambda>n w h. Inr None),
     re_anchorResolver = None, re_capabilityPolicyBinder = Some (None, None),
     re_signalStateVerifier = Some (CompositeSignalStateVerifier_findViolations [sample_check]),
     rt_refusalCrypto = Some sample_refusal_crypto, rt_notifier = True,
     rt_hasKey = (\<lambda>k. Inr False), rt_signer = (\<lambda>p k. Inr (ap_nonce p)), rt_algorithm = ''Ed25519'',
     rt_isoString = tally, rt_ttlSeconds = Fin (1 / 50), rt_readiness = Some (Inr ()),
     rt_intentCrypto = Some \<lparr>ic_hash = ei_intentId, ic_sign = (\<lambda>i. Inr ''s'')\<rparr>,
     rt_pipeline = [], rt_trustPipeline = (\<lambda>c. Inl [])\<rparr>"

definition sample_app_inputs :: app_inputs where
  "sample_app_inputs = \<lparr>ai_call = sample_inputs,
     ai_execution = \<lparr>xi_executionId = ''x1'', xi_startedAt = 1, xi_completedAt = 6, xi_failedAt = 6,
       xi_chainedAt = (\<lambda>n. 2)\<rparr>,
     ai_otherTransactions = id, ai_trustRecordId = ''r1'', ai_recordedAt = 7, ai_recordSignedAt = 7,
     ai_finalizedAt = 8, ai_verificationId = ''v'', ai_verifiedAt = 9, ai_receiptId = ''q'', ai_receiptAt = 10\<rparr>"

definition sample_app_state :: "(memory_nonces, nat app_world) runtime_state" where
  "sample_app_state = \<lparr>rs_verifier = [], rs_refusals = [], rs_events = [], rs_intents = [],
     rs_world = \<lparr>aw_transactions = [], aw_records = [], aw_system = 0\<rparr>\<rparr>"

definition sample_app_run :: "(app_error, trust_record) result \<times> (memory_nonces, nat app_world) runtime_state" where
  "sample_app_run = ExecutionTrustApplication_execute sample_crypto counting_system sample_app_engine
     sample_app_inputs sample_transaction sample_app_state"

lemma sample_crypto_accepts: "accepts_own_signatures sample_crypto"
  "kc_requireHybrid sample_crypto \<longrightarrow> kc_hybridMode sample_crypto"
  by (simp_all add: accepts_own_signatures_def sample_crypto_def)

lemma sample_app_inputs_ok:
  "ci_authorizationId (ai_call sample_app_inputs) \<noteq> []"
  "\<forall>s i. map_of s i \<noteq> None \<longrightarrow> map_of (ai_otherTransactions sample_app_inputs s) i \<noteq> None"
  by (simp_all add: sample_app_inputs_def sample_inputs_def)

text \<open>The sample application approves the sample transaction and stores its intent.\<close>

definition sample_app_accepted :: "(memory_nonces, nat app_world) runtime_state" where
  "sample_app_accepted = sample_app_state\<lparr>rs_world := (rs_world sample_app_state)
     \<lparr>aw_transactions := [(''b1'', sample_transaction)]\<rparr>\<rparr>"

lemma sample_app_wired:
  "sample_wiring (RuntimeFactory_create sample_crypto sample_app_inputs system sample_app_engine)"
  by (simp add: sample_wiring_def RuntimeFactory_create_def sample_app_engine_def)

lemma sample_request_built:
  assumes "context_txId c = ''b1''" "bt_intent (cx_transaction c) = bt_intent sample_transaction"
    and "bt_signals (cx_transaction c) = bt_signals sample_transaction"
  shows "ExecutionRequestBuilder_build (cx_transaction c) a = Inr (exact_request a)"
  using sample_content assms
  by (simp add: ExecutionRequestBuilder_build_def exact_request_def sample_transaction_def transaction_content_def)

lemma sample_released:
  assumes "rs_verifier st = []" "rs_intents st = []"
  shows "\<exists>pv c is' v'. released_context
      (RuntimeFactory_create sample_crypto sample_app_inputs system sample_app_engine)
      (ai_call sample_app_inputs) sample_transaction st pv c is' v'
    \<and> cx_authorization c = Some (sample_signed sample_hashes) \<and> context_txId c = ''b1''
    \<and> ExecutionRequestBuilder_build (cx_transaction c) (sample_signed sample_hashes)
       = Inr (exact_request (sample_signed sample_hashes))"
proof -
  have "ai_call sample_app_inputs = sample_inputs" "re_hashes sample_app_engine = sample_hashes"
    by (simp_all add: sample_app_inputs_def sample_app_engine_def)
  with sample_releases[OF sample_app_wired assms] sample_request_built show ?thesis by (metis factory_simps(1))
qed

lemma sample_app_accepted: "rs_verifier sample_app_accepted = []" "rs_intents sample_app_accepted = []"
  by (simp_all add: sample_app_accepted_def sample_app_state_def)

lemma sample_app_accepts: "BusinessTransactionService_accept (ai_otherTransactions sample_app_inputs)
    sample_transaction (aw_transactions (rs_world sample_app_state))
   = (Inr sample_transaction, [(''b1'', sample_transaction)])"
  by code_simp

lemma sample_crypto_signs: "signers_sign sample_crypto" "system_answers counting_system"
  by (simp_all add: signers_sign_def system_answers_def sample_crypto_def counting_system_def)

lemma sample_app_returns: "ok (fst sample_app_run)"
proof -
  from sample_released[OF sample_app_accepted] obtain pv c is' v' where "released_context
    (RuntimeFactory_create sample_crypto sample_app_inputs counting_system sample_app_engine)
    (ai_call sample_app_inputs) sample_transaction sample_app_accepted pv c is' v'" by blast
  from approved_completes[OF sample_app_accepts this[unfolded sample_app_accepted_def]
      sample_crypto_signs(1) sample_crypto_accepts sample_app_inputs_ok(1) sample_crypto_signs(2)]
  show ?thesis unfolding sample_app_run_def ok_iff .
qed

section \<open>Properties\<close>

text \<open>
  C2: what a returned trust record proves.  When the application returns a record for a
  transaction, that transaction had not been accepted before, the record is the stored one and
  passes every verification check, it carries one verification that says so and one signed receipt
  for its hash, and its one execution is \<open>COMPLETED\<close> and \<open>APPROVED\<close>: the execution system was
  called once, with the request built from the transaction's intent, its signals and the
  authorization that is in the record and binds them, and the evidence is what it answered.
\<close>

theorem returned_record_proves_execution:
  assumes "ExecutionTrustApplication_execute k system e inputs t st = (Inr r, st')"
  shows "map_of (aw_transactions (rs_world st)) (bt_businessTransactionId t) = None
     \<and> map_of (aw_records (rs_world st')) (bt_businessTransactionId t) = Some r
     \<and> VerificationService_runChecks k r = Inr []
     \<and> (\<exists>v rc. tr_verifications r = [v] \<and> vf_status v = RECORD_VERIFIED \<and> tr_receipts r = [rc]
          \<and> rp_trustRecordHash rc = tr_trustRecordHash r)
     \<and> (\<exists>c x a pol. tr_executions r = [x] \<and> tr_authorization r = Some a
          \<and> dn_outcome (ex_decision x) = APPROVED \<and> authorizes (re_hashes e) t pol (sa_payload a)
          \<and> bt_intent (cx_transaction c) = bt_intent t \<and> bt_signals (cx_transaction c) = bt_signals t
          \<and> executed k system c (aw_system (rs_world st)) (aw_system (rs_world st')) a x)"
  using assms
proof (cases rule: application_cases)
  case (ran ts c r1 st1 s')
  note pd = engine_produced[OF ran(2)]
  from settle_Inr[OF ran(3)] produced_record(1)[OF pd] obtain v x where s:
    "r = r1\<lparr>tr_verifications := tr_verifications r1 @ [v], tr_receipts := tr_receipts r1 @ [x]\<rparr>"
    "vf_status v = RECORD_VERIFIED" "map_of s' (bt_businessTransactionId t) = Some r"
    "VerificationService_runChecks k r = Inr []" "rp_trustRecordHash x = tr_trustRecordHash r" by auto
  from ran(1) have "map_of (aw_transactions (rs_world st)) (bt_businessTransactionId t) = None"
    unfolding accept_Inr by blast
  with s ran(4) produced_record(2-4)[OF pd] show ?thesis by (simp, blast)
qed auto

theorem returned_record_proves_execution_witness:
  "\<exists>r a. map_of (aw_records (rs_world (snd sample_app_run))) ''b1'' = Some r \<and> tr_authorization r = Some a"
proof -
  obtain q st' where x: "sample_app_run = (q, st')" by (rule prod.exhaust)
  from sample_app_returns[unfolded x] obtain r where "q = Inr r" by (cases q) auto
  from returned_record_proves_execution[OF x[unfolded sample_app_run_def this]] obtain a where
    "map_of (aw_records (rs_world st')) (bt_businessTransactionId sample_transaction) = Some r"
    "tr_authorization r = Some a" by blast
  moreover have "bt_businessTransactionId sample_transaction = ''b1''" by (simp add: sample_transaction_def)
  ultimately show ?thesis unfolding x by auto
qed

text \<open>
  C38: stored records stay verifiable.  Whatever transactions are executed, with whatever outcome,
  and however often records are verified and receipted, every stored record passes every check,
  hybrid signatures included: no operation changes what was signed.
\<close>

theorem stored_records_stay_verifiable:
  assumes "(app_step k)\<^sup>*\<^sup>* st st'" and "records_ok k (rs_world st)" and "accepts_own_signatures k"
    and "kc_requireHybrid k \<longrightarrow> kc_hybridMode k"
  shows "records_ok k (rs_world st')"
  using assms(1,2)
  by (induction rule: rtranclp_induct) (auto intro: app_step_records_ok[OF _ _ assms(3,4)])

theorem stored_records_stay_verifiable_witness: "records_ok sample_crypto (rs_world (snd sample_app_run))"
proof -
  have "app_step sample_crypto sample_app_state (snd sample_app_run)"
    unfolding sample_app_run_def by (rule step_execute[OF sample_app_inputs_ok])
  then have "(app_step sample_crypto)\<^sup>*\<^sup>* sample_app_state (snd sample_app_run)" by blast
  from stored_records_stay_verifiable[OF this _ sample_crypto_accepts] show ?thesis
    by (simp add: records_ok_def sample_app_state_def)
qed


text \<open>
  C39: an approved transaction is carried to its end.  Once a valid new transaction is approved,
  authorized and its intent stored, and as long as the signers sign and the execution system
  answers, the application returns the trust record: no check, chain, verification or receipt step
  of its own stands in the way.
\<close>

theorem approved_transaction_completes:
  assumes "BusinessTransactionService_accept (ai_otherTransactions inputs) t (aw_transactions (rs_world st)) = (Inr t, ts)"
    and "released_context (RuntimeFactory_create k inputs system e) (ai_call inputs) t
           (st\<lparr>rs_world := (rs_world st)\<lparr>aw_transactions := ts\<rparr>\<rparr>) pv c is' v'"
    and "signers_sign k" and "accepts_own_signatures k" and "kc_requireHybrid k \<longrightarrow> kc_hybridMode k"
    and "ci_authorizationId (ai_call inputs) \<noteq> []" and "system_answers system"
  shows "\<exists>r. fst (ExecutionTrustApplication_execute k system e inputs t st) = Inr r"
  by (rule approved_completes[OF assms])

theorem approved_transaction_completes_witness: "ok (fst sample_app_run)"
proof -
  from sample_released[OF sample_app_accepted] obtain pv c is' v' where "released_context
    (RuntimeFactory_create sample_crypto sample_app_inputs counting_system sample_app_engine)
    (ai_call sample_app_inputs) sample_transaction sample_app_accepted pv c is' v'" by blast
  from approved_transaction_completes[OF sample_app_accepts this[unfolded sample_app_accepted_def]
      sample_crypto_signs(1) sample_crypto_accepts sample_app_inputs_ok(1) sample_crypto_signs(2)]
  show ?thesis unfolding sample_app_run_def ok_iff .
qed

end
