(* ===== verification/Control_Properties.thy ===== *)
theory Control_Properties
  imports Execution_Control Gateway_Properties
begin

text \<open>
  Properties of the release side (\<open>packages/execution-control/src\<close>), and of the gateway and the
  release side together.
\<close>

section \<open>Effects of a connector and of the service\<close>

lemma connector_changes_world:
  assumes "SessionCredentialSecureConnector_execute opts inputs request st = (r, st')"
    and "cs_world st' \<noteq> cs_world st"
  shows "admitted (co_authenticator opts) (co_env opts) (ki_consumedAt inputs) request (co_identity opts)
           (co_capabilities opts) (co_gatewayAuthentication opts) (cs_sessions st)
     \<and> (\<exists>c. map_of (cs_vault st) (ci_connectorId (co_identity opts)) = Some c
          \<and> cs_world st' = snd (co_executor opts (gx_executableContent request) c (gx_authorization request)
               (request_approvals request) (cs_world st)))"
proof -
  let ?p = "DefaultConnectorPolicy_assertAllowed (co_authenticator opts) (co_env opts) inputs request
      (ci_connectorId (co_identity opts)) (co_capabilities opts) (co_identity opts)
      (co_gatewayAuthentication opts) st"
  obtain q st1 where p: "?p = (q, st1)" by (rule prod.exhaust)
  show ?thesis
  proof (cases q)
    case (Inl e)
    moreover from assertAllowed_state p obtain s' where "st1 = st\<lparr>cs_sessions := s'\<rparr>" by (metis snd_conv)
    ultimately show ?thesis using assms p by (auto simp: SessionCredentialSecureConnector_execute_def)
  next
    case (Inr u)
    note ok = assertAllowed_Inr[OF p[unfolded Inr]]
    then obtain s' where s: "st1 = st\<lparr>cs_sessions := s'\<rparr>" by blast
    obtain z l where z: "SessionCredentialVault_issue (sn_isoString (co_env opts)) (cs_vault st1)
        (co_lifetimeMs opts) (ki_credentialId inputs) (ki_issuedAt inputs) (ci_connectorId (co_identity opts))
        (ap_authorizationId (gx_payload request)) (cs_leases st1) = (z, l)" by (rule prod.exhaust)
    show ?thesis
    proof (cases z)
      case (Inl e)
      with assms p Inr z s show ?thesis by (auto simp: SessionCredentialSecureConnector_execute_def)
    next
      case lease: (Inr lease)
      let ?i = "sk_sessionCredentialId lease"
      have cr: "\<forall>x. map_of l ?i = Some x \<longrightarrow> cr_connectorId x = ci_connectorId (co_identity opts)"
        using z lease by (auto simp: SessionCredentialVault_issue_def Let_def split: sum.splits if_splits)
      obtain y st2 where u: "use_credential opts inputs request ?i (st1\<lparr>cs_leases := l\<rparr>) = (y, st2)"
        by (rule prod.exhaust)
      have w: "cs_world st' = cs_world st2"
        using assms(1) p Inr z lease u by (auto simp: SessionCredentialSecureConnector_execute_def split: sum.splits)
      with assms(2) s have "cs_world st2 \<noteq> cs_world (st1\<lparr>cs_leases := l\<rparr>)" by simp
      from use_credential_world[OF u this] cr s w ok(1) show ?thesis by auto
    qed
  qed
qed


text \<open>The calls of the service that reach a connector.\<close>

definition service_session :: "('a, 'cred, 'w) control_service \<Rightarrow> control_inputs \<Rightarrow> execution_release
    \<Rightarrow> ('cred, 'w) secure_connector \<Rightarrow> session_map \<Rightarrow> gateway_session \<Rightarrow> session_map \<Rightarrow> bool" where
  "service_session svc inputs release connector s session s' \<longleftrightarrow>
     es_registry svc (ec_action (xl_executableContent release)) = Inr connector
     \<and> GatewaySessionStore_create (es_env svc) (es_issuanceConfigured svc) (ki_sessionId inputs) release
         (sc_connectorId connector) (es_sessionLifetimeMs svc) (es_issuanceAuthentication svc)
         (ki_createdAt inputs) s = (Inr session, s')"

lemma service_cases:
  assumes "ExecutionControlService_execute svc inputs release authentication st = (r, st')"
  obtains (rejected) e s' where "r = Inl e" "st' = st\<lparr>cs_sessions := s'\<rparr>"
  | (reached) connector session s' st1 where
      "ca_authenticateGateway (es_authenticator svc) (es_gatewayIdentity svc) authentication"
      "service_session svc inputs release connector (cs_sessions st) session s'"
      "sc_execute connector inputs (connector_request release (es_gatewayIdentity svc) session)
         (MemoryExecutionAuditSink_record (service_event SessionCreated 0 inputs release
            (sc_connectorId connector) (gs_sessionId session)) (st\<lparr>cs_sessions := s'\<rparr>)) = (r, st1)"
      "st' = MemoryExecutionAuditSink_record (service_event
         (case r of Inr _ \<Rightarrow> ExecutionCompleted | Inl _ \<Rightarrow> ExecutionRejected) 2 inputs release
         (sc_connectorId connector) (gs_sessionId session)) st1"
proof (cases "ca_authenticateGateway (es_authenticator svc) (es_gatewayIdentity svc) authentication")
  case False
  with assms show ?thesis
    by (intro rejected[of GatewayUnauthenticated "cs_sessions st"]) (auto simp: ExecutionControlService_execute_def)
next
  case auth: True
  show ?thesis
  proof (cases "es_registry svc (ec_action (xl_executableContent release))")
    case (Inl e)
    with assms auth show ?thesis
      by (intro rejected[of e "cs_sessions st"]) (auto simp: ExecutionControlService_execute_def)
  next
    case (Inr connector)
    obtain q s' where q: "GatewaySessionStore_create (es_env svc) (es_issuanceConfigured svc)
        (ki_sessionId inputs) release (sc_connectorId connector) (es_sessionLifetimeMs svc)
        (es_issuanceAuthentication svc) (ki_createdAt inputs) (cs_sessions st) = (q, s')"
      by (rule prod.exhaust)
    show ?thesis
    proof (cases q)
      case (Inl e)
      with assms auth Inr q show ?thesis
        by (intro rejected[of "SessionIssuance e" s']) (auto simp: ExecutionControlService_execute_def)
    next
      case session: (Inr session)
      obtain y st1 where y: "sc_execute connector inputs
          (connector_request release (es_gatewayIdentity svc) session)
          (MemoryExecutionAuditSink_record (service_event SessionCreated 0 inputs release
            (sc_connectorId connector) (gs_sessionId session)) (st\<lparr>cs_sessions := s'\<rparr>)) = (y, st1)"
        by (rule prod.exhaust)
      with assms auth Inr q session have "r = y \<and> st' = MemoryExecutionAuditSink_record (service_event
          (case r of Inr _ \<Rightarrow> ExecutionCompleted | Inl _ \<Rightarrow> ExecutionRejected) 2 inputs release
          (sc_connectorId connector) (gs_sessionId session)) st1"
        by (cases y) (auto simp: ExecutionControlService_execute_def Let_def)
      with auth Inr q session y show ?thesis
        by (intro reached[of connector session s' st1]) (auto simp: service_session_def)
    qed
  qed
qed

text \<open>The session the service creates runs out with its lifetime and with the authorization.\<close>

definition session_times :: "('a, 'cred, 'w) control_service \<Rightarrow> control_inputs \<Rightarrow> execution_release \<Rightarrow> bool" where
  "session_times svc inputs release \<longleftrightarrow>
     ki_consumedAt inputs < ki_createdAt inputs + es_sessionLifetimeMs svc
     \<and> not_expired (ki_consumedAt inputs)
         (sn_parse (es_env svc) (ap_expiresAt (sa_payload (xl_authorization release))))"

lemma service_session_time:
  assumes "service_session svc inputs release connector s session s'"
    and "\<forall>t. valid_time t \<longrightarrow> sn_parse (es_env svc) (sn_isoString (es_env svc) t) = Some t"
    and "map_of s' (gs_sessionId session) = Some x"
    and "session_valid (es_env svc) request connectorId (ki_consumedAt inputs) x"
  shows "session_times svc inputs release"
  using assms
  by (auto simp: service_session_def GatewaySessionStore_create_def GatewaySessionStore_publicSession_def
      session_valid_def session_times_def Let_def split: if_splits option.splits)


text \<open>What has held when the release side acts, and the effect it has.\<close>

definition control_acted ::
  "'key attestation_check \<Rightarrow> 'key signed_token_authenticator \<Rightarrow> ('a, 'cred, 'w) control_service
   \<Rightarrow> ('a, 'cred, 'w) connector_options list \<Rightarrow> control_inputs \<Rightarrow> execution_release \<Rightarrow> json
   \<Rightarrow> ('a, 'cred, 'w) connector_options \<Rightarrow> ('cred, 'w) control_state \<Rightarrow> 'w \<Rightarrow> bool" where
  "control_acted check a svc connectors inputs release authentication opts st w \<longleftrightarrow>
     (\<exists>att. isGatewayAttestation authentication = Some att \<and> check att (sta_publicKey a)
        \<and> at_gatewayId (ga_payload att) = gi_gatewayId (sta_gateway a)
        \<and> at_authorizationId (ga_payload att) = ap_authorizationId (sa_payload (xl_authorization release)))
     \<and> opts \<in> set connectors
     \<and> ca_authenticateConnector (co_authenticator opts) (co_identity opts)
     \<and> ec_action (xl_executableContent release) \<in> set (co_capabilities opts)
     \<and> (\<forall>g. ap_grantedCapability (sa_payload (xl_authorization release)) = Some g \<longrightarrow>
          g = ec_action (xl_executableContent release))
     \<and> vt_authorizationVerified (xl_verifiedTransaction release)
     \<and> vt_executableContentVerified (xl_verifiedTransaction release)
     \<and> vt_replayCheckPassed (xl_verifiedTransaction release)
     \<and> session_times svc inputs release
     \<and> (\<exists>cred. map_of (cs_vault st) (ci_connectorId (co_identity opts)) = Some cred
          \<and> w = snd (co_executor opts (xl_executableContent release) cred (xl_authorization release)
               (case xl_approvals release of None \<Rightarrow> [] | Some as \<Rightarrow> as) (cs_world st)))"

text \<open>The production wiring: one store of sessions, session credential connectors only.\<close>

definition control_wired ::
  "(json, 'cred, 'w) control_service \<Rightarrow> (json, 'cred, 'w) connector_options list \<Rightarrow> bool" where
  "control_wired svc connectors \<longleftrightarrow>
     (\<exists>reg. InMemoryConnectorRegistry_create (map SessionCredentialSecureConnector_create connectors) [] = Inr reg
        \<and> es_registry svc = InMemoryConnectorRegistry_resolveCapability reg)
     \<and> (\<forall>opts \<in> set connectors. co_env opts = es_env svc)
     \<and> (\<forall>t. valid_time t \<longrightarrow> sn_parse (es_env svc) (sn_isoString (es_env svc) t) = Some t)"

lemma map_set_values: "snd ` set (map_set k v kvs) \<subseteq> insert v (snd ` set kvs)"
  by (induction k v kvs rule: map_set.induct) (simp_all, blast)

lemma registry_create_set:
  "InMemoryConnectorRegistry_create cs r = Inr r' \<Longrightarrow> snd ` set r' \<subseteq> snd ` set r \<union> set cs"
proof (induction cs r rule: InMemoryConnectorRegistry_create.induct)
  case (2 c cs r)
  from 2(2) have "InMemoryConnectorRegistry_create cs (map_set (sc_connectorId c) c r) = Inr r'"
    "InMemoryConnectorRegistry_register c r = Inr (map_set (sc_connectorId c) c r)"
    by (auto simp: InMemoryConnectorRegistry_register_def split: if_splits)
  with 2(1) have "snd ` set r' \<subseteq> snd ` set (map_set (sc_connectorId c) c r) \<union> set cs" by blast
  with map_set_values[of "sc_connectorId c" c r] show ?case unfolding list.set(2) by blast
qed simp

lemma service_connector:
  assumes "control_wired svc connectors" "service_session svc inputs release connector s session s'"
  obtains opts where "connector = SessionCredentialSecureConnector_create opts" "co_env opts = es_env svc"
      "opts \<in> set connectors"
proof -
  from assms obtain reg where r: "InMemoryConnectorRegistry_resolveCapability reg
      (ec_action (xl_executableContent release)) = Inr connector"
    "InMemoryConnectorRegistry_create (map SessionCredentialSecureConnector_create connectors) [] = Inr reg"
    by (auto simp: control_wired_def service_session_def)
  from resolveCapability_Inr(1)[OF r(1)] registry_create_set[OF r(2)] assms(1) that show thesis
    by (auto simp: control_wired_def)
qed

lemma control_world:
  fixes svc :: "(json, 'cred, 'w) control_service"
  assumes "SessionCredentialExecutionControl_execute check a identity (ExecutionControlService_execute svc)
       inputs release authentication st = (r, st')"
    and "cs_world st' \<noteq> cs_world st" and "control_wired svc connectors"
  shows "\<exists>opts. control_acted check a svc connectors inputs release authentication opts st (cs_world st')"
proof -
  from assms(1,2) have ok: "SignedToken_authenticateGatewayForRequest check a identity authentication
      (ap_authorizationId (sa_payload (xl_authorization release)))"
    by (auto simp: SessionCredentialExecutionControl_execute_def split: if_splits)
  then obtain att where att: "isGatewayAttestation authentication = Some att" "check att (sta_publicKey a)"
      "at_gatewayId (ga_payload att) = gi_gatewayId (sta_gateway a)"
      "at_authorizationId (ga_payload att) = ap_authorizationId (sa_payload (xl_authorization release))"
    by (auto simp: SignedToken_authenticateGatewayForRequest_def SignedToken_verifiedAttestation_def
        split: option.splits if_splits)
  from ok assms(1) have x: "ExecutionControlService_execute svc inputs release authentication st = (r, st')"
    by (simp add: SessionCredentialExecutionControl_execute_def)
  from x show ?thesis
  proof (cases rule: service_cases)
    case (rejected e s') with assms(2) show ?thesis by simp
  next
    case (reached connector session s' st1)
    let ?st = "MemoryExecutionAuditSink_record (service_event SessionCreated 0 inputs release
            (sc_connectorId connector) (gs_sessionId session)) (st\<lparr>cs_sessions := s'\<rparr>)"
    let ?rq = "connector_request release (es_gatewayIdentity svc) session"
    from assms(3) reached(2) obtain opts :: "(json, 'cred, 'w) connector_options" where
      c: "connector = SessionCredentialSecureConnector_create opts" "co_env opts = es_env svc"
        "opts \<in> set connectors"
      by (rule service_connector)
    from reached(3) c have e: "SessionCredentialSecureConnector_execute opts inputs ?rq ?st = (r, st1)"
      by (simp add: SessionCredentialSecureConnector_create_def)
    have w: "cs_world st1 \<noteq> cs_world ?st" "cs_world st' = cs_world st1" using assms(2) reached(4) by auto
    note k = connector_changes_world[OF e w(1)]
    from k obtain x where x: "map_of s' (gs_sessionId session) = Some x"
        "session_valid (es_env svc) ?rq (ci_connectorId (co_identity opts)) (ki_consumedAt inputs) x"
      unfolding admitted_def c(2) by (auto simp: connector_request_def)
    have t: "session_times svc inputs release"
      by (rule service_session_time[OF reached(2) _ x]) (use assms(3) in \<open>simp add: control_wired_def\<close>)
    from k w(2) att t c(3) show ?thesis
      unfolding control_acted_def
      by (intro exI[of _ opts]) (auto simp: admitted_def connector_request_def request_approvals_def)
  qed
qed


lemma executeControlled_cases:
  assumes "ExecutionGateway_executeControlled verified timestamp mint configured service st = (r, g', st')"
  obtains (refused) "st' = st"
  | (served) content authorization approvals authentication q where
      "verified = (Inr (ReleaseToService content authorization approvals), g')"
      "service (ExecutionGateway_release timestamp content authorization approvals) authentication st = (q, st')"
  using assms
  by (auto simp: ExecutionGateway_executeControlled_def Let_def split: prod.splits sum.splits gateway_release.splits)

lemma released_authorization:
  "ExecutionGateway_execute dp sigv h check g request now clock st = (Inr (ReleaseToService c a xs), st') \<Longrightarrow>
     a = xr_authorization request"
  by (auto simp: ExecutionGateway_execute_def split: prod.splits sum.splits if_splits release_side.splits)

lemma closed_except_set: "leases_closed l \<Longrightarrow> closed_except i (map_set i x l)"
  unfolding leases_closed_def closed_except_def by (metis fun_upd_other map_of_map_set)

text \<open>The trace a connector leaves: one event, and no usable lease.\<close>

lemma connector_trace:
  assumes "SessionCredentialSecureConnector_execute opts inputs request st = (r, st')"
  shows "\<exists>credentialId. cs_audit st' = cs_audit st @ [connector_event
           (case r of Inr _ \<Rightarrow> ExecutionCompleted | Inl _ \<Rightarrow> ExecutionRejected) opts inputs request credentialId]"
    and "leases_closed (cs_leases st) \<Longrightarrow> valid_time (ki_issuedAt inputs) \<Longrightarrow>
      valid_time (ki_issuedAt inputs + co_lifetimeMs opts) \<Longrightarrow> leases_closed (cs_leases st')"
proof -
  let ?p = "DefaultConnectorPolicy_assertAllowed (co_authenticator opts) (co_env opts) inputs request
      (ci_connectorId (co_identity opts)) (co_capabilities opts) (co_identity opts)
      (co_gatewayAuthentication opts) st"
  let ?i = "\<lambda>st1. SessionCredentialVault_issue (sn_isoString (co_env opts)) (cs_vault st1) (co_lifetimeMs opts)
      (ki_credentialId inputs) (ki_issuedAt inputs) (ci_connectorId (co_identity opts))
      (ap_authorizationId (gx_payload request)) (cs_leases st1)"
  obtain q st1 where p: "?p = (q, st1)" by (rule prod.exhaust)
  from assertAllowed_state p obtain s' where s: "st1 = st\<lparr>cs_sessions := s'\<rparr>" by (metis snd_conv)
  obtain z l where z: "?i st1 = (z, l)" by (rule prod.exhaust)
  note d = assms[unfolded SessionCredentialSecureConnector_execute_def p prod.case]
  show "\<exists>credentialId. cs_audit st' = cs_audit st @ [connector_event
      (case r of Inr _ \<Rightarrow> ExecutionCompleted | Inl _ \<Rightarrow> ExecutionRejected) opts inputs request credentialId]"
    using d z s by (cases q; cases z) (auto split: prod.splits sum.splits dest!: use_credential_audit)
  assume c: "leases_closed (cs_leases st)" "valid_time (ki_issuedAt inputs)"
    "valid_time (ki_issuedAt inputs + co_lifetimeMs opts)"
  show "leases_closed (cs_leases st')"
  proof (cases "q = Inr () \<and> (\<exists>lease. z = Inr lease)")
    case True
    then obtain lease where lease: "z = Inr lease" by blast
    from z lease obtain x where "l = map_set (sk_sessionCredentialId lease) x (cs_leases st1)"
      by (auto simp: SessionCredentialVault_issue_def Let_def split: sum.splits if_splits)
    with c(1) s have "closed_except (sk_sessionCredentialId lease) (cs_leases (st1\<lparr>cs_leases := l\<rparr>))"
      by (simp add: closed_except_set)
    then have "leases_closed (cs_leases (snd (use_credential opts inputs request
        (sk_sessionCredentialId lease) (st1\<lparr>cs_leases := l\<rparr>))))"
      by (intro use_credential_closes[OF prod.collapse[symmetric]])
    with d True z lease show ?thesis by (auto split: prod.splits sum.splits)
  next
    case False
    with z c have "q \<noteq> Inr () \<or> l = cs_leases st1"
      by (auto simp: SessionCredentialVault_issue_def Let_def split: sum.splits if_splits)
    with d z s c(1) False show ?thesis by (cases q; cases z) auto
  qed
qed

text \<open>Any number of calls of one service, with times that are dates.\<close>

definition issuance_in_range :: "('a, 'cred, 'w) connector_options list \<Rightarrow> int \<Rightarrow> bool" where
  "issuance_in_range connectors t \<longleftrightarrow>
     valid_time t \<and> list_all (\<lambda>opts. valid_time (t + co_lifetimeMs opts)) connectors"

inductive control_calls ::
  "(json, 'cred, 'w) control_service \<Rightarrow> (json, 'cred, 'w) connector_options list \<Rightarrow> ('cred, 'w) control_state
   \<Rightarrow> ('cred, 'w) control_state \<Rightarrow> bool" for svc connectors where
  none: "control_calls svc connectors st st"
| call: "control_calls svc connectors st st1 \<Longrightarrow> issuance_in_range connectors (ki_issuedAt inputs) \<Longrightarrow>
     control_calls svc connectors st (snd (ExecutionControlService_execute svc inputs release authentication st1))"

section \<open>A sample release side\<close>

definition sample_env :: session_env where
  "sample_env = \<lparr>sn_bindContent = ec_action, sn_bindAuthorization = sa_signature,
     sn_parse = tally_parse, sn_isoString = tally\<rparr>"

definition sample_gateway_identity :: gateway_identity where
  "sample_gateway_identity = \<lparr>gi_gatewayId = ''g'', gi_publicIdentity = ''G'', gi_authenticationMetadata = []\<rparr>"

definition sample_token :: "unit signed_token_authenticator" where
  "sample_token = \<lparr>sta_gateway = sample_gateway_identity, sta_publicKey = (),
     sta_connectorIdentities = [], sta_trustExternalConnectors = True\<rparr>"

text \<open>An attestation is signed with its authorization id.\<close>

definition sample_attestation_check :: "unit attestation_check" where
  "sample_attestation_check att k = (ga_signature att = at_authorizationId (ga_payload att))"

definition sample_attestation :: "string \<Rightarrow> json" where
  "sample_attestation i = attestation_json
     (GatewayAttestationSigner_sign (\<lambda>p k. at_authorizationId p) tally ''n'' 0 ''g'' i ())"

text \<open>The executor counts its calls.\<close>

definition sample_options :: "(json, string, nat) connector_options" where
  "sample_options = \<lparr>co_identity = externalConnectorIdentity ''pay'', co_capabilities = [''pay''],
     co_authenticator = SignedTokenConnectorAuthenticator sample_attestation_check sample_token,
     co_env = sample_env, co_gatewayAuthentication = sample_attestation ''a1'', co_lifetimeMs = 20,
     co_executor = (\<lambda>content secret authorization approvals w.
       (Inr \<lparr>xs_businessTransactionId = ec_businessTransactionId content, xs_action = ec_action content,
          xs_target = secret, xs_parameters = [], xs_success = True, xs_executedAt = 0, xs_metadata = None\<rparr>,
        Suc w))\<rparr>"

definition sample_registry :: "(string, nat) registry" where
  "sample_registry = [(''ext-pay'', SessionCredentialSecureConnector_create sample_options)]"

lemma sample_registered:
  "InMemoryConnectorRegistry_create [SessionCredentialSecureConnector_create sample_options] [] = Inr sample_registry"
  by (simp add: InMemoryConnectorRegistry_register_def sample_registry_def
      SessionCredentialSecureConnector_create_def sample_options_def externalConnectorIdentity_def
      EXTERNAL_CONNECTOR_ID_PREFIX_def)

definition sample_service :: "(json, string, nat) control_service" where
  "sample_service = \<lparr>es_gatewayIdentity = sample_gateway_identity,
     es_authenticator = SignedTokenConnectorAuthenticator sample_attestation_check sample_token,
     es_registry = InMemoryConnectorRegistry_resolveCapability sample_registry, es_env = sample_env,
     es_issuanceConfigured = 7, es_issuanceAuthentication = 7, es_sessionLifetimeMs = 30\<rparr>"

definition sample_times :: "string \<Rightarrow> string \<Rightarrow> control_inputs" where
  "sample_times s c = \<lparr>ki_sessionId = s, ki_createdAt = 10, ki_auditedAt = (\<lambda>i. 11 + int i),
     ki_consumedAt = 12, ki_credentialId = c, ki_issuedAt = 13, ki_usedAt = 14\<rparr>"

definition sample_control_state :: "(string, nat) control_state" where
  "sample_control_state = \<lparr>cs_sessions = [], cs_vault = [(''ext-pay'', ''secret'')], cs_leases = [],
     cs_audit = [], cs_world = 0\<rparr>"

definition sample_control where
  "sample_control = SessionCredentialExecutionControl_execute sample_attestation_check sample_token
     sample_gateway_identity (ExecutionControlService_execute sample_service) (sample_times ''s1'' ''c1'')"

definition sample_controlled where
  "sample_controlled = ExecutionGateway_executeControlled (sample_execute 5 6 ([], [])) ''now''
     (Some sample_attestation) JNull sample_control sample_control_state"

lemma sample_wired: "control_wired sample_service [sample_options]"
  unfolding control_wired_def list.map(2) list.map(1)
  using sample_registered by (auto simp: sample_service_def sample_options_def sample_env_def)

lemma sample_controlled_acts: "cs_world (snd (snd sample_controlled)) = 1"
  by code_simp

definition sample_release :: execution_release where
  "sample_release = ExecutionGateway_release ''now'' \<lparr>ec_businessTransactionId = ''b1'', ec_action = ''pay'',
     ec_target = ''acct'', ec_parameters = []\<rparr> (sample_authorization ''A'' 100) []"

definition sample_served where
  "sample_served = ExecutionControlService_execute sample_service (sample_times ''s1'' ''c1'')
     sample_release (sample_attestation ''a1'') sample_control_state"

definition sample_session :: gateway_session where
  "sample_session = \<lparr>gs_sessionId = ''s1'', gs_createdAt = tally 10, gs_expiresAt = tally 40,
     gs_authorizationId = ''a1''\<rparr>"

definition sample_sessions :: session_map where
  "sample_sessions = snd (GatewaySessionStore_create sample_env 7 ''s1'' sample_release ''ext-pay'' 30 7 10 [])"

definition sample_leases :: lease_map where
  "sample_leases = snd (SessionCredentialVault_issue tally [(''ext-pay'', ''secret'')] 20 ''c1'' 13 ''ext-pay'' ''a1'' [])"

lemma sample_served_returns: "ok (fst sample_served)"
  by code_simp

lemma sample_issuance: "issuance_in_range [sample_options] (ki_issuedAt (sample_times s c))"
  by (simp add: issuance_in_range_def sample_times_def sample_options_def valid_time_def date_max_def)

section \<open>Properties\<close>

text \<open>
  Complete mediation.  With a gateway built without \<open>allowUnverifiedPolicy\<close> in front of the
  request-bound wrapper, the service and session credential connectors, a request that changes
  anything outside passed the gateway (its authorization is signed and in time, its content has the
  signed hash, its policy is current and approved under the signed hash, its signals hold, its nonce
  is new) and was admitted on the release side: an attestation that verifies under the gateway's key
  and names this authorization, a registered and trusted connector that declares the action, no other
  granted capability, a session and an authorization that had not run out when the session was used.
  The change is exactly what that connector's executor does with this content, this authorization
  and the passed-on approvals under the connector's own secret.
\<close>

theorem mediated_execution:
  assumes "ExecutionGateway_create envl repo pav ssv allow conn ctl = Inr g" and "allow \<noteq> Some True"
    and "ExecutionGateway_executeControlled
           (ExecutionGateway_execute dp sigv h (MemoryNonceStore_checkAndRecord dp) g request now clock (s, v))
           timestamp mint configured
           (SessionCredentialExecutionControl_execute check a identity (ExecutionControlService_execute svc) inputs)
           st = (r, gst, st')"
    and "cs_world st' \<noteq> cs_world st" and "control_wired svc connectors"
  shows "\<exists>content approvals pol opts authentication.
     fst (EnvelopeVerifier_verifyChecks dp sigv (gw_envelope g) (xr_authorization request) now)
     \<and> toExecutableContent (xr_businessTransactionId request) (xr_action request)
           (xr_target request) (xr_parameters request) = Inr content
     \<and> h_content h content = ap_businessTransactionHash (sa_payload (xr_authorization request))
     \<and> policy_bound h g (sa_payload (xr_authorization request)) pol
     \<and> signals_hold h g request content (Some pol) v
     \<and> map_of s (ap_nonce (sa_payload (xr_authorization request))) = None
     \<and> control_acted check a svc connectors inputs
          (ExecutionGateway_release timestamp content (xr_authorization request) approvals)
          authentication opts st (cs_world st')"
  using assms(3)
proof (cases rule: executeControlled_cases)
  case refused
  with assms(4) show ?thesis by simp
next
  case (served content authorization approvals authentication q)
  from control_world[OF served(2) assms(4,5)] released_authorization[OF served(1)]
    release_sound[OF assms(1,2) served(1)] show ?thesis by (simp del: split_paired_Ex) blast
qed

theorem mediated_execution_witness:
  "\<exists>content approvals opts authentication. control_acted sample_attestation_check sample_token sample_service
     [sample_options] (sample_times ''s1'' ''c1'')
     (ExecutionGateway_release ''now'' content (xr_authorization sample_execution) approvals)
     authentication opts sample_control_state 1"
proof -
  obtain r gst st' where x: "sample_controlled = (r, gst, st')" by (metis prod.exhaust)
  from sample_controlled_acts[unfolded x] have w: "cs_world st' = 1" by simp
  then have "cs_world st' \<noteq> cs_world sample_control_state" by (simp add: sample_control_state_def)
  from mediated_execution[OF sample_gateway_created _ x[unfolded sample_controlled_def sample_execute_def
      sample_control_def] this sample_wired] w show ?thesis by force
qed




text \<open>
  C36: no secret stays within reach.  However many calls a service has served, with whatever
  requests, errors and executor failures, every session credential that was ever issued is used up
  or revoked, provided the times of issuance are dates.
\<close>

theorem no_open_lease:
  fixes svc :: "(json, 'cred, 'w) control_service"
  assumes "control_calls svc connectors st st'" and "control_wired svc connectors" and "leases_closed (cs_leases st)"
  shows "leases_closed (cs_leases st')"
  using assms(1,3)
proof (induction rule: control_calls.induct)
  case (call st st1 inputs release authentication)
  obtain r st2 where x: "ExecutionControlService_execute svc inputs release authentication st1 = (r, st2)"
    by (rule prod.exhaust)
  then have "leases_closed (cs_leases st2)"
  proof (cases rule: service_cases)
    case (reached connector session s' st3)
    from assms(2) reached(2) obtain opts :: "(json, 'cred, 'w) connector_options" where
      c: "connector = SessionCredentialSecureConnector_create opts" "opts \<in> set connectors"
      by (rule service_connector)
    with call show ?thesis
      using reached(3,4) connector_trace(2)[of opts inputs] unfolding c issuance_in_range_def
      by (fastforce simp: SessionCredentialSecureConnector_create_def list_all_iff)
  qed (use call in simp)
  with x show ?case by simp
qed


theorem no_open_lease_witness: "leases_closed (cs_leases (snd sample_served))"
proof -
  have "control_calls sample_service [sample_options] sample_control_state (snd sample_served)"
    unfolding sample_served_def by (intro control_calls.intros sample_issuance)
  from no_open_lease[OF this sample_wired] show ?thesis
    by (simp add: leases_closed_def sample_control_state_def)
qed

text \<open>
  A gateway session is used once.  After a session was accepted, no request that names it is
  accepted again, whatever the other operations of the store do in between, under any clock and
  for any connector.
\<close>

theorem session_single_use:
  assumes "GatewaySessionStore_consume env request connectorId now s = (True, s')"
    and "session_step\<^sup>*\<^sup>* s' t"
    and "gs_sessionId (gx_gatewaySession later) = gs_sessionId (gx_gatewaySession request)"
  shows "\<not> fst (GatewaySessionStore_consume env' later connectorId' now' t)"
  using gateway_sessions.used_once[of "(env, request, connectorId, now)" s t
      "(env', later, connectorId', now')"] assms by simp

theorem session_single_use_witness:
  "\<not> fst (GatewaySessionStore_consume sample_env
       (connector_request sample_release sample_gateway_identity sample_session) ''ext-pay'' 13
       (snd (GatewaySessionStore_consume sample_env
         (connector_request sample_release sample_gateway_identity sample_session) ''ext-pay'' 12 sample_sessions)))"
proof -
  let ?q = "connector_request sample_release sample_gateway_identity sample_session"
  have "fst (GatewaySessionStore_consume sample_env ?q ''ext-pay'' 12 sample_sessions)" by code_simp
  then have "GatewaySessionStore_consume sample_env ?q ''ext-pay'' 12 sample_sessions
    = (True, snd (GatewaySessionStore_consume sample_env ?q ''ext-pay'' 12 sample_sessions))"
    by (simp add: prod_eq_iff)
  from session_single_use[OF this rtranclp.rtrancl_refl refl] show ?thesis .
qed

text \<open>
  A session credential yields its secret once.  After it was consumed, no later attempt gives
  the secret, whatever credentials are stored, issued, used or revoked in between.
\<close>

theorem lease_single_use:
  assumes "SessionCredentialVault_consume v now i l = (Inr secret, l')"
    and "lease_step\<^sup>*\<^sup>* (v, l') (v2, l2)"
  shows "\<exists>e. fst (SessionCredentialVault_consume v2 now2 i l2) = Inl e"
  using credential_leases.used_once[of "(now, i)" "(v, l)" "(v2, l2)" "(now2, i)"] assms
  by (cases "SessionCredentialVault_consume v2 now2 i l2"; cases "fst (SessionCredentialVault_consume v2 now2 i l2)")
     (auto simp: lease_attempt_def)


theorem lease_single_use_witness:
  "\<exists>e. fst (SessionCredentialVault_consume [(''ext-pay'', ''secret'')] 15 ''c1''
     (snd (SessionCredentialVault_consume [(''ext-pay'', ''secret'')] 14 ''c1'' sample_leases))) = Inl e"
proof -
  let ?v = "[(''ext-pay'', ''secret'')]"
  have "fst (SessionCredentialVault_consume ?v 14 ''c1'' sample_leases) = Inr ''secret''" by code_simp
  then have "SessionCredentialVault_consume ?v 14 ''c1'' sample_leases
    = (Inr ''secret'', snd (SessionCredentialVault_consume ?v 14 ''c1'' sample_leases))"
    by (simp add: prod_eq_iff)
  from lease_single_use[OF this rtranclp.rtrancl_refl] show ?thesis .
qed

end
