(* ===== verification/Governance_Guards.thy ===== *)
theory Governance_Guards
  imports Approval
begin

text \<open>
  The guards of the maker-checker routes of \<open>packages/api/src\<close>: \<open>auth/isHumanCaller.ts\<close>,
  \<open>auth/recordCallerAuditEvent.ts\<close> and \<open>auth/governanceGuards.ts\<close>, with the step-up envelope of
  a human checker, \<open>auth/isPolicyChangeStepUpAuthorizationShape.ts\<close>,
  \<open>packages/crypto/src/PolicyChangeStepUpAuthorizationCrypto.ts\<close> and
  \<open>auth/PolicyChangeStepUpVerifier.ts\<close>.

  Parameters: the signature check over the JSON payload, the parser of a PEM key, \<open>Date.parse\<close>,
  the nonce store and the clock readings.  An audit sink is told by whether it accepts an event.
\<close>

section \<open>Callers and errors\<close>

datatype authority_type = USER | ROLE | SERVICE | ORGANIZATION

text \<open>What the caller authentication put on the request, and the fields the guards read of its body.\<close>

record gov_caller =
  gc_callerId :: "string option"
  gc_holder :: "authority_type option"
  gc_stepUpKey :: "string option"
  gc_route :: string
  gc_stepUp :: "json option"

datatype gov_error =
    BadRequest string
  | CallerAuthenticationRequired string
  | AuditUnavailableError
  | NonHumanCallerDeniedError
  | ChangeNotFoundError string
  | SameActorCannotApproveOwnChangeError string
  | StepUpAuthorizationInvalidError
  | ConflictError string
  | UnexpectedError string

text \<open>The HTTP status of each; what reaches \<open>next(error)\<close> untyped becomes a 500.\<close>

fun gov_status :: "gov_error \<Rightarrow> nat" where
  "gov_status (BadRequest _) = 400"
| "gov_status (CallerAuthenticationRequired _) = 401"
| "gov_status AuditUnavailableError = 503"
| "gov_status NonHumanCallerDeniedError = 403"
| "gov_status (ChangeNotFoundError _) = 404"
| "gov_status (SameActorCannotApproveOwnChangeError _) = 403"
| "gov_status StepUpAuthorizationInvalidError = 403"
| "gov_status (ConflictError _) = 409"
| "gov_status (UnexpectedError _) = 500"

section \<open>Human callers\<close>

definition isHumanCaller :: "authority_type option \<Rightarrow> bool" where
  "isHumanCaller t = (t = Some USER)"

record caller_audit_event =
  ce_type :: string
  ce_occurredAt :: string
  ce_route :: string
  ce_callerId :: "string option"
  ce_reason :: "string option"
  ce_businessTransactionId :: "string option"
  ce_capability :: "string option"
  ce_principalId :: "string option"
  ce_severity :: "string option"

text \<open>A sink that accepts an event appends it; a write that fails ends the request with a 503.\<close>

type_synonym audit_sink = "caller_audit_event \<Rightarrow> bool"

definition recordCallerAuditEvent ::
  "audit_sink \<Rightarrow> caller_audit_event \<Rightarrow> caller_audit_event list
   \<Rightarrow> (gov_error, unit) result \<times> caller_audit_event list" where
  "recordCallerAuditEvent sink event events =
     (if sink event then (Inr (), events @ [event]) else (Inl AuditUnavailableError, events))"

definition non_human_event :: "string \<Rightarrow> gov_caller \<Rightarrow> caller_audit_event" where
  "non_human_event now req =
     \<lparr>ce_type = ''caller.non_human_denied'', ce_occurredAt = now, ce_route = gc_route req,
      ce_callerId = gc_callerId req,
      ce_reason = Some ''credential is not provisioned as a verified human (credentialHolderType !== USER)'',
      ce_businessTransactionId = None, ce_capability = None, ce_principalId = None,
      ce_severity = Some ''flagged''\<rparr>"

definition requireHumanCaller ::
  "audit_sink option \<Rightarrow> string \<Rightarrow> gov_caller \<Rightarrow> caller_audit_event list
   \<Rightarrow> (gov_error, unit) result \<times> caller_audit_event list" where
  "requireHumanCaller sink now req events =
     (if isHumanCaller (gc_holder req) then (Inr (), events)
      else case sink of
             None \<Rightarrow> (Inl NonHumanCallerDeniedError, events)
           | Some s \<Rightarrow>
               (case recordCallerAuditEvent s (non_human_event now req) events of
                  (Inl e, events') \<Rightarrow> (Inl e, events')
                | (Inr _, events') \<Rightarrow> (Inl NonHumanCallerDeniedError, events')))"

section \<open>Step-up envelopes\<close>

datatype gov_action = Approve_Change | Reject_Change

fun action_name :: "gov_action \<Rightarrow> string" where
  "action_name Approve_Change = ''approve''"
| "action_name Reject_Change = ''reject''"

lemma action_name_inj [simp]: "action_name a = action_name b \<longleftrightarrow> a = b"
  by (cases a; cases b) simp_all

record step_up =
  su_payload :: json
  su_version :: "json option"
  su_nonce :: string
  su_changeId :: string
  su_action :: string
  su_authorizedAt :: string
  su_expiresAt :: string
  su_signature :: string

text \<open>The guard, returning the fields it has checked.\<close>

definition asStepUp :: "json \<Rightarrow> step_up option" where
  "asStepUp v = do {
     payload \<leftarrow> obj_prop v ''payload'';
     (if get_prop payload ''version'' = Some (JNum (Fin 1)) then Some () else None);
     nonce \<leftarrow> str_prop payload ''nonce'';
     changeId \<leftarrow> str_prop payload ''pendingPolicyChangeId'';
     action \<leftarrow> str_prop payload ''action'';
     (if action = ''approve'' \<or> action = ''reject'' then Some () else None);
     authorizedAt \<leftarrow> str_prop payload ''authorizedAt'';
     expiresAt \<leftarrow> str_prop payload ''expiresAt'';
     signature \<leftarrow> str_prop v ''signature'';
     keyId \<leftarrow> str_prop v ''keyId'';
     algorithm \<leftarrow> str_prop v ''algorithm'';
     Some \<lparr>su_payload = payload, su_version = get_prop payload ''version'', su_nonce = nonce,
           su_changeId = changeId, su_action = action, su_authorizedAt = authorizedAt,
           su_expiresAt = expiresAt, su_signature = signature\<rparr>
   }"

definition isPolicyChangeStepUpAuthorizationShape :: "json option \<Rightarrow> bool" where
  "isPolicyChangeStepUpAuthorizationShape v = (Option.bind v asStepUp \<noteq> None)"

record step_up_checks =
  sc_versionSupported :: bool
  sc_signatureVerified :: bool
  sc_notExpired :: bool
  sc_changeIdMatches :: bool
  sc_actionMatches :: bool
  sc_ttlWithinPolicy :: bool

type_synonym 'key step_up_signature = "json \<Rightarrow> string \<Rightarrow> 'key \<Rightarrow> bool"

text \<open>The checks of the authorization verifier; a version that is not supported fails all of them.\<close>

definition PolicyChangeStepUpAuthorizationVerifier_verify ::
  "date_parse \<Rightarrow> 'key step_up_signature \<Rightarrow> step_up \<Rightarrow> 'key \<Rightarrow> string \<Rightarrow> gov_action \<Rightarrow> int
   \<Rightarrow> bool \<times> step_up_checks" where
  "PolicyChangeStepUpAuthorizationVerifier_verify dp sigv a key changeId action now =
     (if su_version a \<noteq> Some (JNum (Fin 1))
      then (False, \<lparr>sc_versionSupported = False, sc_signatureVerified = False, sc_notExpired = False,
                    sc_changeIdMatches = False, sc_actionMatches = False, sc_ttlWithinPolicy = False\<rparr>)
      else
        let signatureVerified = sigv (su_payload a) (su_signature a) key;
            notExpired = (case dp (su_expiresAt a) of Some e \<Rightarrow> now < e | None \<Rightarrow> False);
            changeIdMatches = (su_changeId a = changeId);
            actionMatches = (su_action a = action_name action)
        in (signatureVerified \<and> notExpired \<and> changeIdMatches \<and> actionMatches,
            \<lparr>sc_versionSupported = True, sc_signatureVerified = signatureVerified,
             sc_notExpired = notExpired, sc_changeIdMatches = changeIdMatches,
             sc_actionMatches = actionMatches, sc_ttlWithinPolicy = False\<rparr>))"

definition STEP_UP_MAX_TTL_SECONDS :: jsnum where
  "STEP_UP_MAX_TTL_SECONDS = Fin 120"

definition PolicyChangeStepUpVerifier_verifyChecks ::
  "date_parse \<Rightarrow> 'key step_up_signature \<Rightarrow> jsnum \<Rightarrow> step_up \<Rightarrow> 'key \<Rightarrow> string \<Rightarrow> gov_action \<Rightarrow> int
   \<Rightarrow> bool \<times> step_up_checks" where
  "PolicyChangeStepUpVerifier_verifyChecks dp sigv maxTtl a key changeId action now =
     (let c = snd (PolicyChangeStepUpAuthorizationVerifier_verify dp sigv a key changeId action now);
          ttlWithinPolicy = ttl_within (dp (su_expiresAt a)) (dp (su_authorizedAt a)) maxTtl
      in (sc_versionSupported c \<and> sc_signatureVerified c \<and> sc_notExpired c \<and> sc_changeIdMatches c
          \<and> sc_actionMatches c \<and> ttlWithinPolicy,
          c\<lparr>sc_ttlWithinPolicy := ttlWithinPolicy\<rparr>))"

definition PolicyChangeStepUpVerifier_consumeNonce ::
  "'s nonce_check \<Rightarrow> int \<Rightarrow> step_up \<Rightarrow> 's \<Rightarrow> bool \<times> 's" where
  "PolicyChangeStepUpVerifier_consumeNonce check clock a s = check clock (su_nonce a) (su_expiresAt a) s"

text \<open>The nonce is used only once everything else has passed.\<close>

definition PolicyChangeStepUpVerifier_verify ::
  "date_parse \<Rightarrow> 'key step_up_signature \<Rightarrow> jsnum \<Rightarrow> 's nonce_check \<Rightarrow> step_up \<Rightarrow> 'key \<Rightarrow> string
   \<Rightarrow> gov_action \<Rightarrow> int \<Rightarrow> int \<Rightarrow> 's \<Rightarrow> bool \<times> 's" where
  "PolicyChangeStepUpVerifier_verify dp sigv maxTtl check a key changeId action now clock s =
     (if fst (PolicyChangeStepUpVerifier_verifyChecks dp sigv maxTtl a key changeId action now)
      then PolicyChangeStepUpVerifier_consumeNonce check clock a s else (False, s))"

section \<open>The step-up guard\<close>

text \<open>
  What the guard is built from: the key parser, the signature check, and the verifier when the
  deployment has one.  \<open>clock\<close> gives the two clock readings of one verification.
\<close>

record 'key step_up_config =
  sg_parseKey :: "string \<Rightarrow> 'key option"
  sg_sigv :: "'key step_up_signature"
  sg_dp :: date_parse
  sg_maxTtl :: "jsnum option"  \<comment> \<open>\<^term>\<open>None\<close>: no verifier was provided\<close>

definition requireStepUpAuthorization ::
  "'key step_up_config \<Rightarrow> 's nonce_check \<Rightarrow> gov_caller \<Rightarrow> string \<Rightarrow> gov_action \<Rightarrow> int \<times> int \<Rightarrow> 's
   \<Rightarrow> (gov_error, unit) result \<times> 's" where
  "requireStepUpAuthorization g check req changeId action clock s =
     (case Option.bind (gc_stepUp req) asStepUp of
        None \<Rightarrow> (Inl StepUpAuthorizationInvalidError, s)
      | Some a \<Rightarrow>
      (case gc_stepUpKey req of
        None \<Rightarrow> (Inl StepUpAuthorizationInvalidError, s)
      | Some pem \<Rightarrow>
      (case sg_maxTtl g of
        None \<Rightarrow> (Inl StepUpAuthorizationInvalidError, s)
      | Some maxTtl \<Rightarrow>
      (case sg_parseKey g pem of
        None \<Rightarrow> (Inl (UnexpectedError ''createPublicKey''), s)
      | Some key \<Rightarrow>
          (case PolicyChangeStepUpVerifier_verify (sg_dp g) (sg_sigv g) maxTtl check a key changeId
                  action (fst clock) (snd clock) s of
             (valid, s') \<Rightarrow>
               if valid then (Inr (), s') else (Inl StepUpAuthorizationInvalidError, s'))))))"

section \<open>What the guards establish\<close>

lemma requireHuman_Inr [simp]:
  "fst (requireHumanCaller sink now req events) = Inr u \<longleftrightarrow> isHumanCaller (gc_holder req)"
  by (auto simp: requireHumanCaller_def split: option.splits sum.splits prod.splits)

lemma requireHuman_ok: "isHumanCaller (gc_holder req) \<Longrightarrow> requireHumanCaller sink now req events = (Inr (), events)"
  by (simp add: requireHumanCaller_def)

lemma requireHuman_denied:
  "\<not> isHumanCaller (gc_holder req) \<Longrightarrow> \<exists>e events'. requireHumanCaller sink now req events = (Inl e, events')"
  by (auto simp: requireHumanCaller_def split: option.splits sum.splits prod.splits)

text \<open>An envelope of the caller for one change and one action, fresh at a time.\<close>

definition stepped_up ::
  "'key step_up_config \<Rightarrow> gov_caller \<Rightarrow> string \<Rightarrow> gov_action \<Rightarrow> int \<Rightarrow> step_up \<Rightarrow> bool" where
  "stepped_up g req changeId action now a \<longleftrightarrow>
     (\<exists>pem key maxTtl e i. Option.bind (gc_stepUp req) asStepUp = Some a
        \<and> gc_stepUpKey req = Some pem \<and> sg_parseKey g pem = Some key \<and> sg_maxTtl g = Some maxTtl
        \<and> sg_sigv g (su_payload a) (su_signature a) key
        \<and> su_changeId a = changeId \<and> su_action a = action_name action
        \<and> sg_dp g (su_expiresAt a) = Some e \<and> now < e \<and> sg_dp g (su_authorizedAt a) = Some i
        \<and> num_le (Fin ((of_int e - of_int i) / 1000)) maxTtl)"

lemma verifyChecks_iff:
  "fst (PolicyChangeStepUpVerifier_verifyChecks dp sigv maxTtl a key changeId action now) \<longleftrightarrow>
     su_version a = Some (JNum (Fin 1)) \<and> sigv (su_payload a) (su_signature a) key
     \<and> su_changeId a = changeId \<and> su_action a = action_name action
     \<and> (\<exists>e i. dp (su_expiresAt a) = Some e \<and> now < e \<and> dp (su_authorizedAt a) = Some i
          \<and> num_le (Fin ((of_int e - of_int i) / 1000)) maxTtl)"
  by (cases "dp (su_expiresAt a)"; cases "dp (su_authorizedAt a)")
     (auto simp: PolicyChangeStepUpVerifier_verifyChecks_def Let_def
        PolicyChangeStepUpAuthorizationVerifier_verify_def)

lemma stepUp_Inr:
  assumes "requireStepUpAuthorization g check req changeId action clock s = (Inr u, s')"
  obtains a :: step_up where "stepped_up g req changeId action (fst clock) a"
    "check (snd clock) (su_nonce a) (su_expiresAt a) s = (True, s')"
proof -
  from assms obtain a pem maxTtl key where f: "Option.bind (gc_stepUp req) asStepUp = Some a"
    "gc_stepUpKey req = Some pem" "sg_maxTtl g = Some maxTtl" "sg_parseKey g pem = Some key"
    by (auto simp: requireStepUpAuthorization_def split: option.splits)
  with assms have v: "PolicyChangeStepUpVerifier_verify (sg_dp g) (sg_sigv g) maxTtl check a key changeId
      action (fst clock) (snd clock) s = (True, s')"
    by (auto simp: requireStepUpAuthorization_def split: prod.splits if_splits)
  then have "fst (PolicyChangeStepUpVerifier_verifyChecks (sg_dp g) (sg_sigv g) maxTtl a key changeId action (fst clock))"
    and c: "check (snd clock) (su_nonce a) (su_expiresAt a) s = (True, s')"
    by (auto simp: PolicyChangeStepUpVerifier_verify_def PolicyChangeStepUpVerifier_consumeNonce_def split: if_splits)
  with f show thesis by (intro that[OF _ c]) (auto simp: stepped_up_def verifyChecks_iff)
qed

lemma stepUp_state:
  fixes g :: "'key step_up_config"
  shows "snd (requireStepUpAuthorization g check req changeId action clock s) = s
   \<or> (\<exists>n x. snd (requireStepUpAuthorization g check req changeId action clock s)
        = snd (check (snd clock) n x s))"
proof -
  have v: "snd (PolicyChangeStepUpVerifier_verify dp sigv m check a k changeId action t u s) = s
     \<or> (\<exists>n x. snd (PolicyChangeStepUpVerifier_verify dp sigv m check a k changeId action t u s)
        = snd (check u n x s))" for dp sigv m a t u and k :: 'key
    by (force simp: PolicyChangeStepUpVerifier_verify_def PolicyChangeStepUpVerifier_consumeNonce_def)
  show ?thesis
    unfolding requireStepUpAuthorization_def
    by (simp add: split_beta split: option.split) (intro allI impI v)
qed

end
