(* ===== verification/Policy_Governance.thy ===== *)
theory Policy_Governance
  imports Governance_Guards Runtime_Decision
begin

text \<open>
  Maker-checker governance of policies.  The pending changes and the approval records with their
  in-memory repositories (\<open>packages/shared/src/repositories/pending-policy-change-repository.ts\<close>,
  \<open>packages/storage/src/memory\<close>), the signing of records (\<open>packages/crypto/src/PolicyChangeCrypto.ts\<close>),
  the live policy files (\<open>packages/policy/src/FilePolicyRepository.ts\<close>), and
  \<open>packages/api/src\<close>: \<open>governance/PolicyChangeApprovalService.ts\<close>, the routes of
  \<open>routes/pending-policy-changes.ts\<close>, and the readers of the records that the decision and the
  deployment consult.

  Parameters: the hash of a policy or a record, the signer and the signature check, the guards'
  parameters, the random identifiers and clock readings of a call.  At every \<open>await\<close> of a
  handler other requests may run; \<open>env n\<close> is what they do to the state at the \<open>n\<close>-th of them.
\<close>

section \<open>Pending changes\<close>

datatype change_status = PENDING_APPROVAL | CHANGE_APPROVED | CHANGE_REJECTED

record pending_change =
  pc_id :: string
  pc_policyName :: string
  pc_policyVersion :: string
  pc_proposedContent :: policy
  pc_proposedBy :: string
  pc_proposedAt :: int
  pc_status :: change_status
  pc_reason :: string
  pc_resolvedBy :: "string option"
  pc_resolvedAt :: "int option"
  pc_rejectionReason :: "string option"

datatype change_resolution = ApprovedBy string | RejectedBy string string

type_synonym change_store = "(string \<times> pending_change) list"

definition assertNoConflictingPendingChange :: "pending_change option \<Rightarrow> (gov_error, unit) result" where
  "assertNoConflictingPendingChange existing =
     (case existing of
        None \<Rightarrow> Inr ()
      | Some c \<Rightarrow> Inl (ConflictError (''A PENDING_APPROVAL change already exists: '' @ pc_id c)))"

definition applyPendingPolicyChangeResolution ::
  "pending_change \<Rightarrow> change_resolution \<Rightarrow> int \<Rightarrow> (gov_error, pending_change) result" where
  "applyPendingPolicyChangeResolution existing resolution resolvedAt =
     (if pc_status existing \<noteq> PENDING_APPROVAL
      then Inl (ConflictError (''Pending Policy Change is already resolved: '' @ pc_id existing))
      else case resolution of
             ApprovedBy who \<Rightarrow>
               Inr (existing\<lparr>pc_status := CHANGE_APPROVED, pc_resolvedBy := Some who,
                             pc_resolvedAt := Some resolvedAt\<rparr>)
           | RejectedBy who reason \<Rightarrow>
               Inr (existing\<lparr>pc_status := CHANGE_REJECTED, pc_resolvedBy := Some who,
                             pc_resolvedAt := Some resolvedAt, pc_rejectionReason := Some reason\<rparr>))"

definition MemoryPendingChanges_findPending :: "string \<Rightarrow> string \<Rightarrow> change_store \<Rightarrow> pending_change option" where
  "MemoryPendingChanges_findPending name version s =
     find (\<lambda>c. pc_policyName c = name \<and> pc_policyVersion c = version \<and> pc_status c = PENDING_APPROVAL)
       (map snd s)"

text \<open>The check awaits \<open>findPending\<close>; \<open>others\<close> is what the store is when the check goes on.\<close>

definition MemoryPendingChanges_create ::
  "(change_store \<Rightarrow> change_store) \<Rightarrow> pending_change \<Rightarrow> change_store
   \<Rightarrow> (gov_error, pending_change) result \<times> change_store" where
  "MemoryPendingChanges_create others change s =
     (let existing = MemoryPendingChanges_findPending (pc_policyName change) (pc_policyVersion change) s;
          s' = others s in
      case assertNoConflictingPendingChange existing of
        Inl e \<Rightarrow> (Inl e, s')
      | Inr _ \<Rightarrow> (Inr change, map_set (pc_id change) change s'))"

definition MemoryPendingChanges_findById :: "string \<Rightarrow> change_store \<Rightarrow> pending_change option" where
  "MemoryPendingChanges_findById i s = map_of s i"

definition MemoryPendingChanges_list :: "change_status option \<Rightarrow> change_store \<Rightarrow> pending_change list" where
  "MemoryPendingChanges_list status s =
     (case status of None \<Rightarrow> map snd s | Some t \<Rightarrow> filter (\<lambda>c. pc_status c = t) (map snd s))"

definition MemoryPendingChanges_resolve ::
  "string \<Rightarrow> change_resolution \<Rightarrow> int \<Rightarrow> change_store \<Rightarrow> (gov_error, pending_change) result \<times> change_store" where
  "MemoryPendingChanges_resolve i resolution now s =
     (case map_of s i of
        None \<Rightarrow> (Inl (ChangeNotFoundError i), s)
      | Some existing \<Rightarrow>
          (case applyPendingPolicyChangeResolution existing resolution now of
             Inl e \<Rightarrow> (Inl e, s)
           | Inr updated \<Rightarrow> (Inr updated, map_set i updated s)))"

section \<open>Approval records\<close>

text \<open>The fields that are signed, and the record with its signature.\<close>

record approval_fields =
  ar_id :: string
  ar_changeId :: string
  ar_policyName :: string
  ar_policyVersion :: string
  ar_proposedBy :: string
  ar_approvedBy :: string
  ar_proposedAt :: int
  ar_approvedAt :: int
  ar_contentHashBefore :: "string option"
  ar_contentHashAfter :: string
  ar_previousRecordHash :: "string option"

record approval_record = approval_fields +
  ar_signature :: signature

type_synonym approval_records = "(string \<times> approval_record) list"

text \<open>One hash serves policies and records; everything hashed is canonical JSON.\<close>

datatype governed_content = PolicyContent policy | RecordContent approval_record

record change_crypto =
  pk_hash :: "governed_content \<Rightarrow> string"
  pk_algorithm :: string
  pk_sign :: "approval_fields \<Rightarrow> string \<Rightarrow> (string, string) result"
  pk_check :: "approval_fields \<Rightarrow> string \<Rightarrow> string \<Rightarrow> (string, bool) result"

definition GOVERNANCE_KEY_ID :: string where
  "GOVERNANCE_KEY_ID = ''default''"

definition PolicyChangeCrypto_canonicalRecord :: "approval_record \<Rightarrow> approval_fields" where
  "PolicyChangeCrypto_canonicalRecord r = approval_fields.truncate r"

definition PolicyChangeCrypto_sign ::
  "change_crypto \<Rightarrow> int \<Rightarrow> approval_fields \<Rightarrow> (string, signature) result" where
  "PolicyChangeCrypto_sign k now draft =
     (case pk_sign k draft GOVERNANCE_KEY_ID of
        Inl e \<Rightarrow> Inl e
      | Inr v \<Rightarrow> Inr \<lparr>sg_algorithm = pk_algorithm k, sg_keyId = GOVERNANCE_KEY_ID, sg_value = v, sg_signedAt = now\<rparr>)"

definition PolicyChangeCrypto_verify :: "change_crypto \<Rightarrow> approval_record \<Rightarrow> (string, bool) result" where
  "PolicyChangeCrypto_verify k r =
     pk_check k (PolicyChangeCrypto_canonicalRecord r) (sg_keyId (ar_signature r)) (sg_value (ar_signature r))"

definition MemoryApprovalRecords_create :: "approval_record \<Rightarrow> approval_records \<Rightarrow> approval_records" where
  "MemoryApprovalRecords_create r s = map_set (ar_id r) r s"

text \<open>\<open>matches.reduce\<close> with \<open>candidate.approvedAt > mostRecent.approvedAt\<close>: the first of the latest.\<close>

fun most_recent :: "approval_record list \<Rightarrow> approval_record option" where
  "most_recent [] = None"
| "most_recent (r # rs) =
     Some (foldl (\<lambda>latest c. if ar_approvedAt latest < ar_approvedAt c then c else latest) r rs)"

definition MemoryApprovalRecords_findMostRecentFor ::
  "string \<Rightarrow> string \<Rightarrow> approval_records \<Rightarrow> approval_record option" where
  "MemoryApprovalRecords_findMostRecentFor name version s =
     most_recent (filter (\<lambda>r. ar_policyName r = name \<and> ar_policyVersion r = version) (map snd s))"

definition MemoryApprovalRecords_findMostRecentForName ::
  "string \<Rightarrow> approval_records \<Rightarrow> approval_record option" where
  "MemoryApprovalRecords_findMostRecentForName name s =
     most_recent (filter (\<lambda>r. ar_policyName r = name) (map snd s))"

section \<open>Live policy files\<close>

text \<open>
  \<open>path.join\<close> on an absolute base: a segment \<open>..\<close> removes the one before it and \<open>.\<close> disappears.
  A file is found by its normalised path.
\<close>

definition VALID_NAME_OR_VERSION :: "string \<Rightarrow> bool" where
  "VALID_NAME_OR_VERSION s = (s \<noteq> [] \<and> list_all (\<lambda>c. is_word_char c \<or> c = CHR ''.'' \<or> c = CHR ''-'') s)"

fun path_step :: "string list \<Rightarrow> string \<Rightarrow> string list" where
  "path_step p s = (if s = ''..'' then butlast p else if s = ''.'' then p else p @ [s])"

definition policy_file :: "string list \<Rightarrow> string \<Rightarrow> string \<Rightarrow> string list" where
  "policy_file basePath name version = foldl path_step basePath [name, version, ''policy.json'']"

type_synonym policy_files = "string list \<Rightarrow> policy option"

text \<open>Every failure to read or parse is \<open>PolicyNotFoundError\<close>, here \<^term>\<open>None\<close>.\<close>

definition FilePolicyRepository_load :: "string list \<Rightarrow> string \<Rightarrow> string \<Rightarrow> policy_files \<Rightarrow> policy option" where
  "FilePolicyRepository_load basePath name version files =
     (if \<not> VALID_NAME_OR_VERSION name \<or> \<not> VALID_NAME_OR_VERSION version then None
      else files (policy_file basePath name version))"

text \<open>The write goes to a temporary file that is renamed; \<open>fault\<close> is an error of the disk.\<close>

definition FilePolicyRepository_save ::
  "string list \<Rightarrow> string option \<Rightarrow> string \<Rightarrow> string \<Rightarrow> policy \<Rightarrow> policy_files
   \<Rightarrow> (gov_error, unit) result \<times> policy_files" where
  "FilePolicyRepository_save basePath fault name version content files =
     (if \<not> VALID_NAME_OR_VERSION name \<or> \<not> VALID_NAME_OR_VERSION version
      then (Inl (UnexpectedError ''PolicyWriteRejectedError''), files)
      else case fault of
             Some e \<Rightarrow> (Inl (UnexpectedError e), files)
           | None \<Rightarrow> (Inr (), files(policy_file basePath name version \<mapsto> content)))"

section \<open>The approval service\<close>

record gov_world =
  gw_changes :: change_store
  gw_records :: approval_records
  gw_files :: policy_files
  gw_nonces :: memory_nonces
  gw_audit :: "caller_audit_event list"

record gov_config =
  gk_crypto :: change_crypto
  gk_basePath :: "string list"
  gk_rx :: regexp
  gk_nstr :: "jsnum \<Rightarrow> string"
  gk_sink :: "audit_sink option"
  gk_service :: bool  \<comment> \<open>an approval service was provided\<close>

text \<open>The random identifiers, clock readings and disk errors of one request.\<close>

record gov_inputs =
  gi_isoNow :: string
  gi_changeId :: string
  gi_proposedAt :: int
  gi_recordId :: string
  gi_approvedAt :: int
  gi_recordSignedAt :: int
  gi_resolvedAt :: int
  gi_stepUpClock :: "int \<times> int"
  gi_writeFault :: "string option"

type_synonym gov_env = "nat \<Rightarrow> gov_world \<Rightarrow> gov_world"

text \<open>\<open>proposedContent.policyVersion\<close> as the repositories see it.\<close>

definition write_version :: "policy \<Rightarrow> string" where
  "write_version pol = (case policyVersion pol of Some v \<Rightarrow> v | None \<Rightarrow> ''undefined'')"

text \<open>The record the service signs, from what it has read.\<close>

definition approval_draft ::
  "change_crypto \<Rightarrow> gov_inputs \<Rightarrow> pending_change \<Rightarrow> string \<Rightarrow> policy option \<Rightarrow> approval_record option
   \<Rightarrow> approval_fields" where
  "approval_draft k inputs change approvedBy before prior =
     \<lparr>ar_id = gi_recordId inputs, ar_changeId = pc_id change, ar_policyName = pc_policyName change,
      ar_policyVersion = write_version (pc_proposedContent change), ar_proposedBy = pc_proposedBy change,
      ar_approvedBy = approvedBy, ar_proposedAt = pc_proposedAt change, ar_approvedAt = gi_approvedAt inputs,
      ar_contentHashBefore = map_option (\<lambda>p. pk_hash k (PolicyContent p)) before,
      ar_contentHashAfter = pk_hash k (PolicyContent (pc_proposedContent change)),
      ar_previousRecordHash = map_option (\<lambda>r. pk_hash k (RecordContent r)) prior\<rparr>"

text \<open>
  \<open>approve\<close>: the reads, the signature, the durable record, and only then the live file.  Each
  access of a repository follows an \<open>await\<close>.
\<close>

definition PolicyChangeApprovalService_approve ::
  "gov_config \<Rightarrow> gov_inputs \<Rightarrow> gov_env \<Rightarrow> pending_change \<Rightarrow> string \<Rightarrow> gov_world
   \<Rightarrow> (gov_error, approval_record) result \<times> gov_world" where
  "PolicyChangeApprovalService_approve k inputs env change approvedBy w =
     (let content = pc_proposedContent change;
          version = write_version content;
          w0 = env 0 w;
          before = FilePolicyRepository_load (gk_basePath k) (pc_policyName change) version (gw_files w0);
          w1 = env 1 w0;
          prior = MemoryApprovalRecords_findMostRecentFor (pc_policyName change) version (gw_records w1);
          w2 = env 2 w1;
          draft = approval_draft (gk_crypto k) inputs change approvedBy before prior in
      case PolicyChangeCrypto_sign (gk_crypto k) (gi_recordSignedAt inputs) draft of
        Inl e \<Rightarrow> (Inl (UnexpectedError e), w2)
      | Inr signature \<Rightarrow>
          let record = approval_fields.extend draft \<lparr>ar_signature = signature\<rparr>;
              w3 = env 3 (w2\<lparr>gw_records := MemoryApprovalRecords_create record (gw_records w2)\<rparr>) in
          (case FilePolicyRepository_save (gk_basePath k) (gi_writeFault inputs) (pc_policyName change)
                  version content (gw_files w3) of
             (Inl e, files) \<Rightarrow> (Inl e, w3\<lparr>gw_files := files\<rparr>)
           | (Inr _, files) \<Rightarrow> (Inr record, w3\<lparr>gw_files := files\<rparr>)))"

section \<open>Readers of the approval records\<close>

text \<open>\<open>GovernedPolicyVersionSource\<close>: the version most recently approved for a name.\<close>

definition GovernedPolicyVersionSource_currentVersion :: "approval_records \<Rightarrow> string \<Rightarrow> string option" where
  "GovernedPolicyVersionSource_currentVersion s name =
     map_option ar_policyVersion (MemoryApprovalRecords_findMostRecentForName name s)"

text \<open>\<open>PolicyGovernanceExecutionVerifier\<close>: the reason a policy may not execute, if there is one.\<close>

definition PolicyGovernanceExecutionVerifier_verify ::
  "change_crypto \<Rightarrow> approval_records \<Rightarrow> string \<Rightarrow> string \<Rightarrow> string \<Rightarrow> (string, string option) result" where
  "PolicyGovernanceExecutionVerifier_verify k s name version policyContentHash =
     (case MemoryApprovalRecords_findMostRecentFor name version s of
        None \<Rightarrow> Inr (Some ''the policy has no PolicyChangeApprovalRecord'')
      | Some record \<Rightarrow>
          (case PolicyChangeCrypto_verify k record of
             Inl e \<Rightarrow> Inl e
           | Inr signatureValid \<Rightarrow>
               if \<not> signatureValid
               then Inr (Some ''the signature of its most recent approval record does not verify'')
               else if ar_contentHashAfter record \<noteq> policyContentHash
               then Inr (Some ''its live content does not match its most recent approval record'')
               else (case MemoryApprovalRecords_findMostRecentForName name s of
                       None \<Rightarrow> Inr None
                     | Some latest \<Rightarrow>
                         if ar_policyVersion latest \<noteq> version
                         then Inr (Some (''it was superseded, the version in effect is '' @ ar_policyVersion latest))
                         else Inr None)))"

definition PolicyGovernanceAnchorResolver_resolve ::
  "change_crypto \<Rightarrow> approval_records \<Rightarrow> string \<Rightarrow> string \<Rightarrow> string \<Rightarrow> (string, governance_anchor) result" where
  "PolicyGovernanceAnchorResolver_resolve k s name version policyContentHash =
     (case MemoryApprovalRecords_findMostRecentFor name version s of
        None \<Rightarrow> Inr \<lparr>ga_status = NO_APPROVAL_RECORD, ga_approvalRecordId = None\<rparr>
      | Some record \<Rightarrow>
          (case PolicyChangeCrypto_verify k record of
             Inl e \<Rightarrow> Inl e
           | Inr signatureValid \<Rightarrow>
               Inr \<lparr>ga_status = (if \<not> signatureValid then SIGNATURE_INVALID
                                 else if ar_contentHashAfter record \<noteq> policyContentHash then CONTENT_MISMATCH
                                 else VERIFIED),
                    ga_approvalRecordId = Some (ar_id record)\<rparr>))"

section \<open>The integrity check\<close>

datatype mismatch_reason = Missing | ContentMismatch | SignatureInvalid | ChainBroken

text \<open>
  The keys of the \<open>Map\<close> are \<open>name version\<close> with one blank between; valid names and versions
  have none, so a key is a pair.  A check that throws is logged and reports nothing.
\<close>

definition record_pair :: "('a) approval_fields_scheme \<Rightarrow> string \<times> string" where
  "record_pair r = (ar_policyName r, ar_policyVersion r)"

definition check_pair ::
  "gov_config \<Rightarrow> policy_files \<Rightarrow> approval_records \<Rightarrow> string \<times> string \<Rightarrow> mismatch_reason option" where
  "check_pair k files s pair =
     (case MemoryApprovalRecords_findMostRecentFor (fst pair) (snd pair) s of
        None \<Rightarrow> None
      | Some mostRecent \<Rightarrow>
          (case PolicyChangeCrypto_verify (gk_crypto k) mostRecent of
             Inl _ \<Rightarrow> None
           | Inr valid \<Rightarrow>
               if \<not> valid then Some SignatureInvalid
               else (case FilePolicyRepository_load (gk_basePath k) (fst pair) (snd pair) files of
                       None \<Rightarrow> Some Missing
                     | Some content \<Rightarrow>
                         if pk_hash (gk_crypto k) (PolicyContent content) \<noteq> ar_contentHashAfter mostRecent
                         then Some ContentMismatch else None)))"

text \<open>Every record after the first of its pair, by \<open>approvedAt\<close>, carries the hash of the one before.\<close>

fun chain_linked :: "change_crypto \<Rightarrow> approval_record list \<Rightarrow> bool" where
  "chain_linked k (previous # current # rs) =
     (ar_previousRecordHash current = Some (pk_hash k (RecordContent previous)) \<and> chain_linked k (current # rs))"
| "chain_linked k _ = True"

definition check_chain :: "change_crypto \<Rightarrow> approval_records \<Rightarrow> string \<times> string \<Rightarrow> mismatch_reason option" where
  "check_chain k s pair =
     (if chain_linked k (sort_key ar_approvedAt (filter (\<lambda>r. record_pair r = pair) (map snd s)))
      then None else Some ChainBroken)"

definition verifyPolicyGovernanceIntegrity ::
  "gov_config \<Rightarrow> policy_files \<Rightarrow> approval_records \<Rightarrow> nat \<times> ((string \<times> string) \<times> mismatch_reason) list" where
  "verifyPolicyGovernanceIntegrity k files s =
     (let pairs = rev (remdups (rev (map (record_pair \<circ> snd) s)));
          report = (\<lambda>f. List.map_filter (\<lambda>p. map_option (Pair p) (f p)) pairs)
      in (length pairs, report (check_pair k files s) @ report (check_chain (gk_crypto k) s)))"

section \<open>The routes\<close>

text \<open>The body of a proposal: \<^term>\<open>None\<close> content is anything but a plain object.\<close>

record propose_body =
  pb_reason :: "json option"
  pb_content :: "policy option"

definition nonblank :: "json option \<Rightarrow> string option" where
  "nonblank v = (case v of Some (JStr s) \<Rightarrow> if trim s = [] then None else Some s | _ \<Rightarrow> None)"

text \<open>The checks of \<open>POST /policies/:name/:version/pending-changes\<close> before the caller is looked at.\<close>

definition proposal_checks ::
  "gov_config \<Rightarrow> string \<Rightarrow> string \<Rightarrow> propose_body \<Rightarrow> (gov_error, string \<times> policy) result" where
  "proposal_checks k name version body =
     (if \<not> VALID_NAME_OR_VERSION name \<or> \<not> VALID_NAME_OR_VERSION version
      then Inl (BadRequest ''name and version must match ^[A-Za-z0-9._-]+$.'')
      else case nonblank (pb_reason body) of
        None \<Rightarrow> Inl (BadRequest ''reason is required.'')
      | Some reason \<Rightarrow>
      (case pb_content body of
        None \<Rightarrow> Inl (BadRequest ''proposedContent is required and must be a policy.json object.'')
      | Some candidate \<Rightarrow>
          if policyId candidate \<noteq> Some name
          then Inl (BadRequest ''proposedContent.policyId must equal the policy name in the URL.'')
          else if \<not> (case policyVersion candidate of Some v \<Rightarrow> VALID_NAME_OR_VERSION v | None \<Rightarrow> False)
          then Inl (BadRequest ''proposedContent.policyVersion must match ^[A-Za-z0-9._-]+$.'')
          else (case PolicyValidator_validate (gk_rx k) (gk_nstr k) (Some candidate) of
                  Inl _ \<Rightarrow> Inl (BadRequest ''the policy is not valid'')
                | Inr _ \<Rightarrow>
                    (case (findUncoveredFacts candidate, findRuleConflicts candidate) of
                       (Inr _, Inr _) \<Rightarrow> Inr (reason, candidate)
                     | _ \<Rightarrow> Inl (UnexpectedError ''TypeError'')))))"

definition propose_route ::
  "gov_config \<Rightarrow> gov_inputs \<Rightarrow> gov_env \<Rightarrow> gov_caller \<Rightarrow> string \<Rightarrow> string \<Rightarrow> propose_body \<Rightarrow> gov_world
   \<Rightarrow> (gov_error, pending_change) result \<times> gov_world" where
  "propose_route k inputs env req name version body w =
     (case proposal_checks k name version body of
        Inl e \<Rightarrow> (Inl e, w)
      | Inr (reason, content) \<Rightarrow>
      (case gc_callerId req of
        None \<Rightarrow> (Inl (CallerAuthenticationRequired ''propose''), w)
      | Some caller \<Rightarrow>
      (case requireHumanCaller (gk_sink k) (gi_isoNow inputs) req (gw_audit w) of
        (Inl e, events) \<Rightarrow> (Inl e, w\<lparr>gw_audit := events\<rparr>)
      | (Inr _, events) \<Rightarrow>
          let w1 = env 0 (w\<lparr>gw_audit := events\<rparr>);
              change = \<lparr>pc_id = gi_changeId inputs, pc_policyName = name, pc_policyVersion = version,
                 pc_proposedContent = content, pc_proposedBy = caller, pc_proposedAt = gi_proposedAt inputs,
                 pc_status = PENDING_APPROVAL, pc_reason = reason, pc_resolvedBy = None,
                 pc_resolvedAt = None, pc_rejectionReason = None\<rparr>;
              w2 = env 1 w1 in
          (case MemoryPendingChanges_create (\<lambda>_. gw_changes w2) change (gw_changes w1) of
             (q, changes) \<Rightarrow> (q, w2\<lparr>gw_changes := changes\<rparr>)))))"

text \<open>What approve and reject share: the caller, the change, maker against checker, the step-up.\<close>

definition load_for_resolution ::
  "gov_config \<Rightarrow> 'key step_up_config \<Rightarrow> gov_inputs \<Rightarrow> gov_env \<Rightarrow> gov_caller \<Rightarrow> string \<Rightarrow> gov_action \<Rightarrow> string
   \<Rightarrow> gov_world \<Rightarrow> (gov_error, pending_change) result \<times> gov_world" where
  "load_for_resolution k g inputs env req i action caller w =
     (let w1 = env 0 w in
      case MemoryPendingChanges_findById i (gw_changes w1) of
        None \<Rightarrow> (Inl (ChangeNotFoundError i), w1)
      | Some existing \<Rightarrow>
          if pc_proposedBy existing = caller then (Inl (SameActorCannotApproveOwnChangeError i), w1)
          else let w2 = env 1 w1 in
            (case requireStepUpAuthorization g (MemoryNonceStore_checkAndRecord (sg_dp g)) req i action
                    (gi_stepUpClock inputs) (gw_nonces w2) of
               (Inl e, nonces) \<Rightarrow> (Inl e, w2\<lparr>gw_nonces := nonces\<rparr>)
             | (Inr _, nonces) \<Rightarrow> (Inr existing, w2\<lparr>gw_nonces := nonces\<rparr>)))"

definition approve_route ::
  "gov_config \<Rightarrow> 'key step_up_config \<Rightarrow> gov_inputs \<Rightarrow> gov_env \<Rightarrow> gov_caller \<Rightarrow> string \<Rightarrow> gov_world
   \<Rightarrow> (gov_error, pending_change) result \<times> gov_world" where
  "approve_route k g inputs env req i w =
     (case gc_callerId req of
        None \<Rightarrow> (Inl (CallerAuthenticationRequired ''approve''), w)
      | Some caller \<Rightarrow>
      (case requireHumanCaller (gk_sink k) (gi_isoNow inputs) req (gw_audit w) of
        (Inl e, events) \<Rightarrow> (Inl e, w\<lparr>gw_audit := events\<rparr>)
      | (Inr _, events) \<Rightarrow>
      (case load_for_resolution k g inputs env req i Approve_Change caller (w\<lparr>gw_audit := events\<rparr>) of
        (Inl e, w1) \<Rightarrow> (Inl e, w1)
      | (Inr existing, w1) \<Rightarrow>
          if \<not> gk_service k then (Inl (UnexpectedError ''no PolicyChangeApprovalService was provided''), w1)
          else
            (case PolicyChangeApprovalService_approve k inputs (\<lambda>n. env (n + 2)) existing caller w1 of
               (Inl e, w2) \<Rightarrow> (Inl e, w2)
             | (Inr _, w2) \<Rightarrow>
                 let w3 = env 6 w2 in
                 (case MemoryPendingChanges_resolve i (ApprovedBy caller) (gi_resolvedAt inputs) (gw_changes w3) of
                    (q, changes) \<Rightarrow> (q, w3\<lparr>gw_changes := changes\<rparr>))))))"

definition reject_route ::
  "gov_config \<Rightarrow> 'key step_up_config \<Rightarrow> gov_inputs \<Rightarrow> gov_env \<Rightarrow> gov_caller \<Rightarrow> string \<Rightarrow> json option \<Rightarrow> gov_world
   \<Rightarrow> (gov_error, pending_change) result \<times> gov_world" where
  "reject_route k g inputs env req i rejectionReason w =
     (case gc_callerId req of
        None \<Rightarrow> (Inl (CallerAuthenticationRequired ''reject''), w)
      | Some caller \<Rightarrow>
      (case requireHumanCaller (gk_sink k) (gi_isoNow inputs) req (gw_audit w) of
        (Inl e, events) \<Rightarrow> (Inl e, w\<lparr>gw_audit := events\<rparr>)
      | (Inr _, events) \<Rightarrow>
      (case nonblank rejectionReason of
        None \<Rightarrow> (Inl (BadRequest ''rejectionReason is required.''), w\<lparr>gw_audit := events\<rparr>)
      | Some reason \<Rightarrow>
      (case load_for_resolution k g inputs env req i Reject_Change caller (w\<lparr>gw_audit := events\<rparr>) of
        (Inl e, w1) \<Rightarrow> (Inl e, w1)
      | (Inr _, w1) \<Rightarrow>
          let w2 = env 2 w1 in
          (case MemoryPendingChanges_resolve i (RejectedBy caller reason) (gi_resolvedAt inputs) (gw_changes w2) of
             (q, changes) \<Rightarrow> (q, w2\<lparr>gw_changes := changes\<rparr>))))))"

text \<open>
  \<open>GET /policies/pending-changes\<close>: every change with its warnings and the live content.  The
  status is the query: \<^term>\<open>None\<close> is a value that is no status, \<^term>\<open>Some None\<close> that none is given.
\<close>

definition list_entry ::
  "gov_config \<Rightarrow> policy_files \<Rightarrow> pending_change
   \<Rightarrow> (gov_error, pending_change \<times> string list \<times> rule_conflict_warning list \<times> policy option) result" where
  "list_entry k files c =
     (case (findUncoveredFacts (pc_proposedContent c), findRuleConflicts (pc_proposedContent c)) of
        (Inr uncovered, Inr conflicts) \<Rightarrow>
          Inr (c, uncovered, conflicts,
               FilePolicyRepository_load (gk_basePath k) (pc_policyName c) (pc_policyVersion c) files)
      | _ \<Rightarrow> Inl (UnexpectedError ''TypeError''))"

definition list_route ::
  "gov_config \<Rightarrow> gov_inputs \<Rightarrow> gov_caller \<Rightarrow> change_status option option \<Rightarrow> gov_world
   \<Rightarrow> (gov_error, (pending_change \<times> string list \<times> rule_conflict_warning list \<times> policy option) list) result
      \<times> gov_world" where
  "list_route k inputs req status w =
     (case gc_callerId req of
        None \<Rightarrow> (Inl (CallerAuthenticationRequired ''list''), w)
      | Some _ \<Rightarrow>
      (case requireHumanCaller (gk_sink k) (gi_isoNow inputs) req (gw_audit w) of
        (Inl e, events) \<Rightarrow> (Inl e, w\<lparr>gw_audit := events\<rparr>)
      | (Inr _, events) \<Rightarrow>
          (case status of
             None \<Rightarrow> Inl (BadRequest ''status must be one of PENDING_APPROVAL, APPROVED, REJECTED.'')
           | Some t \<Rightarrow>
               gather_m (\<lambda>c. case list_entry k (gw_files w) c of Inl e \<Rightarrow> Inl e | Inr x \<Rightarrow> Inr [x])
                 (MemoryPendingChanges_list t (gw_changes w)),
           w\<lparr>gw_audit := events\<rparr>)))"

end
