(* ===== verification/Governance_Properties.thy ===== *)
theory Governance_Properties
  imports Policy_Governance
begin

text \<open>
  The properties of policy governance.  What any request may do to the state is a sequence of
  primitive actions; every route, interrupted at each of its \<open>await\<close>s by any such actions of
  others, is again such a sequence, so what the actions keep holds under every interleaving.
\<close>

section \<open>Primitive actions\<close>

text \<open>What of a change no resolution touches.\<close>

definition same_proposal :: "pending_change \<Rightarrow> pending_change \<Rightarrow> bool" where
  "same_proposal c d \<longleftrightarrow> pc_id d = pc_id c \<and> pc_policyName d = pc_policyName c
     \<and> pc_policyVersion d = pc_policyVersion c \<and> pc_proposedContent d = pc_proposedContent c
     \<and> pc_proposedBy d = pc_proposedBy c \<and> pc_proposedAt d = pc_proposedAt c"

lemma same_proposal_refl [simp]: "same_proposal c c"
  by (simp add: same_proposal_def)

lemma same_proposal_trans [trans]: "same_proposal a b \<Longrightarrow> same_proposal b c \<Longrightarrow> same_proposal a c"
  by (simp add: same_proposal_def)

text \<open>A change as the proposal checks let it in, and a record as the approval route makes it.\<close>

definition well_proposed :: "gov_config \<Rightarrow> pending_change \<Rightarrow> bool" where
  "well_proposed k c \<longleftrightarrow> policyId (pc_proposedContent c) = Some (pc_policyName c)
     \<and> VALID_NAME_OR_VERSION (pc_policyName c) \<and> VALID_NAME_OR_VERSION (write_version (pc_proposedContent c))
     \<and> PolicyValidator_validate (gk_rx k) (gk_nstr k) (Some (pc_proposedContent c)) = Inr ()"

definition two_humans :: "'key step_up_config \<Rightarrow> approval_record \<Rightarrow> bool" where
  "two_humans g r \<longleftrightarrow> ar_approvedBy r \<noteq> ar_proposedBy r
     \<and> (\<exists>req now a. gc_callerId req = Some (ar_approvedBy r) \<and> isHumanCaller (gc_holder req)
          \<and> stepped_up g req (ar_changeId r) Approve_Change now a)"

definition records_change :: "gov_config \<Rightarrow> approval_record \<Rightarrow> pending_change \<Rightarrow> bool" where
  "records_change k r c \<longleftrightarrow> ar_changeId r = pc_id c \<and> ar_policyName r = pc_policyName c
     \<and> ar_policyVersion r = write_version (pc_proposedContent c) \<and> ar_proposedBy r = pc_proposedBy c
     \<and> ar_contentHashAfter r = pk_hash (gk_crypto k) (PolicyContent (pc_proposedContent c))
     \<and> (\<exists>now. PolicyChangeCrypto_sign (gk_crypto k) now (PolicyChangeCrypto_canonicalRecord r) = Inr (ar_signature r))"

lemma records_same: "records_change k r c \<Longrightarrow> same_proposal c d \<Longrightarrow> records_change k r d"
  by (simp add: records_change_def same_proposal_def)

inductive gov_prim :: "gov_config \<Rightarrow> 'key step_up_config \<Rightarrow> gov_world \<Rightarrow> gov_world \<Rightarrow> bool"
  for k :: gov_config and g :: "'key step_up_config" where
  prim_audit: "gov_prim k g w (w\<lparr>gw_audit := events\<rparr>)"
| prim_nonce: "gov_prim k g w (w\<lparr>gw_nonces := snd (MemoryNonceStore_checkAndRecord (sg_dp g) t n x (gw_nonces w))\<rparr>)"
| prim_propose: "well_proposed k c \<Longrightarrow> map_of (gw_changes w) (pc_id c) = None \<Longrightarrow>
     gov_prim k g w (w\<lparr>gw_changes := map_set (pc_id c) c (gw_changes w)\<rparr>)"
| prim_resolve: "MemoryPendingChanges_resolve i res now (gw_changes w) = (Inr c, cs) \<Longrightarrow>
     gov_prim k g w (w\<lparr>gw_changes := cs\<rparr>)"
| prim_record: "map_of (gw_changes w) (pc_id c) = Some c \<Longrightarrow> records_change k r c \<Longrightarrow> two_humans g r \<Longrightarrow>
     map_of (gw_records w) (ar_id r) = None \<Longrightarrow>
     gov_prim k g w (w\<lparr>gw_records := MemoryApprovalRecords_create r (gw_records w)\<rparr>)"
| prim_write: "map_of (gw_records w) (ar_id r) = Some r \<Longrightarrow> map_of (gw_changes w) (pc_id c) = Some c \<Longrightarrow>
     records_change k r c \<Longrightarrow>
     gov_prim k g w (w\<lparr>gw_files := (gw_files w)
       (policy_file (gk_basePath k) (ar_policyName r) (ar_policyVersion r) \<mapsto> pc_proposedContent c)\<rparr>)"

abbreviation gov_prims :: "gov_config \<Rightarrow> 'key step_up_config \<Rightarrow> gov_world \<Rightarrow> gov_world \<Rightarrow> bool" where
  "gov_prims k g \<equiv> (gov_prim k g)\<^sup>*\<^sup>*"

lemma resolve_Inr:
  assumes "MemoryPendingChanges_resolve i res now s = (Inr c, s')"
  obtains d where "map_of s i = Some d" "pc_status d = PENDING_APPROVAL" "same_proposal d c"
    "s' = map_set i c s" "pc_status c \<noteq> PENDING_APPROVAL"
  using assms
  by (auto simp: MemoryPendingChanges_resolve_def applyPendingPolicyChangeResolution_def same_proposal_def
      split: option.splits change_resolution.splits if_splits sum.splits)

lemma resolve_Inl: "MemoryPendingChanges_resolve i res now s = (Inl e, s') \<Longrightarrow> s' = s"
  by (auto simp: MemoryPendingChanges_resolve_def split: option.splits sum.splits)

section \<open>What every interleaving keeps\<close>

lemma prim_keeps_change:
  assumes "gov_prim k g w v" "map_of (gw_changes w) i = Some c"
  shows "\<exists>d. map_of (gw_changes v) i = Some d \<and> same_proposal c d"
  using assms by (cases rule: gov_prim.cases) (auto elim!: resolve_Inr)

lemma prims_keep_change:
  assumes "gov_prims k g w v" "map_of (gw_changes w) i = Some c"
  shows "\<exists>d. map_of (gw_changes v) i = Some d \<and> same_proposal c d"
  using assms(1)
proof (induction rule: rtranclp_induct)
  case (step u v)
  then obtain d where "map_of (gw_changes u) i = Some d" "same_proposal c d" by blast
  with prim_keeps_change[OF step.hyps(2)] show ?case by (metis same_proposal_trans)
qed (use assms(2) in simp)

lemma prim_keeps_record:
  "gov_prim k g w v \<Longrightarrow> map_of (gw_records w) i = Some r \<Longrightarrow> map_of (gw_records v) i = Some r"
  by (cases rule: gov_prim.cases) (auto simp: MemoryApprovalRecords_create_def)

lemma prims_keep_record:
  "gov_prims k g w v \<Longrightarrow> map_of (gw_records w) i = Some r \<Longrightarrow> map_of (gw_records v) i = Some r"
  by (induction rule: rtranclp_induct) (auto intro: prim_keeps_record)

text \<open>The changes are well formed, and every record belongs to one of them and to two humans.\<close>

definition governed_stores :: "gov_config \<Rightarrow> 'key step_up_config \<Rightarrow> gov_world \<Rightarrow> bool" where
  "governed_stores k g w \<longleftrightarrow>
     (\<forall>i c. map_of (gw_changes w) i = Some c \<longrightarrow> pc_id c = i \<and> well_proposed k c)
     \<and> (\<forall>i r. map_of (gw_records w) i = Some r \<longrightarrow> ar_id r = i \<and> two_humans g r
          \<and> (\<exists>c. map_of (gw_changes w) (pc_id c) = Some c \<and> records_change k r c))"

lemma prim_governed:
  assumes "gov_prim k g w v" "governed_stores k g w"
  shows "governed_stores k g v"
  unfolding governed_stores_def
proof (intro conjI allI impI)
  fix i c assume c: "map_of (gw_changes v) i = Some c"
  from assms c show "pc_id c = i" "well_proposed k c"
    by (cases rule: gov_prim.cases; fastforce simp: governed_stores_def same_proposal_def well_proposed_def
        elim!: resolve_Inr split: if_splits)+
next
  fix i r assume r: "map_of (gw_records v) i = Some r"
  have "map_of (gw_records w) i = Some r
     \<or> ar_id r = i \<and> two_humans g r \<and> (\<exists>c. map_of (gw_changes w) (pc_id c) = Some c \<and> records_change k r c)"
    using assms(1) r by (cases rule: gov_prim.cases) (auto simp: MemoryApprovalRecords_create_def split: if_splits)
  with assms(2) have "ar_id r = i \<and> two_humans g r \<and> (\<exists>c. map_of (gw_changes w) (pc_id c) = Some c \<and> records_change k r c)"
    unfolding governed_stores_def by blast
  then obtain c where c: "ar_id r = i" "two_humans g r" "map_of (gw_changes w) (pc_id c) = Some c" "records_change k r c"
    by blast
  from prim_keeps_change[OF assms(1) c(3)] obtain d where d: "map_of (gw_changes v) (pc_id c) = Some d" "same_proposal c d"
    by blast
  then have "map_of (gw_changes v) (pc_id d) = Some d" by (simp add: same_proposal_def)
  with records_same[OF c(4) d(2)] show "\<exists>c. map_of (gw_changes v) (pc_id c) = Some c \<and> records_change k r c" by blast
  from c show "ar_id r = i" "two_humans g r" by simp_all
qed

text \<open>A live file is as it was at first, or the content of a recorded change.\<close>

definition governed_file :: "gov_config \<Rightarrow> gov_world \<Rightarrow> string list \<Rightarrow> policy \<Rightarrow> bool" where
  "governed_file k w p pol \<longleftrightarrow>
     (\<exists>r c. map_of (gw_records w) (ar_id r) = Some r \<and> map_of (gw_changes w) (pc_id c) = Some c
        \<and> records_change k r c \<and> p = policy_file (gk_basePath k) (ar_policyName r) (ar_policyVersion r)
        \<and> pol = pc_proposedContent c)"

lemma prim_keeps_governed_file:
  assumes "gov_prim k g w v" "governed_file k w p pol"
  shows "governed_file k v p pol"
proof -
  from assms(2) obtain r c where rc: "map_of (gw_records w) (ar_id r) = Some r" "map_of (gw_changes w) (pc_id c) = Some c"
    "records_change k r c" "p = policy_file (gk_basePath k) (ar_policyName r) (ar_policyVersion r)"
    "pol = pc_proposedContent c" by (auto simp: governed_file_def)
  from prim_keeps_change[OF assms(1) rc(2)] obtain d where
    d: "map_of (gw_changes v) (pc_id c) = Some d" "same_proposal c d" by blast
  with rc records_same[OF rc(3) d(2)] prim_keeps_record[OF assms(1) rc(1)] show ?thesis
    unfolding governed_file_def by (auto simp: same_proposal_def intro!: exI[of _ r] exI[of _ d])
qed

lemma prims_govern_files:
  assumes "gov_prims k g w v" "gw_files v p = Some pol"
  shows "gw_files w p = Some pol \<or> governed_file k v p pol"
  using assms
proof (induction arbitrary: pol rule: rtranclp_induct)
  case (step u v)
  from step.hyps(2) step.prems have "gw_files u p = Some pol \<or> governed_file k v p pol"
    by (cases rule: gov_prim.cases) (auto simp: governed_file_def split: if_splits)
  with step.IH prim_keeps_governed_file[OF step.hyps(2)] show ?case by blast
qed simp

section \<open>The routes as sequences of actions\<close>

text \<open>
  Other requests interfere with any actions, and do not draw the random identifiers of this one.
\<close>

definition interference :: "gov_config \<Rightarrow> 'key step_up_config \<Rightarrow> gov_inputs \<Rightarrow> gov_env \<Rightarrow> bool" where
  "interference k g inputs env \<longleftrightarrow> (\<forall>n v. gov_prims k g v (env n v)
     \<and> (map_of (gw_changes v) (gi_changeId inputs) = None \<longrightarrow>
          map_of (gw_changes (env n v)) (gi_changeId inputs) = None)
     \<and> (map_of (gw_records v) (gi_recordId inputs) = None \<longrightarrow>
          map_of (gw_records (env n v)) (gi_recordId inputs) = None))"

lemma interferenceD:
  assumes "interference k g inputs env"
  shows "gov_prims k g v (env n v)"
    "map_of (gw_changes v) (gi_changeId inputs) = None \<Longrightarrow> map_of (gw_changes (env n v)) (gi_changeId inputs) = None"
    "map_of (gw_records v) (gi_recordId inputs) = None \<Longrightarrow> map_of (gw_records (env n v)) (gi_recordId inputs) = None"
  using assms by (auto simp: interference_def)

lemma interference_shift: "interference k g inputs env \<Longrightarrow> interference k g inputs (\<lambda>n. env (n + m))"
  by (simp add: interference_def)

lemma interference_none [simp]: "interference k g inputs (\<lambda>n v. v)"
  by (simp add: interference_def)

lemma prims_nonces:
  "gov_prims k g w (w\<lparr>gw_nonces := snd (requireStepUpAuthorization g (MemoryNonceStore_checkAndRecord (sg_dp g))
     req i action clock (gw_nonces w))\<rparr>)"
proof -
  let ?s = "snd (requireStepUpAuthorization g (MemoryNonceStore_checkAndRecord (sg_dp g)) req i action clock (gw_nonces w))"
  have "w\<lparr>gw_nonces := gw_nonces w\<rparr> = w" by simp
  with stepUp_state[of g "MemoryNonceStore_checkAndRecord (sg_dp g)" req i action clock "gw_nonces w"] show ?thesis
    using prim_nonce[of k g w] by (metis rtranclp.simps r_into_rtranclp)
qed

lemma proposal_checks_Inr:
  assumes "proposal_checks k name version body = Inr (reason, content)"
    and "pc_policyName c = name" "pc_proposedContent c = content"
  shows "well_proposed k c"
proof -
  from assms(1) obtain v where "policyVersion content = Some v" "VALID_NAME_OR_VERSION v"
    "VALID_NAME_OR_VERSION name" "policyId content = Some name"
    "PolicyValidator_validate (gk_rx k) (gk_nstr k) (Some content) = Inr ()"
    by (auto simp: proposal_checks_def split: if_splits option.splits sum.splits prod.splits)
  with assms(2,3) show ?thesis by (simp add: well_proposed_def write_version_def)
qed

lemma propose_prims:
  assumes "interference k g inputs env" "map_of (gw_changes w) (gi_changeId inputs) = None"
    and "propose_route k inputs env req name version body w = (q, v)"
  shows "gov_prims k g w v"
proof (cases "proposal_checks k name version body")
  case (Inl e)
  with assms(3) show ?thesis by (simp add: propose_route_def)
next
  case (Inr p)
  obtain reason content where p: "p = (reason, content)" by (rule prod.exhaust)
  obtain h events where h: "requireHumanCaller (gk_sink k) (gi_isoNow inputs) req (gw_audit w) = (h, events)"
    by (rule prod.exhaust)
  let ?w0 = "w\<lparr>gw_audit := events\<rparr>"
  let ?w2 = "env 1 (env 0 ?w0)"
  have a: "gov_prims k g w ?w0" using prim_audit by blast
  with interferenceD(1)[OF assms(1)] have b: "gov_prims k g w ?w2" by (metis rtranclp_trans)
  from assms(2) interferenceD(2)[OF assms(1)] have fresh: "map_of (gw_changes ?w2) (gi_changeId inputs) = None" by simp
  show ?thesis
  proof (cases "gc_callerId req")
    case None
    with assms(3) Inr p show ?thesis by (simp add: propose_route_def)
  next
    case (Some caller)
    show ?thesis
    proof (cases h)
      case (Inl e)
      with assms(3) Inr p Some h a show ?thesis by (simp add: propose_route_def)
    next
      case h': (Inr u)
      let ?c = "\<lparr>pc_id = gi_changeId inputs, pc_policyName = name, pc_policyVersion = version,
         pc_proposedContent = content, pc_proposedBy = caller, pc_proposedAt = gi_proposedAt inputs,
         pc_status = PENDING_APPROVAL, pc_reason = reason, pc_resolvedBy = None,
         pc_resolvedAt = None, pc_rejectionReason = None\<rparr>"
      have "v = ?w2 \<or> v = ?w2\<lparr>gw_changes := map_set (pc_id ?c) ?c (gw_changes ?w2)\<rparr>"
        using assms(3) Inr p Some h h'
        by (auto simp: propose_route_def Let_def MemoryPendingChanges_create_def split: sum.splits)
      moreover have "gov_prim k g ?w2 (?w2\<lparr>gw_changes := map_set (pc_id ?c) ?c (gw_changes ?w2)\<rparr>)"
        using fresh proposal_checks_Inr[OF Inr[unfolded p], of ?c] by (intro prim_propose) simp_all
      ultimately show ?thesis using b by (auto intro: rtranclp.rtrancl_into_rtrancl)
    qed
  qed
qed

text \<open>A change loaded for resolution is in the store, is another's, and the caller has stepped up.\<close>

lemma load_prims:
  assumes "interference k g inputs env" "load_for_resolution k g inputs env req i action caller w = (q, v)"
  shows "gov_prims k g w v"
    and "q = Inr c \<Longrightarrow> (\<exists>d. map_of (gw_changes v) i = Some d \<and> same_proposal c d)
       \<and> pc_proposedBy c \<noteq> caller \<and> (\<exists>a. stepped_up g req i action (fst (gi_stepUpClock inputs)) a)"
    and "map_of (gw_records w) (gi_recordId inputs) = None \<Longrightarrow> map_of (gw_records v) (gi_recordId inputs) = None"
proof -
  let ?w1 = "env 0 w" and ?w2 = "env 1 (env 0 w)"
  let ?up = "requireStepUpAuthorization g (MemoryNonceStore_checkAndRecord (sg_dp g)) req i action
     (gi_stepUpClock inputs) (gw_nonces ?w2)"
  note e = interferenceD[OF assms(1)]
  have v: "v = ?w1 \<or> v = ?w2\<lparr>gw_nonces := snd ?up\<rparr>" using assms(2)
    by (auto simp: load_for_resolution_def Let_def split: option.splits if_splits sum.splits prod.splits)
  have w2: "gov_prims k g w ?w2" using e(1) by (metis rtranclp_trans)
  with v e(1) prims_nonces[of k g ?w2 req i action "gi_stepUpClock inputs"] show "gov_prims k g w v"
    by (metis rtranclp_trans)
  from v e(3) show "map_of (gw_records w) (gi_recordId inputs) = None \<Longrightarrow> map_of (gw_records v) (gi_recordId inputs) = None"
    by auto
  assume "q = Inr c"
  with assms(2) have c: "map_of (gw_changes ?w1) i = Some c" "pc_proposedBy c \<noteq> caller" "v = ?w2\<lparr>gw_nonces := snd ?up\<rparr>"
    and up: "fst ?up = Inr ()"
    by (auto simp: load_for_resolution_def Let_def MemoryPendingChanges_findById_def
        split: option.splits if_splits sum.splits prod.splits)
  from up obtain s where "?up = (Inr (), s)" by (metis prod.collapse)
  then obtain a where "stepped_up g req i action (fst (gi_stepUpClock inputs)) a" by (rule stepUp_Inr)
  with prims_keep_change[OF e(1) c(1), of 1] c(2,3) show "(\<exists>d. map_of (gw_changes v) i = Some d \<and> same_proposal c d)
       \<and> pc_proposedBy c \<noteq> caller \<and> (\<exists>a. stepped_up g req i action (fst (gi_stepUpClock inputs)) a)" by auto
qed

text \<open>What the service leaves, from a change that another human has approved.\<close>

lemma draft_records:
  assumes "r = approval_fields.extend (approval_draft (gk_crypto k) inputs c who before prior) \<lparr>ar_signature = sg\<rparr>"
    and "PolicyChangeCrypto_sign (gk_crypto k) t (approval_draft (gk_crypto k) inputs c who before prior) = Inr sg"
  shows "records_change k r c" "ar_id r = gi_recordId inputs" "ar_approvedBy r = who" "ar_proposedBy r = pc_proposedBy c"
    "ar_changeId r = pc_id c" "ar_approvedAt r = gi_approvedAt inputs" "ar_signature r = sg"
    "PolicyChangeCrypto_canonicalRecord r = approval_draft (gk_crypto k) inputs c who before prior"
  using assms by (auto simp: records_change_def approval_draft_def approval_fields.extend_def
      PolicyChangeCrypto_canonicalRecord_def approval_fields.truncate_def)

lemma service_prims:
  assumes "interference k g inputs env" "map_of (gw_records w) (gi_recordId inputs) = None"
    and "map_of (gw_changes w) (pc_id c) = Some d" "same_proposal c d"
    and "pc_proposedBy c \<noteq> who" "gc_callerId req = Some who" "isHumanCaller (gc_holder req)"
    and "stepped_up g req (pc_id c) Approve_Change now a"
    and "PolicyChangeApprovalService_approve k inputs env c who w = (q, v)"
  shows "gov_prims k g w v"
proof -
  note e = interferenceD[OF assms(1)]
  let ?version = "write_version (pc_proposedContent c)"
  let ?w0 = "env 0 w" let ?w1 = "env 1 ?w0" let ?w2 = "env 2 ?w1"
  let ?before = "FilePolicyRepository_load (gk_basePath k) (pc_policyName c) ?version (gw_files ?w0)"
  let ?prior = "MemoryApprovalRecords_findMostRecentFor (pc_policyName c) ?version (gw_records ?w1)"
  let ?draft = "approval_draft (gk_crypto k) inputs c who ?before ?prior"
  have w2: "gov_prims k g w ?w2" using e(1) by (metis rtranclp_trans)
  show ?thesis
  proof (cases "PolicyChangeCrypto_sign (gk_crypto k) (gi_recordSignedAt inputs) ?draft")
    case (Inl x)
    with assms(9) w2 show ?thesis by (simp add: PolicyChangeApprovalService_approve_def Let_def)
  next
    case (Inr sg)
    define r where "r = approval_fields.extend ?draft \<lparr>ar_signature = sg\<rparr>"
    note r = draft_records[OF r_def Inr]
    let ?w2' = "?w2\<lparr>gw_records := MemoryApprovalRecords_create r (gw_records ?w2)\<rparr>"
    let ?w3 = "env 3 ?w2'"
    from prims_keep_change[OF w2 assms(3)] obtain d2 where
      d2: "map_of (gw_changes ?w2) (pc_id c) = Some d2" "same_proposal d d2" by blast
    then have s2: "same_proposal c d2" using assms(4) same_proposal_trans by blast
    then have id2: "pc_id d2 = pc_id c" by (simp add: same_proposal_def)
    have "two_humans g r" unfolding two_humans_def using r(3-5) assms(5-8) by (auto simp: eq_commute)
    with d2(1) r(1) s2 id2 assms(2) e(3) r(2) have "gov_prim k g ?w2 ?w2'"
      by (intro prim_record[where c = d2]) (auto intro: records_same)
    with w2 e(1)[of ?w2' 3] have w3: "gov_prims k g w ?w3" by (metis rtranclp.rtrancl_into_rtrancl rtranclp_trans)
    have "map_of (gw_records ?w2') (ar_id r) = Some r" by (simp add: MemoryApprovalRecords_create_def)
    from prims_keep_record[OF e(1) this] have r3: "map_of (gw_records ?w3) (ar_id r) = Some r" .
    have "map_of (gw_changes ?w2') (pc_id c) = Some d2" using d2(1) by simp
    from prims_keep_change[OF e(1) this] obtain d3 where
      d3: "map_of (gw_changes ?w3) (pc_id c) = Some d3" "same_proposal d2 d3" by blast
    then have s3: "same_proposal c d3" using s2 same_proposal_trans by blast
    then have id3: "pc_id d3 = pc_id c" "pc_proposedContent d3 = pc_proposedContent c" by (simp_all add: same_proposal_def)
    let ?path = "policy_file (gk_basePath k) (ar_policyName r) (ar_policyVersion r)"
    have p: "policy_file (gk_basePath k) (pc_policyName c) ?version = ?path" using r(1) by (simp add: records_change_def)
    have "v = ?w3 \<or> v = ?w3\<lparr>gw_files := (gw_files ?w3)
        (policy_file (gk_basePath k) (pc_policyName c) ?version \<mapsto> pc_proposedContent c)\<rparr>"
      using assms(9) Inr
      by (auto simp: PolicyChangeApprovalService_approve_def Let_def r_def FilePolicyRepository_save_def
          split: option.splits if_splits)
    then have "v = ?w3 \<or> v = ?w3\<lparr>gw_files := (gw_files ?w3)(?path \<mapsto> pc_proposedContent d3)\<rparr>"
      unfolding p id3 .
    moreover have "gov_prim k g ?w3 (?w3\<lparr>gw_files := (gw_files ?w3)(?path \<mapsto> pc_proposedContent d3)\<rparr>)"
      using r3 d3(1) id3(1) records_same[OF r(1) s3] by (intro prim_write) simp_all
    ultimately show ?thesis using w3 by (auto intro: rtranclp.rtrancl_into_rtrancl)
  qed
qed

lemma resolve_prims:
  assumes "MemoryPendingChanges_resolve i res now (gw_changes w) = (q, cs)"
  shows "gov_prims k g w (w\<lparr>gw_changes := cs\<rparr>)"
proof (cases q)
  case (Inl e)
  with assms have "w\<lparr>gw_changes := cs\<rparr> = w" by (auto dest: resolve_Inl)
  then show ?thesis by simp
next
  case (Inr c)
  with assms prim_resolve show ?thesis by blast
qed

lemma approve_prims:
  assumes "interference k g inputs env" "map_of (gw_records w) (gi_recordId inputs) = None" "governed_stores k g w"
    and "approve_route k g inputs env req i w = (q, v)"
  shows "gov_prims k g w v"
proof (cases "gc_callerId req")
  case None
  with assms(4) show ?thesis by (simp add: approve_route_def)
next
  case (Some who)
  obtain h events where h: "requireHumanCaller (gk_sink k) (gi_isoNow inputs) req (gw_audit w) = (h, events)"
    by (rule prod.exhaust)
  let ?w0 = "w\<lparr>gw_audit := events\<rparr>"
  have a: "gov_prims k g w ?w0" using prim_audit by blast
  show ?thesis
  proof (cases h)
    case (Inl e)
    with assms(4) Some h a show ?thesis by (simp add: approve_route_def)
  next
    case h': (Inr u)
    then have human: "isHumanCaller (gc_holder req)" using h requireHuman_Inr by (metis fst_conv)
    obtain l w1 where l: "load_for_resolution k g inputs env req i Approve_Change who ?w0 = (l, w1)" by (rule prod.exhaust)
    note load = load_prims[OF assms(1) l]
    from load(1) a have b: "gov_prims k g w w1" by (metis rtranclp_trans)
    show ?thesis
    proof (cases l)
      case (Inl e)
      with assms(4) Some h h' l b show ?thesis by (simp add: approve_route_def)
    next
      case c: (Inr c)
      show ?thesis
      proof (cases "gk_service k")
        case False
        with assms(4) Some h h' l c b show ?thesis by (simp add: approve_route_def)
      next
        case True
        from load(2)[OF c] obtain d au where d: "map_of (gw_changes w1) i = Some d" "same_proposal c d"
          "pc_proposedBy c \<noteq> who" "stepped_up g req i Approve_Change (fst (gi_stepUpClock inputs)) au" by blast
        have "governed_stores k g w1" using b assms(3) by (induction rule: rtranclp_induct) (auto intro: prim_governed)
        with d(1) have "pc_id d = i" by (auto simp: governed_stores_def)
        with d(2) have i: "pc_id c = i" by (simp add: same_proposal_def)
        obtain s w2 where s: "PolicyChangeApprovalService_approve k inputs (\<lambda>n. env (n + 2)) c who w1 = (s, w2)"
          by (rule prod.exhaust)
        have fresh: "map_of (gw_records w1) (gi_recordId inputs) = None" using load(3) assms(2) by simp
        from service_prims[OF interference_shift[OF assms(1)] fresh d(1)[folded i] d(2,3) Some human d(4)[folded i] s] b
        have b2: "gov_prims k g w w2" by (metis rtranclp_trans)
        show ?thesis
        proof (cases s)
          case (Inl e)
          with assms(4) Some h h' l c True s b2 show ?thesis by (simp add: approve_route_def)
        next
          case (Inr r)
          let ?w3 = "env 6 w2"
          obtain z cs where z: "MemoryPendingChanges_resolve i (ApprovedBy who) (gi_resolvedAt inputs) (gw_changes ?w3) = (z, cs)"
            by (rule prod.exhaust)
          then have "v = ?w3\<lparr>gw_changes := cs\<rparr>" using assms(4) Some h h' l c True s Inr
            by (simp add: approve_route_def Let_def)
          with resolve_prims[OF z] interferenceD(1)[OF assms(1)] b2 show ?thesis by (metis rtranclp_trans)
        qed
      qed
    qed
  qed
qed

lemma reject_prims:
  assumes "interference k g inputs env" "reject_route k g inputs env req i reason w = (q, v)"
  shows "gov_prims k g w v"
proof (cases "gc_callerId req")
  case None
  with assms(2) show ?thesis by (simp add: reject_route_def)
next
  case (Some who)
  obtain h events where h: "requireHumanCaller (gk_sink k) (gi_isoNow inputs) req (gw_audit w) = (h, events)"
    by (rule prod.exhaust)
  let ?w0 = "w\<lparr>gw_audit := events\<rparr>"
  have a: "gov_prims k g w ?w0" using prim_audit by blast
  obtain l w1 where l: "load_for_resolution k g inputs env req i Reject_Change who ?w0 = (l, w1)" by (rule prod.exhaust)
  from load_prims(1)[OF assms(1) l] a have b: "gov_prims k g w w1" by (metis rtranclp_trans)
  let ?w2 = "env 2 w1"
  have "v = ?w0 \<or> v = w1 \<or> (\<exists>res cs z. v = ?w2\<lparr>gw_changes := cs\<rparr> \<and>
      MemoryPendingChanges_resolve i res (gi_resolvedAt inputs) (gw_changes ?w2) = (z, cs))"
    using assms(2) Some h l by (auto simp: reject_route_def Let_def split: sum.splits option.splits prod.splits)
  with a b resolve_prims[of i _ "gi_resolvedAt inputs" ?w2] interferenceD(1)[OF assms(1), of w1 2] show ?thesis
    by (metis rtranclp_trans)
qed

section \<open>The system\<close>

inductive gov_step :: "gov_config \<Rightarrow> 'key step_up_config \<Rightarrow> gov_world \<Rightarrow> gov_world \<Rightarrow> bool"
  for k :: gov_config and g :: "'key step_up_config" where
  step_propose: "interference k g inputs env \<Longrightarrow> map_of (gw_changes w) (gi_changeId inputs) = None \<Longrightarrow>
     gov_step k g w (snd (propose_route k inputs env req name version body w))"
| step_approve: "interference k g inputs env \<Longrightarrow> map_of (gw_records w) (gi_recordId inputs) = None \<Longrightarrow>
     gov_step k g w (snd (approve_route k g inputs env req i w))"
| step_reject: "interference k g inputs env \<Longrightarrow> gov_step k g w (snd (reject_route k g inputs env req i reason w))"
| step_list: "gov_step k g w (snd (list_route k inputs req status w))"

lemma step_prims:
  assumes "gov_step k g w v" "governed_stores k g w"
  shows "gov_prims k g w v"
  using assms(1)
proof cases
  case (step_propose inputs env req name version body)
  with propose_prims[OF step_propose(2,3)] show ?thesis by (metis prod.collapse)
next
  case (step_approve inputs env req i)
  with approve_prims[OF step_approve(2,3) assms(2)] show ?thesis by (metis prod.collapse)
next
  case (step_reject inputs env req i reason)
  with reject_prims[OF step_reject(2)] show ?thesis by (metis prod.collapse)
next
  case (step_list inputs req status)
  then have "v = w \<or> (\<exists>events. v = w\<lparr>gw_audit := events\<rparr>)"
    by (auto simp: list_route_def split: option.splits sum.splits prod.splits)
  then show ?thesis using prim_audit by blast
qed

lemma steps_prims:
  assumes "(gov_step k g)\<^sup>*\<^sup>* w v" "governed_stores k g w"
  shows "gov_prims k g w v \<and> governed_stores k g v"
  using assms
proof (induction rule: rtranclp_induct)
  case (step u v)
  then have "gov_prims k g u v" "governed_stores k g u" by (auto intro: step_prims)
  moreover from this have "governed_stores k g v"
    by (induction rule: rtranclp_induct) (auto intro: prim_governed)
  ultimately show ?case using step by (metis rtranclp_trans)
qed simp

section \<open>Calls without interference\<close>

lemma service_alone:
  assumes "PolicyChangeCrypto_sign (gk_crypto k) (gi_recordSignedAt inputs)
      (approval_draft (gk_crypto k) inputs c who
         (FilePolicyRepository_load (gk_basePath k) (pc_policyName c) (write_version (pc_proposedContent c)) (gw_files w))
         (MemoryApprovalRecords_findMostRecentFor (pc_policyName c) (write_version (pc_proposedContent c)) (gw_records w)))
      = Inr sg"
    and "VALID_NAME_OR_VERSION (pc_policyName c)" "VALID_NAME_OR_VERSION (write_version (pc_proposedContent c))"
    and "gi_writeFault inputs = None"
  shows "\<exists>r. PolicyChangeApprovalService_approve k inputs (\<lambda>n v. v) c who w =
       (Inr r, w\<lparr>gw_records := map_set (ar_id r) r (gw_records w),
                gw_files := (gw_files w)(policy_file (gk_basePath k) (pc_policyName c)
                  (write_version (pc_proposedContent c)) \<mapsto> pc_proposedContent c)\<rparr>)
     \<and> records_change k r c \<and> ar_id r = gi_recordId inputs \<and> ar_approvedBy r = who
     \<and> ar_approvedAt r = gi_approvedAt inputs
     \<and> ar_previousRecordHash r = map_option (\<lambda>p. pk_hash (gk_crypto k) (RecordContent p))
         (MemoryApprovalRecords_findMostRecentFor (pc_policyName c) (write_version (pc_proposedContent c)) (gw_records w))"
  using draft_records[OF refl assms(1)] assms
  by (auto simp: PolicyChangeApprovalService_approve_def Let_def FilePolicyRepository_save_def
      MemoryApprovalRecords_create_def approval_draft_def approval_fields.extend_def)

text \<open>The guards of approval, all passed, with nobody interfering.\<close>

definition approval_guards ::
  "gov_config \<Rightarrow> 'key step_up_config \<Rightarrow> gov_inputs \<Rightarrow> gov_caller \<Rightarrow> string \<Rightarrow> string \<Rightarrow> pending_change
   \<Rightarrow> gov_world \<Rightarrow> memory_nonces \<Rightarrow> bool" where
  "approval_guards k g inputs req i who c w nonces \<longleftrightarrow> gc_callerId req = Some who \<and> isHumanCaller (gc_holder req)
     \<and> map_of (gw_changes w) i = Some c \<and> pc_proposedBy c \<noteq> who \<and> gk_service k
     \<and> requireStepUpAuthorization g (MemoryNonceStore_checkAndRecord (sg_dp g)) req i Approve_Change
         (gi_stepUpClock inputs) (gw_nonces w) = (Inr (), nonces)"

lemma approve_alone:
  assumes "approval_guards k g inputs req i who c w nonces"
  shows "approve_route k g inputs (\<lambda>n v. v) req i w =
     (case PolicyChangeApprovalService_approve k inputs (\<lambda>n v. v) c who (w\<lparr>gw_nonces := nonces\<rparr>) of
        (Inl e, w2) \<Rightarrow> (Inl e, w2)
      | (Inr _, w2) \<Rightarrow>
          (case MemoryPendingChanges_resolve i (ApprovedBy who) (gi_resolvedAt inputs) (gw_changes w2) of
             (q, changes) \<Rightarrow> (q, w2\<lparr>gw_changes := changes\<rparr>)))"
proof -
  have h: "requireHumanCaller (gk_sink k) (gi_isoNow inputs) req (gw_audit w) = (Inr (), gw_audit w)"
    using assms by (intro requireHuman_ok) (simp add: approval_guards_def)
  have "w\<lparr>gw_audit := gw_audit w\<rparr> = w" by simp
  with h assms have "load_for_resolution k g inputs (\<lambda>n v. v) req i Approve_Change who (w\<lparr>gw_audit := gw_audit w\<rparr>)
      = (Inr c, w\<lparr>gw_nonces := nonces\<rparr>)"
    by (simp add: approval_guards_def load_for_resolution_def MemoryPendingChanges_findById_def)
  with h assms show ?thesis 
    by (simp add: approve_route_def approval_guards_def Let_def split: sum.split prod.split)
qed

section \<open>Records in the order they were approved\<close>

lemma foldl_latest:
  "sorted_wrt (<) (map ar_approvedAt (r # rs)) \<Longrightarrow>
   foldl (\<lambda>latest c. if ar_approvedAt latest < ar_approvedAt c then c else latest) r rs = last (r # rs)"
  by (induction rs arbitrary: r) auto

lemma most_recent_last:
  "sorted_wrt (<) (map ar_approvedAt rs) \<Longrightarrow> most_recent rs = (if rs = [] then None else Some (last rs))"
  by (cases rs) (simp_all add: foldl_latest)

lemma map_set_fresh: "map_of s k = None \<Longrightarrow> map_set k v s = s @ [(k, v)]"
  by (induction s) (auto split: if_splits)

text \<open>The records of a store whose approval times increase, and one more approved later.\<close>

definition in_order :: "approval_records \<Rightarrow> bool" where
  "in_order s = sorted_wrt (<) (map ar_approvedAt (map snd s))"

definition later_than :: "approval_records \<Rightarrow> int \<Rightarrow> bool" where
  "later_than s t \<longleftrightarrow> (\<forall>x\<in>set s. ar_approvedAt (snd x) < t)"

lemma in_order_filter: "in_order s \<Longrightarrow> sorted_wrt (<) (map ar_approvedAt (filter P (map snd s)))"
  unfolding in_order_def by (simp add: sorted_wrt_map sorted_wrt_filter)

lemma in_order_append: "in_order s \<Longrightarrow> later_than s (ar_approvedAt r) \<Longrightarrow> in_order (s @ [(i, r)])"
  by (auto simp: in_order_def later_than_def sorted_wrt_append sorted_wrt_map)

lemma most_recent_append:
  assumes "in_order s" "later_than s (ar_approvedAt r)"
  shows "most_recent (filter P (map snd (s @ [(i, r)]))) = (if P r then Some r else most_recent (filter P (map snd s)))"
proof -
  have f: "filter P (map snd (s @ [(i, r)])) = filter P (map snd s) @ (if P r then [r] else [])" by simp
  from most_recent_last[OF in_order_filter[OF in_order_append[OF assms], where P = P]] show ?thesis
    unfolding f by (cases "P r") (simp_all split: if_splits)
qed

lemma mostRecentFor_append:
  assumes "in_order s" "later_than s (ar_approvedAt r)"
  shows "MemoryApprovalRecords_findMostRecentFor n v (s @ [(i, r)]) =
      (if ar_policyName r = n \<and> ar_policyVersion r = v then Some r else MemoryApprovalRecords_findMostRecentFor n v s)"
  using most_recent_append[OF assms, of "\<lambda>r. ar_policyName r = n \<and> ar_policyVersion r = v" i]
  by (simp add: MemoryApprovalRecords_findMostRecentFor_def)

lemma mostRecentForName_append:
  assumes "in_order s" "later_than s (ar_approvedAt r)"
  shows "MemoryApprovalRecords_findMostRecentForName n (s @ [(i, r)]) =
      (if ar_policyName r = n then Some r else MemoryApprovalRecords_findMostRecentForName n s)"
  using most_recent_append[OF assms, of "\<lambda>r. ar_policyName r = n" i]
  by (simp add: MemoryApprovalRecords_findMostRecentForName_def)

section \<open>What an approval brings into effect\<close>

text \<open>
  The policy is the live one, may execute, is anchored, and its version is the current one of its
  name.
\<close>

definition in_effect :: "gov_config \<Rightarrow> gov_world \<Rightarrow> string \<Rightarrow> policy \<Rightarrow> bool" where
  "in_effect k w name pol \<longleftrightarrow>
     FilePolicyRepository_load (gk_basePath k) name (write_version pol) (gw_files w) = Some pol
     \<and> PolicyGovernanceExecutionVerifier_verify (gk_crypto k) (gw_records w) name (write_version pol)
         (pk_hash (gk_crypto k) (PolicyContent pol)) = Inr None
     \<and> (\<exists>i. PolicyGovernanceAnchorResolver_resolve (gk_crypto k) (gw_records w) name (write_version pol)
         (pk_hash (gk_crypto k) (PolicyContent pol)) = Inr \<lparr>ga_status = VERIFIED, ga_approvalRecordId = Some i\<rparr>)
     \<and> GovernedPolicyVersionSource_currentVersion (gw_records w) name = Some (write_version pol)"

text \<open>The signer signs, and its own signatures verify.\<close>

definition sound_signer :: "change_crypto \<Rightarrow> bool" where
  "sound_signer c \<longleftrightarrow> (\<forall>f i. \<exists>v. pk_sign c f i = Inr v \<and> pk_check c f i v = Inr True)"

lemma sign_verifies:
  assumes "sound_signer c" "PolicyChangeCrypto_sign c t (PolicyChangeCrypto_canonicalRecord r) = Inr (ar_signature r)"
  shows "PolicyChangeCrypto_verify c r = Inr True"
proof -
  from assms(1) obtain v where "pk_sign c (PolicyChangeCrypto_canonicalRecord r) GOVERNANCE_KEY_ID = Inr v"
    "pk_check c (PolicyChangeCrypto_canonicalRecord r) GOVERNANCE_KEY_ID v = Inr True" by (auto simp: sound_signer_def)
  moreover from this(1) assms(2) have "ar_signature r =
      \<lparr>sg_algorithm = pk_algorithm c, sg_keyId = GOVERNANCE_KEY_ID, sg_value = v, sg_signedAt = t\<rparr>"
    by (simp add: PolicyChangeCrypto_sign_def)
  ultimately show ?thesis by (simp add: PolicyChangeCrypto_verify_def)
qed

lemma sign_total: "sound_signer c \<Longrightarrow> \<exists>sg. PolicyChangeCrypto_sign c t f = Inr sg"
  unfolding sound_signer_def PolicyChangeCrypto_sign_def by (metis sum.simps(6))

text \<open>What the next approval needs, and what it leaves whatever the status of the change.\<close>

definition approval_ready :: "gov_config \<Rightarrow> gov_inputs \<Rightarrow> gov_world \<Rightarrow> bool" where
  "approval_ready k inputs w \<longleftrightarrow> sound_signer (gk_crypto k) \<and> in_order (gw_records w)
     \<and> later_than (gw_records w) (gi_approvedAt inputs) \<and> map_of (gw_records w) (gi_recordId inputs) = None
     \<and> gi_writeFault inputs = None"

lemma approve_effect:
  assumes "approval_guards k g inputs req i who c w nonces" "well_proposed k c" "approval_ready k inputs w"
  obtains q cs r where "approve_route k g inputs (\<lambda>n v. v) req i w = (q, w\<lparr>gw_nonces := nonces,
       gw_records := gw_records w @ [(ar_id r, r)],
       gw_files := (gw_files w)(policy_file (gk_basePath k) (pc_policyName c)
         (write_version (pc_proposedContent c)) \<mapsto> pc_proposedContent c), gw_changes := cs\<rparr>)"
    "MemoryPendingChanges_resolve i (ApprovedBy who) (gi_resolvedAt inputs) (gw_changes w) = (q, cs)"
    "records_change k r c" "ar_approvedBy r = who" "ar_approvedAt r = gi_approvedAt inputs" "ar_id r = gi_recordId inputs"
    "ar_previousRecordHash r = map_option (\<lambda>p. pk_hash (gk_crypto k) (RecordContent p))
         (MemoryApprovalRecords_findMostRecentFor (pc_policyName c) (write_version (pc_proposedContent c)) (gw_records w))"
proof -
  let ?w = "w\<lparr>gw_nonces := nonces\<rparr>" and ?version = "write_version (pc_proposedContent c)"
  from assms(3) sign_total obtain sg where "PolicyChangeCrypto_sign (gk_crypto k) (gi_recordSignedAt inputs)
      (approval_draft (gk_crypto k) inputs c who
         (FilePolicyRepository_load (gk_basePath k) (pc_policyName c) ?version (gw_files ?w))
         (MemoryApprovalRecords_findMostRecentFor (pc_policyName c) ?version (gw_records ?w))) = Inr sg"
    unfolding approval_ready_def by blast
  from service_alone[OF this] assms(2,3) obtain r where
    s: "PolicyChangeApprovalService_approve k inputs (\<lambda>n v. v) c who ?w =
       (Inr r, ?w\<lparr>gw_records := map_set (ar_id r) r (gw_records ?w),
                gw_files := (gw_files ?w)(policy_file (gk_basePath k) (pc_policyName c) ?version \<mapsto> pc_proposedContent c)\<rparr>)"
    and r: "records_change k r c" "ar_id r = gi_recordId inputs" "ar_approvedBy r = who"
       "ar_approvedAt r = gi_approvedAt inputs" "ar_previousRecordHash r = map_option (\<lambda>p. pk_hash (gk_crypto k) (RecordContent p))
         (MemoryApprovalRecords_findMostRecentFor (pc_policyName c) ?version (gw_records ?w))"
    by (auto simp: well_proposed_def approval_ready_def)
  from assms(3) r(2) have m: "map_set (ar_id r) r (gw_records ?w) = gw_records w @ [(ar_id r, r)]"
    by (simp add: approval_ready_def map_set_fresh)
  obtain q cs where z: "MemoryPendingChanges_resolve i (ApprovedBy who) (gi_resolvedAt inputs) (gw_changes w) = (q, cs)"
    by (rule prod.exhaust)
  show thesis
    using that[OF _ z r(1,3,4,2)] r(5) approve_alone[OF assms(1), unfolded s m] z by simp
qed

lemma effect_of_record:
  assumes "approval_ready k inputs w" "records_change k r c" "ar_approvedAt r = gi_approvedAt inputs" "well_proposed k c"
    and "gw_records v = gw_records w @ [(ar_id r, r)]"
    and "gw_files v = (gw_files w)(policy_file (gk_basePath k) (pc_policyName c)
         (write_version (pc_proposedContent c)) \<mapsto> pc_proposedContent c)"
  shows "in_effect k v (pc_policyName c) (pc_proposedContent c)"
proof -
  from assms(1) have o: "in_order (gw_records w)" "later_than (gw_records w) (ar_approvedAt r)" "sound_signer (gk_crypto k)"
    using assms(3) by (simp_all add: approval_ready_def)
  from assms(2) have "PolicyChangeCrypto_verify (gk_crypto k) r = Inr True"
    using sign_verifies[OF o(3)] by (auto simp: records_change_def)
  then show ?thesis
    using assms(2,4-6) mostRecentFor_append[OF o(1,2)] mostRecentForName_append[OF o(1,2)]
    by (simp add: in_effect_def FilePolicyRepository_load_def well_proposed_def records_change_def
        PolicyGovernanceExecutionVerifier_verify_def PolicyGovernanceAnchorResolver_resolve_def
        GovernedPolicyVersionSource_currentVersion_def)
qed

lemma resolve_result:
  assumes "map_of s i = Some c"
  shows "fst (MemoryPendingChanges_resolve i (ApprovedBy who) now s) =
     (if pc_status c = PENDING_APPROVAL
      then Inr (c\<lparr>pc_status := CHANGE_APPROVED, pc_resolvedBy := Some who, pc_resolvedAt := Some now\<rparr>)
      else Inl (ConflictError (''Pending Policy Change is already resolved: '' @ pc_id c)))"
  using assms by (simp add: MemoryPendingChanges_resolve_def applyPendingPolicyChangeResolution_def)

section \<open>Serial approvals and the integrity check\<close>

text \<open>Names that are path segments of their own.\<close>

definition plain_segment :: "string \<Rightarrow> bool" where
  "plain_segment s \<longleftrightarrow> s \<noteq> ''.'' \<and> s \<noteq> ''..''"

lemma policy_file_plain:
  "plain_segment n \<Longrightarrow> plain_segment v \<Longrightarrow> policy_file b n v = b @ [n, v, ''policy.json'']"
  by (simp add: policy_file_def plain_segment_def)

text \<open>
  Approvals one at a time, each later than those before, with the disk writing; proposals, refusals
  and lists at any time, for plain names.
\<close>

inductive serial_step :: "gov_config \<Rightarrow> 'key step_up_config \<Rightarrow> gov_world \<Rightarrow> gov_world \<Rightarrow> bool"
  for k :: gov_config and g :: "'key step_up_config" where
  serial_propose: "map_of (gw_changes w) (gi_changeId inputs) = None \<Longrightarrow> plain_segment name \<Longrightarrow>
     (\<forall>pol. pb_content body = Some pol \<longrightarrow> plain_segment (write_version pol)) \<Longrightarrow>
     serial_step k g w (snd (propose_route k inputs (\<lambda>n v. v) req name version body w))"
| serial_approve: "map_of (gw_records w) (gi_recordId inputs) = None \<Longrightarrow>
     later_than (gw_records w) (gi_approvedAt inputs) \<Longrightarrow> gi_writeFault inputs = None \<Longrightarrow>
     serial_step k g w (snd (approve_route k g inputs (\<lambda>n v. v) req i w))"
| serial_reject: "serial_step k g w (snd (reject_route k g inputs (\<lambda>n v. v) req i reason w))"
| serial_list: "serial_step k g w (snd (list_route k inputs req status w))"

lemma serial_gov: "serial_step k g w v \<Longrightarrow> gov_step k g w v"
  by (cases rule: serial_step.cases) (auto intro: gov_step.intros)

text \<open>Every change has plain names, the records are in order and linked, the files are theirs.\<close>

definition pair_records :: "approval_records \<Rightarrow> string \<times> string \<Rightarrow> approval_record list" where
  "pair_records s p = filter (\<lambda>r. record_pair r = p) (map snd s)"

definition intact :: "gov_config \<Rightarrow> 'key step_up_config \<Rightarrow> gov_world \<Rightarrow> bool" where
  "intact k g w \<longleftrightarrow> governed_stores k g w
     \<and> (\<forall>i c. map_of (gw_changes w) i = Some c \<longrightarrow>
          plain_segment (pc_policyName c) \<and> plain_segment (write_version (pc_proposedContent c)))
     \<and> in_order (gw_records w)
     \<and> (\<forall>p. check_pair k (gw_files w) (gw_records w) p = None \<and> chain_linked (gk_crypto k) (pair_records (gw_records w) p))
     \<and> (\<forall>r\<in>snd ` set (gw_records w). plain_segment (ar_policyName r) \<and> plain_segment (ar_policyVersion r))"

lemma chain_linked_append:
  "chain_linked k (rs @ [r]) \<longleftrightarrow> chain_linked k rs \<and>
     (rs = [] \<or> ar_previousRecordHash r = Some (pk_hash k (RecordContent (last rs))))"
  by (induction k rs rule: chain_linked.induct) auto

lemma integrity_silent:
  assumes "intact k g w"
  shows "snd (verifyPolicyGovernanceIntegrity k (gw_files w) (gw_records w)) = []"
proof -
  from assms have o: "in_order (gw_records w)" by (simp add: intact_def)
  have "sort_key ar_approvedAt (pair_records (gw_records w) p) = pair_records (gw_records w) p" for p
    unfolding pair_records_def
    by (metis in_order_filter[OF o] sort_key_id_if_sorted strict_sorted_imp_sorted)
  then have "check_chain (gk_crypto k) (gw_records w) p = None" "check_pair k (gw_files w) (gw_records w) p = None" for p
    using assms by (simp_all add: intact_def check_chain_def pair_records_def del: split_paired_All)
  then show ?thesis by (simp add: verifyPolicyGovernanceIntegrity_def Let_def List.map_filter_def)
qed

lemma approve_alone_cases:
  assumes "approve_route k g inputs (\<lambda>n v. v) req i w = (q, v)"
  obtains (refused) "gw_records v = gw_records w" "gw_files v = gw_files w" "gw_changes v = gw_changes w"
  | (approved) who c nonces where "approval_guards k g inputs req i who c w nonces"
proof (cases "\<exists>who. gc_callerId req = Some who \<and> isHumanCaller (gc_holder req)")
  case False
  with requireHuman_denied[of req "gk_sink k" "gi_isoNow inputs" "gw_audit w"] obtain e events where
    "gc_callerId req \<noteq> None \<Longrightarrow> requireHumanCaller (gk_sink k) (gi_isoNow inputs) req (gw_audit w) = (Inl e, events)"
    by auto
  with assms have "gw_records v = gw_records w \<and> gw_files v = gw_files w \<and> gw_changes v = gw_changes w"
    by (auto simp: approve_route_def split: option.splits)
  with refused show thesis by blast
next
  case True
  then obtain who where who: "gc_callerId req = Some who" "isHumanCaller (gc_holder req)" by blast
  note h = requireHuman_ok[OF who(2), of "gk_sink k" "gi_isoNow inputs" "gw_audit w"]
  let ?up = "requireStepUpAuthorization g (MemoryNonceStore_checkAndRecord (sg_dp g)) req i Approve_Change
         (gi_stepUpClock inputs) (gw_nonces w)"
  show thesis
  proof (cases "\<exists>c. map_of (gw_changes w) i = Some c \<and> pc_proposedBy c \<noteq> who \<and> fst ?up = Inr () \<and> gk_service k")
    case True
    with who approved show thesis unfolding approval_guards_def by (metis prod.collapse)
  next
    case False
    with assms who h have "gw_records v = gw_records w \<and> gw_files v = gw_files w \<and> gw_changes v = gw_changes w"
      by (auto simp: approve_route_def load_for_resolution_def MemoryPendingChanges_findById_def Let_def
          split: option.splits prod.splits sum.splits if_splits)
    with refused show thesis by blast
  qed
qed

lemma propose_alone:
  assumes "propose_route k inputs (\<lambda>n v. v) req name version body w = (q, v)"
  shows "gw_records v = gw_records w \<and> gw_files v = gw_files w \<and>
     (gw_changes v = gw_changes w \<or> (\<exists>c. gw_changes v = map_set (pc_id c) c (gw_changes w) \<and>
        pc_policyName c = name \<and> pb_content body = Some (pc_proposedContent c)))"
proof (cases "proposal_checks k name version body")
  case (Inr p)
  obtain reason content where p: "p = (reason, content)" by (rule prod.exhaust)
  with Inr have "pb_content body = Some content"
    by (auto simp: proposal_checks_def split: if_splits option.splits sum.splits prod.splits)
  moreover define c where "c caller = \<lparr>pc_id = gi_changeId inputs, pc_policyName = name, pc_policyVersion = version,
     pc_proposedContent = content, pc_proposedBy = caller, pc_proposedAt = gi_proposedAt inputs,
     pc_status = PENDING_APPROVAL, pc_reason = reason, pc_resolvedBy = None, pc_resolvedAt = None,
     pc_rejectionReason = None\<rparr>" for caller
  moreover have "gw_records v = gw_records w \<and> gw_files v = gw_files w \<and> (gw_changes v = gw_changes w
      \<or> (\<exists>caller. gw_changes v = map_set (gi_changeId inputs) (c caller) (gw_changes w)))"
    using assms Inr p
    by (auto simp: propose_route_def Let_def MemoryPendingChanges_create_def c_def
        split: option.splits sum.splits prod.splits)
  moreover have "pc_id (c x) = gi_changeId inputs" "pc_policyName (c x) = name" "pc_proposedContent (c x) = content" for x
    by (simp_all add: c_def)
  ultimately show ?thesis by metis
qed (use assms in \<open>simp add: propose_route_def\<close>)

lemma reject_alone:
  assumes "reject_route k g inputs (\<lambda>n v. v) req i reason w = (q, v)"
  shows "gw_records v = gw_records w \<and> gw_files v = gw_files w \<and>
     (gw_changes v = gw_changes w \<or>
      (\<exists>res z. MemoryPendingChanges_resolve i res (gi_resolvedAt inputs) (gw_changes w) = (z, gw_changes v)))"
  using assms
  by (auto simp: reject_route_def load_for_resolution_def Let_def
      split: option.splits sum.splits prod.splits if_splits)

definition plain_changes :: "change_store \<Rightarrow> bool" where
  "plain_changes s \<longleftrightarrow> (\<forall>i c. map_of s i = Some c \<longrightarrow>
     plain_segment (pc_policyName c) \<and> plain_segment (write_version (pc_proposedContent c)))"

lemma plain_map_set:
  "plain_changes s \<Longrightarrow> plain_segment (pc_policyName c) \<Longrightarrow> plain_segment (write_version (pc_proposedContent c)) \<Longrightarrow>
   plain_changes (map_set i c s)"
  by (auto simp: plain_changes_def)

lemma plain_resolve:
  assumes "plain_changes s" "MemoryPendingChanges_resolve i res now s = (z, s')"
  shows "plain_changes s'"
proof (cases z)
  case (Inl e)
  with assms show ?thesis by (auto dest: resolve_Inl)
next
  case (Inr c)
  with assms(2) obtain d where "map_of s i = Some d" "same_proposal d c" "s' = map_set i c s" by (auto elim: resolve_Inr)
  with assms(1) show ?thesis by (auto simp: plain_changes_def same_proposal_def)
qed

lemma intact_split:
  "intact k g w \<longleftrightarrow> governed_stores k g w \<and> plain_changes (gw_changes w) \<and> in_order (gw_records w)
     \<and> (\<forall>p. check_pair k (gw_files w) (gw_records w) p = None \<and> chain_linked (gk_crypto k) (pair_records (gw_records w) p))
     \<and> (\<forall>r\<in>snd ` set (gw_records w). plain_segment (ar_policyName r) \<and> plain_segment (ar_policyVersion r))"
  by (simp add: intact_def plain_changes_def)

text \<open>One approved record more.\<close>

lemma pair_records_append: "pair_records (s @ [(i, r)]) p = pair_records s p @ (if record_pair r = p then [r] else [])"
  by (simp add: pair_records_def)

lemma mostRecent_pair:
  assumes "in_order s"
  shows "MemoryApprovalRecords_findMostRecentFor (fst p) (snd p) s =
     (if pair_records s p = [] then None else Some (last (pair_records s p)))"
proof -
  have "(\<lambda>r. ar_policyName r = fst p \<and> ar_policyVersion r = snd p) = (\<lambda>r. record_pair (r :: approval_record) = p)"
    by (auto simp: record_pair_def)
  with most_recent_last[OF in_order_filter[OF assms]] show ?thesis
    by (simp add: MemoryApprovalRecords_findMostRecentFor_def pair_records_def)
qed

lemma intact_append:
  assumes "intact k g w" "sound_signer (gk_crypto k)" "records_change k r c" "well_proposed k c"
    and "plain_segment (pc_policyName c)" "plain_segment (write_version (pc_proposedContent c))"
    and "later_than (gw_records w) (ar_approvedAt r)"
    and "ar_previousRecordHash r = map_option (\<lambda>p. pk_hash (gk_crypto k) (RecordContent p))
         (MemoryApprovalRecords_findMostRecentFor (pc_policyName c) (write_version (pc_proposedContent c)) (gw_records w))"
    and "gw_records v = gw_records w @ [(ar_id r, r)]"
    and "gw_files v = (gw_files w)(policy_file (gk_basePath k) (pc_policyName c)
         (write_version (pc_proposedContent c)) \<mapsto> pc_proposedContent c)"
    and "governed_stores k g v" "plain_changes (gw_changes v)"
  shows "intact k g v"
proof -
  let ?p = "(pc_policyName c, write_version (pc_proposedContent c))" and ?s = "gw_records w"
  have o: "in_order ?s" "in_order (gw_records v)"
    using assms(1,7,9) in_order_append by (auto simp: intact_def)
  have rp: "record_pair r = ?p" using assms(3) by (simp add: records_change_def record_pair_def)
  have plain: "\<forall>r\<in>snd ` set (gw_records v). plain_segment (ar_policyName r) \<and> plain_segment (ar_policyVersion r)"
    using assms(1,3,5,6,9) by (auto simp: intact_def records_change_def)
  have chain: "chain_linked (gk_crypto k) (pair_records (gw_records v) p)" for p
    using assms(1,8,9) rp mostRecent_pair[OF o(1), of p]
    by (auto simp: intact_def pair_records_append chain_linked_append simp del: split_paired_All)
  have signed: "PolicyChangeCrypto_verify (gk_crypto k) r = Inr True"
    using sign_verifies[OF assms(2)] assms(3) by (auto simp: records_change_def)
  have "check_pair k (gw_files v) (gw_records v) p = None" for p
  proof (cases "p = ?p")
    case True
    then show ?thesis using mostRecentFor_append[OF o(1) assms(7)] signed assms(3,4,9,10)
      by (simp add: check_pair_def records_change_def FilePolicyRepository_load_def well_proposed_def)
  next
    case False
    then have m: "MemoryApprovalRecords_findMostRecentFor (fst p) (snd p) (gw_records v)
        = MemoryApprovalRecords_findMostRecentFor (fst p) (snd p) ?s"
      using mostRecentFor_append[OF o(1) assms(7)] rp assms(9) by (auto simp: record_pair_def prod_eq_iff)
    have old: "check_pair k (gw_files w) ?s p = None" using assms(1) by (simp add: intact_def del: split_paired_All)
    show ?thesis
    proof (cases "pair_records ?s p = []")
      case True
      with m mostRecent_pair[OF o(1), of p] show ?thesis by (simp add: check_pair_def)
    next
      case nonempty: False
      then have "last (pair_records ?s p) \<in> set (pair_records ?s p)" by (rule last_in_set)
      then obtain q where "q \<in> snd ` set ?s" "record_pair q = p" by (auto simp: pair_records_def)
      with assms(1) have "plain_segment (fst p)" "plain_segment (snd p)" by (auto simp: intact_def record_pair_def)
      with False policy_file_plain assms(5,6)
      have "policy_file (gk_basePath k) (fst p) (snd p) \<noteq> policy_file (gk_basePath k) (fst ?p) (snd ?p)"
        by (auto simp: prod_eq_iff)
      with assms(10) have f: "FilePolicyRepository_load (gk_basePath k) (fst p) (snd p) (gw_files v)
          = FilePolicyRepository_load (gk_basePath k) (fst p) (snd p) (gw_files w)"
        by (simp add: FilePolicyRepository_load_def)
      show ?thesis unfolding check_pair_def m f by (rule old[unfolded check_pair_def])
    qed
  qed
  with o(2) plain chain assms(11,12) show ?thesis by (simp add: intact_split)
qed

lemma serial_intact:
  assumes "serial_step k g w v" "intact k g w" "sound_signer (gk_crypto k)"
  shows "intact k g v"
proof -
  from assms(2) have gs: "governed_stores k g w" and pl: "plain_changes (gw_changes w)" by (simp_all add: intact_split)
  from step_prims[OF serial_gov[OF assms(1)] gs] have gv: "governed_stores k g v" using gs
    by (induction rule: rtranclp_induct) (auto intro: prim_governed)
  have same: "intact k g v" if "gw_records v = gw_records w" "gw_files v = gw_files w" "plain_changes (gw_changes v)"
    using assms(2) gv that by (simp add: intact_split)
  from assms(1) show ?thesis
  proof cases
    case (serial_propose inputs name body req version)
    obtain q where "propose_route k inputs (\<lambda>n v. v) req name version body w = (q, v)"
      using serial_propose(1) by (metis prod.collapse)
    from propose_alone[OF this] serial_propose(3,4) pl same plain_map_set show ?thesis by metis
  next
    case (serial_approve inputs req i)
    obtain q where q: "approve_route k g inputs (\<lambda>n v. v) req i w = (q, v)"
      using serial_approve(1) by (metis prod.collapse)
    then show ?thesis
    proof (cases rule: approve_alone_cases)
      case refused
      with same pl show ?thesis by simp
    next
      case (approved who c nonces)
      then have c: "map_of (gw_changes w) i = Some c" by (simp add: approval_guards_def)
      with gs have wp: "well_proposed k c" by (simp add: governed_stores_def)
      from c pl have pn: "plain_segment (pc_policyName c)" "plain_segment (write_version (pc_proposedContent c))"
        by (auto simp: plain_changes_def)
      have ready: "approval_ready k inputs w" using assms(2,3) serial_approve by (simp add: approval_ready_def intact_def)
      from approve_effect[OF approved wp ready] obtain cs r z where
        v: "v = w\<lparr>gw_nonces := nonces, gw_records := gw_records w @ [(ar_id r, r)],
         gw_files := (gw_files w)(policy_file (gk_basePath k) (pc_policyName c)
           (write_version (pc_proposedContent c)) \<mapsto> pc_proposedContent c), gw_changes := cs\<rparr>"
        and r: "MemoryPendingChanges_resolve i (ApprovedBy who) (gi_resolvedAt inputs) (gw_changes w) = (z, cs)"
          "records_change k r c" "ar_approvedAt r = gi_approvedAt inputs"
          "ar_previousRecordHash r = map_option (\<lambda>p. pk_hash (gk_crypto k) (RecordContent p))
            (MemoryApprovalRecords_findMostRecentFor (pc_policyName c) (write_version (pc_proposedContent c)) (gw_records w))"
        using q by (metis prod.inject)
      have "plain_changes (gw_changes v)" using plain_resolve[OF pl r(1)] v by simp
      with intact_append[OF assms(2,3) r(2) wp pn _ r(4)] r(3) serial_approve(3) gv v show ?thesis by simp
    qed
  next
    case (serial_reject inputs req i reason)
    obtain q where "reject_route k g inputs (\<lambda>n v. v) req i reason w = (q, v)"
      using serial_reject(1) by (metis prod.collapse)
    from reject_alone[OF this] same pl plain_resolve show ?thesis by metis
  next
    case (serial_list inputs req status)
    then have "gw_records v = gw_records w" "gw_files v = gw_files w" "gw_changes v = gw_changes w"
      by (auto simp: list_route_def split: option.splits sum.splits prod.splits)
    with same pl show ?thesis by simp
  qed
qed

end
