(* ===== verification/Governance_Results.thy ===== *)
theory Governance_Results
  imports Governance_Properties Policy_Properties
begin

text \<open>
  What policy governance promises: nothing becomes live without two humans, an approved change
  takes effect, and the integrity check is silent on a history of serial approvals.  With them, a
  deployment on which each is used, and what the routes do with a change already resolved.
\<close>

section \<open>A sample deployment\<close>

text \<open>A signature is the identifier of what is signed, and a time is as many milliseconds as its text is long.\<close>

definition tally_hash :: "governed_content \<Rightarrow> string" where
  "tally_hash c = (case c of PolicyContent p \<Rightarrow> write_version p | RecordContent r \<Rightarrow> ar_id r)"

definition tally_crypto :: change_crypto where
  "tally_crypto = \<lparr>pk_hash = tally_hash, pk_algorithm = ''Ed25519'',
     pk_sign = \<lambda>f key. Inr (ar_id f), pk_check = \<lambda>f key v. Inr (v = ar_id f)\<rparr>"

definition sample_gov :: gov_config where
  "sample_gov = \<lparr>gk_crypto = tally_crypto, gk_basePath = [''policies''], gk_rx = sample_rx, gk_nstr = sample_nstr,
     gk_sink = None, gk_service = True\<rparr>"

definition sample_step_up :: "unit step_up_config" where
  "sample_step_up = \<lparr>sg_parseKey = \<lambda>pem. Some (), sg_sigv = \<lambda>payload s key. s = ''signed'',
     sg_dp = \<lambda>s. Some (int (length s)), sg_maxTtl = Some STEP_UP_MAX_TTL_SECONDS\<rparr>"

definition sample_envelope :: json where
  "sample_envelope = JObj [(''payload'', JObj [(''version'', JNum (Fin 1)), (''nonce'', JStr ''n''),
       (''pendingPolicyChangeId'', JStr ''change''), (''action'', JStr ''approve''),
       (''authorizedAt'', JStr ''x''), (''expiresAt'', JStr ''xxxx'')]),
     (''signature'', JStr ''signed''), (''keyId'', JStr ''bob''), (''algorithm'', JStr ''Ed25519'')]"

definition maker :: gov_caller where
  "maker = \<lparr>gc_callerId = Some ''alice'', gc_holder = Some USER, gc_stepUpKey = None, gc_route = ''/'', gc_stepUp = None\<rparr>"

definition checker :: gov_caller where
  "checker = \<lparr>gc_callerId = Some ''bob'', gc_holder = Some USER, gc_stepUpKey = Some ''pem'', gc_route = ''/'',
     gc_stepUp = Some sample_envelope\<rparr>"

definition sample_gov_inputs :: gov_inputs where
  "sample_gov_inputs = \<lparr>gi_isoNow = ''now'', gi_changeId = ''change'', gi_proposedAt = 1, gi_recordId = ''record'',
     gi_approvedAt = 2, gi_recordSignedAt = 2, gi_resolvedAt = 3, gi_stepUpClock = (2, 2), gi_writeFault = None\<rparr>"

definition no_changes :: gov_world where
  "no_changes = \<lparr>gw_changes = [], gw_records = [], gw_files = \<lambda>_. None, gw_nonces = [], gw_audit = []\<rparr>"

definition sample_change :: "change_status \<Rightarrow> pending_change" where
  "sample_change status = \<lparr>pc_id = ''change'', pc_policyName = ''payments'', pc_policyVersion = ''1'',
     pc_proposedContent = gated_policy, pc_proposedBy = ''alice'', pc_proposedAt = 1, pc_status = status,
     pc_reason = ''why'', pc_resolvedBy = None, pc_resolvedAt = None, pc_rejectionReason = None\<rparr>"

definition one_change :: "change_status \<Rightarrow> gov_world" where
  "one_change status = no_changes\<lparr>gw_changes := [(''change'', sample_change status)]\<rparr>"

definition sample_body :: propose_body where
  "sample_body = \<lparr>pb_reason = Some (JStr ''why''), pb_content = Some gated_policy\<rparr>"

lemma gated_policy_version [simp]: "write_version gated_policy = ''1''" "policyId gated_policy = Some ''payments''"
    "policyVersion gated_policy = Some ''1''"
  by (simp_all add: gated_policy_def sample_policy_def write_version_def)

lemma sample_sound: "sound_signer (gk_crypto sample_gov)"
  by (simp add: sound_signer_def sample_gov_def tally_crypto_def)

lemma sample_ready: "approval_ready sample_gov sample_gov_inputs (one_change s)"
  using sample_sound
  by (simp add: approval_ready_def one_change_def no_changes_def in_order_def later_than_def sample_gov_inputs_def)

lemma sample_valid_names: "VALID_NAME_OR_VERSION ''payments''" "VALID_NAME_OR_VERSION ''1''"
  by code_simp+

lemma sample_well_proposed: "well_proposed sample_gov (sample_change s)"
  using gated_policy_valid sample_valid_names by (simp add: well_proposed_def sample_change_def sample_gov_def)

lemma sample_stepped_up:
  "requireStepUpAuthorization sample_step_up (MemoryNonceStore_checkAndRecord (sg_dp sample_step_up)) checker ''change''
     Approve_Change (2, 2) [] = (Inr (), [(''n'', Some 4)])"
proof -
  have a: "Option.bind (gc_stepUp checker) asStepUp = Some \<lparr>su_payload = (case sample_envelope of JObj ps \<Rightarrow> snd (hd ps)),
      su_version = Some (JNum (Fin 1)), su_nonce = ''n'', su_changeId = ''change'', su_action = ''approve'',
      su_authorizedAt = ''x'', su_expiresAt = ''xxxx'', su_signature = ''signed''\<rparr>"
    by (simp add: checker_def sample_envelope_def asStepUp_def obj_prop_def str_prop_def)
  show ?thesis unfolding requireStepUpAuthorization_def a
    by (simp add: checker_def sample_step_up_def PolicyChangeStepUpVerifier_verify_def verifyChecks_iff
        STEP_UP_MAX_TTL_SECONDS_def PolicyChangeStepUpVerifier_consumeNonce_def MemoryNonceStore_checkAndRecord_def
        MemoryNonceStore_size_def PURGE_THRESHOLD_def)
qed

lemma sample_guards: "approval_guards sample_gov sample_step_up sample_gov_inputs checker ''change'' ''bob'' (sample_change s)
    (one_change s) [(''n'', Some 4)]"
  using sample_stepped_up
  by (simp add: approval_guards_def one_change_def no_changes_def sample_gov_inputs_def sample_gov_def isHumanCaller_def)
     (simp add: checker_def sample_change_def)

lemma sample_proposed:
  "propose_route sample_gov sample_gov_inputs (\<lambda>n v. v) maker ''payments'' ''1'' sample_body no_changes =
     (Inr (sample_change PENDING_APPROVAL), one_change PENDING_APPROVAL)"
proof -
  have "findUncoveredFacts gated_policy = Inr []" "case findRuleConflicts gated_policy of Inl _ \<Rightarrow> False | Inr _ \<Rightarrow> True"
    "\<not> js_space (CHR ''w'')"
    by code_simp+
  then have "proposal_checks sample_gov ''payments'' ''1'' sample_body = Inr (''why'', gated_policy)"
    using sample_valid_names gated_policy_valid
    by (simp add: proposal_checks_def sample_body_def nonblank_def trim_def sample_gov_def split: sum.splits)
  then show ?thesis
    by (simp add: propose_route_def maker_def requireHuman_ok isHumanCaller_def MemoryPendingChanges_create_def
        MemoryPendingChanges_findPending_def assertNoConflictingPendingChange_def no_changes_def one_change_def
        sample_change_def sample_gov_inputs_def Let_def)
qed

section \<open>Two humans\<close>


definition approved_world :: gov_world where
  "approved_world = snd (approve_route sample_gov sample_step_up sample_gov_inputs (\<lambda>n v. v) checker ''change''
     (one_change PENDING_APPROVAL))"

lemma sample_serial: "(serial_step sample_gov sample_step_up)\<^sup>*\<^sup>* no_changes approved_world"
proof -
  have "plain_segment ''payments''" "plain_segment (write_version gated_policy)"
    by (simp_all add: plain_segment_def)
  then have "serial_step sample_gov sample_step_up no_changes (one_change PENDING_APPROVAL)"
    using serial_propose[of no_changes sample_gov_inputs "''payments''" sample_body sample_gov sample_step_up maker "''1''"]
    unfolding sample_proposed by (simp add: no_changes_def sample_body_def)
  moreover have "serial_step sample_gov sample_step_up (one_change PENDING_APPROVAL) approved_world"
    unfolding approved_world_def
    by (rule serial_approve) (simp_all add: one_change_def no_changes_def later_than_def sample_gov_inputs_def)
  ultimately show ?thesis by simp
qed

lemma sample_live: "gw_files approved_world [''policies'', ''payments'', ''1'', ''policy.json''] = Some gated_policy"
proof -
  from approve_effect[OF sample_guards sample_well_proposed sample_ready] obtain q cs r where
    "approve_route sample_gov sample_step_up sample_gov_inputs (\<lambda>n v. v) checker ''change'' (one_change PENDING_APPROVAL)
      = (q, (one_change PENDING_APPROVAL)\<lparr>gw_nonces := [(''n'', Some 4)], gw_records := gw_records (one_change PENDING_APPROVAL) @ [(ar_id r, r)],
       gw_files := (gw_files (one_change PENDING_APPROVAL))(policy_file (gk_basePath sample_gov) (pc_policyName (sample_change PENDING_APPROVAL))
         (write_version (pc_proposedContent (sample_change PENDING_APPROVAL))) \<mapsto> pc_proposedContent (sample_change PENDING_APPROVAL)), gw_changes := cs\<rparr>)"
    by metis
  then show ?thesis by (simp add: approved_world_def sample_change_def sample_gov_def policy_file_def)
qed


section \<open>Approval takes effect\<close>

lemma approval_outcome:
  assumes "approval_guards k g inputs req i who c w nonces" "well_proposed k c" "approval_ready k inputs w"
  obtains q v where "approve_route k g inputs (\<lambda>n v. v) req i w = (q, v)"
    "MemoryPendingChanges_resolve i (ApprovedBy who) (gi_resolvedAt inputs) (gw_changes w) = (q, gw_changes v)"
    "in_effect k v (pc_policyName c) (pc_proposedContent c)"
proof -
  from approve_effect[OF assms] obtain q cs r where e:
    "approve_route k g inputs (\<lambda>n v. v) req i w = (q, w\<lparr>gw_nonces := nonces,
       gw_records := gw_records w @ [(ar_id r, r)],
       gw_files := (gw_files w)(policy_file (gk_basePath k) (pc_policyName c)
         (write_version (pc_proposedContent c)) \<mapsto> pc_proposedContent c), gw_changes := cs\<rparr>)"
    "MemoryPendingChanges_resolve i (ApprovedBy who) (gi_resolvedAt inputs) (gw_changes w) = (q, cs)"
    "records_change k r c" "ar_approvedAt r = gi_approvedAt inputs" by metis
  show thesis by (rule that[OF e(1)]) (simp_all add: e(2) effect_of_record[OF assms(3) e(3,4) assms(2)])
qed

text \<open>
  C6: approving a pending change, with every guard passed, the disk writing and nobody
  interfering, returns the change as approved and brings its policy into effect: it is the live
  policy, it may execute, decisions are anchored in its record, and its version is the current one.
\<close>

theorem approved_policy_takes_effect:
  assumes "approval_guards k g inputs req i who c w nonces" "well_proposed k c" "approval_ready k inputs w"
    and "pc_status c = PENDING_APPROVAL"
  shows "case approve_route k g inputs (\<lambda>n v. v) req i w of (q, v) \<Rightarrow>
     q = Inr (c\<lparr>pc_status := CHANGE_APPROVED, pc_resolvedBy := Some who, pc_resolvedAt := Some (gi_resolvedAt inputs)\<rparr>)
     \<and> in_effect k v (pc_policyName c) (pc_proposedContent c)"
proof -
  from assms(1) have m: "map_of (gw_changes w) i = Some c" by (simp add: approval_guards_def)
  from approval_outcome[OF assms(1-3)] obtain q v where
    "approve_route k g inputs (\<lambda>n v. v) req i w = (q, v)"
    "MemoryPendingChanges_resolve i (ApprovedBy who) (gi_resolvedAt inputs) (gw_changes w) = (q, gw_changes v)"
    "in_effect k v (pc_policyName c) (pc_proposedContent c)" .
  with resolve_result[OF m, of who "gi_resolvedAt inputs"] assms(4) show ?thesis by simp
qed

theorem approved_policy_takes_effect_witness:
  "in_effect sample_gov (snd (approve_route sample_gov sample_step_up sample_gov_inputs (\<lambda>n v. v) checker ''change''
     (one_change PENDING_APPROVAL))) ''payments'' gated_policy"
  using approved_policy_takes_effect[OF sample_guards sample_well_proposed sample_ready, of PENDING_APPROVAL]
  by (simp add: sample_change_def split: prod.splits)

text \<open>
  C7: approving a change that was already resolved, a rejected one included, is answered with a
  conflict and yet brings its policy into effect, with a signed approval record.
\<close>

theorem resolved_change_goes_live:
  assumes "approval_guards k g inputs req i who c w nonces" "well_proposed k c" "approval_ready k inputs w"
    and "pc_status c \<noteq> PENDING_APPROVAL"
  shows "case approve_route k g inputs (\<lambda>n v. v) req i w of (q, v) \<Rightarrow>
     q = Inl (ConflictError (''Pending Policy Change is already resolved: '' @ pc_id c))
     \<and> gw_changes v = gw_changes w \<and> in_effect k v (pc_policyName c) (pc_proposedContent c)"
proof -
  from assms(1) have m: "map_of (gw_changes w) i = Some c" by (simp add: approval_guards_def)
  from approval_outcome[OF assms(1-3)] obtain q v where
    a: "approve_route k g inputs (\<lambda>n v. v) req i w = (q, v)"
      "MemoryPendingChanges_resolve i (ApprovedBy who) (gi_resolvedAt inputs) (gw_changes w) = (q, gw_changes v)"
      "in_effect k v (pc_policyName c) (pc_proposedContent c)" .
  with resolve_result[OF m, of who "gi_resolvedAt inputs"] assms(4)
  have q: "q = Inl (ConflictError (''Pending Policy Change is already resolved: '' @ pc_id c))" by simp
  with resolve_Inl a(2) have "gw_changes v = gw_changes w" by metis
  with q a(1,3) show ?thesis by simp
qed

theorem resolved_change_goes_live_witness:
  "in_effect sample_gov (snd (approve_route sample_gov sample_step_up sample_gov_inputs (\<lambda>n v. v) checker ''change''
     (one_change CHANGE_REJECTED))) ''payments'' gated_policy"
  using resolved_change_goes_live[OF sample_guards sample_well_proposed sample_ready, of CHANGE_REJECTED]
  by (simp add: sample_change_def split: prod.splits)

section \<open>The integrity check\<close>

text \<open>
  When approvals come one at a time, each later than the ones before, and the disk does not
  fail, the integrity check of the start never reports a policy: no file is missing or differs
  from its record, every signature verifies, and every chain of records is linked.
\<close>

theorem integrity_check_silent:
  assumes "(serial_step k g)\<^sup>*\<^sup>* w v" "gw_changes w = []" "gw_records w = []" "sound_signer (gk_crypto k)"
  shows "snd (verifyPolicyGovernanceIntegrity k (gw_files v) (gw_records v)) = []"
proof -
  have "intact k g w"
    using assms(2,3) by (simp add: intact_def governed_stores_def in_order_def check_pair_def pair_records_def
        MemoryApprovalRecords_findMostRecentFor_def)
  with assms(1) have "intact k g v"
    by (induction rule: rtranclp_induct) (auto intro: serial_intact assms(4))
  then show ?thesis by (rule integrity_silent)
qed

theorem integrity_check_silent_witness:
  "snd (verifyPolicyGovernanceIntegrity sample_gov (gw_files approved_world) (gw_records approved_world)) = []
   \<and> gw_files approved_world [''policies'', ''payments'', ''1'', ''policy.json''] = Some gated_policy"
  using integrity_check_silent[OF sample_serial _ _ sample_sound] sample_live by (simp add: no_changes_def)

section \<open>Where a version lands\<close>

text \<open>
  A version \<open>..\<close> is accepted where a proposal is checked and where a file is written, and names the
  one file \<open>policy.json\<close> of the base directory for every policy.
\<close>

lemma dotdot_version_shared:
  "FilePolicyRepository_load b ''refunds'' ''..'' (snd (FilePolicyRepository_save b None ''payments'' ''..'' pol files))
     = Some pol"
proof -
  have "VALID_NAME_OR_VERSION ''refunds''" "VALID_NAME_OR_VERSION ''payments''" "VALID_NAME_OR_VERSION ''..''"
    by code_simp+
  then show ?thesis by (simp add: FilePolicyRepository_load_def FilePolicyRepository_save_def policy_file_def)
qed

end
