(* ===== verification/Endpoint_Address.thy ===== *)
theory Endpoint_Address
  imports Prelude "HOL-Library.Word"
begin

unbundle bit_operations_syntax

text \<open>
  The address checks of an external endpoint, \<open>packages/shared/src/network/externalEndpointAddress.ts\<close>.
  Of Node's \<open>net\<close> it uses \<open>isIP\<close> and a \<open>BlockList\<close> of subnets: addresses are words of 32 and of 128
  bits, and an IPv4 address matches a rule of the other family by its mapped form \<open>::ffff:a.b.c.d\<close>.
  The parser of URLs and the resolver of host names are parameters.
\<close>

section \<open>Addresses\<close>

datatype ip_address = V4 "32 word" | V6 "128 word"

text \<open>A decimal octet without leading zeros.\<close>

definition octet :: "string \<Rightarrow> nat option" where
  "octet s =
     (if s \<noteq> [] \<and> length s \<le> 3 \<and> list_all is_digit s \<and> (hd s \<noteq> CHR ''0'' \<or> s = ''0'') \<and> digits_value 0 s \<le> 255
      then Some (digits_value 0 s) else None)"

definition quad :: "nat \<Rightarrow> nat \<Rightarrow> nat \<Rightarrow> nat \<Rightarrow> 32 word" where
  "quad a b c d = word_of_nat (((a * 256 + b) * 256 + c) * 256 + d)"

definition parse_v4 :: "string \<Rightarrow> 32 word option" where
  "parse_v4 s = (case map octet (split_on (CHR ''.'') s) of
     [Some a, Some b, Some c, Some d] \<Rightarrow> Some (quad a b c d)
   | _ \<Rightarrow> None)"

text \<open>Groups of one to four hexadecimal digits; the last two may be written as an IPv4 address.\<close>

definition hex_value :: "char \<Rightarrow> nat option" where
  "hex_value c = (let n = of_char c :: nat in
     if is_digit c then Some (n - 48)
     else if 97 \<le> n \<and> n \<le> 102 then Some (n - 87)
     else if 65 \<le> n \<and> n \<le> 70 then Some (n - 55)
     else None)"

fun hex_number :: "nat \<Rightarrow> string \<Rightarrow> nat option" where
  "hex_number acc [] = Some acc"
| "hex_number acc (c # cs) = (case hex_value c of None \<Rightarrow> None | Some v \<Rightarrow> hex_number (16 * acc + v) cs)"

definition hex_group :: "string \<Rightarrow> nat option" where
  "hex_group s = (if s \<noteq> [] \<and> length s \<le> 4 then hex_number 0 s else None)"

fun v6_groups :: "bool \<Rightarrow> string list \<Rightarrow> nat list option" where
  "v6_groups dotted [] = Some []"
| "v6_groups dotted [g] =
     (if dotted \<and> CHR ''.'' \<in> set g
      then map_option (\<lambda>w. [unat w div 65536, unat w mod 65536]) (parse_v4 g)
      else map_option (\<lambda>n. [n]) (hex_group g))"
| "v6_groups dotted (g # gs) =
     (case (hex_group g, v6_groups dotted gs) of (Some n, Some ns) \<Rightarrow> Some (n # ns) | _ \<Rightarrow> None)"

definition v6_side :: "bool \<Rightarrow> string \<Rightarrow> nat list option" where
  "v6_side dotted s = (if s = [] then Some [] else v6_groups dotted (split_on (CHR '':'') s))"

text \<open>The text around the first \<open>::\<close>.\<close>

fun split_gap :: "string \<Rightarrow> (string \<times> string) option" where
  "split_gap (a # b # s) =
     (if a = CHR '':'' \<and> b = CHR '':'' then Some ([], s)
      else map_option (\<lambda>(l, r). (a # l, r)) (split_gap (b # s)))"
| "split_gap _ = None"

definition v6_body :: "string \<Rightarrow> nat list option" where
  "v6_body s =
     (case split_gap s of
        None \<Rightarrow> (case v6_side True s of Some gs \<Rightarrow> if length gs = 8 then Some gs else None | None \<Rightarrow> None)
      | Some (l, r) \<Rightarrow>
          (case (v6_side False l, v6_side True r) of
             (Some gs, Some hs) \<Rightarrow>
               if length gs + length hs \<le> 7 then Some (gs @ replicate (8 - length gs - length hs) 0 @ hs) else None
           | _ \<Rightarrow> None))"

definition groups_word :: "nat list \<Rightarrow> 128 word" where
  "groups_word gs = word_of_nat (foldl (\<lambda>acc g. acc * 65536 + g) 0 gs)"

text \<open>A zone such as \<open>%eth0\<close> may follow, and is not part of the address.\<close>

definition zone_ok :: "string \<Rightarrow> bool" where
  "zone_ok z = (z = [] \<or> tl z \<noteq> [] \<and> list_all (\<lambda>c. is_alnum c \<or> c = CHR ''-'' \<or> c = CHR ''.'' \<or> c = CHR '':'') (tl z))"

definition parse_v6 :: "string \<Rightarrow> 128 word option" where
  "parse_v6 s =
     (if zone_ok (dropWhile (\<lambda>c. c \<noteq> CHR ''%'') s)
      then map_option groups_word (v6_body (takeWhile (\<lambda>c. c \<noteq> CHR ''%'') s)) else None)"

text \<open>\<open>net.isIP\<close>, with the address it is.\<close>

definition parse_address :: "string \<Rightarrow> ip_address option" where
  "parse_address s = (case parse_v4 s of Some a \<Rightarrow> Some (V4 a) | None \<Rightarrow> map_option V6 (parse_v6 s))"

section \<open>The block list\<close>

definition in_subnet :: "'a::len word \<Rightarrow> nat \<Rightarrow> 'a word \<Rightarrow> bool" where
  "in_subnet network prefix a = (a AND NOT (mask (LENGTH('a) - prefix)) = network)"

definition mapped :: "32 word \<Rightarrow> 128 word" where
  "mapped a = 0xFFFF00000000 OR ucast a"

definition mapped_v4 :: "128 word \<Rightarrow> 32 word option" where
  "mapped_v4 a = (if drop_bit 32 a = 0xFFFF then Some (ucast a) else None)"

definition NON_PUBLIC_V4 :: "(32 word \<times> nat) list" where
  "NON_PUBLIC_V4 =
     [(quad 0 0 0 0, 8), (quad 10 0 0 0, 8), (quad 100 64 0 0, 10), (quad 127 0 0 0, 8), (quad 169 254 0 0, 16),
      (quad 172 16 0 0, 12), (quad 192 0 0 0, 24), (quad 192 0 2 0, 24), (quad 192 88 99 0, 24),
      (quad 192 168 0 0, 16), (quad 198 18 0 0, 15), (quad 198 51 100 0, 24), (quad 203 0 113 0, 24),
      (quad 224 0 0 0, 4), (quad 240 0 0 0, 4)]"

text \<open>A network from its leading groups.\<close>

definition net6 :: "nat list \<Rightarrow> 128 word" where
  "net6 gs = groups_word (gs @ replicate (8 - length gs) 0)"

definition NON_PUBLIC_V6 :: "(128 word \<times> nat) list" where
  "NON_PUBLIC_V6 =
     [(0, 128), (1, 128), (net6 [0x64, 0xFF9B], 96), (net6 [0x64, 0xFF9B, 1], 48), (net6 [0x100], 64),
      (net6 [0x2001], 23), (net6 [0x2001, 0xDB8], 32), (net6 [0x2002], 16), (net6 [0xFC00], 7),
      (net6 [0xFE80], 10), (net6 [0xFEC0], 10), (net6 [0xFF00], 8)]"

fun NON_PUBLIC_check :: "ip_address \<Rightarrow> bool" where
  "NON_PUBLIC_check (V4 a) =
     (list_ex (\<lambda>(n, p). in_subnet n p a) NON_PUBLIC_V4 \<or> list_ex (\<lambda>(n, p). in_subnet n p (mapped a)) NON_PUBLIC_V6)"
| "NON_PUBLIC_check (V6 a) =
     ((case mapped_v4 a of None \<Rightarrow> False | Some b \<Rightarrow> list_ex (\<lambda>(n, p). in_subnet n p b) NON_PUBLIC_V4)
      \<or> list_ex (\<lambda>(n, p). in_subnet n p a) NON_PUBLIC_V6)"

definition isPublicAddress :: "string \<Rightarrow> bool" where
  "isPublicAddress address =
     (case parse_address address of None \<Rightarrow> False | Some a \<Rightarrow> \<not> NON_PUBLIC_check a)"

section \<open>The URL of an endpoint\<close>

record url =
  u_protocol :: string
  u_username :: string
  u_password :: string
  u_hostname :: string
  u_hash :: string
  u_href :: string

type_synonym url_parse = "string \<Rightarrow> url option"

definition MAX_ENDPOINT_URL_LENGTH :: nat where
  "MAX_ENDPOINT_URL_LENGTH = 2048"

datatype url_refusal =
  NotAShortString | NotAbsolute | NotHttps | HasUserInfo | HasFragment | NamesAddress | NotPublicHost

definition to_lower :: "string \<Rightarrow> string" where
  "to_lower = map (\<lambda>c. let n = of_char c :: nat in if 65 \<le> n \<and> n \<le> 90 then char_of (n + 32) else c)"

definition bare_host :: "string \<Rightarrow> string" where
  "bare_host h = (if ends_with h ''.'' then butlast h else h)"

definition checkEndpointUrl :: "url_parse \<Rightarrow> json option \<Rightarrow> (url_refusal, url) result" where
  "checkEndpointUrl parse value =
     (case value of
        Some (JStr s) \<Rightarrow>
          if length s > MAX_ENDPOINT_URL_LENGTH then Inl NotAShortString
          else (case parse s of
            None \<Rightarrow> Inl NotAbsolute
          | Some url \<Rightarrow>
              if u_protocol url \<noteq> ''https:'' then Inl NotHttps
              else if u_username url \<noteq> [] \<or> u_password url \<noteq> [] then Inl HasUserInfo
              else if u_hash url \<noteq> [] then Inl HasFragment
              else let hostname = to_lower (u_hostname url); bare = bare_host hostname in
                if starts_with hostname ''['' \<or> parse_address hostname \<noteq> None then Inl NamesAddress
                else if bare = ''localhost'' \<or> ends_with bare ''.localhost'' \<or> CHR ''.'' \<notin> set bare
                then Inl NotPublicHost
                else Inr url)
      | _ \<Rightarrow> Inl NotAShortString)"

record resolved_address =
  rs_address :: string
  rs_family :: nat

datatype address_error = DoesNotResolve string | NotPublic string "string list"

text \<open>The resolver answers with addresses or throws.\<close>

type_synonym address_lookup = "string \<Rightarrow> (string, resolved_address list) result"

definition resolvePublicEndpointAddresses ::
  "address_lookup \<Rightarrow> url \<Rightarrow> (address_error, resolved_address list) result" where
  "resolvePublicEndpointAddresses lookup url =
     (case lookup (u_hostname url) of
        Inl _ \<Rightarrow> Inl (DoesNotResolve (u_hostname url))
      | Inr addresses \<Rightarrow>
          if addresses = [] then Inl (DoesNotResolve (u_hostname url))
          else let refused = filter (\<lambda>a. \<not> isPublicAddress (rs_address a)) addresses in
            if refused \<noteq> [] then Inl (NotPublic (u_hostname url) (map rs_address refused)) else Inr addresses)"

section \<open>Subnets are intervals\<close>

lemma and_not_mask: "(a :: 'a::len word) AND NOT (mask k) = push_bit k (drop_bit k a)"
  by (rule bit_word_eqI) (auto simp: bit_simps)

lemma unat_and_not_mask: "unat ((a :: 'a::len word) AND NOT (mask k)) = unat a div 2 ^ k * 2 ^ k"
proof -
  have "unat a div 2 ^ k * 2 ^ k < 2 ^ LENGTH('a)"
    by (rule le_less_trans[OF div_times_less_eq_dividend]) simp
  moreover have "unat (push_bit k (drop_bit k a)) = take_bit LENGTH('a) (push_bit k (drop_bit k (unat a)))"
    by (simp only: unsigned_push_bit_eq unat_drop_bit_eq)
  ultimately show ?thesis
    unfolding and_not_mask by (simp add: push_bit_eq_mult drop_bit_eq_div take_bit_eq_mod)
qed

lemma in_subnet_interval:
  fixes network :: "'a::len word"
  assumes "2 ^ (LENGTH('a) - prefix) dvd unat network" "unat final + 1 = unat network + 2 ^ (LENGTH('a) - prefix)"
  shows "in_subnet network prefix a \<longleftrightarrow> network \<le> a \<and> a \<le> final"
proof -
  let ?k = "LENGTH('a) - prefix"
  obtain m where m: "unat network = m * 2 ^ ?k" using assms(1) by (metis dvdE mult.commute)
  have "in_subnet network prefix a \<longleftrightarrow> unat a div 2 ^ ?k * 2 ^ ?k = m * 2 ^ ?k"
    unfolding in_subnet_def m[symmetric] unat_and_not_mask[symmetric] by (rule word_unat_eq_iff)
  also have "\<dots> \<longleftrightarrow> unat a div 2 ^ ?k = m" by simp
  also have "\<dots> \<longleftrightarrow> m * 2 ^ ?k \<le> unat a \<and> unat a < m * 2 ^ ?k + 2 ^ ?k"
    using dividend_less_div_times[of "2 ^ ?k" "unat a"] by (auto intro: div_nat_eqI simp: mult.commute)
  also have "\<dots> \<longleftrightarrow> network \<le> a \<and> a \<le> final"
    using assms(2) m unfolding word_le_nat_alt by linarith
  finally show ?thesis .
qed

end
