(* ===== verification/Connector_Changes.thy ===== *)
theory Connector_Changes
  imports Policy_Governance Endpoint_Address
begin

text \<open>
  Maker-checker changes of approvers and of external connectors: the in-memory repositories
  (\<open>packages/storage/src/memory/MemoryApprovalIssuerRepository.ts\<close>,
  \<open>MemoryExternalConnectorRepository.ts\<close>), the routes \<open>packages/api/src/routes/approval-issuers.ts\<close> and
  \<open>external-connectors.ts\<close>, and what reads them: \<open>GovernedApprovalIssuerRegistry\<close> and
  \<open>createExternalPolicyBindingSource.ts\<close>.

  Parameters: the parsers of PEM keys and of URLs, the resolver, the random identifiers and clock
  readings of a call, and what others do at its \<open>await\<close>s.
\<close>

section \<open>Approver keys\<close>

record approver_record =
  ir_approverId :: string
  ir_keyId :: string
  ir_publicKeyPem :: string
  ir_revoked :: bool
  ir_addedByChangeId :: string
  ir_addedAt :: int
  ir_revokedByChangeId :: "string option"
  ir_revokedAt :: "int option"

datatype issuer_action = Add_Issuer | Revoke_Issuer

record issuer_change =
  ic_id :: string
  ic_action :: issuer_action
  ic_approverId :: string
  ic_keyId :: string
  ic_publicKeyPem :: "string option"
  ic_reason :: string
  ic_proposedBy :: string
  ic_proposedAt :: int
  ic_status :: change_status
  ic_resolvedBy :: "string option"
  ic_resolvedAt :: "int option"
  ic_rejectionReason :: "string option"

record issuer_store =
  is_issuers :: "(string \<times> approver_record) list"
  is_changes :: "(string \<times> issuer_change) list"

definition issuerKey :: "string \<Rightarrow> string \<Rightarrow> string" where
  "issuerKey approverId keyId = approverId @ [CHR 0x00] @ keyId"

definition MemoryApprovalIssuers_findIssuer :: "string \<Rightarrow> string \<Rightarrow> issuer_store \<Rightarrow> approver_record option" where
  "MemoryApprovalIssuers_findIssuer approverId keyId s = map_of (is_issuers s) (issuerKey approverId keyId)"

definition MemoryApprovalIssuers_listIssuers :: "issuer_store \<Rightarrow> approver_record list" where
  "MemoryApprovalIssuers_listIssuers s = map snd (is_issuers s)"

definition MemoryApprovalIssuers_createChange ::
  "issuer_change \<Rightarrow> issuer_store \<Rightarrow> (gov_error, issuer_change) result \<times> issuer_store" where
  "MemoryApprovalIssuers_createChange change s =
     (if list_ex (\<lambda>e. ic_status e = PENDING_APPROVAL \<and> ic_approverId e = ic_approverId change
            \<and> ic_keyId e = ic_keyId change) (map snd (is_changes s))
      then (Inl (ConflictError ''already pending''), s)
      else (Inr change, s\<lparr>is_changes := map_set (ic_id change) change (is_changes s)\<rparr>))"

definition MemoryApprovalIssuers_findChange :: "string \<Rightarrow> issuer_store \<Rightarrow> issuer_change option" where
  "MemoryApprovalIssuers_findChange i s = map_of (is_changes s) i"

definition MemoryApprovalIssuers_listChanges :: "change_status option \<Rightarrow> issuer_store \<Rightarrow> issuer_change list" where
  "MemoryApprovalIssuers_listChanges status s =
     (let listed = map snd (is_changes s) in
      case status of None \<Rightarrow> listed | Some t \<Rightarrow> filter (\<lambda>c. ic_status c = t) listed)"

definition MemoryApprovalIssuers_pending :: "string \<Rightarrow> issuer_store \<Rightarrow> (gov_error, issuer_change) result" where
  "MemoryApprovalIssuers_pending i s =
     (case map_of (is_changes s) i of
        None \<Rightarrow> Inl (ChangeNotFoundError i)
      | Some change \<Rightarrow>
          if ic_status change \<noteq> PENDING_APPROVAL then Inl (ConflictError ''already resolved'') else Inr change)"

text \<open>The key that an approved change adds or marks as revoked.\<close>

definition apply_issuer_change ::
  "issuer_change \<Rightarrow> int \<Rightarrow> approver_record option \<Rightarrow> (gov_error, approver_record) result" where
  "apply_issuer_change change time current =
     (case ic_action change of
        Add_Issuer \<Rightarrow>
          if current \<noteq> None then Inl (ConflictError ''already exists'')
          else Inr \<lparr>ir_approverId = ic_approverId change, ir_keyId = ic_keyId change,
                    ir_publicKeyPem = (case ic_publicKeyPem change of Some p \<Rightarrow> p | None \<Rightarrow> []),
                    ir_revoked = False, ir_addedByChangeId = ic_id change, ir_addedAt = time,
                    ir_revokedByChangeId = None, ir_revokedAt = None\<rparr>
      | Revoke_Issuer \<Rightarrow>
          (case current of
             None \<Rightarrow> Inl (ConflictError ''not an active key'')
           | Some r \<Rightarrow>
               if ir_revoked r then Inl (ConflictError ''not an active key'')
               else Inr (r\<lparr>ir_revoked := True, ir_revokedByChangeId := Some (ic_id change), ir_revokedAt := Some time\<rparr>)))"

definition MemoryApprovalIssuers_approveChange ::
  "string \<Rightarrow> string \<Rightarrow> int \<Rightarrow> issuer_store \<Rightarrow> (gov_error, issuer_change) result \<times> issuer_store" where
  "MemoryApprovalIssuers_approveChange i approvedBy time s =
     (case MemoryApprovalIssuers_pending i s of
        Inl e \<Rightarrow> (Inl e, s)
      | Inr change \<Rightarrow>
          let key = issuerKey (ic_approverId change) (ic_keyId change) in
          (case apply_issuer_change change time (map_of (is_issuers s) key) of
             Inl e \<Rightarrow> (Inl e, s)
           | Inr r \<Rightarrow>
               let resolved = change\<lparr>ic_status := CHANGE_APPROVED, ic_resolvedBy := Some approvedBy, ic_resolvedAt := Some time\<rparr>
               in (Inr resolved, s\<lparr>is_issuers := map_set key r (is_issuers s), is_changes := map_set i resolved (is_changes s)\<rparr>)))"

definition MemoryApprovalIssuers_rejectChange ::
  "string \<Rightarrow> string \<Rightarrow> string \<Rightarrow> int \<Rightarrow> issuer_store \<Rightarrow> (gov_error, issuer_change) result \<times> issuer_store" where
  "MemoryApprovalIssuers_rejectChange i rejectedBy rejectionReason time s =
     (case MemoryApprovalIssuers_pending i s of
        Inl e \<Rightarrow> (Inl e, s)
      | Inr change \<Rightarrow>
          let resolved = change\<lparr>ic_status := CHANGE_REJECTED, ic_resolvedBy := Some rejectedBy,
                ic_resolvedAt := Some time, ic_rejectionReason := Some rejectionReason\<rparr>
          in (Inr resolved, s\<lparr>is_changes := map_set i resolved (is_changes s)\<rparr>))"

text \<open>A PEM key as the crypto library reads it: its type, the key, and its canonical SPKI form.\<close>

type_synonym 'key pem_parse = "string \<Rightarrow> (string \<times> 'key \<times> string) option"

text \<open>
  \<open>GovernedApprovalIssuerRegistry\<close>: the keys in code, then the stored ones.  \<^term>\<open>None\<close> for the
  store is a database error.
\<close>

definition GovernedApprovalIssuerRegistry_resolve ::
  "'key pem_parse \<Rightarrow> 'key issuer_resolve \<Rightarrow> issuer_store option \<Rightarrow> 'key issuer_resolve" where
  "GovernedApprovalIssuerRegistry_resolve pem code repository approverId keyId =
     (case code approverId keyId of
        Some r \<Rightarrow> Some r
      | None \<Rightarrow>
          (case repository of
             None \<Rightarrow> None
           | Some s \<Rightarrow>
               (case MemoryApprovalIssuers_findIssuer approverId keyId s of
                  None \<Rightarrow> None
                | Some r \<Rightarrow>
                    (case pem (ir_publicKeyPem r) of
                       None \<Rightarrow> None
                     | Some (kind, key, _) \<Rightarrow>
                         if kind \<noteq> ''ed25519'' then None
                         else Some \<lparr>ri_publicKey = key, ri_revoked = ir_revoked r\<rparr>))))"

section \<open>External connectors\<close>

datatype registration_status = Active_Registration | Revoked_Registration

record connector_registration =
  cr_id :: string
  cr_capability :: string
  cr_endpointUrl :: string
  cr_policy :: string
  cr_allowedParameters :: "string list"
  cr_timeoutMs :: int
  cr_status :: registration_status
  cr_registeredAt :: int
  cr_revokedByChangeId :: "string option"
  cr_revokedAt :: "int option"

datatype connector_action = Register_Connector | Revoke_Connector

record connector_change =
  cc_id :: string
  cc_action :: connector_action
  cc_capability :: string
  cc_endpointUrl :: "string option"
  cc_policy :: "string option"
  cc_allowedParameters :: "string list option"
  cc_timeoutMs :: "int option"
  cc_reason :: string
  cc_proposedBy :: string
  cc_proposedAt :: int
  cc_status :: change_status
  cc_resolvedBy :: "string option"
  cc_resolvedAt :: "int option"
  cc_rejectionReason :: "string option"

record connector_store =
  xs_registrations :: "(string \<times> connector_registration) list"
  xs_changes :: "(string \<times> connector_change) list"

definition MemoryExternalConnectors_findActive :: "string \<Rightarrow> connector_store \<Rightarrow> connector_registration option" where
  "MemoryExternalConnectors_findActive capability s =
     find (\<lambda>r. cr_capability r = capability \<and> cr_status r = Active_Registration) (map snd (xs_registrations s))"

definition MemoryExternalConnectors_listRegistrations :: "connector_store \<Rightarrow> connector_registration list" where
  "MemoryExternalConnectors_listRegistrations s = map snd (xs_registrations s)"

definition MemoryExternalConnectors_createChange ::
  "connector_change \<Rightarrow> connector_store \<Rightarrow> (gov_error, connector_change) result \<times> connector_store" where
  "MemoryExternalConnectors_createChange change s =
     (if list_ex (\<lambda>e. cc_status e = PENDING_APPROVAL \<and> cc_capability e = cc_capability change) (map snd (xs_changes s))
      then (Inl (ConflictError ''already pending''), s)
      else (Inr change, s\<lparr>xs_changes := map_set (cc_id change) change (xs_changes s)\<rparr>))"

definition MemoryExternalConnectors_findChange :: "string \<Rightarrow> connector_store \<Rightarrow> connector_change option" where
  "MemoryExternalConnectors_findChange i s = map_of (xs_changes s) i"

definition MemoryExternalConnectors_listChanges :: "change_status option \<Rightarrow> connector_store \<Rightarrow> connector_change list" where
  "MemoryExternalConnectors_listChanges status s =
     (let listed = rev (map snd (xs_changes s)) in
      case status of None \<Rightarrow> listed | Some t \<Rightarrow> filter (\<lambda>c. cc_status c = t) listed)"

definition MemoryExternalConnectors_pending :: "string \<Rightarrow> connector_store \<Rightarrow> (gov_error, connector_change) result" where
  "MemoryExternalConnectors_pending i s =
     (case map_of (xs_changes s) i of
        None \<Rightarrow> Inl (ChangeNotFoundError i)
      | Some change \<Rightarrow>
          if cc_status change \<noteq> PENDING_APPROVAL then Inl (ConflictError ''already resolved'') else Inr change)"

text \<open>The registration that an approved change makes or marks as revoked.\<close>

definition apply_connector_change ::
  "connector_change \<Rightarrow> int \<Rightarrow> connector_registration option \<Rightarrow> (gov_error, connector_registration) result" where
  "apply_connector_change change time current =
     (case cc_action change of
        Register_Connector \<Rightarrow>
          if current \<noteq> None then Inl (ConflictError ''already has an active external connector'')
          else Inr \<lparr>cr_id = cc_id change, cr_capability = cc_capability change,
             cr_endpointUrl = (case cc_endpointUrl change of Some u \<Rightarrow> u | None \<Rightarrow> []),
             cr_policy = (case cc_policy change of Some p \<Rightarrow> p | None \<Rightarrow> []),
             cr_allowedParameters = (case cc_allowedParameters change of Some ps \<Rightarrow> ps | None \<Rightarrow> []),
             cr_timeoutMs = (case cc_timeoutMs change of Some t \<Rightarrow> t | None \<Rightarrow> 0),
             cr_status = Active_Registration, cr_registeredAt = time, cr_revokedByChangeId = None, cr_revokedAt = None\<rparr>
      | Revoke_Connector \<Rightarrow>
          (case current of
             None \<Rightarrow> Inl (ConflictError ''has no active external connector'')
           | Some r \<Rightarrow> Inr (r\<lparr>cr_status := Revoked_Registration, cr_revokedByChangeId := Some (cc_id change),
                            cr_revokedAt := Some time\<rparr>)))"

text \<open>The active registration is awaited after the change was found pending; \<open>others\<close> is what runs there.\<close>

definition MemoryExternalConnectors_approveChange ::
  "(connector_store \<Rightarrow> connector_store) \<Rightarrow> string \<Rightarrow> string \<Rightarrow> int \<Rightarrow> connector_store
   \<Rightarrow> (gov_error, connector_change) result \<times> connector_store" where
  "MemoryExternalConnectors_approveChange others i approvedBy time s =
     (case MemoryExternalConnectors_pending i s of
        Inl e \<Rightarrow> (Inl e, s)
      | Inr change \<Rightarrow>
          let current = MemoryExternalConnectors_findActive (cc_capability change) s; s' = others s in
          (case apply_connector_change change time current of
             Inl e \<Rightarrow> (Inl e, s')
           | Inr r \<Rightarrow>
               let resolved = change\<lparr>cc_status := CHANGE_APPROVED, cc_resolvedBy := Some approvedBy, cc_resolvedAt := Some time\<rparr>
               in (Inr resolved, s'\<lparr>xs_registrations := map_set (cr_id r) r (xs_registrations s'),
                                    xs_changes := map_set i resolved (xs_changes s')\<rparr>)))"

definition MemoryExternalConnectors_rejectChange ::
  "string \<Rightarrow> string \<Rightarrow> string \<Rightarrow> int \<Rightarrow> connector_store \<Rightarrow> (gov_error, connector_change) result \<times> connector_store" where
  "MemoryExternalConnectors_rejectChange i rejectedBy rejectionReason time s =
     (case MemoryExternalConnectors_pending i s of
        Inl e \<Rightarrow> (Inl e, s)
      | Inr change \<Rightarrow>
          let resolved = change\<lparr>cc_status := CHANGE_REJECTED, cc_resolvedBy := Some rejectedBy,
                cc_resolvedAt := Some time, cc_rejectionReason := Some rejectionReason\<rparr>
          in (Inr resolved, s\<lparr>xs_changes := map_set i resolved (xs_changes s)\<rparr>))"

text \<open>\<open>createExternalPolicyBindingSource\<close>: the policy an active registration binds to a capability.\<close>

definition ExternalPolicyBindingSource_policyFor :: "connector_store \<Rightarrow> string \<Rightarrow> string option" where
  "ExternalPolicyBindingSource_policyFor s capability =
     map_option cr_policy (MemoryExternalConnectors_findActive capability s)"

end
