(* ===== verification/Change_Routes.thy ===== *)
theory Change_Routes
  imports Connector_Changes Signal_Binding
begin

text \<open>
  The routes of \<open>packages/api/src/routes/approval-issuers.ts\<close> and \<open>external-connectors.ts\<close> over the
  repositories of \<open>Connector_Changes\<close>: the form of what may be proposed, the guards in the order of
  the code, and the resolution.
\<close>

section \<open>The forms of names\<close>

definition is_lower :: "char \<Rightarrow> bool" where
  "is_lower c = (97 \<le> (of_char c :: nat) \<and> (of_char c :: nat) \<le> 122)"

definition lower_or_digit :: "char \<Rightarrow> bool" where
  "lower_or_digit c = (is_lower c \<or> is_digit c)"

text \<open>\<open>[a-z][a-z0-9]*(?:[-_][a-z0-9]+)*\<close>: nonempty pieces between dashes and underscores.\<close>

definition capability_part :: "string \<Rightarrow> bool" where
  "capability_part s =
     (s \<noteq> [] \<and> is_lower (hd s)
      \<and> list_all (\<lambda>p. p \<noteq> [] \<and> list_all lower_or_digit p)
          (split_on (CHR ''-'') (map (\<lambda>c. if c = CHR ''_'' then CHR ''-'' else c) s)))"

definition isNamespacedCapability :: "string \<Rightarrow> bool" where
  "isNamespacedCapability s =
     (case split_on (CHR '':'') s of [n, v] \<Rightarrow> capability_part n \<and> capability_part v | _ \<Rightarrow> False)"

definition MAX_CAPABILITY_LENGTH :: nat where
  "MAX_CAPABILITY_LENGTH = 128"

text \<open>\<open>[a-z0-9][a-z0-9-]{0,127}\<close>, \<open>[A-Za-z_][A-Za-z0-9_]{0,63}\<close> and \<open>[A-Za-z0-9._-]{1,128}\<close>.\<close>

definition POLICY_NAME :: "string \<Rightarrow> bool" where
  "POLICY_NAME s = (s \<noteq> [] \<and> length s \<le> 128 \<and> lower_or_digit (hd s)
     \<and> list_all (\<lambda>c. lower_or_digit c \<or> c = CHR ''-'') s)"

definition PARAMETER_NAME :: "string \<Rightarrow> bool" where
  "PARAMETER_NAME s = (s \<noteq> [] \<and> length s \<le> 64 \<and> \<not> is_digit (hd s) \<and> list_all is_word_char s)"

definition VALID_ID :: "string \<Rightarrow> bool" where
  "VALID_ID s = (length s \<le> 128 \<and> VALID_NAME_OR_VERSION s)"

definition MAX_ALLOWED_PARAMETERS :: nat where
  "MAX_ALLOWED_PARAMETERS = 64"

definition MAX_REASON_LENGTH :: nat where
  "MAX_REASON_LENGTH = 2000"

definition DEFAULT_TIMEOUT_MS :: int where
  "DEFAULT_TIMEOUT_MS = 10000"

definition MIN_TIMEOUT_MS :: int where
  "MIN_TIMEOUT_MS = 1000"

definition MAX_TIMEOUT_MS :: int where
  "MAX_TIMEOUT_MS = 30000"

definition namespaceOf :: "string \<Rightarrow> string" where
  "namespaceOf capability = takeWhile (\<lambda>c. c \<noteq> CHR '':'') capability"

definition INTENTIONALLY_UNBOUND_CAPABILITIES :: "string list" where
  "INTENTIONALLY_UNBOUND_CAPABILITIES = [''test:fixture-execute'']"

definition BUILT_IN_CAPABILITY_NAMESPACES :: "string list" where
  "BUILT_IN_CAPABILITY_NAMESPACES =
     map namespaceOf (map fst CANONICAL_CAPABILITY_POLICY_BINDINGS @ INTENTIONALLY_UNBOUND_CAPABILITIES)"

text \<open>A reason that is not blank and not too long.\<close>

definition short_reason :: "json option \<Rightarrow> string option" where
  "short_reason v = (case nonblank v of Some s \<Rightarrow> if length s > MAX_REASON_LENGTH then None else Some s | None \<Rightarrow> None)"

fun json_strings :: "json list \<Rightarrow> string list option" where
  "json_strings [] = Some []"
| "json_strings (JStr s # vs) = map_option (\<lambda>ss. s # ss) (json_strings vs)"
| "json_strings _ = None"

definition parseAllowedParameters :: "json option \<Rightarrow> (gov_error, string list) result" where
  "parseAllowedParameters v =
     (let refused = Inl (BadRequest ''allowedParameters'') in
      case v of
        Some (JArr vs) \<Rightarrow>
          (case json_strings vs of
             None \<Rightarrow> refused
           | Some names \<Rightarrow>
               if length names > MAX_ALLOWED_PARAMETERS \<or> \<not> list_all PARAMETER_NAME names \<or> \<not> distinct names
               then refused else Inr names)
      | _ \<Rightarrow> refused)"

definition parseTimeoutMs :: "json option \<Rightarrow> (gov_error, int) result" where
  "parseTimeoutMs v =
     (case v of
        None \<Rightarrow> Inr DEFAULT_TIMEOUT_MS
      | Some (JNum (Fin q)) \<Rightarrow>
          if of_int \<lfloor>q\<rfloor> \<noteq> q \<or> \<lfloor>q\<rfloor> < MIN_TIMEOUT_MS \<or> \<lfloor>q\<rfloor> > MAX_TIMEOUT_MS
          then Inl (BadRequest ''timeoutMs'') else Inr \<lfloor>q\<rfloor>
      | Some _ \<Rightarrow> Inl (BadRequest ''timeoutMs''))"

section \<open>Requests\<close>

record change_world =
  cw_issuers :: issuer_store
  cw_connectors :: connector_store
  cw_nonces :: memory_nonces
  cw_audit :: "caller_audit_event list"

type_synonym change_env = "nat \<Rightarrow> change_world \<Rightarrow> change_world"

record 'key change_config =
  ck_stepUp :: "'key step_up_config"
  ck_sink :: "audit_sink option"
  ck_code :: "'key issuer_resolve"  \<comment> \<open>the approvers listed in code\<close>
  ck_pem :: "'key pem_parse"
  ck_url :: url_parse

text \<open>The random identifier, clock readings and DNS answers of one request.\<close>

record change_inputs =
  ci_isoNow :: string
  ci_changeId :: string
  ci_proposedAt :: int
  ci_resolvedAt :: int
  ci_stepUpClock :: "int \<times> int"
  ci_lookup :: address_lookup

text \<open>The caller of a route that must be an authenticated human, and the state after the audit.\<close>

definition human_caller ::
  "'key change_config \<Rightarrow> change_inputs \<Rightarrow> gov_caller \<Rightarrow> string \<Rightarrow> change_world
   \<Rightarrow> (gov_error, string) result \<times> change_world" where
  "human_caller k inputs req what w =
     (case gc_callerId req of
        None \<Rightarrow> (Inl (CallerAuthenticationRequired what), w)
      | Some caller \<Rightarrow>
          (case requireHumanCaller (ck_sink k) (ci_isoNow inputs) req (cw_audit w) of
             (Inl e, events) \<Rightarrow> (Inl e, w\<lparr>cw_audit := events\<rparr>)
           | (Inr _, events) \<Rightarrow> (Inr caller, w\<lparr>cw_audit := events\<rparr>)))"

section \<open>Approver changes\<close>

definition normalizeEd25519PublicKey :: "'key pem_parse \<Rightarrow> json option \<Rightarrow> string option" where
  "normalizeEd25519PublicKey pem v =
     (case v of
        Some (JStr s) \<Rightarrow>
          if length s > 4096 then None
          else (case pem s of Some (kind, _, spki) \<Rightarrow> if kind = ''ed25519'' then Some spki else None | None \<Rightarrow> None)
      | _ \<Rightarrow> None)"

text \<open>The checks on what is proposed that need no repository.\<close>

definition issuer_proposal ::
  "'key change_config \<Rightarrow> json option
   \<Rightarrow> (gov_error, issuer_action \<times> string \<times> string \<times> string) result" where
  "issuer_proposal k body =
     (case (case get_prop_opt body ''action'' of
              Some (JStr a) \<Rightarrow> if a = ''add'' then Some Add_Issuer else if a = ''revoke'' then Some Revoke_Issuer else None
            | _ \<Rightarrow> None) of
        None \<Rightarrow> Inl (BadRequest ''action must be add or revoke.'')
      | Some action \<Rightarrow>
      (case (get_prop_opt body ''approverId'', get_prop_opt body ''keyId'') of
        (Some (JStr approverId), Some (JStr keyId)) \<Rightarrow>
          if \<not> VALID_ID approverId \<or> \<not> VALID_ID keyId then Inl (BadRequest ''approverId and keyId'')
          else (case short_reason (get_prop_opt body ''reason'') of
                  None \<Rightarrow> Inl (BadRequest ''reason is required'')
                | Some reason \<Rightarrow>
                    if ck_code k approverId keyId \<noteq> None then Inl (ConflictError ''listed in code'')
                    else Inr (action, approverId, keyId, reason))
      | _ \<Rightarrow> Inl (BadRequest ''approverId and keyId'')))"

definition new_issuer_change ::
  "change_inputs \<Rightarrow> string \<Rightarrow> issuer_action \<Rightarrow> string \<Rightarrow> string \<Rightarrow> string \<Rightarrow> string option \<Rightarrow> issuer_change" where
  "new_issuer_change inputs caller action approverId keyId reason pem =
     \<lparr>ic_id = ci_changeId inputs, ic_action = action, ic_approverId = approverId, ic_keyId = keyId,
      ic_publicKeyPem = pem, ic_reason = reason, ic_proposedBy = caller, ic_proposedAt = ci_proposedAt inputs,
      ic_status = PENDING_APPROVAL, ic_resolvedBy = None, ic_resolvedAt = None, ic_rejectionReason = None\<rparr>"

definition issuer_propose ::
  "'key change_config \<Rightarrow> change_inputs \<Rightarrow> change_env \<Rightarrow> gov_caller \<Rightarrow> json option \<Rightarrow> change_world
   \<Rightarrow> (gov_error, issuer_change) result \<times> change_world" where
  "issuer_propose k inputs env req body w =
     (case human_caller k inputs req ''propose an approver change'' w of
        (Inl e, w1) \<Rightarrow> (Inl e, w1)
      | (Inr caller, w1) \<Rightarrow>
      let w2 = env 0 w1 in
      (case issuer_proposal k body of
        Inl e \<Rightarrow> (Inl e, w2)
      | Inr (action, approverId, keyId, reason) \<Rightarrow>
      let existing = MemoryApprovalIssuers_findIssuer approverId keyId (cw_issuers w2);
          submitted = get_prop_opt body ''publicKeyPem'';
          w3 = env 1 w2;
          store = (\<lambda>pem.
            let r = MemoryApprovalIssuers_createChange
                  (new_issuer_change inputs caller action approverId keyId reason pem) (cw_issuers w3)
            in (fst r, w3\<lparr>cw_issuers := snd r\<rparr>))
      in
      (case action of
        Add_Issuer \<Rightarrow>
          (case normalizeEd25519PublicKey (ck_pem k) submitted of
             None \<Rightarrow> (Inl (BadRequest ''publicKeyPem must be an Ed25519 public key''), w2)
           | Some key \<Rightarrow> if existing \<noteq> None then (Inl (ConflictError ''already exists''), w3) else store (Some key))
      | Revoke_Issuer \<Rightarrow>
          if submitted \<noteq> None then (Inl (BadRequest ''publicKeyPem is only for action add.''), w2)
          else if (case existing of None \<Rightarrow> True | Some r \<Rightarrow> ir_revoked r)
          then (Inl (ConflictError ''not an active key''), w3) else store None)))"

definition issuer_load ::
  "'key change_config \<Rightarrow> change_inputs \<Rightarrow> change_env \<Rightarrow> gov_caller \<Rightarrow> string \<Rightarrow> gov_action \<Rightarrow> string \<Rightarrow> change_world
   \<Rightarrow> (gov_error, issuer_change) result \<times> change_world" where
  "issuer_load k inputs env req i action caller w =
     (case MemoryApprovalIssuers_findChange i (cw_issuers w) of
        None \<Rightarrow> (Inl (ChangeNotFoundError i), env 1 w)
      | Some existing \<Rightarrow>
          let w1 = env 1 w in
          if ic_proposedBy existing = caller then (Inl (SameActorCannotApproveOwnChangeError i), w1)
          else (case requireStepUpAuthorization (ck_stepUp k) (MemoryNonceStore_checkAndRecord (sg_dp (ck_stepUp k)))
                       req i action (ci_stepUpClock inputs) (cw_nonces w1) of
                  (Inl e, nonces) \<Rightarrow> (Inl e, w1\<lparr>cw_nonces := nonces\<rparr>)
                | (Inr _, nonces) \<Rightarrow> (Inr existing, w1\<lparr>cw_nonces := nonces\<rparr>)))"

definition issuer_approve ::
  "'key change_config \<Rightarrow> change_inputs \<Rightarrow> change_env \<Rightarrow> gov_caller \<Rightarrow> string \<Rightarrow> change_world
   \<Rightarrow> (gov_error, issuer_change) result \<times> change_world" where
  "issuer_approve k inputs env req i w =
     (case human_caller k inputs req ''approve an approver change'' w of
        (Inl e, w1) \<Rightarrow> (Inl e, w1)
      | (Inr caller, w1) \<Rightarrow>
      (case issuer_load k inputs env req i Approve_Change caller (env 0 w1) of
        (Inl e, w2) \<Rightarrow> (Inl e, w2)
      | (Inr change, w2) \<Rightarrow>
          let w3 = env 2 w2 in
          (case MemoryApprovalIssuers_approveChange (ic_id change) caller (ci_resolvedAt inputs) (cw_issuers w3) of
             (q, s) \<Rightarrow> (q, w3\<lparr>cw_issuers := s\<rparr>))))"

definition issuer_reject ::
  "'key change_config \<Rightarrow> change_inputs \<Rightarrow> change_env \<Rightarrow> gov_caller \<Rightarrow> string \<Rightarrow> json option \<Rightarrow> change_world
   \<Rightarrow> (gov_error, issuer_change) result \<times> change_world" where
  "issuer_reject k inputs env req i rejectionReason w =
     (case human_caller k inputs req ''reject an approver change'' w of
        (Inl e, w1) \<Rightarrow> (Inl e, w1)
      | (Inr caller, w1) \<Rightarrow>
      (case short_reason rejectionReason of
        None \<Rightarrow> (Inl (BadRequest ''rejectionReason is required''), w1)
      | Some reason \<Rightarrow>
      (case issuer_load k inputs env req i Reject_Change caller (env 0 w1) of
        (Inl e, w2) \<Rightarrow> (Inl e, w2)
      | (Inr change, w2) \<Rightarrow>
          let w3 = env 2 w2 in
          (case MemoryApprovalIssuers_rejectChange (ic_id change) caller reason (ci_resolvedAt inputs) (cw_issuers w3) of
             (q, s) \<Rightarrow> (q, w3\<lparr>cw_issuers := s\<rparr>)))))"

text \<open>\<open>GET /approval-issuers\<close>: the stored keys, after those in code, which are the configuration's.\<close>

definition issuer_list ::
  "'key change_config \<Rightarrow> change_inputs \<Rightarrow> gov_caller \<Rightarrow> change_world
   \<Rightarrow> (gov_error, approver_record list) result \<times> change_world" where
  "issuer_list k inputs req w =
     (case human_caller k inputs req ''list approval issuers'' w of
        (Inl e, w1) \<Rightarrow> (Inl e, w1)
      | (Inr _, w1) \<Rightarrow> (Inr (MemoryApprovalIssuers_listIssuers (cw_issuers w1)), w1))"

definition issuer_list_changes ::
  "'key change_config \<Rightarrow> change_inputs \<Rightarrow> gov_caller \<Rightarrow> change_status option option \<Rightarrow> change_world
   \<Rightarrow> (gov_error, issuer_change list) result \<times> change_world" where
  "issuer_list_changes k inputs req status w =
     (case human_caller k inputs req ''list approver changes'' w of
        (Inl e, w1) \<Rightarrow> (Inl e, w1)
      | (Inr _, w1) \<Rightarrow>
          ((case status of None \<Rightarrow> Inl (BadRequest ''status'')
            | Some t \<Rightarrow> Inr (MemoryApprovalIssuers_listChanges t (cw_issuers w1))), w1))"

section \<open>External connector changes\<close>

definition address_refused :: "(address_error, 'a) result \<Rightarrow> (gov_error, 'a) result" where
  "address_refused r = (case r of Inl _ \<Rightarrow> Inl (BadRequest ''the address of the endpoint is refused'') | Inr a \<Rightarrow> Inr a)"

definition checkEndpoint :: "url_parse \<Rightarrow> address_lookup \<Rightarrow> json option \<Rightarrow> (gov_error, string) result" where
  "checkEndpoint parse lookup value =
     (case checkEndpointUrl parse value of
        Inl _ \<Rightarrow> Inl (BadRequest ''the URL of the endpoint is refused'')
      | Inr url \<Rightarrow>
          (case address_refused (resolvePublicEndpointAddresses lookup url) of
             Inl e \<Rightarrow> Inl e | Inr _ \<Rightarrow> Inr (u_href url)))"

text \<open>What is proposed: the action, the capability and the reason.\<close>

definition connector_proposal :: "json option \<Rightarrow> (gov_error, connector_action \<times> string \<times> string) result" where
  "connector_proposal body =
     (case (case get_prop_opt body ''action'' of
              Some (JStr a) \<Rightarrow> if a = ''register'' then Some Register_Connector
                               else if a = ''revoke'' then Some Revoke_Connector else None
            | _ \<Rightarrow> None) of
        None \<Rightarrow> Inl (BadRequest ''action must be register or revoke.'')
      | Some action \<Rightarrow>
      (case get_prop_opt body ''capability'' of
        Some (JStr capability) \<Rightarrow>
          if length capability > MAX_CAPABILITY_LENGTH \<or> \<not> isNamespacedCapability capability
          then Inl (BadRequest ''capability must be namespace:verb'')
          else if namespaceOf capability \<in> set BUILT_IN_CAPABILITY_NAMESPACES
          then Inl (BadRequest ''the namespace belongs to a built in connector'')
          else (case short_reason (get_prop_opt body ''reason'') of
                  None \<Rightarrow> Inl (BadRequest ''reason is required'')
                | Some reason \<Rightarrow> Inr (action, capability, reason))
      | _ \<Rightarrow> Inl (BadRequest ''capability must be namespace:verb'')))"

text \<open>The fields of a registration, without its endpoint.\<close>

definition register_fields :: "json option \<Rightarrow> (gov_error, string \<times> string list \<times> int) result" where
  "register_fields body =
     (case get_prop_opt body ''policy'' of
        Some (JStr policy) \<Rightarrow>
          if \<not> POLICY_NAME policy then Inl (BadRequest ''policy must be a policy name'')
          else (case parseAllowedParameters (get_prop_opt body ''allowedParameters'') of
                  Inl e \<Rightarrow> Inl e
                | Inr parameters \<Rightarrow>
                    (case parseTimeoutMs (get_prop_opt body ''timeoutMs'') of
                       Inl e \<Rightarrow> Inl e | Inr timeout \<Rightarrow> Inr (policy, parameters, timeout)))
      | _ \<Rightarrow> Inl (BadRequest ''policy must be a policy name''))"

definition new_connector_change ::
  "change_inputs \<Rightarrow> string \<Rightarrow> connector_action \<Rightarrow> string \<Rightarrow> string \<Rightarrow> (string \<times> string \<times> string list \<times> int) option
   \<Rightarrow> connector_change" where
  "new_connector_change inputs caller action capability reason registration =
     \<lparr>cc_id = ci_changeId inputs, cc_action = action, cc_capability = capability,
      cc_endpointUrl = map_option (\<lambda>(url, policy, parameters, timeout). url) registration,
      cc_policy = map_option (\<lambda>(url, policy, parameters, timeout). policy) registration,
      cc_allowedParameters = map_option (\<lambda>(url, policy, parameters, timeout). parameters) registration,
      cc_timeoutMs = map_option (\<lambda>(url, policy, parameters, timeout). timeout) registration,
      cc_reason = reason, cc_proposedBy = caller, cc_proposedAt = ci_proposedAt inputs,
      cc_status = PENDING_APPROVAL, cc_resolvedBy = None, cc_resolvedAt = None, cc_rejectionReason = None\<rparr>"

definition connector_propose ::
  "'key change_config \<Rightarrow> change_inputs \<Rightarrow> change_env \<Rightarrow> gov_caller \<Rightarrow> json option \<Rightarrow> change_world
   \<Rightarrow> (gov_error, connector_change) result \<times> change_world" where
  "connector_propose k inputs env req body w =
     (case human_caller k inputs req ''propose an external connector change'' w of
        (Inl e, w1) \<Rightarrow> (Inl e, w1)
      | (Inr caller, w1) \<Rightarrow>
      let w2 = env 0 w1 in
      (case connector_proposal body of
        Inl e \<Rightarrow> (Inl e, w2)
      | Inr (action, capability, reason) \<Rightarrow>
      let active = MemoryExternalConnectors_findActive capability (cw_connectors w2);
          w3 = env 1 w2;
          store = (\<lambda>registration w'.
            let r = MemoryExternalConnectors_createChange
                  (new_connector_change inputs caller action capability reason registration) (cw_connectors w')
            in (fst r, w'\<lparr>cw_connectors := snd r\<rparr>))
      in
      (case action of
        Register_Connector \<Rightarrow>
          (case register_fields body of
             Inl e \<Rightarrow> (Inl e, w3)
           | Inr registration \<Rightarrow>
               if active \<noteq> None then (Inl (ConflictError ''already has an active external connector''), w3)
               else (case checkEndpoint (ck_url k) (ci_lookup inputs) (get_prop_opt body ''endpointUrl'') of
                       Inl e \<Rightarrow>
                         (Inl e, if ok (checkEndpointUrl (ck_url k) (get_prop_opt body ''endpointUrl'')) then env 2 w3 else w3)
                     | Inr endpointUrl \<Rightarrow> store (Some (endpointUrl, registration)) (env 2 w3)))
      | Revoke_Connector \<Rightarrow>
          if list_ex (\<lambda>f. get_prop_opt body f \<noteq> None) [''endpointUrl'', ''policy'', ''allowedParameters'', ''timeoutMs'']
          then (Inl (BadRequest ''A revoke takes only action, capability and reason.''), w3)
          else if active = None then (Inl (ConflictError ''has no active external connector''), w3)
          else store None w3)))"

definition connector_load ::
  "'key change_config \<Rightarrow> change_inputs \<Rightarrow> change_env \<Rightarrow> gov_caller \<Rightarrow> string \<Rightarrow> gov_action \<Rightarrow> string \<Rightarrow> change_world
   \<Rightarrow> (gov_error, connector_change) result \<times> change_world" where
  "connector_load k inputs env req i action caller w =
     (case MemoryExternalConnectors_findChange i (cw_connectors w) of
        None \<Rightarrow> (Inl (ChangeNotFoundError i), env 1 w)
      | Some existing \<Rightarrow>
          let w1 = env 1 w in
          if cc_proposedBy existing = caller then (Inl (SameActorCannotApproveOwnChangeError i), w1)
          else (case requireStepUpAuthorization (ck_stepUp k) (MemoryNonceStore_checkAndRecord (sg_dp (ck_stepUp k)))
                       req i action (ci_stepUpClock inputs) (cw_nonces w1) of
                  (Inl e, nonces) \<Rightarrow> (Inl e, w1\<lparr>cw_nonces := nonces\<rparr>)
                | (Inr _, nonces) \<Rightarrow> (Inr existing, w1\<lparr>cw_nonces := nonces\<rparr>)))"

text \<open>The address is checked again when the change takes effect.\<close>

definition recheck_endpoint :: "url_parse \<Rightarrow> address_lookup \<Rightarrow> connector_change \<Rightarrow> (gov_error, unit) result" where
  "recheck_endpoint parse lookup change =
     (case (cc_action change, cc_endpointUrl change) of
        (Register_Connector, Some s) \<Rightarrow>
          (case parse s of
             None \<Rightarrow> Inl (UnexpectedError ''TypeError'')
           | Some url \<Rightarrow>
               (case address_refused (resolvePublicEndpointAddresses lookup url) of
                  Inl e \<Rightarrow> Inl e | Inr _ \<Rightarrow> Inr ()))
      | _ \<Rightarrow> Inr ())"

definition connector_approve ::
  "'key change_config \<Rightarrow> change_inputs \<Rightarrow> change_env \<Rightarrow> gov_caller \<Rightarrow> string \<Rightarrow> change_world
   \<Rightarrow> (gov_error, connector_change) result \<times> change_world" where
  "connector_approve k inputs env req i w =
     (case human_caller k inputs req ''approve an external connector change'' w of
        (Inl e, w1) \<Rightarrow> (Inl e, w1)
      | (Inr caller, w1) \<Rightarrow>
      (case connector_load k inputs env req i Approve_Change caller (env 0 w1) of
        (Inl e, w2) \<Rightarrow> (Inl e, w2)
      | (Inr change, w2) \<Rightarrow>
      (case recheck_endpoint (ck_url k) (ci_lookup inputs) change of
        Inl e \<Rightarrow> (Inl e, env 2 w2)
      | Inr _ \<Rightarrow>
          let w3 = env 2 w2;
              others = (\<lambda>s. cw_connectors (env 3 (w3\<lparr>cw_connectors := s\<rparr>))) in
          (case MemoryExternalConnectors_approveChange others (cc_id change) caller (ci_resolvedAt inputs)
                  (cw_connectors w3) of
             (q, s) \<Rightarrow>
               if ok (MemoryExternalConnectors_pending (cc_id change) (cw_connectors w3))
               then (q, (env 3 w3)\<lparr>cw_connectors := s\<rparr>) else (q, w3\<lparr>cw_connectors := s\<rparr>)))))"

definition connector_reject ::
  "'key change_config \<Rightarrow> change_inputs \<Rightarrow> change_env \<Rightarrow> gov_caller \<Rightarrow> string \<Rightarrow> json option \<Rightarrow> change_world
   \<Rightarrow> (gov_error, connector_change) result \<times> change_world" where
  "connector_reject k inputs env req i rejectionReason w =
     (case human_caller k inputs req ''reject an external connector change'' w of
        (Inl e, w1) \<Rightarrow> (Inl e, w1)
      | (Inr caller, w1) \<Rightarrow>
      (case short_reason rejectionReason of
        None \<Rightarrow> (Inl (BadRequest ''rejectionReason is required''), w1)
      | Some reason \<Rightarrow>
      (case connector_load k inputs env req i Reject_Change caller (env 0 w1) of
        (Inl e, w2) \<Rightarrow> (Inl e, w2)
      | (Inr change, w2) \<Rightarrow>
          let w3 = env 2 w2 in
          (case MemoryExternalConnectors_rejectChange (cc_id change) caller reason (ci_resolvedAt inputs)
                  (cw_connectors w3) of
             (q, s) \<Rightarrow> (q, w3\<lparr>cw_connectors := s\<rparr>)))))"

definition connector_list ::
  "'key change_config \<Rightarrow> change_inputs \<Rightarrow> gov_caller \<Rightarrow> change_world
   \<Rightarrow> (gov_error, connector_registration list) result \<times> change_world" where
  "connector_list k inputs req w =
     (case human_caller k inputs req ''list external connectors'' w of
        (Inl e, w1) \<Rightarrow> (Inl e, w1)
      | (Inr _, w1) \<Rightarrow> (Inr (MemoryExternalConnectors_listRegistrations (cw_connectors w1)), w1))"

definition connector_list_changes ::
  "'key change_config \<Rightarrow> change_inputs \<Rightarrow> gov_caller \<Rightarrow> change_status option option \<Rightarrow> change_world
   \<Rightarrow> (gov_error, connector_change list) result \<times> change_world" where
  "connector_list_changes k inputs req status w =
     (case human_caller k inputs req ''list external connector changes'' w of
        (Inl e, w1) \<Rightarrow> (Inl e, w1)
      | (Inr _, w1) \<Rightarrow>
          ((case status of None \<Rightarrow> Inl (BadRequest ''status'')
            | Some t \<Rightarrow> Inr (MemoryExternalConnectors_listChanges t (cw_connectors w1))), w1))"

end
