(* ===== verification/Connector_SDK.thy ===== *)
theory Connector_SDK
  imports Change_Routes Execution_Control
begin

text \<open>
  The connector SDK and its place behind the gateway: \<open>packages/connector-sdk/src\<close> and, of
  \<open>packages/execution-gateway/src/connector-execution\<close>, \<open>SdkConnectorExecutor.ts\<close>,
  \<open>ConnectorEvidence.ts\<close>, \<open>CredentialVaultAdapter.ts\<close>, \<open>GatewayCapabilityConnectorPolicy.ts\<close> and
  \<open>GatewayConnectorRegistry.ts\<close>; with \<open>packages/api/src/bootstrap/assertConnectorCapabilitiesBound.ts\<close>.

  Parameters: the hash of evidence and the parser that takes the secrets out of a URL.
\<close>

section \<open>Credentials\<close>

text \<open>A value branded by a provider, or anything else.\<close>

datatype 'v credential = Branded string string 'v | Raw 'v

fun isCredentialHandle :: "'v credential \<Rightarrow> bool" where
  "isCredentialHandle (Branded _ _ _) = True"
| "isCredentialHandle (Raw _) = False"

definition StaticCredentialProvider_resolve :: "(string \<times> 'v) list \<Rightarrow> string \<Rightarrow> (string, 'v credential) result" where
  "StaticCredentialProvider_resolve entries connectorId =
     (case map_of entries connectorId of
        None \<Rightarrow> Inl (''No static credential configured for connector: '' @ connectorId)
      | Some v \<Rightarrow> Inr (Branded ''static'' connectorId v))"

definition EnvironmentCredentialProvider_resolve ::
  "(string \<times> string) list \<Rightarrow> (string \<rightharpoonup> string) \<Rightarrow> string \<Rightarrow> (string, string credential) result" where
  "EnvironmentCredentialProvider_resolve variables environment connectorId =
     (case map_of variables connectorId of
        None \<Rightarrow> Inl (''No environment credential mapping configured for connector: '' @ connectorId)
      | Some variable \<Rightarrow>
          (case environment variable of
             None \<Rightarrow> Inl (''Environment variable is not set: '' @ variable)
           | Some v \<Rightarrow> Inr (Branded ''environment'' variable v)))"

section \<open>Connectors\<close>

record connector_version =
  cv_major :: nat
  cv_minor :: nat
  cv_patch :: nat

definition formatConnectorVersion :: "connector_version \<Rightarrow> string" where
  "formatConnectorVersion v =
     nat_string (cv_major v) @ ''.'' @ nat_string (cv_minor v) @ ''.'' @ nat_string (cv_patch v)"

definition connectorVersionsEqual :: "connector_version \<Rightarrow> connector_version \<Rightarrow> bool" where
  "connectorVersionsEqual a b = (cv_major a = cv_major b \<and> cv_minor a = cv_minor b \<and> cv_patch a = cv_patch b)"

datatype connector_health = Healthy | Degraded | Unavailable

record connector_metadata =
  cm_connectorId :: string
  cm_version :: connector_version
  cm_health :: connector_health

text \<open>The capabilities a connector may declare.\<close>

definition connectorCapabilities :: "string list \<Rightarrow> (string, string list) result" where
  "connectorCapabilities declared =
     (case find (\<lambda>c. \<not> isNamespacedCapability c) declared of
        Some c \<Rightarrow> Inl (''Connector capability must be a namespaced verb: '' @ c)
      | None \<Rightarrow> Inr declared)"

record sdk_request =
  sr_capability :: string
  sr_businessTransactionId :: string
  sr_action :: string
  sr_target :: string
  sr_parameters :: jsobject

record release_context =
  rx_authorizationId :: string
  rx_policyName :: string
  rx_policyVersion :: string
  rx_policyContentHash :: "string option"
  rx_approvals :: "release_approval list"

record 'v execution_context =
  xc_credential :: "'v credential"
  xc_timeoutMs :: int
  xc_requestedAt :: int
  xc_release :: "release_context option"

record sdk_response =
  sp_success :: bool
  sp_metadata :: "jsobject option"

text \<open>A connector runs in the world outside.\<close>

record ('v, 'w) connector =
  cn_connectorId :: string
  cn_capabilities :: "string list"
  cn_execute :: "sdk_request \<Rightarrow> 'v execution_context \<Rightarrow> 'w \<Rightarrow> (string, sdk_response) result \<times> 'w"

section \<open>Evidence\<close>

definition contains :: "string \<Rightarrow> string \<Rightarrow> bool" where
  "contains s w = list_ex (\<lambda>n. starts_with (drop n s) w) [0..<Suc (length s)]"

definition SENSITIVE_KEY :: "string \<Rightarrow> bool" where
  "SENSITIVE_KEY key =
     list_ex (contains (to_lower key))
       [''credential'', ''secret'', ''token'', ''apikey'', ''api_key'', ''password'', ''authorization'']"

text \<open>
  The keys are assigned one by one to a fresh object, and the assignment of \<open>__proto__\<close> makes no
  property.
\<close>

definition redactSensitiveKeys :: "jsobject option \<Rightarrow> jsobject" where
  "redactSensitiveKeys value =
     (case value of
        None \<Rightarrow> []
      | Some kvs \<Rightarrow> map (\<lambda>(k, v). (k, if SENSITIVE_KEY k then JStr ''[REDACTED]'' else v))
                     (filter (\<lambda>(k, v). k \<noteq> ''__proto__'') kvs))"

lemma proto_parameter_missing: "redactSensitiveKeys (Some [(''__proto__'', v)]) = []"
  by (simp add: redactSensitiveKeys_def)

text \<open>\<open>strip\<close> is the URL without user, password, query and fragment, when the target is a URL.\<close>

definition sanitizeEndpoint :: "(string \<Rightarrow> string option) \<Rightarrow> string \<Rightarrow> string" where
  "sanitizeEndpoint strip target =
     (case strip target of Some s \<Rightarrow> s | None \<Rightarrow> hd (split_on (CHR ''?'') target))"

record connector_evidence =
  ce_connectorId :: string
  ce_connectorVersion :: string
  ce_capability :: string
  ce_sanitizedEndpoint :: string
  ce_credentialProviderId :: string
  ce_requestSummary :: jsobject
  ce_responseSummary :: jsobject
  ce_startedAt :: int
  ce_completedAt :: int
  ce_vendorConfirmationVerified :: bool

definition evidence_of ::
  "(string \<Rightarrow> string option) \<Rightarrow> string \<Rightarrow> connector_version \<Rightarrow> string \<Rightarrow> sdk_request \<Rightarrow> sdk_response \<Rightarrow> int \<Rightarrow> int
   \<Rightarrow> connector_evidence" where
  "evidence_of strip connectorId version providerId request response startedAt completedAt =
     \<lparr>ce_connectorId = connectorId, ce_connectorVersion = formatConnectorVersion version,
      ce_capability = sr_capability request, ce_sanitizedEndpoint = sanitizeEndpoint strip (sr_target request),
      ce_credentialProviderId = providerId,
      ce_requestSummary =
        [(''businessTransactionId'', JStr (sr_businessTransactionId request)), (''action'', JStr (sr_action request)),
         (''target'', JStr (sanitizeEndpoint strip (sr_target request))),
         (''parameters'', JObj (redactSensitiveKeys (Some (sr_parameters request))))],
      ce_responseSummary =
        [(''success'', JBool (sp_success response)), (''metadata'', JObj (redactSensitiveKeys (sp_metadata response)))],
      ce_startedAt = startedAt, ce_completedAt = completedAt, ce_vendorConfirmationVerified = False\<rparr>"

text \<open>The evidence with its hash, as it is put under \<open>metadata.connector\<close>; \<open>iso\<close> prints a time.\<close>

definition buildConnectorEvidence :: "(connector_evidence \<Rightarrow> string) \<Rightarrow> (int \<Rightarrow> string) \<Rightarrow> connector_evidence \<Rightarrow> json" where
  "buildConnectorEvidence hash isoString e =
     JObj [(''connectorId'', JStr (ce_connectorId e)), (''connectorVersion'', JStr (ce_connectorVersion e)),
       (''capability'', JStr (ce_capability e)), (''sanitizedEndpoint'', JStr (ce_sanitizedEndpoint e)),
       (''credentialProviderId'', JStr (ce_credentialProviderId e)),
       (''requestSummary'', JObj (ce_requestSummary e)), (''responseSummary'', JObj (ce_responseSummary e)),
       (''startedAt'', JStr (isoString (ce_startedAt e))), (''completedAt'', JStr (isoString (ce_completedAt e))),
       (''vendorConfirmationVerified'', JBool (ce_vendorConfirmationVerified e)),
       (''connectorEvidenceHash'', JStr (hash e))]"

section \<open>The executor\<close>

record ('v, 'w) sdk_options =
  so_connector :: "('v, 'w) connector"
  so_metadata :: connector_metadata
  so_credentialProviderId :: string
  so_expectedVersion :: "connector_version option"
  so_timeoutMs :: "int option"
  so_strip :: "string \<Rightarrow> string option"
  so_hash :: "connector_evidence \<Rightarrow> string"
  so_isoString :: "int \<Rightarrow> string"
  so_clock :: "int \<times> int"  \<comment> \<open>the readings when it starts and when it is done\<close>

definition SDK_DEFAULT_TIMEOUT_MS :: int where
  "SDK_DEFAULT_TIMEOUT_MS = 30000"

definition sdk_request_of :: "executable_content \<Rightarrow> sdk_request" where
  "sdk_request_of content =
     \<lparr>sr_capability = ec_action content, sr_businessTransactionId = ec_businessTransactionId content,
      sr_action = ec_action content, sr_target = ec_target content, sr_parameters = ec_parameters content\<rparr>"

definition release_context_of :: "signed_authorization \<Rightarrow> release_approval list \<Rightarrow> release_context" where
  "release_context_of authorization approvals =
     \<lparr>rx_authorizationId = ap_authorizationId (sa_payload authorization),
      rx_policyName = ap_policyName (sa_payload authorization),
      rx_policyVersion = ap_policyVersion (sa_payload authorization),
      rx_policyContentHash = ap_policyContentHash (sa_payload authorization), rx_approvals = approvals\<rparr>"

definition SdkConnectorExecutor_execute :: "('v, 'w) sdk_options \<Rightarrow> ('v credential, 'w) executor" where
  "SdkConnectorExecutor_execute opts content credential authorization approvals w =
     (let connector = so_connector opts; metadata = so_metadata opts in
      if (case so_expectedVersion opts of None \<Rightarrow> False | Some v \<Rightarrow> \<not> connectorVersionsEqual (cm_version metadata) v)
      then (Inl ''Connector version mismatch'', w)
      else if cm_health metadata = Unavailable then (Inl ''Connector is unavailable'', w)
      else if ec_action content \<notin> set (cn_capabilities connector) then (Inl ''Connector does not declare capability'', w)
      else if \<not> isCredentialHandle credential then (Inl ''Connector rejected a raw credential'', w)
      else
        (case cn_execute connector (sdk_request_of content)
                \<lparr>xc_credential = credential,
                 xc_timeoutMs = (case so_timeoutMs opts of Some t \<Rightarrow> t | None \<Rightarrow> SDK_DEFAULT_TIMEOUT_MS),
                 xc_requestedAt = fst (so_clock opts),
                 xc_release = Some (release_context_of authorization approvals)\<rparr> w of
           (Inl e, w') \<Rightarrow> (Inl e, w')
         | (Inr response, w') \<Rightarrow>
             (Inr \<lparr>xs_businessTransactionId = ec_businessTransactionId content, xs_action = ec_action content,
                xs_target = ec_target content, xs_parameters = ec_parameters content,
                xs_success = sp_success response, xs_executedAt = snd (so_clock opts),
                xs_metadata = Some [(''connector'', buildConnectorEvidence (so_hash opts) (so_isoString opts)
                  (evidence_of (so_strip opts) (cn_connectorId connector) (cm_version metadata)
                     (so_credentialProviderId opts) (sdk_request_of content) response (fst (so_clock opts))
                     (snd (so_clock opts))))]\<rparr>, w')))"

section \<open>Registration\<close>

text \<open>The namespaced verb is required before the policy of execution control is asked.\<close>

definition GatewayCapabilityConnectorPolicy_assertAllowed ::
  "('st \<Rightarrow> (control_error, unit) result \<times> 'st) \<Rightarrow> string \<Rightarrow> 'st \<Rightarrow> (control_error, unit) result \<times> 'st" where
  "GatewayCapabilityConnectorPolicy_assertAllowed inner action st =
     (if \<not> isNamespacedCapability action then (Inl (ExecutorThrew ''not a namespaced verb''), st) else inner st)"

text \<open>
  \<open>buildSecureConnector\<close> without the insecure option of tests: the executor behind a session
  credential connector with the capabilities the connector declares.
\<close>

definition buildSecureConnector ::
  "('a, 'v credential, 'w) connector_options \<Rightarrow> ('v, 'w) sdk_options \<Rightarrow> ('v credential, 'w) secure_connector" where
  "buildSecureConnector base opts =
     SessionCredentialSecureConnector_create
       (base\<lparr>co_capabilities := cn_capabilities (so_connector opts), co_executor := SdkConnectorExecutor_execute opts\<rparr>)"

text \<open>
  The policy is asked first, so the wrapper's refusal is recorded and thrown before anything else.
\<close>

definition with_capability_policy ::
  "('a, 'v credential, 'w) connector_options \<Rightarrow> ('v credential, 'w) secure_connector
   \<Rightarrow> ('v credential, 'w) secure_connector" where
  "with_capability_policy opts c =
     c\<lparr>sc_execute := (\<lambda>inputs request st.
         case GatewayCapabilityConnectorPolicy_assertAllowed (\<lambda>st'. (Inr (), st'))
                (ec_action (gx_executableContent request)) st of
           (Inl e, st') \<Rightarrow>
             (Inl e, MemoryExecutionAuditSink_record (connector_event ExecutionRejected opts inputs request None) st')
         | (Inr _, st') \<Rightarrow> sc_execute c inputs request st')\<rparr>"

record ('v, 'w) registry_entry =
  re_connector :: "('v, 'w) connector"
  re_metadata :: connector_metadata
  re_secureConnector :: "('v credential, 'w) secure_connector"

text \<open>The entries by the connector's id, over the plain registry by its identity.\<close>

record ('v, 'w) gateway_registry =
  gr_inner :: "('v credential, 'w) registry"
  gr_entries :: "(string \<times> ('v, 'w) registry_entry) list"

definition GatewayConnectorRegistry_register ::
  "('v, 'w) sdk_options \<Rightarrow> ('v credential, 'w) secure_connector \<Rightarrow> ('v, 'w) gateway_registry
   \<Rightarrow> (control_error, ('v, 'w) gateway_registry) result" where
  "GatewayConnectorRegistry_register opts secure r =
     (let i = cn_connectorId (so_connector opts) in
      if map_of (gr_entries r) i \<noteq> None then Inl (ConnectorAlreadyRegistered i)
      else (case InMemoryConnectorRegistry_register secure (gr_inner r) of
              Inl e \<Rightarrow> Inl e
            | Inr inner \<Rightarrow>
                Inr \<lparr>gr_inner = inner,
                     gr_entries = map_set i \<lparr>re_connector = so_connector opts, re_metadata = so_metadata opts,
                                           re_secureConnector = secure\<rparr> (gr_entries r)\<rparr>))"

definition GatewayConnectorRegistry_get ::
  "('v, 'w) gateway_registry \<Rightarrow> string \<Rightarrow> (control_error, ('v credential, 'w) secure_connector) result" where
  "GatewayConnectorRegistry_get r name = InMemoryConnectorRegistry_get (gr_inner r) name"

definition GatewayConnectorRegistry_resolveCapability ::
  "('v, 'w) gateway_registry \<Rightarrow> string \<Rightarrow> (control_error, ('v credential, 'w) secure_connector) result" where
  "GatewayConnectorRegistry_resolveCapability r capability =
     (case find (\<lambda>e. capability \<in> set (sc_capabilities (re_secureConnector e))) (map snd (gr_entries r)) of
        None \<Rightarrow> Inl (ConnectorNotRegistered capability) | Some e \<Rightarrow> Inr (re_secureConnector e))"

definition GatewayConnectorRegistry_entry ::
  "('v, 'w) gateway_registry \<Rightarrow> string \<Rightarrow> (control_error, ('v, 'w) registry_entry) result" where
  "GatewayConnectorRegistry_entry r name =
     (case map_of (gr_entries r) name of None \<Rightarrow> Inl (UnknownConnector name) | Some e \<Rightarrow> Inr e)"

definition GatewayConnectorRegistry_list :: "('v, 'w) gateway_registry \<Rightarrow> ('v, 'w) registry_entry list" where
  "GatewayConnectorRegistry_list r = map snd (gr_entries r)"

text \<open>\<open>createGatewayConnectorRegistry\<close>: every registration with the wrapped policy, in order.\<close>

fun createGatewayConnectorRegistry ::
  "(('a, 'v credential, 'w) connector_options \<times> ('v, 'w) sdk_options) list \<Rightarrow> ('v, 'w) gateway_registry
   \<Rightarrow> (control_error, ('v, 'w) gateway_registry) result" where
  "createGatewayConnectorRegistry [] r = Inr r"
| "createGatewayConnectorRegistry ((base, opts) # rest) r =
     (case GatewayConnectorRegistry_register opts (with_capability_policy base (buildSecureConnector base opts)) r of
        Inl e \<Rightarrow> Inl e | Inr r' \<Rightarrow> createGatewayConnectorRegistry rest r')"

text \<open>A connector capability that no policy is bound to stops the start.\<close>

definition assertConnectorCapabilitiesBound :: "string list list \<Rightarrow> (string, unit) result" where
  "assertConnectorCapabilitiesBound registrations =
     for_each (for_each (\<lambda>capability.
        if map_of CANONICAL_CAPABILITY_POLICY_BINDINGS capability \<noteq> None then Inr ()
        else if capability \<in> set INTENTIONALLY_UNBOUND_CAPABILITIES then Inr ()
        else Inl (''Connector capability has no entry: '' @ capability))) registrations"

end
