(* ===== verification/Endpoint_Properties.thy ===== *)
theory Endpoint_Properties
  imports Endpoint_Address
begin

unbundle bit_operations_syntax

text \<open>
  The block list read as intervals of addresses, and what passes the check of an endpoint's URL.
\<close>

section \<open>The ranges that are not public\<close>

definition ranges_v4 :: "(32 word \<times> 32 word) list" where
  "ranges_v4 =
     [(quad 0 0 0 0, quad 0 255 255 255), (quad 10 0 0 0, quad 10 255 255 255),
      (quad 100 64 0 0, quad 100 127 255 255), (quad 127 0 0 0, quad 127 255 255 255),
      (quad 169 254 0 0, quad 169 254 255 255), (quad 172 16 0 0, quad 172 31 255 255),
      (quad 192 0 0 0, quad 192 0 0 255), (quad 192 0 2 0, quad 192 0 2 255),
      (quad 192 88 99 0, quad 192 88 99 255), (quad 192 168 0 0, quad 192 168 255 255),
      (quad 198 18 0 0, quad 198 19 255 255), (quad 198 51 100 0, quad 198 51 100 255),
      (quad 203 0 113 0, quad 203 0 113 255), (quad 224 0 0 0, quad 239 255 255 255),
      (quad 240 0 0 0, quad 255 255 255 255)]"

definition upto6 :: "nat list \<Rightarrow> 128 word" where
  "upto6 gs = groups_word (gs @ replicate (8 - length gs) 0xFFFF)"

definition ranges_v6 :: "(128 word \<times> 128 word) list" where
  "ranges_v6 =
     [(0, 0), (1, 1), (net6 [0x64, 0xFF9B], upto6 [0x64, 0xFF9B, 0, 0, 0, 0]),
      (net6 [0x64, 0xFF9B, 1], upto6 [0x64, 0xFF9B, 1]), (net6 [0x100], upto6 [0x100, 0, 0, 0]),
      (net6 [0x2001], upto6 [0x2001, 0x1FF]), (net6 [0x2001, 0xDB8], upto6 [0x2001, 0xDB8]),
      (net6 [0x2002], upto6 [0x2002]), (net6 [0xFC00], upto6 [0xFDFF]), (net6 [0xFE80], upto6 [0xFEBF]),
      (net6 [0xFEC0], upto6 [0xFEFF]), (net6 [0xFF00], upto6 [0xFFFF])]"

definition outside :: "('a::len word \<times> 'a word) list \<Rightarrow> 'a word \<Rightarrow> bool" where
  "outside rs a = list_all (\<lambda>(first, final). a < first \<or> final < a) rs"

definition row :: "'a::len word \<times> nat \<Rightarrow> 'a word \<times> 'a word \<Rightarrow> bool" where
  "row subnet ends \<longleftrightarrow> fst ends = fst subnet \<and> unat (fst subnet) mod 2 ^ (LENGTH('a) - snd subnet) = 0
     \<and> unat (snd ends) + 1 = unat (fst subnet) + 2 ^ (LENGTH('a) - snd subnet)"

lemma subnets_outside:
  assumes "list_all2 row subnets ranges"
  shows "list_ex (\<lambda>(n, p). in_subnet n p a) subnets \<longleftrightarrow> \<not> outside ranges a"
  using assms
proof (induction rule: list_all2_induct)
  case (Cons s ss r rs)
  have "in_subnet (fst s) (snd s) a \<longleftrightarrow> fst r \<le> a \<and> a \<le> snd r"
    using Cons.hyps(1) in_subnet_interval[of "snd s" "fst s" "snd r" a] by (auto simp: row_def mod_eq_0_iff_dvd)
  with Cons.IH show ?case by (auto simp: outside_def split_beta not_le not_less)
qed (simp add: outside_def)

lemma v4_rows: "list_all2 row NON_PUBLIC_V4 ranges_v4"
  by (simp add: NON_PUBLIC_V4_def ranges_v4_def row_def quad_def)

lemma pad_zeros: "foldl (\<lambda>acc g. acc * 65536 + g) n (replicate k 0) = n * 65536 ^ k" for n :: nat
  by (induction k arbitrary: n) simp_all

lemma pad_ones: "foldl (\<lambda>acc g. acc * 65536 + g) n (replicate k 0xFFFF) = (n + 1) * 65536 ^ k - 1" for n :: nat
  by (induction k arbitrary: n) (simp_all add: algebra_simps)

lemmas group_values = net6_def upto6_def groups_word_def pad_zeros pad_ones

lemma v6_rows: "list_all2 row NON_PUBLIC_V6 ranges_v6"
  by (simp add: NON_PUBLIC_V6_def ranges_v6_def row_def group_values)

text \<open>A mapped address lies outside every range of the other family.\<close>

lemma unat_mapped: "unat (mapped a) = 0xFFFF00000000 + unat a"
proof -
  have p: "(0xFFFF00000000 :: 128 word) = push_bit 32 0xFFFF" by (simp add: push_bit_eq_mult)
  have d: "push_bit 32 c AND ucast a = 0" for c :: "128 word"
    by (rule bit_word_eqI) (auto simp: bit_simps dest: bit_imp_le_length)
  have "0xFFFF00000000 AND ucast a = (0 :: 128 word)" unfolding p by (rule d)
  then have "mapped a = 0xFFFF00000000 + ucast a" unfolding mapped_def by (rule disjunctive_add_eq_or[symmetric])
  moreover have l: "unat a < 2 ^ 32" using unsigned_less[of a] by simp
  moreover from l have "unat (ucast a :: 128 word) = unat a" by (simp add: unsigned_ucast_eq take_bit_eq_mod)
  ultimately show ?thesis by (simp add: unat_word_ariths)
qed

lemma mapped_outside: "outside ranges_v6 (mapped a)"
proof -
  have "list_all (\<lambda>(first, final). unat final < 0xFFFF00000000 \<or> 0xFFFFFFFFFFFF < unat first) ranges_v6"
    by (simp add: ranges_v6_def group_values)
  moreover have "unat a < 2 ^ 32" using unsigned_less[of a] by simp
  ultimately show ?thesis
    unfolding outside_def word_less_nat_alt unat_mapped by (auto simp: list_all_iff)
qed

lemma mapped_v4_Some: "mapped_v4 a = Some b \<longleftrightarrow> a = mapped b"
proof
  assume "mapped_v4 a = Some b"
  then have d: "drop_bit 32 a = 0xFFFF" and b: "b = ucast a" by (simp_all add: mapped_v4_def split: if_splits)
  from d have "unat (drop_bit 32 a) = unat (0xFFFF :: 128 word)" by (rule arg_cong)
  then have "drop_bit 32 (unat a) = 0xFFFF" by (simp only: unat_drop_bit_eq) simp
  then have "unat a div 2 ^ 32 = 0xFFFF" by (simp only: drop_bit_eq_div)
  moreover from b have "unat b = unat a mod 2 ^ 32" by (simp add: unsigned_ucast_eq take_bit_eq_mod)
  ultimately have "unat a = 0xFFFF * 2 ^ 32 + unat b" by (metis div_mult_mod_eq)
  then have "unat a = unat (mapped b)" unfolding unat_mapped by simp
  then show "a = mapped b" by (rule word_unat_eq_iff[THEN iffD2])
next
  assume a: "a = mapped b"
  have b: "unat b < 2 ^ 32" using unsigned_less[of b] by simp
  then have "drop_bit 32 (unat (mapped b)) = 0xFFFF" by (simp add: drop_bit_eq_div unat_mapped)
  then have "unat (drop_bit 32 (mapped b)) = unat (0xFFFF :: 128 word)" by (simp only: unat_drop_bit_eq) simp
  then have "drop_bit 32 (mapped b) = 0xFFFF" by (rule word_unat_eq_iff[THEN iffD2])
  moreover have "(281470681743360 + n) mod 4294967296 = n" if "n < 4294967296" for n :: nat
    using mod_mult_self3[of 65535 4294967296 n] that by simp
  then have "unat (ucast (mapped b) :: 32 word) = unat b"
    using b by (simp add: unsigned_ucast_eq take_bit_eq_mod unat_mapped)
  then have "ucast (mapped b) = b" by (rule word_unat_eq_iff[THEN iffD2])
  ultimately show "mapped_v4 a = Some b" unfolding a mapped_v4_def by simp
qed

text \<open>
  Addresses of the form \<open>::a.b.c.d\<close>, which embed an IPv4 address like the mapped ones, and the
  documentation range \<open>3fff::/20\<close> are in no range.
\<close>

lemmas parse_defs = parse_address_def parse_v4_def parse_v6_def zone_ok_def v6_body_def v6_side_def hex_group_def
  hex_value_def is_digit_def octet_def quad_def group_values

lemma address_ranges:
  "isPublicAddress s =
     (case parse_address s of
        None \<Rightarrow> False
      | Some (V4 a) \<Rightarrow> outside ranges_v4 a
      | Some (V6 a) \<Rightarrow> outside ranges_v6 a \<and> (case mapped_v4 a of None \<Rightarrow> True | Some b \<Rightarrow> outside ranges_v4 b))"
  using subnets_outside[OF v4_rows] subnets_outside[OF v6_rows] mapped_outside
  by (auto simp: isPublicAddress_def split: option.splits ip_address.splits)

lemma embedded_loopback_public: "isPublicAddress ''::127.0.0.1''"
proof -
  have "parse_address ''::127.0.0.1'' = Some (V6 0x7F000001)" by (simp add: parse_defs)
  then show ?thesis by (simp add: address_ranges mapped_v4_def outside_def ranges_v6_def group_values)
qed

lemma documentation_range_public: "isPublicAddress ''3fff::1''"
proof -
  have "parse_address ''3fff::1'' = Some (V6 (net6 [0x3FFF] + 1))" by (simp add: parse_defs)
  then show ?thesis by (simp add: address_ranges mapped_v4_def outside_def ranges_v6_def group_values)
qed

text \<open>
  C13: an address is public exactly when its text is an IP address that lies outside every range
  of its family; an IPv6 address that maps an IPv4 one must also map one outside the IPv4 ranges.
\<close>

theorem public_address_ranges:
  "isPublicAddress s =
     (case parse_address s of
        None \<Rightarrow> False
      | Some (V4 a) \<Rightarrow> outside ranges_v4 a
      | Some (V6 a) \<Rightarrow> outside ranges_v6 a \<and> (case mapped_v4 a of None \<Rightarrow> True | Some b \<Rightarrow> outside ranges_v4 b))"
  by (rule address_ranges)

section \<open>Endpoints\<close>

lemma checkEndpointUrl_Inr:
  "checkEndpointUrl parse value = Inr url \<longleftrightarrow>
     (\<exists>s. value = Some (JStr s) \<and> length s \<le> MAX_ENDPOINT_URL_LENGTH \<and> parse s = Some url)
     \<and> u_protocol url = ''https:'' \<and> u_username url = [] \<and> u_password url = [] \<and> u_hash url = []
     \<and> \<not> starts_with (to_lower (u_hostname url)) ''['' \<and> parse_address (to_lower (u_hostname url)) = None
     \<and> CHR ''.'' \<in> set (bare_host (to_lower (u_hostname url)))
     \<and> bare_host (to_lower (u_hostname url)) \<noteq> ''localhost''
     \<and> \<not> ends_with (bare_host (to_lower (u_hostname url))) ''.localhost''"
  by (auto simp: checkEndpointUrl_def Let_def split: option.splits json.splits if_splits)

lemma resolvePublic_Inr:
  "resolvePublicEndpointAddresses lookup url = Inr addresses \<longleftrightarrow>
     lookup (u_hostname url) = Inr addresses \<and> addresses \<noteq> [] \<and> (\<forall>a\<in>set addresses. isPublicAddress (rs_address a))"
  by (auto simp: resolvePublicEndpointAddresses_def Let_def filter_empty_conv split: sum.splits)

end
