(* ===== verification/External_Release.thy ===== *)
theory External_Release
  imports Connector_SDK Endpoint_Properties
begin

text \<open>
  The release to an external connector:
  \<open>packages/execution-gateway/src/connector-execution/GatewayExternalAdapter.ts\<close> and
  \<open>ExternalConnectorAwareRegistry.ts\<close>, as \<open>packages/api/src/bootstrap/createConnectorRegistry.ts\<close> joins
  them with the repository of registrations.

  Parameters: the URL parser, the resolver, the signer, the transport, the JSON parser and the
  printed form of a number.
\<close>

section \<open>The adapter\<close>

definition EXTERNAL_RELEASE_TTL_MS :: int where
  "EXTERNAL_RELEASE_TTL_MS = 60000"

definition EXTERNAL_ANSWER_MAX_BYTES :: nat where
  "EXTERNAL_ANSWER_MAX_BYTES = 64 * 1024"

definition EXTERNAL_RESULT_MAX_BYTES :: nat where
  "EXTERNAL_RESULT_MAX_BYTES = 16 * 1024"

record external_target =
  et_capability :: string
  et_endpointUrl :: string
  et_allowedParameters :: "string list"
  et_timeoutMs :: int

record external_release =
  er_version :: nat
  er_connectorId :: string
  er_audience :: string
  er_businessTransactionId :: string
  er_authorizationId :: string
  er_capability :: string
  er_target :: string
  er_parameters :: jsobject
  er_policyName :: string
  er_policyVersion :: string
  er_policyContentHash :: "string option"
  er_approvedBy :: "release_approval list"
  er_issuedAt :: int
  er_expiresAt :: int

record signed_release =
  sl_release :: external_release
  sl_algorithm :: string
  sl_keyId :: string
  sl_value :: string

record transport_request =
  tr_url :: url
  tr_addresses :: "resolved_address list"
  tr_body :: signed_release
  tr_timeoutMs :: int

record transport_response =
  ts_status :: nat
  ts_body :: string

record 'w external_options =
  eo_target :: external_target
  eo_sign :: "string \<Rightarrow> external_release \<Rightarrow> (string, string \<times> string) result"  \<comment> \<open>the value and the algorithm\<close>
  eo_keyId :: "string option"
  eo_lookup :: address_lookup
  eo_transport :: "transport_request \<Rightarrow> 'w \<Rightarrow> (string, transport_response) result \<times> 'w"
  eo_now :: int
  eo_parseJson :: "string \<Rightarrow> json option"
  eo_numString :: "jsnum \<Rightarrow> string"
  eo_isoString :: "int \<Rightarrow> string"

record 'w external_adapter =
  ea_options :: "'w external_options"
  ea_url :: url
  ea_connectorId :: string
  ea_capabilities :: "string list"
  ea_keyId :: string

definition EXTERNAL_DEFAULT_KEY_ID :: string where
  "EXTERNAL_DEFAULT_KEY_ID = ''default''"

definition GatewayExternalAdapter_create ::
  "url_parse \<Rightarrow> 'w external_options \<Rightarrow> (string, 'w external_adapter) result" where
  "GatewayExternalAdapter_create parse opts =
     (case checkEndpointUrl parse (Some (JStr (et_endpointUrl (eo_target opts)))) of
        Inl _ \<Rightarrow> Inl ''External connector has an endpoint Parmana will not release to''
      | Inr url \<Rightarrow>
          (case connectorCapabilities [et_capability (eo_target opts)] of
             Inl e \<Rightarrow> Inl e
           | Inr capabilities \<Rightarrow>
               Inr \<lparr>ea_options = opts, ea_url = url, ea_connectorId = ''ext-'' @ et_capability (eo_target opts),
                 ea_capabilities = capabilities,
                 ea_keyId = (case eo_keyId opts of Some k \<Rightarrow> k | None \<Rightarrow> EXTERNAL_DEFAULT_KEY_ID)\<rparr>))"

definition release_body ::
  "'w external_adapter \<Rightarrow> sdk_request \<Rightarrow> release_context \<Rightarrow> external_release" where
  "release_body a request release =
     \<lparr>er_version = 1, er_connectorId = ea_connectorId a, er_audience = u_href (ea_url a),
      er_businessTransactionId = sr_businessTransactionId request,
      er_authorizationId = rx_authorizationId release, er_capability = sr_capability request,
      er_target = sr_target request, er_parameters = sr_parameters request,
      er_policyName = rx_policyName release, er_policyVersion = rx_policyVersion release,
      er_policyContentHash = rx_policyContentHash release, er_approvedBy = rx_approvals release,
      er_issuedAt = eo_now (ea_options a), er_expiresAt = eo_now (ea_options a) + EXTERNAL_RELEASE_TTL_MS\<rparr>"

definition GatewayExternalAdapter_sign ::
  "'w external_adapter \<Rightarrow> sdk_request \<Rightarrow> release_context \<Rightarrow> (string, signed_release) result" where
  "GatewayExternalAdapter_sign a request release =
     (case eo_sign (ea_options a) (ea_keyId a) (release_body a request release) of
        Inl e \<Rightarrow> Inl e
      | Inr (value, algorithm) \<Rightarrow>
          Inr \<lparr>sl_release = release_body a request release, sl_algorithm = algorithm, sl_keyId = ea_keyId a,
               sl_value = value\<rparr>)"

fun isPlainObject :: "json option \<Rightarrow> bool" where
  "isPlainObject (Some (JObj _)) = True"
| "isPlainObject _ = False"

text \<open>The bytes of a text in UTF-8.\<close>

definition utf8_length :: "string \<Rightarrow> nat" where
  "utf8_length s = sum_list (map (\<lambda>c. if (of_char c :: nat) < 128 then 1 else 2) s)"

definition answer_problems :: "(jsnum \<Rightarrow> string) \<Rightarrow> sdk_request \<Rightarrow> json \<Rightarrow> string list" where
  "answer_problems nstr request body =
     (if get_prop body ''businessTransactionId'' \<noteq> Some (JStr (sr_businessTransactionId request))
        then [''businessTransactionId does not match the release''] else [])
     @ (if get_prop body ''capability'' \<noteq> Some (JStr (sr_capability request))
        then [''capability does not match the release''] else [])
     @ (case get_prop body ''success'' of Some (JBool _) \<Rightarrow> [] | _ \<Rightarrow> [''success is not a boolean''])
     @ (case get_prop body ''result'' of
          Some (JObj kvs) \<Rightarrow>
            if utf8_length (json_stringify nstr (JObj kvs)) > EXTERNAL_RESULT_MAX_BYTES
            then [''result is larger than 16384 bytes''] else []
        | _ \<Rightarrow> [''result is not an object''])
     @ (case get_prop body ''executedAt'' of
          None \<Rightarrow> [] | Some (JStr _) \<Rightarrow> [] | _ \<Rightarrow> [''executedAt is not a string''])"

definition accepted_metadata :: "(int \<Rightarrow> string) \<Rightarrow> signed_release \<Rightarrow> json \<Rightarrow> jsobject" where
  "accepted_metadata isoString sent body =
     [(''endpointUrl'', JStr (er_audience (sl_release sent))),
      (''releaseIssuedAt'', JStr (isoString (er_issuedAt (sl_release sent))))]
     @ (case get_prop body ''result'' of Some r \<Rightarrow> [(''result'', r)] | None \<Rightarrow> [])
     @ (case get_prop body ''executedAt'' of Some (JStr t) \<Rightarrow> [(''executedAt'', JStr t)] | _ \<Rightarrow> [])
     @ (case get_prop body ''signature'' of Some (JObj s) \<Rightarrow> [(''endpointSignature'', JObj s)] | _ \<Rightarrow> [])"

definition GatewayExternalAdapter_acceptAnswer ::
  "'w external_options \<Rightarrow> sdk_request \<Rightarrow> signed_release \<Rightarrow> transport_response \<Rightarrow> (string, sdk_response) result" where
  "GatewayExternalAdapter_acceptAnswer opts request sent answer =
     (if ts_status answer \<noteq> 200 then Inl ''only 200 is accepted''
      else case eo_parseJson opts (ts_body answer) of
        None \<Rightarrow> Inl ''a body that is not JSON''
      | Some body \<Rightarrow>
          if \<not> isPlainObject (Some body) then Inl ''JSON that is not an object''
          else let problems = answer_problems (eo_numString opts) request body in
            if problems \<noteq> [] then Inl (join_comma_space problems)
            else Inr \<lparr>sp_success = (get_prop body ''success'' = Some (JBool True)),
                      sp_metadata = Some (accepted_metadata (eo_isoString opts) sent body)\<rparr>)"

definition disallowed_parameters :: "external_target \<Rightarrow> jsobject \<Rightarrow> string list" where
  "disallowed_parameters target parameters =
     filter (\<lambda>name. name \<notin> set (et_allowedParameters target)) (obj_keys parameters)"

text \<open>Nothing reaches the transport before the four checks and the signature.\<close>

definition GatewayExternalAdapter_execute ::
  "'w external_adapter \<Rightarrow> sdk_request \<Rightarrow> 'v execution_context \<Rightarrow> 'w \<Rightarrow> (string, sdk_response) result \<times> 'w" where
  "GatewayExternalAdapter_execute a request context w =
     (let opts = ea_options a; target = eo_target opts in
      if sr_capability request \<noteq> et_capability target
      then (Inl (''does not declare capability '' @ sr_capability request), w)
      else case xc_release context of
        None \<Rightarrow> (Inl ''refuses a request with no signed authorization behind it'', w)
      | Some release \<Rightarrow>
          let disallowed = disallowed_parameters target (sr_parameters request) in
          if disallowed \<noteq> [] then (Inl (''refuses to forward parameters '' @ join_comma_space disallowed), w)
          else (case resolvePublicEndpointAddresses (eo_lookup opts) (ea_url a) of
            Inl _ \<Rightarrow> (Inl ''refuses to release'', w)
          | Inr addresses \<Rightarrow>
              (case GatewayExternalAdapter_sign a request release of
                 Inl e \<Rightarrow> (Inl e, w)
               | Inr sent \<Rightarrow>
                   (case eo_transport opts
                           \<lparr>tr_url = ea_url a, tr_addresses = addresses, tr_body = sent,
                            tr_timeoutMs = min (xc_timeoutMs context) (et_timeoutMs target)\<rparr> w of
                      (Inl e, w') \<Rightarrow> (Inl e, w')
                    | (Inr answer, w') \<Rightarrow> (GatewayExternalAdapter_acceptAnswer opts request sent answer, w')))))"

text \<open>The adapter as a connector of the SDK.\<close>

definition adapter_connector :: "'w external_adapter \<Rightarrow> ('v, 'w) connector" where
  "adapter_connector a =
     \<lparr>cn_connectorId = ea_connectorId a, cn_capabilities = ea_capabilities a,
      cn_execute = GatewayExternalAdapter_execute a\<rparr>"

section \<open>The pinned transport\<close>

text \<open>
  What happens on a connection, in order; a chunk is its bytes.  \<open>finish\<close> settles the promise once:
  the first outcome stays.
\<close>

datatype transport_event =
  Data_Chunk string | Response_End | Response_Error string | Request_Error string | Timed_Out

record exchange =
  ex_size :: nat
  ex_chunks :: "string list"
  ex_outcome :: "(string, transport_response) result option"

definition exchange_finish :: "(string, transport_response) result \<Rightarrow> exchange \<Rightarrow> exchange" where
  "exchange_finish r x = (case ex_outcome x of Some _ \<Rightarrow> x | None \<Rightarrow> x\<lparr>ex_outcome := Some r\<rparr>)"

fun exchange_event :: "(string \<Rightarrow> string) \<Rightarrow> nat \<Rightarrow> nat \<Rightarrow> exchange \<Rightarrow> transport_event \<Rightarrow> exchange" where
  "exchange_event decode maxBytes status x (Data_Chunk chunk) =
     (let x' = x\<lparr>ex_size := ex_size x + length chunk\<rparr> in
      if ex_size x' > maxBytes then exchange_finish (Inl ''answer is larger'') x'
      else x'\<lparr>ex_chunks := ex_chunks x' @ [chunk]\<rparr>)"
| "exchange_event decode maxBytes status x Response_End =
     exchange_finish (Inr \<lparr>ts_status = status, ts_body = decode (concat (ex_chunks x))\<rparr>) x"
| "exchange_event decode maxBytes status x (Response_Error e) = exchange_finish (Inl e) x"
| "exchange_event decode maxBytes status x (Request_Error e) = exchange_finish (Inl e) x"
| "exchange_event decode maxBytes status x Timed_Out = exchange_finish (Inl ''did not answer'') x"

definition run_exchange ::
  "(string \<Rightarrow> string) \<Rightarrow> nat \<Rightarrow> nat \<Rightarrow> transport_event list \<Rightarrow> (string, transport_response) result option" where
  "run_exchange decode maxBytes status events =
     ex_outcome (foldl (exchange_event decode maxBytes status) \<lparr>ex_size = 0, ex_chunks = [], ex_outcome = None\<rparr> events)"

record connect_options =
  cp_hostname :: string
  cp_address :: string
  cp_family :: nat

text \<open>
  The transport connects to the first address; the host name goes into the header and the TLS
  server name.  \<open>wire\<close> is the network: the status and the events of the connection up to the time
  of the timer, which comes last.
\<close>

definition pinned_transport ::
  "(string \<Rightarrow> string) \<Rightarrow> nat option
   \<Rightarrow> (connect_options \<Rightarrow> signed_release \<Rightarrow> int \<Rightarrow> 'w \<Rightarrow> (nat \<times> transport_event list) \<times> 'w)
   \<Rightarrow> transport_request \<Rightarrow> 'w \<Rightarrow> (string, transport_response) result \<times> 'w" where
  "pinned_transport decode maxResponseBytes wire request w =
     (let maxBytes = (case maxResponseBytes of Some n \<Rightarrow> n | None \<Rightarrow> EXTERNAL_ANSWER_MAX_BYTES) in
      case tr_addresses request of
        [] \<Rightarrow> (Inl ''No checked address to connect to.'', w)
      | pinned # _ \<Rightarrow>
          (case wire \<lparr>cp_hostname = u_hostname (tr_url request), cp_address = rs_address pinned,
                      cp_family = rs_family pinned\<rparr> (tr_body request) (tr_timeoutMs request) w of
             ((status, events), w') \<Rightarrow>
               (case run_exchange decode maxBytes status (events @ [Timed_Out]) of
                  Some r \<Rightarrow> (r, w') | None \<Rightarrow> (Inl ''pending'', w'))))"

section \<open>The registry with external connectors\<close>

text \<open>
  A built-in connector first; then the active registration of the capability, whose connector is
  built once and kept under the registration's id.
\<close>

record ('cred, 'w) aware_registry =
  aw_builtIn :: "string \<Rightarrow> (control_error, ('cred, 'w) secure_connector) result"
  aw_get :: "string \<Rightarrow> (control_error, ('cred, 'w) secure_connector) result"
  aw_build :: "connector_registration \<Rightarrow> (control_error, ('cred, 'w) secure_connector) result"
  aw_built :: "(string \<times> ('cred, 'w) secure_connector) list"

definition ExternalConnectorAwareRegistry_get ::
  "('cred, 'w) aware_registry \<Rightarrow> string \<Rightarrow> (control_error, ('cred, 'w) secure_connector) result" where
  "ExternalConnectorAwareRegistry_get r name =
     (case aw_get r name of
        Inr c \<Rightarrow> Inr c
      | Inl e \<Rightarrow>
          (case find (\<lambda>c. sc_connectorId c = name) (map snd (aw_built r)) of Some c \<Rightarrow> Inr c | None \<Rightarrow> Inl e))"

definition ExternalConnectorAwareRegistry_resolveCapability ::
  "(string \<Rightarrow> (control_error, connector_registration option) result) \<Rightarrow> string \<Rightarrow> ('cred, 'w) aware_registry
   \<Rightarrow> (control_error, ('cred, 'w) secure_connector) result \<times> ('cred, 'w) aware_registry" where
  "ExternalConnectorAwareRegistry_resolveCapability findActive capability r =
     (case aw_builtIn r capability of
        Inr c \<Rightarrow> (Inr c, r)
      | Inl (ConnectorNotRegistered _) \<Rightarrow>
          (case findActive capability of
             Inl e \<Rightarrow> (Inl e, r)
           | Inr None \<Rightarrow> (Inl (ConnectorNotRegistered capability), r)
           | Inr (Some registration) \<Rightarrow>
               if cr_capability registration \<noteq> capability then (Inl (ConnectorNotRegistered capability), r)
               else (case map_of (aw_built r) (cr_id registration) of
                 Some c \<Rightarrow> (Inr c, r)
               | None \<Rightarrow>
                   (case aw_build r registration of
                      Inl e \<Rightarrow> (Inl e, r)
                    | Inr c \<Rightarrow> (Inr c, r\<lparr>aw_built := map_set (cr_id registration) c (aw_built r)\<rparr>))))
      | Inl e \<Rightarrow> (Inl e, r))"

text \<open>
  How the server builds one: the adapter for the registration's target, its identity, an empty
  credential and the default connector policy.
\<close>

definition target_of :: "connector_registration \<Rightarrow> external_target" where
  "target_of r =
     \<lparr>et_capability = cr_capability r, et_endpointUrl = cr_endpointUrl r,
      et_allowedParameters = cr_allowedParameters r, et_timeoutMs = cr_timeoutMs r\<rparr>"

definition build_external ::
  "url_parse \<Rightarrow> 'w external_options \<Rightarrow> ('a, 'v credential, 'w) connector_options \<Rightarrow> ('v, 'w) sdk_options
   \<Rightarrow> connector_registration \<Rightarrow> (control_error, ('v credential, 'w) secure_connector) result" where
  "build_external parse defaults base sdk registration =
     (case GatewayExternalAdapter_create parse (defaults\<lparr>eo_target := target_of registration\<rparr>) of
        Inl e \<Rightarrow> Inl (ExecutorThrew e)
      | Inr adapter \<Rightarrow>
          let identity = externalConnectorIdentity (cr_capability registration) in
          Inr (with_capability_policy (base\<lparr>co_identity := identity\<rparr>) (buildSecureConnector (base\<lparr>co_identity := identity\<rparr>)
            (sdk\<lparr>so_connector := adapter_connector adapter,
                 so_metadata := \<lparr>cm_connectorId = ci_connectorId identity,
                   cm_version = \<lparr>cv_major = 1, cv_minor = 0, cv_patch = 0\<rparr>, cm_health = Healthy\<rparr>,
                 so_timeoutMs := Some (cr_timeoutMs registration)\<rparr>))))"

end
