(* ===== verification/Change_Properties.thy ===== *)
theory Change_Properties
  imports Change_Routes
begin

text \<open>
  Approvers and external connectors under every interleaving: as for policies, whatever requests do
  is a sequence of primitive actions, and those keep that each key and each registration goes back
  to a change of one human that another, stepped up for it, approved.
\<close>

section \<open>Changes and what they make\<close>

definition same_issuer_change :: "issuer_change \<Rightarrow> issuer_change \<Rightarrow> bool" where
  "same_issuer_change c d \<longleftrightarrow> ic_id d = ic_id c \<and> ic_action d = ic_action c \<and> ic_approverId d = ic_approverId c
     \<and> ic_keyId d = ic_keyId c \<and> ic_publicKeyPem d = ic_publicKeyPem c \<and> ic_proposedBy d = ic_proposedBy c"

definition same_connector_change :: "connector_change \<Rightarrow> connector_change \<Rightarrow> bool" where
  "same_connector_change c d \<longleftrightarrow> cc_id d = cc_id c \<and> cc_action d = cc_action c \<and> cc_capability d = cc_capability c
     \<and> cc_endpointUrl d = cc_endpointUrl c \<and> cc_policy d = cc_policy c
     \<and> cc_allowedParameters d = cc_allowedParameters c \<and> cc_timeoutMs d = cc_timeoutMs c
     \<and> cc_proposedBy d = cc_proposedBy c"

lemma same_change_refl [simp]: "same_issuer_change c c" "same_connector_change x x"
  by (simp_all add: same_issuer_change_def same_connector_change_def)

lemma same_issuer_trans: "same_issuer_change a b \<Longrightarrow> same_issuer_change b c \<Longrightarrow> same_issuer_change a c"
  by (simp add: same_issuer_change_def)

lemma same_connector_trans: "same_connector_change a b \<Longrightarrow> same_connector_change b c \<Longrightarrow> same_connector_change a c"
  by (simp add: same_connector_change_def)

text \<open>Another human than the proposer, stepped up for the approval of this change.\<close>

definition checked_by :: "'key step_up_config \<Rightarrow> string \<Rightarrow> string \<Rightarrow> string \<Rightarrow> bool" where
  "checked_by g i proposer who \<longleftrightarrow> who \<noteq> proposer
     \<and> (\<exists>req now a. gc_callerId req = Some who \<and> isHumanCaller (gc_holder req)
          \<and> stepped_up g req i Approve_Change now a)"

definition well_formed_issuer :: "'key change_config \<Rightarrow> issuer_change \<Rightarrow> bool" where
  "well_formed_issuer k c \<longleftrightarrow> VALID_ID (ic_approverId c) \<and> VALID_ID (ic_keyId c)
     \<and> ck_code k (ic_approverId c) (ic_keyId c) = None
     \<and> (ic_action c = Add_Issuer \<longrightarrow>
          (\<exists>pem s key. ic_publicKeyPem c = Some pem \<and> ck_pem k s = Some (''ed25519'', key, pem)))"

definition well_formed_connector :: "'key change_config \<Rightarrow> connector_change \<Rightarrow> bool" where
  "well_formed_connector k c \<longleftrightarrow> isNamespacedCapability (cc_capability c)
     \<and> namespaceOf (cc_capability c) \<notin> set BUILT_IN_CAPABILITY_NAMESPACES
     \<and> (cc_action c = Register_Connector \<longrightarrow>
          (\<exists>value url policy names timeout. checkEndpointUrl (ck_url k) value = Inr url
             \<and> cc_endpointUrl c = Some (u_href url) \<and> cc_policy c = Some policy \<and> POLICY_NAME policy
             \<and> cc_allowedParameters c = Some names \<and> list_all PARAMETER_NAME names \<and> distinct names
             \<and> length names \<le> MAX_ALLOWED_PARAMETERS
             \<and> cc_timeoutMs c = Some timeout \<and> MIN_TIMEOUT_MS \<le> timeout \<and> timeout \<le> MAX_TIMEOUT_MS))"

lemma well_formed_same:
  "well_formed_issuer k c \<Longrightarrow> same_issuer_change c d \<Longrightarrow> well_formed_issuer k d"
  "well_formed_connector k x \<Longrightarrow> same_connector_change x y \<Longrightarrow> well_formed_connector k y"
  by (simp_all add: well_formed_issuer_def same_issuer_change_def well_formed_connector_def same_connector_change_def)

definition adds_key :: "approver_record \<Rightarrow> issuer_change \<Rightarrow> bool" where
  "adds_key r c \<longleftrightarrow> ic_action c = Add_Issuer \<and> ir_addedByChangeId r = ic_id c \<and> ir_approverId r = ic_approverId c
     \<and> ir_keyId r = ic_keyId c \<and> ic_publicKeyPem c = Some (ir_publicKeyPem r)"

definition same_key :: "approver_record \<Rightarrow> approver_record \<Rightarrow> bool" where
  "same_key r q \<longleftrightarrow> ir_addedByChangeId q = ir_addedByChangeId r \<and> ir_approverId q = ir_approverId r
     \<and> ir_keyId q = ir_keyId r \<and> ir_publicKeyPem q = ir_publicKeyPem r"

definition makes_registration :: "connector_registration \<Rightarrow> connector_change \<Rightarrow> bool" where
  "makes_registration r c \<longleftrightarrow> cc_action c = Register_Connector \<and> cr_id r = cc_id c \<and> cr_capability r = cc_capability c
     \<and> cc_endpointUrl c = Some (cr_endpointUrl r) \<and> cc_policy c = Some (cr_policy r)
     \<and> cc_allowedParameters c = Some (cr_allowedParameters r) \<and> cc_timeoutMs c = Some (cr_timeoutMs r)"

definition same_registration :: "connector_registration \<Rightarrow> connector_registration \<Rightarrow> bool" where
  "same_registration r q \<longleftrightarrow> cr_id q = cr_id r \<and> cr_capability q = cr_capability r \<and> cr_endpointUrl q = cr_endpointUrl r
     \<and> cr_policy q = cr_policy r \<and> cr_allowedParameters q = cr_allowedParameters r \<and> cr_timeoutMs q = cr_timeoutMs r"

text \<open>The endpoint has resolved to public addresses only.\<close>

definition public_endpoint :: "'key change_config \<Rightarrow> string \<Rightarrow> bool" where
  "public_endpoint k s \<longleftrightarrow> (\<exists>url lookup addresses. ck_url k s = Some url
     \<and> resolvePublicEndpointAddresses lookup url = Inr addresses)"

section \<open>Primitive actions\<close>

inductive change_prim :: "'key change_config \<Rightarrow> change_world \<Rightarrow> change_world \<Rightarrow> bool" for k :: "'key change_config" where
  do_audit: "change_prim k w (w\<lparr>cw_audit := events\<rparr>)"
| do_nonce: "change_prim k w (w\<lparr>cw_nonces :=
     snd (MemoryNonceStore_checkAndRecord (sg_dp (ck_stepUp k)) t n x (cw_nonces w))\<rparr>)"
| do_propose_issuer: "well_formed_issuer k c \<Longrightarrow> map_of (is_changes (cw_issuers w)) (ic_id c) = None \<Longrightarrow>
     change_prim k w (w\<lparr>cw_issuers := (cw_issuers w)\<lparr>is_changes := map_set (ic_id c) c (is_changes (cw_issuers w))\<rparr>\<rparr>)"
| do_resolve_issuer: "map_of (is_changes (cw_issuers w)) i = Some d \<Longrightarrow> same_issuer_change d c \<Longrightarrow>
     change_prim k w (w\<lparr>cw_issuers := (cw_issuers w)\<lparr>is_changes := map_set i c (is_changes (cw_issuers w))\<rparr>\<rparr>)"
| do_add_issuer: "map_of (is_changes (cw_issuers w)) (ic_id c) = Some c \<Longrightarrow> adds_key r c \<Longrightarrow>
     checked_by (ck_stepUp k) (ic_id c) (ic_proposedBy c) who \<Longrightarrow>
     map_of (is_issuers (cw_issuers w)) (issuerKey (ir_approverId r) (ir_keyId r)) = None \<Longrightarrow>
     change_prim k w (w\<lparr>cw_issuers := (cw_issuers w)\<lparr>is_issuers :=
       map_set (issuerKey (ir_approverId r) (ir_keyId r)) r (is_issuers (cw_issuers w))\<rparr>\<rparr>)"
| do_revoke_issuer: "map_of (is_issuers (cw_issuers w)) key = Some q \<Longrightarrow> same_key q r \<Longrightarrow> ir_revoked r \<Longrightarrow>
     change_prim k w (w\<lparr>cw_issuers := (cw_issuers w)\<lparr>is_issuers := map_set key r (is_issuers (cw_issuers w))\<rparr>\<rparr>)"
| do_propose_connector: "well_formed_connector k x \<Longrightarrow> map_of (xs_changes (cw_connectors w)) (cc_id x) = None \<Longrightarrow>
     change_prim k w (w\<lparr>cw_connectors := (cw_connectors w)\<lparr>xs_changes := map_set (cc_id x) x (xs_changes (cw_connectors w))\<rparr>\<rparr>)"
| do_resolve_connector: "map_of (xs_changes (cw_connectors w)) i = Some y \<Longrightarrow> same_connector_change y x \<Longrightarrow>
     change_prim k w (w\<lparr>cw_connectors := (cw_connectors w)\<lparr>xs_changes := map_set i x (xs_changes (cw_connectors w))\<rparr>\<rparr>)"
| do_register: "map_of (xs_changes (cw_connectors w)) (cc_id x) = Some x \<Longrightarrow> makes_registration g x \<Longrightarrow>
     checked_by (ck_stepUp k) (cc_id x) (cc_proposedBy x) who \<Longrightarrow> public_endpoint k (cr_endpointUrl g) \<Longrightarrow>
     change_prim k w (w\<lparr>cw_connectors := (cw_connectors w)\<lparr>xs_registrations :=
       map_set (cr_id g) g (xs_registrations (cw_connectors w))\<rparr>\<rparr>)"
| do_revoke: "map_of (xs_registrations (cw_connectors w)) i = Some h \<Longrightarrow> same_registration h g \<Longrightarrow>
     change_prim k w (w\<lparr>cw_connectors := (cw_connectors w)\<lparr>xs_registrations :=
       map_set i g (xs_registrations (cw_connectors w))\<rparr>\<rparr>)"

abbreviation change_prims :: "'key change_config \<Rightarrow> change_world \<Rightarrow> change_world \<Rightarrow> bool" where
  "change_prims k \<equiv> (change_prim k)\<^sup>*\<^sup>*"

section \<open>What the actions keep\<close>

lemma prim_keeps_changes:
  assumes "change_prim k w v"
  shows "map_of (is_changes (cw_issuers w)) i = Some c \<Longrightarrow>
      \<exists>d. map_of (is_changes (cw_issuers v)) i = Some d \<and> same_issuer_change c d"
    "map_of (xs_changes (cw_connectors w)) j = Some x \<Longrightarrow>
      \<exists>y. map_of (xs_changes (cw_connectors v)) j = Some y \<and> same_connector_change x y"
  using assms by (cases rule: change_prim.cases; auto)+

lemma prims_keep_issuer_change:
  assumes "change_prims k w v" "map_of (is_changes (cw_issuers w)) i = Some c"
  shows "\<exists>d. map_of (is_changes (cw_issuers v)) i = Some d \<and> same_issuer_change c d"
  using assms(1)
proof (induction rule: rtranclp_induct)
  case (step u v)
  with prim_keeps_changes(1)[OF step.hyps(2)] show ?case by (metis same_issuer_trans)
qed (use assms(2) in simp)

lemma prims_keep_connector_change:
  assumes "change_prims k w v" "map_of (xs_changes (cw_connectors w)) i = Some c"
  shows "\<exists>d. map_of (xs_changes (cw_connectors v)) i = Some d \<and> same_connector_change c d"
  using assms(1)
proof (induction rule: rtranclp_induct)
  case (step u v)
  with prim_keeps_changes(2)[OF step.hyps(2)] show ?case by (metis same_connector_trans)
qed (use assms(2) in simp)

lemma prims_keep_registration:
  assumes "change_prims k w v" "map_of (xs_registrations (cw_connectors w)) i = Some r"
  shows "\<exists>q. map_of (xs_registrations (cw_connectors v)) i = Some q"
  using assms(1)
proof (induction rule: rtranclp_induct)
  case (step u v)
  then obtain q where "map_of (xs_registrations (cw_connectors u)) i = Some q" by blast
  with step.hyps(2) show ?case by (cases rule: change_prim.cases) auto
qed (use assms(2) in simp)

definition issuer_origin :: "'key change_config \<Rightarrow> change_world \<Rightarrow> approver_record \<Rightarrow> bool" where
  "issuer_origin k w r \<longleftrightarrow> (\<exists>c who. map_of (is_changes (cw_issuers w)) (ic_id c) = Some c \<and> adds_key r c
     \<and> checked_by (ck_stepUp k) (ic_id c) (ic_proposedBy c) who)"

definition connector_origin :: "'key change_config \<Rightarrow> change_world \<Rightarrow> connector_registration \<Rightarrow> bool" where
  "connector_origin k w r \<longleftrightarrow> (\<exists>c who. map_of (xs_changes (cw_connectors w)) (cc_id c) = Some c \<and> makes_registration r c
     \<and> checked_by (ck_stepUp k) (cc_id c) (cc_proposedBy c) who \<and> public_endpoint k (cr_endpointUrl r))"

definition governed_issuers :: "'key change_config \<Rightarrow> change_world \<Rightarrow> bool" where
  "governed_issuers k w \<longleftrightarrow>
     (\<forall>i c. map_of (is_changes (cw_issuers w)) i = Some c \<longrightarrow> ic_id c = i \<and> well_formed_issuer k c)
     \<and> (\<forall>key r. map_of (is_issuers (cw_issuers w)) key = Some r \<longrightarrow>
          key = issuerKey (ir_approverId r) (ir_keyId r) \<and> issuer_origin k w r)"

definition governed_connectors :: "'key change_config \<Rightarrow> change_world \<Rightarrow> bool" where
  "governed_connectors k w \<longleftrightarrow>
     (\<forall>i c. map_of (xs_changes (cw_connectors w)) i = Some c \<longrightarrow> cc_id c = i \<and> well_formed_connector k c)
     \<and> (\<forall>i r. map_of (xs_registrations (cw_connectors w)) i = Some r \<longrightarrow> cr_id r = i \<and> connector_origin k w r)
     \<and> distinct (map fst (xs_registrations (cw_connectors w)))"

lemma origin_kept:
  assumes "change_prim k w v"
  shows "issuer_origin k w r \<Longrightarrow> issuer_origin k v r" "connector_origin k w q \<Longrightarrow> connector_origin k v q"
proof -
  assume "issuer_origin k w r"
  then obtain c who where c: "map_of (is_changes (cw_issuers w)) (ic_id c) = Some c" "adds_key r c"
     "checked_by (ck_stepUp k) (ic_id c) (ic_proposedBy c) who" by (auto simp: issuer_origin_def)
  from prim_keeps_changes(1)[OF assms c(1)] obtain d where
    "map_of (is_changes (cw_issuers v)) (ic_id c) = Some d" "same_issuer_change c d" by blast
  with c(2,3) show "issuer_origin k v r"
    unfolding issuer_origin_def by (intro exI[of _ d] exI[of _ who]) (simp add: same_issuer_change_def adds_key_def)
next
  assume "connector_origin k w q"
  then obtain c who where c: "map_of (xs_changes (cw_connectors w)) (cc_id c) = Some c" "makes_registration q c"
     "checked_by (ck_stepUp k) (cc_id c) (cc_proposedBy c) who" "public_endpoint k (cr_endpointUrl q)"
    by (auto simp: connector_origin_def)
  from prim_keeps_changes(2)[OF assms c(1)] obtain d where
    "map_of (xs_changes (cw_connectors v)) (cc_id c) = Some d" "same_connector_change c d" by blast
  with c(2-4) show "connector_origin k v q"
    unfolding connector_origin_def
    by (intro exI[of _ d] exI[of _ who]) (simp add: same_connector_change_def makes_registration_def)
qed

lemma origin_same:
  "issuer_origin k w r \<Longrightarrow> same_key r q \<Longrightarrow> issuer_origin k w q"
  "connector_origin k w g \<Longrightarrow> same_registration g h \<Longrightarrow> connector_origin k w h"
  unfolding issuer_origin_def connector_origin_def
  by (force simp: adds_key_def same_key_def makes_registration_def same_registration_def)+

lemma prim_governs_issuers:
  assumes "change_prim k w v" "governed_issuers k w"
  shows "governed_issuers k v"
  unfolding governed_issuers_def
proof (intro conjI allI impI)
  fix i c assume c: "map_of (is_changes (cw_issuers v)) i = Some c"
  have "(\<exists>d. map_of (is_changes (cw_issuers w)) i = Some d \<and> same_issuer_change d c) \<or> ic_id c = i \<and> well_formed_issuer k c"
    using assms(1) c by (cases rule: change_prim.cases) (auto split: if_splits)
  moreover have "ic_id d = i \<and> well_formed_issuer k d" if "map_of (is_changes (cw_issuers w)) i = Some d" for d
    using assms(2) that by (simp add: governed_issuers_def)
  ultimately have "ic_id c = i \<and> well_formed_issuer k c"
    using well_formed_same(1) by (metis same_issuer_change_def)
  then show "ic_id c = i" "well_formed_issuer k c" by simp_all
next
  fix key r assume r: "map_of (is_issuers (cw_issuers v)) key = Some r"
  have old: "x = issuerKey (ir_approverId y) (ir_keyId y) \<and> issuer_origin k w y"
    if "map_of (is_issuers (cw_issuers w)) x = Some y" for x y
    using assms(2) that by (simp add: governed_issuers_def)
  have "key = issuerKey (ir_approverId r) (ir_keyId r) \<and> issuer_origin k w r"
    using assms(1)
  proof cases
    case (do_add_issuer c r' who)
    then have "issuer_origin k w r'" unfolding issuer_origin_def by blast
    with do_add_issuer(1) r old show ?thesis by (simp split: if_splits)
  next
    case (do_revoke_issuer key' q r')
    with old[OF do_revoke_issuer(2)] have "key' = issuerKey (ir_approverId r') (ir_keyId r')" "issuer_origin k w r'"
      by (auto simp: same_key_def intro: origin_same(1))
    with do_revoke_issuer(1) r old show ?thesis by (simp split: if_splits)
  qed (use r old in simp_all)
  with origin_kept(1)[OF assms(1)] show "key = issuerKey (ir_approverId r) (ir_keyId r)" "issuer_origin k v r" by auto
qed

lemma prim_governs_connectors:
  assumes "change_prim k w v" "governed_connectors k w"
  shows "governed_connectors k v"
  unfolding governed_connectors_def
proof (intro conjI allI impI)
  fix i c assume c: "map_of (xs_changes (cw_connectors v)) i = Some c"
  have "(\<exists>d. map_of (xs_changes (cw_connectors w)) i = Some d \<and> same_connector_change d c) \<or> cc_id c = i \<and> well_formed_connector k c"
    using assms(1) c by (cases rule: change_prim.cases) (auto split: if_splits)
  moreover have "cc_id d = i \<and> well_formed_connector k d" if "map_of (xs_changes (cw_connectors w)) i = Some d" for d
    using assms(2) that by (simp add: governed_connectors_def)
  ultimately have "cc_id c = i \<and> well_formed_connector k c"
    using well_formed_same(2) by (metis same_connector_change_def)
  then show "cc_id c = i" "well_formed_connector k c" by simp_all
next
  fix i r assume r: "map_of (xs_registrations (cw_connectors v)) i = Some r"
  have old: "cr_id y = x \<and> connector_origin k w y"
    if "map_of (xs_registrations (cw_connectors w)) x = Some y" for x y
    using assms(2) that by (simp add: governed_connectors_def)
  have "cr_id r = i \<and> connector_origin k w r"
    using assms(1)
  proof cases
    case (do_register c r' who)
    then have "connector_origin k w r'" unfolding connector_origin_def by blast
    with do_register(1) r old show ?thesis by (simp split: if_splits)
  next
    case (do_revoke i' q r')
    with old[OF do_revoke(2)] have "cr_id r' = i'" "connector_origin k w r'"
      by (auto simp: same_registration_def intro: origin_same(2))
    with do_revoke(1) r old show ?thesis by (simp split: if_splits)
  qed (use r old in simp_all)
  with origin_kept(2)[OF assms(1)] show "cr_id r = i" "connector_origin k v r" by auto
next
  have "distinct (map fst (xs_registrations (cw_connectors w)))" using assms(2) by (simp add: governed_connectors_def)
  with assms(1) show "distinct (map fst (xs_registrations (cw_connectors v)))"
    by (cases rule: change_prim.cases) (simp_all add: distinct_map_set)
qed

lemma prims_govern:
  assumes "change_prims k w v"
  shows "governed_issuers k w \<Longrightarrow> governed_issuers k v" "governed_connectors k w \<Longrightarrow> governed_connectors k v"
  using assms by (induction rule: rtranclp_induct) (auto intro: prim_governs_issuers prim_governs_connectors)

lemma prims_same_registration:
  assumes "change_prims k w v" "governed_connectors k w" "map_of (xs_registrations (cw_connectors w)) i = Some r"
  obtains h where "map_of (xs_registrations (cw_connectors v)) i = Some h" "same_registration h r"
proof -
  from prims_keep_registration[OF assms(1,3)] obtain h where h: "map_of (xs_registrations (cw_connectors v)) i = Some h" by blast
  from assms(2,3) have r: "cr_id r = i" "connector_origin k w r" by (auto simp: governed_connectors_def)
  from prims_govern(2)[OF assms(1,2)] h have h': "cr_id h = i" "connector_origin k v h" by (auto simp: governed_connectors_def)
  from r obtain c where c: "map_of (xs_changes (cw_connectors w)) i = Some c" "makes_registration r c"
    by (auto simp: connector_origin_def makes_registration_def)
  from h' obtain d where d: "map_of (xs_changes (cw_connectors v)) i = Some d" "makes_registration h d"
    by (auto simp: connector_origin_def makes_registration_def)
  from prims_keep_connector_change[OF assms(1) c(1)] d(1) have "same_connector_change c d" by auto
  with c(2) d(2) have "same_registration h r"
    by (auto simp: makes_registration_def same_connector_change_def same_registration_def)
  with h that show thesis by blast
qed

text \<open>A revoked key stays in the store, revoked.\<close>

lemma prims_keep_revoked:
  assumes "change_prims k w v" "map_of (is_issuers (cw_issuers w)) key = Some r" "ir_revoked r"
  shows "\<exists>q. map_of (is_issuers (cw_issuers v)) key = Some q \<and> ir_revoked q"
  using assms(1)
proof (induction rule: rtranclp_induct)
  case (step u v)
  then obtain q where "map_of (is_issuers (cw_issuers u)) key = Some q" "ir_revoked q" by blast
  with step.hyps(2) show ?case by (cases rule: change_prim.cases) auto
qed (use assms(2,3) in simp)

section \<open>The routes as sequences of actions\<close>

definition change_interference :: "'key change_config \<Rightarrow> change_inputs \<Rightarrow> change_env \<Rightarrow> bool" where
  "change_interference k inputs env \<longleftrightarrow> (\<forall>n v. change_prims k v (env n v)
     \<and> (map_of (is_changes (cw_issuers v)) (ci_changeId inputs) = None \<longrightarrow>
          map_of (is_changes (cw_issuers (env n v))) (ci_changeId inputs) = None)
     \<and> (map_of (xs_changes (cw_connectors v)) (ci_changeId inputs) = None \<longrightarrow>
          map_of (xs_changes (cw_connectors (env n v))) (ci_changeId inputs) = None))"

lemma change_interferenceD:
  assumes "change_interference k inputs env"
  shows "change_prims k v (env n v)"
    "map_of (is_changes (cw_issuers v)) (ci_changeId inputs) = None \<Longrightarrow>
       map_of (is_changes (cw_issuers (env n v))) (ci_changeId inputs) = None"
    "map_of (xs_changes (cw_connectors v)) (ci_changeId inputs) = None \<Longrightarrow>
       map_of (xs_changes (cw_connectors (env n v))) (ci_changeId inputs) = None"
  using assms by (auto simp: change_interference_def)

lemma change_interference_none [simp]: "change_interference k inputs (\<lambda>n v. v)"
  by (simp add: change_interference_def)

lemma human_caller_cases:
  assumes "human_caller k inputs req what w = (q, v)"
  obtains events where "v = w\<lparr>cw_audit := events\<rparr>"
    "\<And>who. q = Inr who \<Longrightarrow> gc_callerId req = Some who \<and> isHumanCaller (gc_holder req)"
proof (cases "gc_callerId req")
  case None
  with assms have "v = w\<lparr>cw_audit := cw_audit w\<rparr>" "\<And>who. q \<noteq> Inr who" by (auto simp: human_caller_def)
  with that show thesis by blast
next
  case (Some who)
  obtain h events where h: "requireHumanCaller (ck_sink k) (ci_isoNow inputs) req (cw_audit w) = (h, events)"
    by (rule prod.exhaust)
  then have "h = Inr u \<Longrightarrow> isHumanCaller (gc_holder req)" for u using requireHuman_Inr by (metis fst_conv)
  with assms Some h have "v = w\<lparr>cw_audit := events\<rparr>" "\<And>x. q = Inr x \<Longrightarrow> x = who \<and> isHumanCaller (gc_holder req)"
    by (auto simp: human_caller_def split: sum.splits)
  with Some that show thesis by blast
qed

lemma human_prims:
  assumes "human_caller k inputs req what w = (q, v)"
  shows "change_prims k w v" "cw_issuers v = cw_issuers w" "cw_connectors v = cw_connectors w"
  using assms by (auto elim!: human_caller_cases intro: r_into_rtranclp do_audit)

lemma change_nonces:
  "change_prims k w (w\<lparr>cw_nonces := snd (requireStepUpAuthorization (ck_stepUp k)
     (MemoryNonceStore_checkAndRecord (sg_dp (ck_stepUp k))) req i action clock (cw_nonces w))\<rparr>)"
proof -
  let ?s = "snd (requireStepUpAuthorization (ck_stepUp k) (MemoryNonceStore_checkAndRecord (sg_dp (ck_stepUp k)))
     req i action clock (cw_nonces w))"
  have "w\<lparr>cw_nonces := cw_nonces w\<rparr> = w" by simp
  with stepUp_state[of "ck_stepUp k" "MemoryNonceStore_checkAndRecord (sg_dp (ck_stepUp k))" req i action clock "cw_nonces w"]
  show ?thesis using do_nonce[of k w] by (metis rtranclp.simps r_into_rtranclp)
qed

text \<open>A change that was loaded is in the store, is another's, and the caller has stepped up for it.\<close>

lemma issuer_load_prims:
  assumes "change_interference k inputs env" "issuer_load k inputs env req i action who w = (q, v)"
  shows "change_prims k w v"
    "q = Inr c \<Longrightarrow> map_of (is_changes (cw_issuers w)) i = Some c \<and> ic_proposedBy c \<noteq> who
       \<and> (\<exists>a. stepped_up (ck_stepUp k) req i action (fst (ci_stepUpClock inputs)) a)"
proof -
  let ?w1 = "env 1 w"
  let ?up = "requireStepUpAuthorization (ck_stepUp k) (MemoryNonceStore_checkAndRecord (sg_dp (ck_stepUp k))) req i action
     (ci_stepUpClock inputs) (cw_nonces ?w1)"
  have "v = ?w1 \<or> v = ?w1\<lparr>cw_nonces := snd ?up\<rparr>" using assms(2)
    by (auto simp: issuer_load_def Let_def split: option.splits if_splits sum.splits prod.splits)
  with change_interferenceD(1)[OF assms(1)] change_nonces[of k ?w1 req i action "ci_stepUpClock inputs"]
  show "change_prims k w v" by (metis rtranclp_trans)
  assume "q = Inr c"
  with assms(2) have c: "map_of (is_changes (cw_issuers w)) i = Some c" "ic_proposedBy c \<noteq> who" and up: "fst ?up = Inr ()"
    by (auto simp: issuer_load_def MemoryApprovalIssuers_findChange_def Let_def
        split: option.splits if_splits sum.splits prod.splits)
  from up obtain s where "?up = (Inr (), s)" by (metis prod.collapse)
  then obtain a where "stepped_up (ck_stepUp k) req i action (fst (ci_stepUpClock inputs)) a" by (rule stepUp_Inr)
  with c show "map_of (is_changes (cw_issuers w)) i = Some c \<and> ic_proposedBy c \<noteq> who
       \<and> (\<exists>a. stepped_up (ck_stepUp k) req i action (fst (ci_stepUpClock inputs)) a)" by blast
qed

lemma connector_load_prims:
  assumes "change_interference k inputs env" "connector_load k inputs env req i action who w = (q, v)"
  shows "change_prims k w v"
    "q = Inr c \<Longrightarrow> map_of (xs_changes (cw_connectors w)) i = Some c \<and> cc_proposedBy c \<noteq> who
       \<and> (\<exists>a. stepped_up (ck_stepUp k) req i action (fst (ci_stepUpClock inputs)) a)"
proof -
  let ?w1 = "env 1 w"
  let ?up = "requireStepUpAuthorization (ck_stepUp k) (MemoryNonceStore_checkAndRecord (sg_dp (ck_stepUp k))) req i action
     (ci_stepUpClock inputs) (cw_nonces ?w1)"
  have "v = ?w1 \<or> v = ?w1\<lparr>cw_nonces := snd ?up\<rparr>" using assms(2)
    by (auto simp: connector_load_def Let_def split: option.splits if_splits sum.splits prod.splits)
  with change_interferenceD(1)[OF assms(1)] change_nonces[of k ?w1 req i action "ci_stepUpClock inputs"]
  show "change_prims k w v" by (metis rtranclp_trans)
  assume "q = Inr c"
  with assms(2) have c: "map_of (xs_changes (cw_connectors w)) i = Some c" "cc_proposedBy c \<noteq> who" and up: "fst ?up = Inr ()"
    by (auto simp: connector_load_def MemoryExternalConnectors_findChange_def Let_def
        split: option.splits if_splits sum.splits prod.splits)
  from up obtain s where "?up = (Inr (), s)" by (metis prod.collapse)
  then obtain a where "stepped_up (ck_stepUp k) req i action (fst (ci_stepUpClock inputs)) a" by (rule stepUp_Inr)
  with c show "map_of (xs_changes (cw_connectors w)) i = Some c \<and> cc_proposedBy c \<noteq> who
       \<and> (\<exists>a. stepped_up (ck_stepUp k) req i action (fst (ci_stepUpClock inputs)) a)" by blast
qed

text \<open>What resolving does to the stores.\<close>

lemma issuer_pending_Inr:
  "MemoryApprovalIssuers_pending i s = Inr c \<longleftrightarrow> map_of (is_changes s) i = Some c \<and> ic_status c = PENDING_APPROVAL"
  by (auto simp: MemoryApprovalIssuers_pending_def split: option.splits)

lemma connector_pending_Inr:
  "MemoryExternalConnectors_pending i s = Inr c \<longleftrightarrow> map_of (xs_changes s) i = Some c \<and> cc_status c = PENDING_APPROVAL"
  by (auto simp: MemoryExternalConnectors_pending_def split: option.splits)

lemma issuer_reject_store:
  assumes "MemoryApprovalIssuers_rejectChange i who reason t s = (q, s')"
  shows "s' = s \<or> (\<exists>d c. map_of (is_changes s) i = Some d \<and> same_issuer_change d c
     \<and> s' = s\<lparr>is_changes := map_set i c (is_changes s)\<rparr>)"
proof (cases "MemoryApprovalIssuers_pending i s")
  case (Inl e)
  with assms show ?thesis by (simp add: MemoryApprovalIssuers_rejectChange_def)
next
  case (Inr d)
  let ?c = "d\<lparr>ic_status := CHANGE_REJECTED, ic_resolvedBy := Some who, ic_resolvedAt := Some t,
     ic_rejectionReason := Some reason\<rparr>"
  have "same_issuer_change d ?c" by (simp add: same_issuer_change_def)
  moreover have "s' = s\<lparr>is_changes := map_set i ?c (is_changes s)\<rparr>" using assms Inr by (simp add: MemoryApprovalIssuers_rejectChange_def Let_def)
  ultimately show ?thesis using Inr unfolding issuer_pending_Inr by blast
qed

lemma connector_reject_store:
  assumes "MemoryExternalConnectors_rejectChange i who reason t s = (q, s')"
  shows "s' = s \<or> (\<exists>d c. map_of (xs_changes s) i = Some d \<and> same_connector_change d c
     \<and> s' = s\<lparr>xs_changes := map_set i c (xs_changes s)\<rparr>)"
proof (cases "MemoryExternalConnectors_pending i s")
  case (Inl e)
  with assms show ?thesis by (simp add: MemoryExternalConnectors_rejectChange_def)
next
  case (Inr d)
  let ?c = "d\<lparr>cc_status := CHANGE_REJECTED, cc_resolvedBy := Some who, cc_resolvedAt := Some t,
     cc_rejectionReason := Some reason\<rparr>"
  have "same_connector_change d ?c" by (simp add: same_connector_change_def)
  moreover have "s' = s\<lparr>xs_changes := map_set i ?c (xs_changes s)\<rparr>" using assms Inr by (simp add: MemoryExternalConnectors_rejectChange_def Let_def)
  ultimately show ?thesis using Inr unfolding connector_pending_Inr by blast
qed

lemma issuer_create_store:
  "snd (MemoryApprovalIssuers_createChange c s) \<in> {s, s\<lparr>is_changes := map_set (ic_id c) c (is_changes s)\<rparr>}"
  by (simp add: MemoryApprovalIssuers_createChange_def)

lemma connector_create_store:
  "snd (MemoryExternalConnectors_createChange c s) \<in> {s, s\<lparr>xs_changes := map_set (cc_id c) c (xs_changes s)\<rparr>}"
  by (simp add: MemoryExternalConnectors_createChange_def)

lemma issuer_proposal_Inr:
  assumes "issuer_proposal k body = Inr (action, a, i, reason)"
  shows "VALID_ID a" "VALID_ID i" "ck_code k a i = None"
  using assms by (auto simp: issuer_proposal_def split: option.splits json.splits if_splits)

lemma normalized_key:
  "normalizeEd25519PublicKey pem v = Some spki \<Longrightarrow> \<exists>s key. pem s = Some (''ed25519'', key, spki)"
  by (auto simp: normalizeEd25519PublicKey_def split: option.splits json.splits if_splits) blast

lemma issuer_propose_prims:
  assumes "change_interference k inputs env" "map_of (is_changes (cw_issuers w)) (ci_changeId inputs) = None"
    and "issuer_propose k inputs env req body w = (q, v)"
  shows "change_prims k w v"
proof -
  obtain h w1 where h: "human_caller k inputs req ''propose an approver change'' w = (h, w1)" by (rule prod.exhaust)
  note human = human_prims[OF h] and e = change_interferenceD[OF assms(1)]
  let ?w2 = "env 0 w1" let ?w3 = "env 1 ?w2"
  have w2: "change_prims k w ?w2" and w3: "change_prims k w ?w3" using human(1) e(1) by (metis rtranclp_trans)+
  have fresh: "map_of (is_changes (cw_issuers ?w3)) (ci_changeId inputs) = None" using assms(2) human(2) e(2) by simp
  show ?thesis
  proof (cases h)
    case (Inl x)
    with assms(3) h human show ?thesis by (simp add: issuer_propose_def)
  next
    case (Inr who)
    show ?thesis
    proof (cases "issuer_proposal k body")
      case (Inl x)
      with assms(3) h Inr w2 show ?thesis by (simp add: issuer_propose_def Let_def)
    next
      case p: (Inr p)
      obtain action a i reason where pt: "p = (action, a, i, reason)" by (cases p) auto
      note proposal = issuer_proposal_Inr[OF p[unfolded pt]]
      let ?c = "new_issuer_change inputs who action a i reason"
      let ?v = "\<lambda>pem. ?w3\<lparr>cw_issuers := snd (MemoryApprovalIssuers_createChange (?c pem) (cw_issuers ?w3))\<rparr>"
      have "v = ?w2 \<or> v = ?w3 \<or> (\<exists>pem. v = ?v pem \<and> well_formed_issuer k (?c pem))"
      proof (cases action)
        case Add_Issuer
        then show ?thesis using assms(3) h Inr p pt proposal normalized_key[of "ck_pem k" "get_prop_opt body ''publicKeyPem''"]
          by (auto simp: issuer_propose_def Let_def new_issuer_change_def well_formed_issuer_def
              split: option.splits if_splits)
      next
        case Revoke_Issuer
        then have "well_formed_issuer k (?c None)" using proposal by (simp add: new_issuer_change_def well_formed_issuer_def)
        with Revoke_Issuer show ?thesis using assms(3) h Inr p pt
          by (auto simp: issuer_propose_def Let_def split: option.splits if_splits)
      qed
      moreover have "change_prims k ?w3 (?v pem)" if "well_formed_issuer k (?c pem)" for pem
      proof -
        have "?w3\<lparr>cw_issuers := cw_issuers ?w3\<rparr> = ?w3" by simp
        moreover have "change_prim k ?w3 (?w3\<lparr>cw_issuers := (cw_issuers ?w3)\<lparr>is_changes :=
            map_set (ic_id (?c pem)) (?c pem) (is_changes (cw_issuers ?w3))\<rparr>\<rparr>)"
          using that fresh by (intro do_propose_issuer) (simp_all add: new_issuer_change_def)
        ultimately show ?thesis using issuer_create_store[of "?c pem" "cw_issuers ?w3"]
          by (auto intro: r_into_rtranclp)
      qed
      ultimately show ?thesis using w2 w3 by (metis rtranclp_trans)
    qed
  qed
qed

lemma issuer_approve_store:
  assumes "MemoryApprovalIssuers_approveChange i who t s = (q, s')"
  shows "s' = s \<or> (\<exists>d r c. map_of (is_changes s) i = Some d \<and> same_issuer_change d c
     \<and> s' = s\<lparr>is_issuers := map_set (issuerKey (ic_approverId d) (ic_keyId d)) r (is_issuers s), is_changes := map_set i c (is_changes s)\<rparr>
     \<and> apply_issuer_change d t (map_of (is_issuers s) (issuerKey (ic_approverId d) (ic_keyId d))) = Inr r)"
proof (cases "MemoryApprovalIssuers_pending i s")
  case (Inl e)
  with assms show ?thesis by (simp add: MemoryApprovalIssuers_approveChange_def)
next
  case (Inr d)
  let ?c = "d\<lparr>ic_status := CHANGE_APPROVED, ic_resolvedBy := Some who, ic_resolvedAt := Some t\<rparr>"
  let ?key = "issuerKey (ic_approverId d) (ic_keyId d)"
  have c: "same_issuer_change d ?c" by (simp add: same_issuer_change_def)
  from Inr have d: "map_of (is_changes s) i = Some d" by (simp add: issuer_pending_Inr)
  show ?thesis
  proof (cases "apply_issuer_change d t (map_of (is_issuers s) ?key)")
    case (Inl e)
    with assms Inr show ?thesis by (simp add: MemoryApprovalIssuers_approveChange_def Let_def)
  next
    case r: (Inr r)
    with assms Inr have "s' = s\<lparr>is_issuers := map_set ?key r (is_issuers s), is_changes := map_set i ?c (is_changes s)\<rparr>"
      by (simp add: MemoryApprovalIssuers_approveChange_def Let_def)
    with c d r show ?thesis by blast
  qed
qed

lemma apply_issuer_Inr:
  assumes "apply_issuer_change d t current = Inr r" "well_formed_issuer k d"
  shows "ic_action d = Add_Issuer \<and> current = None \<and> adds_key r d
     \<or> (\<exists>q. current = Some q \<and> same_key q r \<and> ir_revoked r)"
  using assms
  by (auto simp: apply_issuer_change_def adds_key_def same_key_def well_formed_issuer_def
      split: issuer_action.splits option.splits if_splits)

lemma issuer_approve_prims:
  assumes "change_interference k inputs env" "governed_issuers k w" "issuer_approve k inputs env req i w = (q, v)"
  shows "change_prims k w v"
proof -
  obtain h w1 where h: "human_caller k inputs req ''approve an approver change'' w = (h, w1)" by (rule prod.exhaust)
  note human = human_prims[OF h] and e = change_interferenceD[OF assms(1)]
  let ?w1 = "env 0 w1"
  have p1: "change_prims k w ?w1" using human(1) e(1) by (metis rtranclp_trans)
  show ?thesis
  proof (cases h)
    case (Inl x)
    with assms(3) h human show ?thesis by (simp add: issuer_approve_def)
  next
    case (Inr who)
    with h have caller: "gc_callerId req = Some who" "isHumanCaller (gc_holder req)" by (auto elim: human_caller_cases)
    obtain l w2 where l: "issuer_load k inputs env req i Approve_Change who ?w1 = (l, w2)" by (rule prod.exhaust)
    note load = issuer_load_prims[OF assms(1) l]
    from p1 load(1) have p2: "change_prims k w w2" by (metis rtranclp_trans)
    show ?thesis
    proof (cases l)
      case (Inl x)
      with assms(3) h Inr l p2 show ?thesis by (simp add: issuer_approve_def)
    next
      case lc: (Inr c)
      let ?w3 = "env 2 w2"
      have p3: "change_prims k w ?w3" using p2 e(1) by (metis rtranclp_trans)
      have g: "governed_issuers k ?w3" using prims_govern(1)[OF p3 assms(2)] .
      from load(2)[OF lc] obtain a where c: "map_of (is_changes (cw_issuers ?w1)) i = Some c" "ic_proposedBy c \<noteq> who"
        "stepped_up (ck_stepUp k) req i Approve_Change (fst (ci_stepUpClock inputs)) a" by blast
      from prims_govern(1)[OF p1 assms(2)] c(1) have ci: "ic_id c = i" by (simp add: governed_issuers_def)
      obtain z s where z: "MemoryApprovalIssuers_approveChange i who (ci_resolvedAt inputs) (cw_issuers ?w3) = (z, s)"
        by (rule prod.exhaust)
      then have v: "v = ?w3\<lparr>cw_issuers := s\<rparr>" using assms(3) h Inr l lc ci by (simp add: issuer_approve_def Let_def)
      from load(1) e(1) have "change_prims k ?w1 ?w3" by (metis rtranclp_trans)
      from prims_keep_issuer_change[OF this c(1)] obtain d where
        d: "map_of (is_changes (cw_issuers ?w3)) i = Some d" "same_issuer_change c d" by blast
      have dd: "ic_id d = i" "ic_proposedBy d \<noteq> who" using d(2) ci c(2) by (simp_all add: same_issuer_change_def)
      have wf: "well_formed_issuer k d" using g d(1) by (simp add: governed_issuers_def)
      have ck: "checked_by (ck_stepUp k) (ic_id d) (ic_proposedBy d) who"
        using caller c(3) dd unfolding checked_by_def by metis
      from issuer_approve_store[OF z] show ?thesis
      proof
        assume "s = cw_issuers ?w3"
        with v p3 show ?thesis by simp
      next
        assume "\<exists>d r c. map_of (is_changes (cw_issuers ?w3)) i = Some d \<and> same_issuer_change d c
     \<and> s = (cw_issuers ?w3)\<lparr>is_issuers := map_set (issuerKey (ic_approverId d) (ic_keyId d)) r (is_issuers (cw_issuers ?w3)),
            is_changes := map_set i c (is_changes (cw_issuers ?w3))\<rparr>
     \<and> apply_issuer_change d (ci_resolvedAt inputs) (map_of (is_issuers (cw_issuers ?w3)) (issuerKey (ic_approverId d) (ic_keyId d))) = Inr r"
        with d(1) obtain r c' where r: "same_issuer_change d c'"
          "s = (cw_issuers ?w3)\<lparr>is_issuers := map_set (issuerKey (ic_approverId d) (ic_keyId d)) r (is_issuers (cw_issuers ?w3)),
            is_changes := map_set i c' (is_changes (cw_issuers ?w3))\<rparr>"
          "apply_issuer_change d (ci_resolvedAt inputs) (map_of (is_issuers (cw_issuers ?w3)) (issuerKey (ic_approverId d) (ic_keyId d))) = Inr r"
          by auto
        let ?u = "?w3\<lparr>cw_issuers := (cw_issuers ?w3)\<lparr>is_issuers :=
          map_set (issuerKey (ic_approverId d) (ic_keyId d)) r (is_issuers (cw_issuers ?w3))\<rparr>\<rparr>"
        from apply_issuer_Inr[OF r(3) wf] have "change_prim k ?w3 ?u"
        proof
          assume add: "ic_action d = Add_Issuer \<and> map_of (is_issuers (cw_issuers ?w3)) (issuerKey (ic_approverId d) (ic_keyId d)) = None \<and> adds_key r d"
          then have "ir_approverId r = ic_approverId d" "ir_keyId r = ic_keyId d" by (simp_all add: adds_key_def)
          with do_add_issuer[of ?w3 d r k who] add ck d(1) dd(1) show ?thesis by simp
        next
          assume "\<exists>q. map_of (is_issuers (cw_issuers ?w3)) (issuerKey (ic_approverId d) (ic_keyId d)) = Some q \<and> same_key q r \<and> ir_revoked r"
          then show ?thesis using do_revoke_issuer by blast
        qed
        moreover have "change_prim k ?u v"
          using do_resolve_issuer[of ?u i d c' k] d(1) r(1,2) v by simp
        ultimately show ?thesis using p3 by (meson rtranclp.rtrancl_into_rtrancl)
      qed
    qed
  qed
qed

lemma issuer_reject_prims:
  assumes "change_interference k inputs env" "issuer_reject k inputs env req i reason w = (q, v)"
  shows "change_prims k w v"
proof -
  obtain h w1 where h: "human_caller k inputs req ''reject an approver change'' w = (h, w1)" by (rule prod.exhaust)
  note human = human_prims[OF h] and e = change_interferenceD[OF assms(1)]
  have p1: "change_prims k w (env 0 w1)" using human(1) e(1) by (metis rtranclp_trans)
  show ?thesis
  proof (cases "\<exists>who why c w2. h = Inr who \<and> short_reason reason = Some why
      \<and> issuer_load k inputs env req i Reject_Change who (env 0 w1) = (Inr c, w2)")
    case False
    have "v = w1 \<or> (\<exists>who x. issuer_load k inputs env req i Reject_Change who (env 0 w1) = (Inl x, v))"
      using assms(2) h False by (auto simp: issuer_reject_def split: sum.splits option.splits prod.splits)
    with human(1) p1 issuer_load_prims(1)[OF assms(1)] show ?thesis by (metis rtranclp_trans)
  next
    case True
    then obtain who why c w2 where l: "h = Inr who" "short_reason reason = Some why"
      "issuer_load k inputs env req i Reject_Change who (env 0 w1) = (Inr c, w2)" by blast
    let ?w3 = "env 2 w2"
    have p3: "change_prims k w ?w3" using p1 issuer_load_prims(1)[OF assms(1) l(3)] e(1) by (metis rtranclp_trans)
    obtain z s where z: "MemoryApprovalIssuers_rejectChange (ic_id c) who why (ci_resolvedAt inputs) (cw_issuers ?w3) = (z, s)"
      by (rule prod.exhaust)
    then have v: "v = ?w3\<lparr>cw_issuers := s\<rparr>" using assms(2) h l by (simp add: issuer_reject_def Let_def)
    from issuer_reject_store[OF z] have "v = ?w3 \<or> change_prim k ?w3 v"
      unfolding v using do_resolve_issuer by fastforce
    with p3 show ?thesis by (meson rtranclp.rtrancl_into_rtrancl)
  qed
qed

end
