(* ===== verification/Change_Results.thy ===== *)
theory Change_Results
  imports Change_Properties Endpoint_Properties Governance_Results
begin

text \<open>
  The routes of external connectors as sequences of primitive actions, the system of all change
  routes, and the properties of both kinds of change.
\<close>

section \<open>External connectors\<close>

lemma connector_proposal_Inr:
  assumes "connector_proposal body = Inr (action, capability, reason)"
  shows "isNamespacedCapability capability" "namespaceOf capability \<notin> set BUILT_IN_CAPABILITY_NAMESPACES"
  using assms by (auto simp: connector_proposal_def split: option.splits json.splits if_splits)

lemma parameters_Inr:
  "parseAllowedParameters v = Inr names \<Longrightarrow>
     list_all PARAMETER_NAME names \<and> distinct names \<and> length names \<le> MAX_ALLOWED_PARAMETERS"
  by (auto simp: parseAllowedParameters_def Let_def split: option.splits json.splits if_splits)

lemma timeout_Inr: "parseTimeoutMs v = Inr t \<Longrightarrow> MIN_TIMEOUT_MS \<le> t \<and> t \<le> MAX_TIMEOUT_MS"
  by (auto simp: parseTimeoutMs_def DEFAULT_TIMEOUT_MS_def MIN_TIMEOUT_MS_def MAX_TIMEOUT_MS_def
      split: option.splits json.splits jsnum.splits if_splits)

lemma register_fields_Inr:
  assumes "register_fields body = Inr (policy, names, timeout)"
  shows "POLICY_NAME policy" "list_all PARAMETER_NAME names" "distinct names" "length names \<le> MAX_ALLOWED_PARAMETERS"
    "MIN_TIMEOUT_MS \<le> timeout" "timeout \<le> MAX_TIMEOUT_MS"
  using assms by (auto simp: register_fields_def dest: parameters_Inr timeout_Inr
      split: option.splits json.splits if_splits sum.splits)

lemma checkEndpoint_Inr:
  assumes "checkEndpoint parse lookup value = Inr s"
  obtains url where "checkEndpointUrl parse value = Inr url" "s = u_href url"
  using assms by (auto simp: checkEndpoint_def split: sum.splits)

lemma register_well_formed:
  assumes "connector_proposal body = Inr (Register_Connector, capability, reason)" "register_fields body = Inr registration"
    and "checkEndpoint (ck_url k) lookup value = Inr url"
  shows "well_formed_connector k (new_connector_change inputs who Register_Connector capability reason (Some (url, registration)))"
proof -
  obtain policy names timeout where r: "registration = (policy, names, timeout)" by (metis prod.exhaust)
  from checkEndpoint_Inr[OF assms(3)] obtain u where "checkEndpointUrl (ck_url k) value = Inr u" "url = u_href u" .
  with connector_proposal_Inr[OF assms(1)] register_fields_Inr[OF assms(2)[unfolded r]] r show ?thesis
    by (auto simp: well_formed_connector_def new_connector_change_def)
qed

lemma connector_create_prims:
  assumes "well_formed_connector k c" "map_of (xs_changes (cw_connectors w)) (cc_id c) = None"
  shows "change_prims k w (w\<lparr>cw_connectors := snd (MemoryExternalConnectors_createChange c (cw_connectors w))\<rparr>)"
proof -
  have "w\<lparr>cw_connectors := cw_connectors w\<rparr> = w" by simp
  with connector_create_store[of c "cw_connectors w"] do_propose_connector[OF assms] show ?thesis
    by (auto intro: r_into_rtranclp)
qed

lemma connector_propose_prims:
  assumes "change_interference k inputs env" "map_of (xs_changes (cw_connectors w)) (ci_changeId inputs) = None"
    and "connector_propose k inputs env req body w = (q, v)"
  shows "change_prims k w v"
proof -
  obtain h w1 where h: "human_caller k inputs req ''propose an external connector change'' w = (h, w1)" by (rule prod.exhaust)
  note human = human_prims[OF h] and e = change_interferenceD[OF assms(1)]
  let ?w2 = "env 0 w1" let ?w3 = "env 1 ?w2" let ?w4 = "env 2 ?w3"
  have w2: "change_prims k w ?w2" and w3: "change_prims k w ?w3" and w4: "change_prims k w ?w4"
    using human(1) e(1) by (metis rtranclp_trans)+
  have fresh: "map_of (xs_changes (cw_connectors u)) (ci_changeId inputs) = None" if "u \<in> {?w3, ?w4}" for u
    using that assms(2) human(3) e(3) by auto
  show ?thesis
  proof (cases h)
    case (Inl x)
    with assms(3) h human show ?thesis by (simp add: connector_propose_def)
  next
    case (Inr who)
    show ?thesis
    proof (cases "connector_proposal body")
      case (Inl x)
      with assms(3) h Inr w2 show ?thesis by (simp add: connector_propose_def Let_def)
    next
      case p: (Inr p)
      obtain action capability reason where pt: "p = (action, capability, reason)" by (cases p) auto
      let ?c = "new_connector_change inputs who action capability reason"
      have "v \<in> {?w3, ?w4} \<or> (\<exists>u r. u \<in> {?w3, ?w4} \<and> well_formed_connector k (?c r)
          \<and> v = u\<lparr>cw_connectors := snd (MemoryExternalConnectors_createChange (?c r) (cw_connectors u))\<rparr>)"
      proof (cases action)
        case Register_Connector
        with p pt have "connector_proposal body = Inr (Register_Connector, capability, reason)" by simp
        note wf = register_well_formed[OF this, where k = k and inputs = inputs and who = who]
        from Register_Connector show ?thesis using assms(3) h Inr p pt
          by (auto simp: connector_propose_def Let_def intro: wf split: sum.splits if_splits)
      next
        case Revoke_Connector
        with p pt have "well_formed_connector k (?c None)"
          using connector_proposal_Inr by (auto simp: well_formed_connector_def new_connector_change_def)
        with Revoke_Connector show ?thesis using assms(3) h Inr p pt
          by (auto simp: connector_propose_def Let_def split: if_splits)
      qed
      then show ?thesis
      proof
        assume "v \<in> {?w3, ?w4}"
        with w3 w4 show ?thesis by blast
      next
        assume "\<exists>u r. u \<in> {?w3, ?w4} \<and> well_formed_connector k (?c r)
          \<and> v = u\<lparr>cw_connectors := snd (MemoryExternalConnectors_createChange (?c r) (cw_connectors u))\<rparr>"
        then obtain u r where u: "u \<in> {?w3, ?w4}" "well_formed_connector k (?c r)"
          "v = u\<lparr>cw_connectors := snd (MemoryExternalConnectors_createChange (?c r) (cw_connectors u))\<rparr>" by blast
        have "cc_id (?c r) = ci_changeId inputs" by (simp add: new_connector_change_def)
        with connector_create_prims[OF u(2)] fresh[OF u(1)] u(3) have "change_prims k u v" by simp
        with u(1) w3 w4 show ?thesis by (metis insertE rtranclp_trans singletonD)
      qed
    qed
  qed
qed

lemma connector_reject_prims:
  assumes "change_interference k inputs env" "connector_reject k inputs env req i reason w = (q, v)"
  shows "change_prims k w v"
proof -
  obtain h w1 where h: "human_caller k inputs req ''reject an external connector change'' w = (h, w1)" by (rule prod.exhaust)
  note human = human_prims[OF h] and e = change_interferenceD[OF assms(1)]
  have p1: "change_prims k w (env 0 w1)" using human(1) e(1) by (metis rtranclp_trans)
  show ?thesis
  proof (cases "\<exists>who why c w2. h = Inr who \<and> short_reason reason = Some why
      \<and> connector_load k inputs env req i Reject_Change who (env 0 w1) = (Inr c, w2)")
    case False
    have "v = w1 \<or> (\<exists>who x. connector_load k inputs env req i Reject_Change who (env 0 w1) = (Inl x, v))"
      using assms(2) h False by (auto simp: connector_reject_def split: sum.splits option.splits prod.splits)
    with human(1) p1 connector_load_prims(1)[OF assms(1)] show ?thesis by (metis rtranclp_trans)
  next
    case True
    then obtain who why c w2 where l: "h = Inr who" "short_reason reason = Some why"
      "connector_load k inputs env req i Reject_Change who (env 0 w1) = (Inr c, w2)" by blast
    let ?w3 = "env 2 w2"
    have p3: "change_prims k w ?w3" using p1 connector_load_prims(1)[OF assms(1) l(3)] e(1) by (metis rtranclp_trans)
    obtain z s where z: "MemoryExternalConnectors_rejectChange (cc_id c) who why (ci_resolvedAt inputs) (cw_connectors ?w3) = (z, s)"
      by (rule prod.exhaust)
    then have v: "v = ?w3\<lparr>cw_connectors := s\<rparr>" using assms(2) h l by (simp add: connector_reject_def Let_def)
    from connector_reject_store[OF z] have "v = ?w3 \<or> change_prim k ?w3 v"
      unfolding v using do_resolve_connector by fastforce
    with p3 show ?thesis by (meson rtranclp.rtrancl_into_rtrancl)
  qed
qed

lemma connector_approve_store:
  assumes "MemoryExternalConnectors_approveChange others i who t s = (q, s')"
  shows "(\<not> ok (MemoryExternalConnectors_pending i s) \<and> s' = s) \<or> (ok (MemoryExternalConnectors_pending i s) \<and> s' = others s)
     \<or> (\<exists>d r c. map_of (xs_changes s) i = Some d \<and> cc_status d = PENDING_APPROVAL \<and> same_connector_change d c
        \<and> apply_connector_change d t (MemoryExternalConnectors_findActive (cc_capability d) s) = Inr r
        \<and> s' = (others s)\<lparr>xs_registrations := map_set (cr_id r) r (xs_registrations (others s)),
                          xs_changes := map_set i c (xs_changes (others s))\<rparr>)"
proof (cases "MemoryExternalConnectors_pending i s")
  case (Inl e)
  with assms have "s' = s" by (simp add: MemoryExternalConnectors_approveChange_def)
  with Inl show ?thesis by simp
next
  case (Inr d)
  let ?c = "d\<lparr>cc_status := CHANGE_APPROVED, cc_resolvedBy := Some who, cc_resolvedAt := Some t\<rparr>"
  let ?active = "MemoryExternalConnectors_findActive (cc_capability d) s"
  have c: "same_connector_change d ?c" by (simp add: same_connector_change_def)
  from Inr have d: "map_of (xs_changes s) i = Some d" "cc_status d = PENDING_APPROVAL" by (simp_all add: connector_pending_Inr)
  show ?thesis
  proof (cases "apply_connector_change d t ?active")
    case (Inl e)
    with assms Inr show ?thesis by (simp add: MemoryExternalConnectors_approveChange_def Let_def)
  next
    case r: (Inr r)
    with assms Inr have "s' = (others s)\<lparr>xs_registrations := map_set (cr_id r) r (xs_registrations (others s)),
        xs_changes := map_set i ?c (xs_changes (others s))\<rparr>"
      by (simp add: MemoryExternalConnectors_approveChange_def Let_def)
    with c d r show ?thesis by blast
  qed
qed

lemma apply_connector_Inr:
  assumes "apply_connector_change d t current = Inr r" "well_formed_connector k d"
  shows "cc_action d = Register_Connector \<and> current = None \<and> makes_registration r d \<and> cr_status r = Active_Registration
     \<or> cc_action d = Revoke_Connector \<and> (\<exists>q. current = Some q \<and> same_registration q r \<and> cr_status r = Revoked_Registration)"
  using assms
  by (auto simp: apply_connector_change_def makes_registration_def same_registration_def well_formed_connector_def
      split: connector_action.splits option.splits if_splits)

lemma findActive_stored:
  assumes "MemoryExternalConnectors_findActive capability (cw_connectors w) = Some r" "governed_connectors k w"
  shows "map_of (xs_registrations (cw_connectors w)) (cr_id r) = Some r" "cr_capability r = capability"
    "cr_status r = Active_Registration"
proof -
  from assms(1) have "r \<in> set (map snd (xs_registrations (cw_connectors w)))"
    and c: "cr_capability r = capability" "cr_status r = Active_Registration"
    unfolding MemoryExternalConnectors_findActive_def by (auto dest: find_Some_mem)
  then obtain i where "(i, r) \<in> set (xs_registrations (cw_connectors w))" by auto
  with assms(2) have "map_of (xs_registrations (cw_connectors w)) i = Some r" by (simp add: governed_connectors_def)
  with assms(2) c show "map_of (xs_registrations (cw_connectors w)) (cr_id r) = Some r" "cr_capability r = capability"
    "cr_status r = Active_Registration" by (auto simp: governed_connectors_def)
qed

text \<open>What an approved change does where it is applied, others having run since it was found pending.\<close>

lemma apply_connector_prim:
  assumes "change_prims k w w'" "governed_connectors k w" "map_of (xs_changes (cw_connectors w)) i = Some d"
    and "apply_connector_change d t (MemoryExternalConnectors_findActive (cc_capability d) (cw_connectors w)) = Inr r"
    and "checked_by (ck_stepUp k) (cc_id d) (cc_proposedBy d) who"
    and "cc_action d = Register_Connector \<Longrightarrow> public_endpoint k (the (cc_endpointUrl d))"
  shows "change_prim k w' (w'\<lparr>cw_connectors := (cw_connectors w')\<lparr>xs_registrations :=
       map_set (cr_id r) r (xs_registrations (cw_connectors w'))\<rparr>\<rparr>)"
proof -
  from assms(2,3) have d: "cc_id d = i" "well_formed_connector k d" by (simp_all add: governed_connectors_def)
  from prims_keep_connector_change[OF assms(1,3)] obtain d' where
    d': "map_of (xs_changes (cw_connectors w')) i = Some d'" "same_connector_change d d'" by blast
  from apply_connector_Inr[OF assms(4) d(2)] show ?thesis
  proof
    assume a: "cc_action d = Register_Connector \<and> MemoryExternalConnectors_findActive (cc_capability d) (cw_connectors w) = None
      \<and> makes_registration r d \<and> cr_status r = Active_Registration"
    then have "makes_registration r d'" "public_endpoint k (cr_endpointUrl r)"
      using d'(2) assms(6) by (auto simp: makes_registration_def same_connector_change_def)
    moreover have "checked_by (ck_stepUp k) (cc_id d') (cc_proposedBy d') who" "cc_id d' = i"
      using assms(5) d'(2) d(1) by (simp_all add: same_connector_change_def)
    ultimately show ?thesis using do_register[of w' d' r k who] d'(1) by simp
  next
    assume "cc_action d = Revoke_Connector \<and> (\<exists>q. MemoryExternalConnectors_findActive (cc_capability d) (cw_connectors w) = Some q
      \<and> same_registration q r \<and> cr_status r = Revoked_Registration)"
    then obtain q where q: "MemoryExternalConnectors_findActive (cc_capability d) (cw_connectors w) = Some q"
      "same_registration q r" by blast
    from prims_same_registration[OF assms(1,2) findActive_stored(1)[OF q(1) assms(2)]] obtain h where
      h: "map_of (xs_registrations (cw_connectors w')) (cr_id q) = Some h" "same_registration h q" .
    with q(2) have "same_registration h r" "cr_id q = cr_id r" by (simp_all add: same_registration_def)
    with do_revoke[of w' "cr_id r" h r k] h(1) show ?thesis by simp
  qed
qed

lemma connector_approve_prims:
  assumes "change_interference k inputs env" "governed_connectors k w" "connector_approve k inputs env req i w = (q, v)"
  shows "change_prims k w v"
proof -
  obtain h w1 where h: "human_caller k inputs req ''approve an external connector change'' w = (h, w1)" by (rule prod.exhaust)
  note human = human_prims[OF h] and e = change_interferenceD[OF assms(1)]
  let ?w1 = "env 0 w1"
  have p1: "change_prims k w ?w1" using human(1) e(1) by (metis rtranclp_trans)
  show ?thesis
  proof (cases "\<exists>who c w2. h = Inr who \<and> connector_load k inputs env req i Approve_Change who ?w1 = (Inr c, w2)")
    case False
    have "v = w1 \<or> (\<exists>who x. connector_load k inputs env req i Approve_Change who ?w1 = (Inl x, v))"
      using assms(3) h False by (auto simp: connector_approve_def split: sum.splits prod.splits)
    with human(1) p1 connector_load_prims(1)[OF assms(1)] show ?thesis by (metis rtranclp_trans)
  next
    case True
    then obtain who c w2 where l: "h = Inr who" "connector_load k inputs env req i Approve_Change who ?w1 = (Inr c, w2)" by blast
    with h have caller: "gc_callerId req = Some who" "isHumanCaller (gc_holder req)" by (auto elim: human_caller_cases)
    note load = connector_load_prims[OF assms(1) l(2)]
    let ?w3 = "env 2 w2" let ?w4 = "env 3 ?w3"
    have p3: "change_prims k w ?w3" using p1 load(1) e(1) by (metis rtranclp_trans)
    have p4: "change_prims k w ?w4" using p3 e(1) by (metis rtranclp_trans)
    show ?thesis
    proof (cases "recheck_endpoint (ck_url k) (ci_lookup inputs) c")
      case (Inl x)
      with assms(3) h l p3 show ?thesis by (simp add: connector_approve_def)
    next
      case (Inr u)
      from load(2)[OF refl] obtain a where c: "map_of (xs_changes (cw_connectors ?w1)) i = Some c" "cc_proposedBy c \<noteq> who"
        "stepped_up (ck_stepUp k) req i Approve_Change (fst (ci_stepUpClock inputs)) a" by blast
      from prims_govern(2)[OF p1 assms(2)] c(1) have ci: "cc_id c = i" by (simp add: governed_connectors_def)
      let ?others = "\<lambda>s. cw_connectors (env 3 (?w3\<lparr>cw_connectors := s\<rparr>))"
      obtain z s where z: "MemoryExternalConnectors_approveChange ?others i who (ci_resolvedAt inputs) (cw_connectors ?w3) = (z, s)"
        by (rule prod.exhaust)
      have same: "?others (cw_connectors ?w3) = cw_connectors ?w4" by simp
      from assms(3) h l Inr z ci have v: "v = (if ok (MemoryExternalConnectors_pending i (cw_connectors ?w3))
          then ?w4\<lparr>cw_connectors := s\<rparr> else ?w3\<lparr>cw_connectors := s\<rparr>)"
        by (auto simp: connector_approve_def Let_def split: if_splits)
      from connector_approve_store[OF z, unfolded same] consider
        "\<not> ok (MemoryExternalConnectors_pending i (cw_connectors ?w3))" "s = cw_connectors ?w3"
        | "ok (MemoryExternalConnectors_pending i (cw_connectors ?w3))" "s = cw_connectors ?w4"
        | d r c' where "map_of (xs_changes (cw_connectors ?w3)) i = Some d" "cc_status d = PENDING_APPROVAL" "same_connector_change d c'"
          "apply_connector_change d (ci_resolvedAt inputs) (MemoryExternalConnectors_findActive (cc_capability d) (cw_connectors ?w3)) = Inr r"
          "s = (cw_connectors ?w4)\<lparr>xs_registrations := map_set (cr_id r) r (xs_registrations (cw_connectors ?w4)),
                          xs_changes := map_set i c' (xs_changes (cw_connectors ?w4))\<rparr>"
        by blast
      then show ?thesis
      proof cases
        case 1
        with v p3 show ?thesis by simp
      next
        case 2
        with v p4 show ?thesis by simp
      next
        case (3 d r c')
        have g: "governed_connectors k ?w3" using prims_govern(2)[OF p3 assms(2)] .
        from load(1) e(1) have "change_prims k ?w1 ?w3" by (metis rtranclp_trans)
        from prims_keep_connector_change[OF this c(1)] 3(1) have cd: "same_connector_change c d" by simp
        then have ck: "checked_by (ck_stepUp k) (cc_id d) (cc_proposedBy d) who"
          using caller c(2,3) ci unfolding checked_by_def same_connector_change_def by metis
        have pub: "public_endpoint k (the (cc_endpointUrl d))" if "cc_action d = Register_Connector"
        proof -
          from g 3(1) have "well_formed_connector k d" unfolding governed_connectors_def by blast
          with that obtain url where "cc_endpointUrl d = Some url" by (auto simp: well_formed_connector_def)
          with cd that Inr show ?thesis
            by (auto simp: recheck_endpoint_def same_connector_change_def public_endpoint_def address_refused_def
                split: option.splits sum.splits)
        qed
        let ?u = "?w4\<lparr>cw_connectors := (cw_connectors ?w4)\<lparr>xs_registrations := map_set (cr_id r) r (xs_registrations (cw_connectors ?w4))\<rparr>\<rparr>"
        have "change_prim k ?w4 ?u" using apply_connector_prim[OF e(1) g 3(1,4) ck pub] .
        moreover from prims_keep_connector_change[OF e(1) 3(1)] obtain d' where
          d': "map_of (xs_changes (cw_connectors ?w4)) i = Some d'" "same_connector_change d d'" by blast
        with 3(3) have "same_connector_change d' c'" by (simp add: same_connector_change_def)
        with d'(1) have "change_prim k ?u (?w4\<lparr>cw_connectors := s\<rparr>)"
          using do_resolve_connector[of ?u i d' c' k] 3(5) by simp
        moreover have "v = ?w4\<lparr>cw_connectors := s\<rparr>" using v 3(1,2) connector_pending_Inr by (simp add: ok_iff)
        ultimately show ?thesis using p4 by (meson rtranclp.rtrancl_into_rtrancl)
      qed
    qed
  qed
qed

section \<open>The system\<close>

inductive change_step :: "'key change_config \<Rightarrow> change_world \<Rightarrow> change_world \<Rightarrow> bool" for k :: "'key change_config" where
  propose_issuer: "change_interference k inputs env \<Longrightarrow> map_of (is_changes (cw_issuers w)) (ci_changeId inputs) = None \<Longrightarrow>
     change_step k w (snd (issuer_propose k inputs env req body w))"
| approve_issuer: "change_interference k inputs env \<Longrightarrow> change_step k w (snd (issuer_approve k inputs env req i w))"
| reject_issuer: "change_interference k inputs env \<Longrightarrow> change_step k w (snd (issuer_reject k inputs env req i reason w))"
| propose_connector: "change_interference k inputs env \<Longrightarrow> map_of (xs_changes (cw_connectors w)) (ci_changeId inputs) = None \<Longrightarrow>
     change_step k w (snd (connector_propose k inputs env req body w))"
| approve_connector: "change_interference k inputs env \<Longrightarrow> change_step k w (snd (connector_approve k inputs env req i w))"
| reject_connector: "change_interference k inputs env \<Longrightarrow> change_step k w (snd (connector_reject k inputs env req i reason w))"
| list_issuers: "change_step k w (snd (issuer_list k inputs req w))"
| list_issuer_changes: "change_step k w (snd (issuer_list_changes k inputs req status w))"
| list_connectors: "change_step k w (snd (connector_list k inputs req w))"
| list_connector_changes: "change_step k w (snd (connector_list_changes k inputs req status w))"

definition governed_changes :: "'key change_config \<Rightarrow> change_world \<Rightarrow> bool" where
  "governed_changes k w \<longleftrightarrow> governed_issuers k w \<and> governed_connectors k w"

lemma no_changes_governed:
  "is_issuers (cw_issuers w) = [] \<Longrightarrow> is_changes (cw_issuers w) = [] \<Longrightarrow> xs_registrations (cw_connectors w) = [] \<Longrightarrow>
   xs_changes (cw_connectors w) = [] \<Longrightarrow> governed_changes k w"
  by (simp add: governed_changes_def governed_issuers_def governed_connectors_def)

lemma list_prims:
  "change_prims k w (snd (issuer_list k inputs req w))" "change_prims k w (snd (issuer_list_changes k inputs req status w))"
  "change_prims k w (snd (connector_list k inputs req w))" "change_prims k w (snd (connector_list_changes k inputs req status w))"
  by (auto simp: issuer_list_def issuer_list_changes_def connector_list_def connector_list_changes_def
      dest: human_prims(1) split: prod.split sum.split)

lemma change_step_prims:
  assumes "change_step k w v" "governed_changes k w"
  shows "change_prims k w v"
  using assms(1)
proof cases
  case (propose_issuer inputs env req body)
  with issuer_propose_prims show ?thesis by (metis prod.collapse)
next
  case (approve_issuer inputs env req i)
  with issuer_approve_prims assms(2) show ?thesis by (metis governed_changes_def prod.collapse)
next
  case (reject_issuer inputs env req i reason)
  with issuer_reject_prims show ?thesis by (metis prod.collapse)
next
  case (propose_connector inputs env req body)
  with connector_propose_prims show ?thesis by (metis prod.collapse)
next
  case (approve_connector inputs env req i)
  with connector_approve_prims assms(2) show ?thesis by (metis governed_changes_def prod.collapse)
next
  case (reject_connector inputs env req i reason)
  with connector_reject_prims show ?thesis by (metis prod.collapse)
qed (simp_all add: list_prims)

lemma change_steps_prims:
  assumes "(change_step k)\<^sup>*\<^sup>* w v" "governed_changes k w"
  shows "change_prims k w v \<and> governed_changes k v"
  using assms
proof (induction rule: rtranclp_induct)
  case (step u v)
  then have "change_prims k u v" "governed_changes k u" by (auto intro: change_step_prims)
  with prims_govern step show ?case unfolding governed_changes_def by (metis rtranclp_trans)
qed simp

section \<open>A sample deployment\<close>

definition sample_endpoint :: url where
  "sample_endpoint = \<lparr>u_protocol = ''https:'', u_username = [], u_password = [], u_hostname = ''hooks.example'',
     u_hash = [], u_href = ''https://hooks.example/''\<rparr>"

definition sample_changes :: "unit change_config" where
  "sample_changes = \<lparr>ck_stepUp = sample_step_up, ck_sink = None, ck_code = \<lambda>a i. None,
     ck_pem = \<lambda>s. Some (''ed25519'', (), s), ck_url = \<lambda>s. Some sample_endpoint\<rparr>"

definition sample_change_inputs :: change_inputs where
  "sample_change_inputs = \<lparr>ci_isoNow = ''now'', ci_changeId = ''change'', ci_proposedAt = 1, ci_resolvedAt = 3,
     ci_stepUpClock = (2, 2), ci_lookup = \<lambda>host. Inr [\<lparr>rs_address = ''93.184.216.34'', rs_family = 4\<rparr>]\<rparr>"

definition empty_changes :: change_world where
  "empty_changes = \<lparr>cw_issuers = \<lparr>is_issuers = [], is_changes = []\<rparr>,
     cw_connectors = \<lparr>xs_registrations = [], xs_changes = []\<rparr>, cw_nonces = [], cw_audit = []\<rparr>"

definition register_body :: json where
  "register_body = JObj [(''action'', JStr ''register''), (''capability'', JStr ''crm:update''), (''reason'', JStr ''why''),
     (''policy'', JStr ''crm-policy''), (''allowedParameters'', JArr [JStr ''id'']), (''endpointUrl'', JStr ''https://hooks.example/'')]"

definition proposed_connector :: connector_change where
  "proposed_connector = new_connector_change sample_change_inputs ''alice'' Register_Connector ''crm:update'' ''why''
     (Some (''https://hooks.example/'', ''crm-policy'', [''id''], 10000))"

lemma sample_humans:
  "human_caller sample_changes inputs maker what w = (Inr ''alice'', w)"
  "human_caller sample_changes inputs checker what w = (Inr ''bob'', w)"
  by (simp_all add: human_caller_def maker_def checker_def requireHuman_ok isHumanCaller_def)

lemma sample_public: "isPublicAddress ''93.184.216.34''"
proof -
  have "parse_address ''93.184.216.34'' = Some (V4 (quad 93 184 216 34))" by (simp add: parse_defs)
  then show ?thesis by (simp add: address_ranges outside_def ranges_v4_def quad_def)
qed

lemma sample_resolves: "resolvePublicEndpointAddresses (ci_lookup sample_change_inputs) sample_endpoint
    = Inr [\<lparr>rs_address = ''93.184.216.34'', rs_family = 4\<rparr>]"
  using sample_public by (simp add: resolvePublic_Inr sample_change_inputs_def)

lemma sample_url_ok: "checkEndpointUrl (ck_url sample_changes) (Some (JStr ''https://hooks.example/'')) = Inr sample_endpoint"
proof -
  have "to_lower ''hooks.example'' = ''hooks.example''" "bare_host ''hooks.example'' = ''hooks.example''"
    "\<not> starts_with ''hooks.example'' ''[''" "\<not> ends_with ''hooks.example'' ''.localhost''"
    by code_simp+
  moreover have "parse_address ''hooks.example'' = None" by (simp add: parse_defs)
  ultimately show ?thesis
    by (simp add: checkEndpointUrl_Inr sample_changes_def sample_endpoint_def MAX_ENDPOINT_URL_LENGTH_def)
qed

lemma sample_register:
  "connector_propose sample_changes sample_change_inputs (\<lambda>n v. v) maker (Some register_body) empty_changes
     = (Inr proposed_connector, empty_changes\<lparr>cw_connectors := \<lparr>xs_registrations = [], xs_changes = [(''change'', proposed_connector)]\<rparr>\<rparr>)"
proof -
  have "isNamespacedCapability ''crm:update''" "namespaceOf ''crm:update'' \<notin> set BUILT_IN_CAPABILITY_NAMESPACES"
    "short_reason (Some (JStr ''why'')) = Some ''why''" "POLICY_NAME ''crm-policy''"
    "parseAllowedParameters (Some (JArr [JStr ''id''])) = Inr [''id'']"
    by code_simp+
  then have "connector_proposal (Some register_body) = Inr (Register_Connector, ''crm:update'', ''why'')"
    "register_fields (Some register_body) = Inr (''crm-policy'', [''id''], 10000)"
    by (simp_all add: connector_proposal_def register_fields_def register_body_def MAX_CAPABILITY_LENGTH_def
        parseTimeoutMs_def DEFAULT_TIMEOUT_MS_def)
  moreover have "checkEndpoint (ck_url sample_changes) (ci_lookup sample_change_inputs) (get_prop_opt (Some register_body) ''endpointUrl'')
      = Inr ''https://hooks.example/''"
    using sample_url_ok sample_resolves
    by (simp add: checkEndpoint_def register_body_def address_refused_def) (simp add: sample_endpoint_def)
  ultimately show ?thesis
    by (simp add: connector_propose_def sample_humans Let_def MemoryExternalConnectors_findActive_def
        MemoryExternalConnectors_createChange_def empty_changes_def proposed_connector_def)
       (simp add: new_connector_change_def sample_change_inputs_def)
qed

definition registered_world :: change_world where
  "registered_world = snd (connector_approve sample_changes sample_change_inputs (\<lambda>n v. v) checker ''change''
     (empty_changes\<lparr>cw_connectors := \<lparr>xs_registrations = [], xs_changes = [(''change'', proposed_connector)]\<rparr>\<rparr>))"

lemma sample_connector_registered:
  "\<exists>r. MemoryExternalConnectors_findActive ''crm:update'' (cw_connectors registered_world) = Some r
     \<and> cr_endpointUrl r = ''https://hooks.example/'' \<and> cr_allowedParameters r = [''id'']"
proof -
  have l: "connector_load sample_changes sample_change_inputs (\<lambda>n v. v) checker ''change'' Approve_Change ''bob''
      (empty_changes\<lparr>cw_connectors := \<lparr>xs_registrations = [], xs_changes = [(''change'', proposed_connector)]\<rparr>\<rparr>)
    = (Inr proposed_connector, empty_changes\<lparr>cw_connectors := \<lparr>xs_registrations = [], xs_changes = [(''change'', proposed_connector)]\<rparr>,
         cw_nonces := [(''n'', Some 4)]\<rparr>)"
    using sample_stepped_up
    by (simp add: connector_load_def MemoryExternalConnectors_findChange_def empty_changes_def sample_changes_def
        sample_change_inputs_def)
       (simp add: proposed_connector_def new_connector_change_def)
  have "recheck_endpoint (ck_url sample_changes) (ci_lookup sample_change_inputs) proposed_connector = Inr ()"
    using sample_resolves
    by (simp add: recheck_endpoint_def proposed_connector_def new_connector_change_def)
       (simp add: sample_changes_def address_refused_def)
  then show ?thesis
    by (simp add: registered_world_def connector_approve_def sample_humans l Let_def)
       (simp add: MemoryExternalConnectors_approveChange_def MemoryExternalConnectors_pending_def proposed_connector_def
          new_connector_change_def sample_change_inputs_def apply_connector_change_def MemoryExternalConnectors_findActive_def Let_def)
qed

lemma sample_connector_steps: "(change_step sample_changes)\<^sup>*\<^sup>* empty_changes registered_world"
proof -
  have "change_step sample_changes empty_changes
      (empty_changes\<lparr>cw_connectors := \<lparr>xs_registrations = [], xs_changes = [(''change'', proposed_connector)]\<rparr>\<rparr>)"
    using propose_connector[of sample_changes sample_change_inputs "\<lambda>n v. v" empty_changes maker "Some register_body"]
    unfolding sample_register by (simp add: empty_changes_def)
  moreover have "change_step sample_changes (empty_changes\<lparr>cw_connectors := \<lparr>xs_registrations = [], xs_changes = [(''change'', proposed_connector)]\<rparr>\<rparr>)
      registered_world"
    unfolding registered_world_def by (rule approve_connector) simp
  ultimately show ?thesis by simp
qed

text \<open>An approver, in the same way.\<close>

definition add_body :: json where
  "add_body = JObj [(''action'', JStr ''add''), (''approverId'', JStr ''carol''), (''keyId'', JStr ''k1''),
     (''publicKeyPem'', JStr ''PEM''), (''reason'', JStr ''why'')]"

definition proposed_approver :: issuer_change where
  "proposed_approver = new_issuer_change sample_change_inputs ''alice'' Add_Issuer ''carol'' ''k1'' ''why'' (Some ''PEM'')"

definition one_approver_change :: change_world where
  "one_approver_change = empty_changes\<lparr>cw_issuers := \<lparr>is_issuers = [], is_changes = [(''change'', proposed_approver)]\<rparr>\<rparr>"

lemma sample_add:
  "issuer_propose sample_changes sample_change_inputs (\<lambda>n v. v) maker (Some add_body) empty_changes
     = (Inr proposed_approver, one_approver_change)"
proof -
  have "VALID_ID ''carol''" "VALID_ID ''k1''" "short_reason (Some (JStr ''why'')) = Some ''why''"
    by code_simp+
  then have "issuer_proposal sample_changes (Some add_body) = Inr (Add_Issuer, ''carol'', ''k1'', ''why'')"
    by (simp add: issuer_proposal_def add_body_def sample_changes_def)
  moreover have "normalizeEd25519PublicKey (ck_pem sample_changes) (get_prop_opt (Some add_body) ''publicKeyPem'') = Some ''PEM''"
    by (simp add: normalizeEd25519PublicKey_def add_body_def sample_changes_def)
  ultimately show ?thesis
    by (simp add: issuer_propose_def sample_humans Let_def MemoryApprovalIssuers_findIssuer_def
        MemoryApprovalIssuers_createChange_def empty_changes_def proposed_approver_def one_approver_change_def)
       (simp add: new_issuer_change_def sample_change_inputs_def)
qed

definition approver_world :: change_world where
  "approver_world = snd (issuer_approve sample_changes sample_change_inputs (\<lambda>n v. v) checker ''change'' one_approver_change)"

lemma sample_approver:
  "\<exists>r. MemoryApprovalIssuers_findIssuer ''carol'' ''k1'' (cw_issuers approver_world) = Some r"
proof -
  have l: "issuer_load sample_changes sample_change_inputs (\<lambda>n v. v) checker ''change'' Approve_Change ''bob'' one_approver_change
    = (Inr proposed_approver, one_approver_change\<lparr>cw_nonces := [(''n'', Some 4)]\<rparr>)"
    using sample_stepped_up
    by (simp add: issuer_load_def MemoryApprovalIssuers_findChange_def one_approver_change_def empty_changes_def
        sample_changes_def sample_change_inputs_def)
       (simp add: proposed_approver_def new_issuer_change_def)
  then show ?thesis
    by (simp add: approver_world_def issuer_approve_def sample_humans Let_def)
       (simp add: MemoryApprovalIssuers_approveChange_def MemoryApprovalIssuers_pending_def one_approver_change_def
          empty_changes_def proposed_approver_def new_issuer_change_def sample_change_inputs_def apply_issuer_change_def
          MemoryApprovalIssuers_findIssuer_def Let_def)
qed

lemma sample_approver_steps: "(change_step sample_changes)\<^sup>*\<^sup>* empty_changes approver_world"
proof -
  have "change_step sample_changes empty_changes one_approver_change"
    using propose_issuer[of sample_changes sample_change_inputs "\<lambda>n v. v" empty_changes maker "Some add_body"]
    unfolding sample_add by (simp add: empty_changes_def)
  moreover have "change_step sample_changes one_approver_change approver_world"
    unfolding approver_world_def by (rule approve_issuer) simp
  ultimately show ?thesis by simp
qed

lemma empty_changes_empty [simp]:
  "is_issuers (cw_issuers empty_changes) = []" "is_changes (cw_issuers empty_changes) = []"
  "xs_registrations (cw_connectors empty_changes) = []" "xs_changes (cw_connectors empty_changes) = []"
  by (simp_all add: empty_changes_def)

section \<open>Connectors and approvers need two humans\<close>





end
