(* ===== verification/External_Properties.thy ===== *)
theory External_Properties
  imports External_Release Change_Results
begin

text \<open>
  The release to an external connector: what has to hold before anything is sent, what is sent and
  where it connects, what answer is accepted, and that a registered connector was agreed on by two
  humans.
\<close>

section \<open>The exchange\<close>

lemma finish_outcome [simp]:
  "ex_outcome (exchange_finish r x) = (case ex_outcome x of None \<Rightarrow> Some r | Some q \<Rightarrow> Some q)"
  by (simp add: exchange_finish_def split: option.split)

lemma finish_keeps [simp]:
  "ex_size (exchange_finish r x) = ex_size x" "ex_chunks (exchange_finish r x) = ex_chunks x"
  by (simp_all add: exchange_finish_def split: option.split)

text \<open>An outcome once reached stays.\<close>

lemma event_settled: "ex_outcome x = Some r \<Longrightarrow> ex_outcome (exchange_event d n st x e) = Some r"
  by (cases e) (auto simp: Let_def)

lemma events_settled: "ex_outcome x = Some r \<Longrightarrow> ex_outcome (foldl (exchange_event d n st) x es) = Some r"
  by (induction es arbitrary: x) (simp_all add: event_settled)

text \<open>What is kept while the exchange is open, and what an answer is made of.\<close>

definition exchange_ok :: "(string \<Rightarrow> string) \<Rightarrow> nat \<Rightarrow> nat \<Rightarrow> exchange \<Rightarrow> bool" where
  "exchange_ok d n st x \<longleftrightarrow>
     (case ex_outcome x of
        None \<Rightarrow> length (concat (ex_chunks x)) = ex_size x \<and> ex_size x \<le> n
      | Some (Inl _) \<Rightarrow> True
      | Some (Inr a) \<Rightarrow> \<exists>bytes. length bytes \<le> n \<and> a = \<lparr>ts_status = st, ts_body = d bytes\<rparr>)"

lemma event_ok: "exchange_ok d n st x \<Longrightarrow> exchange_ok d n st (exchange_event d n st x e)"
proof (cases e)
  case Response_End
  moreover assume "exchange_ok d n st x"
  ultimately show ?thesis
    by (auto simp: exchange_ok_def split: option.splits sum.splits intro!: exI[of _ "concat (ex_chunks x)"])
qed (auto simp: exchange_ok_def Let_def split: option.splits sum.splits)

lemma events_ok: "exchange_ok d n st x \<Longrightarrow> exchange_ok d n st (foldl (exchange_event d n st) x es)"
  by (induction es arbitrary: x) (simp_all add: event_ok)

lemma run_exchange_settles:
  "\<exists>r. run_exchange d n st (es @ [Timed_Out]) = Some r
     \<and> (case r of Inl _ \<Rightarrow> True | Inr a \<Rightarrow> \<exists>bytes. length bytes \<le> n \<and> a = \<lparr>ts_status = st, ts_body = d bytes\<rparr>)"
proof -
  let ?x = "\<lparr>ex_size = 0, ex_chunks = [], ex_outcome = None\<rparr>"
  let ?y = "foldl (exchange_event d n st) ?x (es @ [Timed_Out])"
  have "exchange_ok d n st ?y" by (rule events_ok) (simp add: exchange_ok_def)
  moreover have "ex_outcome ?y \<noteq> None" by (simp split: option.split)
  ultimately show ?thesis unfolding run_exchange_def exchange_ok_def by (auto split: option.splits)
qed

text \<open>
  C12: whatever the network does, the promise of the pinned transport settles, with an error or with
  an answer decoded from no more bytes than the limit; and it connects, if at all, to the first of
  the checked addresses.
\<close>

theorem transport_settles:
  "case tr_addresses q of
     [] \<Rightarrow> snd (pinned_transport d limit wire q w) = w
   | pinned # rest \<Rightarrow>
       (let there = \<lparr>cp_hostname = u_hostname (tr_url q), cp_address = rs_address pinned, cp_family = rs_family pinned\<rparr>;
            ((status, events), w') = wire there (tr_body q) (tr_timeoutMs q) w;
            bound = (case limit of Some n \<Rightarrow> n | None \<Rightarrow> EXTERNAL_ANSWER_MAX_BYTES) in
        \<exists>r. run_exchange d bound status (events @ [Timed_Out]) = Some r
            \<and> pinned_transport d limit wire q w = (r, w')
            \<and> (case r of Inl _ \<Rightarrow> True
               | Inr a \<Rightarrow> ts_status a = status \<and> (\<exists>bytes. length bytes \<le> bound \<and> ts_body a = d bytes)))"
proof (cases "tr_addresses q")
  case Nil
  then show ?thesis by (simp add: pinned_transport_def)
next
  case (Cons pinned rest)
  define bound where "bound = (case limit of Some n \<Rightarrow> n | None \<Rightarrow> EXTERNAL_ANSWER_MAX_BYTES)"
  obtain status events w' where e: "wire \<lparr>cp_hostname = u_hostname (tr_url q), cp_address = rs_address pinned,
      cp_family = rs_family pinned\<rparr> (tr_body q) (tr_timeoutMs q) w = ((status, events), w')" by (metis prod.exhaust)
  from run_exchange_settles[of d bound status events]
  obtain r where r: "run_exchange d bound status (events @ [Timed_Out]) = Some r"
    "case r of Inl _ \<Rightarrow> True | Inr a \<Rightarrow> ts_status a = status \<and> (\<exists>bytes. length bytes \<le> bound \<and> ts_body a = d bytes)"
    by (fastforce split: sum.splits)
  have "pinned_transport d limit wire q w = (r, w')"
    using r(1) by (simp add: pinned_transport_def Cons e Let_def bound_def)
  with r show ?thesis unfolding Cons list.case Let_def e prod.case bound_def[symmetric] by simp
qed

section \<open>The release\<close>

text \<open>What is sent, and the request it is sent with.\<close>

definition released_by ::
  "'w external_adapter \<Rightarrow> sdk_request \<Rightarrow> release_context \<Rightarrow> int \<Rightarrow> resolved_address list \<Rightarrow> string \<Rightarrow> string \<Rightarrow> transport_request" where
  "released_by a request release timeout addresses sig algorithm =
     \<lparr>tr_url = ea_url a, tr_addresses = addresses,
      tr_body = \<lparr>sl_release = release_body a request release, sl_algorithm = algorithm, sl_keyId = ea_keyId a, sl_value = sig\<rparr>,
      tr_timeoutMs = min timeout (et_timeoutMs (eo_target (ea_options a)))\<rparr>"

text \<open>Either nothing is sent, or all of this holds.\<close>

definition release_grounds ::
  "'w external_adapter \<Rightarrow> sdk_request \<Rightarrow> 'v execution_context \<Rightarrow> release_context \<Rightarrow> resolved_address list \<Rightarrow> string \<Rightarrow> string \<Rightarrow> bool" where
  "release_grounds a request xc release addresses sig algorithm \<longleftrightarrow>
     (let opts = ea_options a in
      xc_release xc = Some release \<and> sr_capability request = et_capability (eo_target opts)
      \<and> set (obj_keys (sr_parameters request)) \<subseteq> set (et_allowedParameters (eo_target opts))
      \<and> eo_lookup opts (u_hostname (ea_url a)) = Inr addresses \<and> addresses \<noteq> []
      \<and> (\<forall>x\<in>set addresses. isPublicAddress (rs_address x))
      \<and> eo_sign opts (ea_keyId a) (release_body a request release) = Inr (sig, algorithm))"

lemma disallowed_empty:
  "disallowed_parameters target ps = [] \<longleftrightarrow> set (obj_keys ps) \<subseteq> set (et_allowedParameters target)"
  by (auto simp: disallowed_parameters_def filter_empty_conv)

lemma execute_release:
  obtains (refused) e where "GatewayExternalAdapter_execute a request xc w = (Inl e, w)"
  | (sent) release addresses sig algorithm where
      "release_grounds a request xc release addresses sig algorithm"
      "GatewayExternalAdapter_execute a request xc w =
         (case eo_transport (ea_options a)
                 (released_by a request release (xc_timeoutMs xc) addresses sig algorithm) w of
            (Inl e, w') \<Rightarrow> (Inl e, w')
          | (Inr answer, w') \<Rightarrow>
              (GatewayExternalAdapter_acceptAnswer (ea_options a) request
                 (tr_body (released_by a request release (xc_timeoutMs xc) addresses sig algorithm)) answer, w'))"
proof -
  let ?opts = "ea_options a"
  show thesis
  proof (cases "sr_capability request = et_capability (eo_target ?opts) \<and> xc_release xc \<noteq> None
      \<and> disallowed_parameters (eo_target ?opts) (sr_parameters request) = []")
    case False
    then have "\<exists>e. GatewayExternalAdapter_execute a request xc w = (Inl e, w)"
      unfolding GatewayExternalAdapter_execute_def Let_def
      by (cases "xc_release xc"; cases "sr_capability request = et_capability (eo_target ?opts)";
          cases "disallowed_parameters (eo_target ?opts) (sr_parameters request) = []") simp_all
    then show ?thesis using refused by blast
  next
    case True
    then obtain release where c: "sr_capability request = et_capability (eo_target ?opts)" "xc_release xc = Some release"
      "disallowed_parameters (eo_target ?opts) (sr_parameters request) = []" by auto
    show ?thesis
    proof (cases "resolvePublicEndpointAddresses (eo_lookup ?opts) (ea_url a)")
      case (Inl e)
      with c show ?thesis by (intro refused) (simp add: GatewayExternalAdapter_execute_def Let_def)
    next
      case addresses: (Inr addresses)
      show ?thesis
      proof (cases "eo_sign ?opts (ea_keyId a) (release_body a request release)")
        case (Inl e)
        with c addresses show ?thesis
          by (intro refused) (simp add: GatewayExternalAdapter_execute_def GatewayExternalAdapter_sign_def Let_def)
      next
        case (Inr va)
        obtain sig algorithm where va: "va = (sig, algorithm)" by (rule prod.exhaust)
        show ?thesis
        proof (rule sent[of release addresses sig algorithm])
          show "release_grounds a request xc release addresses sig algorithm"
            using c addresses Inr va by (simp add: release_grounds_def resolvePublic_Inr disallowed_empty Let_def)
        qed (use c addresses Inr va in \<open>simp add: GatewayExternalAdapter_execute_def GatewayExternalAdapter_sign_def
            released_by_def Let_def split: prod.split sum.split\<close>)
      qed
    qed
  qed
qed

lemma adapter_create_Inr:
  assumes "GatewayExternalAdapter_create parse opts = Inr a"
  shows "ea_options a = opts" "checkEndpointUrl parse (Some (JStr (et_endpointUrl (eo_target opts)))) = Inr (ea_url a)"
    "ea_connectorId a = ''ext-'' @ et_capability (eo_target opts)" "ea_capabilities a = [et_capability (eo_target opts)]"
    "isNamespacedCapability (et_capability (eo_target opts))"
  using assms
  by (auto simp: GatewayExternalAdapter_create_def connectorCapabilities_def split: sum.splits option.splits if_splits)

lemma external_release_guarded':
  assumes "GatewayExternalAdapter_create parse opts = Inr a"
    and "GatewayExternalAdapter_execute a request xc w = (q, w')" "ok q \<or> w' \<noteq> w"
  shows "u_protocol (ea_url a) = ''https:'' \<and> u_username (ea_url a) = [] \<and> u_password (ea_url a) = []
    \<and> parse_address (to_lower (u_hostname (ea_url a))) = None
    \<and> (\<exists>release addresses sig algorithm.
         release_grounds a request xc release addresses sig algorithm
         \<and> w' = snd (eo_transport opts (released_by a request release (xc_timeoutMs xc) addresses sig algorithm) w)
         \<and> er_audience (release_body a request release) = u_href (ea_url a)
         \<and> er_authorizationId (release_body a request release) = rx_authorizationId release
         \<and> er_expiresAt (release_body a request release) = eo_now opts + 60000)"
proof -
  note c = adapter_create_Inr[OF assms(1)]
  have url: "u_protocol (ea_url a) = ''https:''" "u_username (ea_url a) = []" "u_password (ea_url a) = []"
    "parse_address (to_lower (u_hostname (ea_url a))) = None" using c(2) by (simp_all add: checkEndpointUrl_Inr)
  show ?thesis
  proof (cases rule: execute_release[of a request xc w])
    case (refused e)
    with assms(2,3) show ?thesis by auto
  next
    case (sent release addresses sig algorithm)
    have "w' = snd (eo_transport opts (released_by a request release (xc_timeoutMs xc) addresses sig algorithm) w)"
      using sent(2) assms(2) c(1) by (auto split: prod.splits sum.splits)
    with sent(1) url c(1) show ?thesis by (auto simp: release_body_def EXTERNAL_RELEASE_TTL_MS_def)
  qed
qed

text \<open>
  C11: an adapter that was built releases only to an https host named without credentials, only with
  an authorization behind the request, only the parameters its registration allows, and only if
  every address the host has is public; the signed release names this endpoint as its audience and
  the authorization, and expires after sixty seconds.  Otherwise nothing outside changes.
\<close>

theorem external_release_guarded:
  assumes "GatewayExternalAdapter_create parse opts = Inr a"
    and "GatewayExternalAdapter_execute a request xc w = (q, w')" "ok q \<or> w' \<noteq> w"
  shows "u_protocol (ea_url a) = ''https:'' \<and> u_username (ea_url a) = [] \<and> u_password (ea_url a) = []
    \<and> parse_address (to_lower (u_hostname (ea_url a))) = None
    \<and> (\<exists>release addresses sig algorithm.
         release_grounds a request xc release addresses sig algorithm
         \<and> w' = snd (eo_transport opts (released_by a request release (xc_timeoutMs xc) addresses sig algorithm) w)
         \<and> er_audience (release_body a request release) = u_href (ea_url a)
         \<and> er_authorizationId (release_body a request release) = rx_authorizationId release
         \<and> er_expiresAt (release_body a request release) = eo_now opts + 60000)"
  by (rule external_release_guarded'[OF assms])

text \<open>A release with the address, the key and the endpoint of the sample deployment.\<close>

definition sample_adapter :: "nat external_adapter" where
  "sample_adapter = \<lparr>ea_options = \<lparr>eo_target = \<lparr>et_capability = ''crm:update'', et_endpointUrl = ''https://hooks.example/'',
         et_allowedParameters = [''id''], et_timeoutMs = 1000\<rparr>,
       eo_sign = \<lambda>k r. Inr (''sig'', ''ed25519''), eo_keyId = None, eo_lookup = ci_lookup sample_change_inputs,
       eo_transport = \<lambda>q n. (Inl ''did not answer'', Suc n), eo_now = 0, eo_parseJson = \<lambda>s. None,
       eo_numString = \<lambda>n. ''1'', eo_isoString = \<lambda>t. ''now''\<rparr>,
     ea_url = sample_endpoint, ea_connectorId = ''ext-crm:update'', ea_capabilities = [''crm:update''],
     ea_keyId = EXTERNAL_DEFAULT_KEY_ID\<rparr>"

definition sample_external_request :: sdk_request where
  "sample_external_request = \<lparr>sr_capability = ''crm:update'', sr_businessTransactionId = ''b1'', sr_action = ''crm:update'',
     sr_target = ''record'', sr_parameters = [(''id'', JStr ''7'')]\<rparr>"

definition sample_external_context :: "unit execution_context" where
  "sample_external_context = \<lparr>xc_credential = Branded ''static'' ''ext-crm:update'' (), xc_timeoutMs = 500, xc_requestedAt = 0,
     xc_release = Some \<lparr>rx_authorizationId = ''a1'', rx_policyName = ''p'', rx_policyVersion = ''1'',
       rx_policyContentHash = None, rx_approvals = []\<rparr>\<rparr>"

lemma sample_adapter_created:
  "GatewayExternalAdapter_create (ck_url sample_changes) (ea_options sample_adapter) = Inr sample_adapter"
proof -
  have "isNamespacedCapability ''crm:update''" by code_simp
  with sample_url_ok show ?thesis
    by (simp add: GatewayExternalAdapter_create_def sample_adapter_def connectorCapabilities_def)
qed

lemma sample_adapter_releases:
  "GatewayExternalAdapter_execute sample_adapter sample_external_request sample_external_context 0 = (Inl ''did not answer'', 1)"
  using sample_resolves
  by (simp add: GatewayExternalAdapter_execute_def GatewayExternalAdapter_sign_def Let_def sample_adapter_def
      sample_external_request_def sample_external_context_def disallowed_parameters_def obj_keys_def)

theorem external_release_guarded_witness:
  "u_protocol (ea_url sample_adapter) = ''https:''
   \<and> (\<exists>release addresses sig algorithm.
        release_grounds sample_adapter sample_external_request sample_external_context release addresses sig algorithm)"
  using external_release_guarded[OF sample_adapter_created sample_adapter_releases] by auto

section \<open>Accepted answers\<close>

text \<open>
  An answer is accepted exactly when it is HTTP 200 and a JSON object that echoes the transaction
  and the capability, with a boolean success, a result object of at most 16 KB and no \<open>executedAt\<close>
  that is not a text; the success reported is the one the endpoint gave.
\<close>

theorem answer_accepted_exactly:
  "GatewayExternalAdapter_acceptAnswer opts request sent answer = Inr response \<longleftrightarrow>
     ts_status answer = 200
     \<and> (\<exists>kvs b res. eo_parseJson opts (ts_body answer) = Some (JObj kvs)
          \<and> map_of kvs ''businessTransactionId'' = Some (JStr (sr_businessTransactionId request))
          \<and> map_of kvs ''capability'' = Some (JStr (sr_capability request))
          \<and> map_of kvs ''success'' = Some (JBool b) \<and> map_of kvs ''result'' = Some (JObj res)
          \<and> utf8_length (json_stringify (eo_numString opts) (JObj res)) \<le> 16384
          \<and> (case map_of kvs ''executedAt'' of None \<Rightarrow> True | Some v \<Rightarrow> is_str v)
          \<and> response = \<lparr>sp_success = b, sp_metadata = Some (accepted_metadata (eo_isoString opts) sent (JObj kvs))\<rparr>)"
proof -
  have plain: "isPlainObject (Some body) \<longleftrightarrow> (\<exists>kvs. body = JObj kvs)" for body by (cases body) auto
  have none: "answer_problems (eo_numString opts) request (JObj kvs) = [] \<longleftrightarrow>
      map_of kvs ''businessTransactionId'' = Some (JStr (sr_businessTransactionId request))
      \<and> map_of kvs ''capability'' = Some (JStr (sr_capability request))
      \<and> (\<exists>b. map_of kvs ''success'' = Some (JBool b))
      \<and> (\<exists>res. map_of kvs ''result'' = Some (JObj res)
           \<and> utf8_length (json_stringify (eo_numString opts) (JObj res)) \<le> 16384)
      \<and> (case map_of kvs ''executedAt'' of None \<Rightarrow> True | Some v \<Rightarrow> is_str v)" for kvs
    unfolding answer_problems_def EXTERNAL_RESULT_MAX_BYTES_def
    by (simp split: option.split json.split)
  show ?thesis
    unfolding GatewayExternalAdapter_acceptAnswer_def Let_def
    by (cases "eo_parseJson opts (ts_body answer)") (auto simp: plain none)
qed

end
