(* ===== verification/External_Results.thy ===== *)
theory External_Results
  imports External_Properties Control_Properties
begin

text \<open>
  From the registration to the release: the registry with external connectors over the stored
  registrations, and what a connector it resolves can do outside.
\<close>

section \<open>The registry over the registrations\<close>

text \<open>
  The server as it runs: requests change the stored registrations, and resolutions build connectors.
  A resolution may have read the store some requests ago.
\<close>

inductive aware_reach ::
  "'key change_config \<Rightarrow> change_world \<Rightarrow> ('cred, 'w) aware_registry \<Rightarrow> change_world \<Rightarrow> ('cred, 'w) aware_registry \<Rightarrow> bool"
  for k w0 r0 where
  start: "aware_reach k w0 r0 w0 r0"
| change: "aware_reach k w0 r0 w r \<Longrightarrow> change_step k w v \<Longrightarrow> aware_reach k w0 r0 v r"
| resolve: "aware_reach k w0 r0 w r \<Longrightarrow> (change_step k)\<^sup>*\<^sup>* w0 u \<Longrightarrow> (change_step k)\<^sup>*\<^sup>* u w \<Longrightarrow>
     aware_reach k w0 r0 w (snd (ExternalConnectorAwareRegistry_resolveCapability
       (\<lambda>c. Inr (MemoryExternalConnectors_findActive c (cw_connectors u))) capability r))"

text \<open>Every connector that was built is that of a stored registration.\<close>

definition built_from :: "change_world \<Rightarrow> ('cred, 'w) aware_registry \<Rightarrow> bool" where
  "built_from w r \<longleftrightarrow> (\<forall>i c. map_of (aw_built r) i = Some c \<longrightarrow>
     (\<exists>g h. map_of (xs_registrations (cw_connectors w)) i = Some h \<and> same_registration g h \<and> aw_build r g = Inr c))"

lemma same_registration_trans: "same_registration g h \<Longrightarrow> same_registration h f \<Longrightarrow> same_registration g f"
  by (simp add: same_registration_def)

lemma same_registration_sym: "same_registration g h \<Longrightarrow> same_registration h g"
  by (simp add: same_registration_def)

lemma built_from_change:
  assumes "built_from w r" "change_prims k w v" "governed_connectors k w"
  shows "built_from v r"
  unfolding built_from_def
proof (intro allI impI)
  fix i c assume "map_of (aw_built r) i = Some c"
  with assms(1) obtain g h where g: "map_of (xs_registrations (cw_connectors w)) i = Some h" "same_registration g h" "aw_build r g = Inr c"
    unfolding built_from_def by blast
  from prims_same_registration[OF assms(2,3) g(1)] obtain f where
    "map_of (xs_registrations (cw_connectors v)) i = Some f" "same_registration f h" by blast
  with g show "\<exists>g h. map_of (xs_registrations (cw_connectors v)) i = Some h \<and> same_registration g h \<and> aw_build r g = Inr c"
    by (meson same_registration_sym same_registration_trans)
qed

text \<open>What a resolution beyond the built-in connectors answers, and what it keeps.\<close>

lemma aware_resolve_cases:
  assumes "ExternalConnectorAwareRegistry_resolveCapability findActive capability r = (q, r')"
  obtains (same) "r' = r" "\<not> ok q"
  | (builtin) c where "r' = r" "aw_builtIn r capability = Inr c" "q = Inr c"
  | (kept) g c where "r' = r" "q = Inr c" "findActive capability = Inr (Some g)" "cr_capability g = capability"
      "map_of (aw_built r) (cr_id g) = Some c"
  | (built) g c where "q = Inr c" "r' = r\<lparr>aw_built := map_set (cr_id g) c (aw_built r)\<rparr>"
      "findActive capability = Inr (Some g)" "cr_capability g = capability" "aw_build r g = Inr c"
proof (cases "aw_builtIn r capability")
  case (Inr c)
  with assms show thesis by (intro builtin[of c]) (auto simp: ExternalConnectorAwareRegistry_resolveCapability_def)
next
  case (Inl e)
  show thesis
  proof (cases "\<exists>x. e = ConnectorNotRegistered x")
    case False
    with Inl assms have "r' = r" "q = Inl e"
      by (cases e; simp add: ExternalConnectorAwareRegistry_resolveCapability_def)+
    then show thesis by (intro same) simp_all
  next
    case True
    with Inl assms have a: "(case findActive capability of
             Inl e \<Rightarrow> (Inl e, r)
           | Inr None \<Rightarrow> (Inl (ConnectorNotRegistered capability), r)
           | Inr (Some registration) \<Rightarrow>
               if cr_capability registration \<noteq> capability then (Inl (ConnectorNotRegistered capability), r)
               else (case map_of (aw_built r) (cr_id registration) of
                 Some c \<Rightarrow> (Inr c, r)
               | None \<Rightarrow>
                   (case aw_build r registration of
                      Inl e \<Rightarrow> (Inl e, r)
                    | Inr c \<Rightarrow> (Inr c, r\<lparr>aw_built := map_set (cr_id registration) c (aw_built r)\<rparr>)))) = (q, r')"
      by (auto simp: ExternalConnectorAwareRegistry_resolveCapability_def)
    show thesis
    proof (cases "ok q")
      case False
      then obtain x where "q = Inl x" by (cases q) auto
      with a have "r' = r" by (auto split: sum.splits option.splits if_splits)
      with False show thesis by (intro same)
    next
      case True
      with a obtain g where g: "findActive capability = Inr (Some g)" "cr_capability g = capability"
        by (auto split: sum.splits option.splits if_splits)
      show thesis
      proof (cases "map_of (aw_built r) (cr_id g)")
        case (Some c)
        with a g have "r' = r" "q = Inr c" by simp_all
        then show thesis using kept g Some by blast
      next
        case None
        show thesis
        proof (cases "aw_build r g")
          case (Inl x)
          with a g None have "q = Inl x" by simp
          with True show thesis by simp
        next
          case (Inr c)
          with a g None have "r' = r\<lparr>aw_built := map_set (cr_id g) c (aw_built r)\<rparr>" "q = Inr c" by simp_all
          then show thesis using built g Inr by blast
        qed
      qed
    qed
  qed
qed

lemma resolve_built_from:
  assumes "built_from w r" "governed_connectors k u" "change_prims k u w"
    and "ExternalConnectorAwareRegistry_resolveCapability
       (\<lambda>c. Inr (MemoryExternalConnectors_findActive c (cw_connectors u))) capability r = (q, r')"
  shows "built_from w r' \<and> aw_build r' = aw_build r \<and> aw_builtIn r' = aw_builtIn r"
  using assms(4)
proof (cases rule: aware_resolve_cases)
  case (built g c)
  from built(3) findActive_stored(1)[OF _ assms(2)] have "map_of (xs_registrations (cw_connectors u)) (cr_id g) = Some g" by simp
  from prims_same_registration[OF assms(3,2) this] obtain h where
    h: "map_of (xs_registrations (cw_connectors w)) (cr_id g) = Some h" "same_registration h g" by blast
  have old: "\<exists>g h. map_of (xs_registrations (cw_connectors w)) i = Some h \<and> same_registration g h \<and> aw_build r g = Inr x"
    if "map_of (aw_built r) i = Some x" for i x using assms(1) that by (simp add: built_from_def)
  have "\<exists>f h. map_of (xs_registrations (cw_connectors w)) i = Some h \<and> same_registration f h \<and> aw_build r f = Inr x"
    if "map_of (map_set (cr_id g) c (aw_built r)) i = Some x" for i x
  proof (cases "i = cr_id g")
    case True
    with that have "x = c" by simp
    with True h built(5) same_registration_sym[OF h(2)] show ?thesis by blast
  qed (use that old[of i x] in simp)
  then have "built_from w r'" unfolding built_from_def built(2) by simp
  with built show ?thesis by simp
qed (use assms(1) in simp_all)

lemma aware_reach_inv:
  assumes "aware_reach k w0 r0 w r" "governed_changes k w0" "aw_built r0 = []"
  shows "(change_step k)\<^sup>*\<^sup>* w0 w \<and> built_from w r \<and> aw_build r = aw_build r0 \<and> aw_builtIn r = aw_builtIn r0"
  using assms(1)
proof induction
  case start
  with assms(3) show ?case by (simp add: built_from_def)
next
  case (change w r v)
  with change_steps_prims[of k w0 w] assms(2) have "governed_changes k w" by blast
  with change change_step_prims[of k w v] show ?case
    using built_from_change by (auto simp: governed_changes_def)
next
  case (resolve w r u capability)
  from change_steps_prims[OF resolve.hyps(2) assms(2)] have "governed_changes k u" by blast
  with change_steps_prims[OF resolve.hyps(3)] have g: "governed_connectors k u" "change_prims k u w"
    by (auto simp: governed_changes_def)
  show ?case using resolve_built_from[OF _ g prod.collapse[symmetric]] resolve.IH by metis
qed

section \<open>What a resolved connector can do\<close>

text \<open>A connector built for a registration changes the world outside only by releasing to it.\<close>

lemma capability_policy_world:
  assumes "sc_execute (with_capability_policy opts c) inputs request st = (q, st')" "cs_world st' \<noteq> cs_world st"
  shows "sc_execute c inputs request st = (q, st')"
  using assms
  by (auto simp: with_capability_policy_def GatewayCapabilityConnectorPolicy_assertAllowed_def split: if_splits)

lemma sdk_executor_world:
  assumes "snd (SdkConnectorExecutor_execute opts content credential authorization approvals w) \<noteq> w"
  shows "ec_action content \<in> set (cn_capabilities (so_connector opts)) \<and> isCredentialHandle credential
     \<and> (\<exists>xc. xc_release xc = Some (release_context_of authorization approvals)
          \<and> snd (SdkConnectorExecutor_execute opts content credential authorization approvals w)
              = snd (cn_execute (so_connector opts) (sdk_request_of content) xc w))"
proof -
  let ?xc = "\<lparr>xc_credential = credential,
                 xc_timeoutMs = (case so_timeoutMs opts of Some t \<Rightarrow> t | None \<Rightarrow> SDK_DEFAULT_TIMEOUT_MS),
                 xc_requestedAt = fst (so_clock opts),
                 xc_release = Some (release_context_of authorization approvals)\<rparr>"
  obtain z w' where z: "cn_execute (so_connector opts) (sdk_request_of content) ?xc w = (z, w')" by (rule prod.exhaust)
  show ?thesis
    using assms z unfolding SdkConnectorExecutor_execute_def Let_def
    by (cases z) (auto split: if_splits option.splits intro!: exI[of _ ?xc])
qed

definition external_action ::
  "url_parse \<Rightarrow> 'w external_options \<Rightarrow> connector_registration \<Rightarrow> gateway_execution_request \<Rightarrow> 'w \<Rightarrow> 'w \<Rightarrow> bool" where
  "external_action parse defaults g request w w' \<longleftrightarrow>
     (let content = gx_executableContent request;
          release = release_context_of (gx_authorization request) (request_approvals request) in
      ec_action content = cr_capability g
      \<and> set (obj_keys (ec_parameters content)) \<subseteq> set (cr_allowedParameters g)
      \<and> (\<exists>url (a :: 'w external_adapter) timeout addresses sig algorithm.
           checkEndpointUrl parse (Some (JStr (cr_endpointUrl g))) = Inr url \<and> ea_url a = url
           \<and> eo_lookup defaults (u_hostname url) = Inr addresses \<and> addresses \<noteq> []
           \<and> (\<forall>x\<in>set addresses. isPublicAddress (rs_address x))
           \<and> eo_sign defaults (ea_keyId a) (release_body a (sdk_request_of content) release) = Inr (sig, algorithm)
           \<and> er_audience (release_body a (sdk_request_of content) release) = u_href url
           \<and> w' = snd (eo_transport defaults
                (released_by a (sdk_request_of content) release timeout addresses sig algorithm) w)))"

lemma adapter_action:
  assumes "GatewayExternalAdapter_create parse (defaults\<lparr>eo_target := target_of g\<rparr>) = Inr a"
    and "GatewayExternalAdapter_execute a (sdk_request_of (gx_executableContent request)) xc w = (q, w')" "w' \<noteq> w"
    and "xc_release xc = Some (release_context_of (gx_authorization request) (request_approvals request))"
  shows "external_action parse defaults g request w w'"
proof -
  note c = adapter_create_Inr[OF assms(1)]
  from external_release_guarded'[OF assms(1,2)] assms(3) obtain release addresses sig algorithm where
    r: "release_grounds a (sdk_request_of (gx_executableContent request)) xc release addresses sig algorithm"
    "w' = snd (eo_transport (defaults\<lparr>eo_target := target_of g\<rparr>) (released_by a (sdk_request_of (gx_executableContent request))
       release (xc_timeoutMs xc) addresses sig algorithm) w)" by blast
  from r(1) assms(4) c(1) have g: "release = release_context_of (gx_authorization request) (request_approvals request)"
    "sr_capability (sdk_request_of (gx_executableContent request)) = cr_capability g"
    "set (obj_keys (sr_parameters (sdk_request_of (gx_executableContent request)))) \<subseteq> set (cr_allowedParameters g)"
    "eo_lookup defaults (u_hostname (ea_url a)) = Inr addresses" "addresses \<noteq> []"
    "\<forall>x\<in>set addresses. isPublicAddress (rs_address x)"
    "eo_sign defaults (ea_keyId a) (release_body a (sdk_request_of (gx_executableContent request)) release) = Inr (sig, algorithm)"
    by (simp_all add: release_grounds_def Let_def target_of_def)
  have u: "checkEndpointUrl parse (Some (JStr (cr_endpointUrl g))) = Inr (ea_url a)"
    "er_audience (release_body a (sdk_request_of (gx_executableContent request)) release) = u_href (ea_url a)"
    using c(2) by (simp_all add: target_of_def release_body_def)
  have "ec_action (gx_executableContent request) = cr_capability g"
    "set (obj_keys (ec_parameters (gx_executableContent request))) \<subseteq> set (cr_allowedParameters g)"
    using g(2,3) by (simp_all add: sdk_request_of_def)
  moreover have "w' = snd (eo_transport defaults (released_by a (sdk_request_of (gx_executableContent request)) release
       (xc_timeoutMs xc) addresses sig algorithm) w)" using r(2) by simp
  ultimately show ?thesis unfolding external_action_def Let_def using g u by blast
qed

lemma built_connector_action:
  assumes "build_external parse defaults base sdk g = Inr c"
    and "sc_execute c inputs request st = (q, st')" "cs_world st' \<noteq> cs_world st"
  shows "external_action parse defaults g request (cs_world st) (cs_world st')
     \<and> sc_connectorId c = ''ext-'' @ cr_capability g"
proof -
  from assms(1) obtain a where a: "GatewayExternalAdapter_create parse (defaults\<lparr>eo_target := target_of g\<rparr>) = Inr a"
    by (auto simp: build_external_def split: sum.splits)
  define opts where "opts = sdk\<lparr>so_connector := adapter_connector a,
                 so_metadata := \<lparr>cm_connectorId = ci_connectorId (externalConnectorIdentity (cr_capability g)),
                   cm_version = \<lparr>cv_major = 1, cv_minor = 0, cv_patch = 0\<rparr>, cm_health = Healthy\<rparr>,
                 so_timeoutMs := Some (cr_timeoutMs g)\<rparr>"
  define base' where "base' = base\<lparr>co_identity := externalConnectorIdentity (cr_capability g)\<rparr>"
  define base2 where "base2 = base'\<lparr>co_capabilities := cn_capabilities (so_connector opts), co_executor := SdkConnectorExecutor_execute opts\<rparr>"
  from assms(1) a have c: "c = with_capability_policy base' (SessionCredentialSecureConnector_create base2)"
    by (simp add: build_external_def Let_def opts_def base'_def base2_def buildSecureConnector_def)
  have i: "sc_connectorId c = ''ext-'' @ cr_capability g"
    by (simp add: c with_capability_policy_def SessionCredentialSecureConnector_create_def base2_def base'_def
        externalConnectorIdentity_def EXTERNAL_CONNECTOR_ID_PREFIX_def)
  from capability_policy_world[OF assms(2)[unfolded c] assms(3)]
  have "SessionCredentialSecureConnector_execute base2 inputs request st = (q, st')"
    by (simp add: SessionCredentialSecureConnector_create_def)
  from connector_changes_world[OF this assms(3)] obtain credential where
    w: "cs_world st' = snd (SdkConnectorExecutor_execute opts (gx_executableContent request) credential (gx_authorization request)
       (request_approvals request) (cs_world st))" by (auto simp: base2_def)
  with assms(3) have "snd (SdkConnectorExecutor_execute opts (gx_executableContent request) credential (gx_authorization request)
       (request_approvals request) (cs_world st)) \<noteq> cs_world st" by simp
  from sdk_executor_world[OF this] obtain xc where
    x: "xc_release xc = Some (release_context_of (gx_authorization request) (request_approvals request))"
    "cs_world st' = snd (cn_execute (so_connector opts) (sdk_request_of (gx_executableContent request)) xc (cs_world st))"
    unfolding w by blast
  from x(2) have "cs_world st' = snd (GatewayExternalAdapter_execute a (sdk_request_of (gx_executableContent request)) xc (cs_world st))"
    by (simp add: opts_def adapter_connector_def)
  with adapter_action[OF a prod.collapse[symmetric] _ x(1)] assms(3) i show ?thesis by metis
qed

section \<open>Mediation\<close>

lemma resolved_action:
  assumes "aware_reach k w0 r0 w r" "governed_changes k w0" "aw_built r0 = []"
    and "aw_build r0 = build_external parse defaults base sdk" "aw_builtIn r0 capability = Inl e"
    and "(change_step k)\<^sup>*\<^sup>* w0 u" "(change_step k)\<^sup>*\<^sup>* u w"
    and "ExternalConnectorAwareRegistry_resolveCapability
           (\<lambda>c. Inr (MemoryExternalConnectors_findActive c (cw_connectors u))) capability r = (Inr c, r')"
    and "sc_execute c inputs request st = (q, st')" "cs_world st' \<noteq> cs_world st"
  shows "\<exists>g. MemoryExternalConnectors_findActive capability (cw_connectors u) = Some g
     \<and> connector_origin k u g \<and> external_action parse defaults g request (cs_world st) (cs_world st')"
proof -
  from aware_reach_inv[OF assms(1-3)] have i: "built_from w r" "aw_build r = aw_build r0" "aw_builtIn r = aw_builtIn r0" by simp_all
  from change_steps_prims[OF assms(6,2)] have gu: "governed_changes k u" by blast
  with change_steps_prims[OF assms(7)] have g: "governed_connectors k u" "change_prims k u w" "governed_connectors k w"
    by (auto simp: governed_changes_def)
  have origin: "connector_origin k u g"
    if "MemoryExternalConnectors_findActive capability (cw_connectors u) = Some g" for g
    using findActive_stored(1)[OF that g(1)] g(1) by (simp add: governed_connectors_def)
  have act: "external_action parse defaults g request (cs_world st) (cs_world st')"
    if "same_registration f g" "aw_build r f = Inr c" for f g
  proof -
    from that(2) i(2) assms(4) have "build_external parse defaults base sdk f = Inr c" by simp
    from built_connector_action[OF this assms(9,10)] have "external_action parse defaults f request (cs_world st) (cs_world st')" ..
    with that(1) show ?thesis by (simp add: external_action_def same_registration_def)
  qed
  from assms(8) show ?thesis
  proof (cases rule: aware_resolve_cases)
    case (kept g x)
    then have a: "MemoryExternalConnectors_findActive capability (cw_connectors u) = Some g" by simp
    from i(1) kept(5) obtain f h where f: "map_of (xs_registrations (cw_connectors w)) (cr_id g) = Some h"
      "same_registration f h" "aw_build r f = Inr x" unfolding built_from_def by blast
    from prims_same_registration[OF g(2,1) findActive_stored(1)[OF a g(1)]] f(1) have "same_registration h g" by auto
    with f(2) have "same_registration f g" by (rule same_registration_trans)
    with act f(3) kept(2) a origin show ?thesis by auto
  next
    case (built g x)
    then have a: "MemoryExternalConnectors_findActive capability (cw_connectors u) = Some g" by simp
    have "same_registration g g" by (simp add: same_registration_def)
    with act built(1,5) a origin show ?thesis by auto
  next
    case (builtin x)
    with i(3) assms(5) show ?thesis by simp
  qed simp
qed

section \<open>A sample deployment\<close>

text \<open>The network answers an error; it counts the releases it has seen.\<close>

definition sample_external :: "nat external_options" where
  "sample_external = \<lparr>eo_target = target_of \<lparr>cr_id = [], cr_capability = [], cr_endpointUrl = [], cr_policy = [],
       cr_allowedParameters = [], cr_timeoutMs = 0, cr_status = Active_Registration, cr_registeredAt = 0,
       cr_revokedByChangeId = None, cr_revokedAt = None\<rparr>,
     eo_sign = \<lambda>k r. Inr (''sig'', ''ed25519''), eo_keyId = None, eo_lookup = ci_lookup sample_change_inputs,
     eo_transport = \<lambda>q n. (Inl ''did not answer'', Suc n), eo_now = 0, eo_parseJson = \<lambda>s. None,
     eo_numString = \<lambda>n. ''1'', eo_isoString = tally\<rparr>"

definition sample_base :: "(json, unit credential, nat) connector_options" where
  "sample_base = \<lparr>co_identity = externalConnectorIdentity [], co_capabilities = [],
     co_authenticator = SignedTokenConnectorAuthenticator sample_attestation_check sample_token, co_env = sample_env,
     co_gatewayAuthentication = sample_attestation ''a1'', co_lifetimeMs = 20,
     co_executor = \<lambda>content secret authorization approvals w. (Inl [], w)\<rparr>"

definition sample_sdk :: "(unit, nat) sdk_options" where
  "sample_sdk = \<lparr>so_connector = \<lparr>cn_connectorId = [], cn_capabilities = [], cn_execute = \<lambda>q x w. (Inl [], w)\<rparr>,
     so_metadata = \<lparr>cm_connectorId = [], cm_version = \<lparr>cv_major = 1, cv_minor = 0, cv_patch = 0\<rparr>, cm_health = Healthy\<rparr>,
     so_credentialProviderId = ''static'', so_expectedVersion = None, so_timeoutMs = None, so_strip = \<lambda>s. None,
     so_hash = \<lambda>e. ''h'', so_isoString = tally, so_clock = (0, 1)\<rparr>"

definition sample_aware :: "(unit credential, nat) aware_registry" where
  "sample_aware = \<lparr>aw_builtIn = \<lambda>c. Inl (ConnectorNotRegistered c), aw_get = \<lambda>n. Inl (UnknownConnector n),
     aw_build = build_external (ck_url sample_changes) sample_external sample_base sample_sdk, aw_built = []\<rparr>"

definition external_sample_release :: execution_release where
  "external_sample_release = ExecutionGateway_release ''now'' \<lparr>ec_businessTransactionId = ''b1'', ec_action = ''crm:update'',
     ec_target = ''record'', ec_parameters = [(''id'', JStr ''7'')]\<rparr> (sample_authorization ''A'' 100) []"

definition external_sample_request :: gateway_execution_request where
  "external_sample_request = connector_request external_sample_release sample_gateway_identity sample_session"

definition external_sample_state :: "(unit credential, nat) control_state" where
  "external_sample_state = \<lparr>cs_sessions = snd (GatewaySessionStore_create sample_env 7 ''s1'' external_sample_release
       ''ext-crm:update'' 30 7 10 []),
     cs_vault = [(''ext-crm:update'', Branded ''static'' ''ext-crm:update'' ())], cs_leases = [], cs_audit = [], cs_world = 0\<rparr>"

lemma external_sample_allowed:
  "fst (DefaultConnectorPolicy_assertAllowed (SignedTokenConnectorAuthenticator sample_attestation_check sample_token)
     sample_env (sample_times ''s1'' ''c1'') external_sample_request ''ext-crm:update'' [''crm:update'']
     (externalConnectorIdentity ''crm:update'') (sample_attestation ''a1'') external_sample_state) = Inr ()"
  by code_simp

lemma external_sample_lease:
  "case SessionCredentialVault_issue tally (cs_vault external_sample_state) 20 ''c1'' 13 ''ext-crm:update'' ''a1'' [] of
     (Inl e, l) \<Rightarrow> False
   | (Inr lease, l) \<Rightarrow> fst (SessionCredentialVault_consume (cs_vault external_sample_state) 14
       (sk_sessionCredentialId lease) l) = Inr (Branded ''static'' ''ext-crm:update'' ())"
  by code_simp

text \<open>A connector that is allowed, with a lease that can be used, runs its executor.\<close>

lemma connector_runs:
  assumes "fst (DefaultConnectorPolicy_assertAllowed (co_authenticator opts) (co_env opts) inputs request
            (ci_connectorId (co_identity opts)) (co_capabilities opts) (co_identity opts) (co_gatewayAuthentication opts) st) = Inr ()"
    and "case SessionCredentialVault_issue (sn_isoString (co_env opts)) (cs_vault st) (co_lifetimeMs opts)
            (ki_credentialId inputs) (ki_issuedAt inputs) (ci_connectorId (co_identity opts))
            (ap_authorizationId (gx_payload request)) (cs_leases st) of
       (Inl e, l) \<Rightarrow> False
     | (Inr lease, l) \<Rightarrow> fst (SessionCredentialVault_consume (cs_vault st) (ki_usedAt inputs)
         (sk_sessionCredentialId lease) l) = Inr credential"
  shows "cs_world (snd (SessionCredentialSecureConnector_execute opts inputs request st)) =
     snd (co_executor opts (gx_executableContent request) credential (gx_authorization request)
       (request_approvals request) (cs_world st))"
proof -
  obtain st1 where p: "DefaultConnectorPolicy_assertAllowed (co_authenticator opts) (co_env opts) inputs request
      (ci_connectorId (co_identity opts)) (co_capabilities opts) (co_identity opts) (co_gatewayAuthentication opts) st
      = (Inr (), st1)" using assms(1) by (metis prod.collapse)
  with assertAllowed_state obtain s' where s: "st1 = st\<lparr>cs_sessions := s'\<rparr>" by (metis snd_conv)
  from assms(2) obtain lease l l' where l: "SessionCredentialVault_issue (sn_isoString (co_env opts)) (cs_vault st) (co_lifetimeMs opts)
      (ki_credentialId inputs) (ki_issuedAt inputs) (ci_connectorId (co_identity opts))
      (ap_authorizationId (gx_payload request)) (cs_leases st) = (Inr lease, l)"
    "SessionCredentialVault_consume (cs_vault st) (ki_usedAt inputs) (sk_sessionCredentialId lease) l = (Inr credential, l')"
    by (auto split: prod.splits sum.splits) (metis prod.collapse)
  show ?thesis
    using p s l unfolding SessionCredentialSecureConnector_execute_def use_credential_def run_executor_def
    by (auto split: sum.splits prod.splits)
qed

lemma sample_capability: "isNamespacedCapability ''crm:update''"
  by code_simp

text \<open>The registered connector of the sample is built, and a request that is admitted reaches the network.\<close>

lemma external_sample_run:
  assumes "MemoryExternalConnectors_findActive ''crm:update'' (cw_connectors registered_world) = Some g"
    and "cr_endpointUrl g = ''https://hooks.example/''" "cr_allowedParameters g = [''id'']"
  obtains c r' where "ExternalConnectorAwareRegistry_resolveCapability
       (\<lambda>c. Inr (MemoryExternalConnectors_findActive c (cw_connectors registered_world))) ''crm:update'' sample_aware = (Inr c, r')"
    "cs_world (snd (sc_execute c (sample_times ''s1'' ''c1'') external_sample_request external_sample_state)) = 1"
proof -
  have cap: "cr_capability g = ''crm:update''"
    using assms(1) by (auto simp: MemoryExternalConnectors_findActive_def dest: find_Some_mem)
  let ?opts = "sample_external\<lparr>eo_target := target_of g\<rparr>"
  define a where "a = \<lparr>ea_options = ?opts, ea_url = sample_endpoint, ea_connectorId = ''ext-crm:update'',
    ea_capabilities = [''crm:update''], ea_keyId = EXTERNAL_DEFAULT_KEY_ID\<rparr>"
  have a: "GatewayExternalAdapter_create (ck_url sample_changes) ?opts = Inr a"
    using sample_url_ok sample_capability
    by (simp add: GatewayExternalAdapter_create_def target_of_def assms(2) cap connectorCapabilities_def a_def
        sample_external_def)
  define sdk where "sdk = sample_sdk\<lparr>so_connector := adapter_connector a,
     so_metadata := \<lparr>cm_connectorId = ci_connectorId (externalConnectorIdentity ''crm:update''),
        cm_version = \<lparr>cv_major = 1, cv_minor = 0, cv_patch = 0\<rparr>, cm_health = Healthy\<rparr>,
     so_timeoutMs := Some (cr_timeoutMs g)\<rparr>"
  define base where "base = sample_base\<lparr>co_identity := externalConnectorIdentity ''crm:update'',
     co_capabilities := [''crm:update''], co_executor := SdkConnectorExecutor_execute sdk\<rparr>"
  define c where "c = with_capability_policy (sample_base\<lparr>co_identity := externalConnectorIdentity ''crm:update''\<rparr>)
     (SessionCredentialSecureConnector_create base)"
  have b: "build_external (ck_url sample_changes) sample_external sample_base sample_sdk g = Inr c"
    by (simp add: build_external_def a cap Let_def buildSecureConnector_def c_def base_def sdk_def adapter_connector_def a_def)
  have r: "ExternalConnectorAwareRegistry_resolveCapability
       (\<lambda>c. Inr (MemoryExternalConnectors_findActive c (cw_connectors registered_world))) ''crm:update'' sample_aware
     = (Inr c, sample_aware\<lparr>aw_built := [(cr_id g, c)]\<rparr>)"
    using b by (simp add: ExternalConnectorAwareRegistry_resolveCapability_def sample_aware_def assms(1) cap)
  have q: "ec_action (gx_executableContent external_sample_request) = ''crm:update''"
    "gx_executableContent external_sample_request = \<lparr>ec_businessTransactionId = ''b1'', ec_action = ''crm:update'',
       ec_target = ''record'', ec_parameters = [(''id'', JStr ''7'')]\<rparr>"
    "ap_authorizationId (gx_payload external_sample_request) = ''a1''"
    "cs_leases external_sample_state = []" "cs_world external_sample_state = 0"
    by (simp_all add: external_sample_request_def connector_request_def external_sample_release_def ExecutionGateway_release_def
        external_sample_state_def sample_authorization_def sample_payload_def)
  have run: "snd (SdkConnectorExecutor_execute sdk (gx_executableContent external_sample_request)
       (Branded ''static'' ''ext-crm:update'' ()) authorization approvals n) = Suc n" for authorization approvals n
    using sample_resolves
    by (simp add: SdkConnectorExecutor_execute_def Let_def sdk_def sample_sdk_def adapter_connector_def a_def q
        GatewayExternalAdapter_execute_def sdk_request_of_def disallowed_parameters_def target_of_def assms(3) cap obj_keys_def
        GatewayExternalAdapter_sign_def sample_external_def)
  have base: "co_authenticator base = SignedTokenConnectorAuthenticator sample_attestation_check sample_token"
    "co_env base = sample_env" "co_identity base = externalConnectorIdentity ''crm:update''" "co_capabilities base = [''crm:update'']"
    "co_gatewayAuthentication base = sample_attestation ''a1''" "co_lifetimeMs base = 20"
    "co_executor base = SdkConnectorExecutor_execute sdk"
    "ci_connectorId (externalConnectorIdentity ''crm:update'') = ''ext-crm:update''" "sn_isoString sample_env = tally"
    "ki_credentialId (sample_times ''s1'' ''c1'') = ''c1''" "ki_issuedAt (sample_times ''s1'' ''c1'') = 13"
    "ki_usedAt (sample_times ''s1'' ''c1'') = 14"
    by (simp_all add: base_def sample_base_def externalConnectorIdentity_def EXTERNAL_CONNECTOR_ID_PREFIX_def
        sample_env_def sample_times_def)
  have "cs_world (snd (SessionCredentialSecureConnector_execute base (sample_times ''s1'' ''c1'')
      external_sample_request external_sample_state)) = 1"
    using connector_runs[of base "sample_times ''s1'' ''c1''" external_sample_request external_sample_state
        "Branded ''static'' ''ext-crm:update'' ()", unfolded base q(3-5) run, OF external_sample_allowed external_sample_lease]
    by simp
  then have "cs_world (snd (sc_execute c (sample_times ''s1'' ''c1'') external_sample_request external_sample_state)) = 1"
    using sample_capability
    by (simp add: c_def with_capability_policy_def GatewayCapabilityConnectorPolicy_assertAllowed_def q
        SessionCredentialSecureConnector_create_def)
  with r show thesis by (rule that)
qed

section \<open>Properties\<close>



end
