(* ===== verification/Change_Repository.thy ===== *)
theory Change_Repository
  imports Connector_Changes
begin

text \<open>
  What the three repositories of pending changes share, as an interface: a change is resolved at
  most once, and what a resolution recorded stays.  The repositories of policy changes, of approver
  changes and of external connector changes are its interpretations, the last as long as nothing
  runs at the \<open>await\<close> inside its approval.
\<close>

section \<open>The interface\<close>

locale change_repository =
  fixes change :: "'s \<Rightarrow> string \<rightharpoonup> 'c"
    and pending :: "'c \<Rightarrow> bool"
    and create :: "'c \<Rightarrow> 's \<Rightarrow> (gov_error, 'c) result \<times> 's"
    and resolve :: "string \<Rightarrow> 'r \<Rightarrow> int \<Rightarrow> 's \<Rightarrow> (gov_error, 'c) result \<times> 's"
    and name :: "'c \<Rightarrow> string"
  assumes create_change: "change (snd (create c s)) i = Some d \<Longrightarrow> change s i = Some d \<or> i = name c"
    and create_keeps: "change s i = Some d \<Longrightarrow> i \<noteq> name c \<Longrightarrow> change (snd (create c s)) i = Some d"
    and resolve_refused: "resolve i r t s = (Inl e, s') \<Longrightarrow> s' = s"
    and resolve_pending: "resolve i r t s = (Inr c, s') \<Longrightarrow> \<exists>d. change s i = Some d \<and> pending d"
    and resolve_records: "resolve i r t s = (Inr c, s') \<Longrightarrow> change s' = (change s)(i \<mapsto> c) \<and> \<not> pending c"
begin

text \<open>The uses of a repository; the identifier of a change that is created is new.\<close>

inductive used :: "'s \<Rightarrow> 's \<Rightarrow> bool" where
  used_create: "change s (name c) = None \<Longrightarrow> used s (snd (create c s))"
| used_resolve: "used s (snd (resolve i r t s))"

lemma resolved_refused:
  assumes "change s i = Some c" "\<not> pending c"
  shows "\<not> ok (fst (resolve i r t s))"
proof
  assume "ok (fst (resolve i r t s))"
  then obtain d s' where "resolve i r t s = (Inr d, s')" by (metis ok_iff prod.collapse)
  from resolve_pending[OF this] assms show False by simp
qed

lemma resolved_kept:
  assumes "used s s'" "change s i = Some c" "\<not> pending c"
  shows "change s' i = Some c"
  using assms(1)
proof cases
  case (used_create d)
  with assms(2) have "i \<noteq> name d" by auto
  with create_keeps[OF assms(2)] used_create(1) show ?thesis by simp
next
  case (used_resolve j r t)
  show ?thesis
  proof (cases "fst (resolve j r t s)")
    case (Inl e)
    with used_resolve resolve_refused assms(2) show ?thesis by (metis prod.collapse)
  next
    case (Inr d)
    then have r: "resolve j r t s = (Inr d, s')" using used_resolve by (metis prod.collapse)
    from resolve_pending[OF r] assms(2,3) have "i \<noteq> j" by auto
    with resolve_records[OF r] assms(2) show ?thesis by simp
  qed
qed

lemma resolution_final:
  assumes "used\<^sup>*\<^sup>* s s'" "change s i = Some c" "\<not> pending c"
  shows "change s' i = Some c \<and> \<not> ok (fst (resolve i r t s'))"
proof -
  from assms(1) have "change s' i = Some c"
    by (induction rule: rtranclp_induct) (auto intro: assms(2) resolved_kept[OF _ _ assms(3)])
  with resolved_refused assms(3) show ?thesis by blast
qed

end

section \<open>The repositories\<close>

interpretation policy_repository: change_repository map_of "\<lambda>c. pc_status c = PENDING_APPROVAL"
  "MemoryPendingChanges_create (\<lambda>s. s)" MemoryPendingChanges_resolve pc_id
  by unfold_locales
     (auto simp: MemoryPendingChanges_create_def MemoryPendingChanges_resolve_def applyPendingPolicyChangeResolution_def Let_def
        split: sum.splits option.splits if_splits change_resolution.splits)

definition issuer_resolve_change ::
  "string \<Rightarrow> change_resolution \<Rightarrow> int \<Rightarrow> issuer_store \<Rightarrow> (gov_error, issuer_change) result \<times> issuer_store" where
  "issuer_resolve_change i r time s =
     (case r of ApprovedBy who \<Rightarrow> MemoryApprovalIssuers_approveChange i who time s
      | RejectedBy who reason \<Rightarrow> MemoryApprovalIssuers_rejectChange i who reason time s)"

interpretation issuer_repository: change_repository "\<lambda>s. map_of (is_changes s)" "\<lambda>c. ic_status c = PENDING_APPROVAL"
  MemoryApprovalIssuers_createChange issuer_resolve_change ic_id
  by unfold_locales
     (auto simp: MemoryApprovalIssuers_createChange_def issuer_resolve_change_def MemoryApprovalIssuers_approveChange_def
        MemoryApprovalIssuers_rejectChange_def MemoryApprovalIssuers_pending_def Let_def
        split: sum.splits option.splits if_splits change_resolution.splits)

definition connector_resolve_change ::
  "string \<Rightarrow> change_resolution \<Rightarrow> int \<Rightarrow> connector_store \<Rightarrow> (gov_error, connector_change) result \<times> connector_store" where
  "connector_resolve_change i r time s =
     (case r of ApprovedBy who \<Rightarrow> MemoryExternalConnectors_approveChange (\<lambda>s. s) i who time s
      | RejectedBy who reason \<Rightarrow> MemoryExternalConnectors_rejectChange i who reason time s)"

interpretation connector_repository: change_repository "\<lambda>s. map_of (xs_changes s)" "\<lambda>c. cc_status c = PENDING_APPROVAL"
  MemoryExternalConnectors_createChange connector_resolve_change cc_id
  by unfold_locales
     (auto simp: MemoryExternalConnectors_createChange_def connector_resolve_change_def MemoryExternalConnectors_approveChange_def
        MemoryExternalConnectors_rejectChange_def MemoryExternalConnectors_pending_def Let_def
        split: sum.splits option.splits if_splits change_resolution.splits)

text \<open>
  With a rejection at the \<open>await\<close> inside an approval, both succeed: the change ends approved and the
  connector is registered although the rejection was confirmed.
\<close>

lemma approval_overrides_rejection:
  assumes "map_of (xs_changes s) i = Some c" "cc_status c = PENDING_APPROVAL" "cc_action c = Register_Connector"
    and "MemoryExternalConnectors_findActive (cc_capability c) s = None"
  shows "let approved = MemoryExternalConnectors_approveChange
       (\<lambda>s. snd (MemoryExternalConnectors_rejectChange i bob why t s)) i carol u s in
     ok (fst (MemoryExternalConnectors_rejectChange i bob why t s)) \<and> ok (fst approved)
     \<and> map_option cc_status (map_of (xs_changes (snd approved)) i) = Some CHANGE_APPROVED
     \<and> map_option cr_status (map_of (xs_registrations (snd approved)) (cc_id c)) = Some Active_Registration"
  using assms
  by (simp add: MemoryExternalConnectors_approveChange_def MemoryExternalConnectors_rejectChange_def
      MemoryExternalConnectors_pending_def apply_connector_change_def Let_def)

section \<open>Resolved once\<close>

text \<open>
  Once an approver change is approved or rejected, whatever is created, approved or rejected
  afterwards leaves its resolution as it is, and every further resolution of it is refused.
\<close>

theorem issuer_resolution_final:
  assumes "issuer_repository.used\<^sup>*\<^sup>* s s'" "map_of (is_changes s) i = Some c" "ic_status c \<noteq> PENDING_APPROVAL"
  shows "map_of (is_changes s') i = Some c
     \<and> \<not> ok (fst (MemoryApprovalIssuers_approveChange i who t s'))
     \<and> \<not> ok (fst (MemoryApprovalIssuers_rejectChange i who reason t s'))"
  using issuer_repository.resolution_final[OF assms(1,2), of "ApprovedBy who" t]
    issuer_repository.resolution_final[OF assms(1,2), of "RejectedBy who reason" t] assms(3)
  by (simp add: issuer_resolve_change_def)

theorem issuer_resolution_final_witness:
  "\<exists>c. ic_status c = CHANGE_REJECTED
     \<and> \<not> ok (fst (MemoryApprovalIssuers_approveChange ''i'' ''bob'' 1 \<lparr>is_issuers = [], is_changes = [(''i'', c)]\<rparr>))"
proof -
  define c where "c = \<lparr>ic_id = ''i'', ic_action = Revoke_Issuer, ic_approverId = ''a'', ic_keyId = ''k'',
     ic_publicKeyPem = None, ic_reason = ''why'', ic_proposedBy = ''alice'', ic_proposedAt = 0,
     ic_status = CHANGE_REJECTED, ic_resolvedBy = None, ic_resolvedAt = None, ic_rejectionReason = None\<rparr>"
  have "ic_status c = CHANGE_REJECTED" by (simp add: c_def)
  with issuer_resolution_final[OF rtranclp.rtrancl_refl, of "\<lparr>is_issuers = [], is_changes = [(''i'', c)]\<rparr>" "''i''" c "''bob''" 1]
  show ?thesis by auto
qed

end
