(* ===== verification/Canonical.thy ===== *)
theory Canonical
  imports Prelude "HOL-Library.Word" "HOL-Library.Multiset"
begin

text \<open>
  The bytes every hash and signature is taken over: \<open>packages/crypto/src/CanonicalSerializer.ts\<close>.
  A value is normalized (the keys of every object sorted), printed by \<open>JSON.stringify\<close> and encoded
  in UTF-8.

  Parameters: the printed form of a finite number (the JavaScript engine) and of a date
  (\<open>toISOString\<close>).
\<close>

section \<open>Values\<close>

datatype js_value =
    Undefined
  | Null
  | Boolean bool
  | Number jsnum
  | Text string
  | Date int
  | Array "js_value list"
  | Object "(string \<times> js_value) list"

text \<open>
  The order of the own keys of an object: array indices below \<open>2^32 - 1\<close> by their value, then the
  other keys in the order they were defined.
\<close>

definition index_key :: "string \<Rightarrow> bool" where
  "index_key k = (case array_index k of Some i \<Rightarrow> i < 2 ^ 32 - 1 | None \<Rightarrow> False)"

definition own_order :: "(string \<times> 'a) list \<Rightarrow> (string \<times> 'a) list" where
  "own_order kvs =
     sort_key (\<lambda>kv. the (array_index (fst kv))) (filter (\<lambda>kv. index_key (fst kv)) kvs)
     @ filter (\<lambda>kv. \<not> index_key (fst kv)) kvs"

text \<open>
  \<open>normalize\<close>: the keys of an object are defined anew in sorted order.
\<close>

fun CanonicalSerializer_normalize :: "(int \<Rightarrow> string) \<Rightarrow> js_value \<Rightarrow> js_value" where
  "CanonicalSerializer_normalize isoString (Array vs) = Array (map (CanonicalSerializer_normalize isoString) vs)"
| "CanonicalSerializer_normalize isoString (Date t) = Text (isoString t)"
| "CanonicalSerializer_normalize isoString (Object kvs) =
     Object (own_order (sort_key fst (map (\<lambda>(k, v). (k, CanonicalSerializer_normalize isoString v)) kvs)))"
| "CanonicalSerializer_normalize isoString v = v"

text \<open>
  \<open>JSON.stringify\<close>: \<open>undefined\<close> prints as nothing, as \<open>null\<close> in an array, and a property with it is
  left out; a date is printed by its \<open>toJSON\<close>.
\<close>

fun js_stringify :: "(jsnum \<Rightarrow> string) \<Rightarrow> (int \<Rightarrow> string) \<Rightarrow> js_value \<Rightarrow> string option" where
  "js_stringify nstr isoString Undefined = None"
| "js_stringify nstr isoString Null = Some ''null''"
| "js_stringify nstr isoString (Boolean b) = Some (if b then ''true'' else ''false'')"
| "js_stringify nstr isoString (Number n) = Some (if num_finite n then nstr n else ''null'')"
| "js_stringify nstr isoString (Text s) = Some (quote_string s)"
| "js_stringify nstr isoString (Date t) = Some (quote_string (isoString t))"
| "js_stringify nstr isoString (Array vs) =
     Some (''['' @ join_comma (map (\<lambda>v. case js_stringify nstr isoString v of Some s \<Rightarrow> s | None \<Rightarrow> ''null'') vs) @ '']'')"
| "js_stringify nstr isoString (Object kvs) =
     Some (''{'' @ join_comma (concat (map (\<lambda>(k, v). case js_stringify nstr isoString v of
         Some s \<Rightarrow> [quote_string k @ '':'' @ s] | None \<Rightarrow> []) kvs)) @ ''}'')"

text \<open>\<open>TextEncoder.encode\<close> on the code units of the model, each below 256.\<close>

definition utf8_char :: "char \<Rightarrow> 8 word list" where
  "utf8_char c =
     (let n = of_char c :: nat in
      if n < 128 then [word_of_nat n] else [word_of_nat (192 + n div 64), word_of_nat (128 + n mod 64)])"

definition utf8 :: "string \<Rightarrow> 8 word list" where
  "utf8 s = concat (map utf8_char s)"

text \<open>\<open>encode(undefined)\<close> is empty.\<close>

definition CanonicalSerializer_serialize :: "(jsnum \<Rightarrow> string) \<Rightarrow> (int \<Rightarrow> string) \<Rightarrow> js_value \<Rightarrow> 8 word list" where
  "CanonicalSerializer_serialize nstr isoString v =
     (case js_stringify nstr isoString (CanonicalSerializer_normalize isoString v) of Some s \<Rightarrow> utf8 s | None \<Rightarrow> [])"

section \<open>What a value says\<close>

text \<open>
  The JSON document a value stands for, and when two documents hold the same data: the order of
  keys does not count.
\<close>

fun json_of :: "(int \<Rightarrow> string) \<Rightarrow> js_value \<Rightarrow> json" where
  "json_of isoString Undefined = JNull"
| "json_of isoString Null = JNull"
| "json_of isoString (Boolean b) = JBool b"
| "json_of isoString (Number n) = (if num_finite n then JNum n else JNull)"
| "json_of isoString (Text s) = JStr s"
| "json_of isoString (Date t) = JStr (isoString t)"
| "json_of isoString (Array vs) = JArr (map (json_of isoString) vs)"
| "json_of isoString (Object kvs) =
     JObj (map (\<lambda>(k, v). (k, json_of isoString v)) (filter (\<lambda>(k, v). v \<noteq> Undefined) kvs))"

function same_json :: "json \<Rightarrow> json \<Rightarrow> bool" where
  "same_json (JArr vs) b = (case b of JArr ws \<Rightarrow> length vs = length ws \<and> list_all (\<lambda>(v, w). same_json v w) (zip vs ws) | _ \<Rightarrow> False)"
| "same_json (JObj kvs) b =
     (case b of
        JObj lws \<Rightarrow> length kvs = length lws
          \<and> list_all (\<lambda>(k, v). case map_of lws k of Some w \<Rightarrow> same_json v w | None \<Rightarrow> False) kvs
      | _ \<Rightarrow> False)"
| "same_json JNull b = (b = JNull)"
| "same_json (JBool x) b = (b = JBool x)"
| "same_json (JNum x) b = (b = JNum x)"
| "same_json (JStr x) b = (b = JStr x)"
  by pat_completeness auto

termination
proof (relation "measure (\<lambda>p. size (fst p))", goal_cases)
  case (2 vs b ws x v w)
  then have "v \<in> set vs" using set_zip_leftD by metis
  then show ?case using size_list_estimation'[of v vs "size v" size] by simp
next
  case (3 kvs b lws x k v w)
  then have "(k, v) \<in> set kvs" by simp
  then show ?case using size_list_estimation'[of "(k, v)" kvs "Suc (size v)" "size_prod (\<lambda>_. 0) size"] by simp
qed simp

text \<open>
  The form \<open>normalize\<close> gives: no date, and the keys of an object in the one order the language lists
  them in once they are defined in sorted order.
\<close>

definition key_le :: "string \<Rightarrow> string \<Rightarrow> bool" where
  "key_le k l =
     (if index_key k then \<not> index_key l \<or> the (array_index k) \<le> the (array_index l)
      else \<not> index_key l \<and> k \<le> l)"

fun canonical_value :: "js_value \<Rightarrow> bool" where
  "canonical_value (Date t) = False"
| "canonical_value (Array vs) = list_all canonical_value vs"
| "canonical_value (Object kvs) = (sorted_wrt key_le (map fst kvs) \<and> list_all (\<lambda>(k, v). canonical_value v) kvs)"
| "canonical_value _ = True"

text \<open>Every object has each key once.\<close>

fun distinct_keys :: "json \<Rightarrow> bool" where
  "distinct_keys (JArr vs) = list_all distinct_keys vs"
| "distinct_keys (JObj kvs) = (distinct (map fst kvs) \<and> list_all (\<lambda>(k, v). distinct_keys v) kvs)"
| "distinct_keys _ = True"

fun json_numbers :: "json \<Rightarrow> jsnum list" where
  "json_numbers (JNum n) = [n]"
| "json_numbers (JArr vs) = concat (map json_numbers vs)"
| "json_numbers (JObj kvs) = concat (map (\<lambda>(k, v). json_numbers v) kvs)"
| "json_numbers _ = []"

text \<open>
  What the printed form of the numbers in use has to be: not empty, of digits, sign, point and
  exponent, and different for different numbers.
\<close>

definition number_char :: "char \<Rightarrow> bool" where
  "number_char c = (is_digit c \<or> c = CHR ''-'' \<or> c = CHR ''+'' \<or> c = CHR ''.'' \<or> c = CHR ''e'')"

definition prints_numbers :: "(jsnum \<Rightarrow> string) \<Rightarrow> jsnum list \<Rightarrow> bool" where
  "prints_numbers nstr ns =
     (list_all (\<lambda>n. nstr n \<noteq> [] \<and> list_all number_char (nstr n)) ns
      \<and> list_all (\<lambda>m. list_all (\<lambda>n. nstr m = nstr n \<longrightarrow> m = n) ns) ns)"

section \<open>The serializer of the Python SDK\<close>

text \<open>
  \<open>python/parmana/crypto/canonical.py\<close> repeats the serializer for documents that were decoded from
  JSON: a dictionary keeps the order its keys are inserted in, whatever they look like.
\<close>

fun python_normalize :: "json \<Rightarrow> json" where
  "python_normalize (JArr vs) = JArr (map python_normalize vs)"
| "python_normalize (JObj kvs) = JObj (sort_key fst (map (\<lambda>(k, v). (k, python_normalize v)) kvs))"
| "python_normalize j = j"

text \<open>
  \<open>json.dumps\<close> with compact separators and \<open>ensure_ascii=False\<close>, which escapes the characters
  \<open>JSON.stringify\<close> escapes; how it prints a number is a parameter.
\<close>

fun python_dumps :: "(jsnum \<Rightarrow> string) \<Rightarrow> json \<Rightarrow> string" where
  "python_dumps pstr JNull = ''null''"
| "python_dumps pstr (JBool b) = (if b then ''true'' else ''false'')"
| "python_dumps pstr (JNum n) = pstr n"
| "python_dumps pstr (JStr s) = quote_string s"
| "python_dumps pstr (JArr vs) = ''['' @ join_comma (map (python_dumps pstr) vs) @ '']''"
| "python_dumps pstr (JObj kvs) =
     ''{'' @ join_comma (map (\<lambda>(k, v). quote_string k @ '':'' @ python_dumps pstr v) kvs) @ ''}''"

definition python_canonical_serialize :: "(jsnum \<Rightarrow> string) \<Rightarrow> json \<Rightarrow> 8 word list" where
  "python_canonical_serialize pstr j = utf8 (python_dumps pstr (python_normalize j))"

text \<open>The value a document decodes to in JavaScript, and a document without index keys.\<close>

fun js_of_json :: "json \<Rightarrow> js_value" where
  "js_of_json JNull = Null"
| "js_of_json (JBool b) = Boolean b"
| "js_of_json (JNum n) = Number n"
| "js_of_json (JStr s) = Text s"
| "js_of_json (JArr vs) = Array (map js_of_json vs)"
| "js_of_json (JObj kvs) = Object (own_order (map (\<lambda>(k, v). (k, js_of_json v)) kvs))"

fun no_index_keys :: "json \<Rightarrow> bool" where
  "no_index_keys (JArr vs) = list_all no_index_keys vs"
| "no_index_keys (JObj kvs) = list_all (\<lambda>(k, v). \<not> index_key k \<and> no_index_keys v) kvs"
| "no_index_keys _ = True"

end
