(* ===== verification/Canonical_Properties.thy ===== *)
theory Canonical_Properties
  imports Canonical
begin

text \<open>
  What the canonical bytes say: they are the same exactly for values that hold the same data.  The
  printed text is taken apart again by decoders of single characters, as instances of one interface.
\<close>

section \<open>Codes that delimit themselves\<close>

locale prefix_code =
  fixes enc :: "'a \<Rightarrow> 'c list" and dec :: "'c list \<Rightarrow> ('a \<times> 'c list) option"
  assumes dec_enc: "dec (enc a @ r) = Some (a, r)"
    and dec_Nil: "dec [] = None"
begin

lemma enc_append: "enc a @ r = enc b @ s \<longleftrightarrow> a = b \<and> r = s"
  by (metis dec_enc option.inject prod.inject)

lemma enc_nonempty: "enc a \<noteq> []"
  using dec_enc[of a "[]"] dec_Nil by fastforce

lemma encs_until:
  assumes "concat (map enc xs) @ r = concat (map enc ys) @ s" "dec r = None" "dec s = None"
  shows "xs = ys \<and> r = s"
  using assms(1)
proof (induction xs arbitrary: ys)
  case Nil
  then show ?case using assms(2) dec_enc by (cases ys) auto
next
  case (Cons x xs)
  show ?case
  proof (cases ys)
    case Nil
    with Cons.prems assms(3) dec_enc[of x "concat (map enc xs) @ r"] show ?thesis by simp
  next
    case (Cons y zs)
    with Cons.prems have "x = y" "concat (map enc xs) @ r = concat (map enc zs) @ s" by (simp_all add: enc_append)
    with Cons.IH Cons show ?thesis by simp
  qed
qed

lemma encs_inj: "concat (map enc xs) = concat (map enc ys) \<Longrightarrow> xs = ys"
  using encs_until[of xs "[]" ys "[]"] dec_Nil by simp

end

section \<open>UTF-8\<close>

definition utf8_decode :: "8 word list \<Rightarrow> (char \<times> 8 word list) option" where
  "utf8_decode bs =
     (case bs of
        [] \<Rightarrow> None
      | b # bs \<Rightarrow>
          if unat b < 128 then Some (char_of (unat b), bs)
          else (case bs of [] \<Rightarrow> None | c # cs \<Rightarrow> Some (char_of ((unat b - 192) * 64 + (unat c - 128)), cs)))"

lemma char_code: "(of_char c :: nat) < 256" "char_of (of_char c :: nat) = c"
  using nat_of_char_less_256 by simp_all

interpretation utf8: prefix_code utf8_char utf8_decode
proof
  fix c r
  have n: "(of_char c :: nat) < 256" "char_of (of_char c :: nat) = c" by (rule char_code)+
  have u: "unat (word_of_nat m :: 8 word) = m" if "m < 256" for m
    using that by (simp add: unat_of_nat take_bit_eq_mod)
  show "utf8_decode (utf8_char c @ r) = Some (c, r)"
  proof (cases "(of_char c :: nat) < 128")
    case True
    with n show ?thesis by (simp add: utf8_decode_def utf8_char_def u)
  next
    case False
    have "(of_char c :: nat) div 64 < 4" "(of_char c :: nat) mod 64 < 64"
      using n(1) by (simp_all add: less_mult_imp_div_less)
    then have "unat (word_of_nat (192 + of_char c div 64) :: 8 word) = 192 + of_char c div 64"
      "unat (word_of_nat (128 + of_char c mod 64) :: 8 word) = 128 + of_char c mod 64"
      using u[of "192 + of_char c div 64"] u[of "128 + of_char c mod 64"] by simp_all
    with False n(2) show ?thesis by (simp add: utf8_decode_def utf8_char_def Let_def)
  qed
qed (simp add: utf8_decode_def)

lemma utf8_inj: "utf8 s = utf8 t \<longleftrightarrow> s = t"
  unfolding utf8_def using utf8.encs_inj by blast

section \<open>Quoted texts\<close>

definition hex_digit_value :: "char \<Rightarrow> nat" where
  "hex_digit_value c = (if (of_char c :: nat) < 58 then of_char c - 48 else of_char c - 87)"

definition unescape :: "string \<Rightarrow> (char \<times> string) option" where
  "unescape s =
     (case s of
        [] \<Rightarrow> None
      | c # r \<Rightarrow>
          if c = CHR 0x22 then None
          else if c \<noteq> CHR 0x5C then Some (c, r)
          else (case r of
            e # r' \<Rightarrow>
              if e = CHR 0x22 \<or> e = CHR 0x5C then Some (e, r')
              else if e = CHR ''b'' then Some (char_of (8::nat), r')
              else if e = CHR ''t'' then Some (char_of (9::nat), r')
              else if e = CHR ''n'' then Some (char_of (10::nat), r')
              else if e = CHR ''f'' then Some (char_of (12::nat), r')
              else if e = CHR ''r'' then Some (char_of (13::nat), r')
              else (case r' of
                _ # _ # g # h # r'' \<Rightarrow> Some (char_of (16 * hex_digit_value g + hex_digit_value h), r'')
              | _ \<Rightarrow> None)
          | _ \<Rightarrow> None))"

lemma hex_digit_value: "n < 16 \<Longrightarrow> hex_digit_value (hex_digit n) = n"
  by (simp add: hex_digit_value_def hex_digit_def)

interpretation escaped: prefix_code escape_char unescape
proof
  fix c r
  define n where "n = (of_char c :: nat)"
  have n: "n < 256" "char_of n = c" unfolding n_def by (rule char_code)+
  have q: "c = CHR 0x22 \<longleftrightarrow> n = of_char (CHR 0x22 :: char)" "c = CHR 0x5C \<longleftrightarrow> n = of_char (CHR 0x5C :: char)"
    unfolding n_def of_char_eq_iff by (rule refl)+
  then have q: "c = CHR 0x22 \<longleftrightarrow> n = 34" "c = CHR 0x5C \<longleftrightarrow> n = 92" by simp_all
  consider "n = 34" | "n = 92" | "n = 8" | "n = 9" | "n = 10" | "n = 12" | "n = 13"
    | (control) "n < 32" "n \<notin> {8, 9, 10, 12, 13}" | (plain) "32 \<le> n" "n \<noteq> 34" "n \<noteq> 92" by fastforce
  then show "unescape (escape_char c @ r) = Some (c, r)"
  proof cases
    case control
    then have "escape_char c = [CHR 0x5C, CHR ''u'', CHR ''0'', CHR ''0'', hex_digit (n div 16), hex_digit (n mod 16)]"
      by (simp add: escape_char_def n_def[symmetric])
    moreover have "hex_digit_value (hex_digit (n div 16)) = n div 16" "hex_digit_value (hex_digit (n mod 16)) = n mod 16"
      using control(1) by (simp_all add: hex_digit_value)
    ultimately show ?thesis using n(2) by (simp add: unescape_def)
  next
    case plain
    then have "escape_char c = [c]" by (simp add: escape_char_def n_def[symmetric])
    with plain q show ?thesis by (simp add: unescape_def)
  qed (use n(2) q in \<open>simp_all add: escape_char_def n_def[symmetric] unescape_def\<close>)
qed (simp add: unescape_def)

lemma quote_append: "quote_string s @ r = quote_string t @ u \<longleftrightarrow> s = t \<and> r = u"
proof
  assume "quote_string s @ r = quote_string t @ u"
  then have "concat (map escape_char s) @ CHR 0x22 # r = concat (map escape_char t) @ CHR 0x22 # u"
    by (simp add: quote_string_def)
  moreover have "unescape (CHR 0x22 # x) = None" for x by (simp add: unescape_def)
  ultimately show "s = t \<and> r = u" using escaped.encs_until[of s "CHR 0x22 # r" t "CHR 0x22 # u"] by simp
qed simp

section \<open>The printed document\<close>

text \<open>A text that does not go on with a number.\<close>

definition delimited :: "string \<Rightarrow> bool" where
  "delimited r \<longleftrightarrow> r = [] \<or> \<not> number_char (hd r)"

lemma delimited_Cons [simp]: "delimited (c # r) \<longleftrightarrow> \<not> number_char c"
  by (simp add: delimited_def)

lemma not_number_char [simp]:
  "\<not> number_char CHR '',''" "\<not> number_char CHR '']''" "\<not> number_char CHR 0x7D" "\<not> number_char CHR 0x22"
  "\<not> number_char CHR ''n''" "\<not> number_char CHR ''t''" "\<not> number_char CHR ''f''" "\<not> number_char CHR ''[''"
  "\<not> number_char CHR 0x7B"
  by (simp_all add: number_char_def is_digit_def)

lemma join_comma_Cons: "join_comma (x # xs) = x @ concat (map (\<lambda>y. CHR '','' # y) xs)"
  by (induction xs arbitrary: x) simp_all

text \<open>Elements that delimit themselves, with commas between them up to a closing character.\<close>

lemma commas_until:
  assumes "\<And>x y r s. x \<in> set xs \<Longrightarrow> y \<in> set ys \<Longrightarrow> p x @ r = p y @ s \<Longrightarrow> delimited r \<Longrightarrow> delimited s \<Longrightarrow> x = y \<and> r = s"
    and "t \<noteq> CHR '',''" "\<not> number_char t"
    and "concat (map (\<lambda>x. CHR '','' # p x) xs) @ t # r = concat (map (\<lambda>x. CHR '','' # p x) ys) @ t # s"
  shows "xs = ys \<and> r = s"
  using assms(1,4)
proof (induction xs arbitrary: ys)
  case Nil
  with assms(2) show ?case by (cases ys) auto
next
  case (Cons x xs)
  from Cons.prems(2) assms(2) obtain y zs where ys: "ys = y # zs" by (cases ys) auto
  have d: "delimited (concat (map (\<lambda>x. CHR '','' # p x) us) @ t # w)" for us w
    using assms(3) by (cases us) simp_all
  from Cons.prems(2) ys have "p x @ concat (map (\<lambda>x. CHR '','' # p x) xs) @ t # r
      = p y @ concat (map (\<lambda>x. CHR '','' # p x) zs) @ t # s" by simp
  from Cons.prems(1)[OF _ _ this d d] ys have h: "x = y" "concat (map (\<lambda>x. CHR '','' # p x) xs) @ t # r
      = concat (map (\<lambda>x. CHR '','' # p x) zs) @ t # s" by simp_all
  have "xs = zs \<and> r = s" by (rule Cons.IH[OF _ h(2)]) (use Cons.prems(1) ys in auto)
  with h(1) ys show ?case by simp
qed

lemma joined_until:
  assumes "\<And>x y r s. x \<in> set xs \<Longrightarrow> y \<in> set ys \<Longrightarrow> p x @ r = p y @ s \<Longrightarrow> delimited r \<Longrightarrow> delimited s \<Longrightarrow> x = y \<and> r = s"
    and "t \<noteq> CHR '',''" "\<not> number_char t"
    and "\<And>x. x \<in> set xs \<union> set ys \<Longrightarrow> p x \<noteq> [] \<and> hd (p x) \<noteq> t"
    and "join_comma (map p xs) @ t # r = join_comma (map p ys) @ t # s"
  shows "xs = ys \<and> r = s"
proof (cases xs; cases ys)
  fix x us y zs assume xs: "xs = x # us" and ys: "ys = y # zs"
  have d: "delimited (concat (map (\<lambda>x. CHR '','' # p x) us) @ t # w)" for us w
    using assms(3) by (cases us) simp_all
  have e: "p x @ concat (map (\<lambda>x. CHR '','' # p x) us) @ t # r = p y @ concat (map (\<lambda>x. CHR '','' # p x) zs) @ t # s"
    using assms(5) by (simp add: xs ys join_comma_Cons comp_def)
  have h: "x = y" "concat (map (\<lambda>x. CHR '','' # p x) us) @ t # r = concat (map (\<lambda>x. CHR '','' # p x) zs) @ t # s"
    using assms(1)[OF _ _ e d d] xs ys by simp_all
  have "us = zs \<and> r = s" by (rule commas_until[OF assms(1) assms(2,3) h(2)]) (use xs ys in auto)
  with h(1) xs ys show ?thesis by simp
next
  fix y zs assume "xs = []" "ys = y # zs"
  with assms(4)[of y] assms(5) show ?thesis by (cases "p y") (simp_all add: join_comma_Cons)
next
  fix x us assume "xs = x # us" "ys = []"
  with assms(4)[of x] assms(5) show ?thesis by (cases "p x") (simp_all add: join_comma_Cons)
qed (use assms(5) in simp)

text \<open>The first character tells the kind of a document.\<close>

fun json_kind :: "json \<Rightarrow> nat" where
  "json_kind JNull = 0"
| "json_kind (JBool b) = (if b then 1 else 2)"
| "json_kind (JNum n) = 3"
| "json_kind (JStr s) = 4"
| "json_kind (JArr vs) = 5"
| "json_kind (JObj kvs) = 6"

definition char_kind :: "char \<Rightarrow> nat" where
  "char_kind c =
     (if number_char c then 3 else if c = CHR ''n'' then 0 else if c = CHR ''t'' then 1 else if c = CHR ''f'' then 2
      else if c = CHR 0x22 then 4 else if c = CHR ''['' then 5 else 6)"

definition prints_all :: "(jsnum \<Rightarrow> string) \<Rightarrow> jsnum set \<Rightarrow> bool" where
  "prints_all nstr ns \<longleftrightarrow> (\<forall>n\<in>ns. num_finite n \<and> nstr n \<noteq> [] \<and> list_all number_char (nstr n)) \<and> inj_on nstr ns"

lemma stringify_kind:
  assumes "prints_all nstr ns" "set (json_numbers a) \<subseteq> ns"
  shows "json_stringify nstr a \<noteq> [] \<and> char_kind (hd (json_stringify nstr a)) = json_kind a"
proof (cases a)
  case (JNum n)
  with assms have "num_finite n" "nstr n \<noteq> []" "list_all number_char (nstr n)" by (auto simp: prints_all_def)
  with JNum show ?thesis by (cases "nstr n") (simp_all add: char_kind_def)
qed (simp_all add: char_kind_def quote_string_def)

lemma stringify_opening:
  assumes "prints_all nstr ns" "set (json_numbers a) \<subseteq> ns"
  shows "json_stringify nstr a \<noteq> [] \<and> hd (json_stringify nstr a) \<noteq> CHR '']''"
proof -
  have "json_kind a = 6" if "hd (json_stringify nstr a) = CHR '']''"
    using that stringify_kind[OF assms] by (simp add: char_kind_def)
  moreover have "hd (json_stringify nstr a) = CHR 0x7B" if "json_kind a = 6"
    using that by (cases a) (simp_all split: if_splits)
  ultimately show ?thesis using stringify_kind[OF assms] by auto
qed

lemma numbers_until:
  assumes "list_all number_char x" "list_all number_char y" "delimited r" "delimited s" "x @ r = y @ s"
  shows "x = y \<and> r = s"
proof -
  have "takeWhile number_char (x @ r) = x" if "list_all number_char x" "delimited r" for x r
    using that by (induction x) (auto simp: delimited_def takeWhile_eq_Nil_iff)
  from this[OF assms(1,3)] this[OF assms(2,4)] assms(5) show ?thesis by simp
qed

lemma stringify_until:
  assumes "prints_all nstr ns"
  shows "set (json_numbers a) \<subseteq> ns \<Longrightarrow> set (json_numbers b) \<subseteq> ns \<Longrightarrow> json_stringify nstr a @ r = json_stringify nstr b @ s
    \<Longrightarrow> delimited r \<Longrightarrow> delimited s \<Longrightarrow> a = b \<and> r = s"
proof (induction a arbitrary: b r s)
  have kind: "json_kind a = json_kind b" if "set (json_numbers a) \<subseteq> ns" "set (json_numbers b) \<subseteq> ns"
    "json_stringify nstr a @ r = json_stringify nstr b @ s" for a b r s
  proof -
    from that(3) stringify_kind[OF assms that(1)] stringify_kind[OF assms that(2)]
    have "hd (json_stringify nstr a) = hd (json_stringify nstr b)" by (metis hd_append2)
    with stringify_kind[OF assms that(1)] stringify_kind[OF assms that(2)] show ?thesis by simp
  qed
  {
    case JNull
    with kind[OF JNull(1-3)] show ?case by (cases b) (simp_all split: if_splits)
  next
    case (JBool x)
    with kind[OF JBool(1-3)] show ?case by (cases b) (simp_all split: if_splits)
  next
    case (JNum m)
    from kind[OF JNum(1-3)] obtain n where b: "b = JNum n" by (cases b) (simp_all split: if_splits)
    have m: "num_finite m" "num_finite n" "list_all number_char (nstr m)" "list_all number_char (nstr n)" "inj_on nstr ns"
      "m \<in> ns" "n \<in> ns" using assms JNum(1,2) b by (simp_all add: prints_all_def)
    from JNum(3) m(1,2) b have "nstr m @ r = nstr n @ s" by simp
    from numbers_until[OF m(3,4) JNum(4,5) this] m(5-7) b show ?case by (simp add: inj_on_eq_iff)
  next
    case (JStr x)
    from kind[OF JStr(1-3)] obtain y where "b = JStr y" by (cases b) (simp_all split: if_splits)
    with JStr(3) show ?case by (simp add: quote_append)
  next
    case (JArr vs)
    from kind[OF JArr(2-4)] obtain ws where b: "b = JArr ws" by (cases b) (simp_all split: if_splits)
    have n: "set (json_numbers x) \<subseteq> ns" if "x \<in> set vs \<union> set ws" for x
      using JArr(2,3) b that by auto
    have e: "join_comma (map (json_stringify nstr) vs) @ CHR '']'' # r = join_comma (map (json_stringify nstr) ws) @ CHR '']'' # s"
      using JArr(4) b by simp
    have "vs = ws \<and> r = s"
    proof (rule joined_until[OF _ _ _ _ e])
      show "x = y \<and> r' = s'" if "x \<in> set vs" "y \<in> set ws" "json_stringify nstr x @ r' = json_stringify nstr y @ s'"
        "delimited r'" "delimited s'" for x y r' s'
        using JArr.IH[OF that(1) _ _ that(3-5)] n that(1,2) by blast
      show "json_stringify nstr x \<noteq> [] \<and> hd (json_stringify nstr x) \<noteq> CHR '']''" if "x \<in> set vs \<union> set ws" for x
        using stringify_opening[OF assms n[OF that]] by simp
    qed simp_all
    with b show ?case by simp
  next
    case (JObj kvs)
    from kind[OF JObj(2-4)] obtain lws where b: "b = JObj lws" by (cases b) (simp_all split: if_splits)
    have n: "set (json_numbers (snd x)) \<subseteq> ns" if "x \<in> set kvs \<union> set lws" for x
    proof -
      have "set (json_numbers (snd x)) \<subseteq> set (json_numbers (JObj us))" if "x \<in> set us" for us
        using that by (auto simp: case_prod_unfold)
      with that JObj(2,3) b show ?thesis by blast
    qed
    let ?p = "\<lambda>(k, v). quote_string k @ '':'' @ json_stringify nstr v"
    have e: "join_comma (map ?p kvs) @ CHR 0x7D # r = join_comma (map ?p lws) @ CHR 0x7D # s"
      using JObj(4) b by simp
    have "kvs = lws \<and> r = s"
    proof (rule joined_until[OF _ _ _ _ e])
      show "x = y \<and> r' = s'" if "x \<in> set kvs" "y \<in> set lws" "?p x @ r' = ?p y @ s'" "delimited r'" "delimited s'" for x y r' s'
      proof -
        have k: "fst x = fst y" "json_stringify nstr (snd x) @ r' = json_stringify nstr (snd y) @ s'"
          using that(3) by (simp_all add: case_prod_unfold quote_append)
        have "snd x \<in> Basic_BNFs.snds x" by (cases x) simp
        from JObj.IH[OF that(1) this n n k(2) that(4,5)] that(1,2) k(1) show ?thesis by (simp add: prod_eq_iff)
      qed
      show "?p x \<noteq> [] \<and> hd (?p x) \<noteq> CHR 0x7D" if "x \<in> set kvs \<union> set lws" for x
        by (simp add: case_prod_unfold quote_string_def)
    qed simp_all
    with b show ?case by simp
  }
qed

section \<open>The order of keys\<close>

lemma own_order_map:
  assumes "\<And>x. fst (f x) = fst x"
  shows "own_order (map f xs) = map f (own_order xs)"
proof -
  have "sort_key (\<lambda>kv. g (fst kv)) (map f xs) = map f (sort_key (\<lambda>kv. g (fst kv)) xs)" for g :: "string \<Rightarrow> nat" and xs
  proof (induction xs)
    case (Cons x xs)
    have "insort_key (\<lambda>kv. g (fst kv)) (f x) (map f ys) = map f (insort_key (\<lambda>kv. g (fst kv)) x ys)" for ys
      by (induction ys) (simp_all add: assms)
    with Cons show ?case by simp
  qed simp
  then show ?thesis by (simp add: own_order_def filter_map comp_def assms)
qed

lemma sort_fst_map:
  fixes f :: "string \<times> 'a \<Rightarrow> string \<times> 'b"
  assumes "\<And>x. fst (f x) = fst x"
  shows "sort_key fst (map f xs) = map f (sort_key fst xs)"
proof (induction xs)
  case (Cons x xs)
  have "insort_key fst (f x) (map f ys) = map f (insort_key fst x ys)" for ys
    by (induction ys) (simp_all add: assms)
  with Cons show ?case by simp
qed simp

lemma own_order_filter: "filter P (own_order xs) = own_order (filter P xs)"
  by (simp add: own_order_def filter_sort conj_commute)

lemma set_own_order [simp]: "set (own_order xs) = set xs"
  by (auto simp: own_order_def)

lemma own_order_sorted: "sorted_wrt key_le (map fst (own_order (sort_key fst xs)))"
proof -
  let ?i = "\<lambda>kv. the (array_index (fst kv))"
  have "sorted_wrt (\<lambda>x y. ?i x \<le> ?i y) (sort_key ?i (filter (\<lambda>kv. index_key (fst kv)) (sort_key fst xs)))"
    using sorted_sort_key[of ?i] by (simp add: sorted_wrt_map sorted_map)
  then have "sorted_wrt (\<lambda>x y. key_le (fst x) (fst y)) (sort_key ?i (filter (\<lambda>kv. index_key (fst kv)) (sort_key fst xs)))"
    by (rule sorted_wrt_mono_rel[rotated]) (simp add: key_le_def)
  moreover have "sorted_wrt (\<lambda>x y. fst x \<le> fst y) (filter (\<lambda>kv. \<not> index_key (fst kv)) (sort_key fst xs))"
    using sorted_sort_key[of fst "filter (\<lambda>kv. \<not> index_key (fst kv)) xs"] by (simp only: filter_sort sorted_map)
  then have "sorted_wrt (\<lambda>x y. key_le (fst x) (fst y)) (filter (\<lambda>kv. \<not> index_key (fst kv)) (sort_key fst xs))"
    by (rule sorted_wrt_mono_rel[rotated]) (simp add: key_le_def)
  ultimately show ?thesis by (auto simp: own_order_def sorted_wrt_append sorted_wrt_map key_le_def)
qed

text \<open>With distinct keys the order does not depend on how the object was built.\<close>

lemma own_order_unique:
  assumes "distinct (map fst xs)" "distinct (map fst ys)"
  shows "own_order (sort_key fst xs) = own_order (sort_key fst ys) \<longleftrightarrow> set xs = set ys"
proof
  assume "own_order (sort_key fst xs) = own_order (sort_key fst ys)"
  then have "set (own_order (sort_key fst xs)) = set (own_order (sort_key fst ys))" by simp
  then show "set xs = set ys" by simp
next
  assume "set xs = set ys"
  then have "mset xs = mset (sort_key fst ys)"
    using assms by (simp add: distinct_map set_eq_iff_mset_eq_distinct)
  then have "sort_key fst xs = sort_key fst ys"
    by (rule sort_key_inj_key_eq) (use assms in \<open>simp_all add: distinct_map\<close>)
  then show "own_order (sort_key fst xs) = own_order (sort_key fst ys)" by simp
qed

section \<open>Normalizing and the document\<close>

fun json_canon :: "json \<Rightarrow> json" where
  "json_canon (JArr vs) = JArr (map json_canon vs)"
| "json_canon (JObj kvs) = JObj (own_order (sort_key fst (map (\<lambda>(k, v). (k, json_canon v)) kvs)))"
| "json_canon j = j"

lemma normalize_Undefined: "CanonicalSerializer_normalize isoString v = Undefined \<longleftrightarrow> v = Undefined"
  by (cases v) simp_all

lemma json_of_normalize: "json_of isoString (CanonicalSerializer_normalize isoString v) = json_canon (json_of isoString v)"
proof (induction v)
  case (Object kvs)
  let ?d = "\<lambda>(k, v). (k, json_of isoString v)" and ?n = "\<lambda>(k, v). (k, CanonicalSerializer_normalize isoString v)"
  let ?P = "\<lambda>(k, v). v \<noteq> Undefined"
  have "map ?d (filter ?P (own_order (sort_key fst (map ?n kvs))))
      = own_order (sort_key fst (map ?d (filter ?P (map ?n kvs))))"
    by (simp only: own_order_filter filter_sort sort_fst_map[of ?d, simplified case_prod_beta fst_conv]
        own_order_map[of ?d, simplified case_prod_beta fst_conv])
  also have "filter ?P (map ?n kvs) = map ?n (filter ?P kvs)"
    by (simp add: filter_map comp_def case_prod_unfold normalize_Undefined)
  also have "map ?d (map ?n (filter ?P kvs)) = map (\<lambda>(k, v). (k, json_canon v)) (map ?d (filter ?P kvs))"
    using Object.IH by (auto simp: snds.simps)
  finally show ?case by simp
qed simp_all

lemma stringify_json_of:
  "js_stringify nstr isoString v = (if v = Undefined then None else Some (json_stringify nstr (json_of isoString v)))"
proof (induction v)
  case (Array vs)
  have "map (\<lambda>v. case js_stringify nstr isoString v of Some s \<Rightarrow> s | None \<Rightarrow> ''null'') vs
      = map (json_stringify nstr) (map (json_of isoString) vs)"
    using Array.IH by auto
  from arg_cong[OF this, of join_comma] show ?case by (simp add: comp_def)
next
  case (Object kvs)
  have "concat (map (\<lambda>(k, v). case js_stringify nstr isoString v of Some s \<Rightarrow> [quote_string k @ '':'' @ s] | None \<Rightarrow> []) ps)
      = map (\<lambda>(k, v). quote_string k @ '':'' @ json_stringify nstr v)
          (map (\<lambda>(k, v). (k, json_of isoString v)) (filter (\<lambda>(k, v). v \<noteq> Undefined) ps))"
    if "set ps \<subseteq> set kvs" for ps
    using that
  proof (induction ps)
    case (Cons p ps)
    obtain k v where p: "p = (k, v)" by (cases p)
    with Cons.prems Object.IH[of p v] Cons.IH show ?case by (simp add: snds.simps)
  qed simp
  from this[of kvs] show ?case by simp
qed simp_all

lemma serialize_eq:
  "CanonicalSerializer_serialize nstr isoString v =
     (if v = Undefined then [] else utf8 (json_stringify nstr (json_canon (json_of isoString v))))"
  by (simp add: CanonicalSerializer_serialize_def stringify_json_of normalize_Undefined json_of_normalize)

text \<open>Two documents have one canonical form exactly when they hold the same data.\<close>

lemma distinct_set_eq:
  assumes "distinct xs" "distinct ys"
  shows "set xs = set ys \<longleftrightarrow> length xs = length ys \<and> set xs \<subseteq> set ys"
  using assms by (metis List.finite_set card_subset_eq distinct_card subset_refl)

lemma distinct_map_fst: "distinct (map fst xs) \<Longrightarrow> (\<And>x. fst (f x) = fst x) \<Longrightarrow> distinct (map f xs)"
  by (metis distinct_map list.map_comp map_ext comp_apply)

lemma json_canon_same: "distinct_keys a \<Longrightarrow> distinct_keys b \<Longrightarrow> json_canon a = json_canon b \<longleftrightarrow> same_json a b"
proof (induction a arbitrary: b)
  case (JArr vs)
  show ?case
  proof (cases b)
    case b: (JArr ws)
    have "same_json v w \<longleftrightarrow> json_canon v = json_canon w" if "(v, w) \<in> set (zip vs ws)" for v w
      using JArr.IH[of v w] JArr.prems b set_zip_leftD[OF that] set_zip_rightD[OF that] by (auto simp: list_all_iff)
    then show ?thesis
      by (auto simp: b list_eq_iff_zip_eq list_all_iff zip_map1 zip_map2 split_beta)
  qed simp_all
next
  case (JObj kvs)
  show ?case
  proof (cases b)
    case b: (JObj lws)
    let ?c = "map (\<lambda>(k, v). (k, json_canon v))"
    have fst: "map fst (?c xs) = map fst xs" for xs by (simp add: case_prod_unfold comp_def)
    have d: "distinct (map fst kvs)" "distinct (map fst lws)" using JObj.prems b by simp_all
    have sub: "same_json v w \<longleftrightarrow> json_canon v = json_canon w" if "(k, v) \<in> set kvs" "(k, w) \<in> set lws" for k v w
      using JObj.IH[OF that(1), of v w] JObj.prems b that by (auto simp: list_all_iff snds.simps)
    have "json_canon (JObj kvs) = json_canon b \<longleftrightarrow> set (?c kvs) = set (?c lws)"
      using own_order_unique[of "?c kvs" "?c lws"] d b by (simp add: fst[simplified case_prod_unfold] case_prod_unfold comp_def)
    also have "\<dots> \<longleftrightarrow> same_json (JObj kvs) b"
    proof -
      have "list_all (\<lambda>(k, v). case map_of lws k of Some w \<Rightarrow> same_json v w | None \<Rightarrow> False) kvs
          \<longleftrightarrow> set (?c kvs) \<subseteq> set (?c lws)" (is "?l \<longleftrightarrow> ?r")
      proof
        assume ?l
        show ?r
        proof
          fix p assume "p \<in> set (?c kvs)"
          then obtain k v where v: "(k, v) \<in> set kvs" "p = (k, json_canon v)" by auto
          with \<open>?l\<close> have "case map_of lws k of Some w \<Rightarrow> same_json v w | None \<Rightarrow> False"
            by (auto simp: list_all_iff)
          then obtain w where "(k, w) \<in> set lws" "same_json v w"
            by (auto dest: map_of_SomeD split: option.splits)
          with sub[OF v(1)] v(2) show "p \<in> set (?c lws)" by force
        qed
      next
        assume ?r
        have "case map_of lws k of Some w \<Rightarrow> same_json v w | None \<Rightarrow> False" if v: "(k, v) \<in> set kvs" for k v
        proof -
          from \<open>?r\<close> v obtain w where w: "(k, w) \<in> set lws" "json_canon v = json_canon w" by fastforce
          with d(2) have "map_of lws k = Some w" by simp
          with sub[OF v w(1)] w(2) show ?thesis by simp
        qed
        then show ?l by (auto simp: list_all_iff)
      qed
      with distinct_set_eq[of "?c kvs" "?c lws"] d show ?thesis
        by (simp add: b distinct_map_fst case_prod_unfold comp_def)
    qed
    finally show ?thesis .
  qed simp_all
next
  case JNull
  show ?case by (cases b) auto
next
  case (JBool x)
  show ?case by (cases b) auto
next
  case (JNum x)
  show ?case by (cases b) auto
next
  case (JStr x)
  show ?case by (cases b) auto
qed

lemma json_numbers_canon: "set (json_numbers (json_canon j)) = set (json_numbers j)"
proof (induction j)
  case (JObj kvs)
  have "set (json_numbers (json_canon (JObj kvs))) = (\<Union>(k, v)\<in>set kvs. set (json_numbers (json_canon v)))"
    by (simp add: case_prod_unfold)
  also have "\<dots> = (\<Union>(k, v)\<in>set kvs. set (json_numbers v))"
    using JObj.IH by (intro SUP_cong) (auto simp: snds.simps)
  finally show ?case by (simp add: case_prod_unfold)
qed simp_all

lemma json_of_numbers_finite: "n \<in> set (json_numbers (json_of isoString v)) \<Longrightarrow> num_finite n"
proof (induction v)
  case (Object kvs)
  then obtain k v where "(k, v) \<in> set kvs" "n \<in> set (json_numbers (json_of isoString v))"
    by (auto simp: case_prod_unfold)
  with Object.IH[of "(k, v)" v] show ?case by (simp add: snds.simps)
qed (auto split: if_splits)

section \<open>The properties\<close>

text \<open>
  C16: Whatever value is given, the normalized value holds no date and lists the keys of every object,
  at every depth, in the one order of the language: array indices ascending, then the other keys
  ascending.
\<close>

theorem normalize_canonical: "canonical_value (CanonicalSerializer_normalize isoString v)"
proof (induction v)
  case (Object kvs)
  let ?n = "map (\<lambda>(k, v). (k, CanonicalSerializer_normalize isoString v)) kvs"
  have "list_all (\<lambda>(k, v). canonical_value v) ?n"
    using Object.IH by (auto simp: list_all_iff snds.simps)
  then show ?case by (simp add: own_order_sorted list_all_iff)
qed (simp_all add: list_all_iff)

lemma prints_numbers_all:
  assumes "prints_numbers nstr (json_numbers (json_of i v) @ json_numbers (json_of i w))"
  shows "prints_all nstr (set (json_numbers (json_of i v)) \<union> set (json_numbers (json_of i w)))"
  using assms json_of_numbers_finite[of _ i v] json_of_numbers_finite[of _ i w]
  unfolding prints_all_def prints_numbers_def inj_on_def list_all_iff set_append by blast

lemma serialize_same_data:
  assumes "v \<noteq> Undefined" "w \<noteq> Undefined"
    and "distinct_keys (json_of isoString v)" "distinct_keys (json_of isoString w)"
    and "prints_numbers nstr (json_numbers (json_of isoString v) @ json_numbers (json_of isoString w))"
  shows "CanonicalSerializer_serialize nstr isoString v = CanonicalSerializer_serialize nstr isoString w
    \<longleftrightarrow> same_json (json_of isoString v) (json_of isoString w)"
proof -
  let ?v = "json_of isoString v" and ?w = "json_of isoString w"
  have "json_stringify nstr (json_canon ?v) = json_stringify nstr (json_canon ?w) \<longleftrightarrow> json_canon ?v = json_canon ?w"
    using stringify_until[OF prints_numbers_all[OF assms(5)], of "json_canon ?v" "json_canon ?w" "[]" "[]"]
    by (auto simp: json_numbers_canon delimited_def)
  with assms(1,2) json_canon_same[OF assms(3,4)] show ?thesis by (simp add: serialize_eq utf8_inj)
qed

text \<open>
  C14: Two values have the same canonical bytes exactly when they hold the same data: the same
  document up to the order of keys.  No two different documents can share a hash or a signature over
  their bytes, and none changes its bytes by being rebuilt in another order.
\<close>

theorem canonical_bytes_determine_data:
  assumes "v \<noteq> Undefined" "w \<noteq> Undefined"
    and "distinct_keys (json_of isoString v)" "distinct_keys (json_of isoString w)"
    and "prints_numbers nstr (json_numbers (json_of isoString v) @ json_numbers (json_of isoString w))"
  shows "CanonicalSerializer_serialize nstr isoString v = CanonicalSerializer_serialize nstr isoString w
    \<longleftrightarrow> same_json (json_of isoString v) (json_of isoString w)"
  using assms by (rule serialize_same_data)

definition sample_nstr :: "jsnum \<Rightarrow> string" where
  "sample_nstr n = (if num_eq n (Fin 1) then ''1'' else ''2'')"

definition sample_document :: js_value where
  "sample_document = Object [(''b'', Array [Number (Fin 1), Undefined]), (''10'', Date 0), (''9'', Number (Fin 2))]"

definition sample_rebuilt :: js_value where
  "sample_rebuilt = Object [(''9'', Number (Fin 2)), (''x'', Undefined), (''b'', Array [Number (Fin 1), Null]), (''10'', Text ''then'')]"

theorem canonical_bytes_determine_data_witness:
  "CanonicalSerializer_serialize sample_nstr (\<lambda>t. ''then'') sample_document
    = CanonicalSerializer_serialize sample_nstr (\<lambda>t. ''then'') sample_rebuilt"
proof -
  have "prints_numbers sample_nstr [Fin 1, Fin 2, Fin 2, Fin 1]"
    by (simp add: prints_numbers_def sample_nstr_def number_char_def is_digit_def)
  then show ?thesis
    by (subst canonical_bytes_determine_data) (simp_all add: sample_document_def sample_rebuilt_def)
qed

section \<open>The Python SDK\<close>

lemma own_order_no_index: "list_all (\<lambda>kv. \<not> index_key (fst kv)) xs \<Longrightarrow> own_order xs = xs"
  by (simp add: own_order_def list_all_iff filter_empty_conv[THEN iffD2])

lemma canon_python: "no_index_keys j \<Longrightarrow> json_canon j = python_normalize j"
proof (induction j)
  case (JObj kvs)
  have "map (\<lambda>(k, v). (k, json_canon v)) kvs = map (\<lambda>(k, v). (k, python_normalize v)) kvs"
    using JObj by (auto simp: list_all_iff snds.simps)
  moreover have "own_order (sort_key fst (map (\<lambda>(k, v). (k, python_normalize v)) kvs))
      = sort_key fst (map (\<lambda>(k, v). (k, python_normalize v)) kvs)"
    using JObj.prems by (intro own_order_no_index) (auto simp: list_all_iff)
  ultimately show ?case by (simp only: json_canon.simps python_normalize.simps)
qed (simp_all add: list_all_iff)

lemma dumps_stringify:
  "list_all (\<lambda>n. num_finite n \<and> pstr n = nstr n) (json_numbers j) \<Longrightarrow> python_dumps pstr j = json_stringify nstr j"
proof (induction j)
  case (JArr vs)
  then have "map (python_dumps pstr) vs = map (json_stringify nstr) vs" by (auto simp: list_all_iff)
  then show ?case by (simp only: python_dumps.simps json_stringify.simps)
next
  case (JObj kvs)
  then have "map (\<lambda>(k, v). quote_string k @ '':'' @ python_dumps pstr v) kvs
      = map (\<lambda>(k, v). quote_string k @ '':'' @ json_stringify nstr v) kvs"
    by (fastforce simp: list_all_iff snds.simps)
  then show ?case by (simp only: python_dumps.simps json_stringify.simps)
qed simp_all

lemma json_of_js: "list_all num_finite (json_numbers j) \<Longrightarrow> no_index_keys j \<Longrightarrow> json_of isoString (js_of_json j) = j"
proof (induction j)
  case (JArr vs)
  then show ?case by (auto simp: list_all_iff map_idI)
next
  case (JObj kvs)
  have n: "js_of_json j \<noteq> Undefined" for j by (cases j) simp_all
  have "own_order (map (\<lambda>(k, v). (k, js_of_json v)) kvs) = map (\<lambda>(k, v). (k, js_of_json v)) kvs"
    using JObj.prems(2) by (intro own_order_no_index) (auto simp: list_all_iff)
  moreover have "map (\<lambda>(k, v). (k, json_of isoString (js_of_json v))) kvs = kvs"
    using JObj by (intro map_idI) (fastforce simp: list_all_iff snds.simps)
  ultimately show ?case by (simp add: filter_map comp_def case_prod_unfold n)
qed simp_all



text \<open>
  With two keys that look like indices the two serializers give different bytes: JavaScript lists 9
  before 10, Python sorts the texts.
\<close>

lemma index_keys_differ:
  "python_dumps sample_nstr (python_normalize (JObj [(''10'', JNull), (''9'', JNull)]))
     = ''{'' @ quote_string ''10'' @ '':null,'' @ quote_string ''9'' @ '':null}''"
  "js_stringify sample_nstr (\<lambda>t. ''then'') (CanonicalSerializer_normalize (\<lambda>t. ''then'') (js_of_json (JObj [(''10'', JNull), (''9'', JNull)])))
     = Some (''{'' @ quote_string ''9'' @ '':null,'' @ quote_string ''10'' @ '':null}'')"
  by (simp_all add: less_eq_char_def own_order_def index_key_def array_index_def is_digit_def)

end
