(* ===== verification/Access_Control.thy ===== *)
theory Access_Control
  imports Governance_Guards
begin

text \<open>
  Who is calling and what the caller may do, in \<open>packages/api/src\<close>: the API keys of
  \<open>auth/StaticKeyAuthenticator.ts\<close>, the middleware of \<open>middleware/caller-auth.ts\<close>, and the checks
  of \<open>auth/isPrincipalAllowed.ts\<close>, \<open>auth/isCapabilityAllowed.ts\<close> and \<open>auth/isOwnedByCaller.ts\<close>.

  Parameters: the SHA-256 of a key as a hexadecimal text, the audit sink and the clock readings.
\<close>

section \<open>API keys\<close>

record api_key_entry =
  ak_callerId :: string
  ak_keyHash :: string
  ak_credentialHolderType :: "authority_type option"
  ak_allowedPrincipalIds :: "string list option"
  ak_allowedCapabilities :: "string list option"
  ak_stepUpPublicKey :: "string option"

record caller_identity =
  id_callerId :: string
  id_allowedPrincipalIds :: "string list option"
  id_allowedCapabilities :: "string list option"
  id_credentialHolderType :: "authority_type option"
  id_stepUpPublicKey :: "string option"

text \<open>\<open>Buffer.from(s, "hex")\<close>: two digits make a byte; it stops at the first pair that is none.\<close>

definition nibble :: "char \<Rightarrow> nat option" where
  "nibble c =
     (let n = of_char c :: nat in
      if 48 \<le> n \<and> n \<le> 57 then Some (n - 48)
      else if 97 \<le> n \<and> n \<le> 102 then Some (n - 87)
      else if 65 \<le> n \<and> n \<le> 70 then Some (n - 55) else None)"

fun buffer_from_hex :: "string \<Rightarrow> nat list" where
  "buffer_from_hex (a # b # s) =
     (case (nibble a, nibble b) of
        (Some x, Some y) \<Rightarrow> (16 * x + y) # buffer_from_hex s
      | _ \<Rightarrow> [])"
| "buffer_from_hex _ = []"

definition entry_identity :: "api_key_entry \<Rightarrow> caller_identity" where
  "entry_identity entry =
     \<lparr>id_callerId = ak_callerId entry, id_allowedPrincipalIds = ak_allowedPrincipalIds entry,
      id_allowedCapabilities = ak_allowedCapabilities entry,
      id_credentialHolderType = ak_credentialHolderType entry, id_stepUpPublicKey = ak_stepUpPublicKey entry\<rparr>"

text \<open>\<open>hashApiKey\<close> is the parameter \<open>hash\<close>; the comparison of the bytes runs in constant time.\<close>

definition entry_matches :: "(string \<Rightarrow> string) \<Rightarrow> string \<Rightarrow> api_key_entry \<Rightarrow> bool" where
  "entry_matches hash credential entry =
     (buffer_from_hex (ak_keyHash entry) = buffer_from_hex (hash credential))"

definition StaticKeyAuthenticator_authenticate ::
  "(string \<Rightarrow> string) \<Rightarrow> api_key_entry list \<Rightarrow> string option \<Rightarrow> caller_identity option" where
  "StaticKeyAuthenticator_authenticate hash entries credential =
     (case credential of
        None \<Rightarrow> None
      | Some c \<Rightarrow> if c = [] then None else map_option entry_identity (List.find (entry_matches hash c) entries))"

lemma authenticate_Some:
  "StaticKeyAuthenticator_authenticate hash entries credential = Some identity \<Longrightarrow>
     \<exists>c entry. credential = Some c \<and> c \<noteq> [] \<and> entry \<in> set entries \<and> entry_matches hash c entry
       \<and> identity = entry_identity entry"
  by (auto simp: StaticKeyAuthenticator_authenticate_def find_Some_iff in_set_conv_nth split: option.splits if_splits)

section \<open>What a caller may do\<close>

fun isPrincipalAllowed :: "string option \<Rightarrow> string \<Rightarrow> string list option \<Rightarrow> bool" where
  "isPrincipalAllowed None callerId allowed = False"
| "isPrincipalAllowed (Some p) callerId allowed =
     (if p = [] then False
      else case allowed of Some ps \<Rightarrow> p \<in> set ps | None \<Rightarrow> p = callerId)"

fun isCapabilityAllowed :: "string option \<Rightarrow> string list option \<Rightarrow> bool" where
  "isCapabilityAllowed None allowed = False"
| "isCapabilityAllowed (Some action) allowed =
     (if action = [] then False
      else case allowed of
        None \<Rightarrow> False
      | Some cs \<Rightarrow> if cs = [] then False else if ''*'' \<in> set cs then True else action \<in> set cs)"

section \<open>The middleware\<close>

text \<open>The caller of a request: what the middleware put on it.\<close>

record api_caller = gov_caller +
  ac_allowedPrincipalIds :: "string list option"
  ac_allowedCapabilities :: "string list option"

record api_request =
  aq_route :: string
  aq_authorization :: "string option"
  aq_stepUp :: "json option"

definition extractBearerToken :: "string option \<Rightarrow> string option" where
  "extractBearerToken header =
     (case header of
        None \<Rightarrow> None
      | Some h \<Rightarrow>
          if h = [] \<or> \<not> starts_with h ''Bearer '' then None
          else (let token = trim (drop (length ''Bearer '') h) in if token \<noteq> [] then Some token else None))"

text \<open>A response with a status and an error text, or an error handed to the error handler.\<close>

datatype 'e api_failure =
    Refused nat string "string option"
  | AuditUnavailable
  | Passed 'e
  | Thrown

text \<open>An audit event with the fields every event has; the routes add theirs.\<close>

definition caller_event :: "string \<Rightarrow> string \<Rightarrow> string \<Rightarrow> string option \<Rightarrow> caller_audit_event" where
  "caller_event kind now route callerId =
     \<lparr>ce_type = kind, ce_occurredAt = now, ce_route = route, ce_callerId = callerId, ce_reason = None,
      ce_businessTransactionId = None, ce_capability = None, ce_principalId = None, ce_severity = None\<rparr>"

definition structural_rejection :: "string \<Rightarrow> gov_caller \<Rightarrow> string option \<Rightarrow> string \<Rightarrow> caller_audit_event" where
  "structural_rejection now req txId reason =
     (caller_event ''caller.structural_rejected'' now (gc_route req) (gc_callerId req))
       \<lparr>ce_businessTransactionId := txId, ce_reason := Some reason\<rparr>"

definition principal_denial :: "string \<Rightarrow> string \<Rightarrow> string \<Rightarrow> string option \<Rightarrow> caller_audit_event" where
  "principal_denial now route callerId principalId =
     (caller_event ''caller.principal_denied'' now route (Some callerId))
       \<lparr>ce_principalId := principalId, ce_reason := Some ''principal not allowed''\<rparr>"

definition capability_denial :: "string \<Rightarrow> string \<Rightarrow> string \<Rightarrow> string option \<Rightarrow> caller_audit_event" where
  "capability_denial now route callerId action =
     (caller_event ''caller.capability_denied'' now route (Some callerId))
       \<lparr>ce_capability := action, ce_reason := Some ''capability not allowed''\<rparr>"

definition capability_grant :: "string \<Rightarrow> string \<Rightarrow> string \<Rightarrow> string option \<Rightarrow> caller_audit_event" where
  "capability_grant now route callerId action =
     (caller_event ''caller.capability_granted'' now route (Some callerId))\<lparr>ce_capability := action\<rparr>"

text \<open>\<open>if (auditSink) { recorded = await recordCallerAuditEvent(...); if (!recorded) return; }\<close>\<close>

definition audited ::
  "audit_sink option \<Rightarrow> caller_audit_event \<Rightarrow> caller_audit_event list \<Rightarrow> ('e api_failure, unit) result \<times> caller_audit_event list" where
  "audited sink event events =
     (case sink of
        None \<Rightarrow> (Inr (), events)
      | Some s \<Rightarrow>
          (case recordCallerAuditEvent s event events of
             (Inl _, events') \<Rightarrow> (Inl AuditUnavailable, events') | (Inr _, events') \<Rightarrow> (Inr (), events')))"

definition createCallerAuthMiddleware ::
  "(string option \<Rightarrow> caller_identity option) \<Rightarrow> audit_sink \<Rightarrow> string \<Rightarrow> api_request \<Rightarrow> caller_audit_event list
   \<Rightarrow> ('e api_failure, api_caller) result \<times> caller_audit_event list" where
  "createCallerAuthMiddleware authenticate sink now req events =
     (let credential = extractBearerToken (aq_authorization req) in
      case authenticate credential of
        None \<Rightarrow>
          (case audited (Some sink) ((caller_event ''caller.rejected'' now (aq_route req) None)
                 \<lparr>ce_reason := Some (if credential \<noteq> None then ''invalid credential'' else ''missing credential'')\<rparr>) events of
             (Inl e, events') \<Rightarrow> (Inl e, events')
           | (Inr _, events') \<Rightarrow> (Inl (Refused 401 ''authentication required'' None), events'))
      | Some identity \<Rightarrow>
          (case audited (Some sink) (caller_event ''caller.authenticated'' now (aq_route req)
                 (Some (id_callerId identity))) events of
             (Inl e, events') \<Rightarrow> (Inl e, events')
           | (Inr _, events') \<Rightarrow>
               (Inr \<lparr>gc_callerId = Some (id_callerId identity), gc_holder = id_credentialHolderType identity,
                     gc_stepUpKey = id_stepUpPublicKey identity, gc_route = aq_route req, gc_stepUp = aq_stepUp req,
                     ac_allowedPrincipalIds = id_allowedPrincipalIds identity,
                     ac_allowedCapabilities = id_allowedCapabilities identity\<rparr>, events')))"

text \<open>With caller authentication disabled no caller is put on the request.\<close>

definition unauthenticated :: "api_request \<Rightarrow> api_caller" where
  "unauthenticated req =
     \<lparr>gc_callerId = None, gc_holder = None, gc_stepUpKey = None, gc_route = aq_route req,
      gc_stepUp = aq_stepUp req, ac_allowedPrincipalIds = None, ac_allowedCapabilities = None\<rparr>"

text \<open>The answer of \<open>GET /callers/me\<close>: the scope after its defaults.\<close>

record caller_scope =
  cs_callerId :: string
  cs_allowedPrincipalIds :: "string list"
  cs_allowedCapabilities :: "string list"
  cs_unrestrictedCapabilities :: bool

definition CallersMeRouter_get :: "api_caller \<Rightarrow> ('e api_failure, caller_scope) result" where
  "CallersMeRouter_get req =
     (case gc_callerId req of
        None \<Rightarrow> Inl (Refused 404 ''No authenticated caller identity available.'' None)
      | Some c \<Rightarrow>
          (let capabilities = (case ac_allowedCapabilities req of Some cs \<Rightarrow> cs | None \<Rightarrow> []) in
           Inr \<lparr>cs_callerId = c,
                cs_allowedPrincipalIds = (case ac_allowedPrincipalIds req of Some ps \<Rightarrow> ps | None \<Rightarrow> [c]),
                cs_allowedCapabilities = capabilities,
                cs_unrestrictedCapabilities = (''*'' \<in> set capabilities)\<rparr>))"

text \<open>What is shown is what the checks grant.\<close>

lemma callers_me_exact:
  assumes "CallersMeRouter_get req = Inr scope"
  shows "isPrincipalAllowed (Some p) (cs_callerId scope) (ac_allowedPrincipalIds req)
      \<longleftrightarrow> p \<noteq> [] \<and> p \<in> set (cs_allowedPrincipalIds scope)"
    and "isCapabilityAllowed (Some a) (ac_allowedCapabilities req)
      \<longleftrightarrow> a \<noteq> [] \<and> (cs_unrestrictedCapabilities scope \<or> a \<in> set (cs_allowedCapabilities scope))"
  using assms by (auto simp: CallersMeRouter_get_def Let_def split: option.splits)

lemma audited_cases:
  "audited sink event events = (q, events') \<Longrightarrow>
     q = Inl AuditUnavailable \<and> events' = events \<or> q = Inr () \<and> events' = events @ (if sink = None then [] else [event])"
  by (auto simp: audited_def recordCallerAuditEvent_def split: option.splits if_splits)

lemma middleware_Inr:
  assumes "createCallerAuthMiddleware authenticate sink now req events = (Inr caller, events')"
  shows "\<exists>identity. authenticate (extractBearerToken (aq_authorization req)) = Some identity
    \<and> gc_callerId caller = Some (id_callerId identity) \<and> gc_route caller = aq_route req
    \<and> ac_allowedPrincipalIds caller = id_allowedPrincipalIds identity
    \<and> ac_allowedCapabilities caller = id_allowedCapabilities identity
    \<and> events' = events @ [caller_event ''caller.authenticated'' now (aq_route req) (Some (id_callerId identity))]"
  using assms
  by (auto simp: createCallerAuthMiddleware_def Let_def dest!: audited_cases split: option.splits prod.splits sum.splits)

end
