(* ===== verification/Api_Routes.thy ===== *)
theory Api_Routes
  imports Access_Control Application
begin

text \<open>
  The routes of \<open>packages/api/src/routes\<close> around the application: submitting a transaction
  (\<open>execute.ts\<close>, \<open>transactions.ts\<close>), reading it, its trust record, verification, receipt, refusal
  and intent, and the operator routes of execution intents.

  A route is a function of its caller and the state; \<open>others\<close> is what other requests do while it
  waits.  The fields of a body have their declared types where they are present.  \<open>next(error)\<close> is the
  failure \<open>Passed\<close>, an error of the language \<open>Thrown\<close>.
\<close>

section \<open>State and bodies\<close>

record ('v, 'x) api_state =
  as_app :: "('v, 'x app_world) runtime_state"
  as_audit :: "caller_audit_event list"

abbreviation as_transactions :: "('v, 'x) api_state \<Rightarrow> transaction_store" where
  "as_transactions st \<equiv> aw_transactions (rs_world (as_app st))"

abbreviation as_records :: "('v, 'x) api_state \<Rightarrow> record_store" where
  "as_records st \<equiv> aw_records (rs_world (as_app st))"

definition with_records :: "record_store \<Rightarrow> ('v, 'x) api_state \<Rightarrow> ('v, 'x) api_state" where
  "with_records s st = st\<lparr>as_app := (as_app st)\<lparr>rs_world := (rs_world (as_app st))\<lparr>aw_records := s\<rparr>\<rparr>\<rparr>"

record submission_body =
  xb_businessTransactionId :: "json option"
  xb_metadata :: "transaction_metadata option"
  xb_authority :: "authority option"
  xb_authorization :: "granted_authorization option"
  xb_intent :: "transaction_intent option"
  xb_policy :: "policy_reference option"
  xb_signals :: "signals option"

text \<open>
  The pattern of \<open>isValidBusinessTransactionId\<close>, without regard to case; the routes differ in the
  versions they accept.
\<close>

definition is_hex :: "char \<Rightarrow> bool" where
  "is_hex c = (nibble c \<noteq> None)"

definition uuid_shape :: "(char \<Rightarrow> bool) list \<Rightarrow> string \<Rightarrow> bool" where
  "uuid_shape ps s = (length s = length ps \<and> list_all (\<lambda>(p, c). p c) (zip ps s))"

definition is_uuid :: "char list \<Rightarrow> string \<Rightarrow> bool" where
  "is_uuid versions =
     (let dash = (\<lambda>c. c = CHR ''-'') in
      uuid_shape (replicate 8 is_hex @ [dash] @ replicate 4 is_hex @ [dash]
        @ [\<lambda>c. c \<in> set versions] @ replicate 3 is_hex @ [dash]
        @ [\<lambda>c. c \<in> set ''89abAB''] @ replicate 3 is_hex @ [dash] @ replicate 12 is_hex))"

fun isValidBusinessTransactionId :: "char list \<Rightarrow> json option \<Rightarrow> bool" where
  "isValidBusinessTransactionId versions (Some (JStr s)) = is_uuid versions s"
| "isValidBusinessTransactionId versions _ = False"

definition UUID_INVALID :: string where
  "UUID_INVALID = ''businessTransactionId must be a valid UUID.''"

fun json_text :: "json option \<Rightarrow> string option" where
  "json_text (Some (JStr s)) = Some s"
| "json_text _ = None"

section \<open>Mapping a body\<close>

text \<open>The transaction a body maps to, where parts may be missing.\<close>

record mapped_transaction =
  mt_businessTransactionId :: string
  mt_metadata :: "transaction_metadata option"
  mt_authority :: "authority option"
  mt_authorization :: "granted_authorization option"
  mt_intent :: "transaction_intent option"
  mt_policy :: "policy_reference option"
  mt_signals :: "signals option"
  mt_status :: transaction_status
  mt_createdAt :: int

definition BusinessTransactionMapper_fromRequest :: "int \<Rightarrow> string \<Rightarrow> submission_body \<Rightarrow> mapped_transaction" where
  "BusinessTransactionMapper_fromRequest now txId body =
     \<lparr>mt_businessTransactionId = txId, mt_metadata = xb_metadata body, mt_authority = xb_authority body,
      mt_authorization = xb_authorization body, mt_intent = xb_intent body, mt_policy = xb_policy body,
      mt_signals = xb_signals body, mt_status = STATUS_RECEIVED, mt_createdAt = now\<rparr>"

text \<open>
  The metadata set by the server.  Spreading missing metadata gives an object without
  \<open>businessTransactionId\<close>, which stays missing here.
\<close>

definition set_submitter :: "string \<Rightarrow> mapped_transaction \<Rightarrow> mapped_transaction" where
  "set_submitter callerId t =
     t\<lparr>mt_metadata := map_option (\<lambda>m. m\<lparr>tm_submittedBy := Some callerId,
          tm_grantedCapability := (case mt_intent t of Some i \<Rightarrow> Some (in_action i) | None \<Rightarrow> tm_grantedCapability m)\<rparr>)
          (mt_metadata t)\<rparr>"

text \<open>
  What \<open>application.execute\<close> makes of a transaction with missing parts: its validator compares the
  identifiers in this order and reads a property of what is missing.
\<close>

definition complete_transaction ::
  "bool \<Rightarrow> mapped_transaction \<Rightarrow> (app_error api_failure, business_transaction) result" where
  "complete_transaction submitter t =
     (case mt_metadata t of
        None \<Rightarrow> Inl (if submitter then Passed (TransactionRejected MetadataIdMismatch) else Thrown)
      | Some m \<Rightarrow>
          if mt_businessTransactionId t \<noteq> tm_businessTransactionId m
          then Inl (Passed (TransactionRejected MetadataIdMismatch))
          else case (mt_authorization t, mt_authority t) of
            (Some z, Some a) \<Rightarrow>
              if za_authorityId z \<noteq> au_authorityId a then Inl (Passed (TransactionRejected AuthorityMismatch))
              else (case mt_intent t of
                None \<Rightarrow> Inl Thrown
              | Some i \<Rightarrow>
                  if in_authorizationId i \<noteq> za_authorizationId z
                  then Inl (Passed (TransactionRejected AuthorizationMismatch))
                  else (case mt_policy t of
                    None \<Rightarrow> Inl Thrown
                  | Some p \<Rightarrow>
                      Inr \<lparr>bt_businessTransactionId = mt_businessTransactionId t, bt_metadata = m, bt_authority = a,
                           bt_authorization = z, bt_intent = i, bt_policy = p, bt_signals = mt_signals t,
                           bt_status = Some (mt_status t), bt_createdAt = mt_createdAt t\<rparr>))
          | _ \<Rightarrow> Inl Thrown)"

section \<open>Submitting\<close>

fun transaction_message :: "transaction_error \<Rightarrow> string" where
  "transaction_message MetadataIdMismatch = ''metadata.businessTransactionId must match businessTransactionId.''"
| "transaction_message AuthorityMismatch = ''authorization.authorityId must match authority.authorityId.''"
| "transaction_message AuthorizationMismatch = ''intent.authorizationId must match authorization.authorizationId.''"
| "transaction_message PolicyNameRequired = ''policy.name is required.''"
| "transaction_message PolicyVersionRequired = ''policy.version is required.''"
| "transaction_message ActionRequired = ''intent.action is required.''"
| "transaction_message (DuplicateBusinessTransaction i) =
     ''Business Transaction '' @ [CHR 0x27] @ i @ [CHR 0x27] @ '' already exists.''"

text \<open>The audit, the clock readings and the inputs of one submission.\<close>

record submission_inputs =
  sb_sink :: "audit_sink option"
  sb_now :: "nat \<Rightarrow> string"
  sb_createdAt :: int
  sb_app :: app_inputs

text \<open>The checks of an authenticated caller, before the application is reached.\<close>

definition submission_checks ::
  "submission_inputs \<Rightarrow> api_caller \<Rightarrow> string \<Rightarrow> mapped_transaction \<Rightarrow> caller_audit_event list
   \<Rightarrow> (app_error api_failure, unit) result \<times> caller_audit_event list" where
  "submission_checks inputs req callerId t events =
     (let principalId = map_option au_principalId (mt_authority t); action = map_option in_action (mt_intent t);
          now = sb_now inputs 0; route = gc_route req in
      if \<not> isPrincipalAllowed principalId callerId (ac_allowedPrincipalIds req)
      then (case audited (sb_sink inputs) (principal_denial now route callerId principalId) events of
              (Inl e, events') \<Rightarrow> (Inl e, events')
            | (Inr _, events') \<Rightarrow>
                (Inl (Refused 403 ''Caller is not permitted to assert this authority.principalId.'' None), events'))
      else if \<not> isCapabilityAllowed action (ac_allowedCapabilities req)
      then (case audited (sb_sink inputs) (capability_denial now route callerId action) events of
              (Inl e, events') \<Rightarrow> (Inl e, events')
            | (Inr _, events') \<Rightarrow>
                (Inl (Refused 403 ''Caller is not permitted to invoke this capability.''
                   (Some ''CAPABILITY_NOT_ALLOWED'')), events'))
      else audited (sb_sink inputs) (capability_grant now route callerId action) events)"

text \<open>The handler's \<open>catch\<close>: a structural rejection is audited before it is passed on.\<close>

definition submission_failed ::
  "submission_inputs \<Rightarrow> api_caller \<Rightarrow> string \<Rightarrow> app_error api_failure \<Rightarrow> caller_audit_event list
   \<Rightarrow> app_error api_failure \<times> caller_audit_event list" where
  "submission_failed inputs req txId e events =
     (case e of
        Passed (TransactionRejected x) \<Rightarrow>
          (case audited (sb_sink inputs) (structural_rejection (sb_now inputs 1) (gov_caller.truncate req) (Some txId)
                 (transaction_message x)) events of
             (Inl e', events') \<Rightarrow> (e', events') | (Inr _, events') \<Rightarrow> (e, events'))
      | _ \<Rightarrow> (e, events))"

definition ExecuteRouter_post ::
  "record_crypto \<Rightarrow> 'x execution_system \<Rightarrow> ('v, 'x app_world, trust_record) runtime_engine \<Rightarrow> submission_inputs
   \<Rightarrow> api_caller \<Rightarrow> submission_body \<Rightarrow> ('v, 'x) api_state
   \<Rightarrow> (app_error api_failure, nat \<times> trust_record) result \<times> ('v, 'x) api_state" where
  "ExecuteRouter_post k system e inputs req body st =
     (if \<not> isValidBusinessTransactionId ''12345'' (xb_businessTransactionId body)
      then (case audited (sb_sink inputs) (structural_rejection (sb_now inputs 0) (gov_caller.truncate req)
               (json_text (xb_businessTransactionId body)) UUID_INVALID) (as_audit st) of
              (Inl x, events) \<Rightarrow> (Inl x, st\<lparr>as_audit := events\<rparr>)
            | (Inr _, events) \<Rightarrow> (Inl (Refused 400 UUID_INVALID None), st\<lparr>as_audit := events\<rparr>))
      else
        let txId = the (json_text (xb_businessTransactionId body));
            t = BusinessTransactionMapper_fromRequest (sb_createdAt inputs) txId body in
        case (case gc_callerId req of
                None \<Rightarrow> (Inr (), as_audit st)
              | Some c \<Rightarrow> submission_checks inputs req c t (as_audit st)) of
          (Inl x, events) \<Rightarrow> (Inl x, st\<lparr>as_audit := events\<rparr>)
        | (Inr _, events) \<Rightarrow>
            (case (case complete_transaction (gc_callerId req \<noteq> None)
                          (case gc_callerId req of None \<Rightarrow> t | Some c \<Rightarrow> set_submitter c t) of
                     Inl x \<Rightarrow> (Inl x, as_app st)
                   | Inr t' \<Rightarrow>
                       (case ExecutionTrustApplication_execute k system e (sb_app inputs) t' (as_app st) of
                          (Inl x, a) \<Rightarrow> (Inl (Passed x), a) | (Inr r, a) \<Rightarrow> (Inr r, a))) of
               (Inr r, a) \<Rightarrow> (Inr (200, r), st\<lparr>as_app := a, as_audit := events\<rparr>)
             | (Inl x, a) \<Rightarrow>
                 (case submission_failed inputs req txId x events of
                    (x', events') \<Rightarrow> (Inl x', st\<lparr>as_app := a, as_audit := events'\<rparr>))))"

text \<open>\<open>POST /transactions\<close> is the same handler with status 201.\<close>

definition TransactionsRouter_post ::
  "record_crypto \<Rightarrow> 'x execution_system \<Rightarrow> ('v, 'x app_world, trust_record) runtime_engine \<Rightarrow> submission_inputs
   \<Rightarrow> api_caller \<Rightarrow> submission_body \<Rightarrow> ('v, 'x) api_state
   \<Rightarrow> (app_error api_failure, nat \<times> trust_record) result \<times> ('v, 'x) api_state" where
  "TransactionsRouter_post k system e inputs req body st =
     (case ExecuteRouter_post k system e inputs req body st of
        (Inr (_, r), st') \<Rightarrow> (Inr (201, r), st') | (Inl x, st') \<Rightarrow> (Inl x, st'))"

text \<open>
  \<open>createApp\<close> puts the middleware in front of the routes and gives both the same audit sink.
\<close>

definition behind_authentication ::
  "(string option \<Rightarrow> caller_identity option) \<Rightarrow> audit_sink \<Rightarrow> string \<Rightarrow> api_request
   \<Rightarrow> (api_caller \<Rightarrow> ('v, 'x) api_state \<Rightarrow> ('e api_failure, 'r) result \<times> ('v, 'x) api_state)
   \<Rightarrow> ('v, 'x) api_state \<Rightarrow> ('e api_failure, 'r) result \<times> ('v, 'x) api_state" where
  "behind_authentication authenticate sink now req route st =
     (case createCallerAuthMiddleware authenticate sink now req (as_audit st) of
        (Inl x, events) \<Rightarrow> (Inl x, st\<lparr>as_audit := events\<rparr>)
      | (Inr caller, events) \<Rightarrow> route caller (st\<lparr>as_audit := events\<rparr>))"

section \<open>Reading\<close>

definition isOwnedByCaller :: "transaction_store \<Rightarrow> string \<Rightarrow> string \<Rightarrow> bool" where
  "isOwnedByCaller s txId callerId =
     (case MemoryTransactions_findById s txId of
        None \<Rightarrow> True | Some t \<Rightarrow> tm_submittedBy (bt_metadata t) = Some callerId)"

text \<open>\<open>req.callerId !== undefined && !(await isOwnedByCaller(...))\<close>, negated.\<close>

definition may_read :: "api_caller \<Rightarrow> ('v, 'x) api_state \<Rightarrow> string \<Rightarrow> bool" where
  "may_read req st txId =
     (case gc_callerId req of None \<Rightarrow> True | Some c \<Rightarrow> isOwnedByCaller (as_transactions st) txId c)"

definition RECORD_NOT_FOUND :: "'e api_failure" where
  "RECORD_NOT_FOUND = Refused 404 ''Execution Trust Record not found.'' None"

definition submitted_by_caller :: "api_caller \<Rightarrow> business_transaction \<Rightarrow> bool" where
  "submitted_by_caller req t =
     (case gc_callerId req of None \<Rightarrow> True | Some c \<Rightarrow> tm_submittedBy (bt_metadata t) = Some c)"

definition TransactionsRouter_list ::
  "api_caller \<Rightarrow> int option \<Rightarrow> int option \<Rightarrow> ('v, 'x) api_state \<Rightarrow> business_transaction list" where
  "TransactionsRouter_list req page pageSize st =
     filter (submitted_by_caller req)
       (MemoryTransactions_list (as_transactions st) (case page of Some n \<Rightarrow> n | None \<Rightarrow> 1)
          (case pageSize of Some n \<Rightarrow> n | None \<Rightarrow> 25))"

definition TransactionsRouter_get ::
  "api_caller \<Rightarrow> string \<Rightarrow> ('v, 'x) api_state \<Rightarrow> (app_error api_failure, business_transaction) result" where
  "TransactionsRouter_get req txId st =
     (case MemoryTransactions_findById (as_transactions st) txId of
        None \<Rightarrow> Inl (Refused 404 ''Business Transaction not found.'' None)
      | Some t \<Rightarrow>
          if \<not> submitted_by_caller req t then Inl (Refused 404 ''Business Transaction not found.'' None) else Inr t)"

text \<open>The bounds are \<open>Date.parse\<close> of the query, absent when they are not a date.\<close>

definition TrustRecordsRouter_list ::
  "api_caller \<Rightarrow> int option \<Rightarrow> int option \<Rightarrow> int option \<Rightarrow> int option \<Rightarrow> ('v, 'x) api_state \<Rightarrow> trust_record list" where
  "TrustRecordsRouter_list req page pageSize since until st =
     filter (\<lambda>r. \<not> (case since of Some s \<Rightarrow> bt_createdAt (tr_transaction r) < s | None \<Rightarrow> False)
          \<and> \<not> (case until of Some u \<Rightarrow> bt_createdAt (tr_transaction r) > u | None \<Rightarrow> False))
       (filter (\<lambda>r. submitted_by_caller req (tr_transaction r))
          (ExecutionTrustApplication_listTrustRecords (case page of Some n \<Rightarrow> n | None \<Rightarrow> 1)
             (case pageSize of Some n \<Rightarrow> n | None \<Rightarrow> 25) (rs_world (as_app st))))"

definition TrustRecordsRouter_get ::
  "(('v, 'x) api_state \<Rightarrow> ('v, 'x) api_state) \<Rightarrow> api_caller \<Rightarrow> string \<Rightarrow> ('v, 'x) api_state
   \<Rightarrow> (app_error api_failure, trust_record) result \<times> ('v, 'x) api_state" where
  "TrustRecordsRouter_get others req txId st =
     (if \<not> may_read req st txId then (Inl RECORD_NOT_FOUND, st)
      else
        let st' = others st in
        case MemoryTrustRecords_findByTransactionId (as_records st') txId of
          None \<Rightarrow> (Inl RECORD_NOT_FOUND, st') | Some r \<Rightarrow> (Inr r, st'))"

definition VerifyGetRouter_get ::
  "(('v, 'x) api_state \<Rightarrow> ('v, 'x) api_state) \<Rightarrow> api_caller \<Rightarrow> string \<Rightarrow> ('v, 'x) api_state
   \<Rightarrow> (app_error api_failure, verification) result \<times> ('v, 'x) api_state" where
  "VerifyGetRouter_get others req txId st =
     (case TrustRecordsRouter_get others req txId st of
        (Inl x, st') \<Rightarrow> (Inl x, st')
      | (Inr r, st') \<Rightarrow>
          if tr_verifications r = [] then (Inl (Refused 404 ''Verification not found.'' None), st')
          else (Inr (last (tr_verifications r)), st'))"

definition ReceiptGetRouter_get ::
  "(('v, 'x) api_state \<Rightarrow> ('v, 'x) api_state) \<Rightarrow> api_caller \<Rightarrow> string \<Rightarrow> ('v, 'x) api_state
   \<Rightarrow> (app_error api_failure, receipt) result \<times> ('v, 'x) api_state" where
  "ReceiptGetRouter_get others req txId st =
     (case TrustRecordsRouter_get others req txId st of
        (Inl x, st') \<Rightarrow> (Inl x, st')
      | (Inr r, st') \<Rightarrow>
          if tr_receipts r = [] then (Inl (Refused 404 ''Receipt not found.'' None), st')
          else (Inr (last (tr_receipts r)), st'))"

definition RefusalGetRouter_get ::
  "(('v, 'x) api_state \<Rightarrow> ('v, 'x) api_state) \<Rightarrow> api_caller \<Rightarrow> string \<Rightarrow> ('v, 'x) api_state
   \<Rightarrow> (app_error api_failure, refusal_record) result \<times> ('v, 'x) api_state" where
  "RefusalGetRouter_get others req txId st =
     (let missing = Inl (Refused 404 ''Refusal Record not found.'' None) in
      if \<not> may_read req st txId then (missing, st)
      else
        let st' = others st in
        case MemoryRefusals_findByTransactionId (rs_refusals (as_app st')) txId of
          None \<Rightarrow> (missing, st') | Some r \<Rightarrow> (Inr r, st'))"

text \<open>
  The posted identifier of \<open>/verify\<close>, \<open>/receipt\<close> and \<open>/replay\<close>: required, and a UUID in the first two.
\<close>

fun js_truthy_id :: "json option \<Rightarrow> bool" where
  "js_truthy_id None = False"
| "js_truthy_id (Some JNull) = False"
| "js_truthy_id (Some (JBool b)) = b"
| "js_truthy_id (Some (JNum n)) = (n \<noteq> NaN \<and> n \<noteq> Fin 0)"
| "js_truthy_id (Some (JStr s)) = (s \<noteq> [])"
| "js_truthy_id (Some _) = True"

definition ID_REQUIRED :: string where
  "ID_REQUIRED = ''businessTransactionId is required.''"

definition VerifyRouter_post ::
  "record_crypto \<Rightarrow> (('v, 'x) api_state \<Rightarrow> ('v, 'x) api_state) \<Rightarrow> string \<Rightarrow> int \<Rightarrow> api_caller \<Rightarrow> json option
   \<Rightarrow> ('v, 'x) api_state \<Rightarrow> (string api_failure, verification) result \<times> ('v, 'x) api_state" where
  "VerifyRouter_post k others uuid now req txId st =
     (if \<not> js_truthy_id txId then (Inl (Refused 400 ID_REQUIRED None), st)
      else if \<not> isValidBusinessTransactionId ''12345678'' txId then (Inl (Refused 400 UUID_INVALID None), st)
      else
        let i = the (json_text txId) in
        if \<not> may_read req st i then (Inl RECORD_NOT_FOUND, st)
        else
          let st' = others st in
          case VerificationService_verify k uuid now i (as_records st') of
            (Inl x, s) \<Rightarrow> (Inl (Passed x), with_records s st')
          | (Inr v, s) \<Rightarrow> (Inr v, with_records s st'))"

definition ReceiptRouter_post ::
  "record_crypto \<Rightarrow> (('v, 'x) api_state \<Rightarrow> ('v, 'x) api_state) \<Rightarrow> string \<Rightarrow> int \<Rightarrow> api_caller \<Rightarrow> json option
   \<Rightarrow> ('v, 'x) api_state \<Rightarrow> (string api_failure, receipt) result \<times> ('v, 'x) api_state" where
  "ReceiptRouter_post k others uuid now req txId st =
     (if \<not> js_truthy_id txId then (Inl (Refused 400 ID_REQUIRED None), st)
      else if \<not> isValidBusinessTransactionId ''12345678'' txId then (Inl (Refused 400 UUID_INVALID None), st)
      else
        let i = the (json_text txId) in
        if \<not> may_read req st i then (Inl RECORD_NOT_FOUND, st)
        else
          let st' = others st in
          case ReceiptService_generate k uuid now i (as_records st') of
            (Inl x, s) \<Rightarrow> (Inl (Passed x), with_records s st')
          | (Inr v, s) \<Rightarrow> (Inr v, with_records s st'))"

text \<open>An identifier that is no text names nothing in the repositories.\<close>

definition ReplayRouter_post ::
  "record_crypto \<Rightarrow> (('v, 'x) api_state \<Rightarrow> ('v, 'x) api_state) \<Rightarrow> api_caller \<Rightarrow> json option
   \<Rightarrow> ('v, 'x) api_state \<Rightarrow> (string api_failure, string \<times> string \<times> bool) result \<times> ('v, 'x) api_state" where
  "ReplayRouter_post k others req txId st =
     (if \<not> js_truthy_id txId then (Inl (Refused 400 ID_REQUIRED None), st)
      else case json_text txId of
        None \<Rightarrow> (Inl (Passed ''Execution Trust Record not found.''), others st)
      | Some i \<Rightarrow>
          if \<not> may_read req st i then (Inl RECORD_NOT_FOUND, st)
          else
            let st' = others st in
            case ExecutionTrustApplication_replay k i (as_records st') of
              Inl x \<Rightarrow> (Inl (Passed x), st') | Inr v \<Rightarrow> (Inr v, st'))"

section \<open>Execution intents\<close>

record intent_view =
  iv_intent :: execution_intent
  iv_status :: intent_status

text \<open>\<open>publicView\<close>: the released context is never returned.\<close>

definition publicView :: "'c stored_intent \<Rightarrow> intent_view" where
  "publicView stored = \<lparr>iv_intent = si_intent stored, iv_status = si_status stored\<rparr>"

definition DEFAULT_UNFINALIZED_LIMIT :: int where
  "DEFAULT_UNFINALIZED_LIMIT = 50"

definition MAX_UNFINALIZED_LIMIT :: int where
  "MAX_UNFINALIZED_LIMIT = 200"

definition denyNonHumanCaller :: "'e api_failure" where
  "denyNonHumanCaller = Refused 403
     ''This action requires a caller credential provisioned as a verified human (credentialHolderType: USER).'' (Some ''NON_HUMAN_CALLER_DENIED'')"

text \<open>The query limit is absent unless it is an integer.\<close>

definition IntentsRouter_unfinalized ::
  "bool \<Rightarrow> api_caller \<Rightarrow> int option \<Rightarrow> ('v, 'x) api_state \<Rightarrow> (app_error api_failure, intent_view list) result" where
  "IntentsRouter_unfinalized enabled req requested st =
     (if \<not> isHumanCaller (gc_holder req) then Inl denyNonHumanCaller
      else
        let limit = (case requested of
              Some n \<Rightarrow> if n > 0 then min n MAX_UNFINALIZED_LIMIT else DEFAULT_UNFINALIZED_LIMIT
            | None \<Rightarrow> DEFAULT_UNFINALIZED_LIMIT) in
        Inr (if enabled then map publicView (MemoryIntents_listUnfinalized (nat limit) (rs_intents (as_app st))) else []))"

definition IntentsRouter_get ::
  "bool \<Rightarrow> (('v, 'x) api_state \<Rightarrow> ('v, 'x) api_state) \<Rightarrow> api_caller \<Rightarrow> string \<Rightarrow> ('v, 'x) api_state
   \<Rightarrow> (app_error api_failure, intent_view) result \<times> ('v, 'x) api_state" where
  "IntentsRouter_get enabled others req txId st =
     (let missing = Inl (Refused 404 ''Execution Intent not found.'' None) in
      if \<not> may_read req st txId then (missing, st)
      else
        let st' = others st in
        case (if enabled then MemoryIntents_findByTransactionId (rs_intents (as_app st')) txId else None) of
          None \<Rightarrow> (missing, st') | Some stored \<Rightarrow> (Inr (publicView stored), st'))"

definition IntentsRouter_finalize ::
  "record_crypto \<Rightarrow> bool \<Rightarrow> app_inputs \<Rightarrow> api_caller \<Rightarrow> string \<Rightarrow> ('v, 'x) api_state
   \<Rightarrow> (app_error api_failure, finalize_outcome \<times> string \<times> string \<times> trust_record) result \<times> ('v, 'x) api_state" where
  "IntentsRouter_finalize k enabled inputs req txId st =
     (if \<not> isHumanCaller (gc_holder req) then (Inl denyNonHumanCaller, st)
      else case ExecutionTrustApplication_finalizeExecutionIntent k enabled inputs txId
                  (rs_intents (as_app st), as_records st) of
        (q, is', s) \<Rightarrow>
          ((case q of Inl x \<Rightarrow> Inl (Passed x) | Inr (outcome, r) \<Rightarrow> Inr (outcome, txId, tr_trustRecordId r, r)),
           with_records s (st\<lparr>as_app := (as_app st)\<lparr>rs_intents := is'\<rparr>\<rparr>)))"

text \<open>The fields of a body that is no plain object are absent.\<close>

definition body_field :: "json option \<Rightarrow> string \<Rightarrow> json option" where
  "body_field body name = (case body of Some (JObj kvs) \<Rightarrow> map_of kvs name | _ \<Rightarrow> None)"

definition IntentsRouter_resolve ::
  "bool \<Rightarrow> (runtime_context intent_store \<Rightarrow> runtime_context intent_store)
   \<Rightarrow> (runtime_context intent_store \<Rightarrow> runtime_context intent_store) \<Rightarrow> int \<Rightarrow> api_caller \<Rightarrow> string \<Rightarrow> json option
   \<Rightarrow> ('v, 'x) api_state
   \<Rightarrow> (app_error api_failure, resolve_outcome \<times> string \<times> intent_view) result \<times> ('v, 'x) api_state" where
  "IntentsRouter_resolve enabled others1 others2 now req txId body st =
     (if \<not> isHumanCaller (gc_holder req) then (Inl denyNonHumanCaller, st)
      else case ExecutionTrustApplication_resolveExecutionIntent enabled
                  (ExecutionIntentService_resolve MemoryIntents_findByTransactionId MemoryIntents_markResolved
                     others1 others2 now txId (body_field body ''resolution'') (body_field body ''note'')
                     (gc_callerId req)) txId (as_records st) (rs_intents (as_app st)) of
        (q, is') \<Rightarrow>
          ((case q of Inl x \<Rightarrow> Inl (Passed x) | Inr (outcome, stored) \<Rightarrow> Inr (outcome, txId, publicView stored)),
           st\<lparr>as_app := (as_app st)\<lparr>rs_intents := is'\<rparr>\<rparr>))"

section \<open>Checking without a key\<close>

text \<open>
  The routes in front of the authentication take the artifact itself and check its signature: what
  they require of a body, and the answer of the check.
\<close>

definition is_text :: "json option \<Rightarrow> bool" where
  "is_text v = (json_text v \<noteq> None)"

text \<open>\<open>typeof v === "object" && v !== null\<close>\<close>

fun is_object :: "json option \<Rightarrow> bool" where
  "is_object (Some (JObj kvs)) = True"
| "is_object (Some (JArr vs)) = True"
| "is_object _ = False"

definition isPlausibleRefusalRecord :: "json option \<Rightarrow> bool" where
  "isPlausibleRefusalRecord body =
     (is_text (body_field body ''refusalRecordId'') \<and> is_text (body_field body ''businessTransactionId'')
      \<and> is_text (body_field body ''refusalRecordHash'') \<and> is_object (body_field body ''signature'')
      \<and> is_object (body_field body ''decision''))"

definition isPlausibleExecutionIntent :: "json option \<Rightarrow> bool" where
  "isPlausibleExecutionIntent body =
     (is_text (body_field body ''intentId'') \<and> is_text (body_field body ''businessTransactionId'')
      \<and> is_text (body_field body ''authorizationId'') \<and> is_text (body_field body ''intentHash'')
      \<and> is_object (body_field body ''signature''))"

definition isPlausibleAuditEvent :: "json option \<Rightarrow> bool" where
  "isPlausibleAuditEvent event =
     (is_text (body_field event ''type'') \<and> is_text (body_field event ''occurredAt'') \<and> is_text (body_field event ''route''))"

definition isPlausibleSignature :: "json option \<Rightarrow> bool" where
  "isPlausibleSignature v =
     (is_text (body_field v ''algorithm'') \<and> is_text (body_field v ''keyId'') \<and> is_text (body_field v ''value''))"

definition RefusalVerifyRouter_post ::
  "(json \<Rightarrow> (string, bool) result) \<Rightarrow> json option \<Rightarrow> (string api_failure, bool) result" where
  "RefusalVerifyRouter_post verify body =
     (if \<not> isPlausibleRefusalRecord body
      then Inl (Refused 400 (''Request body must be a Refusal Record (refusalRecordId, businessTransactionId, decision, ''
              @ ''refusalRecordHash, signature required).'') None)
      else (case verify (the body) of Inl x \<Rightarrow> Inl (Passed x) | Inr valid \<Rightarrow> Inr valid))"

definition IntentVerifyRouter_post ::
  "(json \<Rightarrow> (string, bool) result) \<Rightarrow> json option \<Rightarrow> (string api_failure, bool) result" where
  "IntentVerifyRouter_post verify body =
     (if \<not> isPlausibleExecutionIntent body
      then Inl (Refused 400 (''Request body must be an Execution Intent (intentId, businessTransactionId, authorizationId, ''
              @ ''intentHash, signature required).'') None)
      else (case verify (the body) of Inl x \<Rightarrow> Inl (Passed x) | Inr valid \<Rightarrow> Inr valid))"

definition AuditVerifyRouter_post ::
  "(json \<Rightarrow> json \<Rightarrow> (string, bool) result) \<Rightarrow> json option \<Rightarrow> (string api_failure, bool) result" where
  "AuditVerifyRouter_post verify body =
     (let event = body_field body ''event''; signature = body_field body ''signature'' in
      if \<not> isPlausibleAuditEvent event \<or> \<not> isPlausibleSignature signature
      then Inl (Refused 400 (''Request body must be { event, signature } (event: type, occurredAt, route; signature: ''
              @ ''algorithm, keyId, value required).'') None)
      else (case verify (the event) (the signature) of Inl x \<Rightarrow> Inl (Passed x) | Inr valid \<Rightarrow> Inr valid))"

end
