(* ===== verification/Api_Properties.thy ===== *)
theory Api_Properties
  imports Api_Routes Application_Properties
begin

text \<open>
  Properties of the API around the application: what a caller must have shown before its transaction
  is executed, what the audit trail then holds, and who can read the result.
\<close>

section \<open>The application keeps the accepted transactions\<close>

lemma transition_transactions:
  "store_transition k now x draft w = (q, w') \<Longrightarrow> aw_transactions w' = aw_transactions w"
  by (auto simp: store_transition_def split: sum.splits)

lemma run_execution_transactions:
  assumes "run_execution k inputs system t a x w = (q, y, w')"
  shows "aw_transactions w' = aw_transactions w"
proof (cases "ExecutionRequestBuilder_build t a")
  case (Inl e)
  with assms show ?thesis by (auto simp: run_execution_def)
next
  case req: (Inr request)
  obtain p s' where p: "system request (aw_system w) = (p, s')" by (rule prod.exhaust)
  show ?thesis using assms req p
    by (auto simp: run_execution_def ExecutionService_attachEvidence_def ExecutionService_complete_def
        split: sum.splits prod.splits dest!: transition_transactions)
qed

lemma component_transactions:
  assumes "ExecutionComponent_execute k inputs system c w = (q, w')"
  shows "aw_transactions w' = aw_transactions w"
proof (cases "cx_authorization c")
  case None
  with assms show ?thesis by (auto simp: ExecutionComponent_execute_def)
next
  case (Some a)
  obtain p w1 where p: "ExecutionService_create k inputs (bt_businessTransactionId (cx_transaction c)) (cx_decision c)
      SYNC (Some [(''authorizationId'', JStr (ap_authorizationId (sa_payload a)))]) w = (p, w1)" by (rule prod.exhaust)
  then have s: "aw_transactions w1 = aw_transactions w"
    by (auto simp: ExecutionService_create_def Let_def split: option.splits sum.splits)
  show ?thesis
  proof (cases p)
    case (Inl e)
    with assms Some p s show ?thesis by (auto simp: ExecutionComponent_execute_def)
  next
    case (Inr x)
    obtain z y w2 where z: "run_execution k inputs system (cx_transaction c) a x w1 = (z, y, w2)"
      by (metis prod.exhaust)
    have "aw_transactions w' = aw_transactions w2" using assms Some p Inr z
      by (auto simp: ExecutionComponent_execute_def ExecutionService_fail_def split: sum.splits prod.splits
          dest!: transition_transactions)
    with run_execution_transactions[OF z] s show ?thesis by simp
  qed
qed

lemma engine_transactions:
  assumes "RuntimeEngine_execute (RuntimeFactory_create k inputs system e) call t st = (q, st')"
  shows "aw_transactions (rs_world st') = aw_transactions (rs_world st)"
  using assms
proof (cases rule: execute_cases)
  case stopped
  then show ?thesis by simp
next
  case (released pv c is' v')
  let ?e = "RuntimeFactory_create k inputs system e"
  obtain p w where p: "RuntimePipeline_execute (rt_pipeline ?e) c (rs_world st) = (p, w)" by (rule prod.exhaust)
  have w: "rs_world st' = w \<or> rs_world st' = rs_world st"
    using released(2) p by (auto simp: RuntimeEngine_release_def Let_def split: sum.splits prod.splits)
  obtain p2 w2 where p2: "ExecutionComponent_execute k (ai_execution inputs) system c (rs_world st) = (p2, w2)"
    by (rule prod.exhaust)
  have "w = w2 \<or> w = rs_world st" using p p2
    by (auto simp: RuntimeFactory_create_def TrustChainValidationComponent_execute_def split: sum.splits if_splits)
  with w component_transactions[OF p2] show ?thesis by auto
qed

text \<open>What is accepted is all that changes.\<close>

lemma application_transactions:
  assumes "ExecutionTrustApplication_execute k system e inputs t st = (q, st')"
  shows "aw_transactions (rs_world st') =
    snd (BusinessTransactionService_accept (ai_otherTransactions inputs) t (aw_transactions (rs_world st)))"
  using assms
proof (cases rule: application_cases)
  case (rejected ts x)
  then show ?thesis by simp
next
  case (failed ts x)
  from failed(2) have "RuntimeEngine_execute (RuntimeFactory_create k inputs system e) (ai_call inputs) t
      (st\<lparr>rs_world := (rs_world st)\<lparr>aw_transactions := ts\<rparr>\<rparr>) = (Inl x, st')"
    by (auto simp: Runtime_execute_def store_record_def MemoryTrustRecords_create_def split: prod.splits sum.splits)
  from engine_transactions[OF this] failed(1) show ?thesis by simp
next
  case (ran ts c r st1 s')
  from engine_transactions[OF ran(2)] ran(1,4) show ?thesis by simp
qed

section \<open>Submissions\<close>

definition refused :: "('e, 'a) result \<Rightarrow> bool" where
  "refused q = (case q of Inl _ \<Rightarrow> True | Inr _ \<Rightarrow> False)"

lemma refused_simps [simp]: "refused (Inl e)" "\<not> refused (Inr a)"
  by (simp_all add: refused_def)

lemma checks_Inr:
  assumes "submission_checks inputs req c t events = (Inr u, events')"
  shows "isPrincipalAllowed (map_option au_principalId (mt_authority t)) c (ac_allowedPrincipalIds req)
    \<and> isCapabilityAllowed (map_option in_action (mt_intent t)) (ac_allowedCapabilities req)
    \<and> events' = events @ (if sb_sink inputs = None then []
        else [capability_grant (sb_now inputs 0) (gc_route req) c (map_option in_action (mt_intent t))])"
  using assms unfolding submission_checks_def Let_def
  by (auto dest!: audited_cases split: if_splits prod.splits sum.splits)

text \<open>The transaction the application gets names its submitter and the capability that was granted.\<close>

lemma completed_submitter:
  assumes "complete_transaction b (set_submitter c t) = Inr t'"
  shows "tm_submittedBy (bt_metadata t') = Some c \<and> mt_authority t = Some (bt_authority t')
    \<and> mt_intent t = Some (bt_intent t') \<and> tm_grantedCapability (bt_metadata t') = Some (in_action (bt_intent t'))"
  using assms by (auto simp: complete_transaction_def set_submitter_def split: option.splits if_splits)

lemma failed_keeps: "submission_failed inputs req txId x events = (x', events') \<Longrightarrow> set events \<subseteq> set events'"
  by (auto simp: submission_failed_def dest!: audited_cases
      split: api_failure.splits app_error.splits prod.splits sum.splits if_splits)

text \<open>A submission by an authenticated caller is refused, or passed the checks and was executed.\<close>

lemma post_cases:
  assumes "ExecuteRouter_post k system e inputs req body st = (q, st')" and "gc_callerId req = Some c"
    and "sb_sink inputs = Some sink"
  obtains (refused) "as_app st' = as_app st" "refused q" "set (as_audit st) \<subseteq> set (as_audit st')"
  | (executed) t where "tm_submittedBy (bt_metadata t) = Some c"
      "tm_grantedCapability (bt_metadata t) = Some (in_action (bt_intent t))"
      "isPrincipalAllowed (Some (au_principalId (bt_authority t))) c (ac_allowedPrincipalIds req)"
      "isCapabilityAllowed (Some (in_action (bt_intent t))) (ac_allowedCapabilities req)"
      "set (as_audit st) \<subseteq> set (as_audit st')"
      "capability_grant (sb_now inputs 0) (gc_route req) c (Some (in_action (bt_intent t))) \<in> set (as_audit st')"
      "as_app st' = snd (ExecutionTrustApplication_execute k system e (sb_app inputs) t (as_app st))"
proof (cases "isValidBusinessTransactionId ''12345'' (xb_businessTransactionId body)")
  case False
  with assms show thesis
    by (intro refused) (auto simp: ExecuteRouter_post_def dest!: audited_cases split: prod.splits sum.splits)
next
  case True
  let ?id = "the (json_text (xb_businessTransactionId body))"
  let ?t = "BusinessTransactionMapper_fromRequest (sb_createdAt inputs) ?id body"
  obtain p ev where p: "submission_checks inputs req c ?t (as_audit st) = (p, ev)" by (rule prod.exhaust)
  show thesis
  proof (cases p)
    case (Inl x)
    have "set (as_audit st) \<subseteq> set ev"
      using p unfolding submission_checks_def Let_def
      by (auto dest!: audited_cases split: if_splits prod.splits sum.splits)
    with True assms p Inl show thesis
      by (intro refused) (auto simp: ExecuteRouter_post_def Let_def)
  next
    case (Inr u)
    note ch = checks_Inr[OF p[unfolded Inr]]
    from ch assms(3) have ev: "set (as_audit st) \<subseteq> set ev" by auto
    show thesis
    proof (cases "complete_transaction True (set_submitter c ?t)")
      case x: (Inl x)
      obtain x' ev' where f: "submission_failed inputs req ?id x ev = (x', ev')" by (rule prod.exhaust)
      from True assms(1,2) p Inr x f have "q = Inl x'" "st' = st\<lparr>as_app := as_app st, as_audit := ev'\<rparr>"
        by (simp_all add: ExecuteRouter_post_def Let_def)
      with failed_keeps[OF f] ev show thesis by (intro refused) auto
    next
      case t: (Inr t)
      note sub = completed_submitter[OF t]
      obtain r a where r: "ExecutionTrustApplication_execute k system e (sb_app inputs) t (as_app st) = (r, a)"
        by (rule prod.exhaust)
      have "as_app st' = a \<and> set ev \<subseteq> set (as_audit st')"
      proof (cases r)
        case y: (Inl y)
        obtain x' ev' where f: "submission_failed inputs req ?id (Passed y) ev = (x', ev')" by (rule prod.exhaust)
        from True assms(1,2) p Inr t r y f have "st' = st\<lparr>as_app := a, as_audit := ev'\<rparr>"
          by (simp add: ExecuteRouter_post_def Let_def)
        with failed_keeps[OF f] show ?thesis by simp
      next
        case (Inr y)
        with True assms(1,2) p \<open>p = Inr u\<close> t r have "st' = st\<lparr>as_app := a, as_audit := ev\<rparr>"
          by (simp add: ExecuteRouter_post_def Let_def)
        then show ?thesis by simp
      qed
      with ch sub assms(3) r ev show thesis by (intro executed[of t]) auto
    qed
  qed
qed

lemma transactions_post: "ExecuteRouter_post k system e inputs req body st = (q, st') \<Longrightarrow>
    snd (TransactionsRouter_post k system e inputs req body st) = st'"
  by (auto simp: TransactionsRouter_post_def split: sum.splits)

text \<open>What the keys and the audit trail say for a stored transaction.\<close>

definition granted_by :: "api_key_entry \<Rightarrow> caller_audit_event list \<Rightarrow> business_transaction \<Rightarrow> bool" where
  "granted_by entry events t \<longleftrightarrow>
     tm_submittedBy (bt_metadata t) = Some (ak_callerId entry)
     \<and> tm_grantedCapability (bt_metadata t) = Some (in_action (bt_intent t))
     \<and> isPrincipalAllowed (Some (au_principalId (bt_authority t))) (ak_callerId entry) (ak_allowedPrincipalIds entry)
     \<and> isCapabilityAllowed (Some (in_action (bt_intent t))) (ak_allowedCapabilities entry)
     \<and> (\<exists>now route. caller_event ''caller.authenticated'' now route (Some (ak_callerId entry)) \<in> set events)
     \<and> (\<exists>now route. capability_grant now route (ak_callerId entry) (Some (in_action (bt_intent t))) \<in> set events)"

lemma granted_mono: "granted_by entry events t \<Longrightarrow> set events \<subseteq> set events' \<Longrightarrow> granted_by entry events' t"
  unfolding granted_by_def by blast

lemma middleware_audit:
  "createCallerAuthMiddleware authenticate sink now req events = (q, events') \<Longrightarrow> set events \<subseteq> set events'"
  by (auto simp: createCallerAuthMiddleware_def Let_def dest!: audited_cases split: option.splits prod.splits sum.splits)

text \<open>The whole way of a submission.\<close>

lemma submission_cases:
  assumes "behind_authentication (StaticKeyAuthenticator_authenticate hash entries) sink now req
      (\<lambda>caller. ExecuteRouter_post k system e (inputs\<lparr>sb_sink := Some sink\<rparr>) caller body) st = (q, st')"
  obtains (refused) "as_app st' = as_app st" "refused q" "set (as_audit st) \<subseteq> set (as_audit st')"
  | (executed) token entry t where "extractBearerToken (aq_authorization req) = Some token" "entry \<in> set entries"
      "entry_matches hash token entry" "granted_by entry (as_audit st') t" "set (as_audit st) \<subseteq> set (as_audit st')"
      "as_app st' = snd (ExecutionTrustApplication_execute k system e (sb_app inputs) t (as_app st))"
proof -
  obtain p :: "(app_error api_failure, api_caller) result" and ev
    where p: "createCallerAuthMiddleware (StaticKeyAuthenticator_authenticate hash entries) sink now req
      (as_audit st) = (p, ev)" by (rule prod.exhaust)
  note kept = middleware_audit[OF p]
  show thesis
  proof (cases p)
    case (Inl x)
    with assms p kept show thesis by (intro refused) (auto simp: behind_authentication_def)
  next
    case (Inr caller)
    from middleware_Inr[OF p[unfolded Inr]] obtain identity where
      i: "StaticKeyAuthenticator_authenticate hash entries (extractBearerToken (aq_authorization req)) = Some identity"
      "gc_callerId caller = Some (id_callerId identity)"
      "ac_allowedPrincipalIds caller = id_allowedPrincipalIds identity"
      "ac_allowedCapabilities caller = id_allowedCapabilities identity"
      "ev = as_audit st @ [caller_event ''caller.authenticated'' now (aq_route req) (Some (id_callerId identity))]"
      by blast
    from authenticate_Some[OF i(1)] obtain token entry where
      c: "extractBearerToken (aq_authorization req) = Some token" "entry \<in> set entries" "entry_matches hash token entry"
      "identity = entry_identity entry" by blast
    have post: "ExecuteRouter_post k system e (inputs\<lparr>sb_sink := Some sink\<rparr>) caller body (st\<lparr>as_audit := ev\<rparr>) = (q, st')"
      using assms p Inr by (simp add: behind_authentication_def)
    have some: "sb_sink (inputs\<lparr>sb_sink := Some sink\<rparr>) = Some sink" by simp
    from post i(2) some show thesis
    proof (cases rule: post_cases)
      case refused
      with kept show thesis by (intro that(1)) auto
    next
      case (executed t)
      have "caller_event ''caller.authenticated'' now (aq_route req) (Some (ak_callerId entry)) \<in> set (as_audit st')"
        using executed(5) i(5) c(4) by (auto simp: entry_identity_def)
      with executed(1-4,6) i(2-4) c(4) have "granted_by entry (as_audit st') t"
        unfolding granted_by_def entry_identity_def by auto
      with executed(5,7) kept c(1-3) show thesis by (intro that(2)[of token entry t]) auto
    qed
  qed
qed

text \<open>
  C17: What reaches the application through \<open>POST /execute\<close>.  A request is refused and leaves the
  application as it was, or its bearer token is the key of a configured caller that may assert the
  principal and invoke the capability of the transaction, both checks are in the audit trail, and
  the application executes the transaction with that caller as its submitter and that capability as
  the granted one, whatever the body said.
\<close>

theorem submission_guarded:
  "case behind_authentication (StaticKeyAuthenticator_authenticate hash entries) sink now req
      (\<lambda>caller. ExecuteRouter_post k system e (inputs\<lparr>sb_sink := Some sink\<rparr>) caller body) st of
     (q, st') \<Rightarrow>
       (as_app st' = as_app st \<and> refused q)
       \<or> (\<exists>token entry t. extractBearerToken (aq_authorization req) = Some token \<and> entry \<in> set entries
            \<and> entry_matches hash token entry \<and> granted_by entry (as_audit st') t
            \<and> as_app st' = snd (ExecutionTrustApplication_execute k system e (sb_app inputs) t (as_app st)))"
proof -
  obtain q st' where x: "behind_authentication (StaticKeyAuthenticator_authenticate hash entries) sink now req
      (\<lambda>caller. ExecuteRouter_post k system e (inputs\<lparr>sb_sink := Some sink\<rparr>) caller body) st = (q, st')"
    by (rule prod.exhaust)
  from x show ?thesis by (cases rule: submission_cases) (simp_all add: x, blast)
qed

text \<open>A request whose authentication cannot be audited does nothing, whoever sends it.\<close>

lemma unaudited_request_refused:
  "behind_authentication authenticate (\<lambda>_. False) now req route st = (Inl AuditUnavailable, st)"
  by (simp add: behind_authentication_def createCallerAuthMiddleware_def audited_def recordCallerAuditEvent_def
      Let_def split: option.splits)

section \<open>All requests\<close>

text \<open>
  The requests that write, by any callers.  Transactions that other requests accept while one is
  being accepted have passed the checks themselves.
\<close>

definition others_granted :: "api_key_entry list \<Rightarrow> ('v, 'x) api_state \<Rightarrow> app_inputs \<Rightarrow> bool" where
  "others_granted entries st inputs \<longleftrightarrow>
     (\<forall>s i t. map_of (ai_otherTransactions inputs s) i = Some t \<longrightarrow>
        map_of s i = Some t \<or> (\<exists>entry\<in>set entries. granted_by entry (as_audit st) t))"

inductive api_step ::
  "record_crypto \<Rightarrow> (string \<Rightarrow> string) \<Rightarrow> api_key_entry list \<Rightarrow> audit_sink
   \<Rightarrow> ('v, 'x) api_state \<Rightarrow> ('v, 'x) api_state \<Rightarrow> bool" for k hash entries sink where
  post_execute: "others_granted entries st (sb_app inputs) \<Longrightarrow>
     api_step k hash entries sink st (snd (behind_authentication (StaticKeyAuthenticator_authenticate hash entries) sink now req
       (\<lambda>caller. ExecuteRouter_post k system e (inputs\<lparr>sb_sink := Some sink\<rparr>) caller body) st))"
| post_transactions: "others_granted entries st (sb_app inputs) \<Longrightarrow>
     api_step k hash entries sink st (snd (behind_authentication (StaticKeyAuthenticator_authenticate hash entries) sink now req
       (\<lambda>caller. TransactionsRouter_post k system e (inputs\<lparr>sb_sink := Some sink\<rparr>) caller body) st))"
| post_verify: "api_step k hash entries sink st (snd (behind_authentication (StaticKeyAuthenticator_authenticate hash entries) sink
     now req (\<lambda>caller. VerifyRouter_post k (\<lambda>s. s) uuid t caller txId) st))"
| post_receipt: "api_step k hash entries sink st (snd (behind_authentication (StaticKeyAuthenticator_authenticate hash entries) sink
     now req (\<lambda>caller. ReceiptRouter_post k (\<lambda>s. s) uuid t caller txId) st))"
| post_finalize: "api_step k hash entries sink st (snd (behind_authentication (StaticKeyAuthenticator_authenticate hash entries) sink
     now req (\<lambda>caller. IntentsRouter_finalize k enabled finputs caller i) st))"
| post_resolve: "api_step k hash entries sink st (snd (behind_authentication (StaticKeyAuthenticator_authenticate hash entries) sink
     now req (\<lambda>caller. IntentsRouter_resolve enabled others1 others2 t caller i rbody) st))"

definition all_granted :: "api_key_entry list \<Rightarrow> ('v, 'x) api_state \<Rightarrow> bool" where
  "all_granted entries st \<longleftrightarrow>
     (\<forall>i t. map_of (as_transactions st) i = Some t \<longrightarrow> (\<exists>entry\<in>set entries. granted_by entry (as_audit st) t))"

lemma accept_origin:
  "map_of (snd (BusinessTransactionService_accept others t s)) i = Some u \<Longrightarrow>
     map_of s i = Some u \<or> map_of (others s) i = Some u \<or> u = t"
  by (auto simp: BusinessTransactionService_accept_def MemoryTransactions_create_def split: sum.splits if_splits)

lemma submission_all_granted:
  assumes "behind_authentication (StaticKeyAuthenticator_authenticate hash entries) sink now req
      (\<lambda>caller. ExecuteRouter_post k system e (inputs\<lparr>sb_sink := Some sink\<rparr>) caller body) st = (q, st')"
    and "all_granted entries st" and "others_granted entries st (sb_app inputs)"
  shows "all_granted entries st'"
  using assms(1)
proof (cases rule: submission_cases)
  case refused
  with assms(2) granted_mono show ?thesis unfolding all_granted_def by metis
next
  case (executed token entry t)
  show ?thesis unfolding all_granted_def
  proof (intro allI impI)
    fix i u assume "map_of (as_transactions st') i = Some u"
    with executed(6) application_transactions[OF prod.collapse[symmetric], of k system e "sb_app inputs" t "as_app st"]
    have "map_of (snd (BusinessTransactionService_accept (ai_otherTransactions (sb_app inputs)) t (as_transactions st))) i
      = Some u" by simp
    from accept_origin[OF this] have "u = t \<or> (\<exists>entry\<in>set entries. granted_by entry (as_audit st) u)"
      using assms(2,3) unfolding all_granted_def others_granted_def by blast
    with executed(2,4,5) granted_mono show "\<exists>entry\<in>set entries. granted_by entry (as_audit st') u" by blast
  qed
qed

text \<open>The other routes leave the transactions and only add to the audit trail.\<close>

lemma behind_keeps:
  fixes route :: "api_caller \<Rightarrow> ('v, 'x) api_state \<Rightarrow> ('e api_failure, 'r) result \<times> ('v, 'x) api_state"
  assumes "\<And>caller st0. as_transactions (snd (route caller st0)) = as_transactions st0"
    and "\<And>caller st0. as_audit (snd (route caller st0)) = as_audit st0" and "all_granted entries st"
  shows "all_granted entries (snd (behind_authentication authenticate sink now req route st))"
proof -
  obtain p :: "('e api_failure, api_caller) result" and ev
    where p: "createCallerAuthMiddleware authenticate sink now req (as_audit st) = (p, ev)"
    by (rule prod.exhaust)
  let ?st' = "snd (behind_authentication authenticate sink now req route st)"
  have "as_transactions ?st' = as_transactions st \<and> as_audit ?st' = ev"
    using p assms(1,2) by (cases p) (simp_all add: behind_authentication_def)
  with assms(3) middleware_audit[OF p] granted_mono show ?thesis unfolding all_granted_def by metis
qed

lemma api_step_granted:
  assumes "api_step k hash entries sink st st'" "all_granted entries st"
  shows "all_granted entries st'"
  using assms
proof (induction rule: api_step.induct)
  case (post_execute st inputs now req system e body)
  then show ?case using submission_all_granted[OF prod.collapse[symmetric]] by blast
next
  case (post_transactions st inputs now req system e body)
  let ?x = "\<lambda>post. snd (behind_authentication (StaticKeyAuthenticator_authenticate hash entries) sink now req
      (\<lambda>caller. post k system e (inputs\<lparr>sb_sink := Some sink\<rparr>) caller body) st)"
  have "?x TransactionsRouter_post = ?x ExecuteRouter_post"
    by (simp add: behind_authentication_def transactions_post[OF prod.collapse[symmetric]] split: prod.splits sum.splits)
  with post_transactions submission_all_granted[OF prod.collapse[symmetric]] show ?case by metis
next
  case (post_verify st now req uuid t txId)
  then show ?case
    by (intro behind_keeps) (auto simp: VerifyRouter_post_def with_records_def Let_def split: prod.splits sum.splits)
next
  case (post_receipt st now req uuid t txId)
  then show ?case
    by (intro behind_keeps) (auto simp: ReceiptRouter_post_def with_records_def Let_def split: prod.splits sum.splits)
next
  case (post_finalize st now req enabled finputs i)
  then show ?case
    by (intro behind_keeps) (auto simp: IntentsRouter_finalize_def with_records_def split: prod.splits)
next
  case (post_resolve st now req enabled others1 others2 t i rbody)
  then show ?case by (intro behind_keeps) (auto simp: IntentsRouter_resolve_def split: prod.splits)
qed

text \<open>
  C18: Whatever requests come, every stored transaction was submitted by the holder of a configured
  key: it names that caller and the capability it was granted, the key may assert its principal and
  invoke its capability, and the audit trail holds the authentication and the grant.
\<close>

theorem stored_transactions_granted:
  assumes "(api_step k hash entries sink)\<^sup>*\<^sup>* st st'" and "as_transactions st = []"
    and "map_of (as_transactions st') i = Some t"
  shows "\<exists>entry. entry \<in> set entries \<and> granted_by entry (as_audit st') t"
proof -
  have "all_granted entries st" by (simp add: all_granted_def assms(2))
  with assms(1) have "all_granted entries st'"
    by (induction rule: rtranclp_induct) (auto intro: api_step_granted)
  with assms(3) show ?thesis unfolding all_granted_def by blast
qed

definition sample_entries :: "api_key_entry list" where
  "sample_entries = [\<lparr>ak_callerId = ''agent'', ak_keyHash = ''AB12'', ak_credentialHolderType = Some SERVICE,
     ak_allowedPrincipalIds = Some [''p''], ak_allowedCapabilities = Some [''pay''], ak_stepUpPublicKey = None\<rparr>]"

definition sample_key_hash :: "string \<Rightarrow> string" where
  "sample_key_hash key = (if key = ''secret'' then ''ab12'' else ''00ff'')"

definition sample_uuid :: string where
  "sample_uuid = ''0a1b2c3d-0000-4000-8000-00000000000F''"

definition sample_api_request :: api_request where
  "sample_api_request = \<lparr>aq_route = ''/execute'', aq_authorization = Some ''Bearer secret '', aq_stepUp = None\<rparr>"

text \<open>The body claims another submitter and another grant.\<close>

definition sample_body :: submission_body where
  "sample_body =
     \<lparr>xb_businessTransactionId = Some (JStr sample_uuid),
      xb_metadata = Some \<lparr>tm_businessTransactionId = sample_uuid, tm_tenantId = None,
        tm_submittedBy = Some ''someone'', tm_grantedCapability = Some ''*''\<rparr>,
      xb_authority = Some (bt_authority sample_transaction), xb_authorization = Some (bt_authorization sample_transaction),
      xb_intent = Some (bt_intent sample_transaction), xb_policy = Some (bt_policy sample_transaction),
      xb_signals = bt_signals sample_transaction\<rparr>"

definition sample_submission_inputs :: submission_inputs where
  "sample_submission_inputs = \<lparr>sb_sink = None, sb_now = (\<lambda>_. ''now''), sb_createdAt = 7, sb_app = sample_app_inputs\<rparr>"

definition sample_api_state :: "(memory_nonces, nat) api_state" where
  "sample_api_state = \<lparr>as_app = sample_app_state, as_audit = []\<rparr>"

definition sample_submission :: "(app_error api_failure, nat \<times> trust_record) result \<times> (memory_nonces, nat) api_state" where
  "sample_submission = behind_authentication (StaticKeyAuthenticator_authenticate sample_key_hash sample_entries) (\<lambda>_. True)
     ''now'' sample_api_request (\<lambda>caller. ExecuteRouter_post sample_crypto counting_system sample_app_engine
       (sample_submission_inputs\<lparr>sb_sink := Some (\<lambda>_. True)\<rparr>) caller sample_body) sample_api_state"

definition sample_submitted :: business_transaction where
  "sample_submitted = sample_transaction\<lparr>bt_businessTransactionId := sample_uuid,
     bt_metadata := \<lparr>tm_businessTransactionId = sample_uuid, tm_tenantId = None, tm_submittedBy = Some ''agent'',
       tm_grantedCapability = Some ''pay''\<rparr>, bt_status := Some STATUS_RECEIVED, bt_createdAt := 7\<rparr>"

lemma sample_authenticated:
  "createCallerAuthMiddleware (StaticKeyAuthenticator_authenticate sample_key_hash sample_entries) (\<lambda>_. True) ''now''
     sample_api_request [] = (Inr \<lparr>gc_callerId = Some ''agent'', gc_holder = Some SERVICE, gc_stepUpKey = None,
       gc_route = ''/execute'', gc_stepUp = None, ac_allowedPrincipalIds = Some [''p''],
       ac_allowedCapabilities = Some [''pay'']\<rparr> :: (app_error api_failure, api_caller) result, [caller_event ''caller.authenticated'' ''now'' ''/execute'' (Some ''agent'')])"
  by code_simp

lemma sample_uuid_valid: "isValidBusinessTransactionId ''12345'' (Some (JStr sample_uuid))"
  by code_simp

lemma sample_submission_executes:
  "as_app (snd sample_submission) =
     snd (ExecutionTrustApplication_execute sample_crypto counting_system sample_app_engine sample_app_inputs
       sample_submitted sample_app_state)"
proof -
  let ?t = "BusinessTransactionMapper_fromRequest 7 sample_uuid sample_body"
  let ?in = "sample_submission_inputs\<lparr>sb_sink := Some (\<lambda>_. True)\<rparr>"
  have i: "sb_createdAt ?in = 7" "sb_app ?in = sample_app_inputs" "xb_businessTransactionId sample_body = Some (JStr sample_uuid)"
    by (simp_all add: sample_submission_inputs_def sample_body_def)
  have t: "complete_transaction True (set_submitter ''agent'' ?t) = Inr sample_submitted"
    by (simp add: complete_transaction_def set_submitter_def BusinessTransactionMapper_fromRequest_def sample_body_def
        sample_submitted_def sample_transaction_def)
  have c: "\<exists>events'. submission_checks ?in caller ''agent'' ?t events = (Inr (), events')"
    if "ac_allowedPrincipalIds caller = Some [''p'']" "ac_allowedCapabilities caller = Some [''pay'']" for caller events
    using that by (simp add: submission_checks_def BusinessTransactionMapper_fromRequest_def sample_body_def
        sample_transaction_def audited_def recordCallerAuditEvent_def sample_submission_inputs_def)
  have "as_app (snd (ExecuteRouter_post sample_crypto counting_system sample_app_engine ?in caller sample_body st)) =
      snd (ExecutionTrustApplication_execute sample_crypto counting_system sample_app_engine sample_app_inputs
        sample_submitted (as_app st))"
    if "ac_allowedPrincipalIds caller = Some [''p'']" "ac_allowedCapabilities caller = Some [''pay'']"
      "gc_callerId caller = Some ''agent''" for caller and st :: "(memory_nonces, nat) api_state"
  proof -
    from c[OF that(1,2)] obtain ev where "submission_checks ?in caller ''agent'' ?t (as_audit st) = (Inr (), ev)" by blast
    with that(3) sample_uuid_valid show ?thesis
      by (simp add: ExecuteRouter_post_def Let_def i t split: sum.splits prod.splits)
  qed
  then show ?thesis
    by (simp add: sample_submission_def behind_authentication_def sample_api_state_def sample_authenticated)
qed

theorem stored_transactions_granted_witness:
  "\<exists>entry. entry \<in> set sample_entries \<and> granted_by entry (as_audit (snd sample_submission)) sample_submitted"
proof -
  have "others_granted sample_entries sample_api_state (sb_app sample_submission_inputs)"
    by (simp add: others_granted_def sample_submission_inputs_def sample_app_inputs_def)
  then have "(api_step sample_crypto sample_key_hash sample_entries (\<lambda>_. True))\<^sup>*\<^sup>* sample_api_state (snd sample_submission)"
    unfolding sample_submission_def by (intro r_into_rtranclp post_execute)
  moreover have "as_transactions sample_api_state = []" by (simp add: sample_api_state_def sample_app_state_def)
  moreover have "snd (BusinessTransactionService_accept (ai_otherTransactions sample_app_inputs) sample_submitted
      (aw_transactions (rs_world sample_app_state))) = [(sample_uuid, sample_submitted)]"
    by code_simp
  then have "map_of (as_transactions (snd sample_submission)) sample_uuid = Some sample_submitted"
    using application_transactions[OF prod.collapse[symmetric], of sample_crypto counting_system sample_app_engine
        sample_app_inputs sample_submitted sample_app_state]
    by (simp add: sample_submission_executes)
  ultimately show ?thesis by (rule stored_transactions_granted)
qed

section \<open>Reading\<close>

text \<open>The three routes that answer from a trust record read it in one way.\<close>

lemma record_read:
  assumes "TrustRecordsRouter_get others req i st = (Inr r, st')"
  shows "may_read req st i \<and> st' = others st \<and> map_of (as_records (others st)) i = Some r"
  using assms
  by (auto simp: TrustRecordsRouter_get_def MemoryTrustRecords_findByTransactionId_def Let_def
      split: if_splits option.splits)


definition sample_reader :: "string \<Rightarrow> api_caller" where
  "sample_reader c = \<lparr>gc_callerId = Some c, gc_holder = None, gc_stepUpKey = None, gc_route = ''/trust-records'',
     gc_stepUp = None, ac_allowedPrincipalIds = None, ac_allowedCapabilities = None\<rparr>"

definition sample_done :: "(memory_nonces, nat) api_state" where
  "sample_done = \<lparr>as_app = snd sample_app_run, as_audit = []\<rparr>"

lemma returned_record_stored:
  assumes "ExecutionTrustApplication_execute k system e inputs t st = (Inr r, st')"
  shows "map_of (aw_records (rs_world st')) (bt_businessTransactionId t) = Some r"
  using assms
proof (cases rule: application_cases)
  case (ran ts c r1 st1 s')
  from settle_Inr[OF ran(3)] ran(4) produced_record(1)[OF engine_produced[OF ran(2)]] show ?thesis by auto
qed auto

lemma sample_records_ok: "records_ok sample_crypto (rs_world (snd sample_app_run))"
  unfolding sample_app_run_def
  by (rule app_step_records_ok[OF step_execute[OF sample_app_inputs_ok] _ sample_crypto_accepts])
    (simp add: records_ok_def sample_app_state_def)

lemma sample_done_stored:
  obtains r where "map_of (as_records sample_done) ''b1'' = Some r"
    "map_of (as_transactions sample_done) ''b1'' = Some sample_transaction"
proof -
  obtain q st' where x: "sample_app_run = (q, st')" by (rule prod.exhaust)
  from sample_app_returns[unfolded x] obtain r where "q = Inr r" by (cases q) auto
  with x have "map_of (aw_records (rs_world st')) (bt_businessTransactionId sample_transaction) = Some r"
    unfolding sample_app_run_def by (intro returned_record_stored) auto
  moreover have "bt_businessTransactionId sample_transaction = ''b1''" by (simp add: sample_transaction_def)
  moreover have "aw_transactions (rs_world st') = [(''b1'', sample_transaction)]"
    using application_transactions[OF x[unfolded sample_app_run_def]] sample_app_accepts by simp
  moreover have "as_app sample_done = st'" by (simp add: sample_done_def x)
  ultimately show thesis by (intro that[of r]) simp_all
qed


text \<open>
  Without that condition it fails: \<open>isOwnedByCaller\<close> lets a missing transaction pass, so a caller
  whose check runs before another caller's transaction is accepted reads the record of it.
\<close>

lemma read_races_submission:
  "\<exists>r. TrustRecordsRouter_get (\<lambda>_. sample_done) (sample_reader ''eve'') ''b1'' sample_api_state = (Inr r, sample_done)
     \<and> map_of (as_transactions sample_done) ''b1'' = Some sample_transaction
     \<and> tm_submittedBy (bt_metadata sample_transaction) = Some ''agent''"
proof -
  obtain r where r: "map_of (as_records sample_done) ''b1'' = Some r"
    "map_of (as_transactions sample_done) ''b1'' = Some sample_transaction" by (rule sample_done_stored)
  have "may_read (sample_reader ''eve'') sample_api_state ''b1''"
    by (simp add: may_read_def sample_reader_def isOwnedByCaller_def MemoryTransactions_findById_def
        sample_api_state_def sample_app_state_def)
  with r show ?thesis
    by (simp add: TrustRecordsRouter_get_def MemoryTrustRecords_findByTransactionId_def sample_transaction_def)
qed

end
