(* ===== verification/Configuration.thy ===== *)
theory Configuration
  imports Access_Control
begin

text \<open>
  The configuration of a deployment: \<open>packages/shared/src/config\<close> and the starting order of
  \<open>packages/api/src/server.ts\<close> with the checks of \<open>packages/api/src/bootstrap\<close> that refuse to start.

  The environment is a map of variables, the key directory a map of files.  Parameters: \<open>JSON.parse\<close>,
  \<open>Number\<close> of a text, the parsers of keys and URLs, the reachability of a KMS key, and the wiring of the
  execution system beyond its stores.
\<close>

section \<open>Values of the environment\<close>

type_synonym environment = "string \<Rightarrow> string option"

datatype config_error =
    InvalidValue string string
  | DatabaseProviderRemoved
  | ApiKeysNotJson
  | ApiKeysNotArray
  | ApiKeyInvalid nat
  | ApiKeyPrincipalIds nat
  | ApiKeyCapabilities nat
  | ApiKeyHolderType nat
  | ApiKeyStepUpKey nat
  | PolicyDirectoryMissing
  | DatabaseUrlMissing string
  | KeyDirectoryMissing
  | KeyMaterialNotJson
  | KeyMaterialNotObject
  | KeyMaterialEntry string
  | SigningKeyMissing
  | KmsKeyUnreachable
  | PaytmPartial
  | PaytmNotHttps
  | PaytmTimeout
  | CorsOriginInvalid string
  | SandboxSwitchInvalid string
  | SandboxApproverWithoutSwitch "string list"
  | SandboxWithoutAuthentication
  | SandboxWithConnectors "string list"
  | SandboxApproverMissing "string list"
  | SandboxKeyInvalid
  | NoCallerKeys
  | WiringFailed string

definition parse_value :: "string list \<Rightarrow> string \<Rightarrow> string \<Rightarrow> string option \<Rightarrow> (config_error, string) result" where
  "parse_value values name defaultValue v =
     (let resolved = (case v of Some x \<Rightarrow> x | None \<Rightarrow> defaultValue) in
      if resolved \<in> set values then Inr resolved else Inl (InvalidValue name resolved))"

definition STORAGE_PROVIDERS :: "string list" where
  "STORAGE_PROVIDERS = [''memory'', ''postgres'', ''supabase'']"

definition isPostgresStorage :: "string \<Rightarrow> bool" where
  "isPostgresStorage provider = (provider = ''postgres'' \<or> provider = ''supabase'')"

definition parseStorageProvider :: "environment \<Rightarrow> string option \<Rightarrow> (config_error, string) result" where
  "parseStorageProvider env v =
     (if env ''DATABASE_PROVIDER'' \<noteq> None then Inl DatabaseProviderRemoved
      else parse_value STORAGE_PROVIDERS ''PARMANA_STORAGE'' ''memory'' v)"

definition parseCryptoMode :: "string option \<Rightarrow> (config_error, string) result" where
  "parseCryptoMode = parse_value [''single'', ''hybrid'', ''pq''] ''CRYPTO_MODE'' ''single''"

definition parseHashAlgorithm :: "string option \<Rightarrow> (config_error, string) result" where
  "parseHashAlgorithm = parse_value [''sha256'', ''sha3-512'', ''blake3''] ''HASH_PROVIDER'' ''sha256''"

definition SIGNATURE_ALGORITHMS :: "string list" where
  "SIGNATURE_ALGORITHMS = [''ed25519'', ''ecdsa-p256'', ''dilithium3'', ''dilithium5'', ''sphincs-plus'']"

definition parseSignatureAlgorithm :: "string option \<Rightarrow> (config_error, string) result" where
  "parseSignatureAlgorithm v =
     parse_value SIGNATURE_ALGORITHMS ''SIGNATURE_PROVIDER'' ''ed25519''
       (map_option (\<lambda>x. if x = ''ml-dsa-65'' then ''dilithium3'' else x) v)"

definition KEY_PROVIDERS :: "string list" where
  "KEY_PROVIDERS = [''local'', ''aws-kms'', ''azure-key-vault'', ''gcp-kms'', ''hsm'']"

definition parseKeyProvider :: "string option \<Rightarrow> (config_error, string) result" where
  "parseKeyProvider = parse_value KEY_PROVIDERS ''KEY_PROVIDER'' ''local''"

definition parseSecretsProvider :: "string option \<Rightarrow> (config_error, string) result" where
  "parseSecretsProvider = parse_value [''env'', ''aws-secrets-manager''] ''PARMANA_SECRETS_PROVIDER'' ''env''"

definition parseTrustProfile :: "string option \<Rightarrow> (config_error, string) result" where
  "parseTrustProfile = parse_value [''v1''] ''TRUST_PROFILE'' ''v1''"

section \<open>API keys\<close>

text \<open>\<open>/^[0-9a-f]{64}$/\<close>\<close>

definition lower_hex :: "char \<Rightarrow> bool" where
  "lower_hex c = (let n = of_char c :: nat in (48 \<le> n \<and> n \<le> 57) \<or> (97 \<le> n \<and> n \<le> 102))"

definition API_KEY_HASH_PATTERN :: "string \<Rightarrow> bool" where
  "API_KEY_HASH_PATTERN s = (length s = 64 \<and> list_all lower_hex s)"

text \<open>An array of non-empty texts, when the field is present.\<close>

fun nonempty_text :: "json \<Rightarrow> string option" where
  "nonempty_text (JStr s) = (if s = [] then None else Some s)"
| "nonempty_text _ = None"

fun text_list :: "json option \<Rightarrow> string list option option" where
  "text_list None = Some None"
| "text_list (Some (JArr vs)) =
     (if list_all (\<lambda>v. nonempty_text v \<noteq> None) vs then Some (Some (map (\<lambda>v. the (nonempty_text v)) vs)) else None)"
| "text_list (Some _) = None"

definition authority_type_of :: "string \<Rightarrow> authority_type option" where
  "authority_type_of s =
     (if s = ''USER'' then Some USER else if s = ''ROLE'' then Some ROLE
      else if s = ''SERVICE'' then Some SERVICE else if s = ''ORGANIZATION'' then Some ORGANIZATION else None)"

fun holder_type :: "json option \<Rightarrow> authority_type option option" where
  "holder_type None = Some None"
| "holder_type (Some (JStr s)) = (case authority_type_of s of Some t \<Rightarrow> Some (Some t) | None \<Rightarrow> None)"
| "holder_type (Some _) = None"

text \<open>\<open>createPublicKey\<close> and the type of the key, as one parameter.\<close>

fun step_up_key :: "(string \<Rightarrow> bool) \<Rightarrow> json option \<Rightarrow> string option option" where
  "step_up_key ed25519 None = Some None"
| "step_up_key ed25519 (Some (JStr s)) = (if trim s \<noteq> [] \<and> ed25519 s then Some (Some s) else None)"
| "step_up_key ed25519 (Some _) = None"

definition parse_api_key :: "(string \<Rightarrow> bool) \<Rightarrow> nat \<Rightarrow> json \<Rightarrow> (config_error, api_key_entry) result" where
  "parse_api_key ed25519 index entry =
     (case entry of
        JObj kvs \<Rightarrow>
          (case (map_of kvs ''callerId'', map_of kvs ''keyHash'') of
             (Some (JStr callerId), Some (JStr keyHash)) \<Rightarrow>
               if callerId = [] \<or> \<not> API_KEY_HASH_PATTERN keyHash then Inl (ApiKeyInvalid index)
               else (case text_list (map_of kvs ''allowedPrincipalIds'') of
                 None \<Rightarrow> Inl (ApiKeyPrincipalIds index)
               | Some principals \<Rightarrow>
                   (case text_list (map_of kvs ''allowedCapabilities'') of
                      None \<Rightarrow> Inl (ApiKeyCapabilities index)
                    | Some capabilities \<Rightarrow>
                        (case holder_type (map_of kvs ''credentialHolderType'') of
                           None \<Rightarrow> Inl (ApiKeyHolderType index)
                         | Some holder \<Rightarrow>
                             (case step_up_key ed25519 (map_of kvs ''stepUpPublicKey'') of
                                None \<Rightarrow> Inl (ApiKeyStepUpKey index)
                              | Some key \<Rightarrow>
                                  Inr \<lparr>ak_callerId = callerId, ak_keyHash = keyHash, ak_credentialHolderType = holder,
                                       ak_allowedPrincipalIds = principals, ak_allowedCapabilities = capabilities,
                                       ak_stepUpPublicKey = key\<rparr>))))
           | _ \<Rightarrow> Inl (ApiKeyInvalid index))
      | _ \<Rightarrow> Inl (ApiKeyInvalid index))"

text \<open>\<open>map\<close> ends with the first entry that throws.\<close>

fun parse_api_keys_from :: "(string \<Rightarrow> bool) \<Rightarrow> nat \<Rightarrow> json list \<Rightarrow> (config_error, api_key_entry list) result" where
  "parse_api_keys_from ed25519 index [] = Inr []"
| "parse_api_keys_from ed25519 index (v # vs) =
     (case parse_api_key ed25519 index v of
        Inl e \<Rightarrow> Inl e
      | Inr entry \<Rightarrow>
          (case parse_api_keys_from ed25519 (Suc index) vs of Inl e \<Rightarrow> Inl e | Inr es \<Rightarrow> Inr (entry # es)))"

definition parseApiKeys ::
  "(string \<Rightarrow> json option) \<Rightarrow> (string \<Rightarrow> bool) \<Rightarrow> string option \<Rightarrow> (config_error, api_key_entry list) result" where
  "parseApiKeys parse ed25519 v =
     (if blank_opt v then Inr []
      else case parse (the v) of
        None \<Rightarrow> Inl ApiKeysNotJson
      | Some (JArr vs) \<Rightarrow> parse_api_keys_from ed25519 0 vs
      | Some _ \<Rightarrow> Inl ApiKeysNotArray)"

section \<open>The configuration\<close>

record app_config =
  cf_nodeEnv :: string
  cf_storageProvider :: string
  cf_databaseUrl :: "string option"
  cf_cryptoMode :: string
  cf_hashProvider :: string
  cf_primarySignatureProvider :: string
  cf_secondarySignatureProvider :: "string option"
  cf_requireHybridSignature :: bool
  cf_keyProvider :: string
  cf_keyDirectory :: "string option"
  cf_secretsProvider :: string
  cf_ttlSeconds :: jsnum
  cf_policyDirectory :: string
  cf_trustProfile :: string
  cf_receiptVersion :: string
  cf_port :: jsnum
  cf_authKeys :: "api_key_entry list"
  cf_authDisabled :: bool
  cf_executePerMinute :: jsnum
  cf_healthPerMinute :: jsnum
  cf_publicPerMinute :: jsnum
  cf_logLevel :: string

definition env_or :: "environment \<Rightarrow> string \<Rightarrow> string \<Rightarrow> string" where
  "env_or env name defaultValue = (case env name of Some v \<Rightarrow> v | None \<Rightarrow> defaultValue)"

definition env_number :: "(string \<Rightarrow> jsnum) \<Rightarrow> environment \<Rightarrow> string \<Rightarrow> nat \<Rightarrow> jsnum" where
  "env_number number env name defaultValue =
     (case env name of Some v \<Rightarrow> number v | None \<Rightarrow> Fin (of_nat defaultValue))"

definition requirePolicyDirectory :: "environment \<Rightarrow> (config_error, string) result" where
  "requirePolicyDirectory env =
     (if blank_opt (env ''PARMANA_POLICY_DIR'') then Inl PolicyDirectoryMissing
      else Inr (the (env ''PARMANA_POLICY_DIR'')))"

text \<open>\<open>a ? f(a) : undefined\<close> for a variable: the empty text counts as unset.\<close>

definition secondary_algorithm :: "environment \<Rightarrow> (config_error, string option) result" where
  "secondary_algorithm env =
     (case env ''SECONDARY_SIGNATURE_PROVIDER'' of
        None \<Rightarrow> Inr None
      | Some v \<Rightarrow>
          if v = [] then Inr None
          else (case parseSignatureAlgorithm (Some v) of Inl e \<Rightarrow> Inl e | Inr a \<Rightarrow> Inr (Some a)))"

text \<open>The parsers, in the order the object literal calls them; the first error is thrown.\<close>

abbreviation bind_config :: "('e, 'a) result \<Rightarrow> ('a \<Rightarrow> ('e, 'b) result) \<Rightarrow> ('e, 'b) result" where
  "bind_config r f \<equiv> (case r of Inl e \<Rightarrow> Inl e | Inr a \<Rightarrow> f a)"

definition loadConfig ::
  "(string \<Rightarrow> json option) \<Rightarrow> (string \<Rightarrow> bool) \<Rightarrow> (string \<Rightarrow> jsnum) \<Rightarrow> environment \<Rightarrow> (config_error, app_config) result" where
  "loadConfig parse ed25519 number env =
     bind_config (parseStorageProvider env (env ''PARMANA_STORAGE'')) (\<lambda>storage.
     bind_config (parseCryptoMode (env ''CRYPTO_MODE'')) (\<lambda>mode.
     bind_config (parseHashAlgorithm (env ''HASH_PROVIDER'')) (\<lambda>hashProvider.
     bind_config (parseSignatureAlgorithm (env ''PRIMARY_SIGNATURE_PROVIDER'')) (\<lambda>primary.
     bind_config (secondary_algorithm env) (\<lambda>secondary.
     bind_config (parseKeyProvider (env ''KEY_PROVIDER'')) (\<lambda>keys.
     bind_config (parseSecretsProvider (env ''PARMANA_SECRETS_PROVIDER'')) (\<lambda>secrets.
     bind_config (requirePolicyDirectory env) (\<lambda>policyDirectory.
     bind_config (parseTrustProfile (env ''TRUST_PROFILE'')) (\<lambda>profile.
     bind_config (parseApiKeys parse ed25519 (env ''PARMANA_API_KEYS'')) (\<lambda>apiKeys.
       Inr \<lparr>cf_nodeEnv = env_or env ''NODE_ENV'' ''development'', cf_storageProvider = storage,
            cf_databaseUrl = env ''DATABASE_URL'', cf_cryptoMode = mode, cf_hashProvider = hashProvider,
            cf_primarySignatureProvider = primary, cf_secondarySignatureProvider = secondary,
            cf_requireHybridSignature = (env ''HYBRID_SIGNATURE_REQUIRED'' = Some ''true''),
            cf_keyProvider = keys, cf_keyDirectory = env ''PARMANA_KEY_DIR'', cf_secretsProvider = secrets,
            cf_ttlSeconds = env_number number env ''EXECUTION_AUTHORIZATION_TTL_SECONDS'' 120,
            cf_policyDirectory = policyDirectory, cf_trustProfile = profile,
            cf_receiptVersion = env_or env ''RECEIPT_VERSION'' ''1'', cf_port = env_number number env ''PORT'' 3000,
            cf_authKeys = apiKeys, cf_authDisabled = (env ''PARMANA_AUTH_DISABLED'' = Some ''true''),
            cf_executePerMinute = env_number number env ''RATE_LIMIT_EXECUTE_PER_MINUTE'' 30,
            cf_healthPerMinute = env_number number env ''RATE_LIMIT_HEALTH_PER_MINUTE'' 300,
            cf_publicPerMinute = env_number number env ''RATE_LIMIT_PUBLIC_PER_MINUTE'' 60,
            cf_logLevel = env_or env ''LOG_LEVEL'' ''info''\<rparr>))))))))))"

text \<open>
  \<open>findEnvFile\<close> and \<open>findOpenApiSpecFile\<close> walk up from a directory: a path is the list of its
  segments, innermost first, and the parent of the root is the root.
\<close>

definition dirname :: "string list \<Rightarrow> string list" where
  "dirname path = (case path of [] \<Rightarrow> [] | _ # rest \<Rightarrow> rest)"

function walk_up :: "(string list \<Rightarrow> bool) \<Rightarrow> string list \<Rightarrow> string list option" where
  "walk_up holds current =
     (if holds current then Some current
      else if dirname current = current then None else walk_up holds (dirname current))"
  by pat_completeness auto

termination
  by (relation "measure (\<lambda>(holds, current). length current)") (auto simp: dirname_def split: list.splits)

declare walk_up.simps [simp del]

definition findEnvFile :: "(string list \<Rightarrow> bool) \<Rightarrow> string list \<Rightarrow> string list option" where
  "findEnvFile existsSync start = map_option (\<lambda>d. ''.env'' # d) (walk_up (\<lambda>d. existsSync (''.env'' # d)) start)"

definition findOpenApiSpecFile :: "(string list \<Rightarrow> bool) \<Rightarrow> string list \<Rightarrow> (string, string list) result" where
  "findOpenApiSpecFile existsSync start =
     (let candidate = (\<lambda>d. ''openapi.bundled.yaml'' # ''openapi'' # d) in
      case walk_up (\<lambda>d. existsSync (candidate d)) start of
        Some d \<Rightarrow> Inr (candidate d)
      | None \<Rightarrow> Inl ''openapi/openapi.bundled.yaml not found in any parent directory. Run `npm run bundle:openapi`.'')"

text \<open>The nearest directory on the way up, or none.\<close>

lemma walk_up_nearest:
  "walk_up holds path = (case dropWhile (\<lambda>n. \<not> holds (drop n path)) [0..<Suc (length path)] of
     [] \<Rightarrow> None | n # _ \<Rightarrow> Some (drop n path))"
proof (induction holds path rule: walk_up.induct)
  case (1 holds path)
  show ?case
  proof (cases path)
    case Nil
    then show ?thesis by (subst walk_up.simps) (simp add: dirname_def)
  next
    case (Cons x rest)
    have shift: "[0..<Suc (length path)] = 0 # map Suc [0..<Suc (length rest)]"
      by (simp add: Cons map_Suc_upt upt_conv_Cons del: upt_Suc)
    show ?thesis
    proof (cases "holds path")
      case True
      then show ?thesis unfolding shift by (subst walk_up.simps) simp
    next
      case False
      have d: "dirname path = rest" "dirname path \<noteq> path" by (simp_all add: Cons dirname_def)
      with 1 False have "walk_up holds path = walk_up holds rest" by (subst walk_up.simps) simp
      also have "\<dots> = (case dropWhile (\<lambda>n. \<not> holds (drop n rest)) [0..<Suc (length rest)] of
          [] \<Rightarrow> None | n # _ \<Rightarrow> Some (drop n rest))" using 1[OF False d(2)] unfolding d(1) .
      also have "\<dots> = (case dropWhile (\<lambda>n. \<not> holds (drop n path)) [0..<Suc (length path)] of
          [] \<Rightarrow> None | n # _ \<Rightarrow> Some (drop n path))"
        unfolding shift using False
        by (cases "dropWhile (\<lambda>n. \<not> holds (drop n rest)) [0..<Suc (length rest)]")
          (simp_all add: Cons dropWhile_map comp_def del: upt_Suc dropWhile_eq_Nil_conv)
      finally show ?thesis .
    qed
  qed
qed

end
