(* ===== verification/Startup.thy ===== *)
theory Startup
  imports Configuration
begin

text \<open>
  Starting the server: the checks and factories \<open>packages/api/src/server.ts\<close> runs before it listens,
  in their order, with \<open>createSandboxOptions\<close>, \<open>middleware/cors.ts\<close> and the sandbox's approvals.
\<close>

section \<open>Origins\<close>

text \<open>\<open>new URL(entry)\<close>, as its protocol and origin.\<close>

definition parse_origin :: "(string \<Rightarrow> (string \<times> string) option) \<Rightarrow> string \<Rightarrow> (config_error, string) result" where
  "parse_origin url raw =
     (let entry = trim raw in
      case url entry of
        None \<Rightarrow> Inl (CorsOriginInvalid entry)
      | Some (protocol, origin) \<Rightarrow>
          if (protocol \<noteq> ''https:'' \<and> protocol \<noteq> ''http:'') \<or> origin \<noteq> entry then Inl (CorsOriginInvalid entry)
          else Inr origin)"

fun parse_origins :: "(string \<Rightarrow> (string \<times> string) option) \<Rightarrow> string list \<Rightarrow> (config_error, string list) result" where
  "parse_origins url [] = Inr []"
| "parse_origins url (x # xs) =
     bind_config (parse_origin url x) (\<lambda>origin. bind_config (parse_origins url xs) (\<lambda>origins. Inr (origin # origins)))"

definition parseCorsOrigins ::
  "(string \<Rightarrow> (string \<times> string) option) \<Rightarrow> string option \<Rightarrow> (config_error, string list) result" where
  "parseCorsOrigins url v = (if blank_opt v then Inr [] else parse_origins url (split_on CHR '','' (the v)))"

text \<open>What the middleware does: go on, or end the request, with these headers.\<close>

datatype cors_outcome = Continue "(string \<times> string) list" | EndRequest nat "(string \<times> string) list"

definition createCorsMiddleware :: "string list \<Rightarrow> string option \<Rightarrow> string \<Rightarrow> cors_outcome" where
  "createCorsMiddleware origins requestOrigin requestMethod =
     (case requestOrigin of
        None \<Rightarrow> Continue []
      | Some origin \<Rightarrow>
          let vary = (''Vary'', ''Origin'') in
          if origin \<notin> set origins
          then (if requestMethod = ''OPTIONS'' then EndRequest 403 [vary] else Continue [vary])
          else
            let headers = [vary, (''Access-Control-Allow-Origin'', origin),
                  (''Access-Control-Expose-Headers'', ''Retry-After'')] in
            if requestMethod = ''OPTIONS''
            then EndRequest 204 (headers @ [(''Access-Control-Allow-Methods'', ''GET, POST, OPTIONS''),
                   (''Access-Control-Allow-Headers'', ''Authorization, Content-Type''),
                   (''Access-Control-Max-Age'', ''600'')])
            else Continue headers)"

fun cors_headers :: "cors_outcome \<Rightarrow> (string \<times> string) list" where
  "cors_headers (Continue hs) = hs"
| "cors_headers (EndRequest _ hs) = hs"

lemma cors_only_listed:
  "(''Access-Control-Allow-Origin'', v) \<in> set (cors_headers (createCorsMiddleware origins origin m)) \<longleftrightarrow>
     origin = Some v \<and> v \<in> set origins"
  by (auto simp: createCorsMiddleware_def Let_def split: option.splits)

section \<open>The sandbox\<close>

definition BUILT_IN_CONNECTOR_VARIABLES :: "string list" where
  "BUILT_IN_CONNECTOR_VARIABLES =
     [''PAYTM_CONNECTOR_URL'', ''PAYTM_CONNECTOR_SHARED_SECRET'', ''PAYTM_CONNECTOR_TIMEOUT_MS'',
      ''HUBSPOT_PRIVATE_APP_TOKEN'', ''HUBSPOT_PRIVATE_APP_TOKEN_ROTATED_AT'', ''HUBSPOT_BASE_URL'',
      ''GITHUB_APP_ID'', ''GITHUB_APP_PRIVATE_KEY'', ''GITHUB_INSTALLATION_ID'', ''GITHUB_BASE_URL'',
      ''PARMANA_GITHUB_VERCEL_CONNECT_CONNECTOR_ID'', ''SLACK_BOT_TOKEN'', ''SLACK_BASE_URL'']"

definition APPROVER_VARIABLES :: "string list" where
  "APPROVER_VARIABLES =
     [''PARMANA_SANDBOX_APPROVER_ID'', ''PARMANA_SANDBOX_APPROVER_KEY_ID'', ''PARMANA_SANDBOX_APPROVER_PRIVATE_KEY'']"

definition isSet :: "string option \<Rightarrow> bool" where
  "isSet v = (\<not> blank_opt v)"

record 'key sandbox_approver =
  sa_approverId :: string
  sa_keyId :: string
  sa_privateKey :: 'key

record 'key sandbox_options =
  so_corsOrigins :: "string list"
  so_sandboxApprover :: "'key sandbox_approver option"

text \<open>\<open>replace(/\\n/g, "\n")\<close> with the two characters backslash and n.\<close>

fun unfold_newlines :: "string \<Rightarrow> string" where
  "unfold_newlines (a # b # s) =
     (if a = CHR 0x5C \<and> b = CHR ''n'' then CHR 0x0A # unfold_newlines s else a # unfold_newlines (b # s))"
| "unfold_newlines s = s"

text \<open>\<open>createPrivateKey\<close> gives the key and whether it is an Ed25519 key.\<close>

definition createSandboxOptions ::
  "(string \<Rightarrow> (string \<times> string) option) \<Rightarrow> (string \<Rightarrow> ('key \<times> bool) option) \<Rightarrow> environment
   \<Rightarrow> (config_error, 'key sandbox_options) result" where
  "createSandboxOptions url privateKey env =
     bind_config (parseCorsOrigins url (env ''PARMANA_CORS_ORIGINS'')) (\<lambda>origins.
       let switchValue = map_option trim (env ''PARMANA_SANDBOX'') in
       if switchValue \<noteq> None \<and> switchValue \<noteq> Some [] \<and> switchValue \<noteq> Some ''true'' \<and> switchValue \<noteq> Some ''false''
       then Inl (SandboxSwitchInvalid (the switchValue))
       else if switchValue \<noteq> Some ''true''
       then (let approverSet = filter (\<lambda>name. isSet (env name)) APPROVER_VARIABLES in
             if approverSet \<noteq> [] then Inl (SandboxApproverWithoutSwitch approverSet)
             else Inr \<lparr>so_corsOrigins = origins, so_sandboxApprover = None\<rparr>)
       else if map_option trim (env ''PARMANA_AUTH_DISABLED'') = Some ''true'' then Inl SandboxWithoutAuthentication
       else
         let connectors = filter (\<lambda>name. env name \<noteq> None) BUILT_IN_CONNECTOR_VARIABLES;
             missing = filter (\<lambda>name. \<not> isSet (env name)) APPROVER_VARIABLES in
         if connectors \<noteq> [] then Inl (SandboxWithConnectors connectors)
         else if missing \<noteq> [] then Inl (SandboxApproverMissing missing)
         else (case privateKey (unfold_newlines (the (env ''PARMANA_SANDBOX_APPROVER_PRIVATE_KEY''))) of
                 None \<Rightarrow> Inl SandboxKeyInvalid
               | Some (key, ed25519) \<Rightarrow>
                   if \<not> ed25519 then Inl SandboxKeyInvalid
                   else Inr \<lparr>so_corsOrigins = origins, so_sandboxApprover = Some
                     \<lparr>sa_approverId = trim (the (env ''PARMANA_SANDBOX_APPROVER_ID'')),
                      sa_keyId = trim (the (env ''PARMANA_SANDBOX_APPROVER_KEY_ID'')), sa_privateKey = key\<rparr>\<rparr>))"

text \<open>
  \<open>POST /sandbox/approvals\<close>: what the demo approver is asked to sign; signing is a parameter.
\<close>

record sandbox_approval =
  sp_approverId :: string
  sp_keyId :: string
  sp_capability :: string
  sp_resourceId :: string
  sp_scope :: "string \<times> string \<times> string"
  sp_ttlSeconds :: nat

definition SANDBOX_CAPABILITY :: string where
  "SANDBOX_CAPABILITY = ''sandbox:receipt''"

definition SANDBOX_APPROVAL_TTL_SECONDS :: nat where
  "SANDBOX_APPROVAL_TTL_SECONDS = 300"

definition SandboxApprovalsRouter_post ::
  "(sandbox_approval \<Rightarrow> 'key \<Rightarrow> (string, 'a) result) \<Rightarrow> 'key sandbox_approver \<Rightarrow> json option \<Rightarrow> json option
   \<Rightarrow> (string api_failure, nat \<times> 'a) result" where
  "SandboxApprovalsRouter_post sign approver capability resource =
     (let invalid = Some ''INVALID_SANDBOX_APPROVAL_REQUEST'' in
      if capability \<noteq> Some (JStr SANDBOX_CAPABILITY)
      then Inl (Refused 400 (''The sandbox approver signs only for capability '' @ [CHR 0x22] @ SANDBOX_CAPABILITY
             @ [CHR 0x22] @ ''.'') invalid)
      else
        let wrong = Refused 400 ''resourceId is required: the request's target, at most 200 characters.'' invalid in
        case resource of
          Some (JStr r) \<Rightarrow>
            if trim r = [] \<or> length r > 200 then Inl wrong
            else (case sign \<lparr>sp_approverId = sa_approverId approver, sp_keyId = sa_keyId approver,
                     sp_capability = SANDBOX_CAPABILITY, sp_resourceId = r, sp_scope = (''resourceId'', ''eq'', r),
                     sp_ttlSeconds = SANDBOX_APPROVAL_TTL_SECONDS\<rparr> (sa_privateKey approver) of
                    Inl x \<Rightarrow> Inl (Passed x) | Inr a \<Rightarrow> Inr (201, a))
        | _ \<Rightarrow> Inl wrong)"

section \<open>Stores\<close>

datatype store_kind = MemoryStore | PostgresStore

definition assertDatabaseUrlConfigured :: "environment \<Rightarrow> string \<Rightarrow> (config_error, unit) result" where
  "assertDatabaseUrlConfigured env storeName =
     (case env ''DATABASE_URL'' of
        None \<Rightarrow> Inl (DatabaseUrlMissing storeName)
      | Some v \<Rightarrow> if v = [] then Inl (DatabaseUrlMissing storeName) else Inr ())"

text \<open>
  The one shape of \<open>createNonceStore\<close>, \<open>createApprovalNonceStore\<close>,
  \<open>createPolicyChangeStepUpNonceStore\<close>, \<open>createExecutionAuditSink\<close> and \<open>createCallerAuditSink\<close>.
\<close>

definition durable_store :: "string \<Rightarrow> environment \<Rightarrow> (config_error, store_kind) result" where
  "durable_store storeName env =
     (if env ''NODE_ENV'' = Some ''test'' then Inr MemoryStore
      else bind_config (assertDatabaseUrlConfigured env storeName) (\<lambda>_. Inr PostgresStore))"

definition createNonceStore :: "environment \<Rightarrow> (config_error, store_kind) result" where
  "createNonceStore = durable_store ''NonceStore''"

definition createApprovalNonceStore :: "environment \<Rightarrow> (config_error, store_kind) result" where
  "createApprovalNonceStore = durable_store ''ApprovalNonceStore''"

definition createPolicyChangeStepUpNonceStore :: "environment \<Rightarrow> (config_error, store_kind) result" where
  "createPolicyChangeStepUpNonceStore = durable_store ''PolicyChangeStepUpNonceStore''"

definition createExecutionAuditSink :: "environment \<Rightarrow> (config_error, store_kind) result" where
  "createExecutionAuditSink = durable_store ''ExecutionAuditSink''"

definition createCallerAuditSink :: "environment \<Rightarrow> (config_error, store_kind) result" where
  "createCallerAuditSink = durable_store ''CallerAuditSink''"

definition createRateLimitStore :: "environment \<Rightarrow> store_kind option" where
  "createRateLimitStore env =
     (if env ''NODE_ENV'' = Some ''test'' then None
      else if env ''DATABASE_URL'' = None \<or> env ''DATABASE_URL'' = Some [] then None else Some PostgresStore)"

section \<open>What is enforced\<close>

definition relaxed_env :: "environment \<Rightarrow> bool" where
  "relaxed_env env = (env ''NODE_ENV'' = Some ''test'' \<or> env ''NODE_ENV'' = Some ''development'')"

text \<open>Whether \<open>createPolicyExecutionVerifier\<close> returns a verifier.\<close>

definition createPolicyExecutionVerifier :: "environment \<Rightarrow> bool" where
  "createPolicyExecutionVerifier env =
     (\<not> (relaxed_env env \<and> env ''POLICY_EXECUTION_VERIFICATION_ENFORCED'' \<noteq> Some ''true''))"

definition createCurrentPolicyVersionSource :: "environment \<Rightarrow> bool" where
  "createCurrentPolicyVersionSource env =
     (\<not> (relaxed_env env \<and> env ''POLICY_EXECUTION_VERIFICATION_ENFORCED'' \<noteq> Some ''true''))"

definition createSigningReadiness :: "environment \<Rightarrow> bool" where
  "createSigningReadiness env = (\<not> (relaxed_env env \<and> env ''SIGNING_READINESS_CHECK'' \<noteq> Some ''true''))"

definition executionIntentsEnforced :: "environment \<Rightarrow> bool" where
  "executionIntentsEnforced env = (\<not> (relaxed_env env \<and> env ''EXECUTION_INTENTS_CHECK'' \<noteq> Some ''true''))"

section \<open>Checks before listening\<close>

definition assertStorageConfigured :: "environment \<Rightarrow> app_config \<Rightarrow> (config_error, unit) result" where
  "assertStorageConfigured env config =
     (if env ''NODE_ENV'' = Some ''test'' then Inr ()
      else if isPostgresStorage (cf_storageProvider config)
      then assertDatabaseUrlConfigured env ''Storage (business transactions / trust records)''
      else Inr ())"

text \<open>The files of the key directory, by name.\<close>

type_synonym key_files = "(string \<times> string) list"

definition write_once :: "string \<Rightarrow> string \<Rightarrow> key_files \<Rightarrow> key_files" where
  "write_once name content files = (if map_of files name = None then map_set name content files else files)"

fun materialize_keys :: "(string \<times> json) list \<Rightarrow> key_files \<Rightarrow> (config_error, unit) result \<times> key_files" where
  "materialize_keys [] files = (Inr (), files)"
| "materialize_keys ((keyId, v) # rest) files =
     (case v of
        JObj kvs \<Rightarrow>
          (case (map_of kvs ''privateKeyPem'', map_of kvs ''publicKeyPem'') of
             (Some (JStr priv), Some (JStr pub)) \<Rightarrow>
               materialize_keys rest
                 (write_once (keyId @ ''.public.pem'') pub (write_once (keyId @ ''.private.pem'') priv files))
           | _ \<Rightarrow> (Inl (KeyMaterialEntry keyId), files))
      | _ \<Rightarrow> (Inl (KeyMaterialEntry keyId), files))"

definition materializeFromEnvIfConfigured ::
  "(string \<Rightarrow> json option) \<Rightarrow> environment \<Rightarrow> key_files \<Rightarrow> (config_error, unit) result \<times> key_files" where
  "materializeFromEnvIfConfigured parse env files =
     (if blank_opt (env ''PARMANA_KEY_MATERIAL_JSON'') then (Inr (), files)
      else case parse (the (env ''PARMANA_KEY_MATERIAL_JSON'')) of
        None \<Rightarrow> (Inl KeyMaterialNotJson, files)
      | Some (JObj kvs) \<Rightarrow> materialize_keys kvs files
      | Some _ \<Rightarrow> (Inl KeyMaterialNotObject, files))"

definition assertSigningKeyMaterialConfigured ::
  "(string \<Rightarrow> json option) \<Rightarrow> environment \<Rightarrow> app_config \<Rightarrow> key_files \<Rightarrow> (config_error, unit) result \<times> key_files" where
  "assertSigningKeyMaterialConfigured parse env config files =
     (if env ''NODE_ENV'' = Some ''test'' then (Inr (), files)
      else if blank_opt (cf_keyDirectory config) then (Inl KeyDirectoryMissing, files)
      else case materializeFromEnvIfConfigured parse env files of
        (Inl e, files') \<Rightarrow> (Inl e, files')
      | (Inr _, files') \<Rightarrow>
          if cf_keyProvider config = ''aws-kms'' then (Inr (), files')
          else if map_of files' ''default.private.pem'' = None \<or> map_of files' ''default.public.pem'' = None
          then (Inl SigningKeyMissing, files')
          else (Inr (), files'))"

definition assertKmsSigningKeyReachable :: "bool \<Rightarrow> environment \<Rightarrow> app_config \<Rightarrow> (config_error, unit) result" where
  "assertKmsSigningKeyReachable hasKey env config =
     (if env ''NODE_ENV'' = Some ''test'' \<or> cf_keyProvider config \<noteq> ''aws-kms'' then Inr ()
      else if \<not> hasKey then Inl KmsKeyUnreachable else Inr ())"

definition assertPaytmConnectorConfigured :: "(string \<Rightarrow> jsnum) \<Rightarrow> environment \<Rightarrow> (config_error, unit) result" where
  "assertPaytmConnectorConfigured number env =
     (let url = env ''PAYTM_CONNECTOR_URL''; secret = env ''PAYTM_CONNECTOR_SHARED_SECRET'';
          timeout = env ''PAYTM_CONNECTOR_TIMEOUT_MS'' in
      if env ''NODE_ENV'' = Some ''test'' then Inr ()
      else if \<not> isSet url \<and> \<not> isSet secret then Inr ()
      else if isSet url \<noteq> isSet secret then Inl PaytmPartial
      else if \<not> starts_with (the url) ''https://'' then Inl PaytmNotHttps
      else if isSet timeout
      then (let ms = number (the timeout) in
            if \<not> num_finite ms \<or> num_le ms (Fin 0) then Inl PaytmTimeout else Inr ())
      else Inr ())"

text \<open>\<open>None\<close>: caller authentication is disabled.\<close>

definition createCallerAuthenticator ::
  "environment \<Rightarrow> app_config \<Rightarrow> (config_error, (api_key_entry list \<times> store_kind) option) result" where
  "createCallerAuthenticator env config =
     (if cf_authDisabled config then Inr None
      else if cf_authKeys config = [] then Inl NoCallerKeys
      else bind_config (createCallerAuditSink env) (\<lambda>sink. Inr (Some (cf_authKeys config, sink))))"

section \<open>The server\<close>

record 'key started_server =
  sv_config :: app_config
  sv_sandbox :: "'key sandbox_options"
  sv_nonceStore :: store_kind
  sv_executionAudit :: store_kind
  sv_approvalNonceStore :: store_kind
  sv_callerAuth :: "(api_key_entry list \<times> store_kind) option"
  sv_stepUpNonceStore :: "store_kind option"
  sv_policyVerification :: bool
  sv_governedVersions :: bool
  sv_signingReadiness :: bool
  sv_executionIntents :: bool

text \<open>What the start takes from outside: parsers, files, the KMS and the rest of the wiring.\<close>

record 'key start_inputs =
  st_parse :: "string \<Rightarrow> json option"
  st_ed25519 :: "string \<Rightarrow> bool"
  st_number :: "string \<Rightarrow> jsnum"
  st_url :: "string \<Rightarrow> (string \<times> string) option"
  st_privateKey :: "string \<Rightarrow> ('key \<times> bool) option"
  st_files :: key_files
  st_kmsHasKey :: bool
  st_wiring :: "(config_error, unit) result"

definition start_server :: "'key start_inputs \<Rightarrow> environment \<Rightarrow> (config_error, 'key started_server) result" where
  "start_server inputs env =
     bind_config (loadConfig (st_parse inputs) (st_ed25519 inputs) (st_number inputs) env) (\<lambda>config.
     bind_config (assertStorageConfigured env config) (\<lambda>_.
     bind_config (fst (assertSigningKeyMaterialConfigured (st_parse inputs) env config (st_files inputs))) (\<lambda>_.
     bind_config (assertKmsSigningKeyReachable (st_kmsHasKey inputs) env config) (\<lambda>_.
     bind_config (assertPaytmConnectorConfigured (st_number inputs) env) (\<lambda>_.
     bind_config (createSandboxOptions (st_url inputs) (st_privateKey inputs) env) (\<lambda>sandbox.
     bind_config (createNonceStore env) (\<lambda>nonces.
     bind_config (createExecutionAuditSink env) (\<lambda>audit.
     bind_config (st_wiring inputs) (\<lambda>_.
     bind_config (createApprovalNonceStore env) (\<lambda>approvals.
     bind_config (createCallerAuthenticator env config) (\<lambda>auth.
     bind_config (if auth = None then Inr None
         else bind_config (createPolicyChangeStepUpNonceStore env) (\<lambda>s. Inr (Some s))) (\<lambda>stepUp.
       Inr \<lparr>sv_config = config, sv_sandbox = sandbox, sv_nonceStore = nonces, sv_executionAudit = audit,
            sv_approvalNonceStore = approvals, sv_callerAuth = auth, sv_stepUpNonceStore = stepUp,
            sv_policyVerification = createPolicyExecutionVerifier env,
            sv_governedVersions = createCurrentPolicyVersionSource env,
            sv_signingReadiness = createSigningReadiness env,
            sv_executionIntents = executionIntentsEnforced env\<rparr>))))))))))))"

end
