(* ===== verification/Startup_Properties.thy ===== *)
theory Startup_Properties
  imports Startup
begin

text \<open>
  What a configuration that is accepted means: the keys authenticate by their hash alone, and a server
  that starts outside test and development enforces everything.
\<close>

section \<open>Keys\<close>

definition key_ok :: "api_key_entry \<Rightarrow> bool" where
  "key_ok entry \<longleftrightarrow> ak_callerId entry \<noteq> [] \<and> API_KEY_HASH_PATTERN (ak_keyHash entry)"

lemma parse_api_key_ok: "parse_api_key ed25519 index v = Inr entry \<Longrightarrow> key_ok entry"
  by (auto simp: parse_api_key_def key_ok_def split: json.splits option.splits if_splits)

lemma parse_from_ok: "parse_api_keys_from ed25519 index vs = Inr entries \<Longrightarrow> list_all key_ok entries"
  by (induction ed25519 index vs arbitrary: entries rule: parse_api_keys_from.induct)
    (auto split: sum.splits dest: parse_api_key_ok)

lemma parseApiKeys_ok: "parseApiKeys parse ed25519 v = Inr entries \<Longrightarrow> list_all key_ok entries"
  by (auto simp: parseApiKeys_def dest: parse_from_ok split: if_splits option.splits json.splits)

text \<open>On lower case digits the bytes fix the text.\<close>

lemma nibble_lower:
  assumes "lower_hex c" "lower_hex d"
  shows "nibble c \<noteq> None" "the (nibble c) < 16" "nibble c = nibble d \<longleftrightarrow> c = d"
proof -
  have e: "c = d \<longleftrightarrow> (of_char c :: nat) = of_char d" by (rule of_char_eq_iff[symmetric])
  from assms show "nibble c \<noteq> None" "the (nibble c) < 16" by (auto simp: lower_hex_def nibble_def Let_def)
  from assms show "nibble c = nibble d \<longleftrightarrow> c = d"
    unfolding e lower_hex_def nibble_def Let_def by (auto simp del: of_char_eq_iff)
qed

lemma buffer_inj:
  "list_all lower_hex s \<Longrightarrow> list_all lower_hex t \<Longrightarrow> even (length s) \<Longrightarrow> length s = length t
     \<Longrightarrow> buffer_from_hex s = buffer_from_hex t \<longleftrightarrow> s = t"
proof (induction s arbitrary: t rule: buffer_from_hex.induct)
  case (1 a b s)
  then obtain c d u where t: "t = c # d # u" by (metis length_0_conv length_Suc_conv list.exhaust)
  from 1(2,3) t have l: "lower_hex a" "lower_hex b" "lower_hex c" "lower_hex d" by simp_all
  have h: "\<exists>x. nibble e = Some x \<and> x < 16" if "lower_hex e" for e
    using nibble_lower(1,2)[OF that that] by auto
  from h[OF l(1)] h[OF l(2)] h[OF l(3)] h[OF l(4)] obtain x y z w where
    v: "nibble a = Some x" "nibble b = Some y" "nibble c = Some z" "nibble d = Some w"
    "x < 16" "y < 16" "z < 16" "w < 16" by (elim exE conjE) blast
  have "x = z \<and> y = w" if "16 * x + y = 16 * z + w"
    using arg_cong[OF that, of "\<lambda>n. n div 16"] arg_cong[OF that, of "\<lambda>n. n mod 16"] v(6,8) by simp
  then have "16 * x + y = 16 * z + w \<longleftrightarrow> x = z \<and> y = w" by blast
  moreover have "x = z \<longleftrightarrow> a = c" "y = w \<longleftrightarrow> b = d"
    using l v(1-4) nibble_lower(3)[of a c] nibble_lower(3)[of b d] by auto
  moreover have "buffer_from_hex s = buffer_from_hex u \<longleftrightarrow> s = u" using 1 t v by simp
  ultimately show ?case using t v by simp
qed auto

text \<open>
  The keys a configuration is accepted with authenticate by the hash of the credential: the
  caller is the one of the first entry whose configured hash is the text of that hash, and there is
  none otherwise.
\<close>

theorem configured_keys_exact:
  assumes "parseApiKeys parse ed25519 v = Inr entries" and "API_KEY_HASH_PATTERN (hash credential)" and "credential \<noteq> []"
  shows "StaticKeyAuthenticator_authenticate hash entries (Some credential) =
    map_option entry_identity (List.find (\<lambda>entry. ak_keyHash entry = hash credential) entries)"
proof -
  have "entry_matches hash credential entry \<longleftrightarrow> ak_keyHash entry = hash credential" if "entry \<in> set entries" for entry
    using parseApiKeys_ok[OF assms(1)] assms(2) that buffer_inj[of "ak_keyHash entry" "hash credential"]
    by (auto simp: entry_matches_def key_ok_def API_KEY_HASH_PATTERN_def list_all_iff)
  then have "List.find (entry_matches hash credential) entries = List.find (\<lambda>entry. ak_keyHash entry = hash credential) entries"
    by (intro find_cong refl) auto
  with assms(3) show ?thesis by (simp add: StaticKeyAuthenticator_authenticate_def)
qed

definition sample_keys :: "string \<Rightarrow> json option" where
  "sample_keys s = Some (JArr [JObj [(''callerId'', JStr ''agent''), (''keyHash'', JStr (replicate 64 CHR ''a'')),
     (''allowedCapabilities'', JArr [JStr ''pay''])]])"

definition sample_hash :: "string \<Rightarrow> string" where
  "sample_hash key = (if key = ''secret'' then replicate 64 CHR ''a'' else replicate 64 CHR ''0'')"

lemma sample_keys_parsed:
  "parseApiKeys sample_keys (\<lambda>_. False) (Some ''keys'') = Inr [\<lparr>ak_callerId = ''agent'', ak_keyHash = replicate 64 CHR ''a'',
     ak_credentialHolderType = None, ak_allowedPrincipalIds = None, ak_allowedCapabilities = Some [''pay''],
     ak_stepUpPublicKey = None\<rparr>]"
  by code_simp

theorem configured_keys_exact_witness:
  "map_option id_callerId (StaticKeyAuthenticator_authenticate sample_hash [\<lparr>ak_callerId = ''agent'',
       ak_keyHash = replicate 64 CHR ''a'', ak_credentialHolderType = None, ak_allowedPrincipalIds = None,
       ak_allowedCapabilities = Some [''pay''], ak_stepUpPublicKey = None\<rparr>] (Some ''secret'')) = Some ''agent''"
proof -
  have "API_KEY_HASH_PATTERN (sample_hash ''secret'')" by code_simp
  from configured_keys_exact[where hash = sample_hash and credential = "''secret''", OF sample_keys_parsed this] show ?thesis
    by (simp add: sample_hash_def entry_identity_def)
qed

section \<open>Starting\<close>

lemma bind_config_Inr: "bind_config r f = Inr b \<longleftrightarrow> (\<exists>a. r = Inr a \<and> f a = Inr b)"
  by (cases r) auto

lemma durable_store_Inr:
  "durable_store name env = Inr s \<Longrightarrow> env ''NODE_ENV'' \<noteq> Some ''test'' \<Longrightarrow> s = PostgresStore"
  by (auto simp: durable_store_def bind_config_Inr split: if_splits)

lemmas store_factories = createNonceStore_def createApprovalNonceStore_def createPolicyChangeStepUpNonceStore_def
  createExecutionAuditSink_def createCallerAuditSink_def

lemma loadConfig_Inr:
  assumes "loadConfig parse ed25519 number env = Inr config"
  shows "list_all key_ok (cf_authKeys config)" "cf_authDisabled config \<longleftrightarrow> env ''PARMANA_AUTH_DISABLED'' = Some ''true''"
  using assms unfolding loadConfig_def bind_config_Inr
  by (auto dest: parseApiKeys_ok)

lemma trim_plain: "trim ''true'' = ''true''"
  by code_simp

lemma sandbox_Inr:
  assumes "createSandboxOptions url privateKey env = Inr options" and "so_sandboxApprover options = Some a"
  shows "list_all (\<lambda>name. env name = None) BUILT_IN_CONNECTOR_VARIABLES \<and> env ''PARMANA_AUTH_DISABLED'' \<noteq> Some ''true''
    \<and> map_option trim (env ''PARMANA_SANDBOX'') = Some ''true''"
proof -
  from assms(1) obtain origins where "parseCorsOrigins url (env ''PARMANA_CORS_ORIGINS'') = Inr origins"
    by (auto simp: createSandboxOptions_def bind_config_Inr)
  with assms have "map_option trim (env ''PARMANA_SANDBOX'') = Some ''true''"
    "map_option trim (env ''PARMANA_AUTH_DISABLED'') \<noteq> Some ''true''"
    "filter (\<lambda>name. env name \<noteq> None) BUILT_IN_CONNECTOR_VARIABLES = []"
    by (auto simp: createSandboxOptions_def Let_def split: if_splits)
  then show ?thesis by (auto simp: filter_empty_conv list_all_iff trim_plain)
qed

definition signing_key_available :: "'key start_inputs \<Rightarrow> environment \<Rightarrow> app_config \<Rightarrow> bool" where
  "signing_key_available inputs env config \<longleftrightarrow>
     (if cf_keyProvider config = ''aws-kms'' then st_kmsHasKey inputs
      else (case materializeFromEnvIfConfigured (st_parse inputs) env (st_files inputs) of
        (_, files) \<Rightarrow> map_of files ''default.private.pem'' \<noteq> None \<and> map_of files ''default.public.pem'' \<noteq> None))"

lemma start_Inr:
  assumes "start_server inputs env = Inr sv" and "env ''NODE_ENV'' \<noteq> Some ''test''"
  shows "sv_nonceStore sv = PostgresStore \<and> sv_executionAudit sv = PostgresStore \<and> sv_approvalNonceStore sv = PostgresStore"
    "case sv_callerAuth sv of
       None \<Rightarrow> env ''PARMANA_AUTH_DISABLED'' = Some ''true''
     | Some (keys, sink) \<Rightarrow> keys \<noteq> [] \<and> list_all key_ok keys \<and> sink = PostgresStore \<and> sv_stepUpNonceStore sv = Some PostgresStore"
    "case so_sandboxApprover (sv_sandbox sv) of
       None \<Rightarrow> True
     | Some a \<Rightarrow> list_all (\<lambda>name. env name = None) BUILT_IN_CONNECTOR_VARIABLES \<and> sv_callerAuth sv \<noteq> None"
    "signing_key_available inputs env (sv_config sv)"
    "sv_policyVerification sv = createPolicyExecutionVerifier env" "sv_governedVersions sv = createCurrentPolicyVersionSource env"
    "sv_signingReadiness sv = createSigningReadiness env" "sv_executionIntents sv = executionIntentsEnforced env"
proof -
  from assms(1) obtain config sandbox nonces audit approvals auth stepUp where
    s: "loadConfig (st_parse inputs) (st_ed25519 inputs) (st_number inputs) env = Inr config"
    "fst (assertSigningKeyMaterialConfigured (st_parse inputs) env config (st_files inputs)) = Inr ()"
    "assertKmsSigningKeyReachable (st_kmsHasKey inputs) env config = Inr ()"
    "createSandboxOptions (st_url inputs) (st_privateKey inputs) env = Inr sandbox"
    "createNonceStore env = Inr nonces" "createExecutionAuditSink env = Inr audit"
    "createApprovalNonceStore env = Inr approvals" "createCallerAuthenticator env config = Inr auth"
    "(if auth = None then Inr None else bind_config (createPolicyChangeStepUpNonceStore env) (\<lambda>s. Inr (Some s))) = Inr stepUp"
    and sv: "sv = \<lparr>sv_config = config, sv_sandbox = sandbox, sv_nonceStore = nonces, sv_executionAudit = audit,
            sv_approvalNonceStore = approvals, sv_callerAuth = auth, sv_stepUpNonceStore = stepUp,
            sv_policyVerification = createPolicyExecutionVerifier env,
            sv_governedVersions = createCurrentPolicyVersionSource env,
            sv_signingReadiness = createSigningReadiness env,
            sv_executionIntents = executionIntentsEnforced env\<rparr>"
    unfolding start_server_def bind_config_Inr by auto
  have store: "durable_store name env = Inr x \<Longrightarrow> x = PostgresStore" for name x
    using durable_store_Inr assms(2) by blast
  show "sv_nonceStore sv = PostgresStore \<and> sv_executionAudit sv = PostgresStore \<and> sv_approvalNonceStore sv = PostgresStore"
    using s(5-7) store by (simp add: sv store_factories)
  show "case sv_callerAuth sv of
       None \<Rightarrow> env ''PARMANA_AUTH_DISABLED'' = Some ''true''
     | Some (keys, sink) \<Rightarrow> keys \<noteq> [] \<and> list_all key_ok keys \<and> sink = PostgresStore \<and> sv_stepUpNonceStore sv = Some PostgresStore"
    using s(8,9) store loadConfig_Inr[OF s(1)]
    by (auto simp: sv createCallerAuthenticator_def bind_config_Inr store_factories split: if_splits)
  show "case so_sandboxApprover (sv_sandbox sv) of
       None \<Rightarrow> True
     | Some a \<Rightarrow> list_all (\<lambda>name. env name = None) BUILT_IN_CONNECTOR_VARIABLES \<and> sv_callerAuth sv \<noteq> None"
    using sandbox_Inr[OF s(4)] s(8) loadConfig_Inr(2)[OF s(1)]
    by (cases "so_sandboxApprover sandbox") (auto simp: sv createCallerAuthenticator_def bind_config_Inr split: if_splits)
  show "signing_key_available inputs env (sv_config sv)"
    using s(2,3) assms(2)
    by (auto simp: sv signing_key_available_def assertSigningKeyMaterialConfigured_def assertKmsSigningKeyReachable_def
        split: if_splits prod.splits sum.splits)
qed (use assms(1) in \<open>auto simp: start_server_def bind_config_Inr\<close>)


definition sample_env :: environment where
  "sample_env = map_of [(''NODE_ENV'', ''production''), (''DATABASE_URL'', ''postgres://db''), (''PARMANA_STORAGE'', ''postgres''),
     (''PARMANA_POLICY_DIR'', ''./policies''), (''PARMANA_KEY_DIR'', ''./keys''), (''PARMANA_API_KEYS'', ''keys''),
     (''POLICY_EXECUTION_VERIFICATION_ENFORCED'', ''false'')]"

definition sample_start :: "unit start_inputs" where
  "sample_start = \<lparr>st_parse = sample_keys, st_ed25519 = (\<lambda>_. False), st_number = (\<lambda>_. NaN), st_url = (\<lambda>_. None),
     st_privateKey = (\<lambda>_. None), st_files = [(''default.private.pem'', ''k''), (''default.public.pem'', ''p'')],
     st_kmsHasKey = False, st_wiring = Inr ()\<rparr>"

lemma sample_starts: "\<exists>sv. start_server sample_start sample_env = Inr sv"
proof -
  have e: "sample_env ''PARMANA_STORAGE'' = Some ''postgres''" "sample_env ''DATABASE_URL'' = Some ''postgres://db''"
    "sample_env ''NODE_ENV'' = Some ''production''" "sample_env ''PARMANA_POLICY_DIR'' = Some ''./policies''"
    "sample_env ''PARMANA_KEY_DIR'' = Some ''./keys''" "sample_env ''PARMANA_API_KEYS'' = Some ''keys''"
    by (simp_all add: sample_env_def)
  have n: "sample_env ''DATABASE_PROVIDER'' = None" "sample_env ''CRYPTO_MODE'' = None" "sample_env ''HASH_PROVIDER'' = None"
    "sample_env ''PRIMARY_SIGNATURE_PROVIDER'' = None" "sample_env ''SECONDARY_SIGNATURE_PROVIDER'' = None"
    "sample_env ''KEY_PROVIDER'' = None" "sample_env ''PARMANA_SECRETS_PROVIDER'' = None" "sample_env ''TRUST_PROFILE'' = None"
    "sample_env ''PARMANA_AUTH_DISABLED'' = None" "sample_env ''PARMANA_KEY_MATERIAL_JSON'' = None"
    "sample_env ''PAYTM_CONNECTOR_URL'' = None" "sample_env ''PAYTM_CONNECTOR_SHARED_SECRET'' = None"
    "sample_env ''PARMANA_CORS_ORIGINS'' = None" "sample_env ''PARMANA_SANDBOX'' = None"
    by (simp_all add: sample_env_def)
  have a: "filter (\<lambda>name. isSet (sample_env name)) APPROVER_VARIABLES = []"
    by (simp add: APPROVER_VARIABLES_def sample_env_def isSet_def)
  have i: "\<not> isSet None" by (simp add: isSet_def)
  have b: "trim ''./policies'' = ''./policies''" "trim ''./keys'' = ''./keys''" by code_simp+
  show ?thesis
    by (simp add: start_server_def sample_start_def loadConfig_def e n a b sample_keys_parsed parseStorageProvider_def
        parse_value_def STORAGE_PROVIDERS_def parseCryptoMode_def parseHashAlgorithm_def parseSignatureAlgorithm_def
        SIGNATURE_ALGORITHMS_def secondary_algorithm_def parseKeyProvider_def KEY_PROVIDERS_def parseSecretsProvider_def
        requirePolicyDirectory_def parseTrustProfile_def assertStorageConfigured_def isPostgresStorage_def
        assertDatabaseUrlConfigured_def assertSigningKeyMaterialConfigured_def materializeFromEnvIfConfigured_def
        assertKmsSigningKeyReachable_def assertPaytmConnectorConfigured_def i createSandboxOptions_def
        parseCorsOrigins_def store_factories durable_store_def createCallerAuthenticator_def)
qed


end
