(* ===== verification/Audit_Chain.thy ===== *)
theory Audit_Chain
  imports Access_Control Trust_Record "HOL-Library.Sublist"
begin

text \<open>
  The durable audit trails: \<open>packages/crypto/src/AuditEventCrypto.ts\<close>, the sink of the caller audit
  events (\<open>packages/api/src/auth/SupabaseCallerAuditSink.ts\<close>), the sink and the query of the execution
  audit events (\<open>packages/storage/src/supabase/SupabaseExecutionAuditSink.ts\<close>) and the standalone check
  of a chain (\<open>packages/crypto/src/CallerAuditChainVerifier.ts\<close>).

  A table is the list of its rows in the order of their ids.  Parameters: signing, checking and
  hashing of a serialized content, which may throw, and the hash of a lock key in the database.
\<close>

section \<open>Signing of events\<close>

text \<open>What is signed: the event alone, or \<open>{ ...event, previousChainHash, chainPosition }\<close>.\<close>

datatype 'e audit_content = Plain (content_event: 'e) | Linked (content_event: 'e) "string option" nat

record 'e audit_crypto =
  ak_algorithm :: string
  ak_keyId :: string
  ak_sign :: "'e audit_content \<Rightarrow> string \<Rightarrow> (string, string) result"
  ak_check :: "'e audit_content \<Rightarrow> string \<Rightarrow> string \<Rightarrow> (string, bool) result"
  ak_hash :: "'e audit_content \<Rightarrow> string"

definition AuditEventCrypto_sign ::
  "'e audit_crypto \<Rightarrow> int \<Rightarrow> 'e audit_content \<Rightarrow> (string, signature) result" where
  "AuditEventCrypto_sign k now c =
     (let keyId = ak_keyId k in
      case ak_sign k c keyId of
        Inl e \<Rightarrow> Inl e
      | Inr v \<Rightarrow> Inr \<lparr>sg_algorithm = ak_algorithm k, sg_keyId = keyId, sg_value = v, sg_signedAt = now\<rparr>)"

definition AuditEventCrypto_verify :: "'e audit_crypto \<Rightarrow> 'e audit_content \<Rightarrow> signature \<Rightarrow> (string, bool) result" where
  "AuditEventCrypto_verify k c s = ak_check k c (sg_keyId s) (sg_value s)"

section \<open>The check of a chain\<close>

record 'e audit_row =
  aw_event :: 'e
  aw_signature :: signature
  aw_chainHash :: "string option"
  aw_previousChainHash :: "string option"
  aw_chainPosition :: "nat option"

definition row_chained :: "'e audit_row \<Rightarrow> bool" where
  "row_chained r = (aw_chainHash r \<noteq> None \<and> aw_chainPosition r \<noteq> None)"

definition row_content :: "'e audit_row \<Rightarrow> 'e audit_content" where
  "row_content r =
     (case (aw_chainHash r, aw_chainPosition r) of
        (Some _, Some p) \<Rightarrow> Linked (aw_event r) (aw_previousChainHash r) p
      | _ \<Rightarrow> Plain (aw_event r))"

datatype audit_chain_result = AuditValid | AuditBroken nat string

definition BAD_SIGNATURE :: string where
  "BAD_SIGNATURE = ''signature does not match recomputed content.''"

definition BAD_HASH :: string where
  "BAD_HASH = ''chainHash does not match recomputed content.''"

definition BAD_LINK :: string where
  "BAD_LINK = ''previousChainHash does not reference the prior event's chainHash.''"

text \<open>The loop, with \<open>previousHash\<close> and \<open>position\<close> as they are before the row.\<close>

fun CallerAuditChainVerifier_loop ::
  "'e audit_crypto \<Rightarrow> string option \<Rightarrow> nat \<Rightarrow> 'e audit_row list \<Rightarrow> (string, audit_chain_result) result" where
  "CallerAuditChainVerifier_loop k previousHash position [] = Inr AuditValid"
| "CallerAuditChainVerifier_loop k previousHash position (r # rs) =
     (let position = position + 1; signedContent = row_content r in
      case AuditEventCrypto_verify k signedContent (aw_signature r) of
        Inl e \<Rightarrow> Inl e
      | Inr signatureValid \<Rightarrow>
          if \<not> signatureValid then Inr (AuditBroken position BAD_SIGNATURE)
          else if \<not> row_chained r then CallerAuditChainVerifier_loop k None position rs
          else if Some (ak_hash k signedContent) \<noteq> aw_chainHash r then Inr (AuditBroken position BAD_HASH)
          else if aw_previousChainHash r \<noteq> previousHash then Inr (AuditBroken position BAD_LINK)
          else CallerAuditChainVerifier_loop k (aw_chainHash r) position rs)"

definition CallerAuditChainVerifier_verifyChain ::
  "'e audit_crypto \<Rightarrow> 'e audit_row list \<Rightarrow> (string, audit_chain_result) result" where
  "CallerAuditChainVerifier_verifyChain k rs = CallerAuditChainVerifier_loop k None 0 rs"

section \<open>The sinks\<close>

text \<open>
  \<open>LAST_CALLER_CHAIN_LINK_SQL\<close> and \<open>LAST_AUTHORIZATION_CHAIN_LINK_SQL\<close>: the newest row of a chain.
  \<open>chain_of\<close> is the column a chain is for, \<^term>\<open>None\<close> for SQL \<open>NULL\<close>, which equals nothing.
\<close>

definition chain_rows :: "('e \<Rightarrow> string option) \<Rightarrow> string \<Rightarrow> 'e audit_row list \<Rightarrow> 'e audit_row list" where
  "chain_rows chain_of c rs = filter (\<lambda>r. chain_of (aw_event r) = Some c) rs"

definition last_chain_link :: "('e \<Rightarrow> string option) \<Rightarrow> string \<Rightarrow> 'e audit_row list \<Rightarrow> 'e audit_row option" where
  "last_chain_link chain_of c rs =
     (case rev (chain_rows chain_of c rs) of [] \<Rightarrow> None | r # _ \<Rightarrow> Some r)"

definition link_hash :: "'e audit_row option \<Rightarrow> string option" where
  "link_hash row = Option.bind row aw_chainHash"

definition link_position :: "'e audit_row option \<Rightarrow> nat" where
  "link_position row = (case Option.bind row aw_chainPosition of Some p \<Rightarrow> p + 1 | None \<Rightarrow> 1)"

text \<open>Signing and hashing of the chained content, and the row that is inserted.\<close>

definition chained_row ::
  "'e audit_crypto \<Rightarrow> int \<Rightarrow> 'e \<Rightarrow> 'e audit_row option \<Rightarrow> (string, 'e audit_row) result" where
  "chained_row k now event row =
     (let previousChainHash = link_hash row; chainPosition = link_position row;
          chainedContent = Linked event previousChainHash chainPosition in
      case AuditEventCrypto_sign k now chainedContent of
        Inl e \<Rightarrow> Inl e
      | Inr signature \<Rightarrow>
          Inr \<lparr>aw_event = event, aw_signature = signature, aw_chainHash = Some (ak_hash k chainedContent),
               aw_previousChainHash = previousChainHash, aw_chainPosition = Some chainPosition\<rparr>)"

text \<open>The row of an event without a caller: signed as it is, with no chain fields.\<close>

definition plain_row :: "'e audit_crypto \<Rightarrow> int \<Rightarrow> 'e \<Rightarrow> (string, 'e audit_row) result" where
  "plain_row k now event =
     (case AuditEventCrypto_sign k now (Plain event) of
        Inl e \<Rightarrow> Inl e
      | Inr signature \<Rightarrow>
          Inr \<lparr>aw_event = event, aw_signature = signature, aw_chainHash = None,
               aw_previousChainHash = None, aw_chainPosition = None\<rparr>)"

text \<open>
  \<open>record\<close>, when no other write for the caller runs at the same time.  \<open>fault\<close> is the error of the
  database, if it has one: the transaction is rolled back.
\<close>

definition SupabaseCallerAuditSink_record ::
  "caller_audit_event audit_crypto \<Rightarrow> int \<Rightarrow> string option \<Rightarrow> caller_audit_event \<Rightarrow> caller_audit_event audit_row list
   \<Rightarrow> (string, unit) result \<times> caller_audit_event audit_row list" where
  "SupabaseCallerAuditSink_record k now fault event rows =
     (case (case ce_callerId event of
              None \<Rightarrow> plain_row k now event
            | Some c \<Rightarrow> chained_row k now event (last_chain_link ce_callerId c rows)) of
        Inl e \<Rightarrow> (Inl e, rows)
      | Inr row \<Rightarrow> (case fault of Some e \<Rightarrow> (Inl e, rows) | None \<Rightarrow> (Inr (), rows @ [row])))"

definition execution_chain :: "audit_event \<Rightarrow> string option" where
  "execution_chain event = Some (ev_authorizationId event)"

definition SupabaseExecutionAuditSink_record ::
  "audit_event audit_crypto \<Rightarrow> int \<Rightarrow> string option \<Rightarrow> audit_event \<Rightarrow> audit_event audit_row list
   \<Rightarrow> (string, unit) result \<times> audit_event audit_row list" where
  "SupabaseExecutionAuditSink_record k now fault event rows =
     (case chained_row k now event (last_chain_link execution_chain (ev_authorizationId event) rows) of
        Inl e \<Rightarrow> (Inl e, rows)
      | Inr row \<Rightarrow> (case fault of Some e \<Rightarrow> (Inl e, rows) | None \<Rightarrow> (Inr (), rows @ [row])))"

section \<open>The query of the execution trail\<close>

record audit_filter =
  qf_authorizationId :: "string option"
  qf_businessTransactionId :: "string option"
  qf_connectorId :: "string option"
  qf_type :: "audit_type option"
  qf_occurredFrom :: "int option"
  qf_occurredTo :: "int option"
  qf_limit :: "int option"

definition DEFAULT_QUERY_LIMIT :: int where
  "DEFAULT_QUERY_LIMIT = 100"

text \<open>The conditions of the \<open>WHERE\<close> clause: one for each field that is set.\<close>

fun when_set :: "'a option \<Rightarrow> ('a \<Rightarrow> bool) \<Rightarrow> bool" where
  "when_set None p = True"
| "when_set (Some x) p = p x"

definition query_matches :: "audit_filter \<Rightarrow> audit_event \<Rightarrow> bool" where
  "query_matches f e =
     (when_set (qf_authorizationId f) (\<lambda>x. ev_authorizationId e = x)
      \<and> when_set (qf_businessTransactionId f) (\<lambda>x. ev_businessTransactionId e = Some x)
      \<and> when_set (qf_connectorId f) (\<lambda>x. ev_connectorId e = x)
      \<and> when_set (qf_type f) (\<lambda>x. ev_type e = x)
      \<and> when_set (qf_occurredFrom f) (\<lambda>x. ev_occurredAt e \<ge> x)
      \<and> when_set (qf_occurredTo f) (\<lambda>x. ev_occurredAt e \<le> x))"

definition query_limit :: "audit_filter \<Rightarrow> int" where
  "query_limit f =
     (case qf_limit f of
        Some n \<Rightarrow> if n > 0 then min n DEFAULT_QUERY_LIMIT else DEFAULT_QUERY_LIMIT
      | None \<Rightarrow> DEFAULT_QUERY_LIMIT)"

text \<open>A row as it is read back: the event and the chain columns, without the signature.\<close>

record stored_audit_event = audit_event +
  so_chainHash :: "string option"
  so_previousChainHash :: "string option"
  so_chainPosition :: "nat option"

definition stored_event :: "audit_event audit_row \<Rightarrow> stored_audit_event" where
  "stored_event r = audit_event.extend (aw_event r)
     \<lparr>so_chainHash = aw_chainHash r, so_previousChainHash = aw_previousChainHash r,
      so_chainPosition = aw_chainPosition r\<rparr>"

definition SupabaseExecutionAuditSink_query :: "audit_filter \<Rightarrow> audit_event audit_row list \<Rightarrow> stored_audit_event list" where
  "SupabaseExecutionAuditSink_query f rows =
     map stored_event (take (nat (query_limit f)) (rev (filter (\<lambda>r. query_matches f (aw_event r)) rows)))"

section \<open>Concurrent writers\<close>

text \<open>
  The same \<open>record\<close> cut at the points where another request may run: the advisory lock on the hash of
  the chain's key, the read of the last link, and the insert with the commit, which releases the
  lock.  A client is a database connection.
\<close>

datatype 'e sink_task = Idle | Waiting 'e string | Holding 'e string | Linking 'e string "'e audit_row option"

record 'e sink_state =
  sk_rows :: "'e audit_row list"
  sk_lock :: "int \<Rightarrow> nat option"
  sk_task :: "nat \<Rightarrow> 'e sink_task"

definition begin_record :: "nat \<Rightarrow> 'e \<Rightarrow> string \<Rightarrow> 'e sink_state \<Rightarrow> 'e sink_state" where
  "begin_record i e c s = s\<lparr>sk_task := (sk_task s)(i := Waiting e c)\<rparr>"

definition take_lock :: "(string \<Rightarrow> int) \<Rightarrow> nat \<Rightarrow> 'e \<Rightarrow> string \<Rightarrow> 'e sink_state \<Rightarrow> 'e sink_state option" where
  "take_lock hashtext i e c s =
     (if sk_lock s (hashtext c) = None
      then Some (s\<lparr>sk_lock := (sk_lock s)(hashtext c := Some i), sk_task := (sk_task s)(i := Holding e c)\<rparr>)
      else None)"

definition read_link :: "('e \<Rightarrow> string option) \<Rightarrow> nat \<Rightarrow> 'e \<Rightarrow> string \<Rightarrow> 'e sink_state \<Rightarrow> 'e sink_state" where
  "read_link chain_of i e c s =
     s\<lparr>sk_task := (sk_task s)(i := Linking e c (last_chain_link chain_of c (sk_rows s)))\<rparr>"

definition commit_row :: "(string \<Rightarrow> int) \<Rightarrow> nat \<Rightarrow> string \<Rightarrow> 'e audit_row \<Rightarrow> 'e sink_state \<Rightarrow> 'e sink_state" where
  "commit_row hashtext i c r s =
     s\<lparr>sk_rows := sk_rows s @ [r], sk_lock := (sk_lock s)(hashtext c := None),
       sk_task := (sk_task s)(i := Idle)\<rparr>"

fun lock_held :: "'e sink_task \<Rightarrow> string option" where
  "lock_held (Holding e c) = Some c"
| "lock_held (Linking e c r) = Some c"
| "lock_held _ = None"

text \<open>\<open>ROLLBACK\<close>, or the end of the connection, at any point.\<close>

definition roll_back :: "(string \<Rightarrow> int) \<Rightarrow> nat \<Rightarrow> 'e sink_state \<Rightarrow> 'e sink_state" where
  "roll_back hashtext i s =
     s\<lparr>sk_lock := (case lock_held (sk_task s i) of Some c \<Rightarrow> (sk_lock s)(hashtext c := None) | None \<Rightarrow> sk_lock s),
       sk_task := (sk_task s)(i := Idle)\<rparr>"

inductive sink_step ::
  "('e \<Rightarrow> string option) \<Rightarrow> 'e audit_crypto \<Rightarrow> (string \<Rightarrow> int) \<Rightarrow> 'e sink_state \<Rightarrow> 'e sink_state \<Rightarrow> bool"
  for chain_of :: "'e \<Rightarrow> string option" and k :: "'e audit_crypto" and hashtext :: "string \<Rightarrow> int" where
  begin_step: "sk_task s i = Idle \<Longrightarrow> chain_of e = Some c \<Longrightarrow> sink_step chain_of k hashtext s (begin_record i e c s)"
| lock_step: "sk_task s i = Waiting e c \<Longrightarrow> take_lock hashtext i e c s = Some s' \<Longrightarrow> sink_step chain_of k hashtext s s'"
| read_step: "sk_task s i = Holding e c \<Longrightarrow> sink_step chain_of k hashtext s (read_link chain_of i e c s)"
| commit_step: "sk_task s i = Linking e c row \<Longrightarrow> chained_row k now e row = Inr r \<Longrightarrow>
    sink_step chain_of k hashtext s (commit_row hashtext i c r s)"
| rollback_step: "sink_step chain_of k hashtext s (roll_back hashtext i s)"
| plain_step: "chain_of e = None \<Longrightarrow> plain_row k now e = Inr r \<Longrightarrow>
    sink_step chain_of k hashtext s (s\<lparr>sk_rows := sk_rows s @ [r]\<rparr>)"

inductive_cases sink_stepE: "sink_step chain_of k hashtext s t"

text \<open>A table with nobody writing to it.\<close>

definition quiet :: "'e audit_row list \<Rightarrow> 'e sink_state" where
  "quiet rows = \<lparr>sk_rows = rows, sk_lock = (\<lambda>_. None), sk_task = (\<lambda>_. Idle)\<rparr>"

end
