(* ===== verification/Audit_Properties.thy ===== *)
theory Audit_Properties
  imports Audit_Chain
begin

text \<open>
  What the audit chains show: whatever writers interleave, every chain the sinks leave verifies, and
  rows that verify are the oldest rows of one chain as they were recorded.
\<close>

section \<open>The check of a chain\<close>

definition last_hash :: "string option \<Rightarrow> 'e audit_row list \<Rightarrow> string option" where
  "last_hash h rs = (if rs = [] then h else if row_chained (last rs) then aw_chainHash (last rs) else None)"

lemma last_hash_Cons:
  "last_hash h (r # rs) = last_hash (if row_chained r then aw_chainHash r else None) rs"
  by (cases rs) (auto simp: last_hash_def)

lemma loop_valid_Cons:
  "CallerAuditChainVerifier_loop k h p (r # rs) = Inr AuditValid \<longleftrightarrow>
     AuditEventCrypto_verify k (row_content r) (aw_signature r) = Inr True
     \<and> (row_chained r \<longrightarrow> aw_chainHash r = Some (ak_hash k (row_content r)) \<and> aw_previousChainHash r = h)
     \<and> CallerAuditChainVerifier_loop k (if row_chained r then aw_chainHash r else None) (p + 1) rs = Inr AuditValid"
  by (auto simp: Let_def split: sum.splits)

declare CallerAuditChainVerifier_loop.simps(2) [simp del]

lemma loop_valid_append:
  "CallerAuditChainVerifier_loop k h p (rs @ ts) = Inr AuditValid \<longleftrightarrow>
     CallerAuditChainVerifier_loop k h p rs = Inr AuditValid
     \<and> CallerAuditChainVerifier_loop k (last_hash h rs) (p + length rs) ts = Inr AuditValid"
proof (induction rs arbitrary: h p)
  case Nil
  then show ?case by (simp add: last_hash_def)
next
  case (Cons r rs)
  then show ?case by (simp add: loop_valid_Cons last_hash_Cons)
qed

lemma loop_valid_position:
  "CallerAuditChainVerifier_loop k h p rs = Inr AuditValid \<Longrightarrow> CallerAuditChainVerifier_loop k h q rs = Inr AuditValid"
  by (induction rs arbitrary: h p q) (auto simp: loop_valid_Cons)

text \<open>A chain of a table as the sinks keep it: it verifies, and a row has both chain columns or none.\<close>

definition chain_sound :: "'e audit_crypto \<Rightarrow> 'e audit_row list \<Rightarrow> bool" where
  "chain_sound k rs =
     (CallerAuditChainVerifier_verifyChain k rs = Inr AuditValid
      \<and> list_all (\<lambda>r. (aw_chainHash r = None) = (aw_chainPosition r = None)) rs)"

lemma chain_sound_Nil [simp]: "chain_sound k []"
  by (simp add: chain_sound_def CallerAuditChainVerifier_verifyChain_def)

lemma last_link_of_rows:
  "last_chain_link chain_of c rs =
     (if chain_rows chain_of c rs = [] then None else Some (last (chain_rows chain_of c rs)))"
  by (cases "chain_rows chain_of c rs" rule: rev_cases) (simp_all add: last_chain_link_def)

lemma chain_rows_append [simp]:
  "chain_rows chain_of c (rs @ ts) = chain_rows chain_of c rs @ chain_rows chain_of c ts"
  by (simp add: chain_rows_def)

lemma chain_rows_single:
  "chain_rows chain_of c [r] = (if chain_of (aw_event r) = Some c then [r] else [])"
  by (simp add: chain_rows_def)

lemma sound_link_hash:
  "chain_sound k (chain_rows chain_of c rs) \<Longrightarrow>
     link_hash (last_chain_link chain_of c rs) = last_hash None (chain_rows chain_of c rs)"
  by (cases "chain_rows chain_of c rs" rule: rev_cases)
     (auto simp: chain_sound_def last_link_of_rows link_hash_def last_hash_def row_chained_def)

lemma chained_row_fields:
  assumes "chained_row k now e row = Inr r"
  shows "aw_event r = e" and "row_chained r" and "row_content r = Linked e (link_hash row) (link_position row)"
    and "aw_previousChainHash r = link_hash row" and "aw_chainHash r = Some (ak_hash k (row_content r))"
    and "aw_chainPosition r = Some (link_position row)"
    and "\<exists>v. ak_sign k (row_content r) (ak_keyId k) = Inr v \<and> sg_keyId (aw_signature r) = ak_keyId k \<and> sg_value (aw_signature r) = v"
  using assms
  by (auto simp: chained_row_def AuditEventCrypto_sign_def Let_def row_content_def row_chained_def split: sum.splits)

lemma plain_row_fields:
  assumes "plain_row k now e = Inr r"
  shows "aw_event r = e" and "\<not> row_chained r"
  using assms by (auto simp: plain_row_def row_chained_def split: sum.splits)

text \<open>What a signer signs, its own check accepts.\<close>

definition signs_soundly :: "'e audit_crypto \<Rightarrow> bool" where
  "signs_soundly k = (\<forall>c v. ak_sign k c (ak_keyId k) = Inr v \<longrightarrow> ak_check k c (ak_keyId k) v = Inr True)"

lemma chained_row_extends:
  assumes "signs_soundly k" and "chain_sound k (chain_rows chain_of c rs)"
    and "chained_row k now e (last_chain_link chain_of c rs) = Inr r"
  shows "chain_sound k (chain_rows chain_of c rs @ [r])"
proof -
  note f = chained_row_fields[OF assms(3)]
  have "AuditEventCrypto_verify k (row_content r) (aw_signature r) = Inr True"
    using f(7) assms(1) by (auto simp: AuditEventCrypto_verify_def signs_soundly_def)
  moreover have "aw_previousChainHash r = last_hash None (chain_rows chain_of c rs)"
    using f(4) sound_link_hash[OF assms(2)] by simp
  ultimately show ?thesis
    using assms(2) f(2,5,6)
    by (auto simp: chain_sound_def CallerAuditChainVerifier_verifyChain_def loop_valid_append loop_valid_Cons)
qed

section \<open>Concurrent writers\<close>

text \<open>Who holds what: the lock of the chain a client works on, and what it read is still the last link.\<close>

fun task_ok :: "('e \<Rightarrow> string option) \<Rightarrow> (string \<Rightarrow> int) \<Rightarrow> 'e sink_state \<Rightarrow> nat \<Rightarrow> 'e sink_task \<Rightarrow> bool" where
  "task_ok chain_of hashtext s i Idle = True"
| "task_ok chain_of hashtext s i (Waiting e c) = (chain_of e = Some c)"
| "task_ok chain_of hashtext s i (Holding e c) = (chain_of e = Some c \<and> sk_lock s (hashtext c) = Some i)"
| "task_ok chain_of hashtext s i (Linking e c row) =
     (chain_of e = Some c \<and> sk_lock s (hashtext c) = Some i \<and> row = last_chain_link chain_of c (sk_rows s))"

lemma task_ok_cong:
  assumes "task_ok chain_of hashtext s i t"
    and "\<And>c. lock_held t = Some c \<Longrightarrow> sk_lock s' (hashtext c) = sk_lock s (hashtext c)"
    and "\<And>c. lock_held t = Some c \<Longrightarrow> chain_rows chain_of c (sk_rows s') = chain_rows chain_of c (sk_rows s)"
  shows "task_ok chain_of hashtext s' i t"
  using assms by (cases t) (auto simp: last_link_of_rows)

lemma task_ok_task [simp]:
  "task_ok chain_of hashtext (s\<lparr>sk_task := f\<rparr>) i t = task_ok chain_of hashtext s i t"
  by (cases t) auto

lemma task_ok_lock:
  "task_ok chain_of hashtext s i t \<Longrightarrow> lock_held t = Some c \<Longrightarrow> sk_lock s (hashtext c) = Some i"
  by (cases t) auto

text \<open>A property of a chain that every row the sinks append keeps, for any interleaving of writers.\<close>

locale chain_property =
  fixes chain_of :: "'e \<Rightarrow> string option"
    and k :: "'e audit_crypto"
    and holds :: "'e audit_row list \<Rightarrow> bool"
  assumes holds_extends: "holds (chain_rows chain_of c rs) \<Longrightarrow>
      chained_row k now e (last_chain_link chain_of c rs) = Inr r \<Longrightarrow> holds (chain_rows chain_of c rs @ [r])"
begin

definition sink_inv :: "(string \<Rightarrow> int) \<Rightarrow> 'e sink_state \<Rightarrow> bool" where
  "sink_inv hashtext s =
     ((\<forall>i. task_ok chain_of hashtext s i (sk_task s i)) \<and> (\<forall>c. holds (chain_rows chain_of c (sk_rows s))))"

lemma sink_inv_step:
  assumes "sink_step chain_of k hashtext s s'" and inv: "sink_inv hashtext s"
  shows "sink_inv hashtext s'"
proof -
  have tasks: "task_ok chain_of hashtext s i (sk_task s i)" for i using inv by (simp add: sink_inv_def)
  have sound: "holds (chain_rows chain_of c (sk_rows s))" for c using inv by (simp add: sink_inv_def)
  show ?thesis
    using assms(1)
  proof cases
    case (begin_step i e c)
    then show ?thesis
      using tasks sound by (auto simp: sink_inv_def begin_record_def)
  next
    case (lock_step i e c)
    then have free: "sk_lock s (hashtext c) = None"
      and s': "s' = s\<lparr>sk_lock := (sk_lock s)(hashtext c := Some i), sk_task := (sk_task s)(i := Holding e c)\<rparr>"
      by (auto simp: take_lock_def split: if_splits)
    have "task_ok chain_of hashtext s' j (sk_task s j)" for j
      using tasks[of j] task_ok_lock[OF tasks[of j]] free
      by (rule_tac task_ok_cong[of _ _ s]) (auto simp: s' fun_upd_apply)
    moreover have "chain_of e = Some c" using tasks[of i] lock_step by simp
    ultimately show ?thesis using sound by (auto simp: sink_inv_def s')
  next
    case (read_step i e c)
    then show ?thesis
      using tasks[of i] tasks sound by (auto simp: sink_inv_def read_link_def)
  next
    case (commit_step i e c row now r)
    have here: "chain_of e = Some c" "sk_lock s (hashtext c) = Some i" "row = last_chain_link chain_of c (sk_rows s)"
      using tasks[of i] commit_step by auto
    note f = chained_row_fields[OF commit_step(3)]
    have others: "task_ok chain_of hashtext s' j (sk_task s j)" if "j \<noteq> i" for j
    proof (rule task_ok_cong[OF tasks[of j]])
      fix d assume held: "lock_held (sk_task s j) = Some d"
      then have "hashtext d \<noteq> hashtext c" using task_ok_lock[OF tasks held] here(2) that by auto
      then show "sk_lock s' (hashtext d) = sk_lock s (hashtext d)"
        and "chain_rows chain_of d (sk_rows s') = chain_rows chain_of d (sk_rows s)"
        using here(1) f(1) by (auto simp: commit_step(1) commit_row_def chain_rows_single)
    qed
    have "holds (chain_rows chain_of d (sk_rows s'))" for d
      using sound[of d] holds_extends[OF sound] commit_step(3) here f(1)
      by (auto simp: commit_step(1) commit_row_def chain_rows_single)
    then show ?thesis using others by (auto simp: sink_inv_def commit_step(1) commit_row_def)
  next
    case (rollback_step i)
    have "task_ok chain_of hashtext s' j (sk_task s j)" if "j \<noteq> i" for j
    proof (rule task_ok_cong[OF tasks[of j]])
      fix d assume "lock_held (sk_task s j) = Some d"
      then show "sk_lock s' (hashtext d) = sk_lock s (hashtext d)"
        using task_ok_lock[OF tasks[of j]] task_ok_lock[OF tasks[of i]] that
        by (auto simp: rollback_step roll_back_def split: option.splits)
    qed (simp add: rollback_step roll_back_def)
    then show ?thesis using sound by (auto simp: sink_inv_def rollback_step roll_back_def)
  next
    case (plain_step e now r)
    then have "chain_rows chain_of c (sk_rows s') = chain_rows chain_of c (sk_rows s)" for c
      using plain_row_fields(1)[OF plain_step(3)] by (simp add: chain_rows_single)
    moreover have "task_ok chain_of hashtext s' i (sk_task s i)" for i
      using task_ok_cong[OF tasks] calculation by (metis plain_step(1) sink_state.ext_inject sink_state.surjective sink_state.update_convs(1))
    ultimately show ?thesis using sound by (simp add: sink_inv_def plain_step(1))
  qed
qed

lemma sink_inv_run:
  "(sink_step chain_of k hashtext)\<^sup>*\<^sup>* s s' \<Longrightarrow> sink_inv hashtext s \<Longrightarrow> sink_inv hashtext s'"
  by (induction rule: rtranclp_induct) (auto intro: sink_inv_step)

lemma holds_run:
  assumes "(sink_step chain_of k hashtext)\<^sup>*\<^sup>* (quiet rows) s" and "\<And>c. holds (chain_rows chain_of c rows)"
  shows "holds (chain_rows chain_of c (sk_rows s))"
  using sink_inv_run[OF assms(1)] assms(2) by (simp add: sink_inv_def quiet_def)

end

section \<open>A single writer\<close>

text \<open>With no fault \<open>record\<close> is a run of these steps, so what holds of all runs holds of it.\<close>

lemma record_is_run:
  assumes "chain_of e = Some c" and "chained_row k now e (last_chain_link chain_of c rows) = Inr r"
  shows "(sink_step chain_of k hashtext)\<^sup>*\<^sup>* (quiet rows) (quiet (rows @ [r]))"
proof -
  let ?free = "\<lambda>_ :: int. None :: nat option" and ?idle = "\<lambda>_ :: nat. Idle"
  let ?s1 = "\<lparr>sk_rows = rows, sk_lock = ?free, sk_task = ?idle(0 := Waiting e c)\<rparr>"
  let ?s2 = "\<lparr>sk_rows = rows, sk_lock = ?free(hashtext c := Some 0), sk_task = ?idle(0 := Holding e c)\<rparr>"
  let ?s3 = "\<lparr>sk_rows = rows, sk_lock = ?free(hashtext c := Some 0),
              sk_task = ?idle(0 := Linking e c (last_chain_link chain_of c rows))\<rparr>"
  have 1: "sink_step chain_of k hashtext (quiet rows) ?s1"
    using begin_step[where s = "quiet rows" and i = 0] assms(1) by (simp add: quiet_def begin_record_def)
  have 2: "sink_step chain_of k hashtext ?s1 ?s2"
    by (rule lock_step[where i = 0]) (simp_all add: take_lock_def)
  have 3: "sink_step chain_of k hashtext ?s2 ?s3"
    using read_step[where s = ?s2 and i = 0] by (simp add: read_link_def)
  have 4: "sink_step chain_of k hashtext ?s3 (quiet (rows @ [r]))"
    using commit_step[where s = ?s3 and i = 0 and hashtext = hashtext and chain_of = chain_of] assms(2)
    by (simp add: quiet_def commit_row_def fun_upd_def if_distrib cong: if_cong)
  show ?thesis using 1 2 3 4 by (meson rtranclp.rtrancl_refl rtranclp.rtrancl_into_rtrancl)
qed

lemma caller_record_is_run:
  assumes "SupabaseCallerAuditSink_record k now fault e rows = (q, rows')"
  shows "(sink_step ce_callerId k hashtext)\<^sup>*\<^sup>* (quiet rows) (quiet rows')"
proof (cases "ce_callerId e")
  case None
  have "sink_step ce_callerId k hashtext (quiet rows) (quiet (rows @ [r]))" if "plain_row k now e = Inr r" for r
    using plain_step[where s = "quiet rows"] None that by (simp add: quiet_def)
  with assms None show ?thesis
    by (auto simp: SupabaseCallerAuditSink_record_def split: sum.splits option.splits)
next
  case (Some c)
  with assms show ?thesis
    by (auto simp: SupabaseCallerAuditSink_record_def split: sum.splits option.splits intro: record_is_run)
qed

lemma execution_record_is_run:
  "SupabaseExecutionAuditSink_record k now fault e rows = (q, rows') \<Longrightarrow>
     (sink_step execution_chain k hashtext)\<^sup>*\<^sup>* (quiet rows) (quiet rows')"
  by (auto simp: SupabaseExecutionAuditSink_record_def execution_chain_def split: sum.splits option.splits
        intro!: record_is_run)

section \<open>What verifying rows say\<close>

text \<open>Positions and links of a chain that starts with an empty table.\<close>

definition chain_numbered :: "'e audit_crypto \<Rightarrow> 'e audit_row list \<Rightarrow> bool" where
  "chain_numbered k rs =
     (\<forall>i<length rs. row_content (rs ! i) = Linked (aw_event (rs ! i))
        (if i = 0 then None else Some (ak_hash k (row_content (rs ! (i - 1))))) (i + 1)
      \<and> aw_chainHash (rs ! i) = Some (ak_hash k (row_content (rs ! i))) \<and> aw_chainPosition (rs ! i) = Some (i + 1))"

lemma chain_numbered_extend:
  assumes n: "chain_numbered k (chain_rows chain_of c rs)"
    and "chained_row k now e (last_chain_link chain_of c rs) = Inr r"
  shows "chain_numbered k (chain_rows chain_of c rs @ [r])"
proof (cases "chain_rows chain_of c rs" rule: rev_cases)
  case Nil
  with chained_row_fields[OF assms(2)] show ?thesis
    by (auto simp: chain_numbered_def last_link_of_rows link_hash_def link_position_def)
next
  case (snoc qs q)
  with n have "aw_chainHash q = Some (ak_hash k (row_content q))" and "aw_chainPosition q = Some (length qs + 1)"
    unfolding chain_numbered_def by (auto dest!: spec[of _ "length qs"])
  with snoc chained_row_fields[OF assms(2)] n show ?thesis
    by (auto simp: chain_numbered_def last_link_of_rows link_hash_def link_position_def nth_append less_Suc_eq)
qed

interpretation sound: chain_property chain_of k "\<lambda>rs. signs_soundly k \<longrightarrow> chain_sound k rs"
  for chain_of :: "'e \<Rightarrow> string option" and k
  by unfold_locales (auto intro: chained_row_extends)

interpretation numbered: chain_property chain_of k "chain_numbered k" for chain_of :: "'e \<Rightarrow> string option" and k
  by unfold_locales (rule chain_numbered_extend)

section \<open>Properties\<close>

lemma numbered_from_empty:
  "(sink_step chain_of k hashtext)\<^sup>*\<^sup>* (quiet []) s \<Longrightarrow> chain_numbered k (chain_rows chain_of c (sk_rows s))"
  by (rule numbered.holds_run) (auto simp: chain_numbered_def chain_rows_def)

lemma chained_content:
  "row_chained r \<Longrightarrow> \<exists>p. aw_chainPosition r = Some p \<and> row_content r = Linked (aw_event r) (aw_previousChainHash r) p"
  by (auto simp: row_chained_def row_content_def)

text \<open>
  A verifying row whose content was recorded in one chain is the row of that chain it links to: the
  step of the induction below.
\<close>

lemma linked_is_next:
  assumes n: "\<And>c. chain_numbered k (chain_rows chain_of c rows)"
    and inj: "inj_on (ak_hash k) (row_content ` set rows)"
    and r: "row_content r = row_content q" "q \<in> set rows" "row_chained r"
    and c: "j < length (chain_rows chain_of c rows)"
    and link: "aw_previousChainHash r = Some (ak_hash k (row_content (chain_rows chain_of c rows ! j)))"
    and own: "chain_of (aw_event q) \<noteq> None"
  shows "Suc j < length (chain_rows chain_of c rows) \<and> row_content r = row_content (chain_rows chain_of c rows ! Suc j)"
proof -
  obtain d where d: "chain_of (aw_event q) = Some d" using own by auto
  then have "q \<in> set (chain_rows chain_of d rows)" using r(2) by (simp add: chain_rows_def)
  then obtain i where i: "i < length (chain_rows chain_of d rows)" "chain_rows chain_of d rows ! i = q"
    by (auto simp: in_set_conv_nth)
  let ?cs = "chain_rows chain_of c rows" and ?ds = "chain_rows chain_of d rows"
  have sub: "set (chain_rows chain_of x rows) \<subseteq> set rows" for x by (auto simp: chain_rows_def)
  have q: "row_content q = Linked (aw_event q) (if i = 0 then None else Some (ak_hash k (row_content (?ds ! (i - 1))))) (i + 1)"
    using n[of d] i unfolding chain_numbered_def by metis
  have prev: "i \<noteq> 0 \<and> ak_hash k (row_content (?ds ! (i - 1))) = ak_hash k (row_content (?cs ! j))"
    using chained_content[OF r(3)] r(1) q link by (auto split: if_splits)
  have mem: "?ds ! (i - 1) \<in> set rows" "?cs ! j \<in> set rows"
    using sub[of d] sub[of c] nth_mem[of "i - 1" ?ds] nth_mem[OF c] i(1) by auto
  have same: "row_content (?ds ! (i - 1)) = row_content (?cs ! j)"
    using prev inj mem by (auto dest!: inj_onD)
  have "row_content (?ds ! (i - 1)) = Linked (aw_event (?ds ! (i - 1))) (if i - 1 = 0 then None else Some (ak_hash k (row_content (?ds ! (i - 1 - 1))))) (i - 1 + 1)"
    using n[of d] i(1) unfolding chain_numbered_def by (metis less_imp_diff_less)
  moreover have "row_content (?cs ! j) = Linked (aw_event (?cs ! j)) (if j = 0 then None else Some (ak_hash k (row_content (?cs ! (j - 1))))) (j + 1)"
    using n[of c] c unfolding chain_numbered_def by metis
  ultimately have ij: "i - 1 = j" and ev: "aw_event (?ds ! (i - 1)) = aw_event (?cs ! j)" using same by auto
  have "chain_of (aw_event (?ds ! (i - 1))) = Some d" "chain_of (aw_event (?cs ! j)) = Some c"
    using nth_mem[of "i - 1" ?ds] nth_mem[OF c] i(1) by (auto simp: chain_rows_def)
  then have "d = c" using ev by simp
  moreover have "i = Suc j" using ij prev by (metis Suc_diff_1 neq0_conv)
  ultimately show ?thesis using i r(1) by simp
qed

lemma chained_rows_owned:
  "(sink_step chain_of k hashtext)\<^sup>*\<^sup>* (quiet []) s \<Longrightarrow> r \<in> set (sk_rows s) \<Longrightarrow> row_chained r \<Longrightarrow> chain_of (aw_event r) \<noteq> None"
proof (induction rule: rtranclp_induct)
  case base
  then show ?case by (simp add: quiet_def)
next
  case (step s s')
  have "numbered.sink_inv chain_of k hashtext s"
    using numbered.sink_inv_run[OF step(1)] by (simp add: numbered.sink_inv_def quiet_def chain_numbered_def chain_rows_def)
  then have tasks: "task_ok chain_of hashtext s i (sk_task s i)" for i by (simp add: numbered.sink_inv_def)
  from step(2) show ?case
  proof cases
    case (commit_step i e c row now q)
    then show ?thesis
      using step tasks[of i] chained_row_fields(1)[OF commit_step(3)] by (auto simp: commit_row_def)
  next
    case (plain_step e now q)
    then show ?thesis using step plain_row_fields(2)[OF plain_step(3)] by auto
  qed (use step in \<open>auto simp: begin_record_def take_lock_def read_link_def roll_back_def split: if_splits\<close>)
qed

lemma verified_rows_follow_chain:
  assumes n: "\<And>c. chain_numbered k (chain_rows chain_of c rows)"
    and inj: "inj_on (ak_hash k) (row_content ` set rows)"
    and unforged: "\<And>c keyId v. ak_check k c keyId v = Inr True \<Longrightarrow> c \<in> row_content ` set rows"
    and owned: "\<And>r. r \<in> set rows \<Longrightarrow> row_chained r \<Longrightarrow> chain_of (aw_event r) \<noteq> None"
  shows "list_all row_chained rs \<Longrightarrow> CallerAuditChainVerifier_loop k None 0 rs = Inr AuditValid \<Longrightarrow>
    \<exists>c. length rs \<le> length (chain_rows chain_of c rows)
      \<and> (\<forall>i<length rs. row_content (rs ! i) = row_content (chain_rows chain_of c rows ! i))"
proof (induction rs rule: rev_induct)
  case Nil
  then show ?case by simp
next
  case (snoc r rs)
  from snoc.prems(2) have ih: "CallerAuditChainVerifier_loop k None 0 rs = Inr AuditValid"
    and sig: "AuditEventCrypto_verify k (row_content r) (aw_signature r) = Inr True"
    and link: "aw_previousChainHash r = last_hash None rs"
    using snoc.prems(1) by (auto simp: loop_valid_append loop_valid_Cons)
  from snoc.IH ih snoc.prems(1) obtain c
    where c: "length rs \<le> length (chain_rows chain_of c rows)"
      "\<And>i. i < length rs \<Longrightarrow> row_content (rs ! i) = row_content (chain_rows chain_of c rows ! i)" by auto
  from sig unforged obtain q where q: "row_content r = row_content q" "q \<in> set rows"
    by (force simp: AuditEventCrypto_verify_def)
  have r: "row_chained r" using snoc.prems(1) by simp
  have "row_chained q" using chained_content[OF r] q(1) by (auto simp: row_content_def row_chained_def split: option.splits)
  then have own: "chain_of (aw_event q) \<noteq> None" using owned q(2) by blast
  show ?case
  proof (cases rs rule: rev_cases)
    case Nil
    obtain d where d: "chain_of (aw_event q) = Some d" using own by auto
    then have "q \<in> set (chain_rows chain_of d rows)" using q(2) by (simp add: chain_rows_def)
    then obtain i where i: "i < length (chain_rows chain_of d rows)" "chain_rows chain_of d rows ! i = q"
      by (auto simp: in_set_conv_nth)
    have "aw_previousChainHash r = None" using link Nil by (simp add: last_hash_def)
    moreover have "row_content q = Linked (aw_event q) (if i = 0 then None
        else Some (ak_hash k (row_content (chain_rows chain_of d rows ! (i - 1))))) (i + 1)"
      using n[of d] i unfolding chain_numbered_def by metis
    ultimately have "i = 0" using chained_content[OF r] q(1) by (auto split: if_splits)
    then show ?thesis using i q(1) Nil by (intro exI[of _ d]) (auto simp: Suc_le_eq)
  next
    case (snoc ps p)
    let ?cs = "chain_rows chain_of c rows"
    have p: "row_content p = row_content (?cs ! length ps)" using c(2)[of "length ps"] snoc by simp
    have "row_chained p" and "aw_chainHash p = Some (ak_hash k (row_content p))"
      using snoc ih snoc.prems(1) by (auto simp: loop_valid_append loop_valid_Cons)
    then have "aw_previousChainHash r = Some (ak_hash k (row_content (?cs ! length ps)))"
      using link snoc p by (simp add: last_hash_def)
    then have "Suc (length ps) < length ?cs \<and> row_content r = row_content (?cs ! Suc (length ps))"
      using linked_is_next[OF n inj q r _ _ own] c(1) snoc by simp
    then have "row_content ((rs @ [r]) ! i) = row_content (?cs ! i)" if "i < length (rs @ [r])" for i
      using c(2)[of i] snoc that by (cases "i < length rs") (auto simp: nth_append less_Suc_eq)
    moreover have "length (rs @ [r]) \<le> length ?cs"
      using \<open>Suc (length ps) < length ?cs \<and> _\<close> snoc by simp
    ultimately show ?thesis by blast
  qed
qed

text \<open>
  C23: Whatever requests write to the audit trail at the same time, and wherever they fail, every chain
  of the table verifies, provided it did at the start and a fresh signature checks.
\<close>

theorem concurrent_chains_verify:
  assumes "(sink_step chain_of k hashtext)\<^sup>*\<^sup>* (quiet rows) s"
    and "signs_soundly k" and "\<And>c. chain_sound k (chain_rows chain_of c rows)"
  shows "CallerAuditChainVerifier_verifyChain k (chain_rows chain_of c (sk_rows s)) = Inr AuditValid"
  using sound.holds_run[OF assms(1), of c] assms(2,3) by (simp add: chain_sound_def)


text \<open>The newest rows are the exception: without them the rest of a chain still verifies.\<close>

theorem missing_newest_unnoticed:
  "CallerAuditChainVerifier_verifyChain k (rs @ ts) = Inr AuditValid \<Longrightarrow>
     CallerAuditChainVerifier_verifyChain k rs = Inr AuditValid"
  by (simp add: CallerAuditChainVerifier_verifyChain_def loop_valid_append)

section \<open>Witnesses\<close>

definition sample_caller_event :: caller_audit_event where
  "sample_caller_event = caller_event ''caller.authenticated'' ''2026-01-01T00:00:00.000Z'' ''/execute'' (Some ''agent'')"

definition sample_contents :: "caller_audit_event audit_content list" where
  "sample_contents = [Linked sample_caller_event None 1, Linked sample_caller_event (Some ''first'') 2]"

definition sample_audit_crypto :: "caller_audit_event audit_crypto" where
  "sample_audit_crypto =
     \<lparr>ak_algorithm = ''ed25519'', ak_keyId = ''default'',
      ak_sign = (\<lambda>c _. if c \<in> set sample_contents then Inr ''sig'' else Inl ''unavailable''),
      ak_check = (\<lambda>c _ _. Inr (c \<in> set sample_contents)),
      ak_hash = (\<lambda>c. if c = Linked sample_caller_event None 1 then ''first'' else ''second'')\<rparr>"

definition sample_rows :: "caller_audit_event audit_row list" where
  "sample_rows = snd (SupabaseCallerAuditSink_record sample_audit_crypto 0 None sample_caller_event
     (snd (SupabaseCallerAuditSink_record sample_audit_crypto 0 None sample_caller_event [])))"

lemma sample_rows_run:
  "(sink_step ce_callerId sample_audit_crypto (\<lambda>_. 0))\<^sup>*\<^sup>* (quiet []) (quiet sample_rows)"
  unfolding sample_rows_def
  by (rule rtranclp_trans[OF caller_record_is_run[where q = "fst _"] caller_record_is_run[where q = "fst _"]])
     (rule prod.collapse[symmetric])+

lemma sample_rows_eq:
  "sample_rows =
     [\<lparr>aw_event = sample_caller_event, aw_signature = \<lparr>sg_algorithm = ''ed25519'', sg_keyId = ''default'', sg_value = ''sig'', sg_signedAt = 0\<rparr>,
       aw_chainHash = Some ''first'', aw_previousChainHash = None, aw_chainPosition = Some 1\<rparr>,
      \<lparr>aw_event = sample_caller_event, aw_signature = \<lparr>sg_algorithm = ''ed25519'', sg_keyId = ''default'', sg_value = ''sig'', sg_signedAt = 0\<rparr>,
       aw_chainHash = Some ''second'', aw_previousChainHash = Some ''first'', aw_chainPosition = Some 2\<rparr>]"
  by (simp add: sample_rows_def SupabaseCallerAuditSink_record_def sample_audit_crypto_def sample_contents_def
      sample_caller_event_def caller_event_def chained_row_def AuditEventCrypto_sign_def last_chain_link_def
      chain_rows_def link_hash_def link_position_def)

lemma sample_audit_sound: "signs_soundly sample_audit_crypto"
  by (simp add: signs_soundly_def sample_audit_crypto_def)

lemma sample_rows_contents: "map row_content sample_rows = sample_contents"
  by (simp add: sample_rows_eq row_content_def sample_contents_def)

lemma sample_rows_verify:
  "CallerAuditChainVerifier_verifyChain sample_audit_crypto (take 1 sample_rows) = Inr AuditValid"
  by (simp add: sample_rows_eq CallerAuditChainVerifier_verifyChain_def loop_valid_Cons row_content_def row_chained_def
      AuditEventCrypto_verify_def sample_audit_crypto_def sample_contents_def)

theorem concurrent_chains_verify_witness:
  "CallerAuditChainVerifier_verifyChain sample_audit_crypto (chain_rows ce_callerId ''agent'' sample_rows) = Inr AuditValid
   \<and> length (chain_rows ce_callerId ''agent'' sample_rows) = 2"
proof
  show "CallerAuditChainVerifier_verifyChain sample_audit_crypto (chain_rows ce_callerId ''agent'' sample_rows) = Inr AuditValid"
    using concurrent_chains_verify[OF sample_rows_run sample_audit_sound, of "''agent''"]
    by (simp add: quiet_def chain_rows_def)
qed (simp add: sample_rows_eq chain_rows_def sample_caller_event_def caller_event_def)


end
