(* ===== verification/Signing.thy ===== *)
theory Signing
  imports Canonical
begin

text \<open>
  Who holds the signing keys and how a signature is made: the providers of
  \<open>packages/crypto/src/providers\<close> for Ed25519 and ML-DSA-65, the commitment to large messages
  (\<open>SignatureCommitment.ts\<close>), keys in files (\<open>FileKeyProvider.ts\<close>, \<open>LocalFileSigner.ts\<close>), keys in AWS
  KMS (\<open>KmsSigner.ts\<close>), their choice (\<open>SignerBootstrap.ts\<close>), the signing and the check of an artifact
  (\<open>ArtifactSigner.ts\<close>, \<open>SignatureVerifier.ts\<close>), the probe of \<open>VerificationCrypto.ts\<close> and its cache
  (\<open>packages/runtime/src/SigningReadiness.ts\<close>), and the routes that publish the keys
  (\<open>packages/api/src/routes/keys.ts\<close>).

  Parameters: \<open>node:crypto\<close> (\<open>sign\<close> with its randomness, \<open>verify\<close>, SHA-512, base64), the file system and
  the KMS client.
\<close>

section \<open>Signature providers\<close>

type_synonym bytes = "8 word list"

text \<open>A key object: its \<open>asymmetricKeyType\<close> and what identifies the key pair.\<close>

record 'k key_object =
  ko_type :: string
  ko_key :: 'k

record 'k node_crypto =
  nc_sign :: "nat \<Rightarrow> bytes \<Rightarrow> 'k key_object \<Rightarrow> bytes"
  nc_verify :: "bytes \<Rightarrow> 'k key_object \<Rightarrow> bytes \<Rightarrow> bool"
  nc_sha512 :: "bytes \<Rightarrow> bytes"
  nc_base64 :: "bytes \<Rightarrow> string"
  nc_unbase64 :: "string \<Rightarrow> bytes"

definition assertKeyType :: "'k key_object \<Rightarrow> string \<Rightarrow> string \<Rightarrow> (string, unit) result" where
  "assertKeyType key expected operation =
     (if ko_type key \<noteq> expected
      then Inl (operation @ ''() expected a '' @ [CHR 0x22] @ expected @ [CHR 0x22] @ '' key but received ''
             @ [CHR 0x22] @ ko_type key @ [CHR 0x22]
             @ ''. The configured signature algorithm does not match the supplied key material.'')
      else Inr ())"

definition KMS_RAW_MESSAGE_LIMIT_BYTES :: nat where
  "KMS_RAW_MESSAGE_LIMIT_BYTES = 4096"

definition COMMITMENT_PREFIX :: bytes where
  "COMMITMENT_PREFIX = utf8 ''PARMANA-ED25519-LARGE-MESSAGE-V1'' @ [0]"

definition requiresCommitment :: "bytes \<Rightarrow> bool" where
  "requiresCommitment data = (length data > KMS_RAW_MESSAGE_LIMIT_BYTES)"

definition commitmentMessage :: "'k node_crypto \<Rightarrow> bytes \<Rightarrow> bytes" where
  "commitmentMessage nc data = COMMITMENT_PREFIX @ nc_sha512 nc data"

record 'k signature_provider =
  sp_algorithm :: string
  sp_sign :: "nat \<Rightarrow> bytes \<Rightarrow> 'k key_object \<Rightarrow> (string, string) result"
  sp_verify :: "bytes \<Rightarrow> string \<Rightarrow> 'k key_object \<Rightarrow> (string, bool) result"

definition provider_sign ::
  "'k node_crypto \<Rightarrow> string \<Rightarrow> nat \<Rightarrow> bytes \<Rightarrow> 'k key_object \<Rightarrow> (string, string) result" where
  "provider_sign nc keyType seed data privateKey =
     (case assertKeyType privateKey keyType ''sign'' of
        Inl e \<Rightarrow> Inl e
      | Inr _ \<Rightarrow> Inr (nc_base64 nc (nc_sign nc seed data privateKey)))"

definition ed25519_verify :: "'k node_crypto \<Rightarrow> bytes \<Rightarrow> string \<Rightarrow> 'k key_object \<Rightarrow> (string, bool) result" where
  "ed25519_verify nc data signature publicKey =
     (case assertKeyType publicKey ''ed25519'' ''verify'' of
        Inl e \<Rightarrow> Inl e
      | Inr _ \<Rightarrow>
          let signatureBytes = nc_unbase64 nc signature in
          if nc_verify nc data publicKey signatureBytes then Inr True
          else if requiresCommitment data then Inr (nc_verify nc (commitmentMessage nc data) publicKey signatureBytes)
          else Inr False)"

definition dilithium3_verify :: "'k node_crypto \<Rightarrow> bytes \<Rightarrow> string \<Rightarrow> 'k key_object \<Rightarrow> (string, bool) result" where
  "dilithium3_verify nc data signature publicKey =
     (case assertKeyType publicKey ''ml-dsa-65'' ''verify'' of
        Inl e \<Rightarrow> Inl e
      | Inr _ \<Rightarrow> Inr (nc_verify nc data publicKey (nc_unbase64 nc signature)))"

definition Ed25519SignatureProvider :: "'k node_crypto \<Rightarrow> 'k signature_provider" where
  "Ed25519SignatureProvider nc =
     \<lparr>sp_algorithm = ''ed25519'', sp_sign = provider_sign nc ''ed25519'', sp_verify = ed25519_verify nc\<rparr>"

definition Dilithium3SignatureProvider :: "'k node_crypto \<Rightarrow> 'k signature_provider" where
  "Dilithium3SignatureProvider nc =
     \<lparr>sp_algorithm = ''dilithium3'', sp_sign = provider_sign nc ''ml-dsa-65'', sp_verify = dilithium3_verify nc\<rparr>"

section \<open>Paths\<close>

text \<open>
  \<open>path.join(directory, file)\<close> of \<open>node:path\<close> on POSIX: the parts that are not empty joined with a
  slash, then normalized, which resolves \<open>.\<close> and \<open>..\<close> and drops empty segments.
\<close>

fun resolve_segments :: "bool \<Rightarrow> string list \<Rightarrow> string list \<Rightarrow> string list" where
  "resolve_segments absolute before [] = rev before"
| "resolve_segments absolute before (s # ss) =
     (if s = [] \<or> s = ''.'' then resolve_segments absolute before ss
      else if s = ''..'' then
        (case before of
           [] \<Rightarrow> resolve_segments absolute (if absolute then [] else [s]) ss
         | d # ds \<Rightarrow> if d = ''..'' then resolve_segments absolute (s # before) ss else resolve_segments absolute ds ss)
      else resolve_segments absolute (s # before) ss)"

text \<open>Whether a path is absolute, and the segments it resolves to.\<close>

definition path_segments :: "string \<Rightarrow> bool \<times> string list" where
  "path_segments p = (let absolute = starts_with p ''/'' in (absolute, resolve_segments absolute [] (split_on CHR ''/'' p)))"

fun join_slash :: "string list \<Rightarrow> string" where
  "join_slash [] = []"
| "join_slash [s] = s"
| "join_slash (s # ss) = s @ ''/'' @ join_slash ss"

definition path_normalize :: "string \<Rightarrow> string" where
  "path_normalize p =
     (if p = [] then ''.''
      else let (absolute, segments) = path_segments p; text = join_slash segments in
        if text = [] \<and> \<not> absolute then (if ends_with p ''/'' then ''./'' else ''.'')
        else (if absolute then ''/'' else []) @ text @ (if text \<noteq> [] \<and> ends_with p ''/'' then ''/'' else []))"

definition path_join :: "string \<Rightarrow> string \<Rightarrow> string" where
  "path_join a b =
     (if a = [] \<and> b = [] then ''.''
      else path_normalize (if a = [] then b else if b = [] then a else a @ ''/'' @ b))"

section \<open>Keys in files\<close>

record 'k key_files =
  kf_keyDirectory :: "string option"
  kf_exists :: "string \<Rightarrow> bool"
  kf_entries :: "string \<Rightarrow> (string, string list) result"
  kf_createPrivateKey :: "string \<Rightarrow> (string, 'k key_object) result"
  kf_createPublicKey :: "string \<Rightarrow> (string, 'k key_object) result"

record key_metadata =
  km_keyId :: string
  km_algorithm :: string

definition algorithmFromKeyType :: "string \<Rightarrow> (string, string) result" where
  "algorithmFromKeyType keyType =
     (if keyType = ''ed25519'' then Inr ''ed25519''
      else if keyType = ''ml-dsa-65'' then Inr ''dilithium3''
      else Inl (''Key material has unrecognized asymmetricKeyType: '' @ quote_string keyType @ ''.''))"

text \<open>The pattern \<open>^[A-Za-z0-9._-]+$\<close>.\<close>

definition key_id_char :: "char \<Rightarrow> bool" where
  "key_id_char c = (is_word_char c \<or> c = CHR ''.'' \<or> c = CHR ''-'')"

definition VALID_KEY_ID :: "string \<Rightarrow> bool" where
  "VALID_KEY_ID keyId = (keyId \<noteq> [] \<and> list_all key_id_char keyId)"

definition assertValidKeyId :: "string \<Rightarrow> (string, unit) result" where
  "assertValidKeyId keyId =
     (if \<not> VALID_KEY_ID keyId
      then Inl (''Invalid keyId: '' @ quote_string keyId @ ''. Must match /^[A-Za-z0-9._-]+$/.'') else Inr ())"

definition keyDirectory :: "'k key_files \<Rightarrow> string" where
  "keyDirectory kf = (case kf_keyDirectory kf of Some d \<Rightarrow> d | None \<Rightarrow> ''./keys'')"

definition getKeyDirectory :: "'k key_files \<Rightarrow> (string, string) result" where
  "getKeyDirectory kf =
     (if \<not> kf_exists kf (keyDirectory kf) then Inl (''Key directory does not exist: '' @ keyDirectory kf)
      else Inr (keyDirectory kf))"

text \<open>\<open>privateKeyPath\<close> and \<open>publicKeyPath\<close>\<close>

definition key_path :: "string \<Rightarrow> 'k key_files \<Rightarrow> string \<Rightarrow> (string, string) result" where
  "key_path suffix kf keyId =
     (case assertValidKeyId keyId of
        Inl e \<Rightarrow> Inl e
      | Inr _ \<Rightarrow> (case getKeyDirectory kf of Inl e \<Rightarrow> Inl e | Inr d \<Rightarrow> Inr (path_join d (keyId @ suffix))))"

abbreviation "privateKeyPath \<equiv> key_path ''.private.pem''"

abbreviation "publicKeyPath \<equiv> key_path ''.public.pem''"

definition FileKeyProvider_hasKey :: "'k key_files \<Rightarrow> string \<Rightarrow> (string, bool) result" where
  "FileKeyProvider_hasKey kf keyId = (case privateKeyPath kf keyId of Inl e \<Rightarrow> Inl e | Inr p \<Rightarrow> Inr (kf_exists kf p))"

definition FileKeyProvider_getPublicKey :: "'k key_files \<Rightarrow> string \<Rightarrow> (string, 'k key_object) result" where
  "FileKeyProvider_getPublicKey kf keyId =
     (case publicKeyPath kf keyId of
        Inl e \<Rightarrow> Inl e
      | Inr p \<Rightarrow> if \<not> kf_exists kf p then Inl (''Public key not found: '' @ keyId) else kf_createPublicKey kf p)"

definition FileKeyProvider_getPrivateKey :: "'k key_files \<Rightarrow> string \<Rightarrow> (string, 'k key_object) result" where
  "FileKeyProvider_getPrivateKey kf keyId =
     (case privateKeyPath kf keyId of
        Inl e \<Rightarrow> Inl e
      | Inr p \<Rightarrow> if \<not> kf_exists kf p then Inl (''Private key not found: '' @ keyId) else kf_createPrivateKey kf p)"

definition FileKeyProvider_getMetadata :: "'k key_files \<Rightarrow> string \<Rightarrow> (string, key_metadata) result" where
  "FileKeyProvider_getMetadata kf keyId =
     (case FileKeyProvider_hasKey kf keyId of
        Inl e \<Rightarrow> Inl e
      | Inr found \<Rightarrow>
          if \<not> found then Inl (''Key not found: '' @ keyId)
          else (case FileKeyProvider_getPublicKey kf keyId of
                  Inl e \<Rightarrow> Inl e
                | Inr publicKey \<Rightarrow>
                    (case algorithmFromKeyType (ko_type publicKey) of
                       Inl e \<Rightarrow> Inl e | Inr a \<Rightarrow> Inr \<lparr>km_keyId = keyId, km_algorithm = a\<rparr>)))"

definition FileKeyProvider_listKeys :: "'k key_files \<Rightarrow> (string, string list) result" where
  "FileKeyProvider_listKeys kf =
     (case getKeyDirectory kf of
        Inl e \<Rightarrow> Inl e
      | Inr d \<Rightarrow>
          (case kf_entries kf d of
             Inl e \<Rightarrow> Inl e
           | Inr entries \<Rightarrow>
               Inr (map (\<lambda>e. take (length e - length ''.public.pem'') e)
                      (filter (\<lambda>e. ends_with e ''.public.pem'') entries))))"

section \<open>Signers\<close>

record 'k signer =
  sn_sign :: "nat \<Rightarrow> string \<Rightarrow> bytes \<Rightarrow> (string, string) result"
  sn_getPublicKey :: "string \<Rightarrow> (string, 'k key_object) result"
  sn_getMetadata :: "string \<Rightarrow> (string, key_metadata) result"
  sn_hasKey :: "string \<Rightarrow> (string, bool) result"
  sn_listKeys :: "(string, string list) result option"

definition LocalFileSigner :: "'k signature_provider \<Rightarrow> 'k key_files \<Rightarrow> 'k signer" where
  "LocalFileSigner sp kf =
     \<lparr>sn_sign = (\<lambda>seed keyId data.
        case FileKeyProvider_getPrivateKey kf keyId of Inl e \<Rightarrow> Inl e | Inr privateKey \<Rightarrow> sp_sign sp seed data privateKey),
      sn_getPublicKey = FileKeyProvider_getPublicKey kf, sn_getMetadata = FileKeyProvider_getMetadata kf,
      sn_hasKey = FileKeyProvider_hasKey kf, sn_listKeys = Some (FileKeyProvider_listKeys kf)\<rparr>"

text \<open>
  The KMS client.  \<open>Sign\<close> and \<open>GetPublicKey\<close> answer with the bytes or the key, or without; \<open>DescribeKey\<close>
  answers with the key spec, and fails with \<open>NotFoundException\<close> (\<open>None\<close>) or another error.
\<close>

record 'k kms_client =
  kms_sign :: "nat \<Rightarrow> string \<Rightarrow> bytes \<Rightarrow> (string, bytes option) result"
  kms_getPublicKey :: "string \<Rightarrow> (string, 'k key_object option) result"
  kms_describeKey :: "string \<Rightarrow> (string option, string option) result"
  kms_error :: "string option \<Rightarrow> string"

definition hex_lower :: "char \<Rightarrow> bool" where
  "hex_lower c = (is_digit c \<or> c \<in> set ''abcdefABCDEF'')"

text \<open>The pattern of a UUID, in either case.\<close>

definition RAW_KMS_KEY_ID_PATTERN :: "string \<Rightarrow> bool" where
  "RAW_KMS_KEY_ID_PATTERN s =
     (let groups = split_on CHR ''-'' s in map length groups = [8, 4, 4, 4, 12] \<and> list_all (list_all hex_lower) groups)"

definition resolveKmsKeyId :: "string \<Rightarrow> string" where
  "resolveKmsKeyId keyId =
     (if starts_with keyId ''arn:'' \<or> starts_with keyId ''alias/'' then keyId
      else if RAW_KMS_KEY_ID_PATTERN keyId then keyId
      else ''alias/'' @ keyId)"

definition algorithmFromKeySpec :: "string option \<Rightarrow> (string, string) result" where
  "algorithmFromKeySpec keySpec =
     (if keySpec = Some ''ECC_NIST_EDWARDS25519'' then Inr ''ed25519''
      else Inl (''KmsSigner only supports ECC_NIST_EDWARDS25519 keys; got KeySpec=''
             @ (case keySpec of Some s \<Rightarrow> quote_string s | None \<Rightarrow> ''undefined'') @ ''.''))"

definition KmsSigner_sign :: "'k node_crypto \<Rightarrow> 'k kms_client \<Rightarrow> nat \<Rightarrow> string \<Rightarrow> bytes \<Rightarrow> (string, string) result" where
  "KmsSigner_sign nc kms seed keyId data =
     (let message = if requiresCommitment data then commitmentMessage nc data else data in
      case kms_sign kms seed (resolveKmsKeyId keyId) message of
        Inl e \<Rightarrow> Inl e
      | Inr None \<Rightarrow> Inl (''KMS Sign returned no signature for key '' @ keyId @ ''.'')
      | Inr (Some s) \<Rightarrow> Inr (nc_base64 nc s))"

definition KmsSigner_getPublicKey :: "'k kms_client \<Rightarrow> string \<Rightarrow> (string, 'k key_object) result" where
  "KmsSigner_getPublicKey kms keyId =
     (case kms_getPublicKey kms (resolveKmsKeyId keyId) of
        Inl e \<Rightarrow> Inl e
      | Inr None \<Rightarrow> Inl (''KMS GetPublicKey returned no key material for '' @ keyId @ ''.'')
      | Inr (Some key) \<Rightarrow> Inr key)"

definition KmsSigner_getMetadata :: "'k kms_client \<Rightarrow> string \<Rightarrow> (string, key_metadata) result" where
  "KmsSigner_getMetadata kms keyId =
     (case kms_describeKey kms (resolveKmsKeyId keyId) of
        Inl e \<Rightarrow> Inl (kms_error kms e)
      | Inr keySpec \<Rightarrow>
          (case algorithmFromKeySpec keySpec of
             Inl e \<Rightarrow> Inl e | Inr a \<Rightarrow> Inr \<lparr>km_keyId = keyId, km_algorithm = a\<rparr>))"

definition KmsSigner_hasKey :: "'k kms_client \<Rightarrow> string \<Rightarrow> (string, bool) result" where
  "KmsSigner_hasKey kms keyId =
     (case kms_describeKey kms (resolveKmsKeyId keyId) of
        Inr _ \<Rightarrow> Inr True
      | Inl None \<Rightarrow> Inr False
      | Inl (Some e) \<Rightarrow> Inl (kms_error kms (Some e)))"

definition KmsSigner :: "'k node_crypto \<Rightarrow> 'k kms_client \<Rightarrow> 'k signer" where
  "KmsSigner nc kms =
     \<lparr>sn_sign = KmsSigner_sign nc kms, sn_getPublicKey = KmsSigner_getPublicKey kms,
      sn_getMetadata = KmsSigner_getMetadata kms, sn_hasKey = KmsSigner_hasKey kms, sn_listKeys = None\<rparr>"

text \<open>\<open>SignerBootstrap.create\<close>, with the credentials of the client resolved or failed.\<close>

definition SignerBootstrap_create ::
  "'k node_crypto \<Rightarrow> 'k signature_provider \<Rightarrow> 'k key_files \<Rightarrow> (string, 'k kms_client) result \<Rightarrow> string \<Rightarrow> (string, 'k signer) result" where
  "SignerBootstrap_create nc sp kf kms provider =
     (if provider = ''local'' then Inr (LocalFileSigner sp kf)
      else if provider = ''aws-kms'' then (case kms of Inl e \<Rightarrow> Inl e | Inr client \<Rightarrow> Inr (KmsSigner nc client))
      else Inl (''KEY_PROVIDER='' @ provider @ '' is not implemented. Only ''
             @ [CHR 0x22] @ ''local'' @ [CHR 0x22] @ '' and '' @ [CHR 0x22] @ ''aws-kms'' @ [CHR 0x22]
             @ '' have a real Signer implementation today. Refusing to start with a configured key custody model ''
             @ ''(azure-key-vault, gcp-kms, hsm) that would silently fall back to file-based keys instead of the custody the configuration requested.''))"

section \<open>Artifacts\<close>

text \<open>How the engine prints numbers and dates, for the canonical bytes.\<close>

record printing =
  pt_number :: "jsnum \<Rightarrow> string"
  pt_date :: "int \<Rightarrow> string"

definition canonical_bytes :: "printing \<Rightarrow> js_value \<Rightarrow> bytes" where
  "canonical_bytes pt = CanonicalSerializer_serialize (pt_number pt) (pt_date pt)"

definition ArtifactSigner_sign ::
  "printing \<Rightarrow> 'k signature_provider \<Rightarrow> nat \<Rightarrow> js_value \<Rightarrow> 'k key_object \<Rightarrow> (string, string) result" where
  "ArtifactSigner_sign pt sp seed artifact privateKey = sp_sign sp seed (canonical_bytes pt artifact) privateKey"

definition ArtifactSigner_signWithSigner ::
  "printing \<Rightarrow> nat \<Rightarrow> js_value \<Rightarrow> string \<Rightarrow> 'k signer \<Rightarrow> (string, string) result" where
  "ArtifactSigner_signWithSigner pt seed artifact keyId signer = sn_sign signer seed keyId (canonical_bytes pt artifact)"

definition SignatureVerifier_verify ::
  "printing \<Rightarrow> 'k signature_provider \<Rightarrow> js_value \<Rightarrow> string \<Rightarrow> 'k key_object \<Rightarrow> (string, bool) result" where
  "SignatureVerifier_verify pt sp artifact signature publicKey =
     sp_verify sp (canonical_bytes pt artifact) signature publicKey"

text \<open>\<open>probeSigning\<close>: a synthetic artifact, longer than the limit of KMS, is signed and checked.\<close>

definition probe_artifact :: js_value where
  "probe_artifact =
     Object [(''purpose'', Text ''parmana-signing-readiness-probe''), (''padding'', Text (replicate 6000 CHR ''x''))]"

definition VerificationCrypto_probeSigning ::
  "printing \<Rightarrow> 'k signature_provider \<Rightarrow> nat \<Rightarrow> string \<Rightarrow> 'k signer \<Rightarrow> (string, unit) result" where
  "VerificationCrypto_probeSigning pt sp seed keyId signer =
     (case ArtifactSigner_signWithSigner pt seed probe_artifact keyId signer of
        Inl e \<Rightarrow> Inl e
      | Inr value \<Rightarrow>
          (case sn_getPublicKey signer keyId of
             Inl e \<Rightarrow> Inl e
           | Inr publicKey \<Rightarrow>
               (case SignatureVerifier_verify pt sp probe_artifact value publicKey of
                  Inl e \<Rightarrow> Inl e
                | Inr verified \<Rightarrow>
                    if \<not> verified
                    then Inl (''Signing readiness probe signature did not verify against the published public key for key ''
                           @ [CHR 0x22] @ keyId @ [CHR 0x22] @ ''.'')
                    else Inr ())))"

section \<open>The routes that publish keys\<close>

record published_key =
  pk_keyId :: string
  pk_algorithm :: string
  pk_pem :: string
  pk_jwk :: "string option"

text \<open>A status with an error, or the error handed to the error handler.\<close>

datatype key_failure = KeyRefused nat string | KeyPassed string

record 'k key_export =
  kx_pem :: "'k key_object \<Rightarrow> string"
  kx_jwk :: "'k key_object \<Rightarrow> string option"

text \<open>What both routes publish of a key; \<open>Promise.all\<close> rejects when either promise does.\<close>

definition publish_key :: "'k key_export \<Rightarrow> 'k signer \<Rightarrow> string \<Rightarrow> (string, published_key) result" where
  "publish_key kx signer keyId =
     (case sn_getMetadata signer keyId of
        Inl e \<Rightarrow> Inl e
      | Inr metadata \<Rightarrow>
          (case sn_getPublicKey signer keyId of
             Inl e \<Rightarrow> Inl e
           | Inr publicKey \<Rightarrow>
               Inr \<lparr>pk_keyId = km_keyId metadata, pk_algorithm = km_algorithm metadata,
                    pk_pem = kx_pem kx publicKey, pk_jwk = kx_jwk kx publicKey\<rparr>))"

definition KeysRouter_get ::
  "'k key_export \<Rightarrow> (string, 'k signer) result \<Rightarrow> string \<Rightarrow> (key_failure, published_key) result" where
  "KeysRouter_get kx signer keyId =
     (case signer of
        Inl e \<Rightarrow> Inl (KeyPassed e)
      | Inr keys \<Rightarrow>
          (case sn_hasKey keys keyId of
             Inl e \<Rightarrow> Inl (KeyPassed e)
           | Inr found \<Rightarrow>
               if \<not> found then Inl (KeyRefused 404 (''Key not found: '' @ keyId))
               else (case publish_key kx keys keyId of Inl e \<Rightarrow> Inl (KeyPassed e) | Inr k \<Rightarrow> Inr k)))"

definition KeysRouter_jwks ::
  "'k key_export \<Rightarrow> (string, 'k signer) result \<Rightarrow> (key_failure, published_key list) result" where
  "KeysRouter_jwks kx signer =
     (case signer of
        Inl e \<Rightarrow> Inl (KeyPassed e)
      | Inr keys \<Rightarrow>
          (case sn_listKeys keys of
             None \<Rightarrow> Inl (KeyRefused 501 ''This KeyProvider does not support listing keys.'')
           | Some (Inl e) \<Rightarrow> Inl (KeyPassed e)
           | Some (Inr keyIds) \<Rightarrow>
               (case gather_m (\<lambda>keyId. map_sum id (\<lambda>k. [k]) (publish_key kx keys keyId)) keyIds of
                  Inl e \<Rightarrow> Inl (KeyPassed e) | Inr ks \<Rightarrow> Inr ks)))"

section \<open>The cached probe\<close>

text \<open>
  \<open>CachedSigningReadiness\<close>.  A call either returns at once, or waits for the probe in flight, which
  it starts when there is none.  The probe settles later and settles every call that waits for it.
\<close>

record readiness =
  rd_healthyUntil :: int
  rd_inFlight :: bool

datatype readiness_answer = Ready | Awaiting bool

text \<open>\<open>Awaiting True\<close>: this call started the probe.\<close>

definition CachedSigningReadiness_assertReady :: "int \<Rightarrow> readiness \<Rightarrow> readiness_answer \<times> readiness" where
  "CachedSigningReadiness_assertReady now st =
     (if now < rd_healthyUntil st then (Ready, st)
      else (Awaiting (\<not> rd_inFlight st), st\<lparr>rd_inFlight := True\<rparr>))"

text \<open>The probe settles: \<open>then\<close> extends the time, \<open>finally\<close> clears the flight, and the waiting calls settle.\<close>

definition CachedSigningReadiness_settle :: "int \<Rightarrow> int \<Rightarrow> (string, unit) result \<Rightarrow> readiness \<Rightarrow> readiness" where
  "CachedSigningReadiness_settle ttlMs now outcome st =
     (case outcome of
        Inr _ \<Rightarrow> \<lparr>rd_healthyUntil = now + ttlMs, rd_inFlight = False\<rparr>
      | Inl _ \<Rightarrow> st\<lparr>rd_inFlight := False\<rparr>)"

definition initial_readiness :: readiness where
  "initial_readiness = \<lparr>rd_healthyUntil = 0, rd_inFlight = False\<rparr>"

text \<open>What happens to the cache: a call at a time, or the probe in flight settling at a time.\<close>

datatype readiness_event = Called int | Settled int "(string, unit) result"

fun readiness_after :: "int \<Rightarrow> readiness_event \<Rightarrow> readiness \<Rightarrow> readiness" where
  "readiness_after ttlMs (Called now) st = snd (CachedSigningReadiness_assertReady now st)"
| "readiness_after ttlMs (Settled now outcome) st = CachedSigningReadiness_settle ttlMs now outcome st"

definition readiness_run :: "int \<Rightarrow> readiness_event list \<Rightarrow> readiness" where
  "readiness_run ttlMs events = fold (readiness_after ttlMs) events initial_readiness"

end
