(* ===== verification/Signing_Properties.thy ===== *)
theory Signing_Properties
  imports Signing Canonical_Properties
begin

text \<open>
  What holds of keys and signatures: a key id never leaves the key directory, a signature verifies
  whoever holds the key, what verifies is an artifact that was signed, and what the routes publish.
\<close>

section \<open>Paths\<close>

definition plain_segment :: "string \<Rightarrow> bool" where
  "plain_segment s = (s \<noteq> [] \<and> s \<noteq> ''.'' \<and> CHR ''/'' \<notin> set s)"

text \<open>Segments that resolve to themselves: \<open>..\<close> only in front, and only in a relative path.\<close>

definition resolved :: "bool \<Rightarrow> string list \<Rightarrow> bool" where
  "resolved absolute ss =
     (list_all plain_segment ss
      \<and> (\<exists>n us. ss = replicate n ''..'' @ us \<and> ''..'' \<notin> set us \<and> (absolute \<longrightarrow> n = 0)))"

lemma resolvedI:
  "list_all plain_segment (replicate n ''..'' @ us) \<Longrightarrow> ''..'' \<notin> set us \<Longrightarrow> (absolute \<Longrightarrow> n = 0) \<Longrightarrow>
     resolved absolute (replicate n ''..'' @ us)"
  unfolding resolved_def by blast

lemma resolvedE:
  assumes "resolved absolute ss"
  obtains n us where "ss = replicate n ''..'' @ us" "list_all plain_segment ss" "''..'' \<notin> set us" "absolute \<longrightarrow> n = 0"
  using assms unfolding resolved_def by blast

lemma split_on_append: "split_on c (xs @ c # ys) = split_on c xs @ split_on c ys"
  by (induction xs) (auto split: list.splits)

lemma split_on_plain: "c \<notin> set s \<Longrightarrow> split_on c s = [s]"
  by (induction s) auto

lemma split_on_segments: "s \<in> set (split_on c p) \<Longrightarrow> c \<notin> set s"
  by (induction p arbitrary: s) (auto split: if_splits list.splits)

lemma split_join: "list_all plain_segment (s # ss) \<Longrightarrow> split_on CHR ''/'' (join_slash (s # ss)) = s # ss"
proof (induction ss arbitrary: s)
  case Nil
  then show ?case by (simp add: plain_segment_def split_on_plain)
next
  case (Cons t ts)
  then show ?case
    using split_on_append[of "CHR ''/''" s "join_slash (t # ts)"]
    by (simp add: plain_segment_def split_on_plain)
qed

lemma resolve_snoc:
  "plain_segment f \<Longrightarrow> f \<noteq> ''..'' \<Longrightarrow>
     resolve_segments absolute before (ss @ [f]) = resolve_segments absolute before ss @ [f]"
  by (induction absolute before ss rule: resolve_segments.induct) (auto simp: plain_segment_def split: list.splits)

lemma resolved_rev_Cons:
  assumes "resolved absolute (rev before)" "plain_segment s" "s \<noteq> ''..''"
  shows "resolved absolute (rev (s # before))"
proof -
  obtain n us where u: "rev before = replicate n ''..'' @ us" "list_all plain_segment (rev before)"
    "''..'' \<notin> set us" "absolute \<longrightarrow> n = 0"
    by (rule resolvedE[OF assms(1)])
  have "resolved absolute (replicate n ''..'' @ (us @ [s]))"
    by (rule resolvedI) (use u assms in auto)
  then show ?thesis using u(1) by simp
qed

lemma resolved_rev_tl:
  assumes "resolved absolute (rev (d # ds))" "d \<noteq> ''..''"
  shows "resolved absolute (rev ds)"
proof -
  obtain n us where u: "rev (d # ds) = replicate n ''..'' @ us" "list_all plain_segment (rev (d # ds))"
    "''..'' \<notin> set us" "absolute \<longrightarrow> n = 0"
    by (rule resolvedE[OF assms(1)])
  show ?thesis
  proof (cases us rule: rev_cases)
    case Nil
    then have "d \<in> set (replicate n ''..'')" using u(1) by (metis append_Nil2 in_set_conv_decomp rev.simps(2))
    then show ?thesis using assms(2) by simp
  next
    case (snoc vs v)
    then have "rev ds = replicate n ''..'' @ vs" using u(1) by simp
    moreover have "resolved absolute (replicate n ''..'' @ vs)"
      by (rule resolvedI) (use u snoc in auto)
    ultimately show ?thesis by simp
  qed
qed

lemma resolved_rev_up:
  assumes "resolved absolute (rev (''..'' # ds))"
  shows "resolved absolute (rev (''..'' # ''..'' # ds))"
proof -
  obtain n us where u: "rev (''..'' # ds) = replicate n ''..'' @ us" "list_all plain_segment (rev (''..'' # ds))"
    "''..'' \<notin> set us" "absolute \<longrightarrow> n = 0"
    by (rule resolvedE[OF assms])
  have "us = []" using u(1,3) by (cases us rule: rev_cases) auto
  then have eq: "rev (''..'' # ds) = replicate n ''..''" using u(1) by simp
  then have "n \<noteq> 0" by (cases n) auto
  have "resolved absolute (replicate (Suc n) ''..'' @ [])"
    by (rule resolvedI) (use u(4) \<open>n \<noteq> 0\<close> in \<open>auto simp: plain_segment_def list_all_iff\<close>)
  moreover have "rev (''..'' # ''..'' # ds) = replicate (Suc n) ''..''"
    using eq by (simp flip: replicate_append_same)
  ultimately show ?thesis by simp
qed

lemma resolve_resolved:
  "resolved absolute (rev before) \<Longrightarrow> list_all (\<lambda>s. CHR ''/'' \<notin> set s) ss \<Longrightarrow>
     resolved absolute (resolve_segments absolute before ss)"
proof (induction absolute before ss rule: resolve_segments.induct)
  case (2 absolute before s ss)
  show ?case
  proof (cases "s = [] \<or> s = ''.''")
    case True
    with 2 show ?thesis by auto
  next
    case False
    show ?thesis
    proof (cases "s = ''..''")
      case True
      show ?thesis
      proof (cases before)
        case Nil
        have "resolved False [''..'']"
          using resolvedI[of 1 "[]" False] by (simp add: plain_segment_def)
        moreover have "resolved True []" using resolvedI[of 0 "[]" True] by simp
        ultimately show ?thesis using 2 True Nil by (cases absolute) auto
      next
        case (Cons d ds)
        then show ?thesis
          using 2 True resolved_rev_tl[of absolute d ds] resolved_rev_up[of absolute ds] by (cases "d = ''..''") auto
      qed
    next
      case up: False
      then have "resolved absolute (rev (s # before))"
        using "2.prems" False by (intro resolved_rev_Cons) (auto simp: plain_segment_def)
      then show ?thesis using "2.IH" "2.prems" False up by auto
    qed
  qed
qed simp

lemma resolve_ups: "resolve_segments False (replicate m ''..'') (replicate n ''..'' @ us) = resolve_segments False (replicate (m + n) ''..'') us"
proof (induction n arbitrary: m)
  case (Suc n)
  have "resolve_segments False (replicate m ''..'') (replicate (Suc n) ''..'' @ us)
      = resolve_segments False (replicate (Suc m) ''..'') (replicate n ''..'' @ us)"
    by (cases m) auto
  then show ?case using Suc[of "Suc m"] by simp
qed simp

lemma resolve_plain:
  "list_all plain_segment us \<Longrightarrow> ''..'' \<notin> set us \<Longrightarrow> resolve_segments absolute before us = rev before @ us"
  by (induction us arbitrary: before) (auto simp: plain_segment_def)

lemma resolve_idem:
  assumes "resolved absolute ss"
  shows "resolve_segments absolute [] ss = ss"
proof -
  obtain n us where u: "ss = replicate n ''..'' @ us" "list_all plain_segment ss" "''..'' \<notin> set us" "absolute \<longrightarrow> n = 0"
    by (rule resolvedE[OF assms])
  have p: "list_all plain_segment us" using u(1,2) by simp
  show ?thesis
    using u resolve_ups[of 0 n us] resolve_plain[OF p u(3)] by (cases absolute) auto
qed

text \<open>A directory joined with a file name resolves to the directory's segments and the name.\<close>

lemma segments_resolved: "resolved (starts_with p ''/'') (snd (path_segments p))"
  unfolding path_segments_def Let_def snd_conv
  by (rule resolve_resolved) (auto simp: resolved_def list_all_iff dest: split_on_segments)

lemma starts_slash: "starts_with (s @ t) ''/'' = (if s = [] then starts_with t ''/'' else hd s = CHR ''/'')"
  by (cases s) (auto simp: starts_with_def)

lemma join_slash_snoc: "join_slash (ss @ [f]) = (if ss = [] then f else join_slash ss @ CHR ''/'' # f)"
  by (induction ss rule: join_slash.induct) auto

lemma ends_slash_snoc:
  "plain_segment f \<Longrightarrow> \<not> ends_with (s @ f) ''/''"
  by (cases f rule: rev_cases) (auto simp: ends_with_def plain_segment_def)

lemma path_join_file:
  assumes f: "plain_segment f" "f \<noteq> ''..''"
  shows "path_segments (path_join d f) = (fst (path_segments d), snd (path_segments d) @ [f])"
proof -
  let ?p = "if d = [] then f else d @ CHR ''/'' # f" and ?abs = "starts_with d ''/''" and ?ss = "snd (path_segments d)"
  have f0: "f \<noteq> []" "hd f \<noteq> CHR ''/''" using f(1) by (cases f; auto simp: plain_segment_def)+
  have abs: "starts_with ?p ''/'' = ?abs" using f0 by (cases d; cases f) (auto simp: starts_with_def)
  have split: "split_on CHR ''/'' ?p = (if d = [] then [] else split_on CHR ''/'' d) @ [f]"
    using f(1) by (auto simp: split_on_append split_on_plain plain_segment_def)
  have segs: "path_segments ?p = (?abs, ?ss @ [f])"
    using resolve_snoc[OF f] abs split by (auto simp: path_segments_def Let_def)
  have res: "resolved ?abs (?ss @ [f])"
    using segments_resolved[of ?p] segs abs by simp
  then have plain: "list_all plain_segment (?ss @ [f])" by (auto simp: resolved_def)
  let ?t = "join_slash (?ss @ [f])"
  have t: "?t \<noteq> []" "hd ?t \<noteq> CHR ''/''" "split_on CHR ''/'' ?t = ?ss @ [f]"
  proof -
    obtain a as where as: "?ss @ [f] = a # as" by (cases "?ss @ [f]") auto
    then have a: "plain_segment a" using plain by simp
    then show "split_on CHR ''/'' ?t = ?ss @ [f]" using split_join[of a as] plain as by simp
    have "a \<noteq> []" "hd a \<noteq> CHR ''/''" using a by (cases a; auto simp: plain_segment_def)+
    moreover have "\<exists>r. ?t = a @ r" unfolding as by (cases as) auto
    ultimately show "?t \<noteq> []" "hd ?t \<noteq> CHR ''/''" by auto
  qed
  have nf: "\<not> ends_with ?p ''/''" using ends_slash_snoc[OF f(1), of "d @ ''/''"] ends_slash_snoc[OF f(1), of "[]"] by auto
  have norm: "path_join d f = (if ?abs then ''/'' else []) @ ?t"
    using f0 segs nf t(1) by (auto simp: path_join_def path_normalize_def Let_def)
  have st: "starts_with (path_join d f) ''/'' = ?abs"
    using norm t by (cases "join_slash (?ss @ [f])") (auto simp: starts_with_def)
  have sp: "split_on CHR ''/'' (path_join d f) = (if ?abs then [[]] else []) @ ?ss @ [f]"
    using norm t(3) by auto
  have "resolve_segments ?abs [] (split_on CHR ''/'' (path_join d f)) = ?ss @ [f]"
    using resolve_idem[OF res] sp by auto
  then show ?thesis using st by (simp add: path_segments_def Let_def)
qed

section \<open>Key files\<close>

lemma key_file_name:
  assumes "VALID_KEY_ID keyId" "suffix \<in> {''.private.pem'', ''.public.pem''}"
  shows "plain_segment (keyId @ suffix)" and "keyId @ suffix \<noteq> ''..''"
proof -
  have "\<not> key_id_char CHR ''/''" by (simp add: key_id_char_def is_word_char_def is_alnum_def is_digit_def)
  then have "CHR ''/'' \<notin> set keyId" using assms(1) by (auto simp: VALID_KEY_ID_def list_all_iff)
  then show "plain_segment (keyId @ suffix)" using assms(2) by (auto simp: plain_segment_def)
  show "keyId @ suffix \<noteq> ''..''"
    using assms(2) by (auto dest!: arg_cong[of _ _ length])
qed

lemma key_path_cases:
  assumes "key_path suffix kf keyId = Inr p"
  shows "VALID_KEY_ID keyId" and "p = path_join (keyDirectory kf) (keyId @ suffix)"
  using assms by (auto simp: key_path_def assertValidKeyId_def getKeyDirectory_def split: if_splits)

text \<open>
  C26: A key file is always a file directly in the key directory, named by the key id: no key id reaches
  another directory, two key ids never share a file, and a private key is never read as a public one.
\<close>

theorem key_files_stay_in_directory:
  assumes "key_path suffix kf keyId = Inr p" and "suffix \<in> {''.private.pem'', ''.public.pem''}"
  shows "path_segments p = (fst (path_segments (keyDirectory kf)), snd (path_segments (keyDirectory kf)) @ [keyId @ suffix])
    \<and> (\<forall>suffix' keyId'. key_path suffix' kf keyId' = Inr p \<longrightarrow> suffix' \<in> {''.private.pem'', ''.public.pem''} \<longrightarrow>
          keyId' = keyId \<and> suffix' = suffix)"
proof -
  have segs: "path_segments q = (fst (path_segments (keyDirectory kf)), snd (path_segments (keyDirectory kf)) @ [i @ x])"
    if "key_path x kf i = Inr q" "x \<in> {''.private.pem'', ''.public.pem''}" for i x q
    using key_path_cases[OF that(1)] key_file_name[OF _ that(2)] by (simp add: path_join_file)
  have "keyId' = keyId \<and> suffix' = suffix"
    if other: "key_path suffix' kf keyId' = Inr p" "suffix' \<in> {''.private.pem'', ''.public.pem''}" for suffix' keyId'
  proof -
    have "keyId' @ suffix' = keyId @ suffix" using segs[OF other] segs[OF assms] by simp
    then have "rev suffix' @ rev keyId' = rev suffix @ rev keyId" by (metis rev_append)
    then show ?thesis using assms(2) other(2) by auto
  qed
  then show ?thesis using segs[OF assms] by blast
qed

section \<open>Signing and checking\<close>

text \<open>The documented behaviour of \<open>node:crypto\<close>, the key files and KMS that a signature relies on.\<close>

definition key_pairs_match :: "'k node_crypto \<Rightarrow> 'k key_files \<Rightarrow> bool" where
  "key_pairs_match nc kf =
     (\<forall>keyId priv pub seed d. FileKeyProvider_getPrivateKey kf keyId = Inr priv \<longrightarrow>
        FileKeyProvider_getPublicKey kf keyId = Inr pub \<longrightarrow>
        ko_type pub = ko_type priv \<and> nc_verify nc d pub (nc_sign nc seed d priv))"

definition kms_signs :: "'k node_crypto \<Rightarrow> 'k kms_client \<Rightarrow> bool" where
  "kms_signs nc kms =
     (\<forall>keyId m s pub seed. kms_sign kms seed keyId m = Inr (Some s) \<longrightarrow> kms_getPublicKey kms keyId = Inr (Some pub) \<longrightarrow>
        ko_type pub = ''ed25519'' \<and> nc_verify nc m pub s)"

definition base64_decodes :: "'k node_crypto \<Rightarrow> bool" where
  "base64_decodes nc = (\<forall>b. nc_unbase64 nc (nc_base64 nc b) = b)"

lemma provider_sign_Inr:
  "provider_sign nc t seed d key = Inr v \<longleftrightarrow> ko_type key = t \<and> v = nc_base64 nc (nc_sign nc seed d key)"
  by (auto simp: provider_sign_def assertKeyType_def)

lemma ed25519_verify_True:
  "ed25519_verify nc d v pub = Inr True \<longleftrightarrow>
     ko_type pub = ''ed25519'' \<and> (nc_verify nc d pub (nc_unbase64 nc v)
       \<or> requiresCommitment d \<and> nc_verify nc (commitmentMessage nc d) pub (nc_unbase64 nc v))"
  by (simp add: ed25519_verify_def assertKeyType_def Let_def)

lemma local_signature_verifies:
  assumes laws: "key_pairs_match nc kf" "base64_decodes nc"
    and sign: "sn_sign (LocalFileSigner (Ed25519SignatureProvider nc) kf) seed keyId d = Inr v"
    and pub: "sn_getPublicKey (LocalFileSigner (Ed25519SignatureProvider nc) kf) keyId = Inr pub"
  shows "ed25519_verify nc d v pub = Inr True"
proof -
  obtain priv where priv: "FileKeyProvider_getPrivateKey kf keyId = Inr priv" "provider_sign nc ''ed25519'' seed d priv = Inr v"
    using sign by (auto simp: LocalFileSigner_def Ed25519SignatureProvider_def split: sum.splits)
  moreover have "FileKeyProvider_getPublicKey kf keyId = Inr pub" using pub by (simp add: LocalFileSigner_def)
  ultimately show ?thesis
    using laws unfolding key_pairs_match_def base64_decodes_def provider_sign_Inr ed25519_verify_True by metis
qed

lemma kms_signature_verifies:
  assumes laws: "kms_signs nc kms" "base64_decodes nc"
    and sign: "sn_sign (KmsSigner nc kms) seed keyId d = Inr v" and pub: "sn_getPublicKey (KmsSigner nc kms) keyId = Inr pub"
  shows "ed25519_verify nc d v pub = Inr True"
proof -
  let ?m = "if requiresCommitment d then commitmentMessage nc d else d" and ?id = "resolveKmsKeyId keyId"
  obtain s where s: "kms_sign kms seed ?id ?m = Inr (Some s)" "v = nc_base64 nc s"
    using sign by (auto simp: KmsSigner_def KmsSigner_sign_def Let_def split: sum.splits option.splits)
  have "kms_getPublicKey kms ?id = Inr (Some pub)"
    using pub by (auto simp: KmsSigner_def KmsSigner_getPublicKey_def split: sum.splits option.splits)
  then have "ko_type pub = ''ed25519''" "nc_verify nc ?m pub s"
    using laws(1) s(1) unfolding kms_signs_def by blast+
  then show ?thesis using laws(2) s(2) by (auto simp: ed25519_verify_True base64_decodes_def split: if_splits)
qed

lemma signer_signature_verifies:
  assumes "SignerBootstrap_create nc (Ed25519SignatureProvider nc) kf (Inr kms) provider = Inr signer"
    and "key_pairs_match nc kf" "kms_signs nc kms" "base64_decodes nc"
    and "sn_sign signer seed keyId d = Inr v" and "sn_getPublicKey signer keyId = Inr pub"
  shows "ed25519_verify nc d v pub = Inr True"
  using assms local_signature_verifies kms_signature_verifies
  by (auto simp: SignerBootstrap_create_def split: if_splits)

text \<open>
  C25: Whether the key is a file or in KMS, and however long the artifact is, a signature that is made
  verifies under the key the signer publishes; so the readiness probe fails only when signing or the
  key fails.
\<close>

theorem signatures_verify_whoever_signs:
  assumes "SignerBootstrap_create nc (Ed25519SignatureProvider nc) kf (Inr kms) provider = Inr signer"
    and "key_pairs_match nc kf" "kms_signs nc kms" "base64_decodes nc"
    and "sn_getPublicKey signer keyId = Inr pub"
  shows "(ArtifactSigner_signWithSigner pt seed artifact keyId signer = Inr v \<longrightarrow>
      SignatureVerifier_verify pt (Ed25519SignatureProvider nc) artifact v pub = Inr True)
    \<and> VerificationCrypto_probeSigning pt (Ed25519SignatureProvider nc) seed keyId signer
      = map_sum id (\<lambda>_. ()) (ArtifactSigner_signWithSigner pt seed probe_artifact keyId signer)"
proof -
  have ok: "SignatureVerifier_verify pt (Ed25519SignatureProvider nc) a v pub = Inr True"
    if "ArtifactSigner_signWithSigner pt seed a keyId signer = Inr v" for a v
    using that signer_signature_verifies[OF assms(1-4) _ assms(5)]
    by (auto simp: SignatureVerifier_verify_def ArtifactSigner_signWithSigner_def Ed25519SignatureProvider_def)
  moreover have "VerificationCrypto_probeSigning pt (Ed25519SignatureProvider nc) seed keyId signer
      = map_sum id (\<lambda>_. ()) (ArtifactSigner_signWithSigner pt seed probe_artifact keyId signer)"
    using ok[of probe_artifact] assms(5) by (auto simp: VerificationCrypto_probeSigning_def split: sum.split)
  ultimately show ?thesis by blast
qed

section \<open>What a signature binds\<close>

text \<open>The messages that are signed for an artifact: its bytes, or the commitment to them.\<close>

definition signed_messages :: "printing \<Rightarrow> 'k node_crypto \<Rightarrow> js_value set \<Rightarrow> bytes set" where
  "signed_messages pt nc artifacts =
     (\<Union>a\<in>artifacts. {canonical_bytes pt a} \<union>
        (if requiresCommitment (canonical_bytes pt a) then {commitmentMessage nc (canonical_bytes pt a)} else {}))"

text \<open>What a signer is asked to sign, whichever it is.\<close>

lemma signers_sign_messages:
  "KmsSigner_sign nc kms seed keyId (canonical_bytes pt a) = Inr v \<Longrightarrow>
     \<exists>m s. m \<in> signed_messages pt nc {a} \<and> kms_sign kms seed (resolveKmsKeyId keyId) m = Inr (Some s) \<and> v = nc_base64 nc s"
  by (auto simp: KmsSigner_sign_def signed_messages_def Let_def split: sum.splits option.splits if_splits)

text \<open>The printed numbers of an artifact, and artifacts every object of which has each key once.\<close>

definition well_printed :: "printing \<Rightarrow> js_value set \<Rightarrow> bool" where
  "well_printed pt artifacts =
     (\<forall>a\<in>artifacts. a \<noteq> Undefined \<and> distinct_keys (json_of (pt_date pt) a)
        \<and> (\<forall>b\<in>artifacts. prints_numbers (pt_number pt) (json_numbers (json_of (pt_date pt) a) @ json_numbers (json_of (pt_date pt) b))))"

text \<open>No canonical text starts like the commitment prefix, with a \<open>P\<close>.\<close>

lemma commitment_hd: "commitmentMessage nc d \<noteq> [] \<and> hd (commitmentMessage nc d) = 80"
  by (simp add: commitmentMessage_def COMMITMENT_PREFIX_def utf8_def utf8_char_def)

lemma utf8_head_eq:
  assumes "s \<noteq> []" "utf8 s = 80 # r"
  shows "hd s = CHR ''P''"
proof -
  obtain c t where s: "s = c # t" using assms(1) by (cases s) auto
  have "utf8_decode (utf8_char c @ concat (map utf8_char t)) = Some (c, concat (map utf8_char t))"
    by (rule utf8.dec_enc)
  moreover have "char_of (80::nat) = CHR ''P''" by code_simp
  then have "utf8_decode (80 # r) = Some (CHR ''P'', r)" by (simp add: utf8_decode_def)
  moreover have "utf8_char c @ concat (map utf8_char t) = 80 # r" using assms(2) s by (simp add: utf8_def)
  ultimately show ?thesis using s by simp
qed

lemma canonical_not_commitment:
  assumes "well_printed pt {a}"
  shows "canonical_bytes pt a \<noteq> commitmentMessage nc d"
proof
  assume eq: "canonical_bytes pt a = commitmentMessage nc d"
  let ?j = "json_canon (json_of (pt_date pt) a)" and ?s = "json_stringify (pt_number pt) (json_canon (json_of (pt_date pt) a))"
  have "prints_all (pt_number pt) (set (json_numbers (json_of (pt_date pt) a)) \<union> set (json_numbers (json_of (pt_date pt) a)))"
    using assms by (intro prints_numbers_all) (simp add: well_printed_def)
  then have kind: "?s \<noteq> [] \<and> char_kind (hd ?s) = json_kind ?j"
    by (rule stringify_kind) (simp add: json_numbers_canon)
  have "utf8 ?s = canonical_bytes pt a"
    using assms by (simp add: canonical_bytes_def serialize_eq well_printed_def)
  then obtain r where "utf8 ?s = 80 # r"
    using eq commitment_hd[of nc d] by (cases "commitmentMessage nc d") auto
  then have "hd ?s = CHR ''P''" using utf8_head_eq kind by blast
  moreover have "hd ?s \<noteq> CHR ''P''" if "char_kind (hd ?s) \<noteq> 6"
    using that by (auto simp: char_kind_def number_char_def is_digit_def)
  moreover have "hd ?s = CHR 0x7B" if "json_kind ?j = 6" using that by (cases ?j) (simp_all split: if_splits)
  ultimately show False using kind by auto
qed

text \<open>
  C24: Signatures made over commitments and over whole artifacts cannot be taken for one another: if a
  signature verifies for an artifact, an artifact with the same data was signed.  It takes that raw
  signatures are not forged and that SHA-512 does not collide on the artifacts concerned.
\<close>

theorem signature_binds_artifact:
  assumes unforged: "\<And>m s. nc_verify nc m pub s \<Longrightarrow> m \<in> signed_messages pt nc artifacts"
    and collision_free: "inj_on (nc_sha512 nc) (canonical_bytes pt ` insert artifact artifacts)"
    and printed: "well_printed pt (insert artifact artifacts)"
    and verified: "SignatureVerifier_verify pt (Ed25519SignatureProvider nc) artifact v pub = Inr True"
  shows "\<exists>a. a \<in> artifacts \<and> same_json (json_of (pt_date pt) artifact) (json_of (pt_date pt) a)"
proof -
  let ?b = "canonical_bytes pt"
  have one: "well_printed pt {a}" if "a \<in> insert artifact artifacts" for a
    using printed that by (auto simp: well_printed_def)
  have "?b artifact \<in> signed_messages pt nc artifacts
    \<or> requiresCommitment (?b artifact) \<and> commitmentMessage nc (?b artifact) \<in> signed_messages pt nc artifacts"
    using verified unforged by (auto simp: SignatureVerifier_verify_def Ed25519SignatureProvider_def ed25519_verify_True)
  then obtain a where a: "a \<in> artifacts" "?b artifact = ?b a"
  proof
    assume "?b artifact \<in> signed_messages pt nc artifacts"
    then show thesis
      using that canonical_not_commitment[OF one] by (auto simp: signed_messages_def split: if_splits)
  next
    assume "requiresCommitment (?b artifact) \<and> commitmentMessage nc (?b artifact) \<in> signed_messages pt nc artifacts"
    then obtain a where a: "a \<in> artifacts"
      "commitmentMessage nc (?b artifact) = ?b a \<or> commitmentMessage nc (?b artifact) = commitmentMessage nc (?b a)"
      by (auto simp: signed_messages_def split: if_splits)
    have sha: "nc_sha512 nc (?b artifact) = nc_sha512 nc (?b a)"
      using a canonical_not_commitment[OF one[of a], of nc "?b artifact"] by (simp add: commitmentMessage_def)
    then have "?b artifact = ?b a" using a(1) by (intro inj_onD[OF collision_free sha]) simp_all
    then show thesis using that a(1) by blast
  qed
  have "same_json (json_of (pt_date pt) artifact) (json_of (pt_date pt) a)"
    using a printed serialize_same_data[of artifact a "pt_date pt" "pt_number pt"]
    by (auto simp: well_printed_def canonical_bytes_def)
  then show ?thesis using a(1) by blast
qed

section \<open>Published keys\<close>

lemma gather_single:
  "gather_m (\<lambda>x. map_sum id (\<lambda>k. [k]) (f x)) xs = Inr ks \<longleftrightarrow> map f xs = map Inr ks"
proof (induction xs arbitrary: ks)
  case (Cons x xs)
  show ?case
  proof (cases "f x")
    case (Inr k)
    then have "gather_m (\<lambda>x. map_sum id (\<lambda>k. [k]) (f x)) (x # xs) = Inr ks \<longleftrightarrow>
        (\<exists>zs. gather_m (\<lambda>x. map_sum id (\<lambda>k. [k]) (f x)) xs = Inr zs \<and> ks = k # zs)"
      by (auto split: sum.split)
    then show ?thesis using Cons[unfolded id_def] Inr by (auto simp: Cons_eq_map_conv id_def)
  qed auto
qed auto

lemma publish_local:
  "publish_key kx (LocalFileSigner sp kf) i = Inr k \<longleftrightarrow>
     FileKeyProvider_hasKey kf i = Inr True
     \<and> (\<exists>key a. FileKeyProvider_getPublicKey kf i = Inr key \<and> algorithmFromKeyType (ko_type key) = Inr a
          \<and> k = \<lparr>pk_keyId = i, pk_algorithm = a, pk_pem = kx_pem kx key, pk_jwk = kx_jwk kx key\<rparr>)"
  by (auto simp: publish_key_def LocalFileSigner_def FileKeyProvider_getMetadata_def split: sum.splits if_splits)

definition usable_entry :: "'k key_export \<Rightarrow> 'k key_files \<Rightarrow> published_key \<Rightarrow> bool" where
  "usable_entry kx kf k =
     (kf_exists kf (path_join (keyDirectory kf) (pk_keyId k @ ''.private.pem''))
      \<and> (case FileKeyProvider_getPublicKey kf (pk_keyId k) of
           Inr key \<Rightarrow> pk_pem k = kx_pem kx key \<and> algorithmFromKeyType (ko_type key) = Inr (pk_algorithm k)
         | Inl _ \<Rightarrow> False))"

lemma published_usable:
  "publish_key kx (LocalFileSigner sp kf) i = Inr k \<Longrightarrow> pk_keyId k = i \<and> usable_entry kx kf k"
  using key_path_cases(2)[of "''.private.pem''" kf i]
  by (auto simp: publish_local usable_entry_def FileKeyProvider_hasKey_def split: sum.splits)

lemma published_list:
  "map (publish_key kx (LocalFileSigner sp kf)) ids = map Inr keys \<Longrightarrow>
     map pk_keyId keys = ids \<and> list_all (usable_entry kx kf) keys"
proof (induction ids arbitrary: keys)
  case (Cons i ids)
  then show ?case by (cases keys) (auto dest: published_usable)
qed simp

lemma ends_with_take: "ends_with e s \<Longrightarrow> take (length e - length s) e @ s = e"
  by (metis append_take_drop_id ends_with_def)

text \<open>
  C27: The key set publishes, for every public key file, the id with the key and the algorithm that
  checks of signatures use for that id, or it fails as a whole: one public key file without its
  private key file, as a retired key leaves behind, makes it fail.
\<close>

theorem key_set_complete_or_fails:
  assumes "kf_entries kf (keyDirectory kf) = Inr entries"
  shows "case KeysRouter_jwks kx (Inr (LocalFileSigner sp kf)) of
      Inr keys \<Rightarrow> map (\<lambda>k. pk_keyId k @ ''.public.pem'') keys = filter (\<lambda>e. ends_with e ''.public.pem'') entries
        \<and> list_all (usable_entry kx kf) keys
    | Inl e \<Rightarrow> \<exists>message. e = KeyPassed message"
proof (cases "KeysRouter_jwks kx (Inr (LocalFileSigner sp kf))")
  case (Inl e)
  then have "\<exists>message. e = KeyPassed message"
    by (auto simp: KeysRouter_jwks_def LocalFileSigner_def split: sum.splits)
  with Inl show ?thesis by simp
next
  case (Inr keys)
  let ?suffix = "''.public.pem''"
  let ?files = "filter (\<lambda>e. ends_with e ?suffix) entries"
  let ?ids = "map (\<lambda>e. take (length e - length ?suffix) e) ?files"
  have list: "sn_listKeys (LocalFileSigner sp kf) = Some (FileKeyProvider_listKeys kf)"
    by (simp add: LocalFileSigner_def)
  from Inr assms have "gather_m (\<lambda>i. map_sum id (\<lambda>k. [k]) (publish_key kx (LocalFileSigner sp kf) i)) ?ids = Inr keys"
  proof (cases "getKeyDirectory kf")
    case (Inl e)
    then show ?thesis using \<open>KeysRouter_jwks _ _ = Inr keys\<close> list by (simp add: KeysRouter_jwks_def FileKeyProvider_listKeys_def)
  next
    case (Inr d)
    then have "d = keyDirectory kf" by (auto simp: getKeyDirectory_def split: if_splits)
    then have "FileKeyProvider_listKeys kf = Inr ?ids" using Inr assms by (simp add: FileKeyProvider_listKeys_def)
    with list have "KeysRouter_jwks kx (Inr (LocalFileSigner sp kf)) =
        (case gather_m (\<lambda>i. map_sum id (\<lambda>k. [k]) (publish_key kx (LocalFileSigner sp kf) i)) ?ids of
           Inl e \<Rightarrow> Inl (KeyPassed e) | Inr ks \<Rightarrow> Inr ks)"
      unfolding KeysRouter_jwks_def by (simp only: sum.case option.case)
    with \<open>KeysRouter_jwks _ _ = Inr keys\<close> show ?thesis
      by (cases "gather_m (\<lambda>i. map_sum id (\<lambda>k. [k]) (publish_key kx (LocalFileSigner sp kf) i)) ?ids")
         (simp_all only: sum.case sum.inject sum.distinct)
  qed
  then have pub: "map (publish_key kx (LocalFileSigner sp kf)) ?ids = map Inr keys"
    by (rule gather_single[THEN iffD1])
  then have keys: "map pk_keyId keys = ?ids" and usable: "list_all (usable_entry kx kf) keys"
    using published_list by blast+
  have "map (\<lambda>i. i @ ?suffix) ?ids = ?files"
    unfolding map_map comp_def by (rule map_idI) (rule ends_with_take, simp)
  then have "map (\<lambda>k. pk_keyId k @ ?suffix) keys = ?files"
    unfolding keys[symmetric] map_map comp_def .
  with usable Inr show ?thesis by simp
qed

section \<open>The cached probe\<close>

text \<open>A call goes through without waiting only within the time to live of a probe that succeeded.\<close>

lemma healthy_by_probe:
  "rd_healthyUntil (readiness_run ttlMs events) = 0
   \<or> (\<exists>t. Settled t (Inr ()) \<in> set events \<and> rd_healthyUntil (readiness_run ttlMs events) = t + ttlMs)"
proof (induction events rule: rev_induct)
  case (snoc e events)
  then show ?case
    by (cases e) (auto simp: readiness_run_def CachedSigningReadiness_assertReady_def CachedSigningReadiness_settle_def
        split: sum.splits)
qed (simp add: readiness_run_def initial_readiness_def)

lemma ready_after_recent_probe:
  assumes "fst (CachedSigningReadiness_assertReady now (readiness_run ttlMs events)) = Ready" "0 \<le> now"
  shows "\<exists>t. Settled t (Inr ()) \<in> set events \<and> now < t + ttlMs"
  using assms healthy_by_probe[of ttlMs events] by (auto simp: CachedSigningReadiness_assertReady_def split: if_splits)

text \<open>A failure is not kept: the next call that is not within that time starts a probe.\<close>

lemma failure_probes_again:
  assumes "rd_healthyUntil st \<le> now"
  shows "fst (CachedSigningReadiness_assertReady now (CachedSigningReadiness_settle ttlMs t (Inl e) st)) = Awaiting True"
  using assms by (simp add: CachedSigningReadiness_assertReady_def CachedSigningReadiness_settle_def)

section \<open>Witnesses\<close>

definition sample_node :: "unit node_crypto" where
  "sample_node =
     \<lparr>nc_sign = (\<lambda>_ d _. d), nc_verify = (\<lambda>d _ s. s = d), nc_sha512 = id,
      nc_base64 = map (\<lambda>b. char_of (unat b)), nc_unbase64 = map (\<lambda>c. word_of_nat (of_char c))\<rparr>"

definition sample_key :: "unit key_object" where
  "sample_key = \<lparr>ko_type = ''ed25519'', ko_key = ()\<rparr>"

definition sample_key_files :: "unit key_files" where
  "sample_key_files =
     \<lparr>kf_keyDirectory = Some ''/srv/keys'',
      kf_exists = (\<lambda>p. p \<in> set [''/srv/keys'', ''/srv/keys/default.private.pem'', ''/srv/keys/default.public.pem'']),
      kf_entries = (\<lambda>_. Inr [''default.private.pem'', ''default.public.pem'']),
      kf_createPrivateKey = (\<lambda>_. Inr sample_key), kf_createPublicKey = (\<lambda>_. Inr sample_key)\<rparr>"

definition sample_kms :: "unit kms_client" where
  "sample_kms =
     \<lparr>kms_sign = (\<lambda>_ _ m. Inr (Some m)), kms_getPublicKey = (\<lambda>_. Inr (Some sample_key)),
      kms_describeKey = (\<lambda>_. Inr (Some ''ECC_NIST_EDWARDS25519'')), kms_error = (\<lambda>_. ''kms'')\<rparr>"

definition sample_printing :: printing where
  "sample_printing = \<lparr>pt_number = (\<lambda>_. ''0''), pt_date = (\<lambda>_. ''then'')\<rparr>"

lemma sample_path: "privateKeyPath sample_key_files ''default'' = Inr ''/srv/keys/default.private.pem''"
  by code_simp

theorem key_files_stay_in_directory_witness:
  "path_segments ''/srv/keys/default.private.pem'' = (True, [''srv'', ''keys'', ''default.private.pem''])"
proof -
  have "path_segments (keyDirectory sample_key_files) = (True, [''srv'', ''keys''])" by code_simp
  with key_files_stay_in_directory[OF sample_path] show ?thesis by simp
qed

lemma byte_mod: "unat (b :: 8 word) mod 256 = unat b"
  using unsigned_less[of b, where 'a = nat] by simp

lemma sample_laws: "key_pairs_match sample_node sample_key_files" "kms_signs sample_node sample_kms" "base64_decodes sample_node"
  by (auto simp: key_pairs_match_def kms_signs_def base64_decodes_def sample_node_def sample_kms_def sample_key_def
      sample_key_files_def FileKeyProvider_getPublicKey_def FileKeyProvider_getPrivateKey_def comp_def unsigned_of_nat
      byte_mod split: sum.splits if_splits intro!: map_idI)

theorem signatures_verify_whoever_signs_witness:
  "VerificationCrypto_probeSigning sample_printing (Ed25519SignatureProvider sample_node) 0 ''default''
     (KmsSigner sample_node sample_kms) = Inr ()"
proof -
  have "SignerBootstrap_create sample_node (Ed25519SignatureProvider sample_node) sample_key_files (Inr sample_kms) ''aws-kms''
      = Inr (KmsSigner sample_node sample_kms)"
    by (simp add: SignerBootstrap_create_def)
  moreover have "sn_getPublicKey (KmsSigner sample_node sample_kms) ''default'' = Inr sample_key"
    by (simp add: KmsSigner_def KmsSigner_getPublicKey_def sample_kms_def)
  ultimately show ?thesis
    using signatures_verify_whoever_signs[OF _ sample_laws, where provider = "''aws-kms''"
        and signer = "KmsSigner sample_node sample_kms" and keyId = "''default''" and pub = sample_key
        and pt = sample_printing and seed = 0]
    by (simp add: ArtifactSigner_signWithSigner_def KmsSigner_def KmsSigner_sign_def sample_kms_def Let_def)
qed

definition sample_binding_node :: "unit node_crypto" where
  "sample_binding_node = sample_node\<lparr>nc_verify := (\<lambda>d _ _. d = canonical_bytes sample_printing (Text ''pay''))\<rparr>"

theorem signature_binds_artifact_witness:
  "\<exists>a. a \<in> {Text ''pay''} \<and> same_json (json_of (pt_date sample_printing) (Text ''pay'')) (json_of (pt_date sample_printing) a)"
proof (rule signature_binds_artifact)
  show "SignatureVerifier_verify sample_printing (Ed25519SignatureProvider sample_binding_node) (Text ''pay'') [] sample_key = Inr True"
    by (simp add: SignatureVerifier_verify_def Ed25519SignatureProvider_def ed25519_verify_True sample_key_def sample_binding_node_def)
  show "inj_on (nc_sha512 sample_binding_node) (canonical_bytes sample_printing ` insert (Text ''pay'') {Text ''pay''})" by simp
  show "well_printed sample_printing (insert (Text ''pay'') {Text ''pay''})" by (simp add: well_printed_def prints_numbers_def)
qed (simp add: sample_binding_node_def signed_messages_def)

theorem key_set_complete_or_fails_witness:
  "case KeysRouter_jwks \<lparr>kx_pem = (\<lambda>_. ''pem''), kx_jwk = (\<lambda>_. None)\<rparr>
      (Inr (LocalFileSigner (Ed25519SignatureProvider sample_node) sample_key_files)) of
     Inr keys \<Rightarrow> map (\<lambda>k. pk_keyId k @ ''.public.pem'') keys = [''default.public.pem''] | Inl e \<Rightarrow> \<exists>message. e = KeyPassed message"
  using key_set_complete_or_fails[of sample_key_files "[''default.private.pem'', ''default.public.pem'']"
      "\<lparr>kx_pem = (\<lambda>_. ''pem''), kx_jwk = (\<lambda>_. None)\<rparr>" "Ed25519SignatureProvider sample_node"]
  by (auto simp: sample_key_files_def ends_with_def split: sum.splits)

end
