(* ===== verification/Spec2Isabelle.thy ===== *)
theory Spec2Isabelle
  imports Application_Properties Control_Properties Governance_Results External_Results Change_Repository Canonical_Properties Api_Properties Startup_Properties Audit_Properties Signing_Properties
begin

text \<open>
  Parmana: a verification development of its execution boundary.

  Parmana stands between an agent and the systems it acts on.  A business transaction is evaluated
  under a governed policy (\<open>packages/policy\<close>, \<open>packages/capability-registry\<close>,
  \<open>packages/approval\<close>), authorized by a signed envelope (\<open>packages/crypto\<close>,
  \<open>packages/envelope-verifier\<close>), released by a gateway (\<open>packages/execution-gateway\<close>) to a
  connector behind execution control (\<open>packages/execution-control\<close>), and recorded in a signed,
  chained trust record; \<open>packages/runtime\<close> drives it.  The development follows that path.  A
  definition carries the name of the function or of the class and method it translates, a record
  field the name of the source's field with a prefix of two letters.

  The theories.
  \<^item> \<open>Prelude\<close>: the JavaScript of the code. Values of type \<open>unknown\<close> are \<open>json\<close>, numbers are
    doubles as rationals with \<open>NaN\<close> and infinities, \<open>===\<close>, property access, \<open>String\<close>, \<open>trim\<close>,
    \<open>split\<close>, \<open>JSON.stringify\<close>; results that may throw are sums; a \<open>Map\<close> is an association list
    in insertion order.  Shared lemmas and the collection \<open>result_simps\<close>.
  \<^item> \<open>Policy_Engine\<close>, \<open>Policy_Validator\<close>, \<open>Policy_Safety\<close>, \<open>Policy_Properties\<close>: documents,
    \<open>PolicyEngine.ts\<close> and \<open>OperatorEvaluator.ts\<close>, \<open>PolicyValidator.ts\<close> with its conflict report.
    A validated policy always evaluates, reads declared signals only, decides by the first rule that
    holds, and approves only behind an approval signal, except through the recorded bypass.
  \<^item> \<open>Signal_Binding\<close>: \<open>SignalIntentBinder.ts\<close> and \<open>CapabilityPolicyBinding.ts\<close>.
  \<^item> \<open>Nonce_Store\<close>, \<open>Envelope\<close>, \<open>Envelope_Properties\<close>: the locale \<open>nonce_store\<close> and the in-memory
    store, which refines a set of live nonces; \<open>AuthorizationSigner.ts\<close>,
    \<open>AuthorizationVerifier.ts\<close>, \<open>EnvelopeVerifier.ts\<close>, \<open>KeyExpiry.ts\<close>; single use and round trip.
  \<^item> \<open>Approval\<close>, \<open>Approval_Properties\<close>: \<open>packages/approval\<close>, one artifact and the two-pass check of
    all approvals of a policy.
  \<^item> \<open>Gateway\<close>, \<open>Gateway_Properties\<close>: \<open>ExecutionGateway.ts\<close> with every check in the code's order.
  \<^item> \<open>Execution_Intents\<close>, \<open>Intent_Properties\<close>: the life cycle of a stored intent, the locale
    \<open>intent_repository\<close>, the service under interference, the finalizer.
  \<^item> \<open>Transactions\<close>, \<open>Runtime_Decision\<close>, \<open>Runtime\<close>, \<open>Runtime_Properties\<close>: the data of
    \<open>packages/shared\<close>, \<open>RuntimeEngine.ts\<close> from policy loading to release, refusal records,
    \<open>Runtime.ts\<close>; nothing runs unapproved, and nothing runs twice.
  \<^item> \<open>Session_Stores\<close>, \<open>Execution_Control\<close>, \<open>Control_Properties\<close>: the locale \<open>one_shot\<close> with the
    session store and the credential vault as interpretations, attestations, registry, policy,
    connectors and service; exact audit trail, no open credential, mediation by the connector policy.
  \<^item> \<open>Trust_Record\<close>, \<open>Application\<close>, \<open>Trust_Properties\<close>, \<open>Application_Properties\<close>: the execution
    chain, signing and hybrid signing, the record builder, the repository, verification and receipts,
    the pipeline stages and \<open>ExecutionTrustApplication.ts\<close>; the chain fixes its history, a returned
    record proves its execution, stored records stay verifiable, approved transactions complete.
  \<^item> \<open>Governance_Guards\<close>, \<open>Policy_Governance\<close>, \<open>Governance_Properties\<close>, \<open>Governance_Results\<close>:
    maker-checker changes of policies. The guards for human callers and step-up envelopes, the
    routes of \<open>pending-policy-changes.ts\<close>, approval records and the integrity check; a policy file
    changes only by two humans, and an approved one takes effect.
  \<^item> \<open>Connector_Changes\<close>, \<open>Change_Routes\<close>, \<open>Change_Properties\<close>, \<open>Change_Results\<close>,
    \<open>Change_Repository\<close>: the same discipline for approver keys and external connectors, with the
    repositories and routes of \<open>approval-issuers.ts\<close> and \<open>external-connectors.ts\<close>.
  \<^item> \<open>Endpoint_Address\<close>, \<open>Endpoint_Properties\<close>: the block list of \<open>externalEndpointAddress.ts\<close> on words of
    32 and 128 bits; the addresses that pass are exactly those outside the listed intervals.
  \<^item> \<open>Connector_SDK\<close>, \<open>External_Release\<close>, \<open>External_Properties\<close>, \<open>External_Results\<close>: connectors and their
    evidence, \<open>GatewayExternalAdapter.ts\<close> with its pinned transport as events of the connection, and
    the registry that builds connectors of registrations; from registration to release.
  \<^item> \<open>Canonical\<close>, \<open>Canonical_Properties\<close>: \<open>CanonicalSerializer.ts\<close> on values, \<open>JSON.stringify\<close> and UTF-8, and
    the serializer of the Python SDK; the bytes determine the data, by decoders that interpret the
    locale \<open>prefix_code\<close>.
  \<^item> \<open>Access_Control\<close>, \<open>Api_Routes\<close>, \<open>Api_Properties\<close>: API keys, the authentication middleware, the
    checks of principal, capability and ownership, and the routes of transactions, trust records,
    verification, receipts and intents; what is executed was granted to its caller, in the audit
    trail, and what is read belongs to the reader.
  \<^item> \<open>Configuration\<close>, \<open>Startup\<close>, \<open>Startup_Properties\<close>: the parsers of the environment, \<open>loadConfig\<close>, and
    the checks \<open>server.ts\<close> runs before it listens; a production server enforces what the rest
    relies on.
  \<^item> \<open>Audit_Chain\<close>, \<open>Audit_Properties\<close>: the signed, chained audit tables of \<open>SupabaseCallerAuditSink.ts\<close> and
    \<open>SupabaseExecutionAuditSink.ts\<close> and \<open>CallerAuditChainVerifier.ts\<close>; the locale \<open>chain_property\<close> carries
    a property of a chain through every interleaving of writers. Every chain verifies, and what
    verifies is the oldest part of a recorded chain.
  \<^item> \<open>Signing\<close>, \<open>Signing_Properties\<close>: the signature providers, the commitment to large messages, key files,
    KMS, the choice of the signer, the readiness probe with its cache, and \<open>routes/keys.ts\<close>; key ids stay in
    the key directory, signatures verify whoever signs, and what verifies was signed.
  \<^item> this theory: the gateway as the execution system of the application, and complete mediation
    from the transaction to the connector.

  State and steps.  An operation takes the state it reads and returns the state it leaves, also when
  it throws.  Where the code awaits between reading and writing a store that others write, the
  other requests are a function of the store, arbitrary up to the operations they may perform
  (\<open>ci_others\<close>, \<open>ai_otherTransactions\<close>, the arguments of \<open>ExecutionIntentService_resolve\<close>).  Sequences of
  operations are the relations \<open>intent_step\<close>, \<open>session_step\<close>, \<open>lease_step\<close>, \<open>control_calls\<close>,
  \<open>app_step\<close>, \<open>change_step\<close>, \<open>aware_reach\<close>, \<open>api_step\<close> and
  \<open>sink_step\<close>, whose invariants are proved by rule induction.  The clock and the random identifiers
  are arguments.

  Parameters.  Hashes and signatures, \<open>Date.parse\<close> and \<open>toISOString\<close>, \<open>RegExp\<close>, the decimal form
  of a double, the executors of connectors and policy lookups are functions the definitions take; what a
  theorem needs of them (a signer whose signatures the checker accepts, hashes that do not collide
  on given values, dates that parse back) is one of its hypotheses, and its witness instantiates them.

  Bounds.  Every recursion is structural or has a measure, so no fuel is used.  The pattern
  limit, the lifetimes, \<open>PURGE_THRESHOLD\<close>, the limits of endpoint answers and the range of \<open>Date\<close> are
  those of the code.  Integers of the code are doubles in ranges where they are exact, and \<open>int\<close> or
  \<open>nat\<close> here; addresses and encoded bytes are words.  A text is a list of characters below 256.

  Not modelled: the Supabase and Postgres repositories except the audit sinks, the HTTP clients of the
  built-in connectors, the error handler and the rate limits, the routes that serve documents and
  health, replay, the governance pages, the client SDKs, scripts and examples.  They are input and
  output around the modelled components; the repositories keep the contracts of their in-memory
  versions, which are modelled.  Logging is left out, and runtime hooks are the empty list the factory
  passes.
\<close>

section \<open>The whole system\<close>

text \<open>
  The gateway with execution control behind it, as the execution system of the application.
  \<open>toError\<close> is the class of error the runtime sees.
\<close>

definition gateway_system ::
  "date_parse \<Rightarrow> 'key signature_check \<Rightarrow> hashes \<Rightarrow> ('key, 'v) gateway \<Rightarrow> int \<Rightarrow> int \<Rightarrow> string
   \<Rightarrow> (string \<Rightarrow> 'a) option \<Rightarrow> 'a
   \<Rightarrow> (execution_release \<Rightarrow> 'a \<Rightarrow> 'st \<Rightarrow> (control_error, execution_result) result \<times> 'st)
   \<Rightarrow> (controlled_error \<Rightarrow> release_error) \<Rightarrow> ((memory_nonces \<times> 'v) \<times> 'st) execution_system" where
  "gateway_system dp sigv h g now clock timestamp mint configured service toError request s =
     (case ExecutionGateway_executeControlled
             (ExecutionGateway_execute dp sigv h (MemoryNonceStore_checkAndRecord dp) g request now clock (fst s))
             timestamp mint configured service (snd s) of
        (Inl e, g', st') \<Rightarrow> (Inl (toError e), g', st') | (Inr r, g', st') \<Rightarrow> (Inr r, g', st'))"

lemma transition_system:
  "store_transition k now x draft w = (q, w') \<Longrightarrow> aw_system w' = aw_system w"
  by (auto simp: store_transition_def split: sum.splits)

text \<open>The stages reach the execution system with one request at most.\<close>

lemma run_execution_system:
  assumes "run_execution k inputs system t a x w = (q, y, w')"
  shows "aw_system w' = aw_system w \<or> (\<exists>request. ExecutionRequestBuilder_build t a = Inr request
     \<and> aw_system w' = snd (system request (aw_system w)))"
proof (cases "ExecutionRequestBuilder_build t a")
  case (Inl e)
  with assms show ?thesis by (auto simp: run_execution_def)
next
  case req: (Inr request)
  obtain p s' where p: "system request (aw_system w) = (p, s')" by (rule prod.exhaust)
  have "aw_system w' = s'" using assms req p
    by (auto simp: run_execution_def ExecutionService_attachEvidence_def ExecutionService_complete_def
        split: sum.splits prod.splits dest!: transition_system)
  with req p show ?thesis by auto
qed

lemma component_system:
  assumes "ExecutionComponent_execute k inputs system c w = (q, w')"
  shows "aw_system w' = aw_system w \<or> (\<exists>a request. cx_authorization c = Some a
     \<and> ExecutionRequestBuilder_build (cx_transaction c) a = Inr request
     \<and> aw_system w' = snd (system request (aw_system w)))"
proof (cases "cx_authorization c")
  case None
  with assms show ?thesis by (auto simp: ExecutionComponent_execute_def)
next
  case (Some a)
  obtain p w1 where p: "ExecutionService_create k inputs (bt_businessTransactionId (cx_transaction c)) (cx_decision c)
      SYNC (Some [(''authorizationId'', JStr (ap_authorizationId (sa_payload a)))]) w = (p, w1)" by (rule prod.exhaust)
  then have s: "aw_system w1 = aw_system w"
    by (auto simp: ExecutionService_create_def Let_def split: option.splits sum.splits)
  show ?thesis
  proof (cases p)
    case (Inl e)
    with assms Some p s show ?thesis by (auto simp: ExecutionComponent_execute_def)
  next
    case (Inr x)
    obtain z y w2 where z: "run_execution k inputs system (cx_transaction c) a x w1 = (z, y, w2)"
      by (metis prod.exhaust)
    have "aw_system w' = aw_system w2" using assms Some p Inr z
      by (auto simp: ExecutionComponent_execute_def ExecutionService_fail_def split: sum.splits prod.splits
          dest!: transition_system)
    with run_execution_system[OF z] s Some show ?thesis by auto
  qed
qed

lemma factory_truncate [simp]:
  "decision_engine.truncate (RuntimeFactory_create k inputs system e) = decision_engine.truncate e"
  by (simp add: decision_engine.truncate_def RuntimeFactory_create_def)

text \<open>What the runtime has established when the execution system is reached.\<close>

lemma engine_system:
  assumes "RuntimeEngine_execute (RuntimeFactory_create k inputs system e) (ai_call inputs) t st = (q, st')"
    and "aw_system (rs_world st') \<noteq> aw_system (rs_world st)"
  shows "\<exists>pol d v' a request. approval_grounds (decision_engine.truncate e) t pol d (rs_verifier st) v'
     \<and> authorizes (re_hashes e) t pol (sa_payload a)
     \<and> xr_authorization request = a \<and> xr_signals request = bt_signals t
     \<and> toExecutableContent (xr_businessTransactionId request) (xr_action request) (xr_target request)
         (xr_parameters request) = Inr (transaction_content t)
     \<and> aw_system (rs_world st') = snd (system request (aw_system (rs_world st)))"
  using assms(1)
proof (cases rule: execute_cases)
  case stopped
  with assms(2) show ?thesis by simp
next
  case (released pv c is' v')
  let ?e = "RuntimeFactory_create k inputs system e" and ?in = "ai_call inputs"
  from released(1) have d: "RuntimeEngine_decide (decision_engine.truncate ?e) t (rs_verifier st) = (Inr pv, v')"
    and au: "RuntimeEngine_authorize ?e ?in t pv (DecisionBuilder_build (ci_decisionId ?in) (ci_evaluatedAt ?in) t
       (pv_decision pv)) = Inr c" by (simp_all add: released_context_def)
  from d have h: "pv_policyContentHash pv = h_policy (re_hashes ?e) (pv_policy pv)"
    by (rule decide_Inr) (simp add: decision_engine.truncate_def)
  from au h obtain a where a: "cx_authorization c = Some a" "authorizes (re_hashes e) t (pv_policy pv) (sa_payload a)"
    "context_txId c = bt_businessTransactionId t" "bt_intent (cx_transaction c) = bt_intent t"
    "bt_signals (cx_transaction c) = bt_signals t" by (rule authorize_Inr) auto
  obtain p w where p: "RuntimePipeline_execute (rt_pipeline ?e) c (rs_world st) = (p, w)" by (rule prod.exhaust)
  with released(2) have w: "rs_world st' = w \<or> rs_world st' = rs_world st"
    by (auto simp: RuntimeEngine_release_def Let_def split: sum.splits prod.splits)
  obtain p2 w2 where p2: "ExecutionComponent_execute k (ai_execution inputs) system c (rs_world st) = (p2, w2)"
    by (rule prod.exhaust)
  with p have "w = w2 \<or> w = rs_world st"
    by (auto simp: RuntimeFactory_create_def TrustChainValidationComponent_execute_def split: sum.splits if_splits)
  with w assms(2) have w2: "rs_world st' = w2" "aw_system w2 \<noteq> aw_system (rs_world st)" by auto
  with component_system[OF p2] a(1) obtain request where
    q: "ExecutionRequestBuilder_build (cx_transaction c) a = Inr request"
    "aw_system w2 = snd (system request (aw_system (rs_world st)))" by auto
  from q(1) a(3-5) have "xr_authorization request = a \<and> xr_signals request = bt_signals t
     \<and> toExecutableContent (xr_businessTransactionId request) (xr_action request) (xr_target request)
         (xr_parameters request) = Inr (transaction_content t)"
    by (auto simp: ExecutionRequestBuilder_build_def toExecutableContent_def transaction_content_def
        split: sum.splits if_splits)
  with released_grounds[OF released(1), simplified] a(2) q(2) w2(1) show ?thesis
    by blast
qed


lemma settle_system:
  "rs_world st' = (rs_world st1)\<lparr>aw_records := s'\<rparr> \<Longrightarrow> aw_system (rs_world st') = aw_system (rs_world st1)"
  by simp

lemma application_system:
  assumes "ExecutionTrustApplication_execute k system e inputs t st = (q, st')"
    and "aw_system (rs_world st') \<noteq> aw_system (rs_world st)"
  shows "map_of (aw_transactions (rs_world st)) (bt_businessTransactionId t) = None
     \<and> BusinessTransactionValidator_validate t = Inr ()
     \<and> (\<exists>pol d v' a request. approval_grounds (decision_engine.truncate e) t pol d (rs_verifier st) v'
     \<and> authorizes (re_hashes e) t pol (sa_payload a)
     \<and> xr_authorization request = a \<and> xr_signals request = bt_signals t
     \<and> toExecutableContent (xr_businessTransactionId request) (xr_action request) (xr_target request)
         (xr_parameters request) = Inr (transaction_content t)
     \<and> aw_system (rs_world st') = snd (system request (aw_system (rs_world st))))"
  using assms(1)
proof (cases rule: application_cases)
  case (rejected ts x)
  with assms(2) show ?thesis by simp
next
  case (failed ts x)
  let ?st = "st\<lparr>rs_world := (rs_world st)\<lparr>aw_transactions := ts\<rparr>\<rparr>"
  from failed(2) have x: "RuntimeEngine_execute (RuntimeFactory_create k inputs system e) (ai_call inputs) t ?st
      = (Inl x, st')"
    by (auto simp: Runtime_execute_def store_record_def MemoryTrustRecords_create_def split: prod.splits sum.splits)
  from engine_system[OF this] assms(2) failed(1)[unfolded accept_Inr] show ?thesis
    by (simp del: split_paired_Ex)
next
  case (ran ts c r st1 s')
  from engine_system[OF ran(2)] assms(2) settle_system[OF ran(4)] ran(1)[unfolded accept_Inr] show ?thesis
    by (simp del: split_paired_Ex)
qed

text \<open>Once a transaction is accepted and its intent stored, the execution system is called with it.\<close>

lemma run_execution_reaches:
  assumes "run_execution k inputs system t a x w = (q, y, w')" "ExecutionRequestBuilder_build t a = Inr request"
  shows "aw_system w' = snd (system request (aw_system w))"
proof -
  obtain p s' where p: "system request (aw_system w) = (p, s')" by (rule prod.exhaust)
  then show ?thesis using assms
    by (auto simp: run_execution_def ExecutionService_attachEvidence_def ExecutionService_complete_def
        split: sum.splits prod.splits dest!: transition_system)
qed

lemma component_reaches:
  assumes "signers_sign k" "cx_authorization c = Some a"
    and "ExecutionRequestBuilder_build (cx_transaction c) a = Inr request"
    and "map_of (aw_transactions w) (bt_businessTransactionId (cx_transaction c)) \<noteq> None"
    and "ExecutionComponent_execute k inputs system c w = (q, w')"
  shows "aw_system w' = snd (system request (aw_system w))"
proof -
  from create_total[OF assms(1,4)] obtain x w1 where x:
    "ExecutionService_create k inputs (bt_businessTransactionId (cx_transaction c)) (cx_decision c) SYNC
       (Some [(''authorizationId'', JStr (ap_authorizationId (sa_payload a)))]) w = (Inr x, w1)" by blast
  then have s: "aw_system w1 = aw_system w"
    by (auto simp: ExecutionService_create_def Let_def split: option.splits sum.splits)
  obtain z y w2 where z: "run_execution k inputs system (cx_transaction c) a x w1 = (z, y, w2)"
    by (metis prod.exhaust)
  have "aw_system w' = aw_system w2" using assms(2,5) x z
    by (auto simp: ExecutionComponent_execute_def ExecutionService_fail_def split: sum.splits prod.splits
        dest!: transition_system)
  with run_execution_reaches[OF z assms(3)] s show ?thesis by simp
qed

lemma application_reaches:
  assumes "BusinessTransactionService_accept (ai_otherTransactions inputs) t (aw_transactions (rs_world st)) = (Inr t, ts)"
    and "released_context (RuntimeFactory_create k inputs system e) (ai_call inputs) t
           (st\<lparr>rs_world := (rs_world st)\<lparr>aw_transactions := ts\<rparr>\<rparr>) pv c is' v'"
    and "signers_sign k" "cx_authorization c = Some a" "context_txId c = bt_businessTransactionId t"
    and "ExecutionRequestBuilder_build (cx_transaction c) a = Inr request"
  shows "aw_system (rs_world (snd (ExecutionTrustApplication_execute k system e inputs t st)))
    = snd (system request (aw_system (rs_world st)))"
proof -
  let ?e = "RuntimeFactory_create k inputs system e" and ?w = "(rs_world st)\<lparr>aw_transactions := ts\<rparr>"
  obtain q w' where w': "ExecutionComponent_execute k (ai_execution inputs) system c ?w = (q, w')" by (rule prod.exhaust)
  have "map_of ts (bt_businessTransactionId t) \<noteq> None" using assms(1) unfolding accept_Inr by auto
  with component_reaches[OF assms(3,4,6) _ w'] assms(5)
  have sys: "aw_system w' = snd (system request (aw_system (rs_world st)))" by simp
  from assms(2) have d: "RuntimeEngine_prepareIntent ?e (ai_call inputs) c (rs_intents st) = (Inr (), is')"
    "rt_readiness ?e = None \<or> rt_readiness ?e = Some (Inr ())" "dn_outcome (cx_decision c) = APPROVED"
    by (auto simp: released_context_def RuntimeEngine_authorize_def Let_def split: sum.splits)
  have p: "RuntimePipeline_execute (rt_pipeline ?e) c ?w = (q, w')" using w' d(3)
    by (cases q) (simp_all add: RuntimeFactory_create_def TrustChainValidationComponent_execute_def)
  obtain z st1 where z: "RuntimeEngine_execute ?e (ai_call inputs) t (st\<lparr>rs_world := ?w\<rparr>) = (z, st1)"
    by (rule prod.exhaust)
  have "rs_world st1 = w'" using z[unfolded released_runs[OF assms(2)]] d(1,2) p
    by (auto simp: RuntimeEngine_release_def Let_def split: sum.splits)
  then show ?thesis using sys assms(1) z
    by (auto simp: ExecutionTrustApplication_execute_def Runtime_execute_def store_record_def
        MemoryTrustRecords_create_def split: prod.splits sum.splits)
qed

section \<open>A sample system\<close>

definition sample_system :: "((memory_nonces \<times> memory_nonces) \<times> (string, nat) control_state) execution_system" where
  "sample_system = gateway_system tally_parse sample_sigv sample_hashes sample_gateway 5 6 ''now''
     (Some sample_attestation) JNull
     (SessionCredentialExecutionControl_execute sample_attestation_check sample_token sample_gateway_identity
        (ExecutionControlService_execute sample_service) (sample_times ''s1'' ''c1''))
     (\<lambda>e. OtherError ''refused'')"

definition sample_system_state ::
  "(memory_nonces, ((memory_nonces \<times> memory_nonces) \<times> (string, nat) control_state) app_world) runtime_state" where
  "sample_system_state = \<lparr>rs_verifier = [], rs_refusals = [], rs_events = [], rs_intents = [],
     rs_world = \<lparr>aw_transactions = [], aw_records = [], aw_system = (([], []), sample_control_state)\<rparr>\<rparr>"

definition sample_system_run ::
  "(app_error, trust_record) result
   \<times> (memory_nonces, ((memory_nonces \<times> memory_nonces) \<times> (string, nat) control_state) app_world) runtime_state" where
  "sample_system_run = ExecutionTrustApplication_execute sample_crypto sample_system sample_app_engine
     sample_app_inputs sample_transaction sample_system_state"

lemma sample_system_served:
  "cs_world (snd (snd (sample_system (exact_request (sample_signed sample_hashes)) (([], []), sample_control_state)))) = 1"
  by code_simp

lemma sample_system_runs: "cs_world (snd (aw_system (rs_world (snd sample_system_run)))) = 1"
proof -
  let ?st = "sample_system_state\<lparr>rs_world := (rs_world sample_system_state)\<lparr>aw_transactions := [(''b1'', sample_transaction)]\<rparr>\<rparr>"
  have st: "rs_verifier ?st = []" "rs_intents ?st = []" "aw_transactions (rs_world sample_system_state) = []"
    "aw_system (rs_world sample_system_state) = (([], []), sample_control_state)"
    "bt_businessTransactionId sample_transaction = ''b1''"
    by (simp_all add: sample_system_state_def sample_transaction_def)
  from sample_released[OF st(1,2), of sample_system] obtain pv c is' v' where r:
    "released_context (RuntimeFactory_create sample_crypto sample_app_inputs sample_system sample_app_engine)
       (ai_call sample_app_inputs) sample_transaction ?st pv c is' v'"
    "cx_authorization c = Some (sample_signed sample_hashes)" "context_txId c = ''b1''"
    "ExecutionRequestBuilder_build (cx_transaction c) (sample_signed sample_hashes)
       = Inr (exact_request (sample_signed sample_hashes))" by blast
  have "BusinessTransactionService_accept (ai_otherTransactions sample_app_inputs) sample_transaction
      (aw_transactions (rs_world sample_system_state)) = (Inr sample_transaction, [(''b1'', sample_transaction)])"
    using sample_app_accepts unfolding st(3) by (simp add: sample_app_state_def)
  from application_reaches[OF this r(1) sample_crypto_signs(1) r(2) _ r(4)] r(3) st(4,5) sample_system_served
  show ?thesis by (simp add: sample_system_run_def)
qed

section \<open>The end-to-end property\<close>

text \<open>
  C1: complete mediation, from the business transaction to the connector.  Let the application run
  over a gateway built without \<open>allowUnverifiedPolicy\<close> and the execution control behind it.  If a
  call changes anything outside, then the transaction is valid and new; the policy it names was
  stored, valid, approved by governance, bound to the action, and approved these signals with a
  clean state check; the released content is exactly the content of the transaction, and the
  authorization binds it, the policy and the signals; the gateway found the policy current and
  approved under the signed hash and the nonce new; and the release side admitted an attested,
  registered, trusted connector for the action, within the lifetime of session and authorization,
  whose executor alone made the change.  This holds whether the call returned a record or failed.
\<close>

theorem end_to_end_mediation:
  assumes "ExecutionTrustApplication_execute k (gateway_system dp sigv h g now clock timestamp mint configured
      (SessionCredentialExecutionControl_execute check a identity (ExecutionControlService_execute svc) control)
      toError) e inputs t st = (q, st')"
    and "aw_system (rs_world st) = ((nonces, v), cst)" and "aw_system (rs_world st') = (gst', cst')"
    and "cs_world cst' \<noteq> cs_world cst"
    and "ExecutionGateway_create envl repo pav ssv allow conn ctl = Inr g" and "allow \<noteq> Some True"
    and "control_wired svc connectors"
  shows "BusinessTransactionValidator_validate t = Inr ()
     \<and> map_of (aw_transactions (rs_world st)) (bt_businessTransactionId t) = None
     \<and> (\<exists>pol d v' auth pol' approvals authentication opts.
          approval_grounds (decision_engine.truncate e) t pol d (rs_verifier st) v'
          \<and> authorizes (re_hashes e) t pol (sa_payload auth)
          \<and> h_content h (transaction_content t) = ap_businessTransactionHash (sa_payload auth)
          \<and> policy_bound h g (sa_payload auth) pol'
          \<and> map_of nonces (ap_nonce (sa_payload auth)) = None
          \<and> control_acted check a svc connectors control
               (ExecutionGateway_release timestamp (transaction_content t) auth approvals)
               authentication opts cst (cs_world cst'))"
proof -
  let ?ctl = "SessionCredentialExecutionControl_execute check a identity (ExecutionControlService_execute svc) control"
  let ?sys = "gateway_system dp sigv h g now clock timestamp mint configured ?ctl toError"
  from assms(2-4) have "aw_system (rs_world st') \<noteq> aw_system (rs_world st)" by auto
  from application_system[OF assms(1) this] obtain pol d v' auth request where
    f: "map_of (aw_transactions (rs_world st)) (bt_businessTransactionId t) = None"
    "BusinessTransactionValidator_validate t = Inr ()"
    and r: "approval_grounds (decision_engine.truncate e) t pol d (rs_verifier st) v'"
    "authorizes (re_hashes e) t pol (sa_payload auth)" "xr_authorization request = auth"
    "toExecutableContent (xr_businessTransactionId request) (xr_action request) (xr_target request)
         (xr_parameters request) = Inr (transaction_content t)"
    "aw_system (rs_world st') = snd (?sys request (aw_system (rs_world st)))" by blast
  obtain z g2 c2 where x: "ExecutionGateway_executeControlled
      (ExecutionGateway_execute dp sigv h (MemoryNonceStore_checkAndRecord dp) g request now clock (nonces, v))
      timestamp mint configured ?ctl cst = (z, g2, c2)" by (metis prod.exhaust)
  with r(5) assms(2,3) have "c2 = cst'" by (auto simp: gateway_system_def split: sum.splits)
  from x[unfolded this] show ?thesis
  proof (cases rule: executeControlled_cases)
    case refused
    with assms(4) show ?thesis by simp
  next
    case (served content authorization approvals authentication y)
    from release_sound[OF assms(5,6) served(1)] r(3,4) obtain pol' where
      g: "content = transaction_content t" "h_content h content = ap_businessTransactionHash (sa_payload auth)"
      "policy_bound h g (sa_payload auth) pol'" "map_of nonces (ap_nonce (sa_payload auth)) = None" by auto
    from control_world[OF served(2) assms(4,7)] released_authorization[OF served(1)] r(3) g(1)
    obtain opts where "control_acted check a svc connectors control
        (ExecutionGateway_release timestamp (transaction_content t) auth approvals) authentication opts cst (cs_world cst')"
      by auto
    with f r(1,2) g show ?thesis by blast
  qed
qed


theorem end_to_end_mediation_witness:
  "\<exists>auth approvals authentication opts. control_acted sample_attestation_check sample_token sample_service
     [sample_options] (sample_times ''s1'' ''c1'')
     (ExecutionGateway_release ''now'' (transaction_content sample_transaction) auth approvals)
     authentication opts sample_control_state 1"
proof -
  obtain q st' where x: "sample_system_run = (q, st')" by (rule prod.exhaust)
  obtain gst' cst' where g: "aw_system (rs_world st') = (gst', cst')" by (rule prod.exhaust)
  from sample_system_runs[unfolded x snd_conv g] have w: "cs_world cst' = 1" .
  have s: "aw_system (rs_world sample_system_state) = (([], []), sample_control_state)"
    by (simp add: sample_system_state_def)
  from w have "cs_world cst' \<noteq> cs_world sample_control_state" by (simp add: sample_control_state_def)
  from end_to_end_mediation[OF x[unfolded sample_system_run_def sample_system_def] s g this
      sample_gateway_created option.distinct(1) sample_wired] w show ?thesis by metis
qed

end
